(* ===== verification/Prelude.thy ===== *)
theory Prelude
  imports Complex_Main "HOL-Library.Sublist"
begin

text \<open>
  The shared base of the development: the exceptions a NestJS handler can raise, the
  result type that carries them, JavaScript's truthiness and the string operations the
  services use, and keyed tables, the model of a database table with a primary key.

  Two interfaces are stated as locales. \<open>keyed_table\<close> is the contract of a table that
  is read by key and changed row by row; every table of the model that a handler updates
  by primary key interprets it. \<open>guarded_system\<close> is the contract of a family of
  operations that either fail or return the next state and that keep an invariant.
\<close>

section \<open>Collections\<close>

named_theorems handler_defs \<open>definitions of the request handlers\<close>
named_theorems guard_defs \<open>definitions of the guards the handlers call first\<close>
named_theorems row_defs \<open>definitions of row updates\<close>

section \<open>Exceptions and results\<close>

text \<open>
  The exceptions of \<^verbatim>\<open>@nestjs/common\<close> the services throw, with their message, and
  the errors Prisma raises when an update names no row (code P2025) and when a created row
  repeats a unique key (code P2002), a value no column holds, a text that is not a decimal, and a constraint that a migration
  adds, by its name.
\<close>

datatype error =
    BadRequest string
  | Unauthorized string
  | Forbidden string
  | NotFound string
  | Conflict string
  | RecordNotFound
  | UniqueViolation
  | OutOfRange
  | InvalidDecimal
  | ConstraintViolation string

type_synonym 'a res = "error + 'a"

definition andThen :: "'a res \<Rightarrow> ('a \<Rightarrow> 'b res) \<Rightarrow> 'b res" where
  "andThen m k = (case m of Inl e \<Rightarrow> Inl e | Inr x \<Rightarrow> k x)"

definition ensure :: "bool \<Rightarrow> error \<Rightarrow> unit res" where
  "ensure b e = (if b then Inr () else Inl e)"

definition orThrow :: "'a option \<Rightarrow> error \<Rightarrow> 'a res" where
  "orThrow x e = (case x of None \<Rightarrow> Inl e | Some v \<Rightarrow> Inr v)"

lemma andThen_simps [simp]:
  "andThen (Inl e) k = Inl e"
  "andThen (Inr x) k = k x"
  by (simp_all add: andThen_def)

lemma andThen_Inr [simp]:
  "andThen m k = Inr y \<longleftrightarrow> (\<exists>x. m = Inr x \<and> k x = Inr y)"
  by (cases m) simp_all

lemma andThen_Inl:
  "andThen m k = Inl e \<longleftrightarrow> m = Inl e \<or> (\<exists>x. m = Inr x \<and> k x = Inl e)"
  by (cases m) simp_all

lemma ensure_Inr [simp]: "ensure b e = Inr u \<longleftrightarrow> b"
  by (simp add: ensure_def)

lemma ensure_Inl [simp]: "ensure b e = Inl e' \<longleftrightarrow> \<not> b \<and> e' = e"
  by (auto simp: ensure_def)

lemma ensure_simps [simp]:
  "ensure True e = Inr ()"
  "ensure False e = Inl e"
  by (simp_all add: ensure_def)

lemma orThrow_Inr [simp]: "orThrow x e = Inr v \<longleftrightarrow> x = Some v"
  by (cases x) (simp_all add: orThrow_def)

lemma orThrow_Inl [simp]: "orThrow x e = Inl e' \<longleftrightarrow> x = None \<and> e' = e"
  by (cases x) (auto simp: orThrow_def)

lemma orThrow_simps [simp]:
  "orThrow None e = Inl e"
  "orThrow (Some v) e = Inr v"
  by (simp_all add: orThrow_def)

section \<open>JavaScript values\<close>

text \<open>
  \<^verbatim>\<open>!x\<close> holds of \<^verbatim>\<open>undefined\<close>, \<^verbatim>\<open>null\<close> and the empty string; \<^verbatim>\<open>a ?? b\<close> is \<^verbatim>\<open>b\<close>
  for the first two only. A value that may be missing is an option.
\<close>

definition truthy :: "string option \<Rightarrow> bool" where
  "truthy x = (case x of None \<Rightarrow> False | Some v \<Rightarrow> v \<noteq> [])"

definition nullish :: "'a option \<Rightarrow> 'a \<Rightarrow> 'a" where
  "nullish x d = (case x of None \<Rightarrow> d | Some v \<Rightarrow> v)"

definition orElse :: "'a option \<Rightarrow> 'a option \<Rightarrow> 'a option" where
  "orElse x y = (case x of None \<Rightarrow> y | Some v \<Rightarrow> Some v)"

lemma truthy_simps [simp]:
  "truthy None = False"
  "truthy (Some v) = (v \<noteq> [])"
  by (simp_all add: truthy_def)

lemma truthyE [elim]:
  assumes "truthy x"
  obtains v where "x = Some v" and "v \<noteq> []"
  using assms by (cases x) auto

lemma nullish_simps [simp]:
  "nullish None d = d"
  "nullish (Some v) d = v"
  by (simp_all add: nullish_def)

lemma orElse_simps [simp]:
  "orElse None y = y"
  "orElse (Some v) y = Some v"
  by (simp_all add: orElse_def)

lemma orElse_None_iff [simp]: "orElse x y = None \<longleftrightarrow> x = None \<and> y = None"
  by (cases x) simp_all

text \<open>\<^verbatim>\<open>[...new Set(xs)]\<close>: the first occurrence of each element, in order.\<close>

definition js_unique :: "'a list \<Rightarrow> 'a list" where
  "js_unique xs = rev (remdups (rev xs))"

lemma set_js_unique [simp]: "set (js_unique xs) = set xs"
  by (simp add: js_unique_def)

lemma distinct_js_unique [simp]: "distinct (js_unique xs)"
  by (simp add: js_unique_def)

lemma js_unique_Nil [simp]: "js_unique xs = [] \<longleftrightarrow> xs = []"
  by (simp add: js_unique_def)

text \<open>
  JSON values that the services write to the database. A date and a decimal are written as their text,
  which determines them, so they stand for it.
\<close>

datatype json =
    JNull
  | JText string
  | JNumber int
  | JBool bool
  | JDate int
  | JDecimal rat
  | JList "json list"
  | JObject "(string \<times> json) list"

definition jsonOf :: "('a \<Rightarrow> json) \<Rightarrow> 'a option \<Rightarrow> json" where
  "jsonOf f x = (case x of None \<Rightarrow> JNull | Some v \<Rightarrow> f v)"

lemma jsonOf_simps [simp]:
  "jsonOf f None = JNull"
  "jsonOf f (Some v) = f v"
  by (simp_all add: jsonOf_def)

section \<open>Strings\<close>

text \<open>
  A JavaScript string is a list of characters; the model covers the ASCII ones. Blanks
  are what \<^verbatim>\<open>trim\<close> and \<^verbatim>\<open>\s\<close> treat as such below code point 128.
\<close>

definition is_ws :: "char \<Rightarrow> bool" where
  "is_ws c = (c = CHR '' '' \<or> c = CHR 0x09 \<or> c = CHR 0x0A \<or> c = CHR 0x0B
              \<or> c = CHR 0x0C \<or> c = CHR 0x0D)"

definition trimStart :: "string \<Rightarrow> string" where
  "trimStart s = dropWhile is_ws s"

definition trim :: "string \<Rightarrow> string" where
  "trim s = rev (trimStart (rev (trimStart s)))"

definition lower_char :: "char \<Rightarrow> char" where
  "lower_char c = (let n = of_char c :: nat in if 65 \<le> n \<and> n \<le> 90 then char_of (n + 32) else c)"

definition upper_char :: "char \<Rightarrow> char" where
  "upper_char c = (let n = of_char c :: nat in if 97 \<le> n \<and> n \<le> 122 then char_of (n - 32) else c)"

definition toLowerCase :: "string \<Rightarrow> string" where
  "toLowerCase s = map lower_char s"

definition toUpperCase :: "string \<Rightarrow> string" where
  "toUpperCase s = map upper_char s"

text \<open>\<^verbatim>\<open>s.replace(/\s+/g, ' ')\<close>: every maximal run of blanks becomes one space.\<close>

fun collapse_ws :: "string \<Rightarrow> string" where
  "collapse_ws [] = []"
| "collapse_ws (c # cs) =
     (if is_ws c
      then (case cs of
              [] \<Rightarrow> [CHR '' '']
            | d # _ \<Rightarrow> if is_ws d then collapse_ws cs else CHR '' '' # collapse_ws cs)
      else c # collapse_ws cs)"

text \<open>\<^verbatim>\<open>xs.join(sep)\<close>.\<close>

fun joinWith :: "string \<Rightarrow> string list \<Rightarrow> string" where
  "joinWith sep [] = []"
| "joinWith sep [x] = x"
| "joinWith sep (x # y # ys) = x @ sep @ joinWith sep (y # ys)"

fun startsWith :: "string \<Rightarrow> string \<Rightarrow> bool" where
  "startsWith s [] = True"
| "startsWith [] (k # ks) = False"
| "startsWith (c # cs) (k # ks) = (c = k \<and> startsWith cs ks)"

fun includesStr :: "string \<Rightarrow> string \<Rightarrow> bool" where
  "includesStr [] k = (k = [])"
| "includesStr (c # cs) k = (startsWith (c # cs) k \<or> includesStr cs k)"

lemma startsWith_prefix: "startsWith s k \<longleftrightarrow> prefix k s"
  by (induction s k rule: startsWith.induct) auto

lemma includesStr_sublist: "includesStr s k \<longleftrightarrow> sublist k s"
  by (induction s k rule: includesStr.induct)
    (auto simp: startsWith_prefix sublist_Cons_right simp del: startsWith.simps)

lemma trim_no_outer_ws:
  assumes "trim s \<noteq> []"
  shows "\<not> is_ws (hd (trim s)) \<and> \<not> is_ws (last (trim s))"
proof -
  let ?t = "trimStart s"
  let ?u = "trimStart (rev ?t)"
  have u: "?u \<noteq> []" using assms by (simp add: trim_def)
  then have last: "\<not> is_ws (hd ?u)"
    by (simp add: trimStart_def hd_dropWhile)
  have "suffix ?u (rev ?t)" by (simp add: trimStart_def suffix_dropWhile)
  then have "prefix (rev ?u) ?t" by (simp add: suffix_to_prefix)
  then obtain v where v: "?t = rev ?u @ v" by (auto simp: prefix_def)
  have "hd (rev ?u @ v) = hd (rev ?u)" using u by (cases "rev ?u") auto
  with v have "hd (rev ?u) = hd ?t" by simp
  moreover from v u have "?t \<noteq> []" by auto
  ultimately have "\<not> is_ws (hd (rev ?u))"
    by (simp add: trimStart_def hd_dropWhile)
  with last u show ?thesis by (simp add: trim_def last_rev)
qed

section \<open>Keyed tables\<close>

text \<open>
  A database table is the list of its rows. \<^verbatim>\<open>findUnique\<close> by primary key is
  \<open>find_by\<close>; \<^verbatim>\<open>update\<close> by primary key is \<open>modify_by\<close>; \<^verbatim>\<open>create\<close> appends a row.
\<close>

definition find_by :: "('r \<Rightarrow> 'k) \<Rightarrow> 'k \<Rightarrow> 'r list \<Rightarrow> 'r option" where
  "find_by key k rows = List.find (\<lambda>r. key r = k) rows"

definition modify_by :: "('r \<Rightarrow> 'k) \<Rightarrow> 'k \<Rightarrow> ('r \<Rightarrow> 'r) \<Rightarrow> 'r list \<Rightarrow> 'r list" where
  "modify_by key k f rows = map (\<lambda>r. if key r = k then f r else r) rows"

lemma find_by_simps [simp]:
  "find_by key k [] = None"
  "find_by key k (r # rows) = (if key r = k then Some r else find_by key k rows)"
  by (simp_all add: find_by_def)

lemma find_by_SomeD:
  assumes "find_by key k rows = Some r"
  shows "r \<in> set rows" and "key r = k"
  using assms by (induction rows) (auto split: if_splits)

lemma find_by_None_iff: "find_by key k rows = None \<longleftrightarrow> k \<notin> key ` set rows"
  by (induction rows) auto

lemma find_by_distinct:
  "distinct (map key rows) \<Longrightarrow> r \<in> set rows \<Longrightarrow> find_by key (key r) rows = Some r"
  by (induction rows) (auto simp: image_iff)

lemma find_by_append:
  "find_by key k (xs @ ys) = (case find_by key k xs of None \<Rightarrow> find_by key k ys | Some r \<Rightarrow> Some r)"
  by (induction xs) auto

lemma find_Some_iff_find_by:
  "List.find (\<lambda>r. key r = k \<and> P r) rows = Some r \<Longrightarrow> distinct (map key rows)
   \<Longrightarrow> find_by key k rows = Some r \<and> P r"
  by (induction rows) (auto simp: image_iff find_Some_iff split: if_splits dest: find_by_SomeD)

locale keyed_table =
  fixes key :: "'r \<Rightarrow> 'k"
    and lookup :: "'k \<Rightarrow> 'r list \<Rightarrow> 'r option"
    and modify :: "'k \<Rightarrow> ('r \<Rightarrow> 'r) \<Rightarrow> 'r list \<Rightarrow> 'r list"
  assumes lookup_modify:
      "(\<And>r. key (f r) = key r) \<Longrightarrow>
       lookup k (modify i f rows) = (if k = i then map_option f (lookup k rows) else lookup k rows)"
    and keys_modify:
      "(\<And>r. key (f r) = key r) \<Longrightarrow> map key (modify i f rows) = map key rows"
    and set_modify: "set (modify i f rows) = (\<lambda>r. if key r = i then f r else r) ` set rows"
    and length_modify: "length (modify i f rows) = length rows"
    and lookup_member: "lookup k rows = Some r \<Longrightarrow> r \<in> set rows \<and> key r = k"
begin

lemma modify_other:
  assumes "\<And>r. key (f r) = key r" and "k \<noteq> i"
  shows "lookup k (modify i f rows) = lookup k rows"
  using assms by (simp add: lookup_modify)

lemma modify_same:
  assumes "\<And>r. key (f r) = key r" and "lookup i rows = Some r"
  shows "lookup i (modify i f rows) = Some (f r)"
  using assms by (simp add: lookup_modify)

lemma modify_distinct:
  assumes "\<And>r. key (f r) = key r" and "distinct (map key rows)"
  shows "distinct (map key (modify i f rows))"
  using assms by (simp add: keys_modify)

lemma modify_all:
  assumes "\<And>r. r \<in> set rows \<Longrightarrow> P r"
    and "\<And>r. r \<in> set rows \<Longrightarrow> key r = i \<Longrightarrow> P r \<Longrightarrow> P (f r)"
    and "r \<in> set (modify i f rows)"
  shows "P r"
  using assms by (auto simp: set_modify split: if_splits)

end

lemma find_by_modify_by:
  assumes "\<And>r. key (f r) = key r"
  shows "find_by key k (modify_by key i f rows)
         = (if k = i then map_option f (find_by key k rows) else find_by key k rows)"
  by (induction rows) (auto simp: modify_by_def assms)

lemma find_map_kept:
  assumes "\<And>y. P (f y) = P y"
  shows "List.find P (map f xs) = map_option f (List.find P xs)"
  by (induction xs) (simp_all add: assms)

lemma keyed_table_lists: "keyed_table (key :: 'r \<Rightarrow> 'k) (find_by key) (modify_by key)"
proof
  fix f :: "'r \<Rightarrow> 'r" and i k :: 'k and rows :: "'r list" and r
  show "map key (modify_by key i f rows) = map key rows" if "\<And>r. key (f r) = key r"
    using that by (simp add: modify_by_def)
  show "set (modify_by key i f rows) = (\<lambda>r. if key r = i then f r else r) ` set rows"
    by (simp add: modify_by_def)
  show "length (modify_by key i f rows) = length rows"
    by (simp add: modify_by_def)
qed (auto simp: find_by_modify_by dest: find_by_SomeD)

section \<open>Guarded systems\<close>

text \<open>
  A component is a family of operations: each either raises (and leaves the database as
  it was, because its writes are one transaction) or returns the next state. \<open>run\<close> is
  a sequence of such operations, the failing ones skipped.
\<close>

fun run_ops :: "('op \<Rightarrow> 's \<Rightarrow> 's res) \<Rightarrow> 'op list \<Rightarrow> 's \<Rightarrow> 's" where
  "run_ops exec [] s = s"
| "run_ops exec (op # ops) s =
     (case exec op s of Inl e \<Rightarrow> run_ops exec ops s | Inr s' \<Rightarrow> run_ops exec ops s')"

locale guarded_system =
  fixes exec :: "'op \<Rightarrow> 's \<Rightarrow> 's res"
    and inv :: "'s \<Rightarrow> bool"
    and allowed :: "'s \<Rightarrow> 's \<Rightarrow> bool"
  assumes exec_inv: "inv s \<Longrightarrow> exec op s = Inr s' \<Longrightarrow> inv s'"
    and exec_allowed: "inv s \<Longrightarrow> exec op s = Inr s' \<Longrightarrow> allowed s s'"
    and allowed_refl: "allowed s s"
    and allowed_trans: "allowed s t \<Longrightarrow> allowed t u \<Longrightarrow> allowed s u"
begin

lemma run_inv: "inv s \<Longrightarrow> inv (run_ops exec ops s)"
  by (induction ops arbitrary: s) (auto split: sum.splits dest: exec_inv)

lemma run_allowed: "inv s \<Longrightarrow> allowed s (run_ops exec ops s)"
proof (induction ops arbitrary: s)
  case Nil
  show ?case by (simp add: allowed_refl)
next
  case (Cons op ops)
  show ?case
  proof (cases "exec op s")
    case (Inl e)
    with Cons show ?thesis by simp
  next
    case (Inr s')
    with Cons.prems have "inv s'" and "allowed s s'"
      by (auto intro: exec_inv exec_allowed)
    with Inr Cons.IH show ?thesis by (auto intro: allowed_trans)
  qed
qed

end

end
