(* ===== verification/Schema.thy ===== *)
theory Schema
  imports Prelude
begin

text \<open>
  The tables of \<^verbatim>\<open>prisma/schema.prisma\<close> that access control and the maintenance request
  workflow read and write, as records of their columns, and the database as the record of
  its tables. A column \<open>T?\<close> is an option, a date is the number of milliseconds since the
  epoch, a decimal amount is a rational. A column keeps the name it has in the schema
  after a prefix that names its table. Columns no modelled code reads
  (\<^verbatim>\<open>updatedAt\<close>, contact details) are left out.
\<close>

section \<open>Enumerations\<close>

datatype scope_type = SC_ORG | SC_BUILDING
datatype permission_effect = ALLOW | DENY

datatype req_status = OPEN | ASSIGNED | IN_PROGRESS | COMPLETED | CANCELED
datatype approval_status = NOT_REQUIRED | PENDING | APPROVED | REJECTED
datatype estimate_status = NOT_REQUESTED | REQUESTED | SUBMITTED
datatype decision_source = OWNER | MANAGEMENT_OVERRIDE | EMERGENCY_OVERRIDE
datatype emergency_signal = ACTIVE_LEAK | NO_POWER | SAFETY_RISK | NO_COOLING
datatype audit_action = AA_REQUIRED | AA_REQUESTED | AA_RESENT | AA_APPROVED | AA_REJECTED | AA_OVERRIDDEN
datatype comment_author = AUTHOR_OWNER | AUTHOR_TENANT | AUTHOR_STAFF | AUTHOR_SYSTEM
datatype comment_visibility = SHARED | INTERNAL
datatype read_scope = RS_BUILDING | RS_PROVIDER
datatype req_type = CLEANING | ELECTRICAL | MAINTENANCE | PLUMBING_AC_HEATING | OTHER
datatype req_priority = LOW | NORMAL | HIGH
datatype occupancy_status = OC_ACTIVE | OC_ENDED
datatype provider_role = PROVIDER_ADMIN | PROVIDER_WORKER
datatype grant_status = GR_PENDING | GR_ACTIVE | GR_DISABLED

text \<open>How an enumeration value reads as the string the database returns.\<close>

fun req_type_str :: "req_type \<Rightarrow> string" where
  "req_type_str CLEANING = ''CLEANING''"
| "req_type_str ELECTRICAL = ''ELECTRICAL''"
| "req_type_str MAINTENANCE = ''MAINTENANCE''"
| "req_type_str PLUMBING_AC_HEATING = ''PLUMBING_AC_HEATING''"
| "req_type_str OTHER = ''OTHER''"

fun req_priority_str :: "req_priority \<Rightarrow> string" where
  "req_priority_str LOW = ''LOW''"
| "req_priority_str NORMAL = ''NORMAL''"
| "req_priority_str HIGH = ''HIGH''"

section \<open>Rows\<close>

record user_row =
  us_id :: string
  us_email :: string
  us_orgId :: "string option"
  us_isActive :: bool
  us_name :: "string option"
  us_avatarUrl :: "string option"
  us_phone :: "string option"
  us_passwordHash :: string
  us_refreshTokenHash :: "string option"
  us_mustChangePassword :: bool
  us_createdAt :: int

record building_row =
  bd_id :: string
  bd_orgId :: string
  bd_name :: string
  bd_city :: string
  bd_createdAt :: int

datatype unit_status = AVAILABLE | OCCUPIED | UNDER_MAINTENANCE | BLOCKED
datatype maintenance_payer = PAYER_OWNER | PAYER_TENANT | PAYER_BUILDING
datatype unit_size_unit = SQ_FT
datatype kitchen_type = KITCHEN_OPEN | KITCHEN_CLOSED
datatype furnished_status = UNFURNISHED | SEMI_FURNISHED | FULLY_FURNISHED
datatype payment_frequency = MONTHLY | QUARTERLY | SEMI_ANNUAL | ANNUAL

record unit_details =
  ud_floor :: "int option"
  ud_notes :: "string option"
  ud_maintenancePayer :: "maintenance_payer option"
  ud_unitSize :: "rat option"
  ud_unitSizeUnit :: unit_size_unit
  ud_bedrooms :: "int option"
  ud_bathrooms :: "int option"
  ud_balcony :: "bool option"
  ud_kitchenType :: "kitchen_type option"
  ud_furnishedStatus :: "furnished_status option"
  ud_rentAnnual :: "rat option"
  ud_paymentFrequency :: "payment_frequency option"
  ud_securityDepositAmount :: "rat option"
  ud_serviceChargePerUnit :: "rat option"
  ud_vatApplicable :: "bool option"
  ud_electricityMeterNumber :: "string option"
  ud_waterMeterNumber :: "string option"
  ud_gasMeterNumber :: "string option"

definition no_details :: unit_details where
  "no_details =
     \<lparr> ud_floor = None, ud_notes = None, ud_maintenancePayer = None, ud_unitSize = None,
       ud_unitSizeUnit = SQ_FT, ud_bedrooms = None, ud_bathrooms = None, ud_balcony = None,
       ud_kitchenType = None, ud_furnishedStatus = None, ud_rentAnnual = None, ud_paymentFrequency = None,
       ud_securityDepositAmount = None, ud_serviceChargePerUnit = None, ud_vatApplicable = None,
       ud_electricityMeterNumber = None, ud_waterMeterNumber = None, ud_gasMeterNumber = None \<rparr>"

record unit_row =
  un_id :: string
  un_buildingId :: string
  un_label :: string
  un_ownerId :: "string option"
  un_unitTypeId :: "string option"
  un_status :: unit_status
  un_details :: unit_details
  un_createdAt :: int

record permission_row =
  pm_id :: string
  pm_key :: string

record role_template =
  rt_id :: string
  rt_orgId :: "string option"
  rt_key :: string
  rt_name :: string
  rt_description :: "string option"
  rt_isSystem :: bool
  rt_scopeType :: scope_type

record role_permission =
  rp_roleTemplateId :: string
  rp_permissionId :: string

record access_assignment =
  ua_id :: string
  ua_userId :: string
  ua_roleTemplateId :: string
  ua_scopeType :: scope_type
  ua_scopeId :: "string option"
  ua_createdAt :: int

record user_permission =
  up_userId :: string
  up_permissionId :: string
  up_effect :: permission_effect

record lease_ref =
  lr_id :: string
  lr_active :: bool

record occupancy_row =
  oc_id :: string
  oc_buildingId :: string
  oc_unitId :: string
  oc_residentUserId :: string
  oc_status :: occupancy_status
  oc_startAt :: int
  oc_createdAt :: int
  oc_endAt :: "int option"
  oc_lease :: "lease_ref option"

record provider_row =
  sp_id :: string
  sp_isActive :: bool

record provider_building =
  sb_serviceProviderId :: string
  sb_buildingId :: string

record provider_user =
  su_serviceProviderId :: string
  su_userId :: string
  su_role :: provider_role
  su_isActive :: bool

record provider_grant =
  sg_serviceProviderId :: string
  sg_userId :: "string option"
  sg_status :: grant_status
  sg_inviteEmail :: "string option"
  sg_invitedAt :: "int option"
  sg_acceptedAt :: "int option"
  sg_disabledAt :: "int option"
  sg_disabledByUserId :: "string option"
  sg_verificationMethod :: "string option"

record owner_row =
  ow_id :: string
  ow_orgId :: string
  ow_name :: string
  ow_isActive :: bool

record owner_grant =
  og_id :: string
  og_ownerId :: string
  og_userId :: "string option"
  og_status :: grant_status
  og_inviteEmail :: "string option"
  og_invitedAt :: "int option"
  og_acceptedAt :: "int option"
  og_grantedByUserId :: "string option"
  og_disabledAt :: "int option"
  og_disabledByUserId :: "string option"
  og_verificationMethod :: "string option"
  og_createdAt :: int

record unit_ownership =
  uo_orgId :: string
  uo_unitId :: string
  uo_ownerId :: string
  uo_endDate :: "int option"
  uo_id :: string
  uo_startDate :: int
  uo_isPrimary :: "bool option"
  uo_createdAt :: int

record comment_row =
  cm_id :: string
  cm_requestId :: string
  cm_orgId :: string
  cm_authorUserId :: string
  cm_authorOwnerId :: "string option"
  cm_authorType :: comment_author
  cm_visibility :: comment_visibility
  cm_message :: string
  cm_createdAt :: int

record read_state =
  rs_userId :: string
  rs_requestId :: string
  rs_scope :: read_scope
  rs_lastReadAt :: int

record owner_read_state =
  ors_userId :: string
  ors_requestId :: string
  ors_lastReadAt :: int

record attachment_row =
  at_requestId :: string
  at_orgId :: string
  at_uploadedByUserId :: string
  at_fileName :: string
  at_mimeType :: string
  at_sizeBytes :: int
  at_url :: string

record approval_audit =
  au_requestId :: string
  au_orgId :: string
  au_actorUserId :: string
  au_action :: audit_action
  au_fromStatus :: "approval_status option"
  au_toStatus :: approval_status
  au_decisionSource :: "decision_source option"
  au_reason :: "string option"

record maintenance_request =
  mr_id :: string
  mr_orgId :: string
  mr_buildingId :: string
  mr_unitId :: "string option"
  mr_occupancyIdAtCreation :: "string option"
  mr_leaseIdAtCreation :: "string option"
  mr_createdByUserId :: string
  mr_title :: string
  mr_description :: "string option"
  mr_status :: req_status
  mr_type :: "req_type option"
  mr_priority :: "req_priority option"
  mr_assignedToUserId :: "string option"
  mr_serviceProviderId :: "string option"
  mr_serviceProviderAssignedUserId :: "string option"
  mr_estimateStatus :: estimate_status
  mr_estimateRequestedAt :: "int option"
  mr_estimateRequestedByUserId :: "string option"
  mr_estimateDueAt :: "int option"
  mr_estimateReminderSentAt :: "int option"
  mr_estimateSubmittedAt :: "int option"
  mr_estimateSubmittedByUserId :: "string option"
  mr_ownerApprovalStatus :: approval_status
  mr_ownerApprovalRequestedAt :: "int option"
  mr_ownerApprovalRequestedByUserId :: "string option"
  mr_ownerApprovalDeadlineAt :: "int option"
  mr_ownerApprovalDecidedAt :: "int option"
  mr_ownerApprovalDecidedByOwnerUserId :: "string option"
  mr_ownerApprovalReason :: "string option"
  mr_approvalRequiredReason :: "string option"
  mr_estimatedAmount :: "rat option"
  mr_estimatedCurrency :: "string option"
  mr_isEmergency :: bool
  mr_emergencySignals :: "emergency_signal list"
  mr_isLikeForLike :: "bool option"
  mr_isUpgrade :: "bool option"
  mr_isMajorReplacement :: "bool option"
  mr_isResponsibilityDisputed :: "bool option"
  mr_ownerApprovalDecisionSource :: "decision_source option"
  mr_ownerApprovalOverrideReason :: "string option"
  mr_ownerApprovalOverriddenByUserId :: "string option"
  mr_assignedAt :: "int option"
  mr_completedAt :: "int option"
  mr_canceledAt :: "int option"
  mr_createdAt :: int

section \<open>Events\<close>

text \<open>
  What the services hand to the event emitter: the event's name, the snapshot of the
  request, the snapshot before the change where the service sends one, the actor, and the
  comment for a comment event.
\<close>

record request_snapshot =
  sn_id :: string
  sn_orgId :: string
  sn_buildingId :: string
  sn_unitId :: "string option"
  sn_title :: string
  sn_status :: req_status
  sn_ownerApprovalStatus :: approval_status
  sn_createdByUserId :: string
  sn_assignedToUserId :: "string option"
  sn_serviceProviderId :: "string option"
  sn_serviceProviderAssignedUserId :: "string option"
  sn_isEmergency :: bool
  sn_emergencySignals :: "emergency_signal list"
  sn_unit :: "(string \<times> string) option"

datatype event_name =
    EV_CREATED | EV_ASSIGNED | EV_STATUS_CHANGED | EV_COMMENTED | EV_CANCELED
  | EV_ESTIMATE_REMINDER | EV_OWNER_APPROVAL_REQUESTED | EV_OWNER_APPROVAL_REMINDER
  | EV_OWNER_REQUEST_APPROVED | EV_OWNER_REQUEST_REJECTED | EV_OWNER_REQUEST_OVERRIDDEN

record request_event =
  ev_name :: event_name
  ev_request :: request_snapshot
  ev_previousRequest :: "request_snapshot option"
  ev_actorUserId :: string
  ev_actorIsResident :: "bool option"
  ev_comment :: "(string \<times> string) option"

section \<open>The database\<close>

record db =
  users :: "user_row list"
  buildings :: "building_row list"
  units :: "unit_row list"
  permissions :: "permission_row list"
  roleTemplates :: "role_template list"
  rolePermissions :: "role_permission list"
  accessAssignments :: "access_assignment list"
  userPermissions :: "user_permission list"
  occupancies :: "occupancy_row list"
  serviceProviders :: "provider_row list"
  providerBuildings :: "provider_building list"
  providerUsers :: "provider_user list"
  providerGrants :: "provider_grant list"
  owners :: "owner_row list"
  ownerGrants :: "owner_grant list"
  unitOwnerships :: "unit_ownership list"
  requests :: "maintenance_request list"
  comments :: "comment_row list"
  commentReadStates :: "read_state list"
  ownerReadStates :: "owner_read_state list"
  attachments :: "attachment_row list"
  approvalAudits :: "approval_audit list"
  eventLog :: "request_event list"

text \<open>The authenticated user of a request: the payload of the access token.\<close>

record auth_user =
  sub :: string
  orgId :: "string option"

type_synonym principal = "auth_user option"

definition user_sub :: "principal \<Rightarrow> string option" where
  "user_sub u = map_option sub u"

definition user_org :: "principal \<Rightarrow> string option" where
  "user_org u = (case u of None \<Rightarrow> None | Some a \<Rightarrow> orgId a)"

end
