(* ===== verification/AccessControl.thy ===== *)
theory AccessControl
  imports Schema "HOL-Library.List_Lexorder" "HOL-Library.Char_ord" "HOL-Library.Product_Lexorder"
begin

text \<open>
  Role-based access control: permission aliases (\<^verbatim>\<open>common/utils/permission-aliases.ts\<close>),
  the visibility rules of role templates (\<^verbatim>\<open>role-defaults.ts\<close>), the scoped reads of
  \<^verbatim>\<open>access-control.repo.ts\<close> and the effective permission sets of
  \<^verbatim>\<open>access-control.service.ts\<close>.

  The contract that the guards and the building access service rely on is the locale
  \<open>permission_service\<close>: a denied key is never effective, an allowed key always is. Both
  reads of the access control service interpret it.
\<close>

section \<open>Permission aliases\<close>

definition PERMISSION_ALIASES :: "(string \<times> string list) list" where
  "PERMISSION_ALIASES =
   [(''contracts.read'', [''leases.read'']),
    (''contracts.write'', [''leases.write'']),
    (''contracts.documents.read'', [''leases.documents.read'']),
    (''contracts.documents.write'', [''leases.documents.write'']),
    (''contracts.occupants.read'', [''leases.occupants.read'']),
    (''contracts.occupants.write'', [''leases.occupants.write'']),
    (''contracts.move_in.execute'', [''leases.move_in'']),
    (''contracts.move_out.execute'', [''leases.move_out'']),
    (''contracts.move_requests.review'', [''leases.move_in'', ''leases.move_out'']),
    (''contracts.move_in_request.create'', [''leases.move_in'']),
    (''contracts.move_out_request.create'', [''leases.move_out'']),
    (''leases.read'', [''contracts.read'']),
    (''leases.write'', [''contracts.write'']),
    (''leases.documents.read'', [''contracts.documents.read'']),
    (''leases.documents.write'', [''contracts.documents.write'']),
    (''leases.occupants.read'', [''contracts.occupants.read'']),
    (''leases.occupants.write'', [''contracts.occupants.write'']),
    (''leases.move_in'', [''contracts.move_in.execute'', ''contracts.move_in_request.create'',
                          ''contracts.move_requests.review'']),
    (''leases.move_out'', [''contracts.move_out.execute'', ''contracts.move_out_request.create'',
                           ''contracts.move_requests.review'']),
    (''service_providers.read'', [''serviceProviders.read'']),
    (''service_providers.write'', [''serviceProviders.write'']),
    (''serviceProviders.read'', [''service_providers.read'']),
    (''serviceProviders.write'', [''service_providers.write''])]"

definition aliasesOf :: "string \<Rightarrow> string list" where
  "aliasesOf p = nullish (map_of PERMISSION_ALIASES p) []"

definition has_perm :: "string set option \<Rightarrow> string \<Rightarrow> bool" where
  "has_perm eff p = (case eff of None \<Rightarrow> False | Some S \<Rightarrow> p \<in> S)"

definition hasPermissionMatch :: "string set option \<Rightarrow> string \<Rightarrow> bool" where
  "hasPermissionMatch eff p =
     (if has_perm eff p then True else list_ex (has_perm eff) (aliasesOf p))"

definition hasAllPermissionMatches :: "string set option \<Rightarrow> string list \<Rightarrow> bool" where
  "hasAllPermissionMatches eff ps = list_all (hasPermissionMatch eff) ps"

section \<open>Role templates\<close>

definition ORG_SYSTEM_ROLE_TEMPLATE_KEYS :: "string list" where
  "ORG_SYSTEM_ROLE_TEMPLATE_KEYS = [''org_admin'', ''viewer'']"

definition BUILDING_SYSTEM_ROLE_TEMPLATE_KEYS :: "string list" where
  "BUILDING_SYSTEM_ROLE_TEMPLATE_KEYS = [''building_admin'', ''building_manager'', ''building_staff'']"

definition VISIBLE_SYSTEM_ROLE_TEMPLATE_KEYS :: "string list" where
  "VISIBLE_SYSTEM_ROLE_TEMPLATE_KEYS =
     ORG_SYSTEM_ROLE_TEMPLATE_KEYS @ BUILDING_SYSTEM_ROLE_TEMPLATE_KEYS"

definition RESERVED_ORG_ROLE_TEMPLATE_KEYS :: "string list" where
  "RESERVED_ORG_ROLE_TEMPLATE_KEYS = [''platform_superadmin'']"

definition isVisibleRoleTemplate :: "role_template \<Rightarrow> bool" where
  "isVisibleRoleTemplate t =
     (if rt_key t = ''platform_superadmin'' then False
      else if \<not> rt_isSystem t then True
      else List.member VISIBLE_SYSTEM_ROLE_TEMPLATE_KEYS (rt_key t))"

definition isReservedRoleTemplateKey :: "string \<Rightarrow> bool" where
  "isReservedRoleTemplateKey k = List.member RESERVED_ORG_ROLE_TEMPLATE_KEYS k"

definition isOrgAssignableRoleTemplate :: "role_template \<Rightarrow> bool" where
  "isOrgAssignableRoleTemplate t =
     (if rt_scopeType t \<noteq> SC_ORG then False
      else if rt_key t = ''platform_superadmin'' then False
      else if \<not> rt_isSystem t then True
      else List.member ORG_SYSTEM_ROLE_TEMPLATE_KEYS (rt_key t))"

section \<open>Scoped access\<close>

definition templateOf :: "db \<Rightarrow> access_assignment \<Rightarrow> role_template option" where
  "templateOf s a = find_by rt_id (ua_roleTemplateId a) (roleTemplates s)"

definition template_sat :: "db \<Rightarrow> access_assignment \<Rightarrow> (role_template \<Rightarrow> bool) \<Rightarrow> bool" where
  "template_sat s a P = (case templateOf s a of None \<Rightarrow> False | Some t \<Rightarrow> P t)"

text \<open>
  The \<^verbatim>\<open>where\<close> clause of \<^verbatim>\<open>getUserScopedAccess\<close>. It is an object literal that first sets
  \<^verbatim>\<open>roleTemplate: { orgId }\<close> and then spreads one of two objects over it. The object for
  a building has the key \<^verbatim>\<open>OR\<close> and leaves \<^verbatim>\<open>roleTemplate\<close> alone; the object without a building
  has a \<^verbatim>\<open>roleTemplate\<close> key of its own, which replaces the first one.
\<close>

definition assignmentWhere ::
  "db \<Rightarrow> string \<Rightarrow> string option \<Rightarrow> string option \<Rightarrow> access_assignment \<Rightarrow> bool" where
  "assignmentWhere s userId org bldg a =
     (if truthy bldg
      then ua_userId a = userId
           \<and> template_sat s a (\<lambda>t. rt_orgId t = org)
           \<and> ((ua_scopeType a = SC_ORG \<and> ua_scopeId a = None
                \<and> template_sat s a (\<lambda>t. rt_scopeType t = SC_ORG))
              \<or> (ua_scopeType a = SC_BUILDING \<and> ua_scopeId a = bldg
                \<and> template_sat s a (\<lambda>t. rt_scopeType t = SC_BUILDING)))
      else ua_userId a = userId
           \<and> ua_scopeType a = SC_ORG \<and> ua_scopeId a = None
           \<and> template_sat s a (\<lambda>t. rt_scopeType t = SC_ORG))"

definition filterVisibleAssignments ::
  "db \<Rightarrow> bool \<Rightarrow> access_assignment list \<Rightarrow> access_assignment list" where
  "filterVisibleAssignments s includeHidden as =
     (if includeHidden then as else filter (\<lambda>a. template_sat s a isVisibleRoleTemplate) as)"

text \<open>\<^verbatim>\<open>orderBy: [{ createdAt: 'desc' }, { id: 'desc' }]\<close>.\<close>

definition newestFirst :: "access_assignment list \<Rightarrow> access_assignment list" where
  "newestFirst as = rev (sort_key (\<lambda>a. (ua_createdAt a, ua_id a)) as)"

definition permissionKey :: "db \<Rightarrow> string \<Rightarrow> string option" where
  "permissionKey s pid = map_option pm_key (find_by pm_id pid (permissions s))"

definition rolePermissionKeysOf :: "db \<Rightarrow> access_assignment \<Rightarrow> string list" where
  "rolePermissionKeysOf s a =
     List.map_filter (\<lambda>rp. permissionKey s (rp_permissionId rp))
       (filter (\<lambda>rp. rp_roleTemplateId rp = ua_roleTemplateId a) (rolePermissions s))"

definition userOverridesOf :: "db \<Rightarrow> string \<Rightarrow> (string \<times> permission_effect) list" where
  "userOverridesOf s userId =
     List.map_filter
       (\<lambda>up. map_option (\<lambda>k. (k, up_effect up)) (permissionKey s (up_permissionId up)))
       (filter (\<lambda>up. up_userId up = userId) (userPermissions s))"

record scoped_access =
  sa_assignments :: "access_assignment list"
  sa_rolePermissionKeys :: "string list"
  sa_userOverrides :: "(string \<times> permission_effect) list"

definition getUserScopedAccess ::
  "db \<Rightarrow> string \<Rightarrow> string option \<Rightarrow> string option \<Rightarrow> bool \<Rightarrow> scoped_access" where
  "getUserScopedAccess s userId org bldg includeHidden =
     (let visible = filterVisibleAssignments s includeHidden
            (newestFirst (filter (assignmentWhere s userId org bldg) (accessAssignments s)))
      in \<lparr> sa_assignments = visible,
           sa_rolePermissionKeys = concat (map (rolePermissionKeysOf s) visible),
           sa_userOverrides = userOverridesOf s userId \<rparr>)"

definition getUserAccessAcrossAnyScope :: "db \<Rightarrow> string \<Rightarrow> string option \<Rightarrow> scoped_access" where
  "getUserAccessAcrossAnyScope s userId org =
     (let visible = filterVisibleAssignments s False
            (newestFirst (filter
               (\<lambda>a. ua_userId a = userId \<and> template_sat s a (\<lambda>t. rt_orgId t = org))
               (accessAssignments s)))
      in \<lparr> sa_assignments = visible,
           sa_rolePermissionKeys = concat (map (rolePermissionKeysOf s) visible),
           sa_userOverrides = userOverridesOf s userId \<rparr>)"

section \<open>Effective permissions\<close>

text \<open>The loop over the overrides: ALLOW adds the key, anything else deletes it.\<close>

fun applyOverrides :: "(string \<times> permission_effect) list \<Rightarrow> string set \<Rightarrow> string set" where
  "applyOverrides [] eff = eff"
| "applyOverrides ((k, e) # os) eff =
     applyOverrides os (if e = ALLOW then insert k eff else eff - {k})"

definition getUserEffectivePermissions ::
  "db \<Rightarrow> string \<Rightarrow> string option \<Rightarrow> string option \<Rightarrow> bool \<Rightarrow> string set" where
  "getUserEffectivePermissions s userId org bldg includeHidden =
     (let acc = getUserScopedAccess s userId org bldg includeHidden
      in applyOverrides (sa_userOverrides acc) (set (sa_rolePermissionKeys acc)))"

definition getUserEffectivePermissionsAcrossAnyScope ::
  "db \<Rightarrow> string \<Rightarrow> string option \<Rightarrow> string set" where
  "getUserEffectivePermissionsAcrossAnyScope s userId org =
     (let acc = getUserAccessAcrossAnyScope s userId org
      in applyOverrides (sa_userOverrides acc) (set (sa_rolePermissionKeys acc)))"

definition getUserScopedAssignments ::
  "db \<Rightarrow> string \<Rightarrow> string option \<Rightarrow> string option \<Rightarrow> bool \<Rightarrow> scoped_access" where
  "getUserScopedAssignments s userId org bldg includeHidden =
     getUserScopedAccess s userId org bldg includeHidden"

section \<open>Lemmas\<close>

lemma set_newestFirst [simp]: "set (newestFirst as) = set as"
  by (simp add: newestFirst_def)

lemma set_map_filter: "set (List.map_filter f xs) = {y. \<exists>x \<in> set xs. f x = Some y}"
  by (force simp: List.map_filter_def)

lemma template_sat_iff: "template_sat s a P \<longleftrightarrow> (\<exists>t. templateOf s a = Some t \<and> P t)"
  by (auto simp: template_sat_def split: option.splits)

lemma applyOverrides_mem:
  "distinct (map fst os) \<Longrightarrow>
   k \<in> applyOverrides os eff \<longleftrightarrow>
     (k, ALLOW) \<in> set os \<or> k \<in> eff \<and> (k, DENY) \<notin> set os"
proof (induction os arbitrary: eff)
  case Nil
  show ?case by simp
next
  case (Cons o' os)
  obtain k' e where o': "o' = (k', e)" by (cases o')
  from Cons.prems o' have d: "distinct (map fst os)" and "\<And>e'. (k', e') \<notin> set os"
    by force+
  with o' Cons.IH [OF d] show ?case
    by (cases e) auto
qed

text \<open>
  The table \<^verbatim>\<open>UserPermission\<close> has the primary key (user, permission) and \<^verbatim>\<open>Permission.key\<close> is
  unique: under these two constraints a user has at most one override per key.
\<close>

definition overrides_unique :: "db \<Rightarrow> bool" where
  "overrides_unique s \<longleftrightarrow>
     distinct (map (\<lambda>up. (up_userId up, up_permissionId up)) (userPermissions s))
     \<and> distinct (map pm_key (permissions s)) \<and> distinct (map pm_id (permissions s))"

lemma permissionKey_inj:
  assumes "overrides_unique s" and "permissionKey s p = Some k" and "permissionKey s q = Some k"
  shows "p = q"
proof -
  from assms(2,3) obtain x y where
    x: "find_by pm_id p (permissions s) = Some x" "pm_key x = k" and
    y: "find_by pm_id q (permissions s) = Some y" "pm_key y = k"
    by (auto simp: permissionKey_def)
  from x y have "x \<in> set (permissions s)" "y \<in> set (permissions s)"
    by (auto dest: find_by_SomeD(1))
  with x y assms(1) have "x = y"
    by (auto simp: overrides_unique_def distinct_map inj_on_def)
  with x y show ?thesis by (auto dest: find_by_SomeD(2))
qed

lemma map_filter_distinct_fst:
  assumes "distinct (map g xs)"
    and "\<And>x y a b. x \<in> set xs \<Longrightarrow> y \<in> set xs \<Longrightarrow> f x = Some a \<Longrightarrow> f y = Some b
         \<Longrightarrow> fst a = fst b \<Longrightarrow> g x = g y"
  shows "distinct (map fst (List.map_filter f xs))"
  using assms
proof (induction xs)
  case Nil
  show ?case by (simp add: List.map_filter_def)
next
  case (Cons x xs)
  from Cons.prems have IH: "distinct (map fst (List.map_filter f xs))"
    by (intro Cons.IH) auto
  show ?case
  proof (cases "f x")
    case None
    with IH show ?thesis by (simp add: map_filter_simps)
  next
    case (Some a)
    have "fst a \<notin> fst ` set (List.map_filter f xs)"
    proof
      assume "fst a \<in> fst ` set (List.map_filter f xs)"
      then obtain y b where "y \<in> set xs" "f y = Some b" "fst a = fst b"
        by (auto simp: set_map_filter)
      then have "g x = g y" using Cons.prems(2) [of x y a b] Some by simp
      with \<open>y \<in> set xs\<close> Cons.prems(1) show False by auto
    qed
    with IH Some show ?thesis by (simp add: map_filter_simps)
  qed
qed

lemma userOverrides_distinct:
  assumes "overrides_unique s"
  shows "distinct (map fst (userOverridesOf s u))"
  unfolding userOverridesOf_def
proof (rule map_filter_distinct_fst [where g = "\<lambda>up. (up_userId up, up_permissionId up)"])
  show "distinct (map (\<lambda>up. (up_userId up, up_permissionId up))
          (filter (\<lambda>up. up_userId up = u) (userPermissions s)))"
    using assms by (simp add: overrides_unique_def distinct_map_filter)
qed (auto dest: permissionKey_inj [OF assms])

definition denied :: "db \<Rightarrow> string \<Rightarrow> string \<Rightarrow> bool" where
  "denied s u k \<longleftrightarrow> (k, DENY) \<in> set (userOverridesOf s u)"

definition granted :: "db \<Rightarrow> string \<Rightarrow> string \<Rightarrow> bool" where
  "granted s u k \<longleftrightarrow> (k, ALLOW) \<in> set (userOverridesOf s u)"

lemma denied_not_granted: "overrides_unique s \<Longrightarrow> denied s u k \<Longrightarrow> \<not> granted s u k"
  using userOverrides_distinct [of s u] eq_key_imp_eq_value [of "userOverridesOf s u" k DENY ALLOW]
  by (auto simp: denied_def granted_def)

lemmas scoped_access_defs =
  getUserScopedAccess_def getUserAccessAcrossAnyScope_def filterVisibleAssignments_def Let_def

lemma effective_mem:
  assumes "overrides_unique s"
  shows "k \<in> getUserEffectivePermissions s u org bldg h \<longleftrightarrow>
     granted s u k
     \<or> (\<not> denied s u k
        \<and> (\<exists>a \<in> set (accessAssignments s). assignmentWhere s u org bldg a
             \<and> (h \<or> template_sat s a isVisibleRoleTemplate)
             \<and> k \<in> set (rolePermissionKeysOf s a)))"
  using userOverrides_distinct [OF assms, of u]
  by (auto simp: getUserEffectivePermissions_def scoped_access_defs applyOverrides_mem
        granted_def denied_def)

lemma effective_any_scope_mem:
  assumes "overrides_unique s"
  shows "k \<in> getUserEffectivePermissionsAcrossAnyScope s u org \<longleftrightarrow>
     granted s u k
     \<or> (\<not> denied s u k
        \<and> (\<exists>a \<in> set (accessAssignments s). ua_userId a = u
             \<and> template_sat s a (\<lambda>t. rt_orgId t = org) \<and> template_sat s a isVisibleRoleTemplate
             \<and> k \<in> set (rolePermissionKeysOf s a)))"
  using userOverrides_distinct [OF assms, of u]
  by (auto simp: getUserEffectivePermissionsAcrossAnyScope_def scoped_access_defs
        applyOverrides_mem granted_def denied_def)

section \<open>The contract of a permission read\<close>

locale permission_service =
  fixes wf :: "'s \<Rightarrow> bool"
    and deny :: "'s \<Rightarrow> string \<Rightarrow> string \<Rightarrow> bool"
    and allow :: "'s \<Rightarrow> string \<Rightarrow> string \<Rightarrow> bool"
    and eff :: "'s \<Rightarrow> string \<Rightarrow> 'ctx \<Rightarrow> string set"
  assumes deny_wins: "wf s \<Longrightarrow> deny s u k \<Longrightarrow> k \<notin> eff s u c"
    and allow_wins: "wf s \<Longrightarrow> allow s u k \<Longrightarrow> k \<in> eff s u c"
begin

lemma denied_permission_never_matches:
  assumes "wf s" and "deny s u p" and "\<And>q. q \<in> set (aliasesOf p) \<Longrightarrow> deny s u q"
  shows "\<not> hasPermissionMatch (Some (eff s u c)) p"
  using assms deny_wins by (auto simp: hasPermissionMatch_def has_perm_def list_ex_iff)

lemma allowed_permissions_match:
  assumes "wf s" and "\<And>p. p \<in> set ps \<Longrightarrow> allow s u p"
  shows "hasAllPermissionMatches (Some (eff s u c)) ps"
  using assms allow_wins
  by (auto simp: hasAllPermissionMatches_def hasPermissionMatch_def has_perm_def list_all_iff)

end

interpretation scoped: permission_service overrides_unique denied granted
  "\<lambda>s u (org, bldg, h). getUserEffectivePermissions s u org bldg h"
  by unfold_locales (auto simp: effective_mem dest: denied_not_granted)

interpretation any_scope: permission_service overrides_unique denied granted
  "\<lambda>s u org. getUserEffectivePermissionsAcrossAnyScope s u org"
  by unfold_locales (auto simp: effective_any_scope_mem dest: denied_not_granted)

end
