(* ===== verification/BuildingAccess.thy ===== *)
theory BuildingAccess
  imports AccessControl
begin

text \<open>
  Who may reach a building: the organisation scope of a user (\<^verbatim>\<open>common/utils/org-scope.ts\<close>,
  \<^verbatim>\<open>org-scope.guard.ts\<close>), the building access service, the resolution of the building an
  HTTP request is about (\<^verbatim>\<open>building-scope-resolver.service.ts\<close>) and the two guards that
  put them together, \<^verbatim>\<open>permissions.guard.ts\<close> and \<^verbatim>\<open>building-access.guard.ts\<close>.
\<close>

section \<open>Organisation scope\<close>

definition assertOrgScope :: "principal \<Rightarrow> string res" where
  "assertOrgScope u =
     (if \<not> truthy (user_org u) then Inl (Forbidden ''Org scope required'')
      else Inr (the (user_org u)))"

definition orgScopeGuard :: "principal \<Rightarrow> bool res" where
  "orgScopeGuard u =
     (if \<not> truthy (user_sub u) then Inl (Unauthorized ''Unauthorized'')
      else if \<not> truthy (user_org u) then Inl (Forbidden ''Org scope required'')
      else Inr True)"

text \<open>
  The opening lines the services share: \<^verbatim>\<open>const userId = user?.sub; if (!userId) throw\<close>.
\<close>

definition requireUserId :: "principal \<Rightarrow> string res" where
  "requireUserId u =
     (if \<not> truthy (user_sub u) then Inl (Unauthorized ''Unauthorized'')
      else Inr (the (user_sub u)))"

lemma assertOrgScope_Inr [simp]:
  "assertOrgScope u = Inr x \<longleftrightarrow> user_org u = Some x \<and> x \<noteq> []"
  by (cases "user_org u") (auto simp: assertOrgScope_def)

lemma requireUserId_Inr [simp]:
  "requireUserId u = Inr x \<longleftrightarrow> user_sub u = Some x \<and> x \<noteq> []"
  by (cases "user_sub u") (auto simp: requireUserId_def)

section \<open>The building access service\<close>

definition assertBuildingInOrg :: "db \<Rightarrow> string \<Rightarrow> string \<Rightarrow> building_row res" where
  "assertBuildingInOrg s bldg org =
     (if org = [] then Inl (Forbidden ''Org scope required'')
      else orThrow (List.find (\<lambda>b. bd_id b = bldg \<and> bd_orgId b = org) (buildings s))
             (NotFound ''Building not found''))"

definition hasActiveOccupancy :: "db \<Rightarrow> string \<Rightarrow> string \<Rightarrow> bool" where
  "hasActiveOccupancy s bldg userId =
     list_ex (\<lambda>oc. oc_buildingId oc = bldg \<and> oc_residentUserId oc = userId
                   \<and> oc_status oc = OC_ACTIVE) (occupancies s)"

record access_options =
  ao_requiredPermissions :: "string list"
  ao_allowResident :: bool
  ao_effectivePermissions :: "string set option"

definition hasScopedPermissions ::
  "db \<Rightarrow> string \<Rightarrow> string \<Rightarrow> string \<Rightarrow> access_options \<Rightarrow> bool" where
  "hasScopedPermissions s userId org bldg opts =
     (if ao_requiredPermissions opts = [] then False
      else hasAllPermissionMatches
             (Some (nullish (ao_effectivePermissions opts)
                      (getUserEffectivePermissions s userId (Some org) (Some bldg) False)))
             (ao_requiredPermissions opts))"

definition canReadBuildingResource ::
  "db \<Rightarrow> principal \<Rightarrow> string \<Rightarrow> access_options \<Rightarrow> bool res" where
  "canReadBuildingResource s u bldg opts =
     andThen (assertOrgScope u) (\<lambda>org.
     andThen (assertBuildingInOrg s bldg org) (\<lambda>_.
     if \<not> truthy (user_sub u) then Inr False
     else if hasScopedPermissions s (the (user_sub u)) org bldg opts then Inr True
     else if ao_allowResident opts then Inr (hasActiveOccupancy s bldg (the (user_sub u)))
     else Inr False))"

definition canWriteBuildingResource ::
  "db \<Rightarrow> principal \<Rightarrow> string \<Rightarrow> access_options \<Rightarrow> bool res" where
  "canWriteBuildingResource s u bldg opts =
     andThen (assertOrgScope u) (\<lambda>org.
     andThen (assertBuildingInOrg s bldg org) (\<lambda>_.
     if \<not> truthy (user_sub u) then Inr False
     else Inr (hasScopedPermissions s (the (user_sub u)) org bldg opts)))"

definition userHasAnyBuildingAccess :: "db \<Rightarrow> string \<Rightarrow> string \<Rightarrow> string \<Rightarrow> bool" where
  "userHasAnyBuildingAccess s userId org bldg =
     (getUserEffectivePermissions s userId (Some org) (Some bldg) False \<noteq> {})"

section \<open>The building a request is about\<close>

text \<open>
  The parts of an HTTP request the resolver reads. A path parameter, query value or body
  field is \<open>None\<close> when it is missing or not a string.
\<close>

record scope_lookup =
  pr_buildingId :: "string option"
  qu_buildingId :: "string option"
  bo_buildingId :: "string option"
  bo_buildingIds :: "string option list option"
  pr_slotId :: "string option"
  pr_allocationId :: "string option"
  pr_vehicleId :: "string option"
  pr_occupancyId :: "string option"
  pr_unitId :: "string option"
  pr_leaseId :: "string option"
  pr_contractId :: "string option"
  pr_requestId :: "string option"
  pr_id :: "string option"
  rq_route :: "string option"
  rq_baseUrl :: "string option"
  rq_originalUrl :: "string option"

text \<open>The columns the resolver reads of the tables that other components own.\<close>

record scoped_row =
  se_id :: string
  se_orgId :: string
  se_buildingId :: string

record vehicle_ref =
  ve_id :: string
  ve_orgId :: string
  ve_occupancyId :: string

record conversation_ref =
  cv_id :: string
  cv_orgId :: string
  cv_buildingId :: "string option"

record scope_tables =
  st_parkingSlots :: "scoped_row list"
  st_parkingAllocations :: "scoped_row list"
  st_vehicles :: "vehicle_ref list"
  st_leases :: "scoped_row list"
  st_moveInRequests :: "scoped_row list"
  st_moveOutRequests :: "scoped_row list"
  st_conversations :: "conversation_ref list"

definition findScoped :: "scoped_row list \<Rightarrow> string \<Rightarrow> string \<Rightarrow> string option" where
  "findScoped rows i org =
     map_option se_buildingId (List.find (\<lambda>r. se_id r = i \<and> se_orgId r = org) rows)"

definition buildingInOrg :: "db \<Rightarrow> string \<Rightarrow> string \<Rightarrow> bool" where
  "buildingInOrg s bldg org = list_ex (\<lambda>b. bd_id b = bldg \<and> bd_orgId b = org) (buildings s)"

definition activeInOrg :: "db \<Rightarrow> string \<Rightarrow> string \<Rightarrow> bool" where
  "activeInOrg s org userId \<longleftrightarrow> list_ex (\<lambda>x. us_id x = userId \<and> us_orgId x = Some org \<and> us_isActive x) (users s)"

definition normalizeEmail :: "string \<Rightarrow> string" where
  "normalizeEmail email = toLowerCase (trim email)"

definition findOccupancyBuildingId :: "db \<Rightarrow> string \<Rightarrow> string \<Rightarrow> string option" where
  "findOccupancyBuildingId s i org =
     map_option oc_buildingId
       (List.find (\<lambda>oc. oc_id oc = i \<and> buildingInOrg s (oc_buildingId oc) org) (occupancies s))"

definition findUnitBuildingId :: "db \<Rightarrow> string \<Rightarrow> string \<Rightarrow> string option" where
  "findUnitBuildingId s i org =
     map_option un_buildingId
       (List.find (\<lambda>n. un_id n = i \<and> buildingInOrg s (un_buildingId n) org) (units s))"

definition findVehicleBuildingId :: "db \<Rightarrow> scope_tables \<Rightarrow> string \<Rightarrow> string \<Rightarrow> string option" where
  "findVehicleBuildingId s st i org =
     (case List.find (\<lambda>v. ve_id v = i \<and> ve_orgId v = org
              \<and> findOccupancyBuildingId s (ve_occupancyId v) org \<noteq> None) (st_vehicles st) of
        None \<Rightarrow> None
      | Some v \<Rightarrow> findOccupancyBuildingId s (ve_occupancyId v) org)"

definition findMaintenanceRequestBuildingId :: "db \<Rightarrow> string \<Rightarrow> string \<Rightarrow> string option" where
  "findMaintenanceRequestBuildingId s i org =
     map_option mr_buildingId
       (List.find (\<lambda>r. mr_id r = i \<and> mr_orgId r = org) (requests s))"

definition getRoutePath :: "scope_lookup \<Rightarrow> string" where
  "getRoutePath rq =
     toLowerCase (nullish (rq_baseUrl rq) [] @ '' '' @ nullish (rq_route rq) [] @ '' ''
                  @ nullish (rq_originalUrl rq) [])"

definition findRequestBuildingId ::
  "db \<Rightarrow> scope_tables \<Rightarrow> string \<Rightarrow> string \<Rightarrow> scope_lookup \<Rightarrow> string option" where
  "findRequestBuildingId s st i org rq =
     (let path = getRoutePath rq;
          moveIn = findScoped (st_moveInRequests st) i org;
          moveOut = findScoped (st_moveOutRequests st) i org
      in if includesStr path ''move-in-requests'' then moveIn
         else if includesStr path ''move-out-requests'' then moveOut
         else if includesStr path ''/requests'' then findMaintenanceRequestBuildingId s i org
         else if truthy moveIn then moveIn
         else if truthy moveOut then moveOut
         else findMaintenanceRequestBuildingId s i org)"

definition findEntityBuildingId ::
  "scope_tables \<Rightarrow> string \<Rightarrow> string \<Rightarrow> scope_lookup \<Rightarrow> string option" where
  "findEntityBuildingId st i org rq =
     (if includesStr (getRoutePath rq) ''/org/conversations''
      then (case List.find (\<lambda>c. cv_id c = i \<and> cv_orgId c = org) (st_conversations st) of
              None \<Rightarrow> None | Some c \<Rightarrow> cv_buildingId c)
      else None)"

definition singleBuildingId :: "string option list option \<Rightarrow> string option" where
  "singleBuildingId bs = (case bs of Some [Some b] \<Rightarrow> Some b | _ \<Rightarrow> None)"

definition resolveForRequest ::
  "db \<Rightarrow> scope_tables \<Rightarrow> scope_lookup \<Rightarrow> string option \<Rightarrow> string option" where
  "resolveForRequest s st rq orgOpt =
     (if \<not> truthy orgOpt then None
      else let org = the orgOpt in
        if pr_buildingId rq \<noteq> None then pr_buildingId rq
        else if qu_buildingId rq \<noteq> None then qu_buildingId rq
        else if bo_buildingId rq \<noteq> None then bo_buildingId rq
        else if singleBuildingId (bo_buildingIds rq) \<noteq> None then singleBuildingId (bo_buildingIds rq)
        else case pr_slotId rq of Some i \<Rightarrow> findScoped (st_parkingSlots st) i org | None \<Rightarrow>
        (case pr_allocationId rq of Some i \<Rightarrow> findScoped (st_parkingAllocations st) i org | None \<Rightarrow>
        (case pr_vehicleId rq of Some i \<Rightarrow> findVehicleBuildingId s st i org | None \<Rightarrow>
        (case pr_occupancyId rq of Some i \<Rightarrow> findOccupancyBuildingId s i org | None \<Rightarrow>
        (case pr_unitId rq of Some i \<Rightarrow> findUnitBuildingId s i org | None \<Rightarrow>
        (case pr_leaseId rq of Some i \<Rightarrow> findScoped (st_leases st) i org | None \<Rightarrow>
        (case pr_contractId rq of Some i \<Rightarrow> findScoped (st_leases st) i org | None \<Rightarrow>
        (case pr_requestId rq of Some i \<Rightarrow> findRequestBuildingId s st i org rq | None \<Rightarrow>
        (case pr_id rq of Some i \<Rightarrow> findEntityBuildingId st i org rq | None \<Rightarrow> None)))))))))"

section \<open>Guards\<close>

text \<open>
  \<^verbatim>\<open>PermissionsGuard.canActivate\<close>: the metadata of the route (required permissions, whether
  permissions from any scope count), the user, and the permission set an earlier guard may
  have left on the request. The result is the permission set the request carries on.
\<close>

definition permissionsGuard ::
  "db \<Rightarrow> scope_tables \<Rightarrow> string list \<Rightarrow> bool \<Rightarrow> principal \<Rightarrow> scope_lookup \<Rightarrow> string set option
   \<Rightarrow> (string set option) res" where
  "permissionsGuard s st perms anyScope u rq eff0 =
     (if perms = [] then Inr eff0
      else andThen (requireUserId u) (\<lambda>userId.
        let eff = (case eff0 of
                     Some E \<Rightarrow> Some E
                   | None \<Rightarrow> Some (getUserEffectivePermissions s userId (user_org u)
                                     (resolveForRequest s st rq (user_org u)) False));
            effAny = Some (getUserEffectivePermissionsAcrossAnyScope s userId (user_org u))
        in if hasAllPermissionMatches eff perms then Inr eff
           else if anyScope \<and> hasAllPermissionMatches effAny perms then Inr effAny
           else Inl (Forbidden ''Missing required permissions'')))"

datatype access_level = AL_READ | AL_WRITE

definition buildingAccessGuard ::
  "db \<Rightarrow> access_level option \<Rightarrow> string list \<Rightarrow> bool \<Rightarrow> principal \<Rightarrow> string option \<Rightarrow> string set option
   \<Rightarrow> bool res" where
  "buildingAccessGuard s level perms allowResident u bldg eff =
     (case level of
        None \<Rightarrow> Inr True
      | Some l \<Rightarrow>
          if \<not> truthy bldg then Inl (BadRequest ''buildingId is required'')
          else if \<not> truthy (user_sub u) then Inl (Unauthorized ''Unauthorized'')
          else andThen
            (if l = AL_READ
             then canReadBuildingResource s u (the bldg)
                    \<lparr> ao_requiredPermissions = perms, ao_allowResident = allowResident,
                      ao_effectivePermissions = eff \<rparr>
             else canWriteBuildingResource s u (the bldg)
                    \<lparr> ao_requiredPermissions = perms, ao_allowResident = False,
                      ao_effectivePermissions = eff \<rparr>)
            (\<lambda>allowed. if \<not> allowed then Inl (Forbidden ''Forbidden'') else Inr True))"

section \<open>Lemmas\<close>

lemma assertBuildingInOrg_Inr:
  "assertBuildingInOrg s bldg org = Inr b \<Longrightarrow>
   b \<in> set (buildings s) \<and> bd_id b = bldg \<and> bd_orgId b = org \<and> org \<noteq> []"
  by (auto simp: assertBuildingInOrg_def find_Some_iff split: if_splits)

lemma assertBuildingInOrg_in_org:
  "assertBuildingInOrg s bldg org = Inr b \<Longrightarrow> buildingInOrg s bldg org"
  by (auto dest!: assertBuildingInOrg_Inr simp: buildingInOrg_def list_ex_iff)

lemma find_SomeD:
  assumes "List.find P xs = Some x"
  shows "x \<in> set xs" and "P x"
  using assms by (auto simp: find_Some_iff)

lemma findOccupancyBuildingId_in_org:
  "findOccupancyBuildingId s i org = Some b \<Longrightarrow> buildingInOrg s b org"
  by (auto simp: findOccupancyBuildingId_def dest: find_SomeD)

lemma findUnitBuildingId_in_org:
  "findUnitBuildingId s i org = Some b \<Longrightarrow> buildingInOrg s b org"
  by (auto simp: findUnitBuildingId_def dest: find_SomeD)

lemma findVehicleBuildingId_in_org:
  "findVehicleBuildingId s st i org = Some b \<Longrightarrow> buildingInOrg s b org"
  by (auto simp: findVehicleBuildingId_def split: option.splits dest: findOccupancyBuildingId_in_org)

end
