(* ===== verification/RequestPolicy.thy ===== *)
theory RequestPolicy
  imports Schema
begin

text \<open>
  The triage policy of maintenance requests (\<^verbatim>\<open>maintenance-request-policy.ts\<close> and
  \<^verbatim>\<open>maintenance-requests.constants.ts\<close>): the route a request takes, the recommendation and
  summary derived from it, the overdue rule, and the work queue a request is shown in.

  The route is compared with a decision table over the facts it depends on
  (\<open>route_table\<close>), and the primary queue with the list of queues in order of priority.
\<close>

section \<open>Constants\<close>

datatype policy_route = DIRECT_ASSIGN | EMERGENCY_DISPATCH | NEEDS_ESTIMATE | OWNER_APPROVAL_REQUIRED

datatype policy_recommendation =
  PROCEED_NOW | GET_ESTIMATE | REQUEST_OWNER_APPROVAL | PROCEED_AND_NOTIFY

datatype request_queue =
    Q_NEW | Q_NEEDS_ESTIMATE | Q_AWAITING_ESTIMATE | Q_AWAITING_OWNER | Q_READY_TO_ASSIGN
  | Q_ASSIGNED | Q_IN_PROGRESS | Q_OVERDUE

fun MAINTENANCE_STATUS_TRANSITIONS :: "req_status \<Rightarrow> req_status list" where
  "MAINTENANCE_STATUS_TRANSITIONS OPEN = [ASSIGNED]"
| "MAINTENANCE_STATUS_TRANSITIONS ASSIGNED = [IN_PROGRESS]"
| "MAINTENANCE_STATUS_TRANSITIONS IN_PROGRESS = [COMPLETED]"
| "MAINTENANCE_STATUS_TRANSITIONS COMPLETED = []"
| "MAINTENANCE_STATUS_TRANSITIONS CANCELED = []"

definition OWNER_APPROVAL_BLOCKING_STATUSES :: "approval_status list" where
  "OWNER_APPROVAL_BLOCKING_STATUSES = [PENDING, REJECTED]"

definition MAINTENANCE_REQUEST_OVERDUE_HOURS :: int where
  "MAINTENANCE_REQUEST_OVERDUE_HOURS = 72"

definition EMERGENCY_KEYWORDS :: "string list" where
  "EMERGENCY_KEYWORDS =
   [''water leak'', ''leak causing damage'', ''flood'', ''flooding'', ''burst pipe'', ''sewage'',
    ''backup'', ''electrical hazard'', ''sparking'', ''spark'', ''fire'', ''smoke'', ''gas leak'',
    ''no power'', ''power outage'', ''security risk'', ''unsafe'']"

definition DIRECT_ASSIGN_KEYWORDS :: "string list" where
  "DIRECT_ASSIGN_KEYWORDS =
   [''light bulb'', ''bulb out'', ''switch plate'', ''faceplate'', ''door jammed'', ''door handle'',
    ''lock repair'', ''handle repair'', ''dripping faucet'', ''faucet drip'', ''minor leak'',
    ''small leak'', ''touch up'', ''touch-up'']"

section \<open>The policy input\<close>

record policy_input =
  pi_status :: "req_status option"
  pi_ownerApprovalStatus :: "approval_status option"
  pi_estimateStatus :: "estimate_status option"
  pi_estimatedAmount :: "rat option"
  pi_isEmergency :: "bool option"
  pi_emergencySignals :: "emergency_signal list option"
  pi_isLikeForLike :: "bool option"
  pi_isUpgrade :: "bool option"
  pi_isMajorReplacement :: "bool option"
  pi_isResponsibilityDisputed :: "bool option"
  pi_createdAt :: "int option"
  pi_title :: "string option"
  pi_description :: "string option"
  pi_type :: "string option"
  pi_priority :: "string option"

text \<open>A request row passed where the source expects a policy input.\<close>

definition policy_input_of :: "maintenance_request \<Rightarrow> policy_input" where
  "policy_input_of r =
     \<lparr> pi_status = Some (mr_status r),
       pi_ownerApprovalStatus = Some (mr_ownerApprovalStatus r),
       pi_estimateStatus = Some (mr_estimateStatus r),
       pi_estimatedAmount = mr_estimatedAmount r,
       pi_isEmergency = Some (mr_isEmergency r),
       pi_emergencySignals = Some (mr_emergencySignals r),
       pi_isLikeForLike = mr_isLikeForLike r,
       pi_isUpgrade = mr_isUpgrade r,
       pi_isMajorReplacement = mr_isMajorReplacement r,
       pi_isResponsibilityDisputed = mr_isResponsibilityDisputed r,
       pi_createdAt = Some (mr_createdAt r),
       pi_title = Some (mr_title r),
       pi_description = mr_description r,
       pi_type = map_option req_type_str (mr_type r),
       pi_priority = map_option req_priority_str (mr_priority r) \<rparr>"

section \<open>Signals\<close>

text \<open>
  \<^verbatim>\<open>toNumber\<close>: a missing amount is null; an amount is a finite number (a decimal column or a
  validated body field), so the finiteness test always succeeds.
\<close>

definition toNumber :: "rat option \<Rightarrow> rat option" where
  "toNumber amount = (case amount of None \<Rightarrow> None | Some a \<Rightarrow> Some a)"

definition normalizeText :: "policy_input \<Rightarrow> string" where
  "normalizeText i =
     collapse_ws (toLowerCase (trim
       (nullish (pi_title i) [] @ '' '' @ nullish (pi_description i) [])))"

definition hasAnyKeyword :: "string \<Rightarrow> string list \<Rightarrow> bool" where
  "hasAnyKeyword text keywords = list_ex (includesStr text) keywords"

definition inferEmergencyFromIntake :: "policy_input \<Rightarrow> bool" where
  "inferEmergencyFromIntake i = hasAnyKeyword (normalizeText i) EMERGENCY_KEYWORDS"

definition hasEmergencySignals :: "policy_input \<Rightarrow> bool" where
  "hasEmergencySignals i = (case pi_emergencySignals i of None \<Rightarrow> False | Some es \<Rightarrow> es \<noteq> [])"

definition inferDirectAssignFromIntake :: "policy_input \<Rightarrow> bool" where
  "inferDirectAssignFromIntake i =
     (let type = map_option (toUpperCase \<circ> trim) (pi_type i);
          priority = map_option (toUpperCase \<circ> trim) (pi_priority i);
          text = normalizeText i
      in if hasAnyKeyword text DIRECT_ASSIGN_KEYWORDS then True
         else if type = Some ''CLEANING'' \<and> priority \<noteq> Some ''HIGH'' then True
         else if type = Some ''ELECTRICAL''
           \<and> (includesStr text ''light'' \<or> includesStr text ''bulb'' \<or> includesStr text ''switch'')
           then True
         else if type = Some ''PLUMBING_AC_HEATING''
           \<and> (includesStr text ''faucet'' \<or> includesStr text ''drip'') then True
         else if type = Some ''MAINTENANCE''
           \<and> (includesStr text ''lock'' \<or> includesStr text ''handle'' \<or> includesStr text ''door'')
           then True
         else False)"

section \<open>Route, recommendation, summary\<close>

definition emergency_indicated :: "policy_input \<Rightarrow> bool" where
  "emergency_indicated i =
     (pi_isEmergency i = Some True \<or> hasEmergencySignals i \<or> inferEmergencyFromIntake i)"

definition getMaintenanceRequestPolicyRoute :: "policy_input \<Rightarrow> policy_route" where
  "getMaintenanceRequestPolicyRoute i =
     (let ownerApprovalStatus = nullish (pi_ownerApprovalStatus i) NOT_REQUIRED;
          estimateStatus = nullish (pi_estimateStatus i) NOT_REQUESTED;
          estimatedAmount = toNumber (pi_estimatedAmount i)
      in if estimateStatus = REQUESTED then NEEDS_ESTIMATE
         else if ownerApprovalStatus = PENDING \<or> ownerApprovalStatus = REJECTED
           then OWNER_APPROVAL_REQUIRED
         else if ownerApprovalStatus = APPROVED
           then (if emergency_indicated i then EMERGENCY_DISPATCH else DIRECT_ASSIGN)
         else if emergency_indicated i then EMERGENCY_DISPATCH
         else if pi_isUpgrade i = Some True \<or> pi_isMajorReplacement i = Some True
              \<or> pi_isResponsibilityDisputed i = Some True
           then OWNER_APPROVAL_REQUIRED
         else if pi_isLikeForLike i = Some False then OWNER_APPROVAL_REQUIRED
         else case estimatedAmount of
             Some a \<Rightarrow> if a > 1000 then OWNER_APPROVAL_REQUIRED else DIRECT_ASSIGN
           | None \<Rightarrow>
               if pi_isLikeForLike i = Some True \<or> inferDirectAssignFromIntake i
               then DIRECT_ASSIGN
               else NEEDS_ESTIMATE)"

definition getMaintenanceRequestPolicyRecommendation :: "policy_input \<Rightarrow> policy_recommendation" where
  "getMaintenanceRequestPolicyRecommendation i =
     (case getMaintenanceRequestPolicyRoute i of
        DIRECT_ASSIGN \<Rightarrow> PROCEED_NOW
      | EMERGENCY_DISPATCH \<Rightarrow> PROCEED_AND_NOTIFY
      | OWNER_APPROVAL_REQUIRED \<Rightarrow> REQUEST_OWNER_APPROVAL
      | NEEDS_ESTIMATE \<Rightarrow> GET_ESTIMATE)"

definition getMaintenanceRequestPolicySummary :: "policy_input \<Rightarrow> string" where
  "getMaintenanceRequestPolicySummary i =
     (let estimateStatus = nullish (pi_estimateStatus i) NOT_REQUESTED
      in case getMaintenanceRequestPolicyRoute i of
           DIRECT_ASSIGN \<Rightarrow> ''Ready to assign based on current policy signals.''
         | EMERGENCY_DISPATCH \<Rightarrow>
             ''Emergency indicators suggest immediate dispatch and owner notification.''
         | OWNER_APPROVAL_REQUIRED \<Rightarrow>
             ''Owner approval is required before execution can proceed.''
         | NEEDS_ESTIMATE \<Rightarrow>
             if estimateStatus = REQUESTED
             then ''Estimate has been requested and execution is waiting on provider pricing.''
             else ''Estimate is needed because the current scope or cost is still unclear.'')"

section \<open>Queues\<close>

definition isMaintenanceRequestOverdue :: "policy_input \<Rightarrow> int \<Rightarrow> bool" where
  "isMaintenanceRequestOverdue i now =
     (case pi_createdAt i of
        None \<Rightarrow> False
      | Some created \<Rightarrow>
          if \<not> (\<exists>st \<in> set [OPEN, ASSIGNED, IN_PROGRESS]. pi_status i = Some st) then False
          else let overdueBefore = now - MAINTENANCE_REQUEST_OVERDUE_HOURS * 60 * 60 * 1000
               in created \<le> overdueBefore)"

fun matchesMaintenanceRequestQueue :: "request_queue \<Rightarrow> policy_input \<Rightarrow> int \<Rightarrow> bool" where
  "matchesMaintenanceRequestQueue Q_NEW i now =
     (pi_status i = Some OPEN
      \<and> nullish (pi_ownerApprovalStatus i) NOT_REQUIRED = NOT_REQUIRED
      \<and> getMaintenanceRequestPolicyRoute i \<noteq> NEEDS_ESTIMATE
      \<and> \<not> List.member [DIRECT_ASSIGN, EMERGENCY_DISPATCH] (getMaintenanceRequestPolicyRoute i))"
| "matchesMaintenanceRequestQueue Q_NEEDS_ESTIMATE i now =
     (nullish (pi_ownerApprovalStatus i) NOT_REQUIRED = NOT_REQUIRED
      \<and> getMaintenanceRequestPolicyRoute i = NEEDS_ESTIMATE
      \<and> nullish (pi_estimateStatus i) NOT_REQUESTED \<noteq> REQUESTED
      \<and> pi_status i = Some OPEN)"
| "matchesMaintenanceRequestQueue Q_AWAITING_ESTIMATE i now =
     (nullish (pi_ownerApprovalStatus i) NOT_REQUIRED = NOT_REQUIRED
      \<and> getMaintenanceRequestPolicyRoute i = NEEDS_ESTIMATE
      \<and> nullish (pi_estimateStatus i) NOT_REQUESTED = REQUESTED)"
| "matchesMaintenanceRequestQueue Q_AWAITING_OWNER i now =
     (nullish (pi_ownerApprovalStatus i) NOT_REQUIRED = PENDING)"
| "matchesMaintenanceRequestQueue Q_READY_TO_ASSIGN i now =
     (pi_status i = Some OPEN
      \<and> nullish (pi_ownerApprovalStatus i) NOT_REQUIRED \<noteq> PENDING
      \<and> nullish (pi_ownerApprovalStatus i) NOT_REQUIRED \<noteq> REJECTED
      \<and> List.member [DIRECT_ASSIGN, EMERGENCY_DISPATCH] (getMaintenanceRequestPolicyRoute i))"
| "matchesMaintenanceRequestQueue Q_ASSIGNED i now = (pi_status i = Some ASSIGNED)"
| "matchesMaintenanceRequestQueue Q_IN_PROGRESS i now = (pi_status i = Some IN_PROGRESS)"
| "matchesMaintenanceRequestQueue Q_OVERDUE i now = isMaintenanceRequestOverdue i now"

definition getPrimaryMaintenanceRequestQueue :: "policy_input \<Rightarrow> int \<Rightarrow> request_queue option" where
  "getPrimaryMaintenanceRequestQueue i now =
     (if matchesMaintenanceRequestQueue Q_OVERDUE i now then Some Q_OVERDUE
      else if matchesMaintenanceRequestQueue Q_AWAITING_OWNER i now then Some Q_AWAITING_OWNER
      else if matchesMaintenanceRequestQueue Q_AWAITING_ESTIMATE i now then Some Q_AWAITING_ESTIMATE
      else if matchesMaintenanceRequestQueue Q_NEEDS_ESTIMATE i now then Some Q_NEEDS_ESTIMATE
      else if matchesMaintenanceRequestQueue Q_IN_PROGRESS i now then Some Q_IN_PROGRESS
      else if matchesMaintenanceRequestQueue Q_ASSIGNED i now then Some Q_ASSIGNED
      else if matchesMaintenanceRequestQueue Q_READY_TO_ASSIGN i now then Some Q_READY_TO_ASSIGN
      else if matchesMaintenanceRequestQueue Q_NEW i now then Some Q_NEW
      else None)"

section \<open>The route as a decision table\<close>

text \<open>
  The specification: each route by the exact condition under which policy asks for it,
  with no order of evaluation. \<open>scope_needs_owner\<close> and \<open>cost_needs_owner\<close> are the
  reasons a request with no decision and no emergency needs its owner.
\<close>

definition scope_needs_owner :: "policy_input \<Rightarrow> bool" where
  "scope_needs_owner i \<longleftrightarrow>
     Some True \<in> {pi_isUpgrade i, pi_isMajorReplacement i, pi_isResponsibilityDisputed i}
     \<or> pi_isLikeForLike i = Some False"

definition cost_needs_owner :: "policy_input \<Rightarrow> bool" where
  "cost_needs_owner i \<longleftrightarrow> (\<exists>a. pi_estimatedAmount i = Some a \<and> a > 1000)"

definition scope_is_clear :: "policy_input \<Rightarrow> bool" where
  "scope_is_clear i \<longleftrightarrow>
     pi_estimatedAmount i \<noteq> None \<or> pi_isLikeForLike i = Some True \<or> inferDirectAssignFromIntake i"

abbreviation approval_of :: "policy_input \<Rightarrow> approval_status" where
  "approval_of i \<equiv> nullish (pi_ownerApprovalStatus i) NOT_REQUIRED"

abbreviation estimate_of :: "policy_input \<Rightarrow> estimate_status" where
  "estimate_of i \<equiv> nullish (pi_estimateStatus i) NOT_REQUESTED"

definition route_table :: "policy_input \<Rightarrow> policy_route \<Rightarrow> bool" where
  "route_table i route \<longleftrightarrow>
     (case route of
        NEEDS_ESTIMATE \<Rightarrow>
          estimate_of i = REQUESTED
          \<or> (approval_of i = NOT_REQUIRED \<and> \<not> emergency_indicated i
             \<and> \<not> scope_needs_owner i \<and> \<not> scope_is_clear i)
      | OWNER_APPROVAL_REQUIRED \<Rightarrow>
          estimate_of i \<noteq> REQUESTED
          \<and> (approval_of i = PENDING \<or> approval_of i = REJECTED
             \<or> (approval_of i = NOT_REQUIRED \<and> \<not> emergency_indicated i
                \<and> (scope_needs_owner i \<or> cost_needs_owner i)))
      | EMERGENCY_DISPATCH \<Rightarrow>
          estimate_of i \<noteq> REQUESTED \<and> approval_of i \<in> {NOT_REQUIRED, APPROVED}
          \<and> emergency_indicated i
      | DIRECT_ASSIGN \<Rightarrow>
          estimate_of i \<noteq> REQUESTED \<and> \<not> emergency_indicated i
          \<and> (approval_of i = APPROVED
             \<or> (approval_of i = NOT_REQUIRED \<and> \<not> scope_needs_owner i
                \<and> \<not> cost_needs_owner i \<and> scope_is_clear i)))"

lemma approval_cases: "a = NOT_REQUIRED \<or> a = PENDING \<or> a = APPROVED \<or> a = REJECTED"
  by (cases a) auto

lemma route_satisfies_table: "route_table i (getMaintenanceRequestPolicyRoute i)"
  using approval_cases [of "approval_of i"]
  by (auto simp: getMaintenanceRequestPolicyRoute_def Let_def route_table_def toNumber_def
        scope_needs_owner_def cost_needs_owner_def scope_is_clear_def split: option.splits)

lemma route_table_unique: "route_table i p \<Longrightarrow> route_table i q \<Longrightarrow> p = q"
  by (cases p; cases q)
    (auto simp: route_table_def scope_is_clear_def cost_needs_owner_def)

lemma route_iff_table: "getMaintenanceRequestPolicyRoute i = p \<longleftrightarrow> route_table i p"
  using route_satisfies_table route_table_unique by blast

section \<open>The primary queue as a priority list\<close>

definition queue_priority :: "request_queue list" where
  "queue_priority =
     [Q_OVERDUE, Q_AWAITING_OWNER, Q_AWAITING_ESTIMATE, Q_NEEDS_ESTIMATE, Q_IN_PROGRESS,
      Q_ASSIGNED, Q_READY_TO_ASSIGN, Q_NEW]"

lemma queue_priority_all: "q \<in> set queue_priority"
  by (cases q) (simp_all add: queue_priority_def)

lemma primary_queue_find:
  "getPrimaryMaintenanceRequestQueue i now
   = List.find (\<lambda>q. matchesMaintenanceRequestQueue q i now) queue_priority"
  by (simp only: getPrimaryMaintenanceRequestQueue_def queue_priority_def find.simps)

lemma primary_queue_None:
  "getPrimaryMaintenanceRequestQueue i now = None
   \<longleftrightarrow> (\<forall>q. \<not> matchesMaintenanceRequestQueue q i now)"
  using queue_priority_all by (auto simp: primary_queue_find find_None_iff)

lemma open_request_queue:
  assumes "pi_status i = Some OPEN"
  shows "(\<exists>q. matchesMaintenanceRequestQueue q i now)
         \<longleftrightarrow> isMaintenanceRequestOverdue i now
             \<or> approval_of i \<in> {NOT_REQUIRED, PENDING}
             \<or> (approval_of i = APPROVED \<and> estimate_of i \<noteq> REQUESTED)" (is "?L \<longleftrightarrow> ?R")
proof
  assume ?L
  then obtain q where "matchesMaintenanceRequestQueue q i now" ..
  then show ?R using assms approval_cases [of "approval_of i"]
    by (cases q) (auto simp: route_iff_table route_table_def)
next
  assume ?R
  then consider "isMaintenanceRequestOverdue i now" | "approval_of i = PENDING"
    | "approval_of i = NOT_REQUIRED" | "approval_of i = APPROVED" "estimate_of i \<noteq> REQUESTED"
    by blast
  then show ?L
  proof cases
    case 1 then show ?thesis by (intro exI [of _ Q_OVERDUE]) simp
  next
    case 2 then show ?thesis by (intro exI [of _ Q_AWAITING_OWNER]) simp
  next
    case 3
    have "matchesMaintenanceRequestQueue
            (case getMaintenanceRequestPolicyRoute i of
               NEEDS_ESTIMATE \<Rightarrow> if estimate_of i = REQUESTED then Q_AWAITING_ESTIMATE
                                 else Q_NEEDS_ESTIMATE
             | OWNER_APPROVAL_REQUIRED \<Rightarrow> Q_NEW | _ \<Rightarrow> Q_READY_TO_ASSIGN) i now"
      using assms 3 by (cases "getMaintenanceRequestPolicyRoute i") auto
    then show ?thesis ..
  next
    case 4
    then have "getMaintenanceRequestPolicyRoute i \<in> {DIRECT_ASSIGN, EMERGENCY_DISPATCH}"
      by (auto simp: getMaintenanceRequestPolicyRoute_def)
    with 4 assms show ?thesis by (intro exI [of _ Q_READY_TO_ASSIGN]) auto
  qed
qed

end
