(* ===== verification/RequestCore.thy ===== *)
theory RequestCore
  imports BuildingAccess RequestPolicy
begin

text \<open>
  What the maintenance request handlers share: the repository
  (\<^verbatim>\<open>maintenance-requests.repo.ts\<close>), the provider access service, and the private helpers
  of \<^verbatim>\<open>maintenance-requests.service.ts\<close> (access contexts, execution lock, triage data,
  audit rows, event snapshots). The handlers are in the theories RequestBuilding,
  RequestResident, RequestProvider and RequestOwner.

  The time of a handler is its argument \<open>now\<close>: the source reads the clock once or more
  while it runs, the model reads it once. Identifiers the database generates are
  arguments too. A handler returns its result and the next database; its writes are one
  transaction, so a handler that raises leaves the database as it was.
\<close>

section \<open>The repository\<close>

definition findByIdForCreator :: "db \<Rightarrow> string \<Rightarrow> string \<Rightarrow> string \<Rightarrow> maintenance_request option" where
  "findByIdForCreator s org userId rid =
     List.find (\<lambda>r. mr_id r = rid \<and> mr_orgId r = org \<and> mr_createdByUserId r = userId) (requests s)"

definition findByIdForBuilding :: "db \<Rightarrow> string \<Rightarrow> string \<Rightarrow> string \<Rightarrow> maintenance_request option" where
  "findByIdForBuilding s org bldg rid =
     List.find (\<lambda>r. mr_id r = rid \<and> mr_orgId r = org \<and> mr_buildingId r = bldg) (requests s)"

definition in_providers :: "string option \<Rightarrow> string set \<Rightarrow> bool" where
  "in_providers p ps = (case p of None \<Rightarrow> False | Some i \<Rightarrow> i \<in> ps)"

definition findByIdForServiceProviders ::
  "db \<Rightarrow> string option \<Rightarrow> string set \<Rightarrow> string \<Rightarrow> maintenance_request option" where
  "findByIdForServiceProviders s org providers rid =
     List.find (\<lambda>r. mr_id r = rid \<and> (truthy org \<longrightarrow> Some (mr_orgId r) = org)
                    \<and> in_providers (mr_serviceProviderId r) providers) (requests s)"

definition updateById ::
  "db \<Rightarrow> string \<Rightarrow> (maintenance_request \<Rightarrow> maintenance_request) \<Rightarrow> (maintenance_request \<times> db) res" where
  "updateById s rid f =
     (case find_by mr_id rid (requests s) of
        None \<Rightarrow> Inl RecordNotFound
      | Some r \<Rightarrow> Inr (f r, s\<lparr>requests := modify_by mr_id rid f (requests s)\<rparr>))"

record attachment_input =
  ai_orgId :: string
  ai_uploadedByUserId :: string
  ai_fileName :: string
  ai_mimeType :: string
  ai_sizeBytes :: int
  ai_url :: string

definition attachment_of :: "string \<Rightarrow> attachment_input \<Rightarrow> attachment_row" where
  "attachment_of rid a =
     \<lparr> at_requestId = rid, at_orgId = ai_orgId a, at_uploadedByUserId = ai_uploadedByUserId a,
       at_fileName = ai_fileName a, at_mimeType = ai_mimeType a, at_sizeBytes = ai_sizeBytes a,
       at_url = ai_url a \<rparr>"

definition createAttachments :: "db \<Rightarrow> string \<Rightarrow> attachment_input list \<Rightarrow> db" where
  "createAttachments s rid as =
     (if as = [] then s
      else s\<lparr>attachments := attachments s @ map (attachment_of rid) as\<rparr>)"

definition createRequestWithAttachments ::
  "db \<Rightarrow> maintenance_request \<Rightarrow> attachment_input list \<Rightarrow> (maintenance_request \<times> db) res" where
  "createRequestWithAttachments s r as =
     (if find_by mr_id (mr_id r) (requests s) \<noteq> None then Inl UniqueViolation
      else Inr (r, createAttachments (s\<lparr>requests := requests s @ [r]\<rparr>) (mr_id r) as))"

definition createdDesc :: "maintenance_request list \<Rightarrow> maintenance_request list" where
  "createdDesc rs = rev (sort_key mr_createdAt rs)"

definition listByCreator :: "db \<Rightarrow> string \<Rightarrow> string \<Rightarrow> maintenance_request list" where
  "listByCreator s org userId =
     createdDesc (filter (\<lambda>r. mr_orgId r = org \<and> mr_createdByUserId r = userId) (requests s))"

definition listByBuilding ::
  "db \<Rightarrow> string \<Rightarrow> string \<Rightarrow> req_status option \<Rightarrow> string option \<Rightarrow> maintenance_request list" where
  "listByBuilding s org bldg st assignee =
     createdDesc (filter (\<lambda>r. mr_orgId r = org \<and> mr_buildingId r = bldg
        \<and> (st \<noteq> None \<longrightarrow> Some (mr_status r) = st)
        \<and> (truthy assignee \<longrightarrow> mr_assignedToUserId r = assignee)) (requests s))"

definition listByServiceProviders ::
  "db \<Rightarrow> string option \<Rightarrow> string set \<Rightarrow> req_status option \<Rightarrow> maintenance_request list" where
  "listByServiceProviders s org providers st =
     createdDesc (filter (\<lambda>r. (truthy org \<longrightarrow> Some (mr_orgId r) = org)
        \<and> in_providers (mr_serviceProviderId r) providers
        \<and> (st \<noteq> None \<longrightarrow> Some (mr_status r) = st)) (requests s))"

definition createComment :: "db \<Rightarrow> comment_row \<Rightarrow> (comment_row \<times> db) res" where
  "createComment s c =
     (if find_by cm_id (cm_id c) (comments s) \<noteq> None then Inl UniqueViolation
      else Inr (c, s\<lparr>comments := comments s @ [c]\<rparr>))"

definition listComments ::
  "db \<Rightarrow> string option \<Rightarrow> string \<Rightarrow> comment_visibility option \<Rightarrow> comment_row list" where
  "listComments s org rid vis =
     sort_key cm_createdAt (filter (\<lambda>c. (truthy org \<longrightarrow> Some (cm_orgId c) = org)
        \<and> cm_requestId c = rid \<and> (vis \<noteq> None \<longrightarrow> Some (cm_visibility c) = vis)) (comments s))"

definition listCommentTimestamps ::
  "db \<Rightarrow> string option \<Rightarrow> string list \<Rightarrow> string \<Rightarrow> comment_visibility option \<Rightarrow> (string \<times> int) list" where
  "listCommentTimestamps s org rids excludingAuthor vis =
     (if rids = [] then []
      else map (\<lambda>c. (cm_requestId c, cm_createdAt c))
        (filter (\<lambda>c. (truthy org \<longrightarrow> Some (cm_orgId c) = org)
           \<and> List.member rids (cm_requestId c) \<and> cm_authorUserId c \<noteq> excludingAuthor
           \<and> (vis \<noteq> None \<longrightarrow> Some (cm_visibility c) = vis)) (comments s)))"

definition listCommentReadStates ::
  "db \<Rightarrow> string \<Rightarrow> string list \<Rightarrow> read_scope \<Rightarrow> (string \<times> int) list" where
  "listCommentReadStates s userId rids scope =
     (if rids = [] then []
      else map (\<lambda>x. (rs_requestId x, rs_lastReadAt x))
        (filter (\<lambda>x. rs_userId x = userId \<and> List.member rids (rs_requestId x) \<and> rs_scope x = scope)
           (commentReadStates s)))"

definition rs_key :: "read_state \<Rightarrow> string \<times> string \<times> read_scope" where
  "rs_key x = (rs_userId x, rs_requestId x, rs_scope x)"

definition upsertCommentReadState :: "db \<Rightarrow> string \<Rightarrow> string \<Rightarrow> read_scope \<Rightarrow> int \<Rightarrow> db" where
  "upsertCommentReadState s userId rid scope lastReadAt =
     (if find_by rs_key (userId, rid, scope) (commentReadStates s) \<noteq> None
      then s\<lparr>commentReadStates := modify_by rs_key (userId, rid, scope)
               (\<lambda>x. x\<lparr>rs_lastReadAt := lastReadAt\<rparr>) (commentReadStates s)\<rparr>
      else s\<lparr>commentReadStates := commentReadStates s @
               [\<lparr> rs_userId = userId, rs_requestId = rid, rs_scope = scope,
                  rs_lastReadAt = lastReadAt \<rparr>]\<rparr>)"

text \<open>
  \<^verbatim>\<open>findFirst\<close> with \<^verbatim>\<open>orderBy: [startAt desc, createdAt desc, id desc]\<close>: the greatest row in
  that order.
\<close>

definition findAssignedActiveOccupancy :: "db \<Rightarrow> string \<Rightarrow> string \<Rightarrow> occupancy_row option" where
  "findAssignedActiveOccupancy s userId org =
     (case rev (sort_key (\<lambda>oc. (oc_startAt oc, oc_createdAt oc, oc_id oc))
         (filter (\<lambda>oc. oc_residentUserId oc = userId \<and> oc_status oc = OC_ACTIVE
                   \<and> buildingInOrg s (oc_buildingId oc) org) (occupancies s))) of
        [] \<Rightarrow> None
      | oc # _ \<Rightarrow> Some oc)"

definition findUserById :: "db \<Rightarrow> string \<Rightarrow> user_row option" where
  "findUserById s userId = find_by us_id userId (users s)"

definition findBuildingScopedAssignmentsForUser ::
  "db \<Rightarrow> string \<Rightarrow> string \<Rightarrow> string \<Rightarrow> access_assignment list" where
  "findBuildingScopedAssignmentsForUser s bldg userId org =
     filter (\<lambda>a. ua_userId a = userId \<and> ua_scopeType a = SC_BUILDING \<and> ua_scopeId a = Some bldg
        \<and> template_sat s a (\<lambda>t. rt_orgId t = Some org \<and> rt_scopeType t = SC_BUILDING))
       (accessAssignments s)"

definition findServiceProviderById :: "db \<Rightarrow> string \<Rightarrow> provider_row option" where
  "findServiceProviderById s p = find_by sp_id p (serviceProviders s)"

definition findServiceProviderBuildingLink :: "db \<Rightarrow> string \<Rightarrow> string \<Rightarrow> provider_building option" where
  "findServiceProviderBuildingLink s p bldg =
     List.find (\<lambda>l. sb_serviceProviderId l = p \<and> sb_buildingId l = bldg) (providerBuildings s)"

definition findServiceProviderUserMembership :: "db \<Rightarrow> string \<Rightarrow> string \<Rightarrow> provider_user option" where
  "findServiceProviderUserMembership s p userId =
     List.find (\<lambda>m. su_serviceProviderId m = p \<and> su_userId m = userId) (providerUsers s)"

definition user_active :: "db \<Rightarrow> string \<Rightarrow> bool" where
  "user_active s userId = (case findUserById s userId of None \<Rightarrow> False | Some x \<Rightarrow> us_isActive x)"

definition provider_active :: "db \<Rightarrow> string \<Rightarrow> bool" where
  "provider_active s p = (case findServiceProviderById s p of None \<Rightarrow> False | Some x \<Rightarrow> sp_isActive x)"

definition reminder_due :: "int \<Rightarrow> maintenance_request \<Rightarrow> bool" where
  "reminder_due now r \<longleftrightarrow>
     mr_estimateStatus r = REQUESTED
     \<and> (case mr_estimateDueAt r of None \<Rightarrow> False | Some d \<Rightarrow> d \<le> now)
     \<and> mr_estimateReminderSentAt r = None
     \<and> mr_status r \<noteq> COMPLETED \<and> mr_status r \<noteq> CANCELED"

definition listPendingEstimateReminderRequests :: "db \<Rightarrow> int \<Rightarrow> nat \<Rightarrow> maintenance_request list" where
  "listPendingEstimateReminderRequests s now limit =
     take limit (sort_key (\<lambda>r. the (mr_estimateDueAt r)) (filter (reminder_due now) (requests s)))"

definition markEstimateReminderSentIfPending :: "db \<Rightarrow> string \<Rightarrow> int \<Rightarrow> nat \<times> db" where
  "markEstimateReminderSentIfPending s rid now =
     (length (filter (\<lambda>r. mr_id r = rid \<and> reminder_due now r) (requests s)),
      s\<lparr>requests := map (\<lambda>r. if mr_id r = rid \<and> reminder_due now r
                             then r\<lparr>mr_estimateReminderSentAt := Some now\<rparr> else r) (requests s)\<rparr>)"

section \<open>Provider access\<close>

definition grantsOf :: "db \<Rightarrow> string \<Rightarrow> provider_user \<Rightarrow> provider_grant list" where
  "grantsOf s userId m =
     filter (\<lambda>g. sg_serviceProviderId g = su_serviceProviderId m \<and> sg_userId g = Some userId)
       (providerGrants s)"

text \<open>A membership counts unless the user has grants for the provider and none is active.\<close>

definition membershipAccessible :: "db \<Rightarrow> string \<Rightarrow> provider_user \<Rightarrow> bool" where
  "membershipAccessible s userId m =
     (let grants = grantsOf s userId m;
          hasActiveGrant = list_ex (\<lambda>g. sg_status g = GR_ACTIVE) grants;
          requiresGrant = (grants \<noteq> [])
      in \<not> (requiresGrant \<and> \<not> hasActiveGrant))"

definition findActiveMembershipsForUser :: "db \<Rightarrow> string \<Rightarrow> provider_user list" where
  "findActiveMembershipsForUser s userId =
     filter (\<lambda>m. su_userId m = userId \<and> su_isActive m \<and> user_active s (su_userId m)
                 \<and> provider_active s (su_serviceProviderId m)) (providerUsers s)"

definition listAccessibleMemberships :: "db \<Rightarrow> string \<Rightarrow> provider_user list" where
  "listAccessibleMemberships s userId =
     filter (membershipAccessible s userId) (findActiveMembershipsForUser s userId)"

record provider_context =
  pc_providerIds :: "string set"
  pc_managerProviderIds :: "string set"

definition getProviderAccessContext :: "db \<Rightarrow> string \<Rightarrow> provider_context res" where
  "getProviderAccessContext s userId =
     (let ms = listAccessibleMemberships s userId
      in if ms = [] then Inl (Forbidden ''Forbidden'')
         else Inr \<lparr> pc_providerIds = set (map su_serviceProviderId ms),
                    pc_managerProviderIds = set (map su_serviceProviderId
                      (filter (\<lambda>m. su_role m = PROVIDER_ADMIN) ms)) \<rparr>)"

definition assertProviderRequestWriteAccess ::
  "string \<Rightarrow> provider_context \<Rightarrow> maintenance_request \<Rightarrow> unit res" where
  "assertProviderRequestWriteAccess userId ctx r =
     (case mr_serviceProviderId r of
        None \<Rightarrow> Inl (Forbidden ''Forbidden'')
      | Some p \<Rightarrow>
          if p = [] then Inl (Forbidden ''Forbidden'')
          else if p \<in> pc_managerProviderIds ctx then Inr ()
          else if mr_serviceProviderAssignedUserId r \<noteq> Some userId then Inl (Forbidden ''Forbidden'')
          else Inr ())"

section \<open>Building access contexts\<close>

definition REQUEST_ASSIGN_PERMISSION :: string where
  "REQUEST_ASSIGN_PERMISSION = ''requests.assign''"

definition REQUEST_OWNER_APPROVAL_OVERRIDE_PERMISSION :: string where
  "REQUEST_OWNER_APPROVAL_OVERRIDE_PERMISSION = ''requests.owner_approval_override''"

definition REQUEST_HANDLING_PERMISSIONS :: "string list" where
  "REQUEST_HANDLING_PERMISSIONS = [''requests.read'', ''requests.comment'', ''requests.update_status'']"

record access_context =
  ac_hasAnyBuildingAccess :: bool
  ac_isBuildingStaffOnly :: bool

definition getBuildingAccessContext :: "db \<Rightarrow> string \<Rightarrow> string \<Rightarrow> string \<Rightarrow> access_context" where
  "getBuildingAccessContext s userId org bldg =
     (let as = sa_assignments (getUserScopedAssignments s userId (Some org) (Some bldg) False);
          eff = getUserEffectivePermissions s userId (Some org) (Some bldg) False;
          any = list_ex (\<lambda>a. ua_scopeType a = SC_BUILDING) as;
          elevated = (REQUEST_ASSIGN_PERMISSION \<in> eff)
      in \<lparr> ac_hasAnyBuildingAccess = any, ac_isBuildingStaffOnly = (any \<and> \<not> elevated) \<rparr>)"

definition hasGlobalPermission :: "db \<Rightarrow> string \<Rightarrow> string \<Rightarrow> string \<Rightarrow> bool" where
  "hasGlobalPermission s userId org p =
     (p \<in> getUserEffectivePermissions s userId (Some org) None False)"

definition assertOverridePermission :: "db \<Rightarrow> string \<Rightarrow> string \<Rightarrow> string \<Rightarrow> unit res" where
  "assertOverridePermission s userId org bldg =
     (if REQUEST_OWNER_APPROVAL_OVERRIDE_PERMISSION
           \<notin> getUserEffectivePermissions s userId (Some org) (Some bldg) False
      then Inl (Forbidden ''Forbidden'') else Inr ())"

text \<open>
  The opening of every building handler: organisation scope, user id, the building is in
  the organisation, and the access context.
\<close>

definition buildingActor :: "db \<Rightarrow> principal \<Rightarrow> string \<Rightarrow> (string \<times> string \<times> access_context) res" where
  "buildingActor s u bldg =
     andThen (assertOrgScope u) (\<lambda>org.
     andThen (requireUserId u) (\<lambda>userId.
     andThen (assertBuildingInOrg s bldg org) (\<lambda>_.
     Inr (org, userId, getBuildingAccessContext s userId org bldg))))"

definition assignmentHasPermissions :: "db \<Rightarrow> access_assignment \<Rightarrow> string list \<Rightarrow> bool" where
  "assignmentHasPermissions s a keys = list_all (\<lambda>k. k \<in> set (rolePermissionKeysOf s a)) keys"

definition requireActiveResidentOccupancy :: "db \<Rightarrow> string \<Rightarrow> string \<Rightarrow> occupancy_row res" where
  "requireActiveResidentOccupancy s userId org =
     orThrow (findAssignedActiveOccupancy s userId org) (Forbidden ''Active occupancy required'')"

section \<open>The execution lock\<close>

definition assertExecutionUnlocked :: "maintenance_request \<Rightarrow> unit res" where
  "assertExecutionUnlocked r =
     (if List.member OWNER_APPROVAL_BLOCKING_STATUSES (mr_ownerApprovalStatus r)
      then Inl (Conflict ''Request is blocked pending owner approval'')
      else if mr_estimateStatus r = REQUESTED
      then Inl (Conflict ''Request is blocked pending estimate submission'')
      else if getMaintenanceRequestPolicyRoute (policy_input_of r) = OWNER_APPROVAL_REQUIRED
      then Inl (Conflict ''Request requires owner approval before execution'')
      else Inr ())"

definition assertRequestOpenForApproval :: "maintenance_request \<Rightarrow> unit res" where
  "assertRequestOpenForApproval r =
     (if mr_status r = COMPLETED \<or> mr_status r = CANCELED then Inl (Conflict ''Request is closed'')
      else Inr ())"

section \<open>Triage data\<close>

text \<open>
  An optional field of a body: \<open>None\<close> when it is \<^verbatim>\<open>undefined\<close>, \<open>Some None\<close> when it is \<^verbatim>\<open>null\<close>
  (which \<^verbatim>\<open>@IsOptional\<close> lets through), \<open>Some (Some v)\<close> when it has a value. \<open>orNull\<close> is for the
  places that treat the first two alike.
\<close>

type_synonym 'a field = "'a option option"

definition orNull :: "'a field \<Rightarrow> 'a option" where
  "orNull x = (case x of None \<Rightarrow> None | Some v \<Rightarrow> v)"

definition unlessUndefined :: "'a field \<Rightarrow> 'a option \<Rightarrow> 'a option" where
  "unlessUndefined x old = (case x of None \<Rightarrow> old | Some v \<Rightarrow> v)"

lemma field_simps_option [simp]:
  "orNull None = None" "orNull (Some v) = v"
  "unlessUndefined None old = old" "unlessUndefined (Some v) old = v"
  by (simp_all add: orNull_def unlessUndefined_def)

record triage_dto =
  td_estimatedAmount :: "rat field"
  td_estimatedCurrency :: "string field"
  td_isEmergency :: "bool field"
  td_isLikeForLike :: "bool field"
  td_isUpgrade :: "bool field"
  td_isMajorReplacement :: "bool field"
  td_isResponsibilityDisputed :: "bool field"

definition ensureRequestPolicyPayload :: "triage_dto \<Rightarrow> unit res" where
  "ensureRequestPolicyPayload dto =
     (if td_estimatedAmount dto = None \<and> td_estimatedCurrency dto = None \<and> td_isEmergency dto = None
         \<and> td_isLikeForLike dto = None \<and> td_isUpgrade dto = None \<and> td_isMajorReplacement dto = None
         \<and> td_isResponsibilityDisputed dto = None
      then Inl (BadRequest ''No policy triage changes provided'') else Inr ())"

record triage_update =
  tu_estimatedAmount :: "rat option"
  tu_estimatedCurrency :: "string option"
  tu_isEmergency :: "bool option"
  tu_isLikeForLike :: "bool option"
  tu_isUpgrade :: "bool option"
  tu_isMajorReplacement :: "bool option"
  tu_isResponsibilityDisputed :: "bool option"

text \<open>
  A currency of \<^verbatim>\<open>null\<close> has no \<^verbatim>\<open>trim\<close> and an amount of \<^verbatim>\<open>null\<close> is no decimal: both throw. The four
  nullable flags take a \<^verbatim>\<open>null\<close> as it is.
\<close>

definition buildPolicyTriageUpdateData ::
  "triage_dto \<Rightarrow> maintenance_request \<Rightarrow> string option \<Rightarrow> triage_update res" where
  "buildPolicyTriageUpdateData dto r defaultCurrency =
     andThen (ensure (td_estimatedCurrency dto \<noteq> Some None)
                (ConstraintViolation ''Cannot read properties of null'')) (\<lambda>_.
     andThen (ensure (td_estimatedAmount dto \<noteq> Some None) InvalidDecimal) (\<lambda>_.
     Inr \<lparr> tu_estimatedAmount = unlessUndefined (td_estimatedAmount dto) (mr_estimatedAmount r),
           tu_estimatedCurrency =
             (if td_estimatedCurrency dto \<noteq> None
              then map_option (\<lambda>c. toUpperCase (trim c)) (orNull (td_estimatedCurrency dto))
              else if td_estimatedAmount dto \<noteq> None
              then orElse (mr_estimatedCurrency r) defaultCurrency
              else mr_estimatedCurrency r),
           tu_isEmergency = unlessUndefined (td_isEmergency dto) (Some (mr_isEmergency r)),
           tu_isLikeForLike = unlessUndefined (td_isLikeForLike dto) (mr_isLikeForLike r),
           tu_isUpgrade = unlessUndefined (td_isUpgrade dto) (mr_isUpgrade r),
           tu_isMajorReplacement =
             unlessUndefined (td_isMajorReplacement dto) (mr_isMajorReplacement r),
           tu_isResponsibilityDisputed =
             unlessUndefined (td_isResponsibilityDisputed dto) (mr_isResponsibilityDisputed r) \<rparr>))"

text \<open>
  The column \<^verbatim>\<open>isEmergency\<close> is not nullable: an update that sets it to \<^verbatim>\<open>null\<close> is refused by the
  database client, before anything is written.
\<close>

definition storableTriage :: "triage_update \<Rightarrow> unit res" where
  "storableTriage t =
     ensure (tu_isEmergency t \<noteq> None) (ConstraintViolation ''isEmergency must not be null'')"

definition apply_triage :: "triage_update \<Rightarrow> maintenance_request \<Rightarrow> maintenance_request" where
  "apply_triage t r =
     r\<lparr> mr_estimatedAmount := tu_estimatedAmount t,
        mr_estimatedCurrency := tu_estimatedCurrency t,
        mr_isEmergency := nullish (tu_isEmergency t) (mr_isEmergency r),
        mr_isLikeForLike := tu_isLikeForLike t,
        mr_isUpgrade := tu_isUpgrade t,
        mr_isMajorReplacement := tu_isMajorReplacement t,
        mr_isResponsibilityDisputed := tu_isResponsibilityDisputed t \<rparr>"

text \<open>
  \<^verbatim>\<open>toPolicySnapshotFromUpdate\<close> laid over the request: every triage field of the update is
  set, so the snapshot takes it.
\<close>

definition toPolicySnapshotFromUpdate :: "maintenance_request \<Rightarrow> triage_update \<Rightarrow> policy_input" where
  "toPolicySnapshotFromUpdate r t =
     (policy_input_of r)
       \<lparr> pi_estimatedAmount := tu_estimatedAmount t,
         pi_isEmergency := tu_isEmergency t,
         pi_isLikeForLike := tu_isLikeForLike t,
         pi_isUpgrade := tu_isUpgrade t,
         pi_isMajorReplacement := tu_isMajorReplacement t,
         pi_isResponsibilityDisputed := tu_isResponsibilityDisputed t \<rparr>"

definition buildAutomaticApprovalReason :: "triage_dto \<Rightarrow> string" where
  "buildAutomaticApprovalReason dto =
     (if td_isUpgrade dto = Some (Some True)
      then ''Estimate indicates upgrade or alteration requiring owner approval''
      else if td_isMajorReplacement dto = Some (Some True)
      then ''Estimate indicates major replacement requiring owner approval''
      else if td_isResponsibilityDisputed dto = Some (Some True)
      then ''Estimate indicates disputed responsibility requiring owner approval''
      else if td_isLikeForLike dto = Some (Some False)
      then ''Estimate indicates non-like-for-like work requiring owner approval''
      else if (case orNull (td_estimatedAmount dto) of None \<Rightarrow> False | Some a \<Rightarrow> a > 1000)
      then ''Estimate exceeds owner approval threshold''
      else ''Estimate requires owner approval before execution'')"

text \<open>\<open>ttl\<close> is the configured \<^verbatim>\<open>MAINTENANCE_ESTIMATE_DEFAULT_TTL_HOURS\<close>.\<close>

definition buildEstimateDueAt :: "int \<Rightarrow> int \<Rightarrow> int" where
  "buildEstimateDueAt ttl now = now + ttl * 60 * 60 * 1000"

section \<open>Intake values\<close>

definition normalizePriority :: "string option \<Rightarrow> req_priority option" where
  "normalizePriority v =
     (if \<not> truthy v then None
      else if v = Some ''LOW'' then Some LOW
      else if v = Some ''MEDIUM'' then Some NORMAL
      else if v = Some ''HIGH'' then Some HIGH
      else None)"

definition normalizeType :: "string option \<Rightarrow> req_type option" where
  "normalizeType v =
     (if \<not> truthy v then None
      else if v = Some ''CLEANING'' then Some CLEANING
      else if v = Some ''ELECTRICAL'' then Some ELECTRICAL
      else if v = Some ''MAINTENANCE'' then Some MAINTENANCE
      else if v = Some ''PLUMBING_AC_HEATING'' then Some PLUMBING_AC_HEATING
      else if v = Some ''OTHER'' then Some OTHER
      else None)"

definition emergencySignalOf :: "string \<Rightarrow> emergency_signal option" where
  "emergencySignalOf v =
     (if v = ''ACTIVE_LEAK'' then Some ACTIVE_LEAK
      else if v = ''NO_POWER'' then Some NO_POWER
      else if v = ''SAFETY_RISK'' then Some SAFETY_RISK
      else if v = ''NO_COOLING'' then Some NO_COOLING
      else None)"

definition normalizeEmergencySignals :: "string list option \<Rightarrow> emergency_signal list" where
  "normalizeEmergencySignals vs =
     (case vs of None \<Rightarrow> [] | Some xs \<Rightarrow> js_unique (List.map_filter emergencySignalOf xs))"

section \<open>Audit rows and events\<close>

definition createOwnerApprovalAudit ::
  "db \<Rightarrow> string \<Rightarrow> string \<Rightarrow> string \<Rightarrow> audit_action \<Rightarrow> approval_status option \<Rightarrow> approval_status
   \<Rightarrow> string option \<Rightarrow> decision_source option \<Rightarrow> db" where
  "createOwnerApprovalAudit s rid org actor action fromSt toSt reason source =
     s\<lparr>approvalAudits := approvalAudits s @
        [\<lparr> au_requestId = rid, au_orgId = org, au_actorUserId = actor, au_action = action,
           au_fromStatus = fromSt, au_toStatus = toSt, au_decisionSource = source,
           au_reason = reason \<rparr>]\<rparr>"

definition toEventRequest :: "db \<Rightarrow> maintenance_request \<Rightarrow> request_snapshot" where
  "toEventRequest s r =
     \<lparr> sn_id = mr_id r, sn_orgId = mr_orgId r, sn_buildingId = mr_buildingId r,
       sn_unitId = mr_unitId r, sn_title = mr_title r, sn_status = mr_status r,
       sn_ownerApprovalStatus = mr_ownerApprovalStatus r,
       sn_createdByUserId = mr_createdByUserId r,
       sn_assignedToUserId = mr_assignedToUserId r,
       sn_serviceProviderId = mr_serviceProviderId r,
       sn_serviceProviderAssignedUserId = mr_serviceProviderAssignedUserId r,
       sn_isEmergency = mr_isEmergency r, sn_emergencySignals = mr_emergencySignals r,
       sn_unit = (case mr_unitId r of None \<Rightarrow> None
                  | Some i \<Rightarrow> map_option (\<lambda>n. (un_id n, un_label n)) (find_by un_id i (units s))) \<rparr>"

definition emitEvent :: "db \<Rightarrow> request_event \<Rightarrow> db" where
  "emitEvent s e = s\<lparr>eventLog := eventLog s @ [e]\<rparr>"

definition event :: "event_name \<Rightarrow> request_snapshot \<Rightarrow> request_snapshot option \<Rightarrow> string \<Rightarrow> request_event" where
  "event n snap prev actor =
     \<lparr> ev_name = n, ev_request = snap, ev_previousRequest = prev, ev_actorUserId = actor,
       ev_actorIsResident = None, ev_comment = None \<rparr>"

section \<open>Unread comments\<close>

definition countUnreadCommentsForRequests ::
  "db \<Rightarrow> string \<Rightarrow> string option \<Rightarrow> string list \<Rightarrow> read_scope \<Rightarrow> comment_visibility option \<Rightarrow> nat" where
  "countUnreadCommentsForRequests s userId org rids scope vis =
     (if rids = [] then 0
      else let lastRead = map_of (rev (listCommentReadStates s userId rids scope))
           in length (filter (\<lambda>(rid, createdAt).
                case lastRead rid of None \<Rightarrow> True | Some t \<Rightarrow> createdAt > t)
                (listCommentTimestamps s org rids userId vis)))"

end
