(* ===== verification/RequestRows.thy ===== *)
theory RequestRows
  imports RequestCore
begin

text \<open>
  The row updates of the maintenance request workflow: for every
  \<^verbatim>\<open>requestsRepo.updateById(request.id, { ... }, tx)\<close> of the services, the change its data
  object makes to the row. The request a handler read and the row it updates are the same
  row (same primary key, same transaction), so a field the data object copies from the
  request it read (\<^verbatim>\<open>request.completedAt\<close>) keeps its value.

  The second half is the well-formedness of a request row, \<open>row_ok\<close>, with the proof that
  every update keeps it under the guards its handler checks.
\<close>

section \<open>Assignment\<close>

definition upd_assignStaff :: "string \<Rightarrow> int \<Rightarrow> maintenance_request \<Rightarrow> maintenance_request" where
  "upd_assignStaff staffId now r =
     r\<lparr> mr_assignedToUserId := Some staffId, mr_serviceProviderId := None,
        mr_serviceProviderAssignedUserId := None, mr_assignedAt := Some now,
        mr_status := ASSIGNED \<rparr>"

definition upd_assignProvider :: "string \<Rightarrow> int \<Rightarrow> maintenance_request \<Rightarrow> maintenance_request" where
  "upd_assignProvider providerId now r =
     r\<lparr> mr_assignedToUserId := None, mr_serviceProviderId := Some providerId,
        mr_serviceProviderAssignedUserId := None, mr_assignedAt := Some now,
        mr_status := ASSIGNED \<rparr>"

definition upd_assignWorker :: "string \<Rightarrow> int \<Rightarrow> maintenance_request \<Rightarrow> maintenance_request" where
  "upd_assignWorker workerId now r =
     r\<lparr> mr_assignedToUserId := None, mr_serviceProviderAssignedUserId := Some workerId,
        mr_assignedAt := orElse (mr_assignedAt r) (Some now), mr_status := ASSIGNED \<rparr>"

text \<open>\<^verbatim>\<open>unassignProvider\<close> clears the estimate too when one is requested.\<close>

definition upd_unassignProvider :: "maintenance_request \<Rightarrow> maintenance_request" where
  "upd_unassignProvider r =
     (if mr_estimateStatus r = REQUESTED
      then r\<lparr> mr_serviceProviderId := None, mr_serviceProviderAssignedUserId := None,
              mr_estimateStatus := NOT_REQUESTED, mr_estimateRequestedAt := None,
              mr_estimateRequestedByUserId := None, mr_estimateDueAt := None,
              mr_estimateReminderSentAt := None, mr_estimateSubmittedAt := None,
              mr_estimateSubmittedByUserId := None, mr_estimatedAmount := None,
              mr_estimatedCurrency := None, mr_assignedAt := None, mr_status := OPEN \<rparr>
      else r\<lparr> mr_serviceProviderId := None, mr_serviceProviderAssignedUserId := None,
              mr_assignedAt := None, mr_status := OPEN \<rparr>)"

section \<open>Estimates\<close>

definition upd_requestEstimate ::
  "string \<Rightarrow> string \<Rightarrow> int \<Rightarrow> int \<Rightarrow> maintenance_request \<Rightarrow> maintenance_request" where
  "upd_requestEstimate providerId userId now due r =
     r\<lparr> mr_assignedToUserId := None, mr_serviceProviderId := Some providerId,
        mr_serviceProviderAssignedUserId := None, mr_estimateStatus := REQUESTED,
        mr_estimateRequestedAt := Some now, mr_estimateRequestedByUserId := Some userId,
        mr_estimateDueAt := Some due, mr_estimateReminderSentAt := None,
        mr_estimateSubmittedAt := None, mr_estimateSubmittedByUserId := None,
        mr_assignedAt := None, mr_estimatedAmount := None, mr_estimatedCurrency := None,
        mr_ownerApprovalStatus := NOT_REQUIRED, mr_ownerApprovalRequestedAt := None,
        mr_ownerApprovalRequestedByUserId := None, mr_ownerApprovalDeadlineAt := None,
        mr_ownerApprovalReason := None, mr_approvalRequiredReason := None,
        mr_ownerApprovalDecidedAt := None, mr_ownerApprovalDecidedByOwnerUserId := None,
        mr_ownerApprovalDecisionSource := None, mr_ownerApprovalOverrideReason := None,
        mr_ownerApprovalOverriddenByUserId := None, mr_status := OPEN \<rparr>"

text \<open>The two updates of \<^verbatim>\<open>submitRequestEstimateInTx\<close>: owner approval is needed, or not.\<close>

definition had_requested_approval :: "maintenance_request \<Rightarrow> bool" where
  "had_requested_approval r \<longleftrightarrow>
     mr_ownerApprovalStatus r = PENDING \<and> mr_ownerApprovalRequestedAt r \<noteq> None"

definition upd_submitEstimatePending ::
  "triage_update \<Rightarrow> string \<Rightarrow> int \<Rightarrow> string \<Rightarrow> int option \<Rightarrow> maintenance_request \<Rightarrow> maintenance_request" where
  "upd_submitEstimatePending t actor now reason deadline r =
     (apply_triage t r)
      \<lparr> mr_estimateStatus := SUBMITTED, mr_estimateSubmittedAt := Some now,
        mr_estimateSubmittedByUserId := Some actor, mr_estimateReminderSentAt := None,
        mr_ownerApprovalStatus := PENDING, mr_approvalRequiredReason := Some reason,
        mr_ownerApprovalRequestedAt :=
          (if had_requested_approval r then mr_ownerApprovalRequestedAt r else Some now),
        mr_ownerApprovalRequestedByUserId :=
          (if had_requested_approval r \<and> truthy (mr_ownerApprovalRequestedByUserId r)
           then mr_ownerApprovalRequestedByUserId r else Some actor),
        mr_ownerApprovalDeadlineAt := orElse deadline (mr_ownerApprovalDeadlineAt r),
        mr_ownerApprovalReason := None, mr_ownerApprovalDecidedAt := None,
        mr_ownerApprovalDecidedByOwnerUserId := None, mr_ownerApprovalDecisionSource := None,
        mr_ownerApprovalOverrideReason := None, mr_ownerApprovalOverriddenByUserId := None \<rparr>"

definition upd_submitEstimate ::
  "triage_update \<Rightarrow> string \<Rightarrow> int \<Rightarrow> maintenance_request \<Rightarrow> maintenance_request" where
  "upd_submitEstimate t actor now r =
     (apply_triage t r)
      \<lparr> mr_estimateStatus := SUBMITTED, mr_estimateSubmittedAt := Some now,
        mr_estimateSubmittedByUserId := Some actor, mr_estimateReminderSentAt := None,
        mr_ownerApprovalStatus := NOT_REQUIRED, mr_ownerApprovalRequestedAt := None,
        mr_ownerApprovalRequestedByUserId := None, mr_ownerApprovalDeadlineAt := None,
        mr_ownerApprovalReason := None, mr_approvalRequiredReason := None,
        mr_ownerApprovalDecidedAt := None, mr_ownerApprovalDecidedByOwnerUserId := None,
        mr_ownerApprovalDecisionSource := None, mr_ownerApprovalOverrideReason := None,
        mr_ownerApprovalOverriddenByUserId := None \<rparr>"

section \<open>Owner approval\<close>

definition upd_requireApproval ::
  "triage_update \<Rightarrow> string \<Rightarrow> int option \<Rightarrow> maintenance_request \<Rightarrow> maintenance_request" where
  "upd_requireApproval t reason deadline r =
     (apply_triage t r)
      \<lparr> mr_ownerApprovalStatus := PENDING, mr_approvalRequiredReason := Some reason,
        mr_ownerApprovalRequestedAt := None, mr_ownerApprovalRequestedByUserId := None,
        mr_ownerApprovalDeadlineAt := orElse deadline (mr_ownerApprovalDeadlineAt r),
        mr_ownerApprovalReason := None, mr_ownerApprovalDecidedAt := None,
        mr_ownerApprovalDecidedByOwnerUserId := None, mr_ownerApprovalDecisionSource := None,
        mr_ownerApprovalOverrideReason := None, mr_ownerApprovalOverriddenByUserId := None \<rparr>"

definition upd_requestApprovalNow ::
  "triage_update \<Rightarrow> string \<Rightarrow> int option \<Rightarrow> string \<Rightarrow> int \<Rightarrow> maintenance_request \<Rightarrow> maintenance_request" where
  "upd_requestApprovalNow t reason deadline userId now r =
     (apply_triage t r)
      \<lparr> mr_ownerApprovalStatus := PENDING, mr_approvalRequiredReason := Some reason,
        mr_ownerApprovalRequestedAt := Some now, mr_ownerApprovalRequestedByUserId := Some userId,
        mr_ownerApprovalDeadlineAt := orElse deadline (mr_ownerApprovalDeadlineAt r),
        mr_ownerApprovalReason := None, mr_ownerApprovalDecidedAt := None,
        mr_ownerApprovalDecidedByOwnerUserId := None, mr_ownerApprovalDecisionSource := None,
        mr_ownerApprovalOverrideReason := None, mr_ownerApprovalOverriddenByUserId := None \<rparr>"

definition upd_markRequested :: "string \<Rightarrow> int \<Rightarrow> maintenance_request \<Rightarrow> maintenance_request" where
  "upd_markRequested userId now r =
     r\<lparr> mr_ownerApprovalRequestedAt := Some now,
        mr_ownerApprovalRequestedByUserId := Some userId \<rparr>"

definition upd_override ::
  "decision_source \<Rightarrow> string \<Rightarrow> string \<Rightarrow> int \<Rightarrow> maintenance_request \<Rightarrow> maintenance_request" where
  "upd_override source reason userId now r =
     r\<lparr> mr_ownerApprovalStatus := APPROVED, mr_ownerApprovalDecidedAt := Some now,
        mr_ownerApprovalDecidedByOwnerUserId := None, mr_ownerApprovalReason := None,
        mr_ownerApprovalDecisionSource := Some source,
        mr_ownerApprovalOverrideReason := Some reason,
        mr_ownerApprovalOverriddenByUserId := Some userId \<rparr>"

definition upd_ownerDecision ::
  "approval_status \<Rightarrow> string option \<Rightarrow> string \<Rightarrow> int \<Rightarrow> maintenance_request \<Rightarrow> maintenance_request" where
  "upd_ownerDecision decision reason userId now r =
     r\<lparr> mr_ownerApprovalStatus := decision, mr_ownerApprovalDecidedAt := Some now,
        mr_ownerApprovalDecidedByOwnerUserId := Some userId, mr_ownerApprovalReason := reason,
        mr_ownerApprovalDecisionSource := Some OWNER, mr_ownerApprovalOverrideReason := None,
        mr_ownerApprovalOverriddenByUserId := None \<rparr>"

section \<open>Status, triage, cancellation, edits\<close>

definition upd_status :: "req_status \<Rightarrow> int \<Rightarrow> maintenance_request \<Rightarrow> maintenance_request" where
  "upd_status st now r =
     r\<lparr> mr_status := st,
        mr_completedAt := (if st = COMPLETED then Some now else mr_completedAt r) \<rparr>"

definition upd_cancel :: "int \<Rightarrow> maintenance_request \<Rightarrow> maintenance_request" where
  "upd_cancel now r = r\<lparr> mr_status := CANCELED, mr_canceledAt := Some now \<rparr>"

definition upd_triage :: "triage_update \<Rightarrow> maintenance_request \<Rightarrow> maintenance_request" where
  "upd_triage t r = apply_triage t r"

record edit_dto =
  ed_title :: "string field"
  ed_description :: "string field"
  ed_type :: "string field"
  ed_priority :: "string field"
  ed_isEmergency :: "bool field"
  ed_emergencySignals :: "string list field"

text \<open>
  An update whose type or priority is \<^verbatim>\<open>undefined\<close> leaves the column as it is: that is what an
  unknown value or a \<^verbatim>\<open>null\<close> becomes. A title or description of \<^verbatim>\<open>null\<close> leaves its column too;
  \<^verbatim>\<open>null\<close> for the emergency flag or the signals does not: both are computed anew.
\<close>

definition upd_residentEdit :: "edit_dto \<Rightarrow> maintenance_request \<Rightarrow> maintenance_request" where
  "upd_residentEdit dto r =
     (let signals = (case ed_emergencySignals dto of
                       Some v \<Rightarrow> normalizeEmergencySignals v
                     | None \<Rightarrow> mr_emergencySignals r);
          emergency = (if ed_isEmergency dto \<noteq> None \<or> ed_emergencySignals dto \<noteq> None
                       then ed_isEmergency dto = Some (Some True) \<or> signals \<noteq> []
                       else mr_isEmergency r)
      in r\<lparr> mr_title := nullish (orNull (ed_title dto)) (mr_title r),
            mr_description := orElse (orNull (ed_description dto)) (mr_description r),
            mr_type := orElse (normalizeType (orNull (ed_type dto))) (mr_type r),
            mr_priority := orElse (normalizePriority (orNull (ed_priority dto))) (mr_priority r),
            mr_isEmergency := emergency,
            mr_emergencySignals := signals \<rparr>)"

definition upd_reminder :: "int \<Rightarrow> maintenance_request \<Rightarrow> maintenance_request" where
  "upd_reminder now r = r\<lparr> mr_estimateReminderSentAt := Some now \<rparr>"

lemmas upd_defs [row_defs] =
  upd_assignStaff_def upd_assignProvider_def upd_assignWorker_def upd_unassignProvider_def
  upd_requestEstimate_def upd_submitEstimatePending_def upd_submitEstimate_def
  upd_requireApproval_def upd_requestApprovalNow_def upd_markRequested_def upd_override_def
  upd_ownerDecision_def upd_status_def upd_cancel_def upd_triage_def upd_residentEdit_def
  upd_reminder_def apply_triage_def

section \<open>Identity of a row\<close>

text \<open>What no update changes: the columns that say which request it is and whose.\<close>

definition row_identity :: "maintenance_request \<Rightarrow> string \<times> string \<times> string \<times> string option \<times> string \<times> int" where
  "row_identity r =
     (mr_id r, mr_orgId r, mr_buildingId r, mr_unitId r, mr_createdByUserId r, mr_createdAt r)"

lemma identity_mr_id: "row_identity r = row_identity r' \<Longrightarrow> mr_id r = mr_id r'"
  by (simp add: row_identity_def)

lemma upd_identity [simp]:
  "row_identity (upd_assignStaff a n r) = row_identity r"
  "row_identity (upd_assignProvider a n r) = row_identity r"
  "row_identity (upd_assignWorker a n r) = row_identity r"
  "row_identity (upd_unassignProvider r) = row_identity r"
  "row_identity (upd_requestEstimate a b n due r) = row_identity r"
  "row_identity (upd_submitEstimatePending t a n c d r) = row_identity r"
  "row_identity (upd_submitEstimate t a n r) = row_identity r"
  "row_identity (upd_requireApproval t c d r) = row_identity r"
  "row_identity (upd_requestApprovalNow t c d a n r) = row_identity r"
  "row_identity (upd_markRequested a n r) = row_identity r"
  "row_identity (upd_override src c a n r) = row_identity r"
  "row_identity (upd_ownerDecision dec e a n r) = row_identity r"
  "row_identity (upd_status st n r) = row_identity r"
  "row_identity (upd_cancel n r) = row_identity r"
  "row_identity (upd_triage t r) = row_identity r"
  "row_identity (upd_residentEdit ed r) = row_identity r"
  "row_identity (upd_reminder n r) = row_identity r"
  by (simp_all add: row_identity_def upd_defs Let_def)

section \<open>Well-formed rows\<close>

definition executor_ok :: "maintenance_request \<Rightarrow> bool" where
  "executor_ok r \<longleftrightarrow>
     (mr_assignedToUserId r = None \<or> mr_serviceProviderId r = None)
     \<and> (mr_serviceProviderAssignedUserId r \<noteq> None \<longrightarrow> mr_serviceProviderId r \<noteq> None)"

definition closing_ok :: "maintenance_request \<Rightarrow> bool" where
  "closing_ok r \<longleftrightarrow>
     (mr_status r = COMPLETED \<longleftrightarrow> mr_completedAt r \<noteq> None)
     \<and> (mr_status r = CANCELED \<longleftrightarrow> mr_canceledAt r \<noteq> None)"

definition estimate_ok :: "maintenance_request \<Rightarrow> bool" where
  "estimate_ok r \<longleftrightarrow>
     (mr_estimateStatus r = REQUESTED \<longrightarrow>
        mr_serviceProviderId r \<noteq> None \<and> mr_estimateRequestedAt r \<noteq> None
        \<and> mr_estimateDueAt r \<noteq> None \<and> mr_estimateSubmittedAt r = None
        \<and> (mr_status r = OPEN \<or> mr_status r = CANCELED))
     \<and> (mr_estimateStatus r = SUBMITTED \<longrightarrow> mr_estimateSubmittedAt r \<noteq> None)"

definition approval_ok :: "maintenance_request \<Rightarrow> bool" where
  "approval_ok r \<longleftrightarrow>
     (mr_ownerApprovalStatus r = NOT_REQUIRED \<longrightarrow>
        mr_ownerApprovalDecidedAt r = None \<and> mr_ownerApprovalDecisionSource r = None
        \<and> mr_ownerApprovalRequestedAt r = None)
     \<and> (mr_ownerApprovalStatus r = PENDING \<longrightarrow>
        mr_unitId r \<noteq> None \<and> mr_approvalRequiredReason r \<noteq> None
        \<and> mr_ownerApprovalDecidedAt r = None \<and> mr_ownerApprovalDecisionSource r = None)
     \<and> (mr_ownerApprovalStatus r = APPROVED \<longrightarrow>
        mr_ownerApprovalDecidedAt r \<noteq> None \<and> mr_ownerApprovalDecisionSource r \<noteq> None
        \<and> (mr_ownerApprovalDecidedByOwnerUserId r = None
           \<longleftrightarrow> mr_ownerApprovalOverriddenByUserId r \<noteq> None))
     \<and> (mr_ownerApprovalStatus r = REJECTED \<longrightarrow>
        mr_ownerApprovalDecidedAt r \<noteq> None \<and> mr_ownerApprovalDecisionSource r = Some OWNER
        \<and> mr_ownerApprovalDecidedByOwnerUserId r \<noteq> None)"

definition row_ok :: "maintenance_request \<Rightarrow> bool" where
  "row_ok r \<longleftrightarrow> executor_ok r \<and> closing_ok r \<and> estimate_ok r \<and> approval_ok r"

lemmas ok_defs = row_ok_def executor_ok_def closing_ok_def estimate_ok_def approval_ok_def

lemma unlockedD:
  assumes "assertExecutionUnlocked r = Inr x"
  shows "mr_estimateStatus r \<noteq> REQUESTED"
    and "mr_ownerApprovalStatus r \<noteq> PENDING" and "mr_ownerApprovalStatus r \<noteq> REJECTED"
    and "getMaintenanceRequestPolicyRoute (policy_input_of r) \<noteq> OWNER_APPROVAL_REQUIRED"
  using assms
  by (auto simp: assertExecutionUnlocked_def OWNER_APPROVAL_BLOCKING_STATUSES_def split: if_splits)

lemma openForApprovalD:
  "assertRequestOpenForApproval r = Inr x \<Longrightarrow> mr_status r \<noteq> COMPLETED \<and> mr_status r \<noteq> CANCELED"
  by (auto simp: assertRequestOpenForApproval_def split: if_splits)

text \<open>The parts an update leaves alone.\<close>

lemma approval_frame [simp]:
  "approval_ok (upd_assignStaff a n r) = approval_ok r"
  "approval_ok (upd_assignProvider a n r) = approval_ok r"
  "approval_ok (upd_assignWorker a n r) = approval_ok r"
  "approval_ok (upd_unassignProvider r) = approval_ok r"
  "approval_ok (upd_status st n r) = approval_ok r"
  "approval_ok (upd_cancel n r) = approval_ok r"
  "approval_ok (apply_triage t r) = approval_ok r"
  "approval_ok (upd_residentEdit ed r) = approval_ok r"
  "approval_ok (upd_reminder n r) = approval_ok r"
  by (simp_all add: approval_ok_def upd_defs Let_def)

lemma approval_reset [simp]:
  "approval_ok (upd_requestEstimate a b n due r)"
  "approval_ok (upd_submitEstimate t a n r)"
  "approval_ok (upd_override src c a n r)"
  "approval_ok (upd_submitEstimatePending t a n c d r) = (mr_unitId r \<noteq> None)"
  "approval_ok (upd_requireApproval t c d r) = (mr_unitId r \<noteq> None)"
  "approval_ok (upd_requestApprovalNow t c d a n r) = (mr_unitId r \<noteq> None)"
  by (simp_all add: approval_ok_def upd_defs)

lemma approval_decision [simp]:
  "dec = APPROVED \<or> dec = REJECTED \<Longrightarrow> approval_ok (upd_ownerDecision dec e a n r)"
  by (auto simp: approval_ok_def upd_ownerDecision_def)

lemma approval_markRequested [simp]:
  "mr_ownerApprovalStatus r = PENDING \<Longrightarrow> approval_ok (upd_markRequested a n r) = approval_ok r"
  by (simp add: approval_ok_def upd_markRequested_def)

lemma executor_frame [simp]:
  "executor_ok (upd_submitEstimatePending t a n c d r) = executor_ok r"
  "executor_ok (upd_submitEstimate t a n r) = executor_ok r"
  "executor_ok (upd_requireApproval t c d r) = executor_ok r"
  "executor_ok (upd_requestApprovalNow t c d a n r) = executor_ok r"
  "executor_ok (upd_markRequested a n r) = executor_ok r"
  "executor_ok (upd_override src c a n r) = executor_ok r"
  "executor_ok (upd_ownerDecision dec e a n r) = executor_ok r"
  "executor_ok (upd_status st n r) = executor_ok r"
  "executor_ok (upd_cancel n r) = executor_ok r"
  "executor_ok (apply_triage t r) = executor_ok r"
  "executor_ok (upd_residentEdit ed r) = executor_ok r"
  "executor_ok (upd_reminder n r) = executor_ok r"
  by (simp_all add: executor_ok_def upd_defs Let_def)

lemma executor_set [simp]:
  "executor_ok (upd_assignStaff a n r)"
  "executor_ok (upd_assignProvider a n r)"
  "executor_ok (upd_requestEstimate a b n due r)"
  "executor_ok (upd_unassignProvider r)"
  "executor_ok (upd_assignWorker a n r) = (mr_serviceProviderId r \<noteq> None)"
  by (simp_all add: executor_ok_def upd_defs)

lemma closing_frame [simp]:
  "closing_ok (upd_submitEstimatePending t a n c d r) = closing_ok r"
  "closing_ok (upd_submitEstimate t a n r) = closing_ok r"
  "closing_ok (upd_requireApproval t c d r) = closing_ok r"
  "closing_ok (upd_requestApprovalNow t c d a n r) = closing_ok r"
  "closing_ok (upd_markRequested a n r) = closing_ok r"
  "closing_ok (upd_override src c a n r) = closing_ok r"
  "closing_ok (upd_ownerDecision dec e a n r) = closing_ok r"
  "closing_ok (apply_triage t r) = closing_ok r"
  "closing_ok (upd_residentEdit ed r) = closing_ok r"
  "closing_ok (upd_reminder n r) = closing_ok r"
  by (simp_all add: closing_ok_def upd_defs Let_def)

lemma closing_open:
  assumes "mr_status r \<in> {OPEN, ASSIGNED}"
  shows "closing_ok (upd_assignStaff a n r) = closing_ok r"
    and "closing_ok (upd_assignProvider a n r) = closing_ok r"
    and "closing_ok (upd_assignWorker a n r) = closing_ok r"
    and "closing_ok (upd_unassignProvider r) = closing_ok r"
    and "closing_ok (upd_requestEstimate a b n due r) = closing_ok r"
  using assms by (auto simp: closing_ok_def upd_defs)

lemma estimate_frame [simp]:
  "estimate_ok (upd_requireApproval t c d r) = estimate_ok r"
  "estimate_ok (upd_requestApprovalNow t c d a n r) = estimate_ok r"
  "estimate_ok (upd_markRequested a n r) = estimate_ok r"
  "estimate_ok (upd_override src c a n r) = estimate_ok r"
  "estimate_ok (upd_ownerDecision dec e a n r) = estimate_ok r"
  "estimate_ok (apply_triage t r) = estimate_ok r"
  "estimate_ok (upd_residentEdit ed r) = estimate_ok r"
  "estimate_ok (upd_reminder n r) = estimate_ok r"
  by (simp_all add: estimate_ok_def upd_defs Let_def)

lemma estimate_set [simp]:
  "estimate_ok (upd_requestEstimate a b n due r)"
  "estimate_ok (upd_submitEstimate t a n r)"
  "estimate_ok (upd_submitEstimatePending t a n c d r)"
  by (simp_all add: estimate_ok_def upd_defs)

lemma estimate_cancel [simp]: "estimate_ok r \<Longrightarrow> estimate_ok (upd_cancel n r)"
  by (auto simp: estimate_ok_def upd_defs)

lemma estimate_unassign [simp]: "estimate_ok r \<Longrightarrow> estimate_ok (upd_unassignProvider r)"
  by (auto simp: estimate_ok_def upd_defs)

lemma estimate_not_requested:
  assumes "mr_estimateStatus r \<noteq> REQUESTED"
  shows "estimate_ok (upd_assignStaff a n r) = estimate_ok r"
    and "estimate_ok (upd_assignProvider a n r) = estimate_ok r"
    and "estimate_ok (upd_assignWorker a n r) = estimate_ok r"
    and "estimate_ok (upd_status st n r) = estimate_ok r"
  using assms by (auto simp: estimate_ok_def upd_defs)

lemma row_ok_execution:
  assumes "row_ok r" and "mr_status r \<in> {OPEN, ASSIGNED}" and "mr_estimateStatus r \<noteq> REQUESTED"
  shows "row_ok (upd_assignStaff a n r)"
    and "row_ok (upd_assignProvider a n r)"
    and "mr_serviceProviderId r \<noteq> None \<Longrightarrow> row_ok (upd_assignWorker a n r)"
    and "row_ok (upd_unassignProvider r)"
  using assms by (simp_all add: row_ok_def closing_open estimate_not_requested)

lemma row_ok_requestEstimate:
  "row_ok r \<Longrightarrow> mr_status r \<in> {OPEN, ASSIGNED} \<Longrightarrow> row_ok (upd_requestEstimate a b n due r)"
  by (simp add: row_ok_def closing_open)

lemma row_ok_approval:
  assumes "row_ok r"
  shows "mr_unitId r \<noteq> None \<Longrightarrow> row_ok (upd_submitEstimatePending t a n c d r)"
    and "row_ok (upd_submitEstimate t a n r)"
    and "mr_unitId r \<noteq> None \<Longrightarrow> row_ok (upd_requireApproval t c d r)"
    and "mr_unitId r \<noteq> None \<Longrightarrow> row_ok (upd_requestApprovalNow t c d a n r)"
    and "mr_ownerApprovalStatus r = PENDING \<Longrightarrow> row_ok (upd_markRequested a n r)"
    and "row_ok (upd_override src c a n r)"
    and "dec = APPROVED \<or> dec = REJECTED \<Longrightarrow> row_ok (upd_ownerDecision dec e a n r)"
  using assms by (simp_all add: row_ok_def)

lemma row_ok_status:
  assumes "row_ok r" and "List.member (MAINTENANCE_STATUS_TRANSITIONS (mr_status r)) st"
    and "mr_estimateStatus r \<noteq> REQUESTED"
  shows "row_ok (upd_status st n r)"
proof -
  have "closing_ok (upd_status st n r)"
    using assms(1,2)
    by (cases "mr_status r") (auto simp: row_ok_def closing_ok_def upd_status_def)
  with assms show ?thesis by (simp add: row_ok_def estimate_not_requested)
qed

lemma row_ok_cancel:
  assumes "row_ok r" and "mr_status r \<noteq> COMPLETED"
  shows "row_ok (upd_cancel n r)"
proof -
  have "closing_ok (upd_cancel n r)"
    using assms by (auto simp: row_ok_def closing_ok_def upd_cancel_def)
  with assms show ?thesis by (simp add: row_ok_def)
qed

lemma row_ok_other:
  assumes "row_ok r"
  shows "row_ok (apply_triage t r)" and "row_ok (upd_triage t r)"
    and "row_ok (upd_residentEdit ed r)" and "row_ok (upd_reminder n r)"
  using assms by (simp_all add: row_ok_def upd_triage_def)

end
