(* ===== verification/RequestSteps.thy ===== *)
theory RequestSteps
  imports RequestRows
begin

text \<open>
  The life of one request row as a step relation: \<open>request_step r r'\<close> holds when some handler of
  the services may turn row \<open>r\<close> into row \<open>r'\<close>, with the conditions that handler checks on the
  row. The handler theories prove that every handler that writes a request makes such a
  step and nothing else (\<open>writes_row\<close>); the theorems about rows are then proved once, by
  cases on the step.

  The abstract specification is a four component state machine (\<open>areq\<close>, \<open>lifecycle\<close>): work
  status, owner approval, estimate and executor. \<open>step_refines\<close> is the simulation.
\<close>

section \<open>Steps of a row\<close>

inductive request_step :: "maintenance_request \<Rightarrow> maintenance_request \<Rightarrow> bool" where
  assignStaff:
    "mr_status r \<in> {OPEN, ASSIGNED} \<Longrightarrow> assertExecutionUnlocked r = Inr () \<Longrightarrow>
     request_step r (upd_assignStaff staffId now r)"
| assignProvider:
    "mr_status r \<in> {OPEN, ASSIGNED} \<Longrightarrow> assertExecutionUnlocked r = Inr () \<Longrightarrow>
     request_step r (upd_assignProvider providerId now r)"
| assignWorker:
    "mr_status r \<in> {OPEN, ASSIGNED} \<Longrightarrow> assertExecutionUnlocked r = Inr () \<Longrightarrow>
     truthy (mr_serviceProviderId r) \<Longrightarrow>
     request_step r (upd_assignWorker workerId now r)"
| unassignProvider:
    "mr_status r \<in> {OPEN, ASSIGNED} \<Longrightarrow> assertExecutionUnlocked r = Inr () \<Longrightarrow>
     truthy (mr_serviceProviderId r) \<Longrightarrow>
     request_step r (upd_unassignProvider r)"
| requestEstimate:
    "mr_status r \<in> {OPEN, ASSIGNED} \<Longrightarrow> mr_ownerApprovalStatus r \<noteq> PENDING \<Longrightarrow>
     getMaintenanceRequestPolicyRoute (policy_input_of r) = NEEDS_ESTIMATE
       \<or> mr_ownerApprovalStatus r = REJECTED \<Longrightarrow>
     request_step r (upd_requestEstimate providerId userId now due r)"
| submitEstimatePending:
    "assertRequestOpenForApproval r = Inr () \<Longrightarrow> truthy (mr_unitId r) \<Longrightarrow>
     request_step r (upd_submitEstimatePending t actor now reason deadline r)"
| submitEstimate:
    "assertRequestOpenForApproval r = Inr () \<Longrightarrow>
     request_step r (upd_submitEstimate t actor now r)"
| requireApproval:
    "assertRequestOpenForApproval r = Inr () \<Longrightarrow> truthy (mr_unitId r) \<Longrightarrow>
     request_step r (upd_requireApproval t reason deadline r)"
| requestApprovalNow:
    "assertRequestOpenForApproval r = Inr () \<Longrightarrow> truthy (mr_unitId r) \<Longrightarrow>
     \<not> (mr_ownerApprovalStatus r = PENDING \<and> mr_ownerApprovalRequestedAt r \<noteq> None) \<Longrightarrow>
     request_step r (upd_requestApprovalNow t reason deadline userId now r)"
| markRequested:
    "mr_ownerApprovalStatus r = PENDING \<Longrightarrow>
     request_step r (upd_markRequested userId now r)"
| override:
    "mr_ownerApprovalStatus r = PENDING \<Longrightarrow>
     (source = MANAGEMENT_OVERRIDE \<longrightarrow>
        (\<exists>d. mr_ownerApprovalDeadlineAt r = Some d \<and> d \<le> now)) \<Longrightarrow>
     request_step r (upd_override source reason userId now r)"
| ownerDecision:
    "mr_ownerApprovalStatus r = PENDING \<Longrightarrow> decision = APPROVED \<or> decision = REJECTED \<Longrightarrow>
     request_step r (upd_ownerDecision decision why userId now r)"
| status:
    "List.member (MAINTENANCE_STATUS_TRANSITIONS (mr_status r)) st \<Longrightarrow>
     assertExecutionUnlocked r = Inr () \<Longrightarrow>
     request_step r (upd_status st now r)"
| cancel:
    "mr_status r \<noteq> COMPLETED \<Longrightarrow> mr_status r \<noteq> CANCELED \<Longrightarrow>
     request_step r (upd_cancel now r)"
| triage:
    "assertRequestOpenForApproval r = Inr () \<Longrightarrow> request_step r (upd_triage t r)"
| residentEdit:
    "mr_status r = OPEN \<Longrightarrow> request_step r (upd_residentEdit edit r)"
| reminder:
    "reminder_due now r \<Longrightarrow> request_step r (upd_reminder now r)"

inductive_cases request_stepE: "request_step r r'"

lemma step_identity: "request_step r r' \<Longrightarrow> row_identity r' = row_identity r"
  by (induction rule: request_step.induct) simp_all

lemma step_id: "request_step r r' \<Longrightarrow> mr_id r' = mr_id r"
  by (auto dest: step_identity simp: row_identity_def)

lemma truthy_not_None: "truthy x \<Longrightarrow> x \<noteq> None"
  by auto

lemma step_row_ok:
  assumes "request_step r r'" and "row_ok r"
  shows "row_ok r'"
  using assms
  by (induction rule: request_step.induct)
    (simp_all only: row_ok_execution row_ok_requestEstimate row_ok_approval row_ok_status
      row_ok_cancel row_ok_other unlockedD truthy_not_None not_False_eq_True simp_thms)

section \<open>What a step may do to the work status\<close>

lemma upd_status_values [simp]:
  "mr_status (upd_assignStaff a n r) = ASSIGNED"
  "mr_status (upd_assignProvider a n r) = ASSIGNED"
  "mr_status (upd_assignWorker a n r) = ASSIGNED"
  "mr_status (upd_unassignProvider r) = OPEN"
  "mr_status (upd_requestEstimate a b n due r) = OPEN"
  "mr_status (upd_submitEstimatePending t a n c d r) = mr_status r"
  "mr_status (upd_submitEstimate t a n r) = mr_status r"
  "mr_status (upd_requireApproval t c d r) = mr_status r"
  "mr_status (upd_requestApprovalNow t c d a n r) = mr_status r"
  "mr_status (upd_markRequested a n r) = mr_status r"
  "mr_status (upd_override src c a n r) = mr_status r"
  "mr_status (upd_ownerDecision dec e a n r) = mr_status r"
  "mr_status (upd_status st n r) = st"
  "mr_status (upd_cancel n r) = CANCELED"
  "mr_status (upd_triage t r) = mr_status r"
  "mr_status (upd_residentEdit ed r) = mr_status r"
  "mr_status (upd_reminder n r) = mr_status r"
  by (simp_all add: upd_defs Let_def)

lemma upd_approval_values [simp]:
  "mr_ownerApprovalStatus (upd_assignStaff a n r) = mr_ownerApprovalStatus r"
  "mr_ownerApprovalStatus (upd_assignProvider a n r) = mr_ownerApprovalStatus r"
  "mr_ownerApprovalStatus (upd_assignWorker a n r) = mr_ownerApprovalStatus r"
  "mr_ownerApprovalStatus (upd_unassignProvider r) = mr_ownerApprovalStatus r"
  "mr_ownerApprovalStatus (upd_requestEstimate a b n due r) = NOT_REQUIRED"
  "mr_ownerApprovalStatus (upd_submitEstimatePending t a n c d r) = PENDING"
  "mr_ownerApprovalStatus (upd_submitEstimate t a n r) = NOT_REQUIRED"
  "mr_ownerApprovalStatus (upd_requireApproval t c d r) = PENDING"
  "mr_ownerApprovalStatus (upd_requestApprovalNow t c d a n r) = PENDING"
  "mr_ownerApprovalStatus (upd_markRequested a n r) = mr_ownerApprovalStatus r"
  "mr_ownerApprovalStatus (upd_override src c a n r) = APPROVED"
  "mr_ownerApprovalStatus (upd_ownerDecision dec e a n r) = dec"
  "mr_ownerApprovalStatus (upd_status st n r) = mr_ownerApprovalStatus r"
  "mr_ownerApprovalStatus (upd_cancel n r) = mr_ownerApprovalStatus r"
  "mr_ownerApprovalStatus (upd_triage t r) = mr_ownerApprovalStatus r"
  "mr_ownerApprovalStatus (upd_residentEdit ed r) = mr_ownerApprovalStatus r"
  "mr_ownerApprovalStatus (upd_reminder n r) = mr_ownerApprovalStatus r"
  by (simp_all add: upd_defs Let_def)

lemma upd_estimate_values [simp]:
  "mr_estimateStatus (upd_assignStaff a n r) = mr_estimateStatus r"
  "mr_estimateStatus (upd_assignProvider a n r) = mr_estimateStatus r"
  "mr_estimateStatus (upd_assignWorker a n r) = mr_estimateStatus r"
  "mr_estimateStatus (upd_unassignProvider r)
     = (if mr_estimateStatus r = REQUESTED then NOT_REQUESTED else mr_estimateStatus r)"
  "mr_estimateStatus (upd_requestEstimate a b n due r) = REQUESTED"
  "mr_estimateStatus (upd_submitEstimatePending t a n c d r) = SUBMITTED"
  "mr_estimateStatus (upd_submitEstimate t a n r) = SUBMITTED"
  "mr_estimateStatus (upd_requireApproval t c d r) = mr_estimateStatus r"
  "mr_estimateStatus (upd_requestApprovalNow t c d a n r) = mr_estimateStatus r"
  "mr_estimateStatus (upd_markRequested a n r) = mr_estimateStatus r"
  "mr_estimateStatus (upd_override src c a n r) = mr_estimateStatus r"
  "mr_estimateStatus (upd_ownerDecision dec e a n r) = mr_estimateStatus r"
  "mr_estimateStatus (upd_status st n r) = mr_estimateStatus r"
  "mr_estimateStatus (upd_cancel n r) = mr_estimateStatus r"
  "mr_estimateStatus (upd_triage t r) = mr_estimateStatus r"
  "mr_estimateStatus (upd_residentEdit ed r) = mr_estimateStatus r"
  "mr_estimateStatus (upd_reminder n r) = mr_estimateStatus r"
  by (simp_all add: upd_defs Let_def)

lemma closed_or_open: "assertRequestOpenForApproval r = Inr () \<longleftrightarrow>
    mr_status r \<noteq> COMPLETED \<and> mr_status r \<noteq> CANCELED"
  by (auto simp: assertRequestOpenForApproval_def)

text \<open>
  A row without what the request for an owner's approval, the decision and its override write:
  all columns but the approval status, when and by whom approval was asked, and the decision
  with its reasons.
\<close>

definition without_decision :: "maintenance_request \<Rightarrow> maintenance_request" where
  "without_decision r =
     r\<lparr> mr_ownerApprovalStatus := NOT_REQUIRED, mr_ownerApprovalRequestedAt := None,
        mr_ownerApprovalRequestedByUserId := None, mr_ownerApprovalReason := None,
        mr_ownerApprovalDecidedAt := None, mr_ownerApprovalDecidedByOwnerUserId := None,
        mr_ownerApprovalDecisionSource := None, mr_ownerApprovalOverrideReason := None,
        mr_ownerApprovalOverriddenByUserId := None \<rparr>"

text \<open>On a closed request a step writes nothing but these columns.\<close>

lemma step_closed:
  assumes "request_step r r'" and "mr_status r = COMPLETED \<or> mr_status r = CANCELED"
  shows "without_decision r' = without_decision r"
  using assms
proof (induction rule: request_step.induct)
  case (status r st now)
  then show ?case by (cases "mr_status r") simp_all
qed (auto simp: closed_or_open reminder_due_def upd_markRequested_def upd_override_def
      upd_ownerDecision_def without_decision_def)

section \<open>The abstract machine\<close>

text \<open>Who has the work: an employee, a provider, or a provider's worker.\<close>

datatype executor = Nobody | Staff string | Provider string | ProviderWorker string string

record areq =
  a_status :: req_status
  a_approval :: approval_status
  a_estimate :: estimate_status
  a_executor :: executor

definition executor_of :: "maintenance_request \<Rightarrow> executor" where
  "executor_of r =
     (case mr_serviceProviderId r of
        Some p \<Rightarrow> (case mr_serviceProviderAssignedUserId r of
                     Some w \<Rightarrow> ProviderWorker p w | None \<Rightarrow> Provider p)
      | None \<Rightarrow> (case mr_assignedToUserId r of Some v \<Rightarrow> Staff v | None \<Rightarrow> Nobody))"

text \<open>The provider that has the work.\<close>

fun provider_of :: "executor \<Rightarrow> string option" where
  "provider_of (Provider p) = Some p"
| "provider_of (ProviderWorker p w) = Some p"
| "provider_of _ = None"

definition abs_req :: "maintenance_request \<Rightarrow> areq" where
  "abs_req r = \<lparr> a_status = mr_status r, a_approval = mr_ownerApprovalStatus r,
                 a_estimate = mr_estimateStatus r, a_executor = executor_of r \<rparr>"

text \<open>Work may be handed out or go on.\<close>

definition a_unlocked :: "areq \<Rightarrow> bool" where
  "a_unlocked a \<longleftrightarrow> a_approval a \<in> {NOT_REQUIRED, APPROVED} \<and> a_estimate a \<noteq> REQUESTED"

definition a_closed :: "areq \<Rightarrow> bool" where
  "a_closed a \<longleftrightarrow> a_status a = COMPLETED \<or> a_status a = CANCELED"

inductive lifecycle :: "areq \<Rightarrow> areq \<Rightarrow> bool" where
  stutter: "lifecycle a a"
| hand_out:
    "a_status a \<in> {OPEN, ASSIGNED} \<Longrightarrow> a_unlocked a \<Longrightarrow> e = Staff v \<or> e = Provider p \<Longrightarrow>
     lifecycle a (a\<lparr>a_status := ASSIGNED, a_executor := e\<rparr>)"
| delegate:
    "a_status a \<in> {OPEN, ASSIGNED} \<Longrightarrow> a_unlocked a \<Longrightarrow> provider_of (a_executor a) = Some p \<Longrightarrow>
     lifecycle a (a\<lparr>a_status := ASSIGNED, a_executor := ProviderWorker p w\<rparr>)"
| take_back:
    "a_status a \<in> {OPEN, ASSIGNED} \<Longrightarrow> a_unlocked a \<Longrightarrow>
     provider_of (a_executor a) \<noteq> None \<Longrightarrow>
     lifecycle a (a\<lparr>a_status := OPEN, a_executor := Nobody\<rparr>)"
| ask_estimate:
    "a_status a \<in> {OPEN, ASSIGNED} \<Longrightarrow> a_approval a \<noteq> PENDING \<Longrightarrow>
     lifecycle a \<lparr>a_status = OPEN, a_approval = NOT_REQUIRED, a_estimate = REQUESTED,
                  a_executor = Provider p\<rparr>"
| receive_estimate:
    "\<not> a_closed a \<Longrightarrow> ap = NOT_REQUIRED \<or> ap = PENDING \<Longrightarrow>
     lifecycle a (a\<lparr>a_estimate := SUBMITTED, a_approval := ap\<rparr>)"
| ask_owner:
    "\<not> a_closed a \<Longrightarrow> lifecycle a (a\<lparr>a_approval := PENDING\<rparr>)"
| decide:
    "a_approval a = PENDING \<Longrightarrow> ap = APPROVED \<or> ap = REJECTED \<Longrightarrow>
     lifecycle a (a\<lparr>a_approval := ap\<rparr>)"
| advance:
    "List.member (MAINTENANCE_STATUS_TRANSITIONS (a_status a)) st \<Longrightarrow> a_unlocked a \<Longrightarrow>
     lifecycle a (a\<lparr>a_status := st\<rparr>)"
| call_off:
    "\<not> a_closed a \<Longrightarrow> lifecycle a (a\<lparr>a_status := CANCELED\<rparr>)"

lemma abs_unlocked: "assertExecutionUnlocked r = Inr () \<Longrightarrow> a_unlocked (abs_req r)"
  by (cases "mr_ownerApprovalStatus r") (auto simp: a_unlocked_def abs_req_def dest: unlockedD)

lemma abs_fields [simp]:
  "a_status (abs_req r) = mr_status r"
  "a_approval (abs_req r) = mr_ownerApprovalStatus r"
  "a_estimate (abs_req r) = mr_estimateStatus r"
  "a_executor (abs_req r) = executor_of r"
  by (simp_all add: abs_req_def)

lemma abs_closed [simp]: "a_closed (abs_req r) \<longleftrightarrow> mr_status r = COMPLETED \<or> mr_status r = CANCELED"
  by (simp add: a_closed_def)

lemma executor_frame_values [simp]:
  "executor_of (upd_submitEstimatePending t a n c d r) = executor_of r"
  "executor_of (upd_submitEstimate t a n r) = executor_of r"
  "executor_of (upd_requireApproval t c d r) = executor_of r"
  "executor_of (upd_requestApprovalNow t c d a n r) = executor_of r"
  "executor_of (upd_markRequested a n r) = executor_of r"
  "executor_of (upd_override src c a n r) = executor_of r"
  "executor_of (upd_ownerDecision dec e a n r) = executor_of r"
  "executor_of (upd_status st n r) = executor_of r"
  "executor_of (upd_cancel n r) = executor_of r"
  "executor_of (upd_triage t r) = executor_of r"
  "executor_of (upd_residentEdit ed r) = executor_of r"
  "executor_of (upd_reminder n r) = executor_of r"
  by (simp_all add: executor_of_def upd_defs Let_def cong: option.case_cong)

lemma assignedAt_frame:
  "mr_assignedAt (upd_submitEstimatePending t a n c d r) = mr_assignedAt r"
  "mr_assignedAt (upd_submitEstimate t a n r) = mr_assignedAt r"
  "mr_assignedAt (upd_requireApproval t c d r) = mr_assignedAt r"
  "mr_assignedAt (upd_requestApprovalNow t c d a n r) = mr_assignedAt r"
  "mr_assignedAt (upd_markRequested a n r) = mr_assignedAt r"
  "mr_assignedAt (upd_override src c a n r) = mr_assignedAt r"
  "mr_assignedAt (upd_ownerDecision dec e a n r) = mr_assignedAt r"
  "mr_assignedAt (upd_triage t r) = mr_assignedAt r"
  "mr_assignedAt (upd_residentEdit ed r) = mr_assignedAt r"
  "mr_assignedAt (upd_reminder n r) = mr_assignedAt r"
  by (simp_all add: upd_defs Let_def)

lemma executor_set_values [simp]:
  "executor_of (upd_assignStaff a n r) = Staff a"
  "executor_of (upd_assignProvider a n r) = Provider a"
  "mr_serviceProviderId r = Some p \<Longrightarrow> executor_of (upd_assignWorker a n r) = ProviderWorker p a"
  "executor_of (upd_requestEstimate a b n due r) = Provider a"
  by (simp_all add: executor_of_def upd_defs cong: option.case_cong)

lemma provider_of_executor [simp]: "provider_of (executor_of r) = mr_serviceProviderId r"
  by (simp add: executor_of_def split: option.split)

lemma without_decision_fields:
  assumes "without_decision r' = without_decision r"
  shows "mr_status r' = mr_status r" and "executor_of r' = executor_of r"
    and "mr_estimateStatus r' = mr_estimateStatus r" and "mr_estimatedAmount r' = mr_estimatedAmount r"
  using assms [THEN arg_cong, of mr_status] assms [THEN arg_cong, of executor_of]
    assms [THEN arg_cong, of mr_estimateStatus] assms [THEN arg_cong, of mr_estimatedAmount]
  by (simp_all add: without_decision_def executor_of_def cong: option.case_cong)

lemma executor_unassign:
  "executor_ok r \<Longrightarrow> truthy (mr_serviceProviderId r) \<Longrightarrow>
   executor_of (upd_unassignProvider r) = Nobody"
  by (auto simp: executor_ok_def executor_of_def upd_unassignProvider_def)

text \<open>
  Work goes on and is handed out, again or to somebody else, only through the execution lock.
\<close>

lemma step_execution:
  assumes "request_step r r'"
    and "mr_status r' \<noteq> mr_status r \<or> executor_of r' \<noteq> executor_of r \<or> mr_assignedAt r' \<noteq> mr_assignedAt r"
    and "mr_status r' \<in> {ASSIGNED, IN_PROGRESS, COMPLETED}"
  shows "assertExecutionUnlocked r = Inr ()"
  using assms by (induction rule: request_step.induct) (simp_all add: assignedAt_frame)

lemma step_refines:
  assumes "request_step r r'" and "row_ok r"
  shows "lifecycle (abs_req r) (abs_req r')"
  using assms
proof (induction rule: request_step.induct)
  case (assignStaff r staffId now)
  then show ?case
    using lifecycle.hand_out [of "abs_req r" "Staff staffId"] by (simp add: abs_unlocked) (simp add: abs_req_def)
next
  case (assignProvider r providerId now)
  then show ?case
    using lifecycle.hand_out [of "abs_req r" "Provider providerId"] by (simp add: abs_unlocked) (simp add: abs_req_def)
next
  case (assignWorker r workerId now)
  then obtain p where p: "mr_serviceProviderId r = Some p" by auto
  with assignWorker show ?case
    using lifecycle.delegate [of "abs_req r" p workerId]
    by (simp add: abs_unlocked) (simp add: abs_req_def)
next
  case (unassignProvider r)
  then have "mr_estimateStatus r \<noteq> REQUESTED" by (auto dest: unlockedD)
  moreover from unassignProvider obtain p where "mr_serviceProviderId r = Some p" by auto
  ultimately show ?case
    using unassignProvider lifecycle.take_back [of "abs_req r"] executor_unassign [of r]
    by (simp add: abs_unlocked row_ok_def) (simp add: abs_req_def)
next
  case (requestEstimate r providerId userId now due)
  then show ?case using lifecycle.ask_estimate [of "abs_req r" providerId] by simp (simp add: abs_req_def)
next
  case (submitEstimatePending r t actor now reason deadline)
  then show ?case
    using lifecycle.receive_estimate [of "abs_req r" PENDING]
    by (simp add: closed_or_open) (simp add: abs_req_def)
next
  case (submitEstimate r t actor now)
  then show ?case
    using lifecycle.receive_estimate [of "abs_req r" NOT_REQUIRED]
    by (simp add: closed_or_open) (simp add: abs_req_def)
next
  case (requireApproval r t reason deadline)
  then show ?case
    using lifecycle.ask_owner [of "abs_req r"] by (simp add: closed_or_open) (simp add: abs_req_def)
next
  case (requestApprovalNow r t reason deadline userId now)
  then show ?case
    using lifecycle.ask_owner [of "abs_req r"] by (simp add: closed_or_open) (simp add: abs_req_def)
next
  case (override r source now reason userId)
  then show ?case
    using lifecycle.decide [of "abs_req r" APPROVED] by simp (simp add: abs_req_def)
next
  case (ownerDecision r decision why userId now)
  then show ?case
    using lifecycle.decide [of "abs_req r" decision] by simp (simp add: abs_req_def)
next
  case (status r st now)
  then show ?case
    using lifecycle.advance [of "abs_req r" st] by (simp add: abs_unlocked) (simp add: abs_req_def)
next
  case (cancel r now)
  then show ?case using lifecycle.call_off [of "abs_req r"] by simp (simp add: abs_req_def)
qed (use lifecycle.stutter in \<open>simp_all add: abs_req_def\<close>)

section \<open>What a handler writes\<close>

definition unique_ids :: "db \<Rightarrow> bool" where
  "unique_ids s = distinct (map mr_id (requests s))"

text \<open>
  The approval status of a row does not change to PENDING, APPROVED or REJECTED without an
  audit row that says from what to what.
\<close>

definition audits_change :: "maintenance_request \<Rightarrow> maintenance_request \<Rightarrow> approval_audit list \<Rightarrow> bool" where
  "audits_change r r' aud \<longleftrightarrow>
     (\<forall>a \<in> set aud. au_requestId a = mr_id r \<and> au_orgId a = mr_orgId r)
     \<and> (mr_ownerApprovalStatus r' \<noteq> mr_ownerApprovalStatus r
        \<longrightarrow> mr_ownerApprovalStatus r' \<noteq> NOT_REQUIRED
        \<longrightarrow> (\<exists>a \<in> set aud. au_fromStatus a = Some (mr_ownerApprovalStatus r)
                          \<and> au_toStatus a = mr_ownerApprovalStatus r'))"

text \<open>
  \<open>writes_row s r r' s'\<close>: the handler replaced row \<open>r\<close> by \<open>r'\<close>, one step of its life, added the
  audit rows of that step and its events, and changed nothing else in the database.
\<close>

definition writes_row :: "db \<Rightarrow> maintenance_request \<Rightarrow> maintenance_request \<Rightarrow> db \<Rightarrow> bool" where
  "writes_row s r r' s' \<longleftrightarrow>
     find_by mr_id (mr_id r) (requests s) = Some r \<and> request_step r r'
     \<and> (\<exists>aud ev. audits_change r r' aud
          \<and> s' = s\<lparr> requests := modify_by mr_id (mr_id r) (\<lambda>_. r') (requests s),
                    approvalAudits := approvalAudits s @ aud,
                    eventLog := eventLog s @ ev \<rparr>)"

interpretation request_table: keyed_table mr_id "find_by mr_id" "modify_by mr_id"
  by (rule keyed_table_lists)

interpretation read_state_table: keyed_table rs_key "find_by rs_key" "modify_by rs_key"
  by (rule keyed_table_lists)

lemma modify_by_const:
  assumes "distinct (map key rows)" and "find_by key k rows = Some r"
  shows "modify_by key k f rows = modify_by key k (\<lambda>_. f r) rows"
  using assms by (auto simp: modify_by_def dest!: find_by_distinct [rotated])

lemma updateById_Inr:
  assumes "unique_ids s" and "updateById s rid f = Inr (r', s1)"
    and "find_by mr_id rid (requests s) = Some r"
  shows "r' = f r \<and> s1 = s\<lparr>requests := modify_by mr_id rid (\<lambda>_. f r) (requests s)\<rparr>"
  using assms modify_by_const [of mr_id "requests s" rid r f]
  by (auto simp: updateById_def unique_ids_def)

lemma writes_rowI:
  assumes "unique_ids s" and "find_by mr_id rid (requests s) = Some r"
    and "updateById s rid f = Inr (r', s1)" and "request_step r (f r)"
    and "audits_change r (f r) aud"
    and "s' = s1\<lparr>approvalAudits := approvalAudits s1 @ aud, eventLog := eventLog s1 @ ev\<rparr>"
  shows "writes_row s r r' s'"
proof -
  have id: "mr_id r = rid" using assms(2) by (rule find_by_SomeD)
  have "r' = f r" and "s1 = s\<lparr>requests := modify_by mr_id rid (\<lambda>_. f r) (requests s)\<rparr>"
    using updateById_Inr [OF assms(1,3,2)] by simp_all
  then show ?thesis unfolding writes_row_def using assms id by fastforce
qed

lemma writes_row_update:
  assumes "unique_ids s" and "find_by mr_id rid (requests s) = Some r"
    and "updateById s rid f = Inr (r', s1)" and "request_step r (f r)"
    and "mr_ownerApprovalStatus (f r) = mr_ownerApprovalStatus r
         \<or> mr_ownerApprovalStatus (f r) = NOT_REQUIRED"
  shows "writes_row s r r' s1"
  using assms by (intro writes_rowI [of s rid r f r' s1 "[]" _ "[]"]) (auto simp: audits_change_def)

lemma identity_fields:
  "row_identity r' = row_identity r \<Longrightarrow> mr_id r' = mr_id r \<and> mr_orgId r' = mr_orgId r"
  by (simp add: row_identity_def)

lemma writes_row_audited:
  assumes "unique_ids s" and "find_by mr_id rid (requests s) = Some r"
    and "updateById s rid f = Inr (r', s1)" and "request_step r (f r)"
    and "fromSt = mr_ownerApprovalStatus r" and "toSt = mr_ownerApprovalStatus (f r)"
  shows "writes_row s r r' (createOwnerApprovalAudit s1 (mr_id r') (mr_orgId r') actor action
           (Some fromSt) toSt why src)"
proof -
  define a where "a = \<lparr> au_requestId = mr_id r', au_orgId = mr_orgId r', au_actorUserId = actor,
    au_action = action, au_fromStatus = Some fromSt, au_toStatus = toSt,
    au_decisionSource = src, au_reason = why \<rparr>"
  have "r' = f r" using updateById_Inr [OF assms(1,3,2)] by simp
  then have "audits_change r (f r) [a]"
    using assms(5,6) step_identity [OF assms(4)]
    by (auto simp: a_def audits_change_def dest: identity_fields)
  then show ?thesis
    by (rule writes_rowI [OF assms(1-4), of _ _ "[]"]) (simp add: createOwnerApprovalAudit_def a_def)
qed

text \<open>More audit rows of the same request and more events may follow.\<close>

lemma writes_row_emit: "writes_row s r r' s1 \<Longrightarrow> writes_row s r r' (emitEvent s1 e)"
  unfolding writes_row_def emitEvent_def by fastforce

lemma writes_row_more_audit:
  assumes "writes_row s r r' s1"
  shows "writes_row s r r' (createOwnerApprovalAudit s1 (mr_id r') (mr_orgId r') actor action fromSt toSt why src)"
proof -
  from assms obtain aud ev where step: "find_by mr_id (mr_id r) (requests s) = Some r" "request_step r r'"
    and aud: "audits_change r r' aud"
    and s1: "s1 = s\<lparr> requests := modify_by mr_id (mr_id r) (\<lambda>_. r') (requests s),
                    approvalAudits := approvalAudits s @ aud, eventLog := eventLog s @ ev \<rparr>"
    unfolding writes_row_def by blast
  define a where "a = \<lparr> au_requestId = mr_id r', au_orgId = mr_orgId r', au_actorUserId = actor,
    au_action = action, au_fromStatus = fromSt, au_toStatus = toSt,
    au_decisionSource = src, au_reason = why \<rparr>"
  have "audits_change r r' (aud @ [a])"
    using aud identity_fields [OF step_identity [OF step(2)]] by (auto simp: audits_change_def a_def)
  moreover have "createOwnerApprovalAudit s1 (mr_id r') (mr_orgId r') actor action fromSt toSt why src
    = s\<lparr> requests := modify_by mr_id (mr_id r) (\<lambda>_. r') (requests s),
         approvalAudits := approvalAudits s @ (aud @ [a]), eventLog := eventLog s @ ev \<rparr>"
    by (simp add: s1 createOwnerApprovalAudit_def a_def)
  ultimately show ?thesis unfolding writes_row_def using step by blast
qed

section \<open>Finding rows\<close>

lemma find_building:
  assumes "unique_ids s" and "findByIdForBuilding s org bldg rid = Some r"
  shows "find_by mr_id rid (requests s) = Some r"
    and "mr_id r = rid" and "mr_orgId r = org" and "mr_buildingId r = bldg"
proof -
  have "find_by mr_id rid (requests s) = Some r \<and> mr_orgId r = org \<and> mr_buildingId r = bldg"
    using assms unfolding findByIdForBuilding_def unique_ids_def by (rule find_Some_iff_find_by [rotated])
  then show "find_by mr_id rid (requests s) = Some r" and "mr_id r = rid"
    and "mr_orgId r = org" and "mr_buildingId r = bldg"
    by (auto dest: find_by_SomeD(2))
qed

lemma find_creator:
  assumes "unique_ids s" and "findByIdForCreator s org userId rid = Some r"
  shows "find_by mr_id rid (requests s) = Some r"
    and "mr_id r = rid" and "mr_orgId r = org" and "mr_createdByUserId r = userId"
proof -
  have "find_by mr_id rid (requests s) = Some r \<and> mr_orgId r = org \<and> mr_createdByUserId r = userId"
    using assms unfolding findByIdForCreator_def unique_ids_def by (rule find_Some_iff_find_by [rotated])
  then show "find_by mr_id rid (requests s) = Some r" and "mr_id r = rid"
    and "mr_orgId r = org" and "mr_createdByUserId r = userId"
    by (auto dest: find_by_SomeD(2))
qed

lemma find_provider:
  assumes "unique_ids s" and "findByIdForServiceProviders s org ps rid = Some r"
  shows "find_by mr_id rid (requests s) = Some r"
    and "mr_id r = rid" and "in_providers (mr_serviceProviderId r) ps"
proof -
  have "find_by mr_id rid (requests s) = Some r
        \<and> (truthy org \<longrightarrow> Some (mr_orgId r) = org) \<and> in_providers (mr_serviceProviderId r) ps"
    using assms unfolding findByIdForServiceProviders_def unique_ids_def
    by (rule find_Some_iff_find_by [rotated])
  then show "find_by mr_id rid (requests s) = Some r" and "mr_id r = rid"
    and "in_providers (mr_serviceProviderId r) ps"
    by (auto dest: find_by_SomeD(2))
qed

end
