(* ===== verification/RequestBuilding.thy ===== *)
theory RequestBuilding
  imports RequestSteps
begin

text \<open>
  The building side of \<^verbatim>\<open>MaintenanceRequestsService\<close>: what managers and building staff do with
  the requests of a building. Every handler checks, in the source's order, the organisation
  scope of the caller, the caller's id, that the building is in the organisation, and the
  caller's building access; then it loads the request by id, organisation and building.

  One lemma per writing handler (\<open>..._writes\<close>) says what it wrote; \<open>building_scope\<close> is what it
  checked about the caller.
\<close>

section \<open>Shared openings\<close>

definition managerActor :: "db \<Rightarrow> principal \<Rightarrow> string \<Rightarrow> string \<Rightarrow> (string \<times> string) res" where
  "managerActor s u bldg msg =
     andThen (buildingActor s u bldg) (\<lambda>(org, userId, ctx).
     andThen (ensure (\<not> ac_isBuildingStaffOnly ctx) (Forbidden msg)) (\<lambda>_.
     Inr (org, userId)))"

definition loadBuildingRequest :: "db \<Rightarrow> string \<Rightarrow> string \<Rightarrow> string \<Rightarrow> maintenance_request res" where
  "loadBuildingRequest s org bldg rid =
     orThrow (findByIdForBuilding s org bldg rid) (NotFound ''Request not found'')"

definition assertOpenOrAssigned :: "maintenance_request \<Rightarrow> unit res" where
  "assertOpenOrAssigned r =
     ensure (mr_status r = OPEN \<or> mr_status r = ASSIGNED)
       (Conflict ''Request is not open or assigned'')"

section \<open>Reading\<close>

record list_query =
  lq_status :: "req_status option"
  lq_ownerApprovalStatus :: "approval_status option"
  lq_queue :: "request_queue option"

definition listBuildingRequests ::
  "db \<Rightarrow> int \<Rightarrow> principal \<Rightarrow> string \<Rightarrow> list_query \<Rightarrow> maintenance_request list res" where
  "listBuildingRequests s now u bldg query =
     andThen (buildingActor s u bldg) (\<lambda>(org, userId, ctx).
     let assignedToUserId = (if ac_isBuildingStaffOnly ctx then Some userId else None)
     in Inr (filter (\<lambda>r.
          (lq_ownerApprovalStatus query \<noteq> None
             \<longrightarrow> lq_ownerApprovalStatus query = Some (mr_ownerApprovalStatus r))
          \<and> (lq_queue query \<noteq> None
             \<longrightarrow> getPrimaryMaintenanceRequestQueue (policy_input_of r) now = lq_queue query))
        (listByBuilding s org bldg (lq_status query) assignedToUserId)))"

definition getBuildingRequest :: "db \<Rightarrow> principal \<Rightarrow> string \<Rightarrow> string \<Rightarrow> maintenance_request res" where
  "getBuildingRequest s u bldg rid =
     andThen (assertOrgScope u) (\<lambda>org.
     andThen (requireUserId u) (\<lambda>userId.
     andThen (assertBuildingInOrg s bldg org) (\<lambda>_.
     andThen (loadBuildingRequest s org bldg rid) (\<lambda>r.
     let ctx = getBuildingAccessContext s userId org bldg
     in andThen (ensure (\<not> (ac_isBuildingStaffOnly ctx \<and> mr_assignedToUserId r \<noteq> Some userId))
                   (Forbidden ''Forbidden'')) (\<lambda>_.
     Inr r)))))"

section \<open>Assignment\<close>

definition staffUserInOrg :: "db \<Rightarrow> string \<Rightarrow> string \<Rightarrow> user_row res" where
  "staffUserInOrg s org staffUserId =
     (case findUserById s staffUserId of
        None \<Rightarrow> Inl (BadRequest ''Staff user not in org'')
      | Some x \<Rightarrow> if \<not> us_isActive x \<or> us_orgId x \<noteq> Some org
                  then Inl (BadRequest ''Staff user not in org'') else Inr x)"

definition assignRequest ::
  "db \<Rightarrow> int \<Rightarrow> principal \<Rightarrow> string \<Rightarrow> string \<Rightarrow> string \<Rightarrow> (maintenance_request \<times> db) res" where
  "assignRequest s now u bldg rid staffUserId =
     andThen (managerActor s u bldg ''Staff cannot assign requests'') (\<lambda>(org, userId).
     andThen (loadBuildingRequest s org bldg rid) (\<lambda>r.
     andThen (assertOpenOrAssigned r) (\<lambda>_.
     andThen (assertExecutionUnlocked r) (\<lambda>_.
     andThen (staffUserInOrg s org staffUserId) (\<lambda>staffUser.
     let staffAssignments = findBuildingScopedAssignmentsForUser s bldg (us_id staffUser) org
     in andThen (ensure (list_ex (\<lambda>a. assignmentHasPermissions s a REQUEST_HANDLING_PERMISSIONS)
                           staffAssignments)
                  (BadRequest ''Staff user lacks building-scoped request handling access'')) (\<lambda>_.
     andThen (ensure (staffAssignments \<noteq> [])
                (BadRequest ''Staff user not assigned to building'')) (\<lambda>_.
     let previousRequest = toEventRequest s r
     in andThen (updateById s (mr_id r) (upd_assignStaff (us_id staffUser) now)) (\<lambda>(r', s').
     Inr (r', emitEvent s' (event EV_ASSIGNED (toEventRequest s' r') (Some previousRequest) userId))))))))))"

definition providerForBuilding :: "db \<Rightarrow> string \<Rightarrow> string \<Rightarrow> provider_row res" where
  "providerForBuilding s bldg serviceProviderId =
     (case findServiceProviderById s serviceProviderId of
        None \<Rightarrow> Inl (BadRequest ''Service provider not found or inactive'')
      | Some p \<Rightarrow>
          if \<not> sp_isActive p then Inl (BadRequest ''Service provider not found or inactive'')
          else if findServiceProviderBuildingLink s (sp_id p) bldg = None
          then Inl (BadRequest ''Service provider not linked to building'')
          else Inr p)"

definition assignProvider ::
  "db \<Rightarrow> int \<Rightarrow> principal \<Rightarrow> string \<Rightarrow> string \<Rightarrow> string \<Rightarrow> (maintenance_request \<times> db) res" where
  "assignProvider s now u bldg rid serviceProviderId =
     andThen (managerActor s u bldg ''Staff cannot assign requests'') (\<lambda>(org, userId).
     andThen (loadBuildingRequest s org bldg rid) (\<lambda>r.
     andThen (assertOpenOrAssigned r) (\<lambda>_.
     andThen (assertExecutionUnlocked r) (\<lambda>_.
     andThen (providerForBuilding s bldg serviceProviderId) (\<lambda>provider.
     let previousRequest = toEventRequest s r
     in andThen (updateById s (mr_id r) (upd_assignProvider (sp_id provider) now)) (\<lambda>(r', s').
     Inr (r', emitEvent s' (event EV_ASSIGNED (toEventRequest s' r') (Some previousRequest) userId))))))))"

definition requestEstimateFromProvider ::
  "db \<Rightarrow> int \<Rightarrow> int \<Rightarrow> principal \<Rightarrow> string \<Rightarrow> string \<Rightarrow> string \<Rightarrow> (maintenance_request \<times> db) res" where
  "requestEstimateFromProvider s ttl now u bldg rid serviceProviderId =
     andThen (managerActor s u bldg ''Staff cannot request estimates'') (\<lambda>(org, userId).
     andThen (loadBuildingRequest s org bldg rid) (\<lambda>r.
     andThen (assertOpenOrAssigned r) (\<lambda>_.
     let route = getMaintenanceRequestPolicyRoute (policy_input_of r)
     in andThen (ensure (mr_ownerApprovalStatus r \<noteq> PENDING)
          (Conflict ''Estimate request is not allowed while owner approval is pending'')) (\<lambda>_.
     andThen (ensure (\<not> (route \<noteq> NEEDS_ESTIMATE \<and> mr_ownerApprovalStatus r \<noteq> REJECTED))
          (Conflict ''Estimate request is only allowed while the request is awaiting an estimate'')) (\<lambda>_.
     andThen (providerForBuilding s bldg serviceProviderId) (\<lambda>provider.
     let previousRequest = toEventRequest s r
     in andThen (updateById s (mr_id r)
                  (upd_requestEstimate (sp_id provider) userId now (buildEstimateDueAt ttl now))) (\<lambda>(r', s').
     Inr (r', emitEvent s' (event EV_ASSIGNED (toEventRequest s' r') (Some previousRequest) userId)))))))))"

definition activeMember :: "db \<Rightarrow> string \<Rightarrow> string \<Rightarrow> provider_user res" where
  "activeMember s providerId userId =
     (case findServiceProviderUserMembership s providerId userId of
        None \<Rightarrow> Inl (BadRequest ''User is not an active member of the assigned service provider'')
      | Some m \<Rightarrow> if \<not> su_isActive m \<or> \<not> user_active s (su_userId m)
                  then Inl (BadRequest ''User is not an active member of the assigned service provider'')
                  else Inr m)"

definition requireServiceProviderId :: "maintenance_request \<Rightarrow> error \<Rightarrow> string res" where
  "requireServiceProviderId r e =
     (if truthy (mr_serviceProviderId r) then Inr (the (mr_serviceProviderId r)) else Inl e)"

definition assignProviderWorker ::
  "db \<Rightarrow> int \<Rightarrow> principal \<Rightarrow> string \<Rightarrow> string \<Rightarrow> string \<Rightarrow> (maintenance_request \<times> db) res" where
  "assignProviderWorker s now u bldg rid workerId =
     andThen (managerActor s u bldg ''Staff cannot assign requests'') (\<lambda>(org, userId).
     andThen (loadBuildingRequest s org bldg rid) (\<lambda>r.
     andThen (assertOpenOrAssigned r) (\<lambda>_.
     andThen (assertExecutionUnlocked r) (\<lambda>_.
     andThen (requireServiceProviderId r
                (Conflict ''Request must be assigned to a service provider first'')) (\<lambda>providerId.
     andThen (ensure (provider_active s providerId)
                (BadRequest ''Assigned service provider is no longer active'')) (\<lambda>_.
     andThen (activeMember s providerId workerId) (\<lambda>membership.
     let previousRequest = toEventRequest s r
     in andThen (updateById s (mr_id r) (upd_assignWorker (su_userId membership) now)) (\<lambda>(r', s').
     Inr (r', emitEvent s' (event EV_ASSIGNED (toEventRequest s' r') (Some previousRequest) userId))))))))))"

definition unassignProvider ::
  "db \<Rightarrow> principal \<Rightarrow> string \<Rightarrow> string \<Rightarrow> (maintenance_request \<times> db) res" where
  "unassignProvider s u bldg rid =
     andThen (managerActor s u bldg ''Staff cannot assign requests'') (\<lambda>(org, userId).
     andThen (loadBuildingRequest s org bldg rid) (\<lambda>r.
     andThen (assertOpenOrAssigned r) (\<lambda>_.
     andThen (requireServiceProviderId r
                (Conflict ''Request is not assigned to a service provider'')) (\<lambda>_.
     andThen (assertExecutionUnlocked r) (\<lambda>_.
     let previousRequest = toEventRequest s r
     in andThen (updateById s (mr_id r) upd_unassignProvider) (\<lambda>(r', s').
     Inr (r', emitEvent s' (event EV_STATUS_CHANGED (toEventRequest s' r') (Some previousRequest) userId))))))))"

definition updateRequestStatus ::
  "db \<Rightarrow> int \<Rightarrow> principal \<Rightarrow> string \<Rightarrow> string \<Rightarrow> req_status \<Rightarrow> (maintenance_request \<times> db) res" where
  "updateRequestStatus s now u bldg rid st =
     andThen (buildingActor s u bldg) (\<lambda>(org, userId, ctx).
     andThen (loadBuildingRequest s org bldg rid) (\<lambda>r.
     andThen (ensure (List.member (MAINTENANCE_STATUS_TRANSITIONS (mr_status r)) st)
                (Conflict ''Invalid status transition'')) (\<lambda>_.
     andThen (ensure (\<not> (ac_isBuildingStaffOnly ctx \<and> mr_assignedToUserId r \<noteq> Some userId))
                (Forbidden ''Forbidden'')) (\<lambda>_.
     andThen (assertExecutionUnlocked r) (\<lambda>_.
     andThen (updateById s (mr_id r) (upd_status st now)) (\<lambda>(r', s').
     Inr (r', emitEvent s' (event EV_STATUS_CHANGED (toEventRequest s' r') None userId))))))))"

section \<open>Owner approval\<close>

record approval_dto =
  ad_triage :: triage_dto
  ad_approvalRequiredReason :: string
  ad_ownerApprovalDeadlineAt :: "int option"

definition assertUnitLinked :: "maintenance_request \<Rightarrow> unit res" where
  "assertUnitLinked r =
     ensure (truthy (mr_unitId r)) (Conflict ''Owner approval requires a request linked to a unit'')"

definition requireOwnerApproval ::
  "db \<Rightarrow> principal \<Rightarrow> string \<Rightarrow> string \<Rightarrow> approval_dto \<Rightarrow> (maintenance_request \<times> db) res" where
  "requireOwnerApproval s u bldg rid dto =
     andThen (managerActor s u bldg ''Staff cannot request owner approval'') (\<lambda>(org, userId).
     andThen (loadBuildingRequest s org bldg rid) (\<lambda>r.
     andThen (assertUnitLinked r) (\<lambda>_.
     andThen (assertRequestOpenForApproval r) (\<lambda>_.
     andThen (buildPolicyTriageUpdateData (ad_triage dto) r None) (\<lambda>t.
     andThen (storableTriage t) (\<lambda>_.
     let previousStatus = mr_ownerApprovalStatus r
     in andThen (updateById s (mr_id r) (upd_requireApproval t
                   (ad_approvalRequiredReason dto) (ad_ownerApprovalDeadlineAt dto))) (\<lambda>(r', s').
     Inr (r', createOwnerApprovalAudit s' (mr_id r') (mr_orgId r') userId AA_REQUIRED
                (Some previousStatus) PENDING (Some (ad_approvalRequiredReason dto)) None))))))))"

definition requestOwnerApprovalNow ::
  "db \<Rightarrow> int \<Rightarrow> principal \<Rightarrow> string \<Rightarrow> string \<Rightarrow> approval_dto \<Rightarrow> (maintenance_request \<times> db) res" where
  "requestOwnerApprovalNow s now u bldg rid dto =
     andThen (managerActor s u bldg ''Staff cannot request owner approval'') (\<lambda>(org, userId).
     andThen (loadBuildingRequest s org bldg rid) (\<lambda>r.
     andThen (assertUnitLinked r) (\<lambda>_.
     andThen (assertRequestOpenForApproval r) (\<lambda>_.
     andThen (ensure (\<not> (mr_ownerApprovalStatus r = PENDING \<and> mr_ownerApprovalRequestedAt r \<noteq> None))
                (Conflict ''Owner approval has already been requested; use resend instead'')) (\<lambda>_.
     andThen (buildPolicyTriageUpdateData (ad_triage dto) r None) (\<lambda>t.
     andThen (storableTriage t) (\<lambda>_.
     let previousStatus = mr_ownerApprovalStatus r;
         reason = Some (ad_approvalRequiredReason dto)
     in andThen (updateById s (mr_id r) (upd_requestApprovalNow t
                   (ad_approvalRequiredReason dto) (ad_ownerApprovalDeadlineAt dto) userId now)) (\<lambda>(r', s1).
     let s2 = (if previousStatus \<noteq> PENDING
               then createOwnerApprovalAudit s1 (mr_id r') (mr_orgId r') userId AA_REQUIRED
                      (Some previousStatus) PENDING reason None
               else s1);
         s3 = createOwnerApprovalAudit s2 (mr_id r') (mr_orgId r') userId AA_REQUESTED
                (Some PENDING) PENDING reason None
     in Inr (r', emitEvent s3 (event EV_OWNER_APPROVAL_REQUESTED (toEventRequest s3 r') None userId))))))))))"

definition markOwnerApprovalRequested ::
  "db \<Rightarrow> int \<Rightarrow> principal \<Rightarrow> string \<Rightarrow> string \<Rightarrow> audit_action \<Rightarrow> bool \<Rightarrow> (maintenance_request \<times> db) res" where
  "markOwnerApprovalRequested s now u bldg rid action requiresExistingRequest =
     andThen (managerActor s u bldg ''Staff cannot request owner approval'') (\<lambda>(org, userId).
     andThen (loadBuildingRequest s org bldg rid) (\<lambda>r.
     andThen (ensure (mr_ownerApprovalStatus r = PENDING)
                (Conflict ''Owner approval must be pending before it can be requested'')) (\<lambda>_.
     andThen (ensure (\<not> (requiresExistingRequest \<and> mr_ownerApprovalRequestedAt r = None))
                (Conflict ''Owner approval has not been requested yet'')) (\<lambda>_.
     andThen (ensure (\<not> (\<not> requiresExistingRequest \<and> mr_ownerApprovalRequestedAt r \<noteq> None))
                (Conflict ''Owner approval has already been requested; use resend instead'')) (\<lambda>_.
     andThen (updateById s (mr_id r) (upd_markRequested userId now)) (\<lambda>(r', s1).
     let s2 = createOwnerApprovalAudit s1 (mr_id r') (mr_orgId r') userId action
                (Some (mr_ownerApprovalStatus r)) (mr_ownerApprovalStatus r)
                (mr_approvalRequiredReason r) None;
         name = (if action = AA_RESENT then EV_OWNER_APPROVAL_REMINDER else EV_OWNER_APPROVAL_REQUESTED)
     in Inr (r', emitEvent s2 (event name (toEventRequest s2 r') None userId))))))))"

definition requestOwnerApproval ::
  "db \<Rightarrow> int \<Rightarrow> principal \<Rightarrow> string \<Rightarrow> string \<Rightarrow> (maintenance_request \<times> db) res" where
  "requestOwnerApproval s now u bldg rid = markOwnerApprovalRequested s now u bldg rid AA_REQUESTED False"

definition resendOwnerApprovalRequest ::
  "db \<Rightarrow> int \<Rightarrow> principal \<Rightarrow> string \<Rightarrow> string \<Rightarrow> (maintenance_request \<times> db) res" where
  "resendOwnerApprovalRequest s now u bldg rid = markOwnerApprovalRequested s now u bldg rid AA_RESENT True"

definition overrideOwnerApproval ::
  "db \<Rightarrow> int \<Rightarrow> principal \<Rightarrow> string \<Rightarrow> string \<Rightarrow> decision_source \<Rightarrow> string \<Rightarrow> (maintenance_request \<times> db) res" where
  "overrideOwnerApproval s now u bldg rid source reason =
     andThen (assertOrgScope u) (\<lambda>org.
     andThen (requireUserId u) (\<lambda>userId.
     andThen (assertBuildingInOrg s bldg org) (\<lambda>_.
     andThen (assertOverridePermission s userId org bldg) (\<lambda>_.
     andThen (loadBuildingRequest s org bldg rid) (\<lambda>r.
     andThen (ensure (mr_ownerApprovalStatus r = PENDING)
                (Conflict ''Only pending owner approvals can be overridden'')) (\<lambda>_.
     andThen (ensure (source = MANAGEMENT_OVERRIDE \<longrightarrow>
                        (case mr_ownerApprovalDeadlineAt r of None \<Rightarrow> False | Some d \<Rightarrow> \<not> d > now))
                (Conflict ''Urgent override requires an expired owner approval deadline'')) (\<lambda>_.
     andThen (updateById s (mr_id r) (upd_override source reason userId now)) (\<lambda>(r', s1).
     let s2 = createOwnerApprovalAudit s1 (mr_id r') (mr_orgId r') userId AA_OVERRIDDEN
                (Some (mr_ownerApprovalStatus r)) APPROVED (Some reason) (Some source)
     in Inr (r', emitEvent s2 (event EV_OWNER_REQUEST_OVERRIDDEN (toEventRequest s2 r') None userId))))))))))"

section \<open>Triage and estimates\<close>

definition updateRequestPolicyTriage ::
  "db \<Rightarrow> principal \<Rightarrow> string \<Rightarrow> string \<Rightarrow> triage_dto \<Rightarrow> (maintenance_request \<times> db) res" where
  "updateRequestPolicyTriage s u bldg rid dto =
     andThen (ensureRequestPolicyPayload dto) (\<lambda>_.
     andThen (managerActor s u bldg ''Staff cannot update request triage'') (\<lambda>(org, userId).
     andThen (loadBuildingRequest s org bldg rid) (\<lambda>r.
     andThen (assertRequestOpenForApproval r) (\<lambda>_.
     andThen (buildPolicyTriageUpdateData dto r None) (\<lambda>t.
     andThen (storableTriage t) (\<lambda>_.
     updateById s (mr_id r) (upd_triage t)))))))"

record estimate_dto =
  es_triage :: triage_dto
  es_approvalRequiredReason :: "string option"
  es_ownerApprovalDeadlineAt :: "int option"

definition requiredReason :: "estimate_dto \<Rightarrow> string" where
  "requiredReason dto =
     (let given = map_option trim (es_approvalRequiredReason dto)
      in if truthy given then the given else buildAutomaticApprovalReason (es_triage dto))"

definition estimateTriage :: "estimate_dto \<Rightarrow> maintenance_request \<Rightarrow> triage_update res" where
  "estimateTriage dto r =
     buildPolicyTriageUpdateData (es_triage dto) r (Some (nullish (mr_estimatedCurrency r) ''AED''))"

definition estimateRoute :: "triage_update \<Rightarrow> maintenance_request \<Rightarrow> policy_route" where
  "estimateRoute t r =
     getMaintenanceRequestPolicyRoute
       ((toPolicySnapshotFromUpdate r t)
          \<lparr> pi_ownerApprovalStatus := Some NOT_REQUIRED, pi_estimateStatus := Some SUBMITTED \<rparr>)"

definition submitRequestEstimateInTx ::
  "db \<Rightarrow> int \<Rightarrow> maintenance_request \<Rightarrow> string \<Rightarrow> estimate_dto \<Rightarrow> (maintenance_request \<times> bool \<times> db) res" where
  "submitRequestEstimateInTx s now r actor dto =
     andThen (assertRequestOpenForApproval r) (\<lambda>_.
     andThen (estimateTriage dto r) (\<lambda>t.
     andThen (storableTriage t) (\<lambda>_.
     if estimateRoute t r = OWNER_APPROVAL_REQUIRED \<and> truthy (mr_unitId r)
        then let previousStatus = mr_ownerApprovalStatus r;
                 reason = requiredReason dto;
                 hadRequestedApproval = had_requested_approval r
             in andThen (updateById s (mr_id r)
                  (upd_submitEstimatePending t actor now reason (es_ownerApprovalDeadlineAt dto))) (\<lambda>(r', s1).
                let s2 = (if previousStatus \<noteq> PENDING
                          then createOwnerApprovalAudit s1 (mr_id r') (mr_orgId r') actor AA_REQUIRED
                                 (Some previousStatus) PENDING (Some reason) None
                          else s1);
                    s3 = (if \<not> hadRequestedApproval
                          then createOwnerApprovalAudit s2 (mr_id r') (mr_orgId r') actor AA_REQUESTED
                                 (Some PENDING) PENDING (Some reason) None
                          else s2)
                in Inr (r', \<not> hadRequestedApproval, s3))
        else andThen (updateById s (mr_id r) (upd_submitEstimate t actor now)) (\<lambda>(r', s1).
             Inr (r', False, s1)))))"

definition emitApprovalRequested :: "string \<Rightarrow> maintenance_request \<times> bool \<times> db \<Rightarrow> (maintenance_request \<times> db) res" where
  "emitApprovalRequested userId x =
     (case x of (r', shouldEmit, s') \<Rightarrow>
        if shouldEmit
        then Inr (r', emitEvent s' (event EV_OWNER_APPROVAL_REQUESTED (toEventRequest s' r') None userId))
        else Inr (r', s'))"

definition submitRequestEstimate ::
  "db \<Rightarrow> int \<Rightarrow> principal \<Rightarrow> string \<Rightarrow> string \<Rightarrow> estimate_dto \<Rightarrow> (maintenance_request \<times> db) res" where
  "submitRequestEstimate s now u bldg rid dto =
     andThen (managerActor s u bldg ''Staff cannot submit request estimates'') (\<lambda>(org, userId).
     andThen (loadBuildingRequest s org bldg rid) (\<lambda>r.
     andThen (submitRequestEstimateInTx s now r userId dto) (emitApprovalRequested userId)))"

section \<open>Cancellation, comments, attachments\<close>

definition cancelBuildingRequest ::
  "db \<Rightarrow> int \<Rightarrow> principal \<Rightarrow> string \<Rightarrow> string \<Rightarrow> (maintenance_request \<times> db) res" where
  "cancelBuildingRequest s now u bldg rid =
     andThen (buildingActor s u bldg) (\<lambda>(org, userId, ctx).
     andThen (ensure (ac_hasAnyBuildingAccess ctx
                      \<or> hasGlobalPermission s userId org ''requests.update_status'')
                (Forbidden ''Forbidden'')) (\<lambda>_.
     andThen (ensure (\<not> ac_isBuildingStaffOnly ctx) (Forbidden ''Staff cannot cancel requests'')) (\<lambda>_.
     andThen (loadBuildingRequest s org bldg rid) (\<lambda>r.
     andThen (ensure (mr_status r \<noteq> COMPLETED \<and> mr_status r \<noteq> CANCELED)
                (Conflict ''Request cannot be canceled'')) (\<lambda>_.
     andThen (updateById s (mr_id r) (upd_cancel now)) (\<lambda>(r', s').
     Inr (r', emitEvent s' (event EV_CANCELED (toEventRequest s' r') None userId))))))))"

definition commentEvent :: "db \<Rightarrow> maintenance_request \<Rightarrow> string \<Rightarrow> bool \<Rightarrow> comment_row \<Rightarrow> request_event" where
  "commentEvent s r userId isResident c =
     (event EV_COMMENTED (toEventRequest s r) None userId)
       \<lparr> ev_actorIsResident := Some isResident, ev_comment := Some (cm_id c, cm_message c) \<rparr>"

definition addBuildingComment ::
  "db \<Rightarrow> int \<Rightarrow> principal \<Rightarrow> string \<Rightarrow> string \<Rightarrow> string \<Rightarrow> string \<Rightarrow> comment_visibility option
   \<Rightarrow> (comment_row \<times> db) res" where
  "addBuildingComment s now u bldg rid newId message vis =
     andThen (buildingActor s u bldg) (\<lambda>(org, userId, ctx).
     andThen (loadBuildingRequest s org bldg rid) (\<lambda>r.
     andThen (ensure (\<not> (ac_isBuildingStaffOnly ctx \<and> mr_assignedToUserId r \<noteq> Some userId))
                (Forbidden ''Forbidden'')) (\<lambda>_.
     andThen (createComment s \<lparr> cm_id = newId, cm_requestId = mr_id r, cm_orgId = org,
                cm_authorUserId = userId, cm_authorOwnerId = None,
                cm_authorType = AUTHOR_STAFF, cm_visibility = nullish vis SHARED, cm_message = message, cm_createdAt = now \<rparr>) (\<lambda>(c, s1).
     let s2 = upsertCommentReadState s1 userId (mr_id r) RS_BUILDING (cm_createdAt c)
     in Inr (c, if cm_visibility c = SHARED then emitEvent s2 (commentEvent s2 r userId False c)
                else s2)))))"

definition markRead :: "db \<Rightarrow> string \<Rightarrow> string \<Rightarrow> read_scope \<Rightarrow> comment_row list \<Rightarrow> db" where
  "markRead s userId rid scope cs =
     (if cs = [] then s
      else upsertCommentReadState s userId rid scope (cm_createdAt (last cs)))"

definition listBuildingComments ::
  "db \<Rightarrow> principal \<Rightarrow> string \<Rightarrow> string \<Rightarrow> (comment_row list \<times> db) res" where
  "listBuildingComments s u bldg rid =
     andThen (assertOrgScope u) (\<lambda>org.
     andThen (requireUserId u) (\<lambda>userId.
     andThen (getBuildingRequest s u bldg rid) (\<lambda>r.
     let cs = listComments s (Some org) (mr_id r) None
     in Inr (cs, markRead s userId (mr_id r) RS_BUILDING cs))))"

definition countUnreadBuildingComments :: "db \<Rightarrow> principal \<Rightarrow> string \<Rightarrow> nat res" where
  "countUnreadBuildingComments s u bldg =
     andThen (buildingActor s u bldg) (\<lambda>(org, userId, ctx).
     let assignedToUserId = (if ac_isBuildingStaffOnly ctx then Some userId else None);
         rs = listByBuilding s org bldg None assignedToUserId
     in Inr (countUnreadCommentsForRequests s userId (Some org) (map mr_id rs) RS_BUILDING None))"

record attachment_dto =
  ta_fileName :: string
  ta_mimeType :: string
  ta_sizeBytes :: int
  ta_url :: string

definition attachmentInput :: "string \<Rightarrow> string \<Rightarrow> attachment_dto \<Rightarrow> attachment_input" where
  "attachmentInput org userId a =
     \<lparr> ai_orgId = org, ai_uploadedByUserId = userId, ai_fileName = ta_fileName a,
       ai_mimeType = ta_mimeType a, ai_sizeBytes = ta_sizeBytes a, ai_url = ta_url a \<rparr>"

definition addBuildingAttachments ::
  "db \<Rightarrow> principal \<Rightarrow> string \<Rightarrow> string \<Rightarrow> attachment_dto list \<Rightarrow> (maintenance_request \<times> db) res" where
  "addBuildingAttachments s u bldg rid as =
     andThen (buildingActor s u bldg) (\<lambda>(org, userId, ctx).
     andThen (loadBuildingRequest s org bldg rid) (\<lambda>r.
     andThen (ensure (mr_status r \<noteq> CANCELED \<and> mr_status r \<noteq> COMPLETED)
                (Conflict ''Request is closed'')) (\<lambda>_.
     andThen (ensure (\<not> (ac_isBuildingStaffOnly ctx \<and> mr_assignedToUserId r \<noteq> Some userId))
                (Forbidden ''Forbidden'')) (\<lambda>_.
     let s' = createAttachments s (mr_id r) (map (attachmentInput org userId) as)
     in andThen (loadBuildingRequest s' org bldg rid) (\<lambda>r'. Inr (r', s'))))))"

section \<open>What the handlers check and write\<close>

definition building_scope :: "db \<Rightarrow> principal \<Rightarrow> string \<Rightarrow> maintenance_request \<Rightarrow> bool" where
  "building_scope s u bldg r \<longleftrightarrow>
     user_org u = Some (mr_orgId r) \<and> mr_buildingId r = bldg \<and> buildingInOrg s bldg (mr_orgId r)"

definition building_write ::
  "db \<Rightarrow> principal \<Rightarrow> string \<Rightarrow> string \<Rightarrow> maintenance_request \<Rightarrow> db \<Rightarrow> bool" where
  "building_write s u bldg rid r' s' \<longleftrightarrow>
     (\<exists>r. mr_id r = rid \<and> building_scope s u bldg r \<and> writes_row s r r' s')"

lemma buildingActor_Inr:
  "buildingActor s u bldg = Inr (org, userId, ctx) \<longleftrightarrow>
     assertOrgScope u = Inr org \<and> requireUserId u = Inr userId
     \<and> (\<exists>b. assertBuildingInOrg s bldg org = Inr b)
     \<and> ctx = getBuildingAccessContext s userId org bldg"
  by (auto simp: buildingActor_def)

lemma managerActor_Inr:
  "managerActor s u bldg msg = Inr (org, userId) \<longleftrightarrow>
     (\<exists>ctx. buildingActor s u bldg = Inr (org, userId, ctx) \<and> \<not> ac_isBuildingStaffOnly ctx)"
  by (auto simp: managerActor_def)

lemma loaded_request:
  assumes "unique_ids s" and "user_org u = Some org" and "assertBuildingInOrg s bldg org = Inr b"
    and "loadBuildingRequest s org bldg rid = Inr r"
  shows "find_by mr_id (mr_id r) (requests s) = Some r" and "mr_id r = rid" and "building_scope s u bldg r"
  using assms find_building [of s org bldg rid r]
  by (auto simp: loadBuildingRequest_def building_scope_def buildingInOrg_def
      dest: assertBuildingInOrg_in_org)

lemma building_writeI:
  assumes "unique_ids s" and "user_org u = Some org" and "assertBuildingInOrg s bldg org = Inr b"
    and "loadBuildingRequest s org bldg rid = Inr r" and "updateById s (mr_id r) f = Inr (r', s1)"
    and "request_step r (f r)"
    and "mr_ownerApprovalStatus (f r) = mr_ownerApprovalStatus r
         \<or> mr_ownerApprovalStatus (f r) = NOT_REQUIRED"
  shows "building_write s u bldg rid r' s1"
  using loaded_request [OF assms(1-4)]
    writes_row_update [OF assms(1) loaded_request(1) [OF assms(1-4)] assms(5-7)]
  by (auto simp: building_write_def)

lemma building_write_audited:
  assumes "unique_ids s" and "user_org u = Some org" and "assertBuildingInOrg s bldg org = Inr b"
    and "loadBuildingRequest s org bldg rid = Inr r" and "updateById s (mr_id r) f = Inr (r', s1)"
    and "request_step r (f r)"
    and "fromSt = mr_ownerApprovalStatus r" and "toSt = mr_ownerApprovalStatus (f r)"
  shows "building_write s u bldg rid r' (createOwnerApprovalAudit s1 (mr_id r') (mr_orgId r')
           actor action (Some fromSt) toSt why src)"
  using loaded_request [OF assms(1-4)]
    writes_row_audited [OF assms(1) loaded_request(1) [OF assms(1-4)] assms(5-8)]
  by (auto simp: building_write_def)

lemma building_write_emit:
  "building_write s u bldg rid r' s1 \<Longrightarrow> building_write s u bldg rid r' (emitEvent s1 e)"
  by (auto simp: building_write_def intro: writes_row_emit)

lemma building_write_more_audit:
  "building_write s u bldg rid r' s1 \<Longrightarrow>
   building_write s u bldg rid r' (createOwnerApprovalAudit s1 (mr_id r') (mr_orgId r')
     actor action fromSt toSt why src)"
  by (auto simp: building_write_def intro: writes_row_more_audit)

lemmas actor_simps = managerActor_Inr buildingActor_Inr Let_def

lemma assignRequest_writes:
  "unique_ids s \<Longrightarrow> assignRequest s now u bldg rid staffId = Inr (r', s') \<Longrightarrow>
   building_write s u bldg rid r' s'"
  unfolding assignRequest_def assertOpenOrAssigned_def
  by (clarsimp simp: actor_simps)
    (rule building_write_emit, rule building_writeI, assumption+; auto intro: request_step.assignStaff)

lemma assignProvider_writes:
  "unique_ids s \<Longrightarrow> assignProvider s now u bldg rid pid = Inr (r', s') \<Longrightarrow>
   building_write s u bldg rid r' s'"
  unfolding assignProvider_def assertOpenOrAssigned_def
  by (clarsimp simp: actor_simps)
    (rule building_write_emit, rule building_writeI, assumption+; auto intro: request_step.assignProvider)

lemma requestEstimateFromProvider_writes:
  "unique_ids s \<Longrightarrow> requestEstimateFromProvider s ttl now u bldg rid pid = Inr (r', s') \<Longrightarrow>
   building_write s u bldg rid r' s'"
  unfolding requestEstimateFromProvider_def assertOpenOrAssigned_def
  by (clarsimp simp: actor_simps)
    (rule building_write_emit, rule building_writeI, assumption+; auto intro: request_step.requestEstimate)

lemma requireServiceProviderId_Inr [simp]:
  "requireServiceProviderId r e = Inr p \<longleftrightarrow> mr_serviceProviderId r = Some p \<and> p \<noteq> []"
  by (cases "mr_serviceProviderId r") (auto simp: requireServiceProviderId_def)

lemma assignProviderWorker_writes:
  "unique_ids s \<Longrightarrow> assignProviderWorker s now u bldg rid w = Inr (r', s') \<Longrightarrow>
   building_write s u bldg rid r' s'"
  unfolding assignProviderWorker_def assertOpenOrAssigned_def
  by (clarsimp simp: actor_simps)
    (rule building_write_emit, rule building_writeI, assumption+; auto intro: request_step.assignWorker)

lemma unassignProvider_writes:
  "unique_ids s \<Longrightarrow> unassignProvider s u bldg rid = Inr (r', s') \<Longrightarrow>
   building_write s u bldg rid r' s'"
  unfolding unassignProvider_def assertOpenOrAssigned_def
  by (clarsimp simp: actor_simps)
    (rule building_write_emit, rule building_writeI, assumption+; auto intro: request_step.unassignProvider)

lemma updateRequestStatus_writes:
  "unique_ids s \<Longrightarrow> updateRequestStatus s now u bldg rid st = Inr (r', s') \<Longrightarrow>
   building_write s u bldg rid r' s'"
  unfolding updateRequestStatus_def
  by (clarsimp simp: actor_simps)
    (rule building_write_emit, rule building_writeI, assumption+; auto intro: request_step.status)

lemma updateRequestPolicyTriage_writes:
  "unique_ids s \<Longrightarrow> updateRequestPolicyTriage s u bldg rid dto = Inr (r', s') \<Longrightarrow>
   building_write s u bldg rid r' s'"
  unfolding updateRequestPolicyTriage_def
  by (clarsimp simp: actor_simps)
    (rule building_writeI, assumption+; auto intro: request_step.triage)

lemma cancelBuildingRequest_writes:
  "unique_ids s \<Longrightarrow> cancelBuildingRequest s now u bldg rid = Inr (r', s') \<Longrightarrow>
   building_write s u bldg rid r' s'"
  unfolding cancelBuildingRequest_def
  by (clarsimp simp: actor_simps)
    (rule building_write_emit, rule building_writeI, assumption+; auto intro: request_step.cancel)

text \<open>The handlers that add audit rows.\<close>

lemma requireOwnerApproval_writes:
  "unique_ids s \<Longrightarrow> requireOwnerApproval s u bldg rid dto = Inr (r', s') \<Longrightarrow>
   building_write s u bldg rid r' s'"
  unfolding requireOwnerApproval_def assertUnitLinked_def
  by (clarsimp simp: actor_simps)
    (rule building_write_audited, assumption+; auto intro: request_step.requireApproval)

lemma requestOwnerApprovalNow_writes:
  "unique_ids s \<Longrightarrow> requestOwnerApprovalNow s now u bldg rid dto = Inr (r', s') \<Longrightarrow>
   building_write s u bldg rid r' s'"
  unfolding requestOwnerApprovalNow_def assertUnitLinked_def
  by (clarsimp simp: actor_simps split del: if_split)
    (rule building_write_emit, rule building_write_more_audit, split if_split, intro conjI impI;
      (rule building_write_audited | rule building_writeI), assumption+;
      auto intro: request_step.requestApprovalNow)

lemma markOwnerApprovalRequested_writes:
  "unique_ids s \<Longrightarrow> markOwnerApprovalRequested s now u bldg rid action ex = Inr (r', s') \<Longrightarrow>
   building_write s u bldg rid r' s'"
  unfolding markOwnerApprovalRequested_def
  by (clarsimp simp: actor_simps split del: if_split)
    (rule building_write_emit, rule building_write_audited, assumption+;
      auto intro: request_step.markRequested)

lemma overrideOwnerApproval_writes:
  "unique_ids s \<Longrightarrow> overrideOwnerApproval s now u bldg rid src why = Inr (r', s') \<Longrightarrow>
   building_write s u bldg rid r' s'"
  unfolding overrideOwnerApproval_def
  by (clarsimp simp: actor_simps)
    (rule building_write_emit, rule building_write_audited, assumption+;
      auto intro!: request_step.override split: option.splits)

lemma submitRequestEstimateInTx_writes:
  assumes "unique_ids s" and "find_by mr_id (mr_id r) (requests s) = Some r"
    and "submitRequestEstimateInTx s now r actor dto = Inr (r', em, s')"
  shows "writes_row s r r' s'"
proof -
  from assms(3) obtain t where op: "assertRequestOpenForApproval r = Inr ()"
    and t: "estimateTriage dto r = Inr t" "storableTriage t = Inr ()"
    unfolding submitRequestEstimateInTx_def by (clarsimp split del: if_split)
  show ?thesis
  proof (cases "estimateRoute t r = OWNER_APPROVAL_REQUIRED \<and> truthy (mr_unitId r)")
  case True
  from assms(3) True op t obtain s1 where
    upd: "updateById s (mr_id r) (upd_submitEstimatePending t actor now
        (requiredReason dto) (es_ownerApprovalDeadlineAt dto)) = Inr (r', s1)"
    and s': "s' = (let s2 = (if mr_ownerApprovalStatus r \<noteq> PENDING
           then createOwnerApprovalAudit s1 (mr_id r') (mr_orgId r') actor AA_REQUIRED
                  (Some (mr_ownerApprovalStatus r)) PENDING (Some (requiredReason dto)) None
           else s1)
         in if \<not> had_requested_approval r
            then createOwnerApprovalAudit s2 (mr_id r') (mr_orgId r') actor AA_REQUESTED
                   (Some PENDING) PENDING (Some (requiredReason dto)) None
            else s2)"
    unfolding submitRequestEstimateInTx_def by (clarsimp simp: Let_def split del: if_split)
  have step: "request_step r (upd_submitEstimatePending t actor now
      (requiredReason dto) (es_ownerApprovalDeadlineAt dto) r)"
    using op True by (intro request_step.submitEstimatePending) simp_all
  have "writes_row s r r' (if mr_ownerApprovalStatus r \<noteq> PENDING
           then createOwnerApprovalAudit s1 (mr_id r') (mr_orgId r') actor AA_REQUIRED
                  (Some (mr_ownerApprovalStatus r)) PENDING (Some (requiredReason dto)) None
           else s1)"
    using writes_row_audited [OF assms(1,2) upd step] writes_row_update [OF assms(1,2) upd step]
    by simp
  then show ?thesis
    by (cases "had_requested_approval r")
      (simp_all only: s' Let_def writes_row_more_audit if_True if_False simp_thms)
next
  case False
  with assms(3) op t obtain s1 where
    upd: "updateById s (mr_id r) (upd_submitEstimate t actor now) = Inr (r', s1)"
    and s': "s' = s1"
    unfolding submitRequestEstimateInTx_def by (auto simp: Let_def)
  show ?thesis unfolding s'
    using op by (intro writes_row_update [OF assms(1,2) upd] request_step.submitEstimate) simp_all
  qed
qed

lemma emitApprovalRequested_writes:
  "writes_row s r r0 s0 \<Longrightarrow> emitApprovalRequested userId (r0, em, s0) = Inr (r', s') \<Longrightarrow>
   writes_row s r r' s'"
  by (auto simp: emitApprovalRequested_def intro: writes_row_emit split: if_splits)

lemma submitRequestEstimate_writes:
  assumes "unique_ids s" and "submitRequestEstimate s now u bldg rid dto = Inr (r', s')"
  shows "building_write s u bldg rid r' s'"
proof -
  from assms(2) obtain org userId b r r0 em s0 where actor: "user_org u = Some org"
      "assertBuildingInOrg s bldg org = Inr b" "loadBuildingRequest s org bldg rid = Inr r"
    and tx: "submitRequestEstimateInTx s now r userId dto = Inr (r0, em, s0)"
    and em: "emitApprovalRequested userId (r0, em, s0) = Inr (r', s')"
    unfolding submitRequestEstimate_def by (auto simp: actor_simps)
  note l = loaded_request [OF assms(1) actor]
  from emitApprovalRequested_writes [OF submitRequestEstimateInTx_writes [OF assms(1) l(1) tx] em] l(2,3)
  show ?thesis by (auto simp: building_write_def)
qed

text \<open>Comments, read states and attachments leave the requests and their audit rows alone.\<close>

definition keeps_requests :: "db \<Rightarrow> db \<Rightarrow> bool" where
  "keeps_requests s s' \<longleftrightarrow> requests s' = requests s \<and> approvalAudits s' = approvalAudits s"

lemma keeps_requests_simps [simp]:
  "keeps_requests s s"
  "keeps_requests s (emitEvent s1 e) = keeps_requests s s1"
  "keeps_requests s (upsertCommentReadState s1 userId rid scope t) = keeps_requests s s1"
  "keeps_requests s (createAttachments s1 rid as) = keeps_requests s s1"
  "keeps_requests s (markRead s1 userId rid scope cs) = keeps_requests s s1"
  by (simp_all add: keeps_requests_def emitEvent_def upsertCommentReadState_def createAttachments_def
      markRead_def)

lemma createComment_Inr:
  "createComment s c = Inr (c', s') \<Longrightarrow>
   c' = c \<and> s' = s\<lparr>comments := comments s @ [c]\<rparr> \<and> keeps_requests s s'"
  by (auto simp: createComment_def keeps_requests_def split: if_splits)

lemma addBuildingComment_keeps:
  "addBuildingComment s now u bldg rid newId msg vis = Inr (c, s') \<Longrightarrow> keeps_requests s s'"
  unfolding addBuildingComment_def by (auto simp: Let_def dest: createComment_Inr)

lemma listBuildingComments_keeps:
  "listBuildingComments s u bldg rid = Inr (cs, s') \<Longrightarrow> keeps_requests s s'"
  unfolding listBuildingComments_def by (auto simp: Let_def)

lemma addBuildingAttachments_keeps:
  "addBuildingAttachments s u bldg rid as = Inr (r', s') \<Longrightarrow> keeps_requests s s'"
  unfolding addBuildingAttachments_def by (auto simp: Let_def)

end
