(* ===== verification/RequestResident.thy ===== *)
theory RequestResident
  imports RequestBuilding
begin

text \<open>
  The resident side of \<^verbatim>\<open>MaintenanceRequestsService\<close>: a resident with an active occupancy in
  the organisation creates requests for the unit they occupy and sees, edits, cancels and
  comments on their own requests, and no others.
\<close>

section \<open>Handlers\<close>

definition residentActor :: "principal \<Rightarrow> (string \<times> string) res" where
  "residentActor u =
     andThen (assertOrgScope u) (\<lambda>org.
     andThen (requireUserId u) (\<lambda>userId. Inr (org, userId)))"

definition loadResidentRequest :: "db \<Rightarrow> principal \<Rightarrow> string \<Rightarrow> (string \<times> string \<times> maintenance_request) res" where
  "loadResidentRequest s u rid =
     andThen (residentActor u) (\<lambda>(org, userId).
     andThen (requireActiveResidentOccupancy s userId org) (\<lambda>_.
     andThen (orThrow (findByIdForCreator s org userId rid) (NotFound ''Request not found'')) (\<lambda>r.
     Inr (org, userId, r))))"

record create_dto =
  cd_title :: string
  cd_description :: "string option"
  cd_type :: "string option"
  cd_priority :: "string option"
  cd_isEmergency :: "bool option"
  cd_emergencySignals :: "string list option"
  cd_attachments :: "attachment_dto list option"

definition lease_at_creation :: "occupancy_row \<Rightarrow> string option" where
  "lease_at_creation oc =
     (case oc_lease oc of
        None \<Rightarrow> None
      | Some l \<Rightarrow> if lr_id l \<noteq> [] \<and> lr_active l then Some (lr_id l) else None)"

text \<open>The created row: the columns the service sets, the schema's defaults for the others.\<close>

definition new_request ::
  "string \<Rightarrow> int \<Rightarrow> string \<Rightarrow> string \<Rightarrow> occupancy_row \<Rightarrow> create_dto \<Rightarrow> maintenance_request" where
  "new_request newId now org userId oc dto =
     (let signals = normalizeEmergencySignals (cd_emergencySignals dto)
      in \<lparr> mr_id = newId, mr_orgId = org, mr_buildingId = oc_buildingId oc,
           mr_unitId = Some (oc_unitId oc), mr_occupancyIdAtCreation = Some (oc_id oc),
           mr_leaseIdAtCreation = lease_at_creation oc, mr_createdByUserId = userId,
           mr_title = cd_title dto, mr_description = cd_description dto, mr_status = OPEN,
           mr_type = normalizeType (cd_type dto), mr_priority = normalizePriority (cd_priority dto),
           mr_assignedToUserId = None, mr_serviceProviderId = None,
           mr_serviceProviderAssignedUserId = None, mr_estimateStatus = NOT_REQUESTED,
           mr_estimateRequestedAt = None, mr_estimateRequestedByUserId = None,
           mr_estimateDueAt = None, mr_estimateReminderSentAt = None,
           mr_estimateSubmittedAt = None, mr_estimateSubmittedByUserId = None,
           mr_ownerApprovalStatus = NOT_REQUIRED, mr_ownerApprovalRequestedAt = None,
           mr_ownerApprovalRequestedByUserId = None, mr_ownerApprovalDeadlineAt = None,
           mr_ownerApprovalDecidedAt = None, mr_ownerApprovalDecidedByOwnerUserId = None,
           mr_ownerApprovalReason = None, mr_approvalRequiredReason = None,
           mr_estimatedAmount = None, mr_estimatedCurrency = None,
           mr_isEmergency = (cd_isEmergency dto = Some True \<or> signals \<noteq> []),
           mr_emergencySignals = signals, mr_isLikeForLike = None, mr_isUpgrade = None,
           mr_isMajorReplacement = None, mr_isResponsibilityDisputed = None,
           mr_ownerApprovalDecisionSource = None, mr_ownerApprovalOverrideReason = None,
           mr_ownerApprovalOverriddenByUserId = None, mr_assignedAt = None,
           mr_completedAt = None, mr_canceledAt = None, mr_createdAt = now \<rparr>)"

definition createResidentRequest ::
  "db \<Rightarrow> int \<Rightarrow> principal \<Rightarrow> string \<Rightarrow> create_dto \<Rightarrow> (maintenance_request \<times> db) res" where
  "createResidentRequest s now u newId dto =
     andThen (residentActor u) (\<lambda>(org, userId).
     andThen (requireActiveResidentOccupancy s userId org) (\<lambda>oc.
     andThen (createRequestWithAttachments s (new_request newId now org userId oc dto)
                (map (attachmentInput org userId) (nullish (cd_attachments dto) []))) (\<lambda>(r, s').
     Inr (r, emitEvent s' (event EV_CREATED (toEventRequest s' r) None userId)))))"

definition listResidentRequests :: "db \<Rightarrow> principal \<Rightarrow> maintenance_request list res" where
  "listResidentRequests s u =
     andThen (residentActor u) (\<lambda>(org, userId).
     andThen (requireActiveResidentOccupancy s userId org) (\<lambda>_.
     Inr (listByCreator s org userId)))"

definition getResidentRequest :: "db \<Rightarrow> principal \<Rightarrow> string \<Rightarrow> maintenance_request res" where
  "getResidentRequest s u rid =
     andThen (loadResidentRequest s u rid) (\<lambda>(org, userId, r). Inr r)"

definition edit_empty :: "edit_dto \<Rightarrow> bool" where
  "edit_empty dto \<longleftrightarrow>
     ed_title dto = None \<and> ed_description dto = None \<and> ed_type dto = None
     \<and> ed_priority dto = None \<and> ed_isEmergency dto = None \<and> ed_emergencySignals dto = None"

definition updateResidentRequest ::
  "db \<Rightarrow> principal \<Rightarrow> string \<Rightarrow> edit_dto \<Rightarrow> (maintenance_request \<times> db) res" where
  "updateResidentRequest s u rid dto =
     andThen (loadResidentRequest s u rid) (\<lambda>(org, userId, r).
     andThen (ensure (mr_status r = OPEN) (Conflict ''Request cannot be edited'')) (\<lambda>_.
     andThen (ensure (\<not> edit_empty dto) (BadRequest ''No changes provided'')) (\<lambda>_.
     updateById s (mr_id r) (upd_residentEdit dto))))"

definition cancelResidentRequest ::
  "db \<Rightarrow> int \<Rightarrow> principal \<Rightarrow> string \<Rightarrow> (maintenance_request \<times> db) res" where
  "cancelResidentRequest s now u rid =
     andThen (loadResidentRequest s u rid) (\<lambda>(org, userId, r).
     andThen (ensure (mr_status r \<noteq> COMPLETED \<and> mr_status r \<noteq> CANCELED)
                (Conflict ''Request cannot be canceled'')) (\<lambda>_.
     andThen (updateById s (mr_id r) (upd_cancel now)) (\<lambda>(r', s').
     Inr (r', emitEvent s' (event EV_CANCELED (toEventRequest s' r') None userId)))))"

definition addResidentComment ::
  "db \<Rightarrow> int \<Rightarrow> principal \<Rightarrow> string \<Rightarrow> string \<Rightarrow> string \<Rightarrow> (comment_row \<times> db) res" where
  "addResidentComment s now u rid newId message =
     andThen (loadResidentRequest s u rid) (\<lambda>(org, userId, r).
     andThen (ensure (mr_status r \<noteq> CANCELED \<and> mr_status r \<noteq> COMPLETED)
                (Conflict ''Request is closed'')) (\<lambda>_.
     andThen (createComment s \<lparr> cm_id = newId, cm_requestId = mr_id r, cm_orgId = org,
                cm_authorUserId = userId, cm_authorOwnerId = None, cm_authorType = AUTHOR_TENANT,
                cm_visibility = SHARED, cm_message = message, cm_createdAt = now \<rparr>) (\<lambda>(c, s1).
     Inr (c, emitEvent s1 (commentEvent s1 r userId True c)))))"

definition listResidentComments :: "db \<Rightarrow> principal \<Rightarrow> string \<Rightarrow> comment_row list res" where
  "listResidentComments s u rid =
     andThen (loadResidentRequest s u rid) (\<lambda>(org, userId, r).
     Inr (listComments s (Some org) (mr_id r) (Some SHARED)))"

section \<open>What the handlers check and write\<close>

definition resident_scope :: "db \<Rightarrow> principal \<Rightarrow> maintenance_request \<Rightarrow> bool" where
  "resident_scope s u r \<longleftrightarrow>
     user_sub u = Some (mr_createdByUserId r) \<and> user_org u = Some (mr_orgId r)
     \<and> (\<exists>oc \<in> set (occupancies s). oc_residentUserId oc = mr_createdByUserId r
          \<and> oc_status oc = OC_ACTIVE \<and> buildingInOrg s (oc_buildingId oc) (mr_orgId r))"

lemma findAssignedActiveOccupancy_SomeD:
  assumes "findAssignedActiveOccupancy s userId org = Some oc"
  shows "oc \<in> set (occupancies s) \<and> oc_residentUserId oc = userId \<and> oc_status oc = OC_ACTIVE
         \<and> buildingInOrg s (oc_buildingId oc) org"
proof -
  let ?P = "\<lambda>oc. oc_residentUserId oc = userId \<and> oc_status oc = OC_ACTIVE
                 \<and> buildingInOrg s (oc_buildingId oc) org"
  let ?key = "\<lambda>oc. (oc_startAt oc, oc_createdAt oc, oc_id oc)"
  from assms obtain ocs where "rev (sort_key ?key (filter ?P (occupancies s))) = oc # ocs"
    unfolding findAssignedActiveOccupancy_def by (auto split: list.splits)
  then have "oc \<in> set (rev (sort_key ?key (filter ?P (occupancies s))))" by simp
  then show ?thesis by simp
qed

lemma loadResidentRequest_Inr:
  assumes "unique_ids s" and "loadResidentRequest s u rid = Inr (org, userId, r)"
  shows "find_by mr_id (mr_id r) (requests s) = Some r" and "mr_id r = rid" and "resident_scope s u r"
    and "user_sub u = Some userId"
proof -
  from assms(2) obtain oc where u: "user_org u = Some org" "user_sub u = Some userId"
    and oc: "findAssignedActiveOccupancy s userId org = Some oc"
    and f: "findByIdForCreator s org userId rid = Some r"
    by (auto simp: loadResidentRequest_def residentActor_def requireActiveResidentOccupancy_def)
  note r = find_creator [OF assms(1) f]
  then show "find_by mr_id (mr_id r) (requests s) = Some r" and "mr_id r = rid"
    and "user_sub u = Some userId" using u by simp_all
  show "resident_scope s u r"
    using findAssignedActiveOccupancy_SomeD [OF oc] u r by (auto simp: resident_scope_def)
qed

definition resident_write :: "db \<Rightarrow> principal \<Rightarrow> string \<Rightarrow> maintenance_request \<Rightarrow> db \<Rightarrow> bool" where
  "resident_write s u rid r' s' \<longleftrightarrow>
     (\<exists>r. mr_id r = rid \<and> resident_scope s u r \<and> writes_row s r r' s')"

lemma resident_writeI:
  assumes "unique_ids s" and "loadResidentRequest s u rid = Inr (org, userId, r)"
    and "updateById s (mr_id r) f = Inr (r', s1)" and "request_step r (f r)"
    and "mr_ownerApprovalStatus (f r) = mr_ownerApprovalStatus r"
  shows "resident_write s u rid r' s1" and "resident_write s u rid r' (emitEvent s1 e)"
  using loadResidentRequest_Inr [OF assms(1,2)] assms(5)
    writes_row_update [OF assms(1) loadResidentRequest_Inr(1) [OF assms(1,2)] assms(3,4)]
  by (auto simp: resident_write_def intro: writes_row_emit)

lemma updateResidentRequest_writes:
  "unique_ids s \<Longrightarrow> updateResidentRequest s u rid dto = Inr (r', s') \<Longrightarrow> resident_write s u rid r' s'"
  unfolding updateResidentRequest_def
  by clarsimp (rule resident_writeI(1), assumption+; auto intro: request_step.residentEdit)

lemma cancelResidentRequest_writes:
  "unique_ids s \<Longrightarrow> cancelResidentRequest s now u rid = Inr (r', s') \<Longrightarrow> resident_write s u rid r' s'"
  unfolding cancelResidentRequest_def
  by clarsimp (rule resident_writeI(2), assumption+; auto intro: request_step.cancel)

lemma addResidentComment_keeps:
  "addResidentComment s now u rid newId msg = Inr (c, s') \<Longrightarrow> keeps_requests s s'"
  unfolding addResidentComment_def by (auto dest: createComment_Inr)

lemma new_request_ok [simp]: "row_ok (new_request newId now org userId oc dto)"
  by (simp add: ok_defs new_request_def Let_def)

lemma new_request_fields [simp]:
  "mr_id (new_request newId now org userId oc dto) = newId"
  "mr_orgId (new_request newId now org userId oc dto) = org"
  "mr_createdByUserId (new_request newId now org userId oc dto) = userId"
  "mr_status (new_request newId now org userId oc dto) = OPEN"
  "mr_ownerApprovalStatus (new_request newId now org userId oc dto) = NOT_REQUIRED"
  "mr_estimateStatus (new_request newId now org userId oc dto) = NOT_REQUESTED"
  by (simp_all add: new_request_def Let_def)

text \<open>A created request is an open row for the unit of the resident's active occupancy.\<close>

lemma createResidentRequest_creates:
  assumes "createResidentRequest s now u newId dto = Inr (r, s')"
  obtains org userId oc where "r = new_request newId now org userId oc dto" and "resident_scope s u r"
    and "findAssignedActiveOccupancy s userId org = Some oc"
    and "user_org u = Some org" and "user_sub u = Some userId"
    and "find_by mr_id newId (requests s) = None"
    and "requests s' = requests s @ [r]" and "approvalAudits s' = approvalAudits s"
proof -
  from assms obtain org userId oc as s1 e where u: "user_org u = Some org" "user_sub u = Some userId"
    and oc: "findAssignedActiveOccupancy s userId org = Some oc"
    and cr: "createRequestWithAttachments s (new_request newId now org userId oc dto) as = Inr (r, s1)"
    and s': "s' = emitEvent s1 e"
    unfolding createResidentRequest_def
    by (auto simp: residentActor_def requireActiveResidentOccupancy_def)
  from cr have r: "r = new_request newId now org userId oc dto" "find_by mr_id newId (requests s) = None"
    "requests s1 = requests s @ [r]" "approvalAudits s1 = approvalAudits s"
    by (auto simp: createRequestWithAttachments_def createAttachments_def split: if_splits)
  have "resident_scope s u r"
    using findAssignedActiveOccupancy_SomeD [OF oc] u r(1) by (auto simp: resident_scope_def)
  with u oc r s' show thesis by (intro that) (auto simp: emitEvent_def)
qed

end
