(* ===== verification/RequestProvider.thy ===== *)
theory RequestProvider
  imports RequestBuilding
begin

text \<open>
  The service provider side of \<^verbatim>\<open>MaintenanceRequestsService\<close>: members of a provider company see
  the requests given to their companies, across organisations; a company admin may write
  to all of them, a worker to the ones assigned to them.
\<close>

section \<open>Handlers\<close>

definition loadProviderRequest ::
  "db \<Rightarrow> principal \<Rightarrow> string \<Rightarrow> (string \<times> provider_context \<times> maintenance_request) res" where
  "loadProviderRequest s u rid =
     andThen (requireUserId u) (\<lambda>userId.
     andThen (getProviderAccessContext s userId) (\<lambda>ctx.
     andThen (orThrow (findByIdForServiceProviders s None (pc_providerIds ctx) rid)
                (NotFound ''Request not found'')) (\<lambda>r.
     Inr (userId, ctx, r))))"

definition listProviderRequests ::
  "db \<Rightarrow> principal \<Rightarrow> string option \<Rightarrow> req_status option \<Rightarrow> maintenance_request list res" where
  "listProviderRequests s u serviceProviderId st =
     andThen (requireUserId u) (\<lambda>userId.
     andThen (getProviderAccessContext s userId) (\<lambda>ctx.
     andThen (ensure (\<not> (truthy serviceProviderId \<and> the serviceProviderId \<notin> pc_providerIds ctx))
                (Forbidden ''Forbidden'')) (\<lambda>_.
     let providerIds = (if truthy serviceProviderId then {the serviceProviderId} else pc_providerIds ctx)
     in Inr (listByServiceProviders s None providerIds st))))"

definition getProviderRequest :: "db \<Rightarrow> principal \<Rightarrow> string \<Rightarrow> maintenance_request res" where
  "getProviderRequest s u rid =
     andThen (loadProviderRequest s u rid) (\<lambda>(userId, ctx, r). Inr r)"

definition updateProviderRequestStatus ::
  "db \<Rightarrow> int \<Rightarrow> principal \<Rightarrow> string \<Rightarrow> req_status \<Rightarrow> (maintenance_request \<times> db) res" where
  "updateProviderRequestStatus s now u rid st =
     andThen (loadProviderRequest s u rid) (\<lambda>(userId, ctx, r).
     andThen (assertProviderRequestWriteAccess userId ctx r) (\<lambda>_.
     andThen (ensure (List.member (MAINTENANCE_STATUS_TRANSITIONS (mr_status r)) st)
                (Conflict ''Invalid status transition'')) (\<lambda>_.
     andThen (assertExecutionUnlocked r) (\<lambda>_.
     let previousRequest = toEventRequest s r
     in andThen (updateById s (mr_id r) (upd_status st now)) (\<lambda>(r', s').
     Inr (r', emitEvent s' (event EV_STATUS_CHANGED (toEventRequest s' r') (Some previousRequest) userId)))))))"

definition assertNotClosed :: "maintenance_request \<Rightarrow> unit res" where
  "assertNotClosed r =
     ensure (mr_status r \<noteq> CANCELED \<and> mr_status r \<noteq> COMPLETED) (Conflict ''Request is closed'')"

definition addProviderComment ::
  "db \<Rightarrow> int \<Rightarrow> principal \<Rightarrow> string \<Rightarrow> string \<Rightarrow> string \<Rightarrow> (comment_row \<times> db) res" where
  "addProviderComment s now u rid newId message =
     andThen (loadProviderRequest s u rid) (\<lambda>(userId, ctx, r).
     andThen (assertNotClosed r) (\<lambda>_.
     andThen (assertProviderRequestWriteAccess userId ctx r) (\<lambda>_.
     andThen (createComment s \<lparr> cm_id = newId, cm_requestId = mr_id r, cm_orgId = mr_orgId r,
                cm_authorUserId = userId, cm_authorOwnerId = None, cm_authorType = AUTHOR_STAFF,
                cm_visibility = SHARED, cm_message = message, cm_createdAt = now \<rparr>) (\<lambda>(c, s1).
     let s2 = upsertCommentReadState s1 userId (mr_id r) RS_PROVIDER (cm_createdAt c)
     in Inr (c, emitEvent s2 (commentEvent s2 r userId False c))))))"

definition listProviderComments :: "db \<Rightarrow> principal \<Rightarrow> string \<Rightarrow> (comment_row list \<times> db) res" where
  "listProviderComments s u rid =
     andThen (loadProviderRequest s u rid) (\<lambda>(userId, ctx, r).
     let cs = listComments s (Some (mr_orgId r)) (mr_id r) (Some SHARED)
     in Inr (cs, markRead s userId (mr_id r) RS_PROVIDER cs))"

definition countUnreadProviderComments :: "db \<Rightarrow> principal \<Rightarrow> nat res" where
  "countUnreadProviderComments s u =
     andThen (requireUserId u) (\<lambda>userId.
     andThen (getProviderAccessContext s userId) (\<lambda>ctx.
     let rs = listByServiceProviders s None (pc_providerIds ctx) None
     in Inr (countUnreadCommentsForRequests s userId None (map mr_id rs) RS_PROVIDER (Some SHARED))))"

definition addProviderAttachments ::
  "db \<Rightarrow> principal \<Rightarrow> string \<Rightarrow> attachment_dto list \<Rightarrow> (maintenance_request \<times> db) res" where
  "addProviderAttachments s u rid as =
     andThen (loadProviderRequest s u rid) (\<lambda>(userId, ctx, r).
     andThen (assertNotClosed r) (\<lambda>_.
     andThen (assertProviderRequestWriteAccess userId ctx r) (\<lambda>_.
     let s' = createAttachments s (mr_id r) (map (attachmentInput (mr_orgId r) userId) as)
     in andThen (orThrow (findByIdForServiceProviders s' None (pc_providerIds ctx) rid)
                   (NotFound ''Request not found'')) (\<lambda>r'. Inr (r', s')))))"

definition assignProviderWorkerFromProvider ::
  "db \<Rightarrow> int \<Rightarrow> principal \<Rightarrow> string \<Rightarrow> string \<Rightarrow> (maintenance_request \<times> db) res" where
  "assignProviderWorkerFromProvider s now u rid workerId =
     andThen (loadProviderRequest s u rid) (\<lambda>(userId, ctx, r).
     andThen (requireServiceProviderId r
                (Conflict ''Request must be assigned to a service provider first'')) (\<lambda>providerId.
     andThen (ensure (providerId \<in> pc_managerProviderIds ctx) (Forbidden ''Forbidden'')) (\<lambda>_.
     andThen (assertOpenOrAssigned r) (\<lambda>_.
     andThen (assertExecutionUnlocked r) (\<lambda>_.
     andThen (activeMember s providerId workerId) (\<lambda>membership.
     let previousRequest = toEventRequest s r
     in andThen (updateById s (mr_id r) (upd_assignWorker (su_userId membership) now)) (\<lambda>(r', s').
     Inr (r', emitEvent s' (event EV_ASSIGNED (toEventRequest s' r') (Some previousRequest) userId)))))))))"

definition submitProviderRequestEstimate ::
  "db \<Rightarrow> int \<Rightarrow> principal \<Rightarrow> string \<Rightarrow> estimate_dto \<Rightarrow> (maintenance_request \<times> db) res" where
  "submitProviderRequestEstimate s now u rid dto =
     andThen (loadProviderRequest s u rid) (\<lambda>(userId, ctx, r).
     andThen (assertProviderRequestWriteAccess userId ctx r) (\<lambda>_.
     andThen (submitRequestEstimateInTx s now r userId dto) (emitApprovalRequested userId)))"

section \<open>What the handlers check and write\<close>

text \<open>
  A member in good standing of the company the request is given to, and either an admin
  of that company or the worker the request is assigned to.
\<close>

definition provider_member :: "db \<Rightarrow> string \<Rightarrow> string \<Rightarrow> provider_role \<Rightarrow> bool" where
  "provider_member s userId p role \<longleftrightarrow>
     (\<exists>m \<in> set (providerUsers s). su_userId m = userId \<and> su_serviceProviderId m = p \<and> su_role m = role
        \<and> su_isActive m \<and> user_active s userId \<and> provider_active s p \<and> membershipAccessible s userId m)"

definition provider_scope :: "db \<Rightarrow> principal \<Rightarrow> maintenance_request \<Rightarrow> bool" where
  "provider_scope s u r \<longleftrightarrow>
     (\<exists>userId p. user_sub u = Some userId \<and> mr_serviceProviderId r = Some p
        \<and> (provider_member s userId p PROVIDER_ADMIN
           \<or> provider_member s userId p PROVIDER_WORKER
              \<and> mr_serviceProviderAssignedUserId r = Some userId))"

lemma accessible_member:
  "m \<in> set (listAccessibleMemberships s userId) \<Longrightarrow>
   provider_member s userId (su_serviceProviderId m) (su_role m)"
  by (auto simp: listAccessibleMemberships_def findActiveMembershipsForUser_def provider_member_def)

lemma provider_context_member:
  assumes "getProviderAccessContext s userId = Inr ctx"
  shows "p \<in> pc_managerProviderIds ctx \<Longrightarrow> provider_member s userId p PROVIDER_ADMIN"
    and "p \<in> pc_providerIds ctx \<Longrightarrow>
         provider_member s userId p PROVIDER_ADMIN \<or> provider_member s userId p PROVIDER_WORKER"
proof -
  show "provider_member s userId p PROVIDER_ADMIN" if "p \<in> pc_managerProviderIds ctx"
    using assms that
    by (auto simp: getProviderAccessContext_def Let_def dest!: accessible_member split: if_splits)
  show "provider_member s userId p PROVIDER_ADMIN \<or> provider_member s userId p PROVIDER_WORKER"
    if "p \<in> pc_providerIds ctx"
  proof -
    from assms that obtain m where "m \<in> set (listAccessibleMemberships s userId)"
      and "su_serviceProviderId m = p"
      by (auto simp: getProviderAccessContext_def Let_def split: if_splits)
    then show ?thesis using accessible_member [of m s userId] by (cases "su_role m") auto
  qed
qed

lemma loadProviderRequest_Inr:
  assumes "unique_ids s" and "loadProviderRequest s u rid = Inr (userId, ctx, r)"
  shows "find_by mr_id (mr_id r) (requests s) = Some r" and "mr_id r = rid"
    and "user_sub u = Some userId" and "getProviderAccessContext s userId = Inr ctx"
    and "in_providers (mr_serviceProviderId r) (pc_providerIds ctx)"
proof -
  from assms(2) have f: "findByIdForServiceProviders s None (pc_providerIds ctx) rid = Some r"
    and u: "user_sub u = Some userId" "getProviderAccessContext s userId = Inr ctx"
    by (auto simp: loadProviderRequest_def)
  from find_provider [OF assms(1) f] u
  show "find_by mr_id (mr_id r) (requests s) = Some r" and "mr_id r = rid"
    and "user_sub u = Some userId" and "getProviderAccessContext s userId = Inr ctx"
    and "in_providers (mr_serviceProviderId r) (pc_providerIds ctx)"
    by simp_all
qed

lemma provider_scopeI:
  assumes "unique_ids s" and "loadProviderRequest s u rid = Inr (userId, ctx, r)"
    and "assertProviderRequestWriteAccess userId ctx r = Inr ()"
  shows "provider_scope s u r"
proof -
  note l = loadProviderRequest_Inr [OF assms(1,2)]
  from assms(3) obtain p where p: "mr_serviceProviderId r = Some p"
    and acc: "p \<in> pc_managerProviderIds ctx \<or> mr_serviceProviderAssignedUserId r = Some userId"
    by (auto simp: assertProviderRequestWriteAccess_def split: option.splits if_splits)
  from l(5) p have "p \<in> pc_providerIds ctx" by (simp add: in_providers_def)
  with acc p l(3) provider_context_member [OF l(4)] show ?thesis
    unfolding provider_scope_def by blast
qed

definition provider_write :: "db \<Rightarrow> principal \<Rightarrow> string \<Rightarrow> maintenance_request \<Rightarrow> db \<Rightarrow> bool" where
  "provider_write s u rid r' s' \<longleftrightarrow>
     (\<exists>r. mr_id r = rid \<and> provider_scope s u r \<and> writes_row s r r' s')"

lemma provider_writeI:
  assumes "unique_ids s" and "loadProviderRequest s u rid = Inr (userId, ctx, r)"
    and "provider_scope s u r" and "updateById s (mr_id r) f = Inr (r', s1)"
    and "request_step r (f r)" and "mr_ownerApprovalStatus (f r) = mr_ownerApprovalStatus r"
  shows "provider_write s u rid r' (emitEvent s1 e)"
  using loadProviderRequest_Inr [OF assms(1,2)] assms(3,6)
    writes_row_update [OF assms(1) loadProviderRequest_Inr(1) [OF assms(1,2)] assms(4,5)]
  by (auto simp: provider_write_def intro: writes_row_emit)

lemma updateProviderRequestStatus_writes:
  "unique_ids s \<Longrightarrow> updateProviderRequestStatus s now u rid st = Inr (r', s') \<Longrightarrow>
   provider_write s u rid r' s'"
  unfolding updateProviderRequestStatus_def
  by (clarsimp simp: Let_def) (frule (2) provider_scopeI,
      rule provider_writeI, assumption+; auto intro: request_step.status)

lemma provider_scope_manager:
  assumes "unique_ids s" and "loadProviderRequest s u rid = Inr (userId, ctx, r)"
    and "mr_serviceProviderId r = Some p" and "p \<in> pc_managerProviderIds ctx"
  shows "provider_scope s u r"
  using assms(3,4) loadProviderRequest_Inr(3) [OF assms(1,2)]
    provider_context_member(1) [OF loadProviderRequest_Inr(4) [OF assms(1,2)]]
  unfolding provider_scope_def by blast

lemma assignProviderWorkerFromProvider_writes:
  "unique_ids s \<Longrightarrow> assignProviderWorkerFromProvider s now u rid w = Inr (r', s') \<Longrightarrow>
   provider_write s u rid r' s'"
  unfolding assignProviderWorkerFromProvider_def assertOpenOrAssigned_def
  by (clarsimp simp: Let_def) (frule (3) provider_scope_manager,
      rule provider_writeI, assumption+; auto intro: request_step.assignWorker)

lemma submitProviderRequestEstimate_writes:
  assumes "unique_ids s" and "submitProviderRequestEstimate s now u rid dto = Inr (r', s')"
  shows "provider_write s u rid r' s'"
proof -
  from assms(2) obtain userId ctx r r0 em s0 where
    l: "loadProviderRequest s u rid = Inr (userId, ctx, r)"
    and acc: "assertProviderRequestWriteAccess userId ctx r = Inr ()"
    and tx: "submitRequestEstimateInTx s now r userId dto = Inr (r0, em, s0)"
    and em: "emitApprovalRequested userId (r0, em, s0) = Inr (r', s')"
    unfolding submitProviderRequestEstimate_def by auto
  note l' = loadProviderRequest_Inr [OF assms(1) l]
  from emitApprovalRequested_writes [OF submitRequestEstimateInTx_writes [OF assms(1) l'(1) tx] em]
    provider_scopeI [OF assms(1) l acc] l'(2)
  show ?thesis by (auto simp: provider_write_def)
qed

lemma addProviderComment_keeps:
  "addProviderComment s now u rid newId msg = Inr (c, s') \<Longrightarrow> keeps_requests s s'"
  unfolding addProviderComment_def by (auto simp: Let_def dest: createComment_Inr)

lemma listProviderComments_keeps:
  "listProviderComments s u rid = Inr (cs, s') \<Longrightarrow> keeps_requests s s'"
  unfolding listProviderComments_def by (auto simp: Let_def)

lemma addProviderAttachments_keeps:
  "addProviderAttachments s u rid as = Inr (r', s') \<Longrightarrow> keeps_requests s s'"
  unfolding addProviderAttachments_def by (auto simp: Let_def)

end
