(* ===== verification/RequestOwner.thy ===== *)
theory RequestOwner
  imports RequestBuilding
begin

text \<open>
  The owner side (\<^verbatim>\<open>owner-portfolio-scope.service.ts\<close>): which units a user with owner access
  grants may see, the requests of those units, and the owner's decision on a request that
  waits for approval. The source orders the unit list by organisation and building name;
  names are not part of the model and the list keeps the order of the rows.

  The decision is split where the source splits it: \<open>getAccessibleRequest\<close> and the check that
  the approval is pending run before the transaction, \<open>commitOwnerDecision\<close> is the
  transaction.
\<close>

section \<open>The portfolio\<close>

definition ownerActive :: "db \<Rightarrow> string \<Rightarrow> bool" where
  "ownerActive s o' = list_ex (\<lambda>x. ow_id x = o' \<and> ow_isActive x) (owners s)"

definition loadActiveOwnerGrantRows :: "db \<Rightarrow> string \<Rightarrow> owner_grant list" where
  "loadActiveOwnerGrantRows s userId =
     filter (\<lambda>g. og_userId g = Some userId \<and> og_status g = GR_ACTIVE \<and> ownerActive s (og_ownerId g))
       (ownerGrants s)"

definition hasActiveOwnerAccess :: "db \<Rightarrow> string \<Rightarrow> bool" where
  "hasActiveOwnerAccess s userId =
     list_ex (\<lambda>g. og_userId g = Some userId \<and> og_status g = GR_ACTIVE \<and> ownerActive s (og_ownerId g))
       (ownerGrants s)"

definition getAccessibleOwnerIds :: "db \<Rightarrow> string \<Rightarrow> string list" where
  "getAccessibleOwnerIds s userId = js_unique (map og_ownerId (loadActiveOwnerGrantRows s userId))"

record portfolio_unit =
  pu_orgId :: string
  pu_ownerId :: string
  pu_unitId :: string
  pu_buildingId :: string
  pu_unitLabel :: string

text \<open>The filter on the owner relation: an active owner with an active grant to the user.\<close>

definition grantedOwner :: "db \<Rightarrow> string \<Rightarrow> string \<Rightarrow> bool" where
  "grantedOwner s userId o' =
     (ownerActive s o'
      \<and> list_ex (\<lambda>g. og_ownerId g = o' \<and> og_userId g = Some userId \<and> og_status g = GR_ACTIVE)
          (ownerGrants s))"

definition unit_matches :: "string option \<Rightarrow> string \<Rightarrow> bool" where
  "unit_matches unitFilter i \<longleftrightarrow> (truthy unitFilter \<longrightarrow> unitFilter = Some i)"

definition ownershipUnits :: "db \<Rightarrow> string \<Rightarrow> string list \<Rightarrow> string option \<Rightarrow> portfolio_unit list" where
  "ownershipUnits s userId ownerIds unitFilter =
     List.map_filter (\<lambda>o'.
       if List.member ownerIds (uo_ownerId o') \<and> uo_endDate o' = None
          \<and> grantedOwner s userId (uo_ownerId o') \<and> unit_matches unitFilter (uo_unitId o')
       then map_option (\<lambda>n. \<lparr> pu_orgId = uo_orgId o', pu_ownerId = uo_ownerId o',
              pu_unitId = un_id n, pu_buildingId = un_buildingId n, pu_unitLabel = un_label n \<rparr>)
              (find_by un_id (uo_unitId o') (units s))
       else None) (unitOwnerships s)"

text \<open>Units with no current ownership row fall back on their owner column.\<close>

definition fallbackUnits :: "db \<Rightarrow> string \<Rightarrow> string list \<Rightarrow> string option \<Rightarrow> portfolio_unit list" where
  "fallbackUnits s userId ownerIds unitFilter =
     List.map_filter (\<lambda>n.
       case un_ownerId n of
         None \<Rightarrow> None
       | Some o' \<Rightarrow>
           if o' \<noteq> [] \<and> List.member ownerIds o' \<and> grantedOwner s userId o'
              \<and> \<not> list_ex (\<lambda>x. uo_unitId x = un_id n \<and> uo_endDate x = None) (unitOwnerships s)
              \<and> unit_matches unitFilter (un_id n)
           then map_option (\<lambda>b. \<lparr> pu_orgId = bd_orgId b, pu_ownerId = o',
                  pu_unitId = un_id n, pu_buildingId = bd_id b, pu_unitLabel = un_label n \<rparr>)
                  (find_by bd_id (un_buildingId n) (buildings s))
           else None) (units s)"

text \<open>One row per unit: a \<^verbatim>\<open>Map\<close> keeps the place of the first row and the value of the last.\<close>

definition normalizeAccessibleUnitRows :: "portfolio_unit list \<Rightarrow> portfolio_unit list \<Rightarrow> portfolio_unit list" where
  "normalizeAccessibleUnitRows ownershipRows fallback =
     (let rows = ownershipRows @ fallback
      in List.map_filter (\<lambda>i. find_by pu_unitId i (rev rows)) (js_unique (map pu_unitId rows)))"

definition loadAccessibleUnitScope :: "db \<Rightarrow> string \<Rightarrow> string option \<Rightarrow> portfolio_unit list" where
  "loadAccessibleUnitScope s userId unitFilter =
     (let ownerIds = getAccessibleOwnerIds s userId
      in if ownerIds = [] then []
         else normalizeAccessibleUnitRows (ownershipUnits s userId ownerIds unitFilter)
                (fallbackUnits s userId ownerIds unitFilter))"

definition listAccessibleUnits :: "db \<Rightarrow> string \<Rightarrow> portfolio_unit list" where
  "listAccessibleUnits s userId = loadAccessibleUnitScope s userId None"

definition getPortfolioSummary :: "db \<Rightarrow> string \<Rightarrow> nat \<times> nat \<times> nat" where
  "getPortfolioSummary s userId =
     (let us = listAccessibleUnits s userId
      in (length us, card (set (map pu_orgId us)), card (set (map pu_buildingId us))))"

definition getAccessibleUnitOrThrow :: "db \<Rightarrow> string \<Rightarrow> string \<Rightarrow> portfolio_unit res" where
  "getAccessibleUnitOrThrow s userId unitId =
     orThrow (find_by pu_unitId unitId (loadAccessibleUnitScope s userId (Some unitId)))
       (NotFound ''Unit not found'')"

definition getAccessibleUnitTenant :: "db \<Rightarrow> string \<Rightarrow> string \<Rightarrow> occupancy_row option res" where
  "getAccessibleUnitTenant s userId unitId =
     andThen (getAccessibleUnitOrThrow s userId unitId) (\<lambda>_.
     Inr (case rev (sort_key (\<lambda>oc. (oc_createdAt oc, oc_id oc))
              (filter (\<lambda>oc. oc_unitId oc = unitId \<and> oc_status oc = OC_ACTIVE
                        \<and> user_active s (oc_residentUserId oc)) (occupancies s))) of
            [] \<Rightarrow> None
          | oc # _ \<Rightarrow> Some oc))"

section \<open>Requests of the portfolio\<close>

definition in_scope :: "portfolio_unit list \<Rightarrow> maintenance_request \<Rightarrow> bool" where
  "in_scope scope r =
     (case mr_unitId r of None \<Rightarrow> False | Some i \<Rightarrow> List.member (map pu_unitId scope) i)"

definition listAccessibleRequests :: "db \<Rightarrow> string \<Rightarrow> (maintenance_request \<times> portfolio_unit) list" where
  "listAccessibleRequests s userId =
     (let scope = loadAccessibleUnitScope s userId None
      in if scope = [] then []
         else List.map_filter (\<lambda>r.
                case mr_unitId r of
                  None \<Rightarrow> None
                | Some i \<Rightarrow> if i = [] then None
                            else map_option (\<lambda>n. (r, n)) (find_by pu_unitId i scope))
              (rev (sort_key (\<lambda>r. (mr_createdAt r, mr_id r)) (filter (in_scope scope) (requests s)))))"

definition getAccessibleRequest :: "db \<Rightarrow> string \<Rightarrow> string \<Rightarrow> (maintenance_request \<times> portfolio_unit) res" where
  "getAccessibleRequest s userId rid =
     (let scope = loadAccessibleUnitScope s userId None
      in if scope = [] then Inl (NotFound ''Request not found'')
         else case List.find (\<lambda>r. mr_id r = rid \<and> in_scope scope r) (requests s) of
                None \<Rightarrow> Inl (NotFound ''Request not found'')
              | Some r \<Rightarrow>
                  if \<not> truthy (mr_unitId r) then Inl (NotFound ''Request not found'')
                  else case find_by pu_unitId (the (mr_unitId r)) scope of
                         None \<Rightarrow> Inl (NotFound ''Request not found'')
                       | Some n \<Rightarrow> Inr (r, n))"

text \<open>The event snapshot takes organisation, building and unit from the portfolio row.\<close>

definition ownerEventRequest :: "maintenance_request \<Rightarrow> portfolio_unit \<Rightarrow> request_snapshot" where
  "ownerEventRequest r n =
     \<lparr> sn_id = mr_id r, sn_orgId = pu_orgId n, sn_buildingId = pu_buildingId n,
       sn_unitId = Some (pu_unitId n), sn_title = mr_title r, sn_status = mr_status r,
       sn_ownerApprovalStatus = mr_ownerApprovalStatus r,
       sn_createdByUserId = mr_createdByUserId r, sn_assignedToUserId = mr_assignedToUserId r,
       sn_serviceProviderId = None, sn_serviceProviderAssignedUserId = None,
       sn_isEmergency = mr_isEmergency r, sn_emergencySignals = [],
       sn_unit = Some (pu_unitId n, pu_unitLabel n) \<rparr>"

definition commitOwnerDecision ::
  "db \<Rightarrow> int \<Rightarrow> string \<Rightarrow> string \<Rightarrow> maintenance_request \<times> portfolio_unit \<Rightarrow> approval_status
   \<Rightarrow> audit_action \<Rightarrow> event_name \<Rightarrow> string option \<Rightarrow> (maintenance_request \<times> db) res" where
  "commitOwnerDecision s now userId rid accessible decision action name reason =
     andThen (updateById s rid (upd_ownerDecision decision reason userId now)) (\<lambda>(r', s1).
     let s2 = createOwnerApprovalAudit s1 (mr_id r') (mr_orgId r') userId action
                (Some (mr_ownerApprovalStatus (fst accessible))) decision reason (Some OWNER)
     in Inr (r', emitEvent s2 (event name (ownerEventRequest r' (snd accessible)) None userId)))"

definition pendingAccessible :: "db \<Rightarrow> string \<Rightarrow> string \<Rightarrow> (maintenance_request \<times> portfolio_unit) res" where
  "pendingAccessible s userId rid =
     andThen (getAccessibleRequest s userId rid) (\<lambda>(r, n).
     andThen (ensure (mr_ownerApprovalStatus r = PENDING) (NotFound ''Request not found'')) (\<lambda>_.
     Inr (r, n)))"

definition approveAccessibleRequest ::
  "db \<Rightarrow> int \<Rightarrow> string \<Rightarrow> string \<Rightarrow> string option \<Rightarrow> (maintenance_request \<times> db) res" where
  "approveAccessibleRequest s now userId rid reason =
     andThen (pendingAccessible s userId rid) (\<lambda>accessible.
     commitOwnerDecision s now userId rid accessible APPROVED AA_APPROVED EV_OWNER_REQUEST_APPROVED reason)"

definition rejectAccessibleRequest ::
  "db \<Rightarrow> int \<Rightarrow> string \<Rightarrow> string \<Rightarrow> string \<Rightarrow> (maintenance_request \<times> db) res" where
  "rejectAccessibleRequest s now userId rid reason =
     andThen (pendingAccessible s userId rid) (\<lambda>accessible.
     commitOwnerDecision s now userId rid accessible REJECTED AA_REJECTED EV_OWNER_REQUEST_REJECTED
       (Some reason))"

section \<open>Comments\<close>

definition ors_key :: "owner_read_state \<Rightarrow> string \<times> string" where
  "ors_key x = (ors_userId x, ors_requestId x)"

definition markAccessibleRequestCommentsRead :: "db \<Rightarrow> string \<Rightarrow> string \<Rightarrow> int \<Rightarrow> db" where
  "markAccessibleRequestCommentsRead s userId rid t =
     (if find_by ors_key (userId, rid) (ownerReadStates s) \<noteq> None
      then s\<lparr>ownerReadStates := modify_by ors_key (userId, rid)
               (\<lambda>x. x\<lparr>ors_lastReadAt := t\<rparr>) (ownerReadStates s)\<rparr>
      else s\<lparr>ownerReadStates := ownerReadStates s @
               [\<lparr> ors_userId = userId, ors_requestId = rid, ors_lastReadAt = t \<rparr>]\<rparr>)"

definition listAccessibleRequestComments :: "db \<Rightarrow> string \<Rightarrow> string \<Rightarrow> (comment_row list \<times> db) res" where
  "listAccessibleRequestComments s userId rid =
     andThen (getAccessibleRequest s userId rid) (\<lambda>(r, n).
     let cs = sort_key cm_createdAt (filter (\<lambda>c. cm_orgId c = pu_orgId n \<and> cm_requestId c = mr_id r
                \<and> cm_visibility c = SHARED) (comments s))
     in Inr (cs, if cs = [] then s
                 else markAccessibleRequestCommentsRead s userId (mr_id r) (cm_createdAt (last cs))))"

definition listAccessibleRequestIds :: "db \<Rightarrow> string \<Rightarrow> string list" where
  "listAccessibleRequestIds s userId =
     (let scope = loadAccessibleUnitScope s userId None
      in if scope = [] then [] else map mr_id (filter (in_scope scope) (requests s)))"

definition countUnreadAccessibleRequestComments :: "db \<Rightarrow> string \<Rightarrow> nat" where
  "countUnreadAccessibleRequestComments s userId =
     (let rids = listAccessibleRequestIds s userId;
          lastRead = map_of (rev (map (\<lambda>x. (ors_requestId x, ors_lastReadAt x))
            (filter (\<lambda>x. ors_userId x = userId \<and> List.member rids (ors_requestId x))
               (ownerReadStates s))))
      in if rids = [] then 0
         else length (filter (\<lambda>c. List.member rids (cm_requestId c) \<and> cm_visibility c = SHARED
                \<and> cm_authorUserId c \<noteq> userId
                \<and> (case lastRead (cm_requestId c) of None \<Rightarrow> True | Some t \<Rightarrow> cm_createdAt c > t))
              (comments s)))"

definition addAccessibleRequestComment ::
  "db \<Rightarrow> int \<Rightarrow> string \<Rightarrow> string \<Rightarrow> string \<Rightarrow> string \<Rightarrow> (comment_row \<times> db) res" where
  "addAccessibleRequestComment s now userId rid newId message =
     andThen (getAccessibleRequest s userId rid) (\<lambda>(r, n).
     andThen (createComment s \<lparr> cm_id = newId, cm_requestId = mr_id r, cm_orgId = pu_orgId n,
                cm_authorUserId = userId, cm_authorOwnerId = Some (pu_ownerId n),
                cm_authorType = AUTHOR_OWNER, cm_visibility = SHARED, cm_message = message,
                cm_createdAt = now \<rparr>) (\<lambda>(c, s1).
     let s2 = markAccessibleRequestCommentsRead s1 userId (mr_id r) (cm_createdAt c)
     in Inr (c, emitEvent s2 ((event EV_COMMENTED (ownerEventRequest r n) None userId)
                  \<lparr> ev_actorIsResident := Some False, ev_comment := Some (cm_id c, cm_message c) \<rparr>))))"

section \<open>What the handlers check and write\<close>

text \<open>
  A user owns a unit through an owner record that is active and granted to them: by a
  current ownership row, or by the unit's owner column when no current row exists.
\<close>

definition owns_unit :: "db \<Rightarrow> string \<Rightarrow> string \<Rightarrow> bool" where
  "owns_unit s userId unitId \<longleftrightarrow>
     (\<exists>o'. grantedOwner s userId o' \<and>
        ((\<exists>x \<in> set (unitOwnerships s). uo_unitId x = unitId \<and> uo_ownerId x = o' \<and> uo_endDate x = None)
         \<or> (\<exists>n \<in> set (units s). un_id n = unitId \<and> un_ownerId n = Some o')
            \<and> \<not> (\<exists>x \<in> set (unitOwnerships s). uo_unitId x = unitId \<and> uo_endDate x = None)))"

lemma ownershipUnits_own:
  assumes "n \<in> set (ownershipUnits s userId ownerIds f)"
  shows "owns_unit s userId (pu_unitId n)"
proof -
  from assms obtain x m where x: "x \<in> set (unitOwnerships s)" "uo_endDate x = None"
      "grantedOwner s userId (uo_ownerId x)" "find_by un_id (uo_unitId x) (units s) = Some m"
      "pu_unitId n = un_id m"
    by (auto simp: ownershipUnits_def set_map_filter split: if_splits)
  moreover from x(4) have "un_id m = uo_unitId x" by (rule find_by_SomeD)
  ultimately show ?thesis unfolding owns_unit_def by metis
qed

lemma fallbackUnits_own:
  assumes "n \<in> set (fallbackUnits s userId ownerIds f)"
  shows "owns_unit s userId (pu_unitId n)"
proof -
  from assms obtain m o' where "m \<in> set (units s)" and "un_ownerId m = Some o'"
    and "grantedOwner s userId o'" and "pu_unitId n = un_id m"
    and "\<not> list_ex (\<lambda>x. uo_unitId x = un_id m \<and> uo_endDate x = None) (unitOwnerships s)"
    by (auto simp: fallbackUnits_def set_map_filter split: option.split_asm if_split_asm)
  then show ?thesis unfolding owns_unit_def list_ex_iff by metis
qed

lemma normalize_subset:
  "set (normalizeAccessibleUnitRows xs ys) \<subseteq> set xs \<union> set ys"
  by (auto simp: normalizeAccessibleUnitRows_def set_map_filter dest: find_by_SomeD)

lemma scope_owns:
  "n \<in> set (loadAccessibleUnitScope s userId f) \<Longrightarrow> owns_unit s userId (pu_unitId n)"
  using normalize_subset ownershipUnits_own fallbackUnits_own
  by (fastforce simp: loadAccessibleUnitScope_def Let_def split: if_splits)

definition owner_scope :: "db \<Rightarrow> string \<Rightarrow> maintenance_request \<Rightarrow> bool" where
  "owner_scope s userId r \<longleftrightarrow> (\<exists>i. mr_unitId r = Some i \<and> owns_unit s userId i)"

lemma getAccessibleRequest_Inr:
  assumes "unique_ids s" and "getAccessibleRequest s userId rid = Inr (r, n)"
  shows "find_by mr_id rid (requests s) = Some r" and "mr_id r = rid" and "owner_scope s userId r"
    and "mr_unitId r = Some (pu_unitId n)"
proof -
  let ?scope = "loadAccessibleUnitScope s userId None"
  from assms(2) obtain i where f: "List.find (\<lambda>r. mr_id r = rid \<and> in_scope ?scope r) (requests s) = Some r"
    and i: "mr_unitId r = Some i" and n: "find_by pu_unitId i ?scope = Some n"
    by (auto simp: getAccessibleRequest_def Let_def split: if_splits option.splits)
  from f assms(1) show "find_by mr_id rid (requests s) = Some r"
    unfolding unique_ids_def by (auto dest: find_Some_iff_find_by)
  then show "mr_id r = rid" by (rule find_by_SomeD)
  show "owner_scope s userId r" and "mr_unitId r = Some (pu_unitId n)"
    using i find_by_SomeD [OF n] by (auto simp: owner_scope_def dest: scope_owns)
qed

definition owner_write :: "db \<Rightarrow> string \<Rightarrow> string \<Rightarrow> maintenance_request \<Rightarrow> db \<Rightarrow> bool" where
  "owner_write s userId rid r' s' \<longleftrightarrow>
     (\<exists>r. mr_id r = rid \<and> owner_scope s userId r \<and> mr_ownerApprovalStatus r = PENDING
        \<and> writes_row s r r' s')"

lemma ownerDecision_writes:
  assumes "unique_ids s" and "pendingAccessible s userId rid = Inr acc"
    and "commitOwnerDecision s now userId rid acc dec action name why = Inr (r', s')"
    and "dec = APPROVED \<or> dec = REJECTED"
  shows "owner_write s userId rid r' s'"
proof -
  obtain r n where acc: "acc = (r, n)" by force
  with assms(2) have get: "getAccessibleRequest s userId rid = Inr (r, n)"
    and pend: "mr_ownerApprovalStatus r = PENDING" by (auto simp: pendingAccessible_def)
  note r = getAccessibleRequest_Inr [OF assms(1) get]
  from assms(3) obtain s1 e where upd: "updateById s rid (upd_ownerDecision dec why userId now) = Inr (r', s1)"
    and s': "s' = emitEvent (createOwnerApprovalAudit s1 (mr_id r') (mr_orgId r') userId action
               (Some (mr_ownerApprovalStatus r)) dec why (Some OWNER)) e"
    unfolding commitOwnerDecision_def by (auto simp: acc Let_def)
  have "request_step r (upd_ownerDecision dec why userId now r)"
    using pend assms(4) by (rule request_step.ownerDecision)
  from writes_row_emit [OF writes_row_audited [OF assms(1) r(1) upd this refl]]
  show ?thesis using r pend by (auto simp: s' owner_write_def)
qed

lemma approveAccessibleRequest_writes:
  "unique_ids s \<Longrightarrow> approveAccessibleRequest s now userId rid why = Inr (r', s') \<Longrightarrow>
   owner_write s userId rid r' s'"
  by (auto simp: approveAccessibleRequest_def intro: ownerDecision_writes)

lemma rejectAccessibleRequest_writes:
  "unique_ids s \<Longrightarrow> rejectAccessibleRequest s now userId rid why = Inr (r', s') \<Longrightarrow>
   owner_write s userId rid r' s'"
  by (auto simp: rejectAccessibleRequest_def intro: ownerDecision_writes)

lemma markAccessible_keeps [simp]:
  "keeps_requests s (markAccessibleRequestCommentsRead s1 userId rid t) = keeps_requests s s1"
  by (simp add: keeps_requests_def markAccessibleRequestCommentsRead_def)

lemma addAccessibleRequestComment_keeps:
  "addAccessibleRequestComment s now userId rid newId msg = Inr (c, s') \<Longrightarrow> keeps_requests s s'"
  unfolding addAccessibleRequestComment_def by (auto simp: Let_def dest: createComment_Inr)

lemma listAccessibleRequestComments_keeps:
  "listAccessibleRequestComments s userId rid = Inr (cs, s') \<Longrightarrow> keeps_requests s s'"
  unfolding listAccessibleRequestComments_def by (auto simp: Let_def)

interpretation owner_read_table: keyed_table ors_key "find_by ors_key" "modify_by ors_key"
  by (rule keyed_table_lists)

end
