(* ===== verification/RequestMachine.thy ===== *)
theory RequestMachine
  imports RequestResident RequestProvider RequestOwner
begin

text \<open>
  The request workflow as one system: the estimate reminder job
  (\<^verbatim>\<open>maintenance-request-estimate-monitor.service.ts\<close>) and the datatype of all operations of
  residents, managers, staff, providers, owners and the job, with the state invariant and
  the history every run of operations keeps. A request handler is one operation; the job
  marks its requests one statement at a time, so each mark is an operation of its own.
\<close>

section \<open>The estimate reminder job\<close>

definition SYSTEM_ACTOR_USER_ID :: string where
  "SYSTEM_ACTOR_USER_ID = ''system''"

definition remindOne :: "int \<Rightarrow> maintenance_request \<Rightarrow> nat \<times> db \<Rightarrow> nat \<times> db" where
  "remindOne now r st =
     (let (emitted, s) = st;
          (n, s1) = markEstimateReminderSentIfPending s (mr_id r) now
      in if n = 0 then (emitted, s1)
         else (emitted + 1,
               emitEvent s1 (event EV_ESTIMATE_REMINDER (toEventRequest s1 r) None SYSTEM_ACTOR_USER_ID)))"

definition scanAndEmitReminders :: "db \<Rightarrow> int \<Rightarrow> nat \<Rightarrow> nat \<times> db" where
  "scanAndEmitReminders s now limit =
     fold (remindOne now) (listPendingEstimateReminderRequests s now limit) (0, s)"

lemma mark_rows:
  "requests (snd (markEstimateReminderSentIfPending s rid now)) =
   map (\<lambda>r. if mr_id r = rid \<and> reminder_due now r then upd_reminder now r else r) (requests s)"
  by (simp add: markEstimateReminderSentIfPending_def upd_reminder_def)

lemma remindOne_rows:
  "requests (snd (remindOne now r (k, s))) =
   map (\<lambda>x. if mr_id x = mr_id r \<and> reminder_due now x then upd_reminder now x else x) (requests s)"
  using mark_rows [of s "mr_id r" now]
  by (auto simp: remindOne_def emitEvent_def split: prod.splits)

lemma remindOne_count:
  "fst (remindOne now r (k, s)) =
   (if \<exists>x \<in> set (requests s). mr_id x = mr_id r \<and> reminder_due now x then k + 1 else k)"
  by (auto simp: remindOne_def markEstimateReminderSentIfPending_def filter_empty_conv split: prod.splits)

lemma reminded_not_due [simp]: "\<not> reminder_due now' (upd_reminder now r)"
  by (simp add: reminder_due_def upd_reminder_def)

lemma reminded_id [simp]: "mr_id (upd_reminder now r) = mr_id r"
  by (simp add: upd_reminder_def)

definition due_ids :: "int \<Rightarrow> db \<Rightarrow> string set" where
  "due_ids now s = {mr_id x |x. x \<in> set (requests s) \<and> reminder_due now x}"

lemma due_after:
  assumes "distinct (map mr_id (r # rs))" and "mr_id ` set (r # rs) \<subseteq> due_ids now s"
    and "remindOne now r (k, s) = (k1, s1)"
  shows "mr_id ` set rs \<subseteq> due_ids now s1"
proof
  fix i assume i: "i \<in> mr_id ` set rs"
  with assms(2) have "i \<in> due_ids now s" by auto
  moreover have "i \<noteq> mr_id r" using i assms(1) by (cases "i = mr_id r") simp_all
  ultimately obtain x where "x \<in> set (requests s)" "mr_id x = i" "reminder_due now x" "i \<noteq> mr_id r"
    by (auto simp: due_ids_def)
  then show "i \<in> due_ids now s1"
    using remindOne_rows [of now r k s] unfolding due_ids_def assms(3) by force
qed

lemma scan_fold:
  assumes "distinct (map mr_id rs)" and "mr_id ` set rs \<subseteq> due_ids now s"
  shows "fst (fold (remindOne now) rs (k, s)) = k + length rs
    \<and> requests (snd (fold (remindOne now) rs (k, s))) =
         map (\<lambda>x. if mr_id x \<in> mr_id ` set rs \<and> reminder_due now x then upd_reminder now x else x)
           (requests s)"
  using assms
proof (induction rs arbitrary: k s)
  case Nil
  show ?case by simp
next
  case (Cons r rs)
  obtain k1 s1 where st: "remindOne now r (k, s) = (k1, s1)" by force
  have rows: "requests s1 = map (\<lambda>x. if mr_id x = mr_id r \<and> reminder_due now x
                                      then upd_reminder now x else x) (requests s)"
    using remindOne_rows [of now r k s] st by simp
  have k1: "k1 = k + 1"
    using remindOne_count [of now r k s] st Cons.prems(2) by (auto simp: due_ids_def)
  have "mr_id ` set rs \<subseteq> due_ids now s1" by (rule due_after [OF Cons.prems st])
  with Cons.IH [of s1 k1] Cons.prems(1) k1 st show ?case by (auto simp: rows)
qed

text \<open>Each request of the list that is still due gets one event.\<close>

lemma toEventRequest_units: "units s1 = units s \<Longrightarrow> toEventRequest s1 r = toEventRequest s r"
  by (simp add: toEventRequest_def cong: option.case_cong)

lemma remindOne_frame: "units (snd (remindOne now r (k, s))) = units s"
  by (simp add: remindOne_def markEstimateReminderSentIfPending_def emitEvent_def Let_def)

lemma remindOne_events:
  "eventLog (snd (remindOne now r (k, s))) = eventLog s @
     (if mr_id r \<in> due_ids now s
      then [event EV_ESTIMATE_REMINDER (toEventRequest s r) None SYSTEM_ACTOR_USER_ID] else [])"
  using toEventRequest_units [of "snd (markEstimateReminderSentIfPending s (mr_id r) now)" s r]
  by (auto simp: remindOne_def markEstimateReminderSentIfPending_def emitEvent_def due_ids_def
      filter_empty_conv Let_def)

lemma scan_fold_events:
  assumes "distinct (map mr_id rs)" and "mr_id ` set rs \<subseteq> due_ids now s"
  shows "eventLog (snd (fold (remindOne now) rs (k, s))) = eventLog s @
     map (\<lambda>r. event EV_ESTIMATE_REMINDER (toEventRequest s r) None SYSTEM_ACTOR_USER_ID) rs"
  using assms
proof (induction rs arbitrary: k s)
  case (Cons r rs)
  obtain k1 s1 where st: "remindOne now r (k, s) = (k1, s1)" by force
  have "mr_id ` set rs \<subseteq> due_ids now s1" by (rule due_after [OF Cons.prems st])
  moreover have "eventLog s1 = eventLog s @
      [event EV_ESTIMATE_REMINDER (toEventRequest s r) None SYSTEM_ACTOR_USER_ID]"
    using remindOne_events [of now r k s] st Cons.prems(2) by simp
  moreover have "toEventRequest s1 x = toEventRequest s x" for x
    using remindOne_frame [of now r k s] st by (intro toEventRequest_units) simp
  ultimately show ?case using Cons.IH [of s1 k1] Cons.prems(1) st by simp
qed simp

lemma listPending_due:
  assumes "unique_ids s"
  shows "distinct (map mr_id (listPendingEstimateReminderRequests s now limit))"
    and "mr_id ` set (listPendingEstimateReminderRequests s now limit) \<subseteq> due_ids now s"
proof -
  let ?due = "filter (reminder_due now) (requests s)"
  have "distinct (map mr_id (sort_key (\<lambda>r. the (mr_estimateDueAt r)) ?due))"
    using assms by (simp add: unique_ids_def distinct_map inj_on_def)
  then show "distinct (map mr_id (listPendingEstimateReminderRequests s now limit))"
    unfolding listPendingEstimateReminderRequests_def by (simp add: take_map [symmetric])
  show "mr_id ` set (listPendingEstimateReminderRequests s now limit) \<subseteq> due_ids now s"
    by (auto simp: listPendingEstimateReminderRequests_def due_ids_def dest!: in_set_takeD)
qed

lemma scan_effect:
  assumes "unique_ids s"
  shows "fst (scanAndEmitReminders s now limit) = length (listPendingEstimateReminderRequests s now limit)"
    and "requests (snd (scanAndEmitReminders s now limit)) =
         map (\<lambda>x. if mr_id x \<in> mr_id ` set (listPendingEstimateReminderRequests s now limit)
                     \<and> reminder_due now x then upd_reminder now x else x) (requests s)"
    and "eventLog (snd (scanAndEmitReminders s now limit)) = eventLog s @
         map (\<lambda>r. event EV_ESTIMATE_REMINDER (toEventRequest s r) None SYSTEM_ACTOR_USER_ID)
           (listPendingEstimateReminderRequests s now limit)"
  using scan_fold [OF listPending_due [OF assms], of now limit 0]
    scan_fold_events [OF listPending_due [OF assms], of now limit 0]
  by (simp_all add: scanAndEmitReminders_def)

text \<open>A marked request is not due again at any time, so no later run lists it.\<close>

lemma listed_iff:
  assumes "unique_ids s" and "r \<in> set (requests s)"
  shows "r \<in> set (listPendingEstimateReminderRequests s now limit)
    \<longleftrightarrow> reminder_due now r \<and> mr_id r \<in> mr_id ` set (listPendingEstimateReminderRequests s now limit)"
proof -
  let ?l = "listPendingEstimateReminderRequests s now limit"
  have sub: "x \<in> set (requests s) \<and> reminder_due now x" if "x \<in> set ?l" for x
    using that by (auto simp: listPendingEstimateReminderRequests_def dest!: in_set_takeD)
  moreover have "x = r" if "x \<in> set ?l" "mr_id x = mr_id r" for x
    using sub [OF that(1)] that(2) assms by (auto simp: unique_ids_def distinct_map inj_on_def)
  ultimately show ?thesis by (auto simp: image_iff)
qed

lemma scan_not_listed_again:
  assumes "unique_ids s"
    and "r' \<in> set (listPendingEstimateReminderRequests (snd (scanAndEmitReminders s now limit)) later limit')"
  shows "mr_id r' \<notin> mr_id ` set (listPendingEstimateReminderRequests s now limit)"
proof
  assume listed: "mr_id r' \<in> mr_id ` set (listPendingEstimateReminderRequests s now limit)"
  from assms(2) have due: "reminder_due later r'"
    and r': "r' \<in> set (requests (snd (scanAndEmitReminders s now limit)))"
    by (auto simp: listPendingEstimateReminderRequests_def dest!: in_set_takeD)
  from r' obtain x where x: "x \<in> set (requests s)" "mr_id x = mr_id r'" "r' = x \<or> r' = upd_reminder now x"
    "reminder_due now x \<Longrightarrow> r' = upd_reminder now x"
    unfolding scan_effect(2) [OF assms(1)] using listed by (auto simp: upd_reminder_def split: if_splits)
  from listed listPending_due(2) [OF assms(1)] have "mr_id x \<in> due_ids now s" unfolding x(2) by blast
  then obtain y where "mr_id x = mr_id y" "y \<in> set (requests s)" "reminder_due now y"
    unfolding due_ids_def by (elim CollectE exE conjE)
  moreover from this(1,2) have "x = y"
    using assms(1) x(1) unfolding unique_ids_def distinct_map by (auto dest: inj_onD)
  ultimately show False using x(4) due by simp
qed

text \<open>When the batch has room for every overdue estimate, none is left.\<close>

lemma scan_complete:
  assumes "unique_ids s" and "length (filter (reminder_due now) (requests s)) \<le> limit"
  shows "filter (reminder_due now) (requests (snd (scanAndEmitReminders s now limit))) = []"
proof -
  have "set (listPendingEstimateReminderRequests s now limit) = set (filter (reminder_due now) (requests s))"
    using assms(2) by (simp add: listPendingEstimateReminderRequests_def)
  then show ?thesis
    unfolding scan_effect(2) [OF assms(1)] by (auto simp: filter_empty_conv)
qed

section \<open>Operations\<close>

datatype resident_op =
  Create create_dto | Edit edit_dto | CancelOwn | CommentOwn string string

datatype staffing_op =
    Assign string | AssignProvider string | RequestEstimate int string | AssignWorker string
  | Unassign | SetStatus req_status

datatype approval_op =
    RequireApproval approval_dto | RequestNow approval_dto | RequestOwner | Resend
  | Override decision_source string | Triage triage_dto | Estimate estimate_dto

datatype desk_op =
    CancelRequest | Comment string string "comment_visibility option" | ReadComments
  | Attach "attachment_dto list"

datatype provider_op =
    ProviderStatus req_status | ProviderComment string string | ProviderRead
  | ProviderAttach "attachment_dto list" | ProviderAssign string | ProviderEstimate estimate_dto

datatype owner_op =
  Approve "string option" | Reject string | OwnerComment string string | OwnerRead

text \<open>
  An operation: the time it runs, the caller, the building of the route where there is one,
  the request id (the generated id for a creation) and what is asked.
\<close>

datatype req_op =
    ByResident int principal string resident_op
  | Staffing int principal string string staffing_op
  | Approval int principal string string approval_op
  | Desk int principal string string desk_op
  | ByProvider int principal string provider_op
  | ByOwner int string string owner_op
  | Remind int maintenance_request

definition next_db :: "('a \<times> db) res \<Rightarrow> db res" where
  "next_db m = andThen m (\<lambda>(x, s'). Inr s')"

fun exec_resident :: "int \<Rightarrow> principal \<Rightarrow> string \<Rightarrow> resident_op \<Rightarrow> db \<Rightarrow> db res" where
  "exec_resident now u rid (Create dto) s = next_db (createResidentRequest s now u rid dto)"
| "exec_resident now u rid (Edit dto) s = next_db (updateResidentRequest s u rid dto)"
| "exec_resident now u rid CancelOwn s = next_db (cancelResidentRequest s now u rid)"
| "exec_resident now u rid (CommentOwn newId msg) s = next_db (addResidentComment s now u rid newId msg)"

fun exec_staffing :: "int \<Rightarrow> principal \<Rightarrow> string \<Rightarrow> string \<Rightarrow> staffing_op \<Rightarrow> db \<Rightarrow> db res" where
  "exec_staffing now u bldg rid (Assign staff) s = next_db (assignRequest s now u bldg rid staff)"
| "exec_staffing now u bldg rid (AssignProvider p) s = next_db (assignProvider s now u bldg rid p)"
| "exec_staffing now u bldg rid (RequestEstimate ttl p) s =
     next_db (requestEstimateFromProvider s ttl now u bldg rid p)"
| "exec_staffing now u bldg rid (AssignWorker w) s = next_db (assignProviderWorker s now u bldg rid w)"
| "exec_staffing now u bldg rid Unassign s = next_db (unassignProvider s u bldg rid)"
| "exec_staffing now u bldg rid (SetStatus st) s = next_db (updateRequestStatus s now u bldg rid st)"

fun exec_approval :: "int \<Rightarrow> principal \<Rightarrow> string \<Rightarrow> string \<Rightarrow> approval_op \<Rightarrow> db \<Rightarrow> db res" where
  "exec_approval now u bldg rid (RequireApproval dto) s = next_db (requireOwnerApproval s u bldg rid dto)"
| "exec_approval now u bldg rid (RequestNow dto) s = next_db (requestOwnerApprovalNow s now u bldg rid dto)"
| "exec_approval now u bldg rid RequestOwner s = next_db (requestOwnerApproval s now u bldg rid)"
| "exec_approval now u bldg rid Resend s = next_db (resendOwnerApprovalRequest s now u bldg rid)"
| "exec_approval now u bldg rid (Override src why) s = next_db (overrideOwnerApproval s now u bldg rid src why)"
| "exec_approval now u bldg rid (Triage dto) s = next_db (updateRequestPolicyTriage s u bldg rid dto)"
| "exec_approval now u bldg rid (Estimate dto) s = next_db (submitRequestEstimate s now u bldg rid dto)"

fun exec_desk :: "int \<Rightarrow> principal \<Rightarrow> string \<Rightarrow> string \<Rightarrow> desk_op \<Rightarrow> db \<Rightarrow> db res" where
  "exec_desk now u bldg rid CancelRequest s = next_db (cancelBuildingRequest s now u bldg rid)"
| "exec_desk now u bldg rid (Comment newId msg vis) s =
     next_db (addBuildingComment s now u bldg rid newId msg vis)"
| "exec_desk now u bldg rid ReadComments s = next_db (listBuildingComments s u bldg rid)"
| "exec_desk now u bldg rid (Attach as) s = next_db (addBuildingAttachments s u bldg rid as)"

fun exec_provider :: "int \<Rightarrow> principal \<Rightarrow> string \<Rightarrow> provider_op \<Rightarrow> db \<Rightarrow> db res" where
  "exec_provider now u rid (ProviderStatus st) s = next_db (updateProviderRequestStatus s now u rid st)"
| "exec_provider now u rid (ProviderComment newId msg) s = next_db (addProviderComment s now u rid newId msg)"
| "exec_provider now u rid ProviderRead s = next_db (listProviderComments s u rid)"
| "exec_provider now u rid (ProviderAttach as) s = next_db (addProviderAttachments s u rid as)"
| "exec_provider now u rid (ProviderAssign w) s = next_db (assignProviderWorkerFromProvider s now u rid w)"
| "exec_provider now u rid (ProviderEstimate dto) s = next_db (submitProviderRequestEstimate s now u rid dto)"

fun exec_owner :: "int \<Rightarrow> string \<Rightarrow> string \<Rightarrow> owner_op \<Rightarrow> db \<Rightarrow> db res" where
  "exec_owner now userId rid (Approve why) s = next_db (approveAccessibleRequest s now userId rid why)"
| "exec_owner now userId rid (Reject why) s = next_db (rejectAccessibleRequest s now userId rid why)"
| "exec_owner now userId rid (OwnerComment newId msg) s =
     next_db (addAccessibleRequestComment s now userId rid newId msg)"
| "exec_owner now userId rid OwnerRead s = next_db (listAccessibleRequestComments s userId rid)"

fun exec_op :: "req_op \<Rightarrow> db \<Rightarrow> db res" where
  "exec_op (ByResident now u rid op) s = exec_resident now u rid op s"
| "exec_op (Staffing now u bldg rid op) s = exec_staffing now u bldg rid op s"
| "exec_op (Approval now u bldg rid op) s = exec_approval now u bldg rid op s"
| "exec_op (Desk now u bldg rid op) s = exec_desk now u bldg rid op s"
| "exec_op (ByProvider now u rid op) s = exec_provider now u rid op s"
| "exec_op (ByOwner now userId rid op) s = exec_owner now userId rid op s"
| "exec_op (Remind now r) s = Inr (snd (remindOne now r (0, s)))"

lemma next_db_Inr: "next_db m = Inr s' \<longleftrightarrow> (\<exists>x. m = Inr (x, s'))"
  by (auto simp: next_db_def)

section \<open>The effect of an operation\<close>

definition creates_row :: "db \<Rightarrow> maintenance_request \<Rightarrow> db \<Rightarrow> bool" where
  "creates_row s r s' \<longleftrightarrow>
     find_by mr_id (mr_id r) (requests s) = None \<and> row_ok r \<and> mr_status r = OPEN
     \<and> mr_ownerApprovalStatus r = NOT_REQUIRED
     \<and> requests s' = requests s @ [r] \<and> approvalAudits s' = approvalAudits s"

definition db_step :: "db \<Rightarrow> db \<Rightarrow> bool" where
  "db_step s s' \<longleftrightarrow>
     keeps_requests s s' \<or> (\<exists>r. creates_row s r s') \<or> (\<exists>r r'. writes_row s r r' s')"

lemma db_stepI:
  "keeps_requests s s' \<Longrightarrow> db_step s s'"
  "creates_row s r s' \<Longrightarrow> db_step s s'"
  "building_write s u bldg rid r' s' \<Longrightarrow> db_step s s'"
  "resident_write s u rid r' s' \<Longrightarrow> db_step s s'"
  "provider_write s u rid r' s' \<Longrightarrow> db_step s s'"
  "owner_write s userId rid r' s' \<Longrightarrow> db_step s s'"
  by (auto simp: db_step_def building_write_def resident_write_def provider_write_def owner_write_def)

lemma create_db_step:
  assumes "createResidentRequest s now u newId dto = Inr (r, s')"
  shows "db_step s s'"
  using assms
  by (rule createResidentRequest_creates) (rule db_stepI(2) [of s r], simp add: creates_row_def)

lemma remindOne_db_step:
  assumes "unique_ids s"
  shows "db_step s (snd (remindOne now r (0, s)))"
proof (cases "\<exists>x \<in> set (requests s). mr_id x = mr_id r \<and> reminder_due now x")
  case False
  then have "filter (\<lambda>x. mr_id x = mr_id r \<and> reminder_due now x) (requests s) = []"
    by (auto simp: filter_empty_conv)
  moreover have "map (\<lambda>x. if mr_id x = mr_id r \<and> reminder_due now x
      then x\<lparr>mr_estimateReminderSentAt := Some now\<rparr> else x) (requests s) = requests s"
    by (rule map_idI) (use False in auto)
  ultimately have "keeps_requests s (snd (remindOne now r (0, s)))"
    by (simp add: remindOne_def markEstimateReminderSentIfPending_def keeps_requests_def)
  then show ?thesis by (rule db_stepI)
next
  case True
  then obtain x where x: "x \<in> set (requests s)" "mr_id x = mr_id r" "reminder_due now x" by auto
  have f: "find_by mr_id (mr_id r) (requests s) = Some x"
    using assms x by (metis find_by_distinct unique_ids_def)
  define s1 where "s1 = snd (markEstimateReminderSentIfPending s (mr_id r) now)"
  have "map (\<lambda>y. if mr_id y = mr_id r \<and> reminder_due now y then upd_reminder now y else y) (requests s)
      = modify_by mr_id (mr_id r) (\<lambda>_. upd_reminder now x) (requests s)"
    unfolding modify_by_def
    using assms f x by (auto simp: unique_ids_def dest!: find_by_distinct [rotated])
  then have "updateById s (mr_id r) (\<lambda>_. upd_reminder now x) = Inr (upd_reminder now x, s1)"
    using f by (simp add: updateById_def s1_def markEstimateReminderSentIfPending_def upd_reminder_def
        cong: if_cong)
  then have "writes_row s x (upd_reminder now x) s1"
    using x by (intro writes_row_update [OF assms f]) (auto intro: request_step.reminder)
  moreover have "\<exists>e. snd (remindOne now r (0, s)) = emitEvent s1 e"
    using True by (auto simp: remindOne_def s1_def markEstimateReminderSentIfPending_def filter_empty_conv)
  ultimately show ?thesis unfolding db_step_def by (metis writes_row_emit)
qed

lemmas handler_effects =
  create_db_step
  db_stepI(1) [OF addResidentComment_keeps]
  db_stepI(1) [OF addBuildingComment_keeps]
  db_stepI(1) [OF listBuildingComments_keeps]
  db_stepI(1) [OF addBuildingAttachments_keeps]
  db_stepI(1) [OF addProviderComment_keeps]
  db_stepI(1) [OF listProviderComments_keeps]
  db_stepI(1) [OF addProviderAttachments_keeps]
  db_stepI(1) [OF addAccessibleRequestComment_keeps]
  db_stepI(1) [OF listAccessibleRequestComments_keeps]
  db_stepI(3) [OF assignRequest_writes, rotated]
  db_stepI(3) [OF assignProvider_writes, rotated]
  db_stepI(3) [OF requestEstimateFromProvider_writes, rotated]
  db_stepI(3) [OF assignProviderWorker_writes, rotated]
  db_stepI(3) [OF unassignProvider_writes, rotated]
  db_stepI(3) [OF updateRequestStatus_writes, rotated]
  db_stepI(3) [OF requireOwnerApproval_writes, rotated]
  db_stepI(3) [OF requestOwnerApprovalNow_writes, rotated]
  db_stepI(3) [OF markOwnerApprovalRequested_writes, rotated]
  db_stepI(3) [OF overrideOwnerApproval_writes, rotated]
  db_stepI(3) [OF updateRequestPolicyTriage_writes, rotated]
  db_stepI(3) [OF submitRequestEstimate_writes, rotated]
  db_stepI(3) [OF cancelBuildingRequest_writes, rotated]
  db_stepI(4) [OF updateResidentRequest_writes, rotated]
  db_stepI(4) [OF cancelResidentRequest_writes, rotated]
  db_stepI(5) [OF updateProviderRequestStatus_writes, rotated]
  db_stepI(5) [OF assignProviderWorkerFromProvider_writes, rotated]
  db_stepI(5) [OF submitProviderRequestEstimate_writes, rotated]
  db_stepI(6) [OF approveAccessibleRequest_writes, rotated]
  db_stepI(6) [OF rejectAccessibleRequest_writes, rotated]

lemma exec_resident_db_step:
  "unique_ids s \<Longrightarrow> exec_resident now u rid op s = Inr s' \<Longrightarrow> db_step s s'"
  by (cases op) (auto simp: next_db_Inr dest: handler_effects)

lemma exec_staffing_db_step:
  "unique_ids s \<Longrightarrow> exec_staffing now u bldg rid op s = Inr s' \<Longrightarrow> db_step s s'"
  by (cases op) (auto simp: next_db_Inr dest: handler_effects)

lemma exec_approval_db_step:
  "unique_ids s \<Longrightarrow> exec_approval now u bldg rid op s = Inr s' \<Longrightarrow> db_step s s'"
  by (cases op) (auto simp: next_db_Inr requestOwnerApproval_def resendOwnerApprovalRequest_def dest: handler_effects)

lemma exec_desk_db_step:
  "unique_ids s \<Longrightarrow> exec_desk now u bldg rid op s = Inr s' \<Longrightarrow> db_step s s'"
  by (cases op) (auto simp: next_db_Inr dest: handler_effects)

lemma exec_provider_db_step:
  "unique_ids s \<Longrightarrow> exec_provider now u rid op s = Inr s' \<Longrightarrow> db_step s s'"
  by (cases op) (auto simp: next_db_Inr dest: handler_effects)

lemma exec_owner_db_step:
  "unique_ids s \<Longrightarrow> exec_owner now userId rid op s = Inr s' \<Longrightarrow> db_step s s'"
  by (cases op) (auto simp: next_db_Inr dest: handler_effects)

lemma exec_db_step:
  assumes "unique_ids s" and "exec_op op s = Inr s'"
  shows "db_step s s'"
  using assms
  by (cases op)
    (auto simp: remindOne_db_step dest: exec_resident_db_step exec_staffing_db_step
      exec_approval_db_step exec_desk_db_step exec_provider_db_step exec_owner_db_step)

section \<open>Invariant and history\<close>

text \<open>An approval status other than NOT\_REQUIRED is backed by an audit row.\<close>

definition audited :: "db \<Rightarrow> maintenance_request \<Rightarrow> bool" where
  "audited s r \<longleftrightarrow>
     (mr_ownerApprovalStatus r \<noteq> NOT_REQUIRED \<longrightarrow>
        (\<exists>a \<in> set (approvalAudits s).
           au_requestId a = mr_id r \<and> au_toStatus a = mr_ownerApprovalStatus r))"

definition req_inv :: "db \<Rightarrow> bool" where
  "req_inv s \<longleftrightarrow> unique_ids s \<and> (\<forall>r \<in> set (requests s). row_ok r \<and> audited s r)"

text \<open>
  What the past fixes: every request of the earlier state is still there, it is the same
  request of the same organisation, building, unit and creator, its life went on along the
  abstract machine, if it was closed nothing but an approval decision was written to it, and no
  audit row was lost.
\<close>

definition successor :: "maintenance_request \<Rightarrow> maintenance_request \<Rightarrow> bool" where
  "successor r r' \<longleftrightarrow>
     row_identity r' = row_identity r \<and> lifecycle\<^sup>*\<^sup>* (abs_req r) (abs_req r')
     \<and> (mr_status r \<in> {COMPLETED, CANCELED} \<longrightarrow> without_decision r' = without_decision r)"

definition history :: "db \<Rightarrow> db \<Rightarrow> bool" where
  "history s s' \<longleftrightarrow>
     prefix (approvalAudits s) (approvalAudits s')
     \<and> (\<forall>r \<in> set (requests s). \<exists>r' \<in> set (requests s'). successor r r')"

lemma successor_refl [simp]: "successor r r"
  by (simp add: successor_def)

lemma same_successor: "r \<in> A \<Longrightarrow> \<exists>r' \<in> A. successor r r'"
  by (rule bexI [of _ r]) simp_all

lemma successor_trans: "successor r x \<Longrightarrow> successor x y \<Longrightarrow> successor r y"
  unfolding successor_def using without_decision_fields(1) [of x r] by (auto intro: rtranclp_trans)

lemma step_successor: "request_step r r' \<Longrightarrow> row_ok r \<Longrightarrow> successor r r'"
  unfolding successor_def using step_identity step_refines step_closed by blast

lemma writes_row_rows:
  assumes "writes_row s r r' s'"
  shows "requests s' = modify_by mr_id (mr_id r) (\<lambda>_. r') (requests s)"
    and "request_step r r'" and "r \<in> set (requests s)"
    and "prefix (approvalAudits s) (approvalAudits s')"
  using assms by (auto simp: writes_row_def prefix_def dest: find_by_SomeD)

lemma writes_row_unique:
  assumes "writes_row s r r' s'" and "unique_ids s"
  shows "unique_ids s'"
proof -
  have "map mr_id (modify_by mr_id (mr_id r) (\<lambda>_. r') (requests s)) = map mr_id (requests s)"
    using step_id [OF writes_row_rows(2) [OF assms(1)]] by (simp add: modify_by_def)
  with assms show ?thesis by (simp add: unique_ids_def writes_row_rows(1) [OF assms(1)])
qed

lemma audited_mono:
  "audited s x \<Longrightarrow> prefix (approvalAudits s) (approvalAudits s') \<Longrightarrow> audited s' x"
  by (auto simp: audited_def dest: set_mono_prefix)

lemma writes_row_audited_row:
  assumes "writes_row s r r' s'" and "audited s r"
  shows "audited s' r'"
proof -
  have id: "mr_id r' = mr_id r" using step_id [OF writes_row_rows(2) [OF assms(1)]] .
  show ?thesis
  proof (cases "mr_ownerApprovalStatus r' = mr_ownerApprovalStatus r")
    case True
    with audited_mono [OF assms(2) writes_row_rows(4) [OF assms(1)]] id show ?thesis
      by (simp add: audited_def)
  next
    case False
    with assms(1) id show ?thesis
      by (fastforce simp: writes_row_def audits_change_def audited_def)
  qed
qed

lemma db_step_inv:
  assumes "db_step s s'" and "req_inv s"
  shows "req_inv s'"
  using assms(1) unfolding db_step_def
proof (elim disjE exE)
  assume "keeps_requests s s'"
  then show ?thesis using assms(2) by (simp add: keeps_requests_def req_inv_def unique_ids_def audited_def)
next
  fix r assume "creates_row s r s'"
  then show ?thesis using assms(2)
    by (auto simp: creates_row_def req_inv_def unique_ids_def audited_def find_by_None_iff)
next
  fix r r' assume w: "writes_row s r r' s'"
  have "row_ok x \<and> audited s' x" if "x \<in> set (requests s')" for x
  proof -
    from that have "x = r' \<or> x \<in> set (requests s)"
      by (auto simp: writes_row_rows(1) [OF w] request_table.set_modify split: if_splits)
    then show ?thesis
      using assms(2) writes_row_rows(2,3) [OF w] writes_row_audited_row [OF w]
        audited_mono [OF _ writes_row_rows(4) [OF w]] step_row_ok
      by (auto simp: req_inv_def)
  qed
  then show ?thesis using assms(2) writes_row_unique [OF w] by (simp add: req_inv_def)
qed

lemma db_step_history:
  assumes "db_step s s'" and "req_inv s"
  shows "history s s'"
  using assms(1) unfolding db_step_def
proof (elim disjE exE)
  assume "keeps_requests s s'"
  then show ?thesis by (auto intro: same_successor simp: keeps_requests_def history_def)
next
  fix r assume "creates_row s r s'"
  then show ?thesis by (auto intro: same_successor simp: creates_row_def history_def)
next
  fix r r' assume w: "writes_row s r r' s'"
  have "\<exists>x' \<in> set (requests s'). successor x x'"
    if x: "x \<in> set (requests s)" for x
  proof (cases "mr_id x = mr_id r")
    case True
    have "find_by mr_id (mr_id x) (requests s) = Some x"
      by (rule find_by_distinct [OF _ x]) (use assms(2) in \<open>simp add: req_inv_def unique_ids_def\<close>)
    moreover have "find_by mr_id (mr_id r) (requests s) = Some r" using w by (simp add: writes_row_def)
    ultimately have "Some x = Some r" unfolding True by (rule trans [OF sym])
    then have "x = r" by (rule option.inject [THEN iffD1])
    moreover have "r' \<in> set (requests s')"
      unfolding writes_row_rows(1) [OF w] request_table.set_modify
      by (rule image_eqI [OF _ writes_row_rows(3) [OF w]]) simp
    moreover have "row_ok r" using assms(2) writes_row_rows(3) [OF w] by (simp add: req_inv_def)
    note step_successor [OF writes_row_rows(2) [OF w] this]
    ultimately show ?thesis by blast
  next
    case False
    have "x \<in> set (requests s')"
      unfolding writes_row_rows(1) [OF w] request_table.set_modify
      by (rule image_eqI [OF _ x]) (simp add: False)
    then show ?thesis by (rule same_successor)
  qed
  then show ?thesis using writes_row_rows(4) [OF w] by (simp add: history_def)
qed

lemma history_trans:
  assumes "history s t" and "history t v"
  shows "history s v"
proof -
  have "\<exists>y \<in> set (requests v). successor r y" if "r \<in> set (requests s)" for r
    using assms that unfolding history_def by (blast intro: successor_trans)
  moreover have "prefix (approvalAudits s) (approvalAudits v)"
    using assms unfolding history_def by (blast intro: prefix_order.trans)
  ultimately show ?thesis by (simp add: history_def)
qed

lemma req_inv_unique: "req_inv s \<Longrightarrow> unique_ids s"
  by (simp add: req_inv_def)

interpretation request_system: guarded_system exec_op req_inv history
proof
  show "req_inv s \<Longrightarrow> exec_op op s = Inr s' \<Longrightarrow> req_inv s'" for s op s'
    by (blast intro: db_step_inv exec_db_step req_inv_unique)
  show "req_inv s \<Longrightarrow> exec_op op s = Inr s' \<Longrightarrow> history s s'" for s op s'
    by (blast intro: db_step_history exec_db_step req_inv_unique)
  show "history s s" for s by (auto intro: same_successor simp: history_def)
  show "history s t \<Longrightarrow> history t v \<Longrightarrow> history s v" for s t v by (rule history_trans)
qed

section \<open>Rows across an operation\<close>

lemma unique_row:
  assumes "unique_ids s" and "x \<in> set (requests s)" and "y \<in> set (requests s)" and "mr_id x = mr_id y"
  shows "x = y"
  using assms by (auto simp: unique_ids_def distinct_map inj_on_def)

lemma writes_row_result:
  assumes "unique_ids s" and "writes_row s r r' s'" and "y \<in> set (requests s')"
  shows "y = r' \<or> y \<in> set (requests s) \<and> mr_id y \<noteq> mr_id r"
  using assms(3) by (auto simp: writes_row_rows(1) [OF assms(2)] request_table.set_modify split: if_splits)

lemma writes_row_changed:
  assumes "unique_ids s" and "writes_row s r r' s'" and "x \<in> set (requests s)" and "x \<notin> set (requests s')"
  shows "x = r"
proof (rule ccontr)
  assume "x \<noteq> r"
  with assms have ne: "mr_id x \<noteq> mr_id r"
    using unique_row [OF assms(1,3) writes_row_rows(3) [OF assms(2)]] by blast
  have "x \<in> set (requests s')"
    unfolding writes_row_rows(1) [OF assms(2)] request_table.set_modify
    by (rule image_eqI [OF _ assms(3)]) (simp add: ne)
  with assms(4) show False by simp
qed

text \<open>Between two states of one operation a row is unchanged or made one step.\<close>

lemma db_step_row:
  assumes "unique_ids s" and "db_step s s'" and "x \<in> set (requests s)" and "y \<in> set (requests s')"
    and "mr_id y = mr_id x"
  shows "y = x \<or> request_step x y"
  using assms(2) unfolding db_step_def
proof (elim disjE exE)
  assume "keeps_requests s s'"
  then show ?thesis using assms unique_row [OF assms(1)] by (auto simp: keeps_requests_def)
next
  fix r assume c: "creates_row s r s'"
  then have "mr_id r \<noteq> mr_id x" using assms(3) by (auto simp: creates_row_def find_by_None_iff)
  with c have "y \<in> set (requests s)" using assms(4,5) by (auto simp: creates_row_def)
  then show ?thesis using unique_row [OF assms(1) _ assms(3)] assms(5) by blast
next
  fix r r' assume w: "writes_row s r r' s'"
  note step = writes_row_rows(2) [OF w]
  from writes_row_result [OF assms(1) w assms(4)] show ?thesis
  proof (elim disjE conjE)
    assume "y = r'"
    moreover from this have "r = x"
      using assms(5) step_id [OF step] unique_row [OF assms(1) writes_row_rows(3) [OF w] assms(3)] by simp
    ultimately show ?thesis using step by simp
  next
    assume "y \<in> set (requests s)"
    then show ?thesis using unique_row [OF assms(1) _ assms(3)] assms(5) by blast
  qed
qed

section \<open>Who may change which row\<close>

lemma exec_staffing_scope:
  assumes "unique_ids s" and "exec_staffing now u bldg rid op s = Inr s'"
  shows "\<exists>r'. building_write s u bldg rid r' s'"
  using assms
  by (cases op) (auto simp: next_db_Inr dest: assignRequest_writes assignProvider_writes
      requestEstimateFromProvider_writes assignProviderWorker_writes unassignProvider_writes
      updateRequestStatus_writes)

lemma exec_approval_scope:
  assumes "unique_ids s" and "exec_approval now u bldg rid op s = Inr s'"
  shows "\<exists>r'. building_write s u bldg rid r' s'"
  using assms
  by (cases op) (auto simp: next_db_Inr requestOwnerApproval_def resendOwnerApprovalRequest_def
      dest: requireOwnerApproval_writes requestOwnerApprovalNow_writes
      markOwnerApprovalRequested_writes overrideOwnerApproval_writes
      updateRequestPolicyTriage_writes submitRequestEstimate_writes)

lemma exec_desk_scope:
  assumes "unique_ids s" and "exec_desk now u bldg rid op s = Inr s'"
  shows "keeps_requests s s' \<or> (\<exists>r'. building_write s u bldg rid r' s')"
  using assms
  by (cases op) (auto simp: next_db_Inr dest: cancelBuildingRequest_writes addBuildingComment_keeps
      listBuildingComments_keeps addBuildingAttachments_keeps)

lemma exec_provider_scope:
  assumes "unique_ids s" and "exec_provider now u rid op s = Inr s'"
  shows "keeps_requests s s' \<or> (\<exists>r'. provider_write s u rid r' s')"
  using assms
  by (cases op) (auto simp: next_db_Inr dest: updateProviderRequestStatus_writes
      assignProviderWorkerFromProvider_writes submitProviderRequestEstimate_writes
      addProviderComment_keeps listProviderComments_keeps addProviderAttachments_keeps)

lemma exec_owner_scope:
  assumes "unique_ids s" and "exec_owner now userId rid op s = Inr s'"
  shows "keeps_requests s s' \<or> (\<exists>r'. owner_write s userId rid r' s')"
  using assms
  by (cases op) (auto simp: next_db_Inr dest: approveAccessibleRequest_writes
      rejectAccessibleRequest_writes addAccessibleRequestComment_keeps
      listAccessibleRequestComments_keeps)

lemma exec_resident_scope:
  assumes "unique_ids s" and "exec_resident now u rid op s = Inr s'" and "\<nexists>dto. op = Create dto"
  shows "keeps_requests s s' \<or> (\<exists>r'. resident_write s u rid r' s')"
  using assms
  by (cases op) (auto simp: next_db_Inr dest: updateResidentRequest_writes
      cancelResidentRequest_writes addResidentComment_keeps)

lemma building_write_changed:
  assumes "unique_ids s" and "building_write s u bldg rid r' s'" and "x \<in> set (requests s)"
    and "x \<notin> set (requests s')"
  shows "mr_id x = rid \<and> building_scope s u bldg x"
  using assms writes_row_changed [OF assms(1) _ assms(3,4)] by (auto simp: building_write_def)

text \<open>What an owner's decision leaves in the table.\<close>

lemma commitOwnerDecision_row:
  assumes "unique_ids s" and "find_by mr_id rid (requests s) = Some r"
    and "commitOwnerDecision s now userId rid acc dec action name why = Inr (r', s')"
  shows "r' = upd_ownerDecision dec why userId now r \<and> r' \<in> set (requests s')"
proof -
  from assms(3) obtain s1 where upd: "updateById s rid (upd_ownerDecision dec why userId now) = Inr (r', s1)"
    and s': "requests s' = requests s1"
    by (auto simp: commitOwnerDecision_def Let_def emitEvent_def createOwnerApprovalAudit_def)
  have r: "r \<in> set (requests s)" "mr_id r = rid" using assms(2) by (auto dest: find_by_SomeD)
  from updateById_Inr [OF assms(1) upd assms(2)]
  have "r' = upd_ownerDecision dec why userId now r"
    and "requests s1 = modify_by mr_id rid (\<lambda>_. r') (requests s)" by simp_all
  with r s' show ?thesis
    by (auto simp: request_table.set_modify intro!: image_eqI [of _ _ r])
qed

lemma ownerDecision_result:
  assumes "unique_ids s" and "x \<in> set (requests s)" and "x \<notin> set (requests s')"
    and "approveAccessibleRequest s now userId rid why = Inr (r', s')
         \<or> rejectAccessibleRequest s now userId rid why' = Inr (r', s')"
  shows "mr_id x = rid \<and> mr_ownerApprovalStatus x = PENDING
     \<and> (\<exists>i. mr_unitId x = Some i \<and> owns_unit s userId i)
     \<and> (\<exists>y \<in> set (requests s'). request_step x y \<and> mr_ownerApprovalStatus y \<in> {APPROVED, REJECTED}
          \<and> mr_ownerApprovalDecidedByOwnerUserId y = Some userId
          \<and> mr_status y = mr_status x \<and> executor_of y = executor_of x)"
proof -
  from assms(4) obtain acc dec action name why'' where
    acc: "pendingAccessible s userId rid = Inr acc" and dec: "dec = APPROVED \<or> dec = REJECTED"
    and com: "commitOwnerDecision s now userId rid acc dec action name why'' = Inr (r', s')"
    unfolding approveAccessibleRequest_def rejectAccessibleRequest_def andThen_Inr by blast
  from ownerDecision_writes [OF assms(1) acc com dec] obtain r where
    r: "mr_id r = rid" "owner_scope s userId r" "mr_ownerApprovalStatus r = PENDING"
    and w: "writes_row s r r' s'" by (auto simp: owner_write_def)
  have x: "x = r" by (rule writes_row_changed [OF assms(1) w assms(2,3)])
  have "find_by mr_id rid (requests s) = Some r" using w r(1) by (auto simp: writes_row_def)
  note row = commitOwnerDecision_row [OF assms(1) this com]
  have "mr_ownerApprovalDecidedByOwnerUserId r' = Some userId"
    using row by (simp add: upd_ownerDecision_def)
  with row x r dec writes_row_rows(2) [OF w] show ?thesis
    by (auto simp: owner_scope_def intro!: bexI [of _ r'])
qed

end
