(* ===== verification/Fixture.thy ===== *)
theory Fixture
  imports RequestMachine
begin

text \<open>
  A small database for the concrete instances of the theorems: one organisation with one
  building and one unit, a manager, a member of staff, a resident, the owner of the unit and
  a service provider with one admin. Nothing here models code.
\<close>

definition fx_account :: "string \<Rightarrow> string option \<Rightarrow> user_row" where
  "fx_account i org =
     \<lparr>us_id = i, us_email = i @ ''@x'', us_orgId = org, us_isActive = True, us_name = None, us_avatarUrl = None,
      us_phone = None, us_passwordHash = [], us_refreshTokenHash = None, us_mustChangePassword = False,
      us_createdAt = 1\<rparr>"

definition fx_users :: "user_row list" where
  "fx_users =
     [fx_account ''mgr'' (Some ''o1''), fx_account ''stf'' (Some ''o1''), fx_account ''res'' (Some ''o1''),
      fx_account ''own'' None, fx_account ''pro'' None]"

definition fx_permissions :: "permission_row list" where
  "fx_permissions =
     [\<lparr>pm_id = ''p1'', pm_key = ''requests.read''\<rparr>,
      \<lparr>pm_id = ''p2'', pm_key = ''requests.comment''\<rparr>,
      \<lparr>pm_id = ''p3'', pm_key = ''requests.update_status''\<rparr>,
      \<lparr>pm_id = ''p4'', pm_key = ''requests.assign''\<rparr>,
      \<lparr>pm_id = ''p5'', pm_key = ''requests.owner_approval_override''\<rparr>]"

definition fx_roles :: "role_template list" where
  "fx_roles =
     [\<lparr>rt_id = ''rm'', rt_orgId = Some ''o1'', rt_key = ''building_manager'', rt_name = ''Manager'',
       rt_description = None, rt_isSystem = True, rt_scopeType = SC_BUILDING\<rparr>,
      \<lparr>rt_id = ''rs'', rt_orgId = Some ''o1'', rt_key = ''building_staff'', rt_name = ''Staff'',
       rt_description = None, rt_isSystem = True, rt_scopeType = SC_BUILDING\<rparr>]"

definition fx_rolePermissions :: "role_permission list" where
  "fx_rolePermissions =
     [\<lparr>rp_roleTemplateId = ''rm'', rp_permissionId = ''p4''\<rparr>,
      \<lparr>rp_roleTemplateId = ''rm'', rp_permissionId = ''p5''\<rparr>,
      \<lparr>rp_roleTemplateId = ''rs'', rp_permissionId = ''p1''\<rparr>,
      \<lparr>rp_roleTemplateId = ''rs'', rp_permissionId = ''p2''\<rparr>,
      \<lparr>rp_roleTemplateId = ''rs'', rp_permissionId = ''p3''\<rparr>]"

definition fx_assignments :: "access_assignment list" where
  "fx_assignments =
     [\<lparr>ua_id = ''a1'', ua_userId = ''mgr'', ua_roleTemplateId = ''rm'', ua_scopeType = SC_BUILDING,
       ua_scopeId = Some ''b1'', ua_createdAt = 1\<rparr>,
      \<lparr>ua_id = ''a2'', ua_userId = ''stf'', ua_roleTemplateId = ''rs'', ua_scopeType = SC_BUILDING,
       ua_scopeId = Some ''b1'', ua_createdAt = 2\<rparr>]"

definition fx_occupancy :: occupancy_row where
  "fx_occupancy =
     \<lparr>oc_id = ''c1'', oc_buildingId = ''b1'', oc_unitId = ''n1'', oc_residentUserId = ''res'',
      oc_status = OC_ACTIVE, oc_startAt = 1, oc_createdAt = 1, oc_endAt = None, oc_lease = None\<rparr>"

text \<open>The database before any request exists.\<close>

definition fx_grant :: owner_grant where
  "fx_grant =
     \<lparr> og_id = ''g1'', og_ownerId = ''w1'', og_userId = Some ''own'', og_status = GR_ACTIVE, og_inviteEmail = None,
       og_invitedAt = None, og_acceptedAt = Some 1, og_grantedByUserId = Some ''mgr'', og_disabledAt = None,
       og_disabledByUserId = None, og_verificationMethod = Some ''ADMIN_LINK'', og_createdAt = 1 \<rparr>"

definition fx0 :: db where
  "fx0 =
     \<lparr> users = fx_users, buildings = [\<lparr>bd_id = ''b1'', bd_orgId = ''o1'', bd_name = ''B'', bd_city = ''D'', bd_createdAt = 1\<rparr>],
       units = [\<lparr>un_id = ''n1'', un_buildingId = ''b1'', un_label = ''A'', un_ownerId = None,
                 un_unitTypeId = None, un_status = AVAILABLE, un_details = no_details, un_createdAt = 1\<rparr>],
       permissions = fx_permissions, roleTemplates = fx_roles, rolePermissions = fx_rolePermissions,
       accessAssignments = fx_assignments, userPermissions = [], occupancies = [fx_occupancy],
       serviceProviders = [\<lparr>sp_id = ''sp'', sp_isActive = True\<rparr>],
       providerBuildings = [\<lparr>sb_serviceProviderId = ''sp'', sb_buildingId = ''b1''\<rparr>],
       providerUsers = [\<lparr>su_serviceProviderId = ''sp'', su_userId = ''pro'', su_role = PROVIDER_ADMIN,
                         su_isActive = True\<rparr>],
       providerGrants = [], owners = [\<lparr>ow_id = ''w1'', ow_orgId = ''o1'', ow_name = ''Olga'', ow_isActive = True\<rparr>],
       ownerGrants = [fx_grant],
       unitOwnerships = [\<lparr>uo_orgId = ''o1'', uo_unitId = ''n1'', uo_ownerId = ''w1'', uo_endDate = None,
                          uo_id = ''h1'', uo_startDate = 1, uo_isPrimary = Some True, uo_createdAt = 1\<rparr>],
       requests = [], comments = [], commentReadStates = [], ownerReadStates = [], attachments = [],
       approvalAudits = [], eventLog = [] \<rparr>"

definition fx_user :: "string \<Rightarrow> principal" where
  "fx_user i = Some \<lparr> sub = i, orgId = Some ''o1'' \<rparr>"

definition fx_create :: create_dto where
  "fx_create = \<lparr> cd_title = ''Tap'', cd_description = None, cd_type = Some ''CLEANING'',
     cd_priority = None, cd_isEmergency = None, cd_emergencySignals = None, cd_attachments = None \<rparr>"

definition fx_row :: maintenance_request where
  "fx_row = new_request ''q1'' 10 ''o1'' ''res'' fx_occupancy fx_create"

definition fx_approval :: approval_dto where
  "fx_approval = \<lparr> ad_triage = \<lparr> td_estimatedAmount = None, td_estimatedCurrency = None,
       td_isEmergency = None, td_isLikeForLike = None, td_isUpgrade = None,
       td_isMajorReplacement = None, td_isResponsibilityDisputed = None \<rparr>,
     ad_approvalRequiredReason = ''cost'', ad_ownerApprovalDeadlineAt = Some 50 \<rparr>"

text \<open>The database with one open request, one waiting for its owner, one completed.\<close>

definition fx1 :: db where
  "fx1 = fx0\<lparr>requests := [fx_row]\<rparr>"

definition fx_pending :: maintenance_request where
  "fx_pending = upd_requestApprovalNow
     (projr (buildPolicyTriageUpdateData (ad_triage fx_approval) fx_row None)) ''cost'' (Some 50) ''mgr'' 20 fx_row"

definition fx2 :: db where
  "fx2 = fx0\<lparr>requests := [fx_pending],
     approvalAudits := [\<lparr> au_requestId = ''q1'', au_orgId = ''o1'', au_actorUserId = ''mgr'',
       au_action = AA_REQUIRED, au_fromStatus = Some NOT_REQUIRED, au_toStatus = PENDING,
       au_decisionSource = None, au_reason = Some ''cost'' \<rparr>]\<rparr>"

lemmas fx_defs = fx0_def fx1_def fx2_def fx_users_def fx_account_def fx_permissions_def fx_roles_def
  fx_rolePermissions_def fx_assignments_def fx_occupancy_def fx_user_def fx_create_def fx_row_def
  fx_approval_def fx_pending_def

lemma fx_rows_ok [simp]: "row_ok fx_row" "row_ok fx_pending"
proof -
  show "row_ok fx_row" by (simp add: fx_row_def)
  then show "row_ok fx_pending"
    unfolding fx_pending_def by (rule row_ok_approval) (simp add: fx_row_def new_request_def Let_def)
qed

lemma fx_pending_fields:
  "mr_ownerApprovalStatus fx_pending = PENDING" "mr_id fx_pending = ''q1''"
  by (simp_all add: fx_pending_def upd_requestApprovalNow_def apply_triage_def fx_row_def)

lemma fx_inv [simp]: "req_inv fx0" "req_inv fx1" "req_inv fx2"
  by (simp_all add: req_inv_def unique_ids_def audited_def fx0_def fx1_def fx2_def fx_pending_fields)
    (simp_all add: fx_row_def)

lemma fx_unique [simp]: "unique_ids fx0" "unique_ids fx1" "unique_ids fx2"
  by (simp_all add: req_inv_unique)

lemma fx_requests [simp]: "requests fx0 = []" "requests fx1 = [fx_row]" "requests fx2 = [fx_pending]"
  by (simp_all add: fx0_def fx1_def fx2_def)

lemma fx_row_fields:
  "mr_id fx_row = ''q1''" "mr_status fx_row = OPEN" "mr_orgId fx_row = ''o1''"
  "mr_buildingId fx_row = ''b1''" "mr_createdByUserId fx_row = ''res''"
  by (simp_all add: fx_row_def) (simp add: new_request_def fx_occupancy_def Let_def)

text \<open>An operation that returns, seen through some view of its result.\<close>

lemma returns:
  assumes "map_sum id f m = Inr v"
  obtains y where "m = Inr y" and "f y = v"
  using assms by (cases m) auto

end
