(* ===== verification/RequestTheorems.thy ===== *)
theory RequestTheorems
  imports Fixture
begin

text \<open>
  Theorems about single handlers of the request workflow: what each returns on which branch.
  The concrete instances run on the database of theory Fixture.
\<close>

lemma toEventRequest_frame [simp]:
  "toEventRequest (s\<lparr>requests := rs\<rparr>) r = toEventRequest s r"
  "toEventRequest (s\<lparr>approvalAudits := as\<rparr>) r = toEventRequest s r"
  by (simp_all add: toEventRequest_def cong: option.case_cong)

section \<open>Building staff\<close>

text \<open>The caller has building access but may not assign requests.\<close>

definition staff_only :: "db \<Rightarrow> principal \<Rightarrow> string \<Rightarrow> bool" where
  "staff_only s u bldg \<longleftrightarrow>
     (\<exists>org userId. user_org u = Some org \<and> user_sub u = Some userId
        \<and> ac_isBuildingStaffOnly (getBuildingAccessContext s userId org bldg))"

lemma managerActor_not_staff:
  "managerActor s u bldg msg = Inr (org, userId) \<Longrightarrow> \<not> staff_only s u bldg"
  by (auto simp: managerActor_Inr buildingActor_Inr staff_only_def)

lemma staff_status:
  assumes "staff_only s u bldg" and "updateRequestStatus s now u bldg rid st = Inr (r', s')"
  shows "\<exists>r \<in> set (requests s). mr_id r = rid \<and> mr_assignedToUserId r = user_sub u"
proof -
  from assms obtain org r where "findByIdForBuilding s org bldg rid = Some r"
    and "mr_assignedToUserId r = user_sub u"
    by (auto simp: updateRequestStatus_def buildingActor_Inr staff_only_def loadBuildingRequest_def)
  then show ?thesis unfolding findByIdForBuilding_def by (auto dest: find_SomeD)
qed

lemma staff_staffing:
  assumes "staff_only s u bldg" and "exec_staffing now u bldg rid op s = Inr s'"
  shows "\<exists>st. op = SetStatus st"
  using assms
  by (cases op) (auto simp: next_db_Inr assignRequest_def assignProvider_def
      requestEstimateFromProvider_def assignProviderWorker_def unassignProvider_def
      dest: managerActor_not_staff)

lemma staff_approval:
  assumes "staff_only s u bldg" and "exec_approval now u bldg rid op s = Inr s'"
  shows "\<exists>src why. op = Override src why"
  using assms
  by (cases op) (auto simp: next_db_Inr requireOwnerApproval_def requestOwnerApprovalNow_def
      requestOwnerApproval_def resendOwnerApprovalRequest_def markOwnerApprovalRequested_def
      updateRequestPolicyTriage_def submitRequestEstimate_def dest: managerActor_not_staff)

definition may_override :: "db \<Rightarrow> principal \<Rightarrow> string \<Rightarrow> bool" where
  "may_override s u bldg \<longleftrightarrow>
     (\<exists>org userId. user_org u = Some org \<and> user_sub u = Some userId
        \<and> ''requests.owner_approval_override''
            \<in> getUserEffectivePermissions s userId (Some org) (Some bldg) False)"

lemma override_allowed:
  assumes "overrideOwnerApproval s now u bldg rid src why = Inr (r', s')"
  shows "may_override s u bldg
     \<and> (\<exists>r \<in> set (requests s). mr_id r = rid \<and> mr_ownerApprovalStatus r = PENDING)"
proof -
  from assms obtain org userId r where "user_org u = Some org" "user_sub u = Some userId"
    "assertOverridePermission s userId org bldg = Inr ()" "loadBuildingRequest s org bldg rid = Inr r"
    "mr_ownerApprovalStatus r = PENDING"
    unfolding overrideOwnerApproval_def by (auto simp: actor_simps)
  then show ?thesis
    by (auto simp: may_override_def assertOverridePermission_def loadBuildingRequest_def
        REQUEST_OWNER_APPROVAL_OVERRIDE_PERMISSION_def findByIdForBuilding_def
        dest: find_SomeD split: if_splits)
qed

text \<open>
  C9. Building staff cannot manage: a caller with building access but without the assign
  permission gets through no staffing, approval or cancellation operation, with two exceptions:
  a status change of a request assigned to that caller, and the override of a pending approval
  when the caller holds the permission of overrides in that building.
\<close>

theorem building_staff_cannot_manage:
  assumes "staff_only s u bldg" and "exec_op op s = Inr s'"
    and "op \<in> {Staffing now u bldg rid so, Approval now u bldg rid ao, Desk now u bldg rid CancelRequest}"
  shows "(\<exists>st. op = Staffing now u bldg rid (SetStatus st)
            \<and> (\<exists>r \<in> set (requests s). mr_id r = rid \<and> mr_assignedToUserId r = user_sub u))
       \<or> (\<exists>src why. op = Approval now u bldg rid (Override src why) \<and> may_override s u bldg
            \<and> (\<exists>r \<in> set (requests s). mr_id r = rid \<and> mr_ownerApprovalStatus r = PENDING))"
proof -
  have "\<exists>src why. ao = Override src why \<and> may_override s u bldg
          \<and> (\<exists>r \<in> set (requests s). mr_id r = rid \<and> mr_ownerApprovalStatus r = PENDING)"
    if "exec_approval now u bldg rid ao s = Inr s'"
    using staff_approval [OF assms(1) that] that override_allowed by (auto simp: next_db_Inr)
  moreover have "exec_desk now u bldg rid CancelRequest s \<noteq> Inr s'"
    using assms(1) by (auto simp: next_db_Inr cancelBuildingRequest_def buildingActor_Inr staff_only_def)
  moreover have "\<exists>st. so = SetStatus st \<and> (\<exists>r \<in> set (requests s). mr_id r = rid \<and> mr_assignedToUserId r = user_sub u)"
    if so: "exec_staffing now u bldg rid so s = Inr s'"
    using staff_staffing [OF assms(1) so] so staff_status [OF assms(1)] by (auto simp: next_db_Inr)
  ultimately show ?thesis using assms(2,3) by auto
qed

lemma fx_staff_only: "staff_only fx0 (fx_user ''stf'') ''b1''"
proof -
  have "ac_isBuildingStaffOnly (getBuildingAccessContext fx0 ''stf'' ''o1'' ''b1'')" by code_simp
  then show ?thesis by (auto simp: staff_only_def fx_user_def user_org_def user_sub_def)
qed

theorem building_staff_cannot_manage_witness:
  "\<exists>r \<in> set [upd_assignStaff ''stf'' 15 fx_row]. mr_id r = ''q1'' \<and> mr_assignedToUserId r = Some ''stf''"
proof -
  let ?s = "fx0\<lparr>requests := [upd_assignStaff ''stf'' 15 fx_row]\<rparr>"
  let ?op = "Staffing 20 (fx_user ''stf'') ''b1'' ''q1'' (SetStatus IN_PROGRESS)"
  have "map_sum id (\<lambda>s'. map mr_status (requests s')) (exec_op ?op ?s) = Inr [IN_PROGRESS]" by code_simp
  then obtain s' where w: "exec_op ?op ?s = Inr s'" by (rule returns)
  have "ac_isBuildingStaffOnly (getBuildingAccessContext ?s ''stf'' ''o1'' ''b1'')" by code_simp
  then have "staff_only ?s (fx_user ''stf'') ''b1''"
    by (auto simp: staff_only_def fx_user_def user_org_def user_sub_def)
  from building_staff_cannot_manage [OF this w, of 20 "''q1''" "SetStatus IN_PROGRESS" Resend]
  show ?thesis by (auto simp: fx_user_def user_sub_def)
qed

section \<open>Assignment\<close>

text \<open>
  Assigning to staff: the request ends up assigned to one active user of the
  organisation who holds, through one role scoped to this building, all the permissions
  needed to handle it; a provider it had is dropped, and the change is announced with the
  state before and after.
\<close>

theorem assignRequest_result:
  assumes "unique_ids s" and "assignRequest s now u bldg rid staffId = Inr (r', s')"
  shows "mr_assignedToUserId r' = Some staffId \<and> mr_serviceProviderId r' = None
     \<and> mr_serviceProviderAssignedUserId r' = None \<and> mr_status r' = ASSIGNED \<and> mr_assignedAt r' = Some now
     \<and> (\<exists>x \<in> set (users s). us_id x = staffId \<and> us_isActive x \<and> us_orgId x = user_org u)
     \<and> (\<exists>a \<in> set (accessAssignments s). ua_userId a = staffId \<and> ua_scopeType a = SC_BUILDING
          \<and> ua_scopeId a = Some bldg \<and> set REQUEST_HANDLING_PERMISSIONS \<subseteq> set (rolePermissionKeysOf s a))
     \<and> (\<exists>r \<in> set (requests s). eventLog s' = eventLog s @
          [event EV_ASSIGNED (toEventRequest s r') (Some (toEventRequest s r)) (the (user_sub u))])"
proof -
  from assms(2) obtain org userId r x s1 where u: "user_org u = Some org" "user_sub u = Some userId"
    and r: "loadBuildingRequest s org bldg rid = Inr r"
    and x: "staffUserInOrg s org staffId = Inr x"
    and p: "list_ex (\<lambda>a. assignmentHasPermissions s a REQUEST_HANDLING_PERMISSIONS)
              (findBuildingScopedAssignmentsForUser s bldg (us_id x) org)"
    and upd: "updateById s (mr_id r) (upd_assignStaff (us_id x) now) = Inr (r', s1)"
    and s': "s' = emitEvent s1 (event EV_ASSIGNED (toEventRequest s1 r') (Some (toEventRequest s r)) userId)"
    by (auto simp: assignRequest_def actor_simps)
  have f: "find_by mr_id (mr_id r) (requests s) = Some r"
    using find_building [OF assms(1)] r by (auto simp: loadBuildingRequest_def)
  have x': "x \<in> set (users s)" "us_id x = staffId" "us_isActive x" "us_orgId x = Some org"
    using x by (auto simp: staffUserInOrg_def findUserById_def split: option.splits if_splits
        dest: find_by_SomeD)
  from p obtain a where a: "a \<in> set (accessAssignments s)" "ua_userId a = staffId"
    "ua_scopeType a = SC_BUILDING" "ua_scopeId a = Some bldg"
    "set REQUEST_HANDLING_PERMISSIONS \<subseteq> set (rolePermissionKeysOf s a)"
    by (auto simp: list_ex_iff findBuildingScopedAssignmentsForUser_def assignmentHasPermissions_def
        list_all_iff x'(2))
  note row = updateById_Inr [OF assms(1) upd f]
  have ev: "eventLog s' = eventLog s @
      [event EV_ASSIGNED (toEventRequest s r') (Some (toEventRequest s r)) userId]"
    using row by (simp add: s' emitEvent_def)
  from row a x' u ev find_by_SomeD(1) [OF f] show ?thesis
    by (auto simp: upd_assignStaff_def)
qed

theorem assignRequest_result_witness:
  "\<exists>r' s'. assignRequest fx1 20 (fx_user ''mgr'') ''b1'' ''q1'' ''stf'' = Inr (r', s')
     \<and> mr_assignedToUserId r' = Some ''stf'' \<and> mr_status r' = ASSIGNED"
proof -
  have "map_sum id (\<lambda>_. ()) (assignRequest fx1 20 (fx_user ''mgr'') ''b1'' ''q1'' ''stf'') = Inr ()"
    by code_simp
  then obtain y where y: "assignRequest fx1 20 (fx_user ''mgr'') ''b1'' ''q1'' ''stf'' = Inr y" by (rule returns)
  obtain r' s' where "y = (r', s')" by force
  with y assignRequest_result [OF fx_unique(2)] show ?thesis by blast
qed

section \<open>Estimates\<close>

lemma estimate_input:
  "storableTriage t = Inr () \<Longrightarrow>
   policy_input_of (upd_submitEstimate t actor now r) =
   (toPolicySnapshotFromUpdate r t)
     \<lparr> pi_ownerApprovalStatus := Some NOT_REQUIRED, pi_estimateStatus := Some SUBMITTED \<rparr>"
  by (auto simp: storableTriage_def nullish_def policy_input_of_def toPolicySnapshotFromUpdate_def upd_submitEstimate_def apply_triage_def)

lemma submitInTx_lock:
  assumes "unique_ids s" and "find_by mr_id (mr_id r) (requests s) = Some r"
    and "submitRequestEstimateInTx s now r actor dto = Inr (r', em, s')"
  shows "\<exists>t. estimateTriage dto r = Inr t
     \<and> mr_estimateStatus r' = SUBMITTED \<and> mr_status r' = mr_status r
     \<and> mr_ownerApprovalStatus r' =
         (if estimateRoute t r = OWNER_APPROVAL_REQUIRED \<and> truthy (mr_unitId r)
          then PENDING else NOT_REQUIRED)
     \<and> (assertExecutionUnlocked r' = Inr () \<longleftrightarrow> estimateRoute t r \<noteq> OWNER_APPROVAL_REQUIRED)
     \<and> (em \<longleftrightarrow> estimateRoute t r = OWNER_APPROVAL_REQUIRED \<and> truthy (mr_unitId r)
               \<and> \<not> had_requested_approval r)"
proof -
  from assms(3) obtain t where op: "assertRequestOpenForApproval r = Inr ()"
    and t: "estimateTriage dto r = Inr t" "storableTriage t = Inr ()"
    unfolding submitRequestEstimateInTx_def by (clarsimp split del: if_split)
  show ?thesis
  proof (cases "estimateRoute t r = OWNER_APPROVAL_REQUIRED \<and> truthy (mr_unitId r)")
  case True
  with assms(3) op t obtain s1 where
    "updateById s (mr_id r) (upd_submitEstimatePending t actor now
        (requiredReason dto) (es_ownerApprovalDeadlineAt dto)) = Inr (r', s1)"
    and em: "em = (\<not> had_requested_approval r)"
    by (auto simp: submitRequestEstimateInTx_def Let_def)
  from updateById_Inr [OF assms(1) this(1) assms(2)] True em t show ?thesis
    by (simp add: assertExecutionUnlocked_def OWNER_APPROVAL_BLOCKING_STATUSES_def)
next
  case False
  with assms(3) op t obtain s1 where
    "updateById s (mr_id r) (upd_submitEstimate t actor now) = Inr (r', s1)"
    and em: "\<not> em"
    by (auto simp: submitRequestEstimateInTx_def Let_def)
  with updateById_Inr [OF assms(1) this(1) assms(2)] False t show ?thesis
    by (auto simp: assertExecutionUnlocked_def OWNER_APPROVAL_BLOCKING_STATUSES_def estimate_input
        estimateRoute_def)
  qed
qed

text \<open>
  Submitting an estimate: the estimate is recorded, the owner is asked exactly when the
  policy, applied to the request with the new figures, requires it and there is a unit, and
  afterwards work is unlocked exactly when the policy does not require the owner.
\<close>

theorem submitted_estimate_decides_lock:
  assumes "unique_ids s" and "submitRequestEstimate s now u bldg rid dto = Inr (r', s')"
  shows "\<exists>r \<in> set (requests s). \<exists>t. mr_id r = rid \<and> estimateTriage dto r = Inr t
     \<and> mr_estimateStatus r' = SUBMITTED \<and> mr_status r' = mr_status r
     \<and> mr_ownerApprovalStatus r' =
         (if estimateRoute t r = OWNER_APPROVAL_REQUIRED \<and> truthy (mr_unitId r)
          then PENDING else NOT_REQUIRED)
     \<and> (assertExecutionUnlocked r' = Inr () \<longleftrightarrow> estimateRoute t r \<noteq> OWNER_APPROVAL_REQUIRED)"
proof -
  from assms(2) obtain org userId b r r0 em s0 where actor: "user_org u = Some org"
      "assertBuildingInOrg s bldg org = Inr b" "loadBuildingRequest s org bldg rid = Inr r"
    and tx: "submitRequestEstimateInTx s now r userId dto = Inr (r0, em, s0)"
    and em: "emitApprovalRequested userId (r0, em, s0) = Inr (r', s')"
    unfolding submitRequestEstimate_def by (auto simp: actor_simps)
  note l = loaded_request [OF assms(1) actor]
  have "r0 = r'" using em by (auto simp: emitApprovalRequested_def split: if_splits)
  with submitInTx_lock [OF assms(1) l(1) tx] l(2) find_by_SomeD(1) [OF l(1)] show ?thesis by blast
qed

definition fx_estimate :: "rat \<Rightarrow> estimate_dto" where
  "fx_estimate a = \<lparr> es_triage = (ad_triage fx_approval)\<lparr>td_estimatedAmount := Some (Some a)\<rparr>,
     es_approvalRequiredReason = None, es_ownerApprovalDeadlineAt = None \<rparr>"

theorem submitted_estimate_decides_lock_witness:
  "\<exists>r' s'. submitRequestEstimate fx1 20 (fx_user ''mgr'') ''b1'' ''q1'' (fx_estimate 2000) = Inr (r', s')
     \<and> mr_estimateStatus r' = SUBMITTED"
proof -
  let ?h = "submitRequestEstimate fx1 20 (fx_user ''mgr'') ''b1'' ''q1'' (fx_estimate 2000)"
  have "map_sum id (\<lambda>_. ()) ?h = Inr ()" by code_simp
  then obtain y where y: "?h = Inr y" by (rule returns)
  obtain r' s' where "y = (r', s')" by force
  with y submitted_estimate_decides_lock [OF fx_unique(2)] show ?thesis by blast
qed

text \<open>
  Asking a provider for an estimate gives the request to the provider with a due date,
  wipes an earlier owner decision, and locks work until the estimate arrives.
\<close>

theorem requested_estimate_locks:
  assumes "unique_ids s" and "requestEstimateFromProvider s ttl now u bldg rid pid = Inr (r', s')"
  shows "mr_serviceProviderId r' = Some pid \<and> mr_estimateStatus r' = REQUESTED
     \<and> mr_estimateDueAt r' = Some (now + ttl * 3600000) \<and> mr_ownerApprovalStatus r' = NOT_REQUIRED
     \<and> mr_status r' = OPEN
     \<and> assertExecutionUnlocked r' = Inl (Conflict ''Request is blocked pending estimate submission'')
     \<and> getMaintenanceRequestPolicyRoute (policy_input_of r') = NEEDS_ESTIMATE
     \<and> provider_active s pid \<and> findServiceProviderBuildingLink s pid bldg \<noteq> None"
proof -
  from assms(2) obtain org userId r p s1 where
    r: "loadBuildingRequest s org bldg rid = Inr r" and p: "providerForBuilding s bldg pid = Inr p"
    and upd: "updateById s (mr_id r)
       (upd_requestEstimate (sp_id p) userId now (buildEstimateDueAt ttl now)) = Inr (r', s1)"
    by (auto simp: requestEstimateFromProvider_def actor_simps)
  have f: "find_by mr_id (mr_id r) (requests s) = Some r"
    using find_building [OF assms(1)] r by (auto simp: loadBuildingRequest_def)
  from p have p': "sp_id p = pid" "provider_active s pid" "findServiceProviderBuildingLink s pid bldg \<noteq> None"
    by (auto simp: providerForBuilding_def provider_active_def findServiceProviderById_def
        split: option.splits if_splits dest: find_by_SomeD)
  have row: "r' = upd_requestEstimate (sp_id p) userId now (buildEstimateDueAt ttl now) r"
    using updateById_Inr [OF assms(1) upd f] by simp
  have "mr_serviceProviderId r' = Some pid" "mr_estimateDueAt r' = Some (now + ttl * 3600000)"
    using p' row by (simp_all add: upd_requestEstimate_def buildEstimateDueAt_def)
  moreover have "getMaintenanceRequestPolicyRoute (policy_input_of r') = NEEDS_ESTIMATE"
    by (simp add: row getMaintenanceRequestPolicyRoute_def policy_input_of_def)
  ultimately show ?thesis using p' row
    by (simp add: assertExecutionUnlocked_def OWNER_APPROVAL_BLOCKING_STATUSES_def)
qed

definition fx_unclear :: db where
  "fx_unclear = fx0\<lparr>requests := [fx_row\<lparr>mr_type := None\<rparr>]\<rparr>"

theorem requested_estimate_locks_witness:
  "\<exists>r' s'. requestEstimateFromProvider fx_unclear 48 20 (fx_user ''mgr'') ''b1'' ''q1'' ''sp'' = Inr (r', s')
     \<and> mr_estimateDueAt r' = Some (20 + 48 * 3600000) \<and> mr_estimateStatus r' = REQUESTED"
proof -
  let ?h = "requestEstimateFromProvider fx_unclear 48 20 (fx_user ''mgr'') ''b1'' ''q1'' ''sp''"
  have "map_sum id (\<lambda>_. ()) ?h = Inr ()" by code_simp
  then obtain y where y: "?h = Inr y" by (rule returns)
  obtain r' s' where "y = (r', s')" by force
  moreover have "unique_ids fx_unclear" by (simp add: fx_unclear_def unique_ids_def)
  ultimately show ?thesis using y requested_estimate_locks [of fx_unclear] by blast
qed

text \<open>
  Unassigning a provider never touches the estimate: while one is outstanding the
  execution lock refuses the call, so the branch that would reset it is never taken.
\<close>

theorem unassign_never_resets_estimate:
  assumes "unassignProvider s u bldg rid = Inr (r', s')" and "unique_ids s"
  shows "\<exists>r \<in> set (requests s). mr_id r = rid \<and> mr_estimateStatus r \<noteq> REQUESTED
     \<and> mr_estimateStatus r' = mr_estimateStatus r \<and> mr_estimatedAmount r' = mr_estimatedAmount r
     \<and> mr_serviceProviderId r' = None \<and> mr_status r' = OPEN"
proof -
  from assms(1) obtain org r s1 where
    r: "loadBuildingRequest s org bldg rid = Inr r" and un: "assertExecutionUnlocked r = Inr ()"
    and upd: "updateById s (mr_id r) upd_unassignProvider = Inr (r', s1)"
    by (auto simp: unassignProvider_def actor_simps)
  have f: "find_by mr_id (mr_id r) (requests s) = Some r" and "mr_id r = rid"
    using find_building [OF assms(2)] r by (auto simp: loadBuildingRequest_def)
  with updateById_Inr [OF assms(2) upd f] unlockedD(1) [OF un] find_by_SomeD(1) [OF f]
  show ?thesis by (intro bexI [of _ r]) (auto simp: upd_unassignProvider_def)
qed

theorem unassign_never_resets_estimate_witness:
  "\<exists>r' s'. unassignProvider (fx0\<lparr>requests := [upd_assignProvider ''sp'' 15 fx_row]\<rparr>)
      (fx_user ''mgr'') ''b1'' ''q1'' = Inr (r', s') \<and> mr_serviceProviderId r' = None \<and> mr_status r' = OPEN"
proof -
  let ?s = "fx0\<lparr>requests := [upd_assignProvider ''sp'' 15 fx_row]\<rparr>"
  let ?h = "unassignProvider ?s (fx_user ''mgr'') ''b1'' ''q1''"
  have "map_sum id (\<lambda>_. ()) ?h = Inr ()" by code_simp
  then obtain y where y: "?h = Inr y" by (rule returns)
  obtain r' s' where "y = (r', s')" by force
  moreover have "unique_ids ?s" by (simp add: unique_ids_def)
  ultimately show ?thesis using y unassign_never_resets_estimate [of ?s] by blast
qed

end
