(* ===== verification/ApprovalTheorems.thy ===== *)
theory ApprovalTheorems
  imports Fixture
begin

text \<open>
  Theorems about approval overrides, the owner's decision, the estimate reminder job, the owner
  portfolio and the creation of requests.
\<close>

section \<open>Overrides and decisions\<close>

text \<open>
  C14. Overriding an owner approval succeeds only for a caller with the override permission for
  that building, on a request of that building and of the caller's organisation whose approval
  is pending, and with the source MANAGEMENT\_OVERRIDE only when a deadline was set and has
  passed; with any other source no deadline is asked for. The stored row is the old one with
  the approval set to APPROVED, the source and the reason of the caller, the caller as the one
  who overrode, and no owner; no other request changes, and one audit row is added.
\<close>

theorem override_conditions:
  assumes "unique_ids s" and "overrideOwnerApproval s now u bldg rid src why = Inr (r', s')"
  shows "\<exists>r \<in> set (requests s). \<exists>userId. user_sub u = Some userId \<and> mr_id r = rid
     \<and> user_org u = Some (mr_orgId r) \<and> mr_buildingId r = bldg
     \<and> REQUEST_OWNER_APPROVAL_OVERRIDE_PERMISSION
         \<in> getUserEffectivePermissions s userId (user_org u) (Some bldg) False
     \<and> mr_ownerApprovalStatus r = PENDING
     \<and> (src = MANAGEMENT_OVERRIDE \<longrightarrow> (\<exists>d. mr_ownerApprovalDeadlineAt r = Some d \<and> d \<le> now))
     \<and> r' = r\<lparr> mr_ownerApprovalStatus := APPROVED, mr_ownerApprovalDecidedAt := Some now,
          mr_ownerApprovalDecidedByOwnerUserId := None, mr_ownerApprovalReason := None,
          mr_ownerApprovalDecisionSource := Some src, mr_ownerApprovalOverrideReason := Some why,
          mr_ownerApprovalOverriddenByUserId := Some userId \<rparr>
     \<and> requests s' = map (\<lambda>x. if mr_id x = rid then r' else x) (requests s)
     \<and> (\<exists>a. approvalAudits s' = approvalAudits s @ [a] \<and> au_action a = AA_OVERRIDDEN
          \<and> au_requestId a = rid \<and> au_actorUserId a = userId \<and> au_fromStatus a = Some PENDING
          \<and> au_toStatus a = APPROVED \<and> au_decisionSource a = Some src \<and> au_reason a = Some why)"
proof -
  from assms(2) obtain org userId r s1 where u: "user_org u = Some org" "user_sub u = Some userId"
    and perm: "assertOverridePermission s userId org bldg = Inr ()"
    and r: "loadBuildingRequest s org bldg rid = Inr r" and pend: "mr_ownerApprovalStatus r = PENDING"
    and dl: "src = MANAGEMENT_OVERRIDE \<longrightarrow>
          (case mr_ownerApprovalDeadlineAt r of None \<Rightarrow> False | Some d \<Rightarrow> \<not> d > now)"
    and upd: "updateById s (mr_id r) (upd_override src why userId now) = Inr (r', s1)"
    and rows: "requests s' = requests s1"
    and aud: "approvalAudits s' = approvalAudits s1 @
      [\<lparr> au_requestId = mr_id r', au_orgId = mr_orgId r', au_actorUserId = userId,
         au_action = AA_OVERRIDDEN, au_fromStatus = Some (mr_ownerApprovalStatus r),
         au_toStatus = APPROVED, au_decisionSource = Some src, au_reason = Some why \<rparr>]"
    by (auto simp: overrideOwnerApproval_def Let_def emitEvent_def createOwnerApprovalAudit_def)
  have f: "find_by mr_id (mr_id r) (requests s) = Some r" and id: "mr_id r = rid"
    and scope: "mr_orgId r = org" "mr_buildingId r = bldg"
    using find_building [OF assms(1)] r by (auto simp: loadBuildingRequest_def)
  note row = updateById_Inr [OF assms(1) upd f]
  have "REQUEST_OWNER_APPROVAL_OVERRIDE_PERMISSION
      \<in> getUserEffectivePermissions s userId (user_org u) (Some bldg) False"
    using perm u by (simp add: assertOverridePermission_def split: if_splits)
  moreover have "src = MANAGEMENT_OVERRIDE \<longrightarrow> (\<exists>d. mr_ownerApprovalDeadlineAt r = Some d \<and> d \<le> now)"
    using dl by (auto split: option.splits)
  moreover have "mr_id r' = rid" using row id by (simp add: upd_override_def)
  moreover have "requests s' = map (\<lambda>x. if mr_id x = rid then r' else x) (requests s)"
    using row rows id by (simp add: modify_by_def)
  ultimately show ?thesis
    using row u id scope pend aud find_by_SomeD(1) [OF f]
    by (intro bexI [of _ r] exI [of _ userId]) (auto simp: upd_override_def)
qed

theorem override_conditions_witness:
  "\<exists>r \<in> set (requests fx2). \<exists>userId. user_sub (fx_user ''mgr'') = Some userId
     \<and> mr_ownerApprovalStatus r = PENDING \<and> (\<exists>d. mr_ownerApprovalDeadlineAt r = Some d \<and> d \<le> 60)"
proof -
  let ?h = "overrideOwnerApproval fx2 60 (fx_user ''mgr'') ''b1'' ''q1'' MANAGEMENT_OVERRIDE ''late''"
  have "map_sum id (\<lambda>_. ()) ?h = Inr ()" by code_simp
  then obtain y where y: "?h = Inr y" by (rule returns)
  obtain r' s' where "y = (r', s')" by force
  with y override_conditions [OF fx_unique(3), of 60 "fx_user ''mgr''" "''b1''" "''q1''" MANAGEMENT_OVERRIDE "''late''"]
  show ?thesis by blast
qed

text \<open>
  C15. The owner's check and the owner's write are two steps: when a rejection lands between an
  approval's check and its write, the approval still goes through and turns the rejected
  request into an approved one, with an audit row that says it was pending.
\<close>

theorem stale_approval_overwrites_rejection:
  assumes "unique_ids s" and "pendingAccessible s userA rid = Inr acc"
    and "rejectAccessibleRequest s now userB rid why = Inr (r1, s1)"
  shows "mr_ownerApprovalStatus r1 = REJECTED
     \<and> (\<exists>r2 s2. commitOwnerDecision s1 later userA rid acc APPROVED AA_APPROVED
            EV_OWNER_REQUEST_APPROVED ok = Inr (r2, s2)
          \<and> mr_ownerApprovalStatus r2 = APPROVED \<and> r2 \<in> set (requests s2)
          \<and> au_fromStatus (last (approvalAudits s2)) = Some PENDING)"
proof -
  obtain r n where acc: "acc = (r, n)" by force
  with assms(2) have r: "getAccessibleRequest s userA rid = Inr (r, n)"
    and pend: "mr_ownerApprovalStatus r = PENDING" by (auto simp: pendingAccessible_def)
  note f = getAccessibleRequest_Inr(1,2) [OF assms(1) r]
  from assms(3) obtain acc' where com: "commitOwnerDecision s now userB rid acc' REJECTED AA_REJECTED
      EV_OWNER_REQUEST_REJECTED (Some why) = Inr (r1, s1)"
    unfolding rejectAccessibleRequest_def andThen_Inr by blast
  note row = commitOwnerDecision_row [OF assms(1) f(1) com]
  from rejectAccessibleRequest_writes [OF assms(1,3)] obtain r0 where w: "writes_row s r0 r1 s1"
    by (auto simp: owner_write_def)
  have u1: "unique_ids s1" by (rule writes_row_unique [OF w assms(1)])
  have r1: "mr_id r1 = rid" using row f(2) by (simp add: upd_ownerDecision_def)
  then have f1: "find_by mr_id rid (requests s1) = Some r1"
    using find_by_distinct [OF u1 [unfolded unique_ids_def] conjunct2 [OF row]] by simp
  obtain r2 s2 where com2: "commitOwnerDecision s1 later userA rid acc APPROVED AA_APPROVED
      EV_OWNER_REQUEST_APPROVED ok = Inr (r2, s2)"
    by (simp add: commitOwnerDecision_def updateById_def f1 Let_def)
  note row2 = commitOwnerDecision_row [OF u1 f1 com2]
  have "au_fromStatus (last (approvalAudits s2)) = Some PENDING"
    using com2 pend by (auto simp: commitOwnerDecision_def Let_def emitEvent_def
        createOwnerApprovalAudit_def acc)
  with com2 row2 row show ?thesis by auto
qed

theorem stale_approval_overwrites_rejection_witness:
  "\<exists>acc r1 s1. pendingAccessible fx2 ''own'' ''q1'' = Inr acc
     \<and> rejectAccessibleRequest fx2 30 ''own'' ''q1'' ''no'' = Inr (r1, s1)
     \<and> (\<exists>r2 s2. commitOwnerDecision s1 31 ''own'' ''q1'' acc APPROVED AA_APPROVED
            EV_OWNER_REQUEST_APPROVED None = Inr (r2, s2) \<and> mr_ownerApprovalStatus r2 = APPROVED)"
proof -
  have "map_sum id (\<lambda>_. ()) (pendingAccessible fx2 ''own'' ''q1'') = Inr ()" by code_simp
  then obtain acc where acc: "pendingAccessible fx2 ''own'' ''q1'' = Inr acc" by (rule returns)
  have "map_sum id (\<lambda>_. ()) (rejectAccessibleRequest fx2 30 ''own'' ''q1'' ''no'') = Inr ()" by code_simp
  then obtain y where y: "rejectAccessibleRequest fx2 30 ''own'' ''q1'' ''no'' = Inr y" by (rule returns)
  obtain r1 s1 where "y = (r1, s1)" by force
  with acc y stale_approval_overwrites_rejection [OF fx_unique(3) acc, of 30 "''own''" "''no''" r1 s1 31 None]
  show ?thesis by blast
qed

section \<open>The reminder job\<close>

text \<open>
  C16. A run of the reminder job emits one reminder for each overdue request in its batch, in the
  order of the due dates, and marks exactly those requests; no later run, at whatever time and
  with whatever batch size, lists one of them again while nothing else has happened. When the
  batch has room for every overdue estimate, a second run at the same time sends nothing.
\<close>

theorem reminders_sent_once:
  assumes "unique_ids s" and "scanAndEmitReminders s now limit = (n, s')"
    and "batch = take limit (sort_key (\<lambda>r. the (mr_estimateDueAt r)) (filter (reminder_due now) (requests s)))"
  shows "n = length batch
     \<and> eventLog s' = eventLog s
         @ map (\<lambda>r. event EV_ESTIMATE_REMINDER (toEventRequest s r) None ''system'') batch
     \<and> requests s' = map (\<lambda>r. if r \<in> set batch then upd_reminder now r else r) (requests s)
     \<and> (\<forall>later limit'. set (map mr_id (listPendingEstimateReminderRequests s' later limit'))
          \<inter> set (map mr_id batch) = {})
     \<and> (length (filter (reminder_due now) (requests s)) \<le> limit
          \<longrightarrow> fst (scanAndEmitReminders s' now limit'') = 0)"
proof -
  have b: "batch = listPendingEstimateReminderRequests s now limit"
    using assms(3) by (simp add: listPendingEstimateReminderRequests_def)
  have s': "s' = snd (scanAndEmitReminders s now limit)" and n: "n = fst (scanAndEmitReminders s now limit)"
    by (simp_all add: assms(2))
  have rows: "requests s' = map (\<lambda>r. if r \<in> set batch then upd_reminder now r else r) (requests s)"
    unfolding s' scan_effect(2) [OF assms(1)] b
    by (rule map_cong [OF refl]) (use listed_iff [OF assms(1)] in \<open>simp add: conj_commute\<close>)
  have "unique_ids s'"
    using assms(1) unfolding unique_ids_def rows by (simp add: o_def if_distrib [of mr_id] cong: if_cong)
  then have "fst (scanAndEmitReminders s' now limit'') = 0"
    if "length (filter (reminder_due now) (requests s)) \<le> limit"
    using scan_complete [OF assms(1) that]
    by (simp add: scan_effect(1) s' listPendingEstimateReminderRequests_def)
  moreover have "set (map mr_id (listPendingEstimateReminderRequests s' later limit')) \<inter> set (map mr_id batch) = {}"
    for later limit'
    unfolding s' b by (auto dest!: scan_not_listed_again [OF assms(1)])
  ultimately show ?thesis
    using rows scan_effect(1,3) [OF assms(1), of now limit]
    by (simp add: n s' b SYSTEM_ACTOR_USER_ID_def)
qed

definition fx_overdue :: db where
  "fx_overdue = fx0\<lparr>requests := [upd_requestEstimate ''sp'' ''mgr'' 20 30 fx_row]\<rparr>"

theorem reminders_sent_once_witness:
  "fst (scanAndEmitReminders fx_overdue 40 50) = 1
   \<and> fst (scanAndEmitReminders (snd (scanAndEmitReminders fx_overdue 40 50)) 40 50) = 0"
proof -
  have "unique_ids fx_overdue" by (simp add: unique_ids_def fx_overdue_def)
  moreover have "length (filter (reminder_due 40) (requests fx_overdue)) = 1" by code_simp
  ultimately show ?thesis
    using reminders_sent_once [OF _ prod.collapse [symmetric] refl, of fx_overdue 40 50 50] by simp
qed

section \<open>The owner portfolio\<close>

lemma map_filter_inverse:
  "(\<And>i. i \<in> set is \<Longrightarrow> \<exists>r. f i = Some r \<and> g r = i) \<Longrightarrow> map g (List.map_filter f is) = is"
  by (induction "is") (fastforce simp: List.map_filter_simps)+

lemma normalize_ids:
  "map pu_unitId (normalizeAccessibleUnitRows xs ys) = js_unique (map pu_unitId (xs @ ys))"
  unfolding normalizeAccessibleUnitRows_def Let_def
proof (rule map_filter_inverse)
  fix i assume "i \<in> set (js_unique (map pu_unitId (xs @ ys)))"
  then have "find_by pu_unitId i (rev (xs @ ys)) \<noteq> None" by (auto simp: find_by_None_iff)
  then show "\<exists>r. find_by pu_unitId i (rev (xs @ ys)) = Some r \<and> pu_unitId r = i"
    by (auto dest: find_by_SomeD)
qed

lemma granted_owner_listed:
  assumes "grantedOwner s userId o'"
  shows "o' \<in> set (getAccessibleOwnerIds s userId)"
  using assms
  by (force simp: grantedOwner_def getAccessibleOwnerIds_def loadActiveOwnerGrantRows_def list_ex_iff)

lemma find_by_exists: "n \<in> set rows \<Longrightarrow> key n = k \<Longrightarrow> \<exists>m. find_by key k rows = Some m"
  by (induction rows) auto

lemma owned_unit_listed:
  assumes "\<And>x. x \<in> set (unitOwnerships s) \<Longrightarrow> \<exists>n \<in> set (units s). un_id n = uo_unitId x"
    and "\<And>n. n \<in> set (units s) \<Longrightarrow> (\<exists>b \<in> set (buildings s). bd_id b = un_buildingId n) \<and> un_ownerId n \<noteq> Some []"
    and "owns_unit s userId i"
  shows "i \<in> pu_unitId ` (set (ownershipUnits s userId (getAccessibleOwnerIds s userId) None)
                          \<union> set (fallbackUnits s userId (getAccessibleOwnerIds s userId) None))"
proof -
  from assms(3) obtain o' where g: "grantedOwner s userId o'" and own:
    "(\<exists>x \<in> set (unitOwnerships s). uo_unitId x = i \<and> uo_ownerId x = o' \<and> uo_endDate x = None)
     \<or> (\<exists>n \<in> set (units s). un_id n = i \<and> un_ownerId n = Some o')
        \<and> \<not> (\<exists>x \<in> set (unitOwnerships s). uo_unitId x = i \<and> uo_endDate x = None)"
    unfolding owns_unit_def by blast
  note listed = granted_owner_listed [OF g]
  from own show ?thesis
  proof (elim disjE conjE bexE)
    fix x assume x: "x \<in> set (unitOwnerships s)" "uo_unitId x = i" "uo_ownerId x = o'" "uo_endDate x = None"
    then obtain m where m: "find_by un_id (uo_unitId x) (units s) = Some m"
      using assms(1) [OF x(1)] find_by_exists by metis
    then have "un_id m = i" using x by (auto dest: find_by_SomeD)
    with x m g listed have "\<lparr> pu_orgId = uo_orgId x, pu_ownerId = uo_ownerId x, pu_unitId = un_id m,
        pu_buildingId = un_buildingId m, pu_unitLabel = un_label m \<rparr>
        \<in> set (ownershipUnits s userId (getAccessibleOwnerIds s userId) None)"
      by (auto simp: ownershipUnits_def set_map_filter unit_matches_def intro!: bexI [of _ x])
    with \<open>un_id m = i\<close> show ?thesis by force
  next
    fix n assume n: "n \<in> set (units s)" "un_id n = i" "un_ownerId n = Some o'"
      and no: "\<not> (\<exists>x \<in> set (unitOwnerships s). uo_unitId x = i \<and> uo_endDate x = None)"
    obtain b where b: "find_by bd_id (un_buildingId n) (buildings s) = Some b"
      using assms(2) [OF n(1)] find_by_exists by metis
    from assms(2) [OF n(1)] n(3) have "o' \<noteq> []" by auto
    with n b g listed no have "\<lparr> pu_orgId = bd_orgId b, pu_ownerId = o', pu_unitId = un_id n,
        pu_buildingId = bd_id b, pu_unitLabel = un_label n \<rparr>
        \<in> set (fallbackUnits s userId (getAccessibleOwnerIds s userId) None)"
      unfolding fallbackUnits_def set_map_filter
      by (auto simp: unit_matches_def list_ex_iff intro!: bexI [of _ n])
    with n(2) show ?thesis by force
  qed
qed

text \<open>
  C20. The owner portfolio lists each unit once, and lists exactly the units the user currently
  owns through an active, granted owner record: by a current ownership row, or by the unit's
  owner column when no current ownership row exists. (The two conditions are foreign keys of
  the schema.)
\<close>

theorem portfolio_is_ownership:
  assumes "\<And>x. x \<in> set (unitOwnerships s) \<Longrightarrow> \<exists>n \<in> set (units s). un_id n = uo_unitId x"
    and "\<And>n. n \<in> set (units s) \<Longrightarrow> (\<exists>b \<in> set (buildings s). bd_id b = un_buildingId n) \<and> un_ownerId n \<noteq> Some []"
  shows "distinct (map pu_unitId (listAccessibleUnits s userId))
     \<and> (i \<in> set (map pu_unitId (listAccessibleUnits s userId)) \<longleftrightarrow> owns_unit s userId i)"
proof -
  let ?ids = "getAccessibleOwnerIds s userId"
  have "i \<in> set (map pu_unitId (listAccessibleUnits s userId))" if own: "owns_unit s userId i"
  proof -
    from own have "?ids \<noteq> []"
      using granted_owner_listed by (fastforce simp: owns_unit_def)
    then have "listAccessibleUnits s userId = normalizeAccessibleUnitRows
        (ownershipUnits s userId ?ids None) (fallbackUnits s userId ?ids None)"
      by (simp add: listAccessibleUnits_def loadAccessibleUnitScope_def Let_def)
    with owned_unit_listed [OF assms own] show ?thesis by (simp only: normalize_ids) auto
  qed
  moreover have "owns_unit s userId i" if "i \<in> set (map pu_unitId (listAccessibleUnits s userId))"
    using that by (auto simp: listAccessibleUnits_def dest: scope_owns)
  moreover have "distinct (map pu_unitId (listAccessibleUnits s userId))"
    by (simp add: listAccessibleUnits_def loadAccessibleUnitScope_def Let_def normalize_ids)
  ultimately show ?thesis by blast
qed

theorem portfolio_is_ownership_witness:
  "''n1'' \<in> set (map pu_unitId (listAccessibleUnits fx1 ''own'')) \<and> owns_unit fx1 ''own'' ''n1''"
proof -
  have in1: "''n1'' \<in> set (map pu_unitId (listAccessibleUnits fx1 ''own''))" by code_simp
  have "owns_unit fx1 ''own'' ''n1''"
    using portfolio_is_ownership [of fx1 "''own''" "''n1''"] in1 by (simp add: fx1_def fx0_def)
  with in1 show ?thesis ..
qed

section \<open>Creation\<close>

text \<open>
  A resident's new request: it is added at the end with status open, nothing assigned,
  no approval and no estimate, for the building and unit of the occupancy the resident
  currently has, in the resident's organisation; it counts as an emergency exactly when the
  resident says so or names a known signal.
\<close>

theorem created_request:
  assumes "createResidentRequest s now u newId dto = Inr (r, s')"
  shows "requests s' = requests s @ [r] \<and> find_by mr_id newId (requests s) = None \<and> mr_id r = newId
     \<and> mr_status r = OPEN \<and> executor_of r = Nobody \<and> mr_ownerApprovalStatus r = NOT_REQUIRED
     \<and> mr_estimateStatus r = NOT_REQUESTED
     \<and> user_sub u = Some (mr_createdByUserId r) \<and> user_org u = Some (mr_orgId r)
     \<and> (\<exists>oc \<in> set (occupancies s). oc_residentUserId oc = mr_createdByUserId r \<and> oc_status oc = OC_ACTIVE
          \<and> mr_buildingId r = oc_buildingId oc \<and> mr_unitId r = Some (oc_unitId oc)
          \<and> buildingInOrg s (oc_buildingId oc) (mr_orgId r))
     \<and> (mr_isEmergency r \<longleftrightarrow> cd_isEmergency dto = Some True
          \<or> (\<exists>xs v. cd_emergencySignals dto = Some xs \<and> v \<in> set xs \<and> emergencySignalOf v \<noteq> None))"
proof -
  from assms obtain org userId oc where r: "r = new_request newId now org userId oc dto"
    and oc: "findAssignedActiveOccupancy s userId org = Some oc"
    and u: "user_org u = Some org" "user_sub u = Some userId"
    and rows: "find_by mr_id newId (requests s) = None" "requests s' = requests s @ [r]"
    by (rule createResidentRequest_creates)
  have "normalizeEmergencySignals (cd_emergencySignals dto) \<noteq> [] \<longleftrightarrow>
      (\<exists>xs v. cd_emergencySignals dto = Some xs \<and> v \<in> set xs \<and> emergencySignalOf v \<noteq> None)"
    by (cases "cd_emergencySignals dto")
      (simp_all add: normalizeEmergencySignals_def set_map_filter flip: set_empty, blast)
  then have "mr_isEmergency r \<longleftrightarrow> cd_isEmergency dto = Some True
      \<or> (\<exists>xs v. cd_emergencySignals dto = Some xs \<and> v \<in> set xs \<and> emergencySignalOf v \<noteq> None)"
    by (simp add: r new_request_def Let_def)
  moreover have "executor_of r = Nobody" "mr_buildingId r = oc_buildingId oc" "mr_unitId r = Some (oc_unitId oc)"
    by (simp_all add: r executor_of_def new_request_def Let_def)
  ultimately show ?thesis
    using findAssignedActiveOccupancy_SomeD [OF oc] u rows by (auto simp: r)
qed

theorem created_request_witness:
  "\<exists>r s'. createResidentRequest fx0 10 (fx_user ''res'') ''q9'' fx_create = Inr (r, s')
     \<and> requests s' = [r] \<and> mr_status r = OPEN"
proof -
  have "map_sum id (\<lambda>_. ()) (createResidentRequest fx0 10 (fx_user ''res'') ''q9'' fx_create) = Inr ()"
    by code_simp
  then obtain y where y: "createResidentRequest fx0 10 (fx_user ''res'') ''q9'' fx_create = Inr y"
    by (rule returns)
  obtain r s' where "y = (r, s')" by force
  with y created_request [of fx0 10 "fx_user ''res''" "''q9''" fx_create r s'] show ?thesis by simp
qed

end
