(* ===== verification/CommentTheorems.thy ===== *)
theory CommentTheorems
  imports Fixture
begin

text \<open>
  Theorems about comments (read states, unread counts, visibility), the owner portfolio and
  the creation of requests.
\<close>

section \<open>Read states\<close>

lemma filter_key:
  "distinct (map key rows) \<Longrightarrow> find_by key k rows = Some r \<Longrightarrow> filter (\<lambda>x. key x = k) rows = [r]"
proof (induction rows)
  case (Cons x rows)
  show ?case
  proof (cases "key x = k")
    case True
    with Cons.prems(1) have "k \<notin> key ` set rows" by simp
    then have "filter (\<lambda>y. key y = k) rows = []" by (metis (mono_tags, lifting) filter_False imageI)
    with True Cons.prems show ?thesis by simp
  next
    case False
    with Cons show ?thesis by simp
  qed
qed simp

lemma sorted_le_last: "sorted xs \<Longrightarrow> x \<in> set xs \<Longrightarrow> x \<le> last xs" for x :: "'a :: linorder"
  by (induction xs) auto

lemma upsert_read_state:
  assumes "distinct (map rs_key (commentReadStates s))"
  shows "listCommentReadStates (upsertCommentReadState s userId rid scope t) userId [rid] scope = [(rid, t)]"
proof -
  let ?k = "(userId, rid, scope)"
  let ?s = "upsertCommentReadState s userId rid scope t"
  have d: "distinct (map rs_key (commentReadStates ?s))"
    and f: "\<exists>x. find_by rs_key ?k (commentReadStates ?s) = Some x \<and> rs_lastReadAt x = t"
  proof -
    have key: "rs_key (x\<lparr>rs_lastReadAt := t\<rparr>) = rs_key x" for x by (simp add: rs_key_def)
    show "distinct (map rs_key (commentReadStates ?s))"
      using assms read_state_table.modify_distinct [OF key assms]
      by (auto simp: upsertCommentReadState_def find_by_None_iff rs_key_def)
    show "\<exists>x. find_by rs_key ?k (commentReadStates ?s) = Some x \<and> rs_lastReadAt x = t"
      using read_state_table.modify_same [OF key, of ?k]
      by (auto simp: upsertCommentReadState_def find_by_append rs_key_def)
  qed
  from f obtain x where x: "find_by rs_key ?k (commentReadStates ?s) = Some x" "rs_lastReadAt x = t" by auto
  have "(\<lambda>y. rs_userId y = userId \<and> List.member [rid] (rs_requestId y) \<and> rs_scope y = scope)
      = (\<lambda>y. rs_key y = ?k)" by (auto simp: rs_key_def fun_eq_iff)
  then have "filter (\<lambda>y. rs_userId y = userId \<and> List.member [rid] (rs_requestId y) \<and> rs_scope y = scope)
      (commentReadStates ?s) = [x]" using filter_key [OF d x(1)] by simp
  with x find_by_SomeD(2) [OF x(1)] show ?thesis
    by (simp add: listCommentReadStates_def rs_key_def)
qed

lemma other_read_states:
  "{x \<in> set (commentReadStates s). rs_userId x \<noteq> userId}
   \<subseteq> set (commentReadStates (upsertCommentReadState s userId rid scope t))"
proof
  fix x assume x: "x \<in> {x \<in> set (commentReadStates s). rs_userId x \<noteq> userId}"
  then have "rs_key x \<noteq> (userId, rid, scope)" by (auto simp: rs_key_def)
  with x show "x \<in> set (commentReadStates (upsertCommentReadState s userId rid scope t))"
    by (auto simp: upsertCommentReadState_def read_state_table.set_modify intro!: image_eqI [of _ _ x])
qed

text \<open>Marking one request read leaves every other read state as it is.\<close>

lemma other_read_states_listed:
  assumes "v \<noteq> userId \<or> sc \<noteq> scope \<or> rid \<notin> set rids"
  shows "listCommentReadStates (markRead s userId rid scope cs) v rids sc = listCommentReadStates s v rids sc"
proof -
  have "filter (\<lambda>x. rs_userId x = v \<and> List.member rids (rs_requestId x) \<and> rs_scope x = sc)
          (modify_by rs_key (userId, rid, scope) (\<lambda>x. x\<lparr>rs_lastReadAt := t\<rparr>) xs)
      = filter (\<lambda>x. rs_userId x = v \<and> List.member rids (rs_requestId x) \<and> rs_scope x = sc) xs" for t xs
    using assms by (induction xs) (auto simp: modify_by_def rs_key_def)
  with assms show ?thesis
    by (auto simp: listCommentReadStates_def markRead_def upsertCommentReadState_def)
qed

text \<open>
  C17. Opening the comments of a request clears its unread count for the reader: the list
  handler marks the latest comment as read, and right after it no comment of that request
  counts as unread for that user. The unread counts of other requests, of other users and of
  the other scopes of reading stay as they were.
\<close>

theorem reading_clears_unread:
  assumes "unique_ids s" and "distinct (map rs_key (commentReadStates s))"
    and "user_sub u = Some userId" and "user_org u = Some org"
    and "listBuildingComments s u bldg rid = Inr (cs, s')"
  shows "countUnreadCommentsForRequests s' userId (Some org) [rid] RS_BUILDING None = 0
     \<and> (\<forall>v org' rids sc vis. v \<noteq> userId \<or> sc \<noteq> RS_BUILDING \<or> rid \<notin> set rids
          \<longrightarrow> countUnreadCommentsForRequests s' v org' rids sc vis
              = countUnreadCommentsForRequests s v org' rids sc vis)"
proof -
  from assms(3-5) obtain r where r: "loadBuildingRequest s org bldg rid = Inr r" and org: "org \<noteq> []"
    and cs: "cs = listComments s (Some org) (mr_id r) None"
    and s': "s' = markRead s userId (mr_id r) RS_BUILDING cs"
    by (auto simp: listBuildingComments_def getBuildingRequest_def Let_def)
  have id: "mr_id r = rid"
    using find_building(2) [OF assms(1)] r by (auto simp: loadBuildingRequest_def)
  have com: "comments s' = comments s"
    by (simp add: s' markRead_def upsertCommentReadState_def)
  have le: "cm_createdAt c \<le> cm_createdAt (last cs)" if "c \<in> set cs" for c
  proof -
    have "sorted (map cm_createdAt cs)" by (simp add: cs listComments_def)
    from sorted_le_last [OF this, of "cm_createdAt c"] that show ?thesis
      by (cases "cs = []") (auto simp: last_map)
  qed
  have sub: "\<exists>c \<in> set cs. t = cm_createdAt c"
    if "(i, t) \<in> set (listCommentTimestamps s' (Some org) [rid] userId None)" for i t
    using that org by (auto simp: listCommentTimestamps_def com cs listComments_def id)
  have "countUnreadCommentsForRequests s' v org' rids sc vis = countUnreadCommentsForRequests s v org' rids sc vis"
    if "v \<noteq> userId \<or> sc \<noteq> RS_BUILDING \<or> rid \<notin> set rids" for v org' rids sc vis
    using other_read_states_listed [OF that, of s cs] com
    by (simp add: countUnreadCommentsForRequests_def listCommentTimestamps_def s' id)
  moreover have "countUnreadCommentsForRequests s' userId (Some org) [rid] RS_BUILDING None = 0"
  proof (cases "cs = []")
    case True
    with sub have "listCommentTimestamps s' (Some org) [rid] userId None = []"
      by (metis list.set_intros(1) neq_Nil_conv old.prod.exhaust empty_iff list.set(1))
    then show ?thesis by (simp add: countUnreadCommentsForRequests_def)
  next
    case False
    then have "listCommentReadStates s' userId [rid] RS_BUILDING = [(rid, cm_createdAt (last cs))]"
      using upsert_read_state [OF assms(2)] by (simp add: s' markRead_def id)
    moreover have "i = rid" if "(i, t) \<in> set (listCommentTimestamps s' (Some org) [rid] userId None)" for i t
      using that by (auto simp: listCommentTimestamps_def)
    ultimately show ?thesis
      using sub le by (fastforce simp: countUnreadCommentsForRequests_def filter_empty_conv)
  qed
  ultimately show ?thesis by blast
qed

definition fx_commented :: db where
  "fx_commented = fx1\<lparr>comments := [\<lparr> cm_id = ''m1'', cm_requestId = ''q1'', cm_orgId = ''o1'',
     cm_authorUserId = ''res'', cm_authorOwnerId = None, cm_authorType = AUTHOR_TENANT,
     cm_visibility = SHARED, cm_message = ''hi'', cm_createdAt = 12 \<rparr>]\<rparr>"

theorem reading_clears_unread_witness:
  "countUnreadCommentsForRequests fx_commented ''mgr'' (Some ''o1'') [''q1''] RS_BUILDING None = 1
   \<and> (\<exists>cs s'. listBuildingComments fx_commented (fx_user ''mgr'') ''b1'' ''q1'' = Inr (cs, s')
        \<and> countUnreadCommentsForRequests s' ''mgr'' (Some ''o1'') [''q1''] RS_BUILDING None = 0)"
proof
  show "countUnreadCommentsForRequests fx_commented ''mgr'' (Some ''o1'') [''q1''] RS_BUILDING None = 1"
    by code_simp
  have "map_sum id (\<lambda>_. ()) (listBuildingComments fx_commented (fx_user ''mgr'') ''b1'' ''q1'') = Inr ()"
    by code_simp
  then obtain y where y: "listBuildingComments fx_commented (fx_user ''mgr'') ''b1'' ''q1'' = Inr y"
    by (rule returns)
  obtain cs s' where "y = (cs, s')" by force
  moreover have "unique_ids fx_commented" "distinct (map rs_key (commentReadStates fx_commented))"
    by (simp_all add: fx_commented_def unique_ids_def) (simp add: fx1_def fx0_def)
  ultimately show "\<exists>cs s'. listBuildingComments fx_commented (fx_user ''mgr'') ''b1'' ''q1'' = Inr (cs, s')
        \<and> countUnreadCommentsForRequests s' ''mgr'' (Some ''o1'') [''q1''] RS_BUILDING None = 0"
    using y reading_clears_unread [of fx_commented "fx_user ''mgr''" "''mgr''" "''o1''" "''b1''" "''q1''" cs s']
    by (auto simp: fx_user_def user_org_def user_sub_def)
qed

section \<open>Visibility\<close>

lemma resident_list:
  assumes "unique_ids s" and "listResidentComments s u rid = Inr cs" and "c \<in> set cs"
  shows "cm_visibility c = SHARED \<and> cm_requestId c = rid"
proof -
  from assms(2) obtain org userId r where l: "loadResidentRequest s u rid = Inr (org, userId, r)"
    and cs: "cs = listComments s (Some org) (mr_id r) (Some SHARED)"
    by (auto simp: listResidentComments_def)
  from loadResidentRequest_Inr(2) [OF assms(1) l] cs assms(3) show ?thesis
    by (simp add: listComments_def)
qed

lemma provider_list:
  assumes "unique_ids s" and "listProviderComments s u rid = Inr (cs, t)" and "c \<in> set cs"
  shows "cm_visibility c = SHARED \<and> cm_requestId c = rid"
proof -
  from assms(2) obtain userId ctx r where l: "loadProviderRequest s u rid = Inr (userId, ctx, r)"
    and cs: "cs = listComments s (Some (mr_orgId r)) (mr_id r) (Some SHARED)"
    by (auto simp: listProviderComments_def Let_def)
  from loadProviderRequest_Inr(2) [OF assms(1) l] cs assms(3) show ?thesis
    by (simp add: listComments_def)
qed

lemma owner_list:
  assumes "unique_ids s" and "listAccessibleRequestComments s userId rid = Inr (cs, t)" and "c \<in> set cs"
  shows "cm_visibility c = SHARED \<and> cm_requestId c = rid"
proof -
  from assms(2) obtain r n where l: "getAccessibleRequest s userId rid = Inr (r, n)"
    and cs: "cs = sort_key cm_createdAt (filter (\<lambda>c. cm_orgId c = pu_orgId n \<and> cm_requestId c = mr_id r
                \<and> cm_visibility c = SHARED) (comments s))"
    by (auto simp: listAccessibleRequestComments_def Let_def)
  from getAccessibleRequest_Inr(2) [OF assms(1) l] cs assms(3) show ?thesis by simp
qed

text \<open>
  Internal comments stay internal: what residents, providers and owners read of a request
  is shared comments of that request, and nothing else.
\<close>

theorem outsiders_read_shared_comments:
  assumes "unique_ids s" and "c \<in> set cs"
    and "listResidentComments s u rid = Inr cs \<or> listProviderComments s u rid = Inr (cs, t)
         \<or> listAccessibleRequestComments s userId rid = Inr (cs, t)"
  shows "cm_visibility c = SHARED \<and> cm_requestId c = rid"
  using assms resident_list provider_list owner_list by metis

theorem outsiders_read_shared_comments_witness:
  "\<exists>cs c. listResidentComments fx_commented (fx_user ''res'') ''q1'' = Inr cs \<and> c \<in> set cs
     \<and> cm_visibility c = SHARED \<and> cm_requestId c = ''q1''"
proof -
  have "map_sum id (\<lambda>cs. cs \<noteq> []) (listResidentComments fx_commented (fx_user ''res'') ''q1'') = Inr True"
    by code_simp
  then obtain cs where cs: "listResidentComments fx_commented (fx_user ''res'') ''q1'' = Inr cs" "cs \<noteq> []"
    by (rule returns) simp
  then have "hd cs \<in> set cs" by simp
  moreover have "unique_ids fx_commented" by (simp add: fx_commented_def unique_ids_def)
  ultimately show ?thesis
    using cs outsiders_read_shared_comments [of fx_commented "hd cs" cs "fx_user ''res''" "''q1''"] by blast
qed

text \<open>
  Commenting on the building side: the comment is stored once with the visibility asked for
  (shared by default); a shared one is announced, an internal one is not; requests, read
  states of others and audit rows are untouched.
\<close>

theorem building_comment_result:
  assumes "addBuildingComment s now u bldg rid newId msg vis = Inr (c, s')"
  shows "comments s' = comments s @ [c] \<and> cm_message c = msg \<and> cm_visibility c = nullish vis SHARED
     \<and> user_sub u = Some (cm_authorUserId c) \<and> user_org u = Some (cm_orgId c)
     \<and> requests s' = requests s \<and> approvalAudits s' = approvalAudits s
     \<and> (if nullish vis SHARED = SHARED
        then \<exists>e. eventLog s' = eventLog s @ [e] \<and> ev_name e = EV_COMMENTED \<and> ev_comment e = Some (newId, msg)
        else eventLog s' = eventLog s)
     \<and> {x \<in> set (commentReadStates s). rs_userId x \<noteq> cm_authorUserId c} \<subseteq> set (commentReadStates s')"
proof -
  from assms obtain org userId r s1 where u: "user_org u = Some org" "user_sub u = Some userId"
    and c: "createComment s \<lparr> cm_id = newId, cm_requestId = mr_id r, cm_orgId = org,
        cm_authorUserId = userId, cm_authorOwnerId = None, cm_authorType = AUTHOR_STAFF,
        cm_visibility = nullish vis SHARED, cm_message = msg, cm_createdAt = now \<rparr> = Inr (c, s1)"
    and s': "s' = (let s2 = upsertCommentReadState s1 userId (mr_id r) RS_BUILDING (cm_createdAt c)
       in if cm_visibility c = SHARED then emitEvent s2 (commentEvent s2 r userId False c) else s2)"
    by (auto simp: addBuildingComment_def buildingActor_Inr Let_def)
  note c' = createComment_Inr [OF c]
  let ?s2 = "upsertCommentReadState s1 userId (mr_id r) RS_BUILDING (cm_createdAt c)"
  have frame: "comments ?s2 = comments s1" "requests ?s2 = requests s1"
    "approvalAudits ?s2 = approvalAudits s1" "eventLog ?s2 = eventLog s1"
    by (simp_all add: upsertCommentReadState_def)
  have reads: "{x \<in> set (commentReadStates s1). rs_userId x \<noteq> userId} \<subseteq> set (commentReadStates ?s2)"
    by (rule other_read_states)
  show ?thesis
    using c' u frame reads
    by (cases "nullish vis SHARED = SHARED")
      (simp_all add: s' Let_def emitEvent_def commentEvent_def event_def)
qed

theorem building_comment_result_witness:
  "\<exists>c s'. addBuildingComment fx_commented 20 (fx_user ''mgr'') ''b1'' ''q1'' ''m2'' ''note'' (Some INTERNAL)
      = Inr (c, s') \<and> cm_visibility c = INTERNAL \<and> eventLog s' = eventLog fx_commented"
proof -
  let ?h = "addBuildingComment fx_commented 20 (fx_user ''mgr'') ''b1'' ''q1'' ''m2'' ''note'' (Some INTERNAL)"
  have "map_sum id (\<lambda>_. ()) ?h = Inr ()" by code_simp
  then obtain y where y: "?h = Inr y" by (rule returns)
  obtain c s' where "y = (c, s')" by force
  with y building_comment_result [of fx_commented 20 "fx_user ''mgr''" "''b1''" "''q1''" "''m2''" "''note''"
      "Some INTERNAL" c s'] show ?thesis by simp
qed

end
