(* ===== verification/AccessTheorems.thy ===== *)
theory AccessTheorems
  imports Fixture
begin

text \<open>
  Theorems about permissions, the guards in front of every route and the resolution of the
  building a request is about.
\<close>

section \<open>Effective permissions\<close>

text \<open>
  C22. The permissions a user has in a building: those a user override allows, and those of the
  roles assigned to the user in this organisation, organisation-wide or for this very building,
  that no override denies. Roles that are hidden from organisations add nothing.
\<close>

theorem building_permissions_formula:
  assumes "overrides_unique s" and "bldg \<noteq> []"
  shows "k \<in> getUserEffectivePermissions s u (Some org) (Some bldg) False \<longleftrightarrow>
     granted s u k
     \<or> (\<not> denied s u k
        \<and> (\<exists>a \<in> set (accessAssignments s). \<exists>t. templateOf s a = Some t
             \<and> ua_userId a = u \<and> rt_orgId t = Some org \<and> isVisibleRoleTemplate t
             \<and> ua_scopeType a = rt_scopeType t
             \<and> (ua_scopeType a = SC_ORG \<and> ua_scopeId a = None
                \<or> ua_scopeType a = SC_BUILDING \<and> ua_scopeId a = Some bldg)
             \<and> k \<in> set (rolePermissionKeysOf s a)))"
proof -
  have "assignmentWhere s u (Some org) (Some bldg) a \<and> template_sat s a isVisibleRoleTemplate \<longleftrightarrow>
      (\<exists>t. templateOf s a = Some t \<and> ua_userId a = u \<and> rt_orgId t = Some org \<and> isVisibleRoleTemplate t
        \<and> ua_scopeType a = rt_scopeType t
        \<and> (ua_scopeType a = SC_ORG \<and> ua_scopeId a = None
           \<or> ua_scopeType a = SC_BUILDING \<and> ua_scopeId a = Some bldg))" for a
    using assms(2) by (auto simp: assignmentWhere_def template_sat_iff)
  then show ?thesis unfolding effective_mem [OF assms(1)] by blast
qed

theorem building_permissions_formula_witness:
  "''requests.assign'' \<in> getUserEffectivePermissions fx0 ''mgr'' (Some ''o1'') (Some ''b1'') False
   \<and> (granted fx0 ''mgr'' ''requests.assign''
     \<or> (\<not> denied fx0 ''mgr'' ''requests.assign''
        \<and> (\<exists>a \<in> set (accessAssignments fx0). \<exists>t. templateOf fx0 a = Some t
             \<and> ua_userId a = ''mgr'' \<and> rt_orgId t = Some ''o1'' \<and> isVisibleRoleTemplate t
             \<and> ua_scopeType a = rt_scopeType t
             \<and> (ua_scopeType a = SC_ORG \<and> ua_scopeId a = None
                \<or> ua_scopeType a = SC_BUILDING \<and> ua_scopeId a = Some ''b1'')
             \<and> ''requests.assign'' \<in> set (rolePermissionKeysOf fx0 a))))"
proof -
  have "''requests.assign'' \<in> getUserEffectivePermissions fx0 ''mgr'' (Some ''o1'') (Some ''b1'') False"
    by code_simp
  moreover have "overrides_unique fx0"
    by (simp add: overrides_unique_def fx0_def fx_permissions_def)
  ultimately show ?thesis
    using building_permissions_formula [of fx0 "''b1''" "''requests.assign''" "''mgr''" "''o1''"] by blast
qed

text \<open>
  A denied permission is denied everywhere: when a user override denies a permission and its
  aliases, the guards find no match for it, whatever roles the user has, with any building
  and across all scopes.
\<close>

theorem denied_permission_refused:
  assumes "overrides_unique s" and "denied s u p" and "\<And>q. q \<in> set (aliasesOf p) \<Longrightarrow> denied s u q"
  shows "\<not> hasPermissionMatch (Some (getUserEffectivePermissions s u org bldg h)) p
     \<and> \<not> hasPermissionMatch (Some (getUserEffectivePermissionsAcrossAnyScope s u org)) p"
  using scoped.denied_permission_never_matches [OF assms, of "(org, bldg, h)"]
    any_scope.denied_permission_never_matches [OF assms, of org] by simp

definition fx_deny :: db where
  "fx_deny = fx0 \<lparr> userPermissions :=
     [\<lparr>up_userId = ''mgr'', up_permissionId = ''p4'', up_effect = DENY\<rparr>] \<rparr>"

theorem denied_permission_refused_witness:
  "hasPermissionMatch (Some (getUserEffectivePermissions fx0 ''mgr'' (Some ''o1'') (Some ''b1'') False))
       ''requests.assign''
   \<and> \<not> hasPermissionMatch (Some (getUserEffectivePermissions fx_deny ''mgr'' (Some ''o1'') (Some ''b1'') False))
       ''requests.assign''
   \<and> \<not> hasPermissionMatch (Some (getUserEffectivePermissionsAcrossAnyScope fx_deny ''mgr'' (Some ''o1'')))
       ''requests.assign''"
proof -
  have "hasPermissionMatch (Some (getUserEffectivePermissions fx0 ''mgr'' (Some ''o1'') (Some ''b1'') False))
       ''requests.assign''" by code_simp
  moreover have "overrides_unique fx_deny"
    by (simp add: overrides_unique_def fx_deny_def fx0_def fx_permissions_def)
  moreover have "denied fx_deny ''mgr'' ''requests.assign''" by code_simp
  moreover have "aliasesOf ''requests.assign'' = []" by code_simp
  ultimately show ?thesis
    using denied_permission_refused [of fx_deny "''mgr''" "''requests.assign''" "Some ''o1''" "Some ''b1''" False]
    by simp
qed

text \<open>
  Without a building, the organisation of the caller makes no difference: the filter on
  the organisation is overwritten by the filter on the scope, so organisation-wide roles of
  every organisation count.
\<close>

theorem org_ignored_without_building:
  "getUserEffectivePermissions s u org None h = getUserEffectivePermissions s u org' None h
   \<and> getUserEffectivePermissions s u org (Some []) h = getUserEffectivePermissions s u org' (Some []) h"
proof -
  have "assignmentWhere s u org None = assignmentWhere s u org' None"
    and "assignmentWhere s u org (Some []) = assignmentWhere s u org' (Some [])"
    by (simp_all add: fun_eq_iff assignmentWhere_def)
  then show ?thesis by (simp add: getUserEffectivePermissions_def getUserScopedAccess_def)
qed

section \<open>Guards\<close>

text \<open>
  The permissions guard lets a request through exactly when the route asks for nothing, or
  the caller is authenticated and all the required permissions match the permission set of
  the request (the caller's effective permissions for the building the request is about), or,
  on routes that say so, the caller's permissions across all scopes.
\<close>

theorem permissions_guard_exact:
  "(\<exists>e. permissionsGuard s st perms anyScope u rq None = Inr e) \<longleftrightarrow>
     perms = []
     \<or> (\<exists>userId. user_sub u = Some userId \<and> userId \<noteq> []
          \<and> (hasAllPermissionMatches (Some (getUserEffectivePermissions s userId (user_org u)
                 (resolveForRequest s st rq (user_org u)) False)) perms
             \<or> anyScope \<and> hasAllPermissionMatches
                 (Some (getUserEffectivePermissionsAcrossAnyScope s userId (user_org u))) perms))"
  by (cases "user_sub u") (auto simp: permissionsGuard_def requireUserId_def Let_def)

text \<open>
  The building guard for a route that writes lets a request through only if the building is a
  building of the caller's organisation and the caller has every required permission there;
  residence is not enough.
\<close>

theorem building_write_guard:
  assumes "buildingAccessGuard s (Some AL_WRITE) perms allowResident u bldg None = Inr ok"
  shows "\<exists>b org userId. bldg = Some b \<and> user_org u = Some org \<and> user_sub u = Some userId
     \<and> buildingInOrg s b org \<and> perms \<noteq> []
     \<and> hasAllPermissionMatches (Some (getUserEffectivePermissions s userId (Some org) (Some b) False)) perms"
  using assms
  by (auto simp: buildingAccessGuard_def canWriteBuildingResource_def hasScopedPermissions_def
      dest: assertBuildingInOrg_in_org split: if_splits elim!: truthyE)

theorem building_write_guard_witness:
  "\<exists>b org userId. Some ''b1'' = Some b \<and> user_org (fx_user ''mgr'') = Some org
     \<and> user_sub (fx_user ''mgr'') = Some userId \<and> buildingInOrg fx0 b org \<and> [''requests.assign''] \<noteq> []
     \<and> hasAllPermissionMatches (Some (getUserEffectivePermissions fx0 userId (Some org) (Some b) False))
         [''requests.assign'']"
  by (rule building_write_guard [of _ _ True _ _ True]) code_simp

section \<open>The building a request is about\<close>

text \<open>
  The rows of the tables other components own belong to the organisation of their building.
\<close>

definition rows_in_org :: "db \<Rightarrow> scoped_row list \<Rightarrow> bool" where
  "rows_in_org s rows = list_all (\<lambda>r. buildingInOrg s (se_buildingId r) (se_orgId r)) rows"

definition scope_consistent :: "db \<Rightarrow> scope_tables \<Rightarrow> bool" where
  "scope_consistent s st \<longleftrightarrow>
     rows_in_org s (st_parkingSlots st) \<and> rows_in_org s (st_parkingAllocations st)
     \<and> rows_in_org s (st_leases st) \<and> rows_in_org s (st_moveInRequests st)
     \<and> rows_in_org s (st_moveOutRequests st)
     \<and> list_all (\<lambda>c. case cv_buildingId c of None \<Rightarrow> True | Some b \<Rightarrow> buildingInOrg s b (cv_orgId c))
         (st_conversations st)
     \<and> list_all (\<lambda>r. buildingInOrg s (mr_buildingId r) (mr_orgId r)) (requests s)"

lemma find_Some_both: "List.find P xs = Some x \<Longrightarrow> x \<in> set xs \<and> P x"
  by (blast dest: find_SomeD)

lemma findScoped_in_org:
  "rows_in_org s rows \<Longrightarrow> findScoped rows i org = Some b \<Longrightarrow> buildingInOrg s b org"
  by (auto simp: findScoped_def rows_in_org_def list_all_iff dest!: find_Some_both)

lemma findMaintenanceRequest_in_org:
  "scope_consistent s st \<Longrightarrow> findMaintenanceRequestBuildingId s i org = Some b \<Longrightarrow> buildingInOrg s b org"
  by (auto simp: findMaintenanceRequestBuildingId_def scope_consistent_def list_all_iff dest!: find_Some_both)

lemma findRequest_in_org:
  assumes "scope_consistent s st" and "findRequestBuildingId s st i org rq = Some b"
  shows "buildingInOrg s b org"
  using assms findMaintenanceRequest_in_org [OF assms(1), of i org b]
    findScoped_in_org [of s "st_moveInRequests st" i org b]
    findScoped_in_org [of s "st_moveOutRequests st" i org b]
  by (auto simp: findRequestBuildingId_def scope_consistent_def Let_def split: if_splits)

lemma findEntity_in_org:
  assumes "scope_consistent s st" and "findEntityBuildingId st i org rq = Some b"
  shows "buildingInOrg s b org"
  using assms
  by (auto simp: findEntityBuildingId_def scope_consistent_def list_all_iff
      split: if_splits option.splits dest!: find_Some_both)

text \<open>
  A request that names its building only through another record (a slot, an allocation, a
  vehicle, an occupancy, a unit, a lease, a contract, a request or a conversation) is
  resolved to a building of the caller's organisation: an identifier of another organisation
  resolves to nothing. A building the request names itself is passed on as it is, and the
  building guard checks it.
\<close>

theorem resolved_building_in_org:
  assumes "scope_consistent s st" and "resolveForRequest s st rq (Some org) = Some b"
  shows "buildingInOrg s b org
     \<or> Some b \<in> {pr_buildingId rq, qu_buildingId rq, bo_buildingId rq, singleBuildingId (bo_buildingIds rq)}"
  using assms
    findScoped_in_org [of s _ _ org b] findVehicleBuildingId_in_org [of s st _ org b]
    findOccupancyBuildingId_in_org [of s _ org b] findUnitBuildingId_in_org [of s _ org b]
    findRequest_in_org [OF assms(1), of _ org rq b] findEntity_in_org [OF assms(1), of _ org rq b]
  by (auto simp: resolveForRequest_def Let_def scope_consistent_def split: if_splits option.splits)

definition fx_scope :: scope_tables where
  "fx_scope = \<lparr> st_parkingSlots = [\<lparr>se_id = ''s1'', se_orgId = ''o1'', se_buildingId = ''b1''\<rparr>],
     st_parkingAllocations = [], st_vehicles = [], st_leases = [], st_moveInRequests = [],
     st_moveOutRequests = [], st_conversations = [] \<rparr>"

definition fx_lookup :: scope_lookup where
  "fx_lookup = \<lparr> pr_buildingId = None, qu_buildingId = None, bo_buildingId = None, bo_buildingIds = None,
     pr_slotId = Some ''s1'', pr_allocationId = None, pr_vehicleId = None, pr_occupancyId = None,
     pr_unitId = None, pr_leaseId = None, pr_contractId = None, pr_requestId = None, pr_id = None,
     rq_route = None, rq_baseUrl = None, rq_originalUrl = None \<rparr>"

theorem resolved_building_in_org_witness:
  "resolveForRequest fx1 fx_scope fx_lookup (Some ''o1'') = Some ''b1''
   \<and> resolveForRequest fx1 fx_scope fx_lookup (Some ''o2'') = None
   \<and> buildingInOrg fx1 ''b1'' ''o1''"
proof -
  have "resolveForRequest fx1 fx_scope fx_lookup (Some ''o1'') = Some ''b1''"
    and "resolveForRequest fx1 fx_scope fx_lookup (Some ''o2'') = None"
    by code_simp+
  moreover have "scope_consistent fx1 fx_scope" by code_simp
  ultimately show ?thesis
    using resolved_building_in_org [of fx1 fx_scope fx_lookup "''o1''" "''b1''"]
    by (auto simp: fx_lookup_def singleBuildingId_def)
qed

end
