(* ===== verification/PolicyTheorems.thy ===== *)
theory PolicyTheorems
  imports RequestPolicy
begin

text \<open>
  Theorems about the maintenance policy: the route it gives a request and the queue it puts
  the request in.
\<close>

text \<open>
  C28. The route of a request is the one the decision table gives: the order in which the code
  tests estimate, approval, emergency, scope, cost and intake can be replaced by one
  condition per route, and exactly one of the four conditions holds of any request.
\<close>

theorem policy_decision_table:
  "(getMaintenanceRequestPolicyRoute i = route) = route_table i route
   \<and> (\<exists>!p. route_table i p)"
  using route_iff_table [of i] by metis

text \<open>
  An open request is shown in no queue at all exactly when it is not overdue and either its
  owner has refused it, or its owner has approved it while an estimate is still being waited
  for. Every other open request has a primary queue, and it is a queue the request matches.
\<close>

theorem open_request_in_no_queue:
  assumes "pi_status i = Some OPEN"
  shows "(getPrimaryMaintenanceRequestQueue i now = None) =
         (\<not> isMaintenanceRequestOverdue i now
          \<and> (approval_of i = REJECTED \<or> approval_of i = APPROVED \<and> estimate_of i = REQUESTED))
     \<and> pred_option (\<lambda>q. matchesMaintenanceRequestQueue q i now) (getPrimaryMaintenanceRequestQueue i now)"
proof
  show "(getPrimaryMaintenanceRequestQueue i now = None) =
         (\<not> isMaintenanceRequestOverdue i now
          \<and> (approval_of i = REJECTED \<or> approval_of i = APPROVED \<and> estimate_of i = REQUESTED))"
    using open_request_queue [OF assms, of now] approval_cases [of "approval_of i"]
    by (auto simp: primary_queue_None)
  show "pred_option (\<lambda>q. matchesMaintenanceRequestQueue q i now) (getPrimaryMaintenanceRequestQueue i now)"
    by (cases "getPrimaryMaintenanceRequestQueue i now")
      (simp_all add: primary_queue_find, metis find_Some_iff)
qed

definition refused_input :: policy_input where
  "refused_input =
     \<lparr> pi_status = Some OPEN, pi_ownerApprovalStatus = Some REJECTED, pi_estimateStatus = None,
       pi_estimatedAmount = Some 2000, pi_isEmergency = None, pi_emergencySignals = None,
       pi_isLikeForLike = None, pi_isUpgrade = None, pi_isMajorReplacement = None,
       pi_isResponsibilityDisputed = None, pi_createdAt = None, pi_title = None,
       pi_description = None, pi_type = None, pi_priority = None \<rparr>"

theorem open_request_in_no_queue_witness:
  "pi_status refused_input = Some OPEN \<and> getPrimaryMaintenanceRequestQueue refused_input 0 = None"
proof -
  have "\<not> isMaintenanceRequestOverdue refused_input 0" by code_simp
  then show ?thesis using open_request_in_no_queue [of refused_input 0]
    by (simp add: refused_input_def)
qed

end
