(* ===== verification/Paging.thy ===== *)
theory Paging
  imports Prelude "HOL-Library.List_Lexorder" "HOL-Library.Char_ord" "HOL-Library.Product_Lexorder"
begin

text \<open>
  Pages of long lists: the offset pages of \<^verbatim>\<open>common/utils/pagination.ts\<close> and the cursor pages
  that the notification and the delivery task services cut out of an ordered query.

  The contract of a cursor query is the locale \<open>cursor_query\<close>: asked for \<open>n\<close> rows after a
  cursor, the query returns the first \<open>n\<close> of the rows that come after it in one strict
  order. From this alone it follows that a client that follows the cursors sees every row
  exactly once and comes to an end.
\<close>

section \<open>Limits\<close>

definition clampLimit :: "int \<Rightarrow> int \<Rightarrow> int option \<Rightarrow> int" where
  "clampLimit dflt hi limit = min (max (nullish limit dflt) 1) hi"

definition resolvePagination :: "int option \<Rightarrow> int option \<Rightarrow> int option \<Rightarrow> int option \<Rightarrow> int \<times> int" where
  "resolvePagination envMax envDefault limit offset =
     (let maxPageSize = nullish envMax 100;
          defaultPageSize = nullish envDefault 50
      in (min (max (nullish limit defaultPageSize) 1) maxPageSize, max (nullish offset 0) 0))"

lemma clampLimit_bounds: "1 \<le> hi \<Longrightarrow> 1 \<le> clampLimit d hi l \<and> clampLimit d hi l \<le> hi"
  by (simp add: clampLimit_def)

section \<open>Cursors\<close>

text \<open>
  A cursor names a row by its creation date and id; the client holds it as text, which is
  the base64 form of the two and is not modelled.
\<close>

type_synonym cursor = "int \<times> string"

definition afterCursor :: "cursor option \<Rightarrow> cursor \<Rightarrow> bool" where
  "afterCursor c k =
     (case c of
        None \<Rightarrow> True
      | Some (createdAt, i) \<Rightarrow> fst k < createdAt \<or> fst k = createdAt \<and> snd k < i)"

text \<open>\<^verbatim>\<open>orderBy: [{ createdAt: 'desc' }, { id: 'desc' }]\<close>.\<close>

definition newestRows :: "('r \<Rightarrow> cursor) \<Rightarrow> 'r list \<Rightarrow> 'r list" where
  "newestRows key rows = rev (sort_key key rows)"

text \<open>
  The shared end of the list operations: one row more than the limit was asked for, and its
  presence decides whether there is a next page.
\<close>

definition cutPage :: "('r \<Rightarrow> 'k) \<Rightarrow> nat \<Rightarrow> 'r list \<Rightarrow> 'r list \<times> 'k option" where
  "cutPage key limit items =
     (let hasMore = length items > limit;
          sliced = (if hasMore then take limit items else items)
      in (sliced, if hasMore then Some (key (last sliced)) else None))"

section \<open>Following the cursors\<close>

text \<open>
  A client that asks for page after page. The fuel bounds the number of pages; the result
  is the pages and whether the last of them was reached.
\<close>

fun walkPages :: "('k option \<Rightarrow> 'r list \<times> 'k option) \<Rightarrow> nat \<Rightarrow> 'k option \<Rightarrow> 'r list list \<times> bool" where
  "walkPages page 0 c = ([], False)"
| "walkPages page (Suc n) c =
     (case page c of
        (items, None) \<Rightarrow> ([items], True)
      | (items, Some c') \<Rightarrow> (let (rest, done) = walkPages page n (Some c') in (items # rest, done)))"

locale cursor_query =
  fixes wf :: "'s \<Rightarrow> bool"
    and key :: "'r \<Rightarrow> cursor"
    and rows :: "'s \<Rightarrow> 'r list"
    and fetch :: "'s \<Rightarrow> nat \<Rightarrow> cursor option \<Rightarrow> 'r list"
  assumes rows_order: "wf s \<Longrightarrow> sorted_wrt (\<lambda>a b. key b < key a) (rows s)"
    and fetch_rows: "wf s \<Longrightarrow> fetch s n c = take n (filter (\<lambda>r. afterCursor c (key r)) (rows s))"
begin

lemma after_position:
  assumes "wf s" and "0 < i" and "i \<le> length (rows s)"
  shows "filter (\<lambda>r. afterCursor (Some (key (rows s ! (i - 1)))) (key r)) (rows s) = drop i (rows s)"
proof -
  let ?k = "key (rows s ! (i - 1))"
  have cut: "rows s = take i (rows s) @ drop i (rows s)" by simp
  have ord: "key (rows s ! b) < key (rows s ! a)" if "a < b" "b < length (rows s)" for a b
    using sorted_wrt_nth_less [OF rows_order [OF assms(1)] that] .
  have "\<not> key r < ?k" if "r \<in> set (take i (rows s))" for r
  proof -
    from that obtain j where j: "j < i" "r = rows s ! j"
      by (auto simp: in_set_conv_nth)
    show ?thesis
    proof (cases "j = i - 1")
      case True
      with j show ?thesis by simp
    next
      case False
      then have "?k < key (rows s ! j)" using ord [of j "i - 1"] j assms(2,3) by simp
      with j show ?thesis by simp
    qed
  qed
  moreover have "key r < ?k" if r: "r \<in> set (drop i (rows s))" for r
  proof -
    from r obtain j where "j < length (rows s) - i" "r = rows s ! (i + j)"
      by (auto simp: in_set_conv_nth)
    then show ?thesis using ord [of "i - 1" "i + j"] assms(2) by auto
  qed
  ultimately have "filter (\<lambda>r. key r < ?k) (rows s) = drop i (rows s)"
    by (subst cut, simp only: filter_append) (simp add: filter_False filter_True)
  moreover have "afterCursor (Some ?k) (key r) \<longleftrightarrow> key r < ?k" for r
    by (cases "?k"; cases "key r") (auto simp: afterCursor_def)
  ultimately show ?thesis by simp
qed

lemma walk_from:
  assumes "wf s" and "0 < limit" and "i \<le> length (rows s)"
    and "filter (\<lambda>r. afterCursor c (key r)) (rows s) = drop i (rows s)"
    and "length (rows s) - i < fuel"
  shows "\<exists>pages. walkPages (\<lambda>c. cutPage key limit (fetch s (Suc limit) c)) fuel c = (pages, True)
     \<and> concat pages = drop i (rows s) \<and> (\<forall>p \<in> set pages. length p \<le> limit)"
  using assms(3-5)
proof (induction fuel arbitrary: i c)
  case 0
  then show ?case by simp
next
  case (Suc fuel)
  let ?left = "drop i (rows s)"
  have page: "fetch s (Suc limit) c = take (Suc limit) ?left"
    using fetch_rows [OF assms(1)] Suc.prems(2) by simp
  show ?case
  proof (cases "length ?left \<le> limit")
    case True
    then have "cutPage key limit (fetch s (Suc limit) c) = (?left, None)"
      by (simp add: page cutPage_def)
    with True show ?thesis by simp
  next
    case False
    let ?j = "i + limit"
    from False have j: "?j < length (rows s)" by simp
    have sl: "take limit (take (Suc limit) ?left) = take limit ?left" by (simp add: min_def)
    have nth: "last (take limit ?left) = rows s ! (?j - 1)"
      using False assms(2) Suc.prems(1) by (simp add: last_conv_nth min_def)
    have cut: "cutPage key limit (fetch s (Suc limit) c)
      = (take limit ?left, Some (key (rows s ! (?j - 1))))"
      using False nth unfolding page cutPage_def Let_def sl by simp
    have "filter (\<lambda>r. afterCursor (Some (key (rows s ! (?j - 1)))) (key r)) (rows s) = drop ?j (rows s)"
      using after_position [OF assms(1), of ?j] assms(2) j by simp
    moreover have "length (rows s) - ?j < fuel" using Suc.prems(3) assms(2) j by simp
    ultimately obtain rest where
      rest: "walkPages (\<lambda>c. cutPage key limit (fetch s (Suc limit) c)) fuel
               (Some (key (rows s ! (?j - 1)))) = (rest, True)"
        "concat rest = drop ?j (rows s)" "\<forall>p \<in> set rest. length p \<le> limit"
      using Suc.IH [of ?j] j by auto
    have "take limit ?left @ drop ?j (rows s) = ?left"
      by (metis append_take_drop_id drop_drop add.commute)
    with rest show ?thesis by (simp add: cut)
  qed
qed

lemma walk_all:
  assumes "wf s" and "0 < limit" and "length (rows s) < fuel"
  shows "\<exists>pages. walkPages (\<lambda>c. cutPage key limit (fetch s (Suc limit) c)) fuel None = (pages, True)
     \<and> concat pages = rows s \<and> (\<forall>p \<in> set pages. length p \<le> limit)"
  using walk_from [OF assms(1,2), of 0 None fuel] assms(3)
  by (simp add: afterCursor_def)

end

text \<open>How the tables of the model meet the contract: rows in a table have distinct keys.\<close>

lemma newestRows_order:
  assumes "distinct (map key rows)"
  shows "sorted_wrt (\<lambda>a b. key b < key a) (newestRows key rows)"
proof -
  have "sorted (map key (sort_key key rows))" by (rule sorted_sort_key)
  moreover have "distinct (map key (sort_key key rows))"
    using assms by (simp add: distinct_map)
  ultimately have "sorted_wrt (<) (map key (sort_key key rows))"
    by (simp add: strict_sorted_iff)
  then show ?thesis
    by (simp add: newestRows_def sorted_wrt_rev sorted_wrt_map)
qed

lemma newestRows_filter:
  "newestRows key (filter (\<lambda>r. P (key r)) rows) = filter (\<lambda>r. P (key r)) (newestRows key rows)"
  by (simp add: newestRows_def filter_sort rev_filter [symmetric])

lemma set_newestRows [simp]: "set (newestRows key rows) = set rows"
  by (simp add: newestRows_def)

lemma length_newestRows [simp]: "length (newestRows key rows) = length rows"
  by (simp add: newestRows_def)

end
