(* ===== verification/DeliveryTasks.thy ===== *)
theory DeliveryTasks
  imports Schema Paging
begin

text \<open>
  The durable delivery tasks (\<^verbatim>\<open>infra/queue/delivery-task.types.ts\<close>,
  \<^verbatim>\<open>delivery-tasks.repo.ts\<close>, \<^verbatim>\<open>delivery-task-retention.service.ts\<close>): every mail, push message
  and broadcast is a row that records how often it was tried and how it ended.

  The repository keeps a table in memory when the Prisma client has no model for tasks (a
  test double); the model is the branch with the client. JSON values that no code looks
  into (broadcast metadata, the data of other push messages) are strings.
\<close>

section \<open>Data\<close>

datatype task_kind = AUTH_PASSWORD_EMAIL | PUSH_NOTIFICATION | BROADCAST_FANOUT
datatype task_status = TS_PENDING | TS_PROCESSING | TS_SUCCEEDED | TS_FAILED | TS_RETRIED
datatype email_purpose = PASSWORD_RESET | RESIDENT_INVITE | OWNER_INVITE | PROVIDER_INVITE

record email_payload =
  em_email :: string
  em_token :: string
  em_expiresAt :: int
  em_purpose :: email_purpose
  em_inviteeName :: "string option"
  em_inviterName :: "string option"
  em_issuedByUserId :: "string option"
  em_residentInviteTokenHash :: "string option"

datatype notification_type =
    REQUEST_CREATED | REQUEST_ASSIGNED | REQUEST_STATUS_CHANGED | REQUEST_COMMENTED | REQUEST_CANCELED
  | ESTIMATE_REMINDER | OWNER_APPROVAL_REQUESTED | OWNER_APPROVAL_REMINDER | OWNER_REQUEST_APPROVED
  | OWNER_REQUEST_REJECTED | OWNER_REQUEST_OVERRIDDEN | OWNER_ACCESS_GRANTED | OWNER_ACCESS_DISABLED
  | MOVE_IN_REQUEST_CREATED | MOVE_OUT_REQUEST_CREATED | VISITOR_ARRIVED | BROADCAST
  | CONVERSATION_CREATED | MESSAGE_CREATED

text \<open>
  The JSON data of a notification: for a broadcast the fields the fan-out writes, for a
  request event those of the listener, for the rest a JSON value.
\<close>

record request_data =
  rd_requestId :: string
  rd_buildingId :: string
  rd_unitId :: "string option"
  rd_actorUserId :: string
  rd_status :: req_status
  rd_ownerApprovalStatus :: approval_status
  rd_isEmergency :: bool
  rd_commentId :: "string option"

record broadcast_data =
  bc_broadcastId :: string
  bc_buildingIds :: "string list"
  bc_senderUserId :: string
  bc_metadata :: json

datatype notification_data = BroadcastData broadcast_data | RequestData request_data | OtherData json

text \<open>The data of a push message: what a notification batch sends, or any other value.\<close>

datatype push_data = NotificationPush notification_type notification_data | OtherPush string

record push_payload =
  pp_orgId :: string
  pp_userIds :: "string list"
  pp_title :: string
  pp_body :: "string option"
  pp_data :: "push_data option"

record broadcast_payload =
  bp_broadcastId :: string
  bp_orgId :: string
  bp_userIds :: "string list"
  bp_title :: string
  bp_body :: "string option"
  bp_senderUserId :: string
  bp_buildingIds :: "string list"
  bp_metadata :: json

datatype task_payload =
    EmailPayload email_payload
  | PushPayload push_payload
  | BroadcastPayload broadcast_payload

text \<open>
  The type of the payload depends on the kind (\<^verbatim>\<open>DeliveryTaskPayloadByKind\<close>), so the kind of a
  task can be read off its payload.
\<close>

fun payload_kind :: "task_payload \<Rightarrow> task_kind" where
  "payload_kind (EmailPayload p) = AUTH_PASSWORD_EMAIL"
| "payload_kind (PushPayload p) = PUSH_NOTIFICATION"
| "payload_kind (BroadcastPayload p) = BROADCAST_FANOUT"

record delivery_task =
  dt_id :: string
  dt_status :: task_status
  dt_queueName :: string
  dt_jobName :: string
  dt_orgId :: "string option"
  dt_userId :: "string option"
  dt_referenceType :: "string option"
  dt_referenceId :: "string option"
  dt_payload :: task_payload
  dt_attemptCount :: int
  dt_maxAttempts :: int
  dt_queuedAt :: int
  dt_lastAttemptAt :: "int option"
  dt_processingStartedAt :: "int option"
  dt_completedAt :: "int option"
  dt_lastError :: "string option"
  dt_retriedAt :: "int option"
  dt_replacedByTaskId :: "string option"
  dt_createdAt :: int

definition dt_kind :: "delivery_task \<Rightarrow> task_kind" where
  "dt_kind t = payload_kind (dt_payload t)"

record task_input =
  ti_queueName :: string
  ti_jobName :: string
  ti_orgId :: "string option"
  ti_userId :: "string option"
  ti_referenceType :: "string option"
  ti_referenceId :: "string option"
  ti_payload :: task_payload
  ti_maxAttempts :: "int option"

section \<open>The repository\<close>

type_synonym tasks = "delivery_task list"

definition createTask :: "tasks \<Rightarrow> int \<Rightarrow> string \<Rightarrow> task_input \<Rightarrow> (delivery_task \<times> tasks) res" where
  "createTask ts now i input =
     (let t = \<lparr> dt_id = i, dt_status = TS_PENDING, dt_queueName = ti_queueName input,
                dt_jobName = ti_jobName input, dt_orgId = ti_orgId input, dt_userId = ti_userId input,
                dt_referenceType = ti_referenceType input, dt_referenceId = ti_referenceId input,
                dt_payload = ti_payload input, dt_attemptCount = 0,
                dt_maxAttempts = nullish (ti_maxAttempts input) 5, dt_queuedAt = now,
                dt_lastAttemptAt = None, dt_processingStartedAt = None, dt_completedAt = None,
                dt_lastError = None, dt_retriedAt = None, dt_replacedByTaskId = None,
                dt_createdAt = now \<rparr>
      in if find_by dt_id i ts \<noteq> None then Inl UniqueViolation else Inr (t, ts @ [t]))"

definition findTask :: "tasks \<Rightarrow> string \<Rightarrow> delivery_task option" where
  "findTask ts i = find_by dt_id i ts"

definition updateTask ::
  "tasks \<Rightarrow> string \<Rightarrow> (delivery_task \<Rightarrow> delivery_task) \<Rightarrow> (delivery_task \<times> tasks) res" where
  "updateTask ts i f =
     (case find_by dt_id i ts of
        None \<Rightarrow> Inl RecordNotFound
      | Some t \<Rightarrow> Inr (f t, modify_by dt_id i f ts))"

definition truncateError :: "string \<Rightarrow> string" where
  "truncateError e = take 2000 e"

definition upd_processing :: "int \<Rightarrow> delivery_task \<Rightarrow> delivery_task" where
  "upd_processing now t =
     t\<lparr> dt_status := TS_PROCESSING, dt_attemptCount := dt_attemptCount t + 1,
        dt_processingStartedAt := Some (nullish (dt_processingStartedAt t) now),
        dt_lastAttemptAt := Some now, dt_lastError := None \<rparr>"

definition markProcessing :: "tasks \<Rightarrow> int \<Rightarrow> string \<Rightarrow> (delivery_task option \<times> tasks) res" where
  "markProcessing ts now i =
     (case findTask ts i of
        None \<Rightarrow> Inr (None, ts)
      | Some t \<Rightarrow>
          if dt_status t = TS_SUCCEEDED \<or> dt_status t = TS_RETRIED then Inr (Some t, ts)
          else andThen (updateTask ts i (upd_processing now)) (\<lambda>(t', ts'). Inr (Some t', ts')))"

definition claimable :: "delivery_task \<Rightarrow> bool" where
  "claimable t \<longleftrightarrow> dt_status t = TS_FAILED \<and> dt_retriedAt t = None \<and> dt_replacedByTaskId t = None"

definition upd_claim :: "delivery_task \<Rightarrow> delivery_task" where
  "upd_claim t = t\<lparr> dt_status := TS_PROCESSING \<rparr>"

text \<open>
  \<^verbatim>\<open>updateMany\<close> tests and sets in one statement; its count says whether this caller won.
\<close>

definition claimForRetry :: "tasks \<Rightarrow> string \<Rightarrow> delivery_task option \<times> tasks" where
  "claimForRetry ts i =
     (let ts' = map (\<lambda>t. if dt_id t = i \<and> claimable t then upd_claim t else t) ts
      in if filter (\<lambda>t. dt_id t = i \<and> claimable t) ts = [] then (None, ts)
         else (findTask ts' i, ts'))"

definition upd_release :: "delivery_task \<Rightarrow> delivery_task" where
  "upd_release t = t\<lparr> dt_status := TS_FAILED \<rparr>"

definition releaseRetryClaim :: "tasks \<Rightarrow> string \<Rightarrow> (delivery_task \<times> tasks) res" where
  "releaseRetryClaim ts i = updateTask ts i upd_release"

definition upd_retried :: "int \<Rightarrow> string \<Rightarrow> delivery_task \<Rightarrow> delivery_task" where
  "upd_retried now by t =
     t\<lparr> dt_status := TS_RETRIED, dt_retriedAt := Some now, dt_replacedByTaskId := Some by,
        dt_completedAt := Some now \<rparr>"

definition markRetried :: "tasks \<Rightarrow> int \<Rightarrow> string \<Rightarrow> string \<Rightarrow> (delivery_task \<times> tasks) res" where
  "markRetried ts now i by = updateTask ts i (upd_retried now by)"

definition upd_retryScheduled :: "string \<Rightarrow> delivery_task \<Rightarrow> delivery_task" where
  "upd_retryScheduled e t = t\<lparr> dt_status := TS_PENDING, dt_lastError := Some (truncateError e) \<rparr>"

definition markRetryScheduled :: "tasks \<Rightarrow> string \<Rightarrow> string \<Rightarrow> (delivery_task \<times> tasks) res" where
  "markRetryScheduled ts i e = updateTask ts i (upd_retryScheduled e)"

definition upd_failed :: "int \<Rightarrow> string \<Rightarrow> delivery_task \<Rightarrow> delivery_task" where
  "upd_failed now e t =
     t\<lparr> dt_status := TS_FAILED, dt_completedAt := Some now, dt_lastError := Some (truncateError e) \<rparr>"

definition markFailed :: "tasks \<Rightarrow> int \<Rightarrow> string \<Rightarrow> string \<Rightarrow> (delivery_task \<times> tasks) res" where
  "markFailed ts now i e = updateTask ts i (upd_failed now e)"

definition upd_succeeded :: "int \<Rightarrow> delivery_task \<Rightarrow> delivery_task" where
  "upd_succeeded now t =
     t\<lparr> dt_status := TS_SUCCEEDED, dt_completedAt := Some now, dt_lastError := None \<rparr>"

definition markSucceeded :: "tasks \<Rightarrow> int \<Rightarrow> string \<Rightarrow> (delivery_task \<times> tasks) res" where
  "markSucceeded ts now i = updateTask ts i (upd_succeeded now)"

section \<open>Lists and summaries\<close>

record task_filter =
  tf_kind :: "task_kind option"
  tf_status :: "task_status option"
  tf_orgId :: "string option"
  tf_referenceType :: "string option"
  tf_referenceId :: "string option"
  tf_lastErrorContains :: "string option"

definition taskWhere :: "task_filter \<Rightarrow> delivery_task \<Rightarrow> bool" where
  "taskWhere f t \<longleftrightarrow>
     (case tf_kind f of None \<Rightarrow> True | Some k \<Rightarrow> dt_kind t = k)
     \<and> (case tf_status f of None \<Rightarrow> True | Some st \<Rightarrow> dt_status t = st)
     \<and> (truthy (tf_orgId f) \<longrightarrow> dt_orgId t = tf_orgId f)
     \<and> (truthy (tf_referenceType f) \<longrightarrow> dt_referenceType t = tf_referenceType f)
     \<and> (truthy (tf_referenceId f) \<longrightarrow> dt_referenceId t = tf_referenceId f)
     \<and> (truthy (tf_lastErrorContains f) \<longrightarrow>
          (case dt_lastError t of
             None \<Rightarrow> False
           | Some e \<Rightarrow> includesStr (toLowerCase e) (toLowerCase (the (tf_lastErrorContains f)))))"

definition task_key :: "delivery_task \<Rightarrow> cursor" where
  "task_key t = (dt_createdAt t, dt_id t)"

definition listTasks :: "tasks \<Rightarrow> task_filter \<Rightarrow> nat \<Rightarrow> cursor option \<Rightarrow> delivery_task list" where
  "listTasks ts f n c =
     take n (newestRows task_key (filter (\<lambda>t. taskWhere f t \<and> afterCursor c (task_key t)) ts))"

text \<open>
  Counting into an object or a \<^verbatim>\<open>Map\<close>: a key keeps the place where it first occurs.
\<close>

fun tally :: "'k list \<Rightarrow> ('k \<times> nat) list" where
  "tally [] = []"
| "tally (k # ks) = (k, Suc (length (filter (\<lambda>x. x = k) ks))) # tally (filter (\<lambda>x. x \<noteq> k) ks)"

fun kind_rank :: "task_kind \<Rightarrow> nat" where
  "kind_rank AUTH_PASSWORD_EMAIL = 0"
| "kind_rank BROADCAST_FANOUT = 1"
| "kind_rank PUSH_NOTIFICATION = 2"

record task_summary =
  sm_total :: nat
  sm_byStatus :: "(task_status \<times> nat) list"
  sm_byKind :: "(task_kind \<times> nat) list"
  sm_topErrors :: "((task_kind \<times> string) \<times> nat) list"
  sm_failedCount :: nat
  sm_oldestFailedAt :: "int option"
  sm_newestFailedAt :: "int option"

definition topErrors :: "delivery_task list \<Rightarrow> ((task_kind \<times> string) \<times> nat) list" where
  "topErrors rows =
     take 5 (sort_key (\<lambda>((k, e), n). (- int n, kind_rank k))
       (tally (List.map_filter
          (\<lambda>t. case dt_lastError t of
                 None \<Rightarrow> None | Some e \<Rightarrow> if e = [] then None else Some (dt_kind t, e)) rows)))"

definition summarizeTasks :: "tasks \<Rightarrow> task_filter \<Rightarrow> task_summary" where
  "summarizeTasks ts f =
     (let rows = filter (taskWhere f) ts;
          errorRows = take 500 (rev (sort_key dt_createdAt (filter (\<lambda>t. dt_lastError t \<noteq> None) rows)));
          failed = sort_key dt_createdAt (filter (\<lambda>t. dt_status t = TS_FAILED) rows)
      in \<lparr> sm_total = length rows,
           sm_byStatus = tally (map dt_status rows),
           sm_byKind = tally (map dt_kind rows),
           sm_topErrors = topErrors errorRows,
           sm_failedCount = length failed,
           sm_oldestFailedAt = (if failed = [] then None else Some (dt_createdAt (hd failed))),
           sm_newestFailedAt = (if failed = [] then None else Some (dt_createdAt (last failed))) \<rparr>)"

section \<open>Retention\<close>

definition cleanupTerminalOlderThan ::
  "tasks \<Rightarrow> int \<Rightarrow> task_status list \<Rightarrow> bool \<Rightarrow> nat \<times> tasks" where
  "cleanupTerminalOlderThan ts olderThan statuses dryRun =
     (let old = (\<lambda>t. List.member statuses (dt_status t) \<and> dt_createdAt t < olderThan)
      in (length (filter old ts), if dryRun then ts else filter (\<lambda>t. \<not> old t) ts))"

definition terminalStatuses :: "task_status list" where
  "terminalStatuses = [TS_SUCCEEDED, TS_FAILED, TS_RETRIED]"

definition pruneExpiredTasks ::
  "tasks \<Rightarrow> int \<Rightarrow> int \<Rightarrow> int option \<Rightarrow> task_status list option \<Rightarrow> bool \<Rightarrow> nat \<times> tasks" where
  "pruneExpiredTasks ts now retentionDays olderThanDays statuses dryRun =
     (let days = nullish olderThanDays retentionDays;
          olderThan = now - days * 24 * 60 * 60 * 1000
      in cleanupTerminalOlderThan ts olderThan (nullish statuses terminalStatuses) dryRun)"

section \<open>Lemmas\<close>

interpretation task_table: keyed_table dt_id "find_by dt_id" "modify_by dt_id"
  by (rule keyed_table_lists)

definition unique_tasks :: "tasks \<Rightarrow> bool" where
  "unique_tasks ts \<longleftrightarrow> distinct (map dt_id ts)"

lemma upd_task_id [simp]:
  "dt_id (upd_processing now t) = dt_id t" "dt_id (upd_claim t) = dt_id t"
  "dt_id (upd_release t) = dt_id t" "dt_id (upd_retried now by t) = dt_id t"
  "dt_id (upd_retryScheduled e t) = dt_id t" "dt_id (upd_failed now e t) = dt_id t"
  "dt_id (upd_succeeded now t) = dt_id t"
  by (simp_all add: upd_processing_def upd_claim_def upd_release_def upd_retried_def
      upd_retryScheduled_def upd_failed_def upd_succeeded_def)

lemma updateTask_Inr [simp]:
  "updateTask ts i f = Inr (t', ts') \<longleftrightarrow>
     (\<exists>t. findTask ts i = Some t \<and> t' = f t \<and> ts' = modify_by dt_id i f ts)"
  by (auto simp: updateTask_def findTask_def split: option.splits)

lemma findTask_modify:
  assumes "\<And>t. dt_id (f t) = dt_id t"
  shows "findTask (modify_by dt_id i f ts) k = (if k = i then map_option f (findTask ts k) else findTask ts k)"
  using task_table.lookup_modify [OF assms] by (simp add: findTask_def)

lemma findTask_mem: "findTask ts i = Some t \<Longrightarrow> t \<in> set ts \<and> dt_id t = i"
  using task_table.lookup_member by (simp add: findTask_def)

lemma findTask_distinct: "unique_tasks ts \<Longrightarrow> t \<in> set ts \<Longrightarrow> findTask ts (dt_id t) = Some t"
  using find_by_distinct by (fastforce simp: findTask_def unique_tasks_def)

interpretation task_pages: cursor_query "\<lambda>(ts, f). unique_tasks ts" task_key
  "\<lambda>(ts, f). newestRows task_key (filter (taskWhere f) ts)" "\<lambda>(ts, f). listTasks ts f"
proof (unfold_locales, goal_cases)
  case (1 s)
  then have "distinct (map task_key (fst s))"
    by (auto simp: unique_tasks_def distinct_map task_key_def inj_on_def split: prod.splits)
  then show ?case by (auto intro!: newestRows_order simp: distinct_map_filter split: prod.splits)
next
  case (2 s n c)
  then show ?case
    by (simp add: listTasks_def newestRows_filter [symmetric] split: prod.splits)
qed

end
