(* ===== verification/PushDelivery.thy ===== *)
theory PushDelivery
  imports DeliveryTasks
begin

text \<open>
  Push messages: the devices (\<^verbatim>\<open>push-devices.repo.ts\<close>), the receipts
  (\<^verbatim>\<open>push-delivery-receipts.repo.ts\<close>), sending and processing
  (\<^verbatim>\<open>push-notifications.service.ts\<close>) and the receipt monitor
  (\<^verbatim>\<open>push-receipt-monitor.service.ts\<close>). The theory also holds the state of the delivery components
  and the environment they run in.

  The environment is code that is not part of the repository: the Expo service, the mail
  transport, the job queue, the hash of node's crypto module and the database connection (a
  transaction may fail). It answers through the functions of \<open>delivery_env\<close>.
\<close>

section \<open>State and environment\<close>

datatype push_provider = EXPO
datatype push_platform = IOS | ANDROID | WEB | UNKNOWN_PLATFORM
datatype receipt_status = RC_PENDING | RC_DELIVERED | RC_ERROR

record push_device =
  pd_id :: string
  pd_orgId :: "string option"
  pd_userId :: string
  pd_provider :: push_provider
  pd_platform :: push_platform
  pd_token :: string
  pd_deviceId :: "string option"
  pd_appId :: "string option"
  pd_isActive :: bool
  pd_lastSeenAt :: int

record push_receipt =
  rc_taskId :: string
  rc_provider :: push_provider
  rc_platform :: push_platform
  rc_userId :: "string option"
  rc_pushDeviceId :: "string option"
  rc_deviceTokenMasked :: "string option"
  rc_providerTicketId :: "string option"
  rc_providerReceiptId :: "string option"
  rc_status :: receipt_status
  rc_errorCode :: "string option"
  rc_errorMessage :: "string option"
  rc_details :: "string option"
  rc_checkedAt :: "int option"
  rc_createdAt :: int

record notification_row =
  nt_id :: string
  nt_orgId :: string
  nt_recipientUserId :: string
  nt_type :: notification_type
  nt_title :: string
  nt_body :: "string option"
  nt_data :: notification_data
  nt_readAt :: "int option"
  nt_dismissedAt :: "int option"
  nt_createdAt :: int

record reset_token =
  pw_userId :: string
  pw_tokenHash :: string
  pw_purpose :: email_purpose
  pw_expiresAt :: int
  pw_usedAt :: "int option"

datatype invite_status = RI_SENT | RI_FAILED | RI_ACCEPTED

record resident_invite =
  ri_orgId :: string
  ri_userId :: string
  ri_createdByUserId :: "string option"
  ri_email :: string
  ri_status :: invite_status
  ri_tokenHash :: string
  ri_expiresAt :: int
  ri_acceptedAt :: "int option"
  ri_failedAt :: "int option"
  ri_failureReason :: "string option"

text \<open>A job handed to the queue, and a message published to the sockets of a user.\<close>

record queue_job =
  qj_queue :: string
  qj_name :: string
  qj_taskId :: string
  qj_attempts :: int
  qj_backoffMs :: int

record publication =
  pb_orgId :: string
  pb_userId :: string
  pb_event :: string
  pb_subjectId :: "string option"

record delivery_db =
  dl_core :: db
  dl_tasks :: tasks
  dl_devices :: "push_device list"
  dl_receipts :: "push_receipt list"
  dl_notifications :: "notification_row list"
  dl_published :: "publication list"
  dl_resetTokens :: "reset_token list"
  dl_invites :: "resident_invite list"
  dl_jobs :: "queue_job list"

record expo_ticket =
  tk_ok :: bool
  tk_id :: "string option"
  tk_message :: "string option"
  tk_error :: "string option"

datatype expo_reply = Unreachable string | BadStatus string | Tickets "expo_ticket list"
datatype enqueue_reply = Enqueued | QueueDisabled | QueueError string

record delivery_env =
  en_pushProvider :: string
  en_expo :: "push_device list \<Rightarrow> push_payload \<Rightarrow> expo_reply"
  en_mail :: "email_payload \<Rightarrow> string option"
  en_queue :: "string \<Rightarrow> enqueue_reply"
  en_hash :: "string \<Rightarrow> string"
  en_txError :: "string option"
  en_dbError :: string

section \<open>Devices\<close>

record device_input =
  di_provider :: push_provider
  di_platform :: "push_platform option"
  di_token :: string
  di_deviceId :: "string option"
  di_appId :: "string option"

definition upd_device ::
  "int \<Rightarrow> string option \<Rightarrow> string \<Rightarrow> device_input \<Rightarrow> push_device \<Rightarrow> push_device" where
  "upd_device now org userId dv d =
     d\<lparr> pd_orgId := org, pd_userId := userId, pd_provider := di_provider dv,
        pd_platform := nullish (di_platform dv) UNKNOWN_PLATFORM, pd_deviceId := di_deviceId dv,
        pd_appId := di_appId dv, pd_isActive := True, pd_lastSeenAt := now \<rparr>"

definition registerDeviceRow ::
  "push_device list \<Rightarrow> int \<Rightarrow> string \<Rightarrow> string option \<Rightarrow> string \<Rightarrow> device_input \<Rightarrow> push_device list" where
  "registerDeviceRow ds now i org userId dv =
     (if find_by pd_token (di_token dv) ds \<noteq> None
      then modify_by pd_token (di_token dv) (upd_device now org userId dv) ds
      else ds @ [\<lparr> pd_id = i, pd_orgId = org, pd_userId = userId, pd_provider = di_provider dv,
                   pd_platform = nullish (di_platform dv) UNKNOWN_PLATFORM, pd_token = di_token dv,
                   pd_deviceId = di_deviceId dv, pd_appId = di_appId dv, pd_isActive = True,
                   pd_lastSeenAt = now \<rparr>])"

definition findDeviceForUser :: "push_device list \<Rightarrow> string \<Rightarrow> string \<Rightarrow> push_device option" where
  "findDeviceForUser ds i userId = List.find (\<lambda>d. pd_id d = i \<and> pd_userId d = userId) ds"

definition updateDeviceForUser ::
  "push_device list \<Rightarrow> int \<Rightarrow> string \<Rightarrow> string \<Rightarrow> string option \<Rightarrow> device_input \<Rightarrow> (push_device list) res" where
  "updateDeviceForUser ds now i userId org dv =
     (if find_by pd_id i ds = None then Inl RecordNotFound
      else if list_ex (\<lambda>d. pd_token d = di_token dv \<and> pd_id d \<noteq> i) ds then Inl UniqueViolation
      else Inr (modify_by pd_id i (\<lambda>d. (upd_device now org userId dv d)\<lparr>pd_token := di_token dv\<rparr>) ds))"

definition deactivateWhere ::
  "(push_device \<Rightarrow> bool) \<Rightarrow> int option \<Rightarrow> push_device list \<Rightarrow> nat \<times> push_device list" where
  "deactivateWhere P seen ds =
     (length (filter P ds),
      map (\<lambda>d. if P d then d\<lparr> pd_isActive := False, pd_lastSeenAt := nullish seen (pd_lastSeenAt d) \<rparr> else d) ds)"

definition deactivateForUser ::
  "push_device list \<Rightarrow> int \<Rightarrow> string option option \<Rightarrow> string \<Rightarrow> string \<Rightarrow> nat \<times> push_device list" where
  "deactivateForUser ds now org userId token =
     deactivateWhere (\<lambda>d. pd_userId d = userId \<and> pd_token d = token
        \<and> (case org of None \<Rightarrow> True | Some o' \<Rightarrow> pd_orgId d = o')) (Some now) ds"

definition deactivateByIdForUser :: "push_device list \<Rightarrow> int \<Rightarrow> string \<Rightarrow> string \<Rightarrow> nat \<times> push_device list" where
  "deactivateByIdForUser ds now i userId =
     deactivateWhere (\<lambda>d. pd_id d = i \<and> pd_userId d = userId) (Some now) ds"

definition deactivateByIds :: "push_device list \<Rightarrow> string list \<Rightarrow> nat \<times> push_device list" where
  "deactivateByIds ds ids =
     (if ids = [] then (0, ds) else deactivateWhere (\<lambda>d. List.member ids (pd_id d)) None ds)"

text \<open>A user gets the pushes of an organisation as its member or through an owner grant in it.\<close>

definition in_audience :: "db \<Rightarrow> string \<Rightarrow> user_row \<Rightarrow> bool" where
  "in_audience s org x \<longleftrightarrow>
     us_isActive x
     \<and> (us_orgId x = Some org
        \<or> list_ex (\<lambda>g. og_userId g = Some (us_id x) \<and> og_status g = GR_ACTIVE
             \<and> list_ex (\<lambda>o'. ow_id o' = og_ownerId g \<and> ow_orgId o' = org \<and> ow_isActive o') (owners s))
             (ownerGrants s))"

definition listActiveForAudience :: "delivery_db \<Rightarrow> string \<Rightarrow> string list \<Rightarrow> push_device list" where
  "listActiveForAudience s org userIds =
     filter (\<lambda>d. List.member userIds (pd_userId d) \<and> pd_isActive d
        \<and> (case find_by us_id (pd_userId d) (users (dl_core s)) of
             None \<Rightarrow> False | Some x \<Rightarrow> in_audience (dl_core s) org x)) (dl_devices s)"

text \<open>\<^verbatim>\<open>/^(Expo|Exponent)PushToken\[[^\]]+\]$/\<close>.\<close>

definition bracketed :: "string \<Rightarrow> bool" where
  "bracketed s = (case s of
     c # rest \<Rightarrow> c = CHR ''['' \<and> length rest \<ge> 2 \<and> last rest = CHR '']'' \<and> CHR '']'' \<notin> set (butlast rest)
   | [] \<Rightarrow> False)"

definition isExpoPushToken :: "string \<Rightarrow> bool" where
  "isExpoPushToken token \<longleftrightarrow>
     (startsWith token ''ExpoPushToken'' \<and> bracketed (drop 13 token))
     \<or> (startsWith token ''ExponentPushToken'' \<and> bracketed (drop 17 token))"

definition maskToken :: "string \<Rightarrow> string" where
  "maskToken token =
     (if length token \<le> 10 then token
      else take 6 token @ ''...'' @ drop (length token - 4) token)"

definition orUndefined :: "string option \<Rightarrow> string option" where
  "orUndefined x = (case map_option trim x of None \<Rightarrow> None | Some v \<Rightarrow> if v = [] then None else Some v)"

definition normalizeRegisterPayload :: "device_input \<Rightarrow> device_input res" where
  "normalizeRegisterPayload dto =
     (let token = trim (di_token dto)
      in if token = [] then Inl (BadRequest ''Push token is required'')
         else if di_provider dto = EXPO \<and> \<not> isExpoPushToken token
         then Inl (BadRequest ''Invalid Expo push token'')
         else Inr (dto\<lparr> di_platform := Some (nullish (di_platform dto) UNKNOWN_PLATFORM), di_token := token,
                        di_deviceId := orUndefined (di_deviceId dto), di_appId := orUndefined (di_appId dto) \<rparr>))"

definition registerDevice ::
  "delivery_db \<Rightarrow> int \<Rightarrow> string \<Rightarrow> string \<Rightarrow> string option \<Rightarrow> device_input \<Rightarrow> delivery_db res" where
  "registerDevice s now i userId org dto =
     andThen (normalizeRegisterPayload dto) (\<lambda>dv.
     Inr (s\<lparr> dl_devices := registerDeviceRow (dl_devices s) now i org userId dv \<rparr>))"

record device_patch =
  dp_provider :: "push_provider option"
  dp_platform :: "push_platform option"
  dp_token :: "string option"
  dp_deviceId :: "string option"
  dp_appId :: "string option"

definition updateDevice ::
  "delivery_db \<Rightarrow> int \<Rightarrow> string \<Rightarrow> string \<Rightarrow> device_patch \<Rightarrow> string option \<Rightarrow> delivery_db res" where
  "updateDevice s now userId i dto org =
     andThen (orThrow (findDeviceForUser (dl_devices s) i userId) (NotFound ''Push device not found'')) (\<lambda>d.
     let provider = nullish (dp_provider dto) (pd_provider d);
         token = nullish (orUndefined (dp_token dto)) (pd_token d)
     in if token = [] then Inl (BadRequest ''Push token is required'')
        else if provider = EXPO \<and> \<not> isExpoPushToken token then Inl (BadRequest ''Invalid Expo push token'')
        else andThen (updateDeviceForUser (dl_devices s) now i userId org
               \<lparr> di_provider = provider, di_platform = Some (nullish (dp_platform dto) (pd_platform d)),
                 di_token = token,
                 di_deviceId = (if dp_deviceId dto = None then pd_deviceId d else orUndefined (dp_deviceId dto)),
                 di_appId = (if dp_appId dto = None then pd_appId d else orUndefined (dp_appId dto)) \<rparr>) (\<lambda>ds.
             Inr (s\<lparr> dl_devices := ds \<rparr>)))"

definition unregisterDevice :: "delivery_db \<Rightarrow> int \<Rightarrow> string \<Rightarrow> string \<Rightarrow> string \<Rightarrow> delivery_db res" where
  "unregisterDevice s now userId org token =
     (if trim token = [] then Inl (BadRequest ''Push token is required'')
      else Inr (s\<lparr> dl_devices := snd (deactivateForUser (dl_devices s) now (Some (Some org)) userId (trim token)) \<rparr>))"

definition removeDevice :: "delivery_db \<Rightarrow> int \<Rightarrow> string \<Rightarrow> string \<Rightarrow> delivery_db res" where
  "removeDevice s now userId i =
     (case deactivateByIdForUser (dl_devices s) now i userId of
        (n, ds) \<Rightarrow> if n = 0 then Inl (NotFound ''Push device not found'')
                   else Inr (s\<lparr> dl_devices := ds \<rparr>))"

section \<open>Receipts\<close>

text \<open>The ticket id is unique among the receipts that have one.\<close>

definition ticket_ids :: "push_receipt list \<Rightarrow> string list" where
  "ticket_ids rs = List.map_filter rc_providerTicketId rs"

definition createReceipts :: "push_receipt list \<Rightarrow> push_receipt list \<Rightarrow> (push_receipt list) res" where
  "createReceipts rs new =
     (if new = [] then Inr rs
      else if \<not> distinct (ticket_ids (rs @ new)) then Inl UniqueViolation
      else Inr (rs @ new))"

definition listByTaskId :: "push_receipt list \<Rightarrow> string \<Rightarrow> push_receipt list" where
  "listByTaskId rs i = sort_key rc_createdAt (filter (\<lambda>r. rc_taskId r = i) rs)"

record receipt_summary =
  rs_total :: nat
  rs_pending :: nat
  rs_delivered :: nat
  rs_error :: nat
  rs_latestCheckedAt :: "int option"

definition summarizeReceipts :: "push_receipt list \<Rightarrow> receipt_summary option" where
  "summarizeReceipts rs =
     (if rs = [] then None
      else let checked = List.map_filter rc_checkedAt rs in
        Some \<lparr> rs_total = length rs,
               rs_pending = length (filter (\<lambda>r. rc_status r = RC_PENDING) rs),
               rs_delivered = length (filter (\<lambda>r. rc_status r = RC_DELIVERED) rs),
               rs_error = length (filter (\<lambda>r. rc_status r = RC_ERROR) rs),
               rs_latestCheckedAt = (if checked = [] then None else Some (Max (set checked))) \<rparr>)"

text \<open>\<^verbatim>\<open>orderBy checkedAt asc\<close> puts the receipts that were never looked up last.\<close>

definition listPendingExpoReceipts :: "push_receipt list \<Rightarrow> int \<Rightarrow> int \<Rightarrow> push_receipt list" where
  "listPendingExpoReceipts rs now delay =
     take 1000 (sort_key (\<lambda>r. (rc_checkedAt r = None, nullish (rc_checkedAt r) 0, rc_createdAt r))
       (filter (\<lambda>r. rc_provider r = EXPO \<and> rc_status r = RC_PENDING \<and> rc_providerTicketId r \<noteq> None
                    \<and> rc_createdAt r \<le> now - delay) rs))"

definition markLookupAttempted :: "push_receipt list \<Rightarrow> string list \<Rightarrow> int \<Rightarrow> push_receipt list" where
  "markLookupAttempted rs ids now =
     map (\<lambda>r. case rc_providerTicketId r of
                None \<Rightarrow> r
              | Some i \<Rightarrow> if List.member ids i then r\<lparr> rc_checkedAt := Some now \<rparr> else r) rs"

definition updateReceipt ::
  "push_receipt list \<Rightarrow> string \<Rightarrow> (push_receipt \<Rightarrow> push_receipt) \<Rightarrow> (push_receipt \<times> push_receipt list) res" where
  "updateReceipt rs i f =
     (case find_by rc_providerTicketId (Some i) rs of
        None \<Rightarrow> Inl RecordNotFound
      | Some r \<Rightarrow> Inr (f r, modify_by rc_providerTicketId (Some i) f rs))"

record expo_receipt =
  xr_ok :: bool
  xr_message :: "string option"
  xr_error :: "string option"

definition markDelivered ::
  "push_receipt list \<Rightarrow> string \<Rightarrow> expo_receipt \<Rightarrow> int \<Rightarrow> (push_receipt \<times> push_receipt list) res" where
  "markDelivered rs i x now =
     updateReceipt rs i (\<lambda>r. r\<lparr> rc_providerReceiptId := Some i, rc_status := RC_DELIVERED,
        rc_details := xr_error x, rc_errorCode := None, rc_errorMessage := None, rc_checkedAt := Some now \<rparr>)"

definition markErrored ::
  "push_receipt list \<Rightarrow> string \<Rightarrow> expo_receipt \<Rightarrow> int \<Rightarrow> (push_receipt \<times> push_receipt list) res" where
  "markErrored rs i x now =
     updateReceipt rs i (\<lambda>r. r\<lparr> rc_providerReceiptId := Some i, rc_status := RC_ERROR,
        rc_errorCode := xr_error x, rc_errorMessage := xr_message x, rc_details := xr_error x,
        rc_checkedAt := Some now \<rparr>)"

section \<open>Sending\<close>

text \<open>
  \<^verbatim>\<open>for (let index = 0; index < items.length; index += size)\<close>. The loop does not end for size 0;
  its two callers pass 100 and 1000, and the definition stops there.
\<close>

function chunkFrom :: "'a list \<Rightarrow> nat \<Rightarrow> nat \<Rightarrow> 'a list list" where
  "chunkFrom items sz index =
     (if sz = 0 \<or> length items \<le> index then []
      else take sz (drop index items) # chunkFrom items sz (index + sz))"
  by pat_completeness auto
termination by (relation "measure (\<lambda>(items, sz, index). length items - index)") auto

declare chunkFrom.simps [simp del]

definition chunk :: "'a list \<Rightarrow> nat \<Rightarrow> 'a list list" where
  "chunk items sz = chunkFrom items sz 0"

definition receipt_of :: "string \<Rightarrow> int \<Rightarrow> push_device \<Rightarrow> expo_ticket \<Rightarrow> push_receipt" where
  "receipt_of taskId now d t =
     \<lparr> rc_taskId = taskId, rc_provider = pd_provider d, rc_platform = pd_platform d,
       rc_userId = Some (pd_userId d), rc_pushDeviceId = Some (pd_id d),
       rc_deviceTokenMasked = Some (maskToken (pd_token d)), rc_providerTicketId = tk_id t,
       rc_providerReceiptId = tk_id t, rc_status = (if tk_ok t then RC_PENDING else RC_ERROR),
       rc_errorCode = (if tk_ok t then None else tk_error t),
       rc_errorMessage = (if tk_ok t then None else Some (nullish (tk_message t) ''unknown'')),
       rc_details = tk_error t, rc_checkedAt = (if tk_ok t then None else Some now),
       rc_createdAt = now \<rparr>"

definition handleExpoTickets ::
  "delivery_db \<Rightarrow> int \<Rightarrow> string \<Rightarrow> push_device list \<Rightarrow> expo_ticket list \<Rightarrow> delivery_db res" where
  "handleExpoTickets s now taskId ds tickets =
     (let pairs = zip ds tickets;
          invalid = map (pd_id \<circ> fst)
            (filter (\<lambda>(d, t). \<not> tk_ok t \<and> tk_error t = Some ''DeviceNotRegistered'') pairs)
      in andThen (createReceipts (dl_receipts s) (map (\<lambda>(d, t). receipt_of taskId now d t) pairs)) (\<lambda>rs.
         Inr (s\<lparr> dl_receipts := rs, dl_devices := snd (deactivateByIds (dl_devices s) invalid) \<rparr>)))"

text \<open>The error, if one was thrown, and the state it leaves: chunks already sent stay recorded.\<close>

fun sendChunks ::
  "delivery_env \<Rightarrow> int \<Rightarrow> string \<Rightarrow> push_payload \<Rightarrow> push_device list list \<Rightarrow> delivery_db
   \<Rightarrow> string option \<times> delivery_db" where
  "sendChunks env now taskId p [] s = (None, s)"
| "sendChunks env now taskId p (ds # rest) s =
     (case en_expo env ds p of
        Unreachable m \<Rightarrow> (Some m, s)
      | BadStatus st \<Rightarrow> (Some (''Expo push send failed with status '' @ st), s)
      | Tickets ts \<Rightarrow>
          (case handleExpoTickets s now taskId ds ts of
             Inl e \<Rightarrow> (Some (en_dbError env), s)
           | Inr s' \<Rightarrow> sendChunks env now taskId p rest s'))"

definition sendExpo ::
  "delivery_env \<Rightarrow> int \<Rightarrow> string \<Rightarrow> push_device list \<Rightarrow> push_payload \<Rightarrow> delivery_db
   \<Rightarrow> string option \<times> delivery_db" where
  "sendExpo env now taskId ds p s =
     (let recipients = filter (\<lambda>d. pd_provider d = EXPO \<and> isExpoPushToken (pd_token d)) ds
      in if recipients = [] then (None, s)
         else sendChunks env now taskId p (chunk recipients 100) s)"

definition deliverToUsersNow ::
  "delivery_env \<Rightarrow> int \<Rightarrow> string \<Rightarrow> push_payload \<Rightarrow> delivery_db \<Rightarrow> string option \<times> delivery_db" where
  "deliverToUsersNow env now taskId p s =
     (let ds = listActiveForAudience s (pp_orgId p) (pp_userIds p)
      in if ds = [] then (None, s)
         else if en_pushProvider env = ''expo'' then sendExpo env now taskId ds p s
         else (None, s))"

section \<open>Processing a task\<close>

text \<open>
  The three services that process tasks share their beginning and their end. A call gives
  back the error it throws to the queue, if any, and the new state. \<open>beginTask\<close> is everything
  up to the task being marked as processing: it gives nothing when there is nothing to do.
\<close>

definition beginTask ::
  "task_kind \<Rightarrow> delivery_db \<Rightarrow> int \<Rightarrow> string \<Rightarrow> (delivery_task \<times> delivery_db) option" where
  "beginTask kind s now i =
     (case findTask (dl_tasks s) i of
        None \<Rightarrow> None
      | Some t \<Rightarrow>
          if dt_kind t \<noteq> kind \<or> dt_status t = TS_SUCCEEDED \<or> dt_status t = TS_RETRIED then None
          else (case markProcessing (dl_tasks s) now i of
                  Inr (Some p, ts) \<Rightarrow>
                    if dt_status p = TS_SUCCEEDED \<or> dt_status p = TS_RETRIED then None
                    else Some (p, s\<lparr> dl_tasks := ts \<rparr>)
                | _ \<Rightarrow> None))"

definition setTask :: "delivery_db \<Rightarrow> (delivery_task \<times> tasks) res \<Rightarrow> delivery_db" where
  "setTask s r = (case r of Inl e \<Rightarrow> s | Inr (t, ts) \<Rightarrow> s\<lparr> dl_tasks := ts \<rparr>)"

definition failTask :: "delivery_db \<Rightarrow> int \<Rightarrow> delivery_task \<Rightarrow> string \<Rightarrow> delivery_db" where
  "failTask s now p e =
     (if dt_attemptCount p \<ge> dt_maxAttempts p
      then setTask s (markFailed (dl_tasks s) now (dt_id p) e)
      else setTask s (markRetryScheduled (dl_tasks s) (dt_id p) e))"

definition finishTask ::
  "delivery_db \<Rightarrow> int \<Rightarrow> delivery_task \<Rightarrow> string option \<Rightarrow> delivery_db" where
  "finishTask s now p outcome =
     (case outcome of
        None \<Rightarrow> setTask s (markSucceeded (dl_tasks s) now (dt_id p))
      | Some e \<Rightarrow> failTask s now p e)"

definition processDeliveryTask ::
  "delivery_env \<Rightarrow> int \<Rightarrow> string \<Rightarrow> bool \<Rightarrow> delivery_db \<Rightarrow> string option \<times> delivery_db" where
  "processDeliveryTask env now i allowThrow s =
     (case beginTask PUSH_NOTIFICATION s now i of
        None \<Rightarrow> (None, s)
      | Some (p, s1) \<Rightarrow>
          (case dt_payload p of
             PushPayload pl \<Rightarrow>
               (case deliverToUsersNow env now i pl s1 of
                  (outcome, s2) \<Rightarrow>
                    (if allowThrow then outcome else None, finishTask s2 now p outcome))
           | _ \<Rightarrow> (None, s1)))"

text \<open>
  \<^verbatim>\<open>dispatchTask\<close>: the queue takes the job, or, when it is disabled or fails, the task is
  processed on the spot, once.
\<close>

definition queue_job_of :: "int \<Rightarrow> delivery_task \<Rightarrow> queue_job" where
  "queue_job_of backoff t =
     \<lparr> qj_queue = dt_queueName t, qj_name = dt_jobName t, qj_taskId = dt_id t,
       qj_attempts = dt_maxAttempts t, qj_backoffMs = backoff \<rparr>"

definition dispatchPush :: "delivery_env \<Rightarrow> int \<Rightarrow> delivery_task \<Rightarrow> delivery_db \<Rightarrow> delivery_db" where
  "dispatchPush env now t s =
     (case en_queue env (dt_queueName t) of
        Enqueued \<Rightarrow> s\<lparr> dl_jobs := dl_jobs s @ [queue_job_of 10000 t] \<rparr>
      | _ \<Rightarrow> snd (processDeliveryTask env now (dt_id t) False s))"

definition enqueueDelivery ::
  "delivery_env \<Rightarrow> int \<Rightarrow> string \<Rightarrow> push_payload \<Rightarrow> delivery_db \<Rightarrow> (delivery_task \<times> delivery_db) res" where
  "enqueueDelivery env now i p s =
     andThen (createTask (dl_tasks s) now i
        \<lparr> ti_queueName = ''push-deliveries'', ti_jobName = ''notifications.push'',
          ti_orgId = Some (pp_orgId p), ti_userId = None, ti_referenceType = None, ti_referenceId = None,
          ti_payload = PushPayload p, ti_maxAttempts = Some 5 \<rparr>) (\<lambda>(t, ts).
     Inr (t, dispatchPush env now t (s\<lparr> dl_tasks := ts \<rparr>)))"

definition sendToUsers :: "delivery_env \<Rightarrow> int \<Rightarrow> string \<Rightarrow> push_payload \<Rightarrow> delivery_db \<Rightarrow> delivery_db res" where
  "sendToUsers env now i p s =
     (if en_pushProvider env = ''noop'' then Inr s
      else let userIds = filter (\<lambda>u. u \<noteq> []) (js_unique (pp_userIds p))
        in if userIds = [] then Inr s
           else andThen (enqueueDelivery env now i (p\<lparr> pp_userIds := userIds \<rparr>) s) (\<lambda>(t, s'). Inr s'))"

section \<open>The receipt monitor\<close>

text \<open>
  The answer of the receipt lookup: nothing when its status is not ok, else a receipt per
  ticket it knows about. The updates are single statements, so an error in the middle (a
  ticket that no receipt has) leaves the ones before it in place; it is the first component
  of the result.
\<close>

fun applyReceipts ::
  "int \<Rightarrow> (string \<times> expo_receipt) list \<Rightarrow> push_receipt list
   \<Rightarrow> error option \<times> nat \<times> string list \<times> push_receipt list" where
  "applyReceipts now [] rs = (None, 0, [], rs)"
| "applyReceipts now ((i, x) # xs) rs =
     (case (if xr_ok x then markDelivered rs i x now else markErrored rs i x now) of
        Inl e \<Rightarrow> (Some e, 0, [], rs)
      | Inr (r, rs1) \<Rightarrow>
          (case applyReceipts now xs rs1 of
             (e, n, bad, rs2) \<Rightarrow>
               (e, Suc n,
                if \<not> xr_ok x \<and> xr_error x = Some ''DeviceNotRegistered'' \<and> truthy (rc_pushDeviceId r)
                then the (rc_pushDeviceId r) # bad else bad, rs2)))"

fun pollChunks ::
  "(string list \<Rightarrow> (string \<times> expo_receipt) list option) \<Rightarrow> int \<Rightarrow> string list list \<Rightarrow> delivery_db
   \<Rightarrow> error option \<times> nat \<times> delivery_db" where
  "pollChunks lookup now [] s = (None, 0, s)"
| "pollChunks lookup now (ids # rest) s =
     (case lookup ids of
        None \<Rightarrow> pollChunks lookup now rest s
      | Some xs \<Rightarrow>
          (case applyReceipts now xs (markLookupAttempted (dl_receipts s) ids now) of
             (Some e, n, bad, rs) \<Rightarrow> (Some e, n, s\<lparr> dl_receipts := rs \<rparr>)
           | (None, n, bad, rs) \<Rightarrow>
               (case pollChunks lookup now rest
                       (s\<lparr> dl_receipts := rs, dl_devices := snd (deactivateByIds (dl_devices s) bad) \<rparr>) of
                  (e, m, s') \<Rightarrow> (e, n + m, s'))))"

definition pollPendingReceipts ::
  "(string list \<Rightarrow> (string \<times> expo_receipt) list option) \<Rightarrow> int \<Rightarrow> int \<Rightarrow> delivery_db
   \<Rightarrow> error option \<times> nat \<times> delivery_db" where
  "pollPendingReceipts lookup now delay s =
     (let pending = listPendingExpoReceipts (dl_receipts s) now delay
      in if pending = [] then (None, 0, s)
         else pollChunks lookup now
                (chunk (filter (\<lambda>i. i \<noteq> []) (List.map_filter rc_providerTicketId pending)) 1000) s)"

section \<open>Lemmas\<close>

lemma concat_chunkFrom: "0 < sz \<Longrightarrow> concat (chunkFrom items sz index) = drop index items"
proof (induction items sz index rule: chunkFrom.induct)
  case (1 items sz index)
  then show ?case
    by (subst chunkFrom.simps) (auto, metis add.commute append_take_drop_id drop_drop)
qed

lemma concat_chunk: "0 < sz \<Longrightarrow> concat (chunk items sz) = items"
  by (simp add: chunk_def concat_chunkFrom)

lemma chunk_sizes: "c \<in> set (chunkFrom items sz index) \<Longrightarrow> c \<noteq> [] \<and> length c \<le> sz"
proof (induction items sz index rule: chunkFrom.induct)
  case (1 items sz index)
  then show ?case by (subst (asm) chunkFrom.simps) (auto split: if_splits)
qed

end
