(* ===== verification/Notifications.thy ===== *)
theory Notifications
  imports PushDelivery
begin

text \<open>
  The notifications of a user (\<^verbatim>\<open>notifications.repo.ts\<close>, \<^verbatim>\<open>notifications.service.ts\<close>): creation with
  the push message that goes with it, the read and dismissed marks, counts and cursor pages.
  What is published to the sockets of a user is recorded in \<open>dl_published\<close>.
\<close>

section \<open>The repository\<close>

record notification_input =
  ni_orgId :: string
  ni_recipientUserId :: string
  ni_type :: notification_type
  ni_title :: string
  ni_body :: "string option"
  ni_data :: notification_data

definition notification_of :: "int \<Rightarrow> string \<Rightarrow> notification_input \<Rightarrow> notification_row" where
  "notification_of now i ni =
     \<lparr> nt_id = i, nt_orgId = ni_orgId ni, nt_recipientUserId = ni_recipientUserId ni, nt_type = ni_type ni,
       nt_title = ni_title ni, nt_body = ni_body ni, nt_data = ni_data ni, nt_readAt = None,
       nt_dismissedAt = None, nt_createdAt = now \<rparr>"

text \<open>
  The recipient is a foreign key: a row for a user that does not exist is refused. The ids
  are the ones the database generates. Each row is a statement of its own: an error leaves
  the rows before it to the caller, who is or is not in a transaction.
\<close>

fun createManyAndReturn ::
  "db \<Rightarrow> int \<Rightarrow> (nat \<Rightarrow> string) \<Rightarrow> nat \<Rightarrow> notification_input list \<Rightarrow> notification_row list
   \<Rightarrow> error option \<times> notification_row list \<times> notification_row list" where
  "createManyAndReturn core now ids k [] rows = (None, [], rows)"
| "createManyAndReturn core now ids k (ni # nis) rows =
     (if find_by nt_id (ids k) rows \<noteq> None then (Some UniqueViolation, [], rows)
      else if find_by us_id (ni_recipientUserId ni) (users core) = None then (Some RecordNotFound, [], rows)
      else (case createManyAndReturn core now ids (Suc k) nis (rows @ [notification_of now (ids k) ni]) of
              (e, new, rows') \<Rightarrow> (e, notification_of now (ids k) ni # new, rows')))"

definition findByIdForUser :: "notification_row list \<Rightarrow> string \<Rightarrow> string \<Rightarrow> string \<Rightarrow> notification_row option" where
  "findByIdForUser rows i userId org =
     List.find (\<lambda>n. nt_id n = i \<and> nt_recipientUserId n = userId \<and> nt_orgId n = org) rows"

definition findByIdForUserAcrossOrgs ::
  "notification_row list \<Rightarrow> string \<Rightarrow> string \<Rightarrow> string list \<Rightarrow> notification_row option" where
  "findByIdForUserAcrossOrgs rows i userId orgs =
     (if orgs = [] then None
      else List.find (\<lambda>n. nt_id n = i \<and> nt_recipientUserId n = userId \<and> List.member orgs (nt_orgId n)) rows)"

record list_options =
  lo_unreadOnly :: bool
  lo_includeDismissed :: bool
  lo_type :: "notification_type option"

definition notification_key :: "notification_row \<Rightarrow> cursor" where
  "notification_key n = (nt_createdAt n, nt_id n)"

definition notificationWhere :: "string list \<Rightarrow> string \<Rightarrow> list_options \<Rightarrow> notification_row \<Rightarrow> bool" where
  "notificationWhere orgs userId opts n \<longleftrightarrow>
     List.member orgs (nt_orgId n) \<and> nt_recipientUserId n = userId
     \<and> (lo_unreadOnly opts \<longrightarrow> nt_readAt n = None)
     \<and> (\<not> lo_includeDismissed opts \<longrightarrow> nt_dismissedAt n = None)
     \<and> (case lo_type opts of None \<Rightarrow> True | Some ty \<Rightarrow> nt_type n = ty)"

definition listNotificationRows ::
  "notification_row list \<Rightarrow> string list \<Rightarrow> string \<Rightarrow> list_options \<Rightarrow> nat \<Rightarrow> cursor option
   \<Rightarrow> notification_row list" where
  "listNotificationRows rows orgs userId opts n c =
     (if orgs = [] then []
      else take n (newestRows notification_key
        (filter (\<lambda>x. notificationWhere orgs userId opts x \<and> afterCursor c (notification_key x)) rows)))"

definition updateNotifications ::
  "(notification_row \<Rightarrow> bool) \<Rightarrow> (notification_row \<Rightarrow> notification_row) \<Rightarrow> notification_row list
   \<Rightarrow> nat \<times> notification_row list" where
  "updateNotifications P f rows = (length (filter P rows), map (\<lambda>n. if P n then f n else n) rows)"

definition isUnread :: "notification_row \<Rightarrow> bool" where
  "isUnread n \<longleftrightarrow> nt_readAt n = None \<and> nt_dismissedAt n = None"

definition markReadRow :: "notification_row list \<Rightarrow> string \<Rightarrow> string \<Rightarrow> string \<Rightarrow> int \<Rightarrow> nat \<times> notification_row list" where
  "markReadRow rows i userId org readAt =
     updateNotifications (\<lambda>n. nt_id n = i \<and> nt_recipientUserId n = userId \<and> nt_orgId n = org \<and> isUnread n)
       (\<lambda>n. n\<lparr> nt_readAt := Some readAt \<rparr>) rows"

definition markAllReadRows :: "notification_row list \<Rightarrow> string \<Rightarrow> string list \<Rightarrow> int \<Rightarrow> nat \<times> notification_row list" where
  "markAllReadRows rows userId orgs readAt =
     (if orgs = [] then (0, rows)
      else updateNotifications (\<lambda>n. nt_recipientUserId n = userId \<and> List.member orgs (nt_orgId n) \<and> isUnread n)
             (\<lambda>n. n\<lparr> nt_readAt := Some readAt \<rparr>) rows)"

definition markDismissedRow :: "notification_row list \<Rightarrow> string \<Rightarrow> string \<Rightarrow> string \<Rightarrow> int \<Rightarrow> nat \<times> notification_row list" where
  "markDismissedRow rows i userId org dismissedAt =
     updateNotifications (\<lambda>n. nt_id n = i \<and> nt_recipientUserId n = userId \<and> nt_orgId n = org
         \<and> nt_dismissedAt n = None)
       (\<lambda>n. n\<lparr> nt_dismissedAt := Some dismissedAt \<rparr>) rows"

definition clearDismissedRow :: "notification_row list \<Rightarrow> string \<Rightarrow> string \<Rightarrow> string \<Rightarrow> nat \<times> notification_row list" where
  "clearDismissedRow rows i userId org =
     updateNotifications (\<lambda>n. nt_id n = i \<and> nt_recipientUserId n = userId \<and> nt_orgId n = org
         \<and> nt_dismissedAt n \<noteq> None)
       (\<lambda>n. n\<lparr> nt_dismissedAt := None \<rparr>) rows"

definition countUnreadRows :: "notification_row list \<Rightarrow> string \<Rightarrow> string list \<Rightarrow> nat" where
  "countUnreadRows rows userId orgs =
     (if orgs = [] then 0
      else length (filter (\<lambda>n. nt_recipientUserId n = userId \<and> List.member orgs (nt_orgId n) \<and> isUnread n) rows))"

section \<open>The service\<close>

definition publish :: "delivery_db \<Rightarrow> string \<Rightarrow> string \<Rightarrow> string \<Rightarrow> string option \<Rightarrow> delivery_db" where
  "publish s org userId ev i =
     s\<lparr> dl_published := dl_published s @
          [\<lparr> pb_orgId = org, pb_userId = userId, pb_event = ev, pb_subjectId = i \<rparr>] \<rparr>"

fun publishCreatedNotifications :: "string \<Rightarrow> notification_row list \<Rightarrow> delivery_db \<Rightarrow> delivery_db" where
  "publishCreatedNotifications org [] s = s"
| "publishCreatedNotifications org (n # ns) s =
     publishCreatedNotifications org ns (publish s org (nt_recipientUserId n) ''notifications:new'' (Some (nt_id n)))"

definition queuePushForNotificationBatch ::
  "delivery_env \<Rightarrow> int \<Rightarrow> string \<Rightarrow> string \<Rightarrow> string list \<Rightarrow> notification_type \<Rightarrow> string \<Rightarrow> string option
   \<Rightarrow> notification_data \<Rightarrow> delivery_db \<Rightarrow> delivery_db res" where
  "queuePushForNotificationBatch env now taskId org userIds ty title body d s =
     sendToUsers env now taskId
       \<lparr> pp_orgId = org, pp_userIds = userIds, pp_title = title, pp_body = body, pp_data = Some (NotificationPush ty d) \<rparr> s"

text \<open>
  The first component is the error the call throws, if any: rows and publications made
  before it stay.
\<close>

definition createForUsers ::
  "delivery_env \<Rightarrow> int \<Rightarrow> (nat \<Rightarrow> string) \<Rightarrow> string \<Rightarrow> string \<Rightarrow> string list \<Rightarrow> notification_type \<Rightarrow> string
   \<Rightarrow> string option \<Rightarrow> notification_data \<Rightarrow> delivery_db \<Rightarrow> error option \<times> delivery_db" where
  "createForUsers env now ids taskId org userIds ty title body d s =
     (let unique = filter (\<lambda>u. u \<noteq> []) (js_unique userIds)
      in if unique = [] then (None, s)
         else (case createManyAndReturn (dl_core s) now ids 0
                 (map (\<lambda>u. \<lparr> ni_orgId = org, ni_recipientUserId = u, ni_type = ty, ni_title = title,
                             ni_body = body, ni_data = d \<rparr>) unique) (dl_notifications s) of
                 (Some e, new, rows) \<Rightarrow> (Some e, s\<lparr> dl_notifications := rows \<rparr>)
               | (None, new, rows) \<Rightarrow>
                   let s1 = publishCreatedNotifications org new (s\<lparr> dl_notifications := rows \<rparr>)
                   in (case queuePushForNotificationBatch env now taskId org unique ty title body d s1 of
                         Inl e \<Rightarrow> (Some e, s1)
                       | Inr s2 \<Rightarrow> (None, s2))))"

definition notificationPage ::
  "delivery_db \<Rightarrow> string list \<Rightarrow> string \<Rightarrow> list_options \<Rightarrow> int option \<Rightarrow> cursor option
   \<Rightarrow> notification_row list \<times> cursor option" where
  "notificationPage s orgs userId opts limit c =
     (let n = nat (clampLimit 20 100 limit)
      in cutPage notification_key n
           (listNotificationRows (dl_notifications s) orgs userId opts (Suc n) c))"

definition listForUser ::
  "delivery_db \<Rightarrow> string \<Rightarrow> string \<Rightarrow> list_options \<Rightarrow> int option \<Rightarrow> cursor option
   \<Rightarrow> notification_row list \<times> cursor option" where
  "listForUser s userId org opts limit c = notificationPage s [org] userId opts limit c"

definition listForUserAcrossOrgs ::
  "delivery_db \<Rightarrow> string \<Rightarrow> string list \<Rightarrow> list_options \<Rightarrow> int option \<Rightarrow> cursor option
   \<Rightarrow> notification_row list \<times> cursor option" where
  "listForUserAcrossOrgs s userId orgs opts limit c = notificationPage s orgs userId opts limit c"

definition markNotificationRead :: "delivery_db \<Rightarrow> int \<Rightarrow> string \<Rightarrow> string \<Rightarrow> string \<Rightarrow> delivery_db res" where
  "markNotificationRead s now i userId org =
     andThen (orThrow (findByIdForUser (dl_notifications s) i userId org) (NotFound ''Notification not found'')) (\<lambda>n.
     if isUnread n
     then Inr (publish (s\<lparr> dl_notifications := snd (markReadRow (dl_notifications s) i userId org now) \<rparr>)
                 org userId ''notifications:read'' (Some i))
     else Inr s)"

definition markAllRead :: "delivery_db \<Rightarrow> int \<Rightarrow> string \<Rightarrow> string \<Rightarrow> delivery_db" where
  "markAllRead s now userId org =
     (case markAllReadRows (dl_notifications s) userId [org] now of
        (n, rows) \<Rightarrow>
          if n > 0 then publish (s\<lparr> dl_notifications := rows \<rparr>) org userId ''notifications:read_all'' None
          else s\<lparr> dl_notifications := rows \<rparr>)"

definition dismiss :: "delivery_db \<Rightarrow> int \<Rightarrow> string \<Rightarrow> string \<Rightarrow> string \<Rightarrow> delivery_db res" where
  "dismiss s now i userId org =
     andThen (orThrow (findByIdForUser (dl_notifications s) i userId org) (NotFound ''Notification not found'')) (\<lambda>n.
     if nt_dismissedAt n = None
     then Inr (publish (s\<lparr> dl_notifications := snd (markDismissedRow (dl_notifications s) i userId org now) \<rparr>)
                 org userId ''notifications:dismiss'' (Some i))
     else Inr s)"

definition undismiss :: "delivery_db \<Rightarrow> string \<Rightarrow> string \<Rightarrow> string \<Rightarrow> delivery_db res" where
  "undismiss s i userId org =
     andThen (orThrow (findByIdForUser (dl_notifications s) i userId org) (NotFound ''Notification not found'')) (\<lambda>n.
     if nt_dismissedAt n \<noteq> None
     then Inr (publish (s\<lparr> dl_notifications := snd (clearDismissedRow (dl_notifications s) i userId org) \<rparr>)
                 org userId ''notifications:undismiss'' (Some i))
     else Inr s)"

definition countUnread :: "delivery_db \<Rightarrow> string \<Rightarrow> string \<Rightarrow> nat" where
  "countUnread s userId org = countUnreadRows (dl_notifications s) userId [org]"

definition countUnreadAcrossOrgs :: "delivery_db \<Rightarrow> string \<Rightarrow> string list \<Rightarrow> nat" where
  "countUnreadAcrossOrgs s userId orgs = countUnreadRows (dl_notifications s) userId orgs"

definition acrossOrgs ::
  "delivery_db \<Rightarrow> string \<Rightarrow> string \<Rightarrow> string list \<Rightarrow> (string \<Rightarrow> delivery_db res) \<Rightarrow> delivery_db res" where
  "acrossOrgs s i userId orgs f =
     andThen (orThrow (findByIdForUserAcrossOrgs (dl_notifications s) i userId orgs)
       (NotFound ''Notification not found'')) (\<lambda>n. f (nt_orgId n))"

definition markReadAcrossOrgs :: "delivery_db \<Rightarrow> int \<Rightarrow> string \<Rightarrow> string \<Rightarrow> string list \<Rightarrow> delivery_db res" where
  "markReadAcrossOrgs s now i userId orgs =
     acrossOrgs s i userId orgs (markNotificationRead s now i userId)"

definition dismissAcrossOrgs :: "delivery_db \<Rightarrow> int \<Rightarrow> string \<Rightarrow> string \<Rightarrow> string list \<Rightarrow> delivery_db res" where
  "dismissAcrossOrgs s now i userId orgs = acrossOrgs s i userId orgs (dismiss s now i userId)"

definition undismissAcrossOrgs :: "delivery_db \<Rightarrow> string \<Rightarrow> string \<Rightarrow> string list \<Rightarrow> delivery_db res" where
  "undismissAcrossOrgs s i userId orgs = acrossOrgs s i userId orgs (undismiss s i userId)"

fun publishReadAll :: "string \<Rightarrow> string list \<Rightarrow> delivery_db \<Rightarrow> delivery_db" where
  "publishReadAll userId [] s = s"
| "publishReadAll userId (org # orgs) s =
     publishReadAll userId orgs (publish s org userId ''notifications:read_all'' None)"

definition markAllReadAcrossOrgs :: "delivery_db \<Rightarrow> int \<Rightarrow> string \<Rightarrow> string list \<Rightarrow> delivery_db" where
  "markAllReadAcrossOrgs s now userId orgs =
     (case markAllReadRows (dl_notifications s) userId orgs now of
        (n, rows) \<Rightarrow>
          if n > 0 then publishReadAll userId orgs (s\<lparr> dl_notifications := rows \<rparr>)
          else s\<lparr> dl_notifications := rows \<rparr>)"

section \<open>Lemmas\<close>

definition unique_notifications :: "notification_row list \<Rightarrow> bool" where
  "unique_notifications rows \<longleftrightarrow> distinct (map nt_id rows)"

interpretation notification_pages: cursor_query
  "\<lambda>(rows, orgs, userId, opts). unique_notifications rows" notification_key
  "\<lambda>(rows, orgs, userId, opts). if orgs = [] then []
     else newestRows notification_key (filter (notificationWhere orgs userId opts) rows)"
  "\<lambda>(rows, orgs, userId, opts). listNotificationRows rows orgs userId opts"
proof (unfold_locales, goal_cases)
  case (1 s)
  then have "distinct (map notification_key (fst s))"
    by (auto simp: unique_notifications_def distinct_map notification_key_def inj_on_def split: prod.splits)
  then show ?case by (auto intro!: newestRows_order simp: distinct_map_filter split: prod.splits)
next
  case (2 s n c)
  then show ?case
    by (simp add: listNotificationRows_def newestRows_filter [symmetric] split: prod.splits)
qed

lemma notification_of_simps [simp]:
  "nt_id (notification_of now i ni) = i"
  "nt_recipientUserId (notification_of now i ni) = ni_recipientUserId ni"
  "nt_orgId (notification_of now i ni) = ni_orgId ni"
  "nt_data (notification_of now i ni) = ni_data ni"
  "nt_readAt (notification_of now i ni) = None"
  "nt_dismissedAt (notification_of now i ni) = None"
  by (simp_all add: notification_of_def)

lemma createMany_append: "createManyAndReturn core now ids k nis rows = (e, new, rows') \<Longrightarrow> rows' = rows @ new"
  by (induction core now ids k nis rows arbitrary: e new rows' rule: createManyAndReturn.induct)
    (auto split: if_splits prod.splits)

lemma createMany_recipients:
  "createManyAndReturn core now ids k nis rows = (None, new, rows') \<Longrightarrow>
   map (\<lambda>n. (nt_recipientUserId n, nt_data n)) new = map (\<lambda>ni. (ni_recipientUserId ni, ni_data ni)) nis"
  by (induction core now ids k nis rows arbitrary: new rows' rule: createManyAndReturn.induct)
    (auto split: if_splits prod.splits)

lemma createMany_unique:
  "createManyAndReturn core now ids k nis rows = (e, new, rows') \<Longrightarrow> unique_notifications rows
   \<Longrightarrow> unique_notifications rows'"
proof (induction core now ids k nis rows arbitrary: e new rows' rule: createManyAndReturn.induct)
  case (2 core now ids k ni nis rows)
  then show ?case
    by (auto simp: unique_notifications_def find_by_None_iff
        split: if_splits prod.splits)
qed auto

lemma publishCreated_frame [simp]:
  "dl_notifications (publishCreatedNotifications org ns s) = dl_notifications s"
  "dl_tasks (publishCreatedNotifications org ns s) = dl_tasks s"
  "dl_core (publishCreatedNotifications org ns s) = dl_core s"
  by (induction ns arbitrary: s) (simp_all add: publish_def)

end
