(* ===== verification/DeliveryWorkers.thy ===== *)
theory DeliveryWorkers
  imports Notifications
begin

text \<open>
  The services that put deliveries into tasks and work them off: password and invitation mails
  (\<^verbatim>\<open>auth-password-delivery.service.ts\<close> with the rows of \<^verbatim>\<open>auth.repo.ts\<close>), broadcasts
  (\<^verbatim>\<open>broadcast-delivery.service.ts\<close>) and the platform's view of the tasks
  (\<^verbatim>\<open>platform-delivery-tasks.service.ts\<close>): lists, retries and cleanup.

  These services do not run in one transaction: a step that throws leaves the effects of the
  steps before it. A call therefore gives its result or error together with the state.
\<close>

type_synonym 'a run = "'a res \<times> delivery_db"

section \<open>Password mails\<close>

definition createPasswordResetToken ::
  "delivery_db \<Rightarrow> string \<Rightarrow> string \<Rightarrow> int \<Rightarrow> email_purpose \<Rightarrow> delivery_db res" where
  "createPasswordResetToken s userId tokenHash expiresAt purpose =
     (let kept = filter (\<lambda>t. pw_userId t \<noteq> userId) (dl_resetTokens s)
      in if find_by pw_tokenHash tokenHash kept \<noteq> None then Inl UniqueViolation
         else Inr (s\<lparr> dl_resetTokens := kept @
                [\<lparr> pw_userId = userId, pw_tokenHash = tokenHash, pw_purpose = purpose,
                   pw_expiresAt = expiresAt, pw_usedAt = None \<rparr>] \<rparr>))"

definition createResidentInvite ::
  "delivery_db \<Rightarrow> string \<Rightarrow> string \<Rightarrow> string option \<Rightarrow> string \<Rightarrow> string \<Rightarrow> int \<Rightarrow> delivery_db res" where
  "createResidentInvite s org userId createdBy email tokenHash expiresAt =
     (if find_by ri_tokenHash tokenHash (dl_invites s) \<noteq> None then Inl UniqueViolation
      else Inr (s\<lparr> dl_invites := dl_invites s @
             [\<lparr> ri_orgId = org, ri_userId = userId, ri_createdByUserId = createdBy, ri_email = email,
                ri_status = RI_SENT, ri_tokenHash = tokenHash, ri_expiresAt = expiresAt,
                ri_acceptedAt = None, ri_failedAt = None, ri_failureReason = None \<rparr>] \<rparr>))"

definition markResidentInviteFailed :: "delivery_db \<Rightarrow> int \<Rightarrow> string \<Rightarrow> string \<Rightarrow> delivery_db" where
  "markResidentInviteFailed s now tokenHash reason =
     s\<lparr> dl_invites := map (\<lambda>x. if ri_tokenHash x = tokenHash \<and> ri_status x = RI_SENT
          then x\<lparr> ri_status := RI_FAILED, ri_failedAt := Some now, ri_failureReason := Some (take 1000 reason) \<rparr>
          else x) (dl_invites s) \<rparr>"

definition processEmailTask ::
  "delivery_env \<Rightarrow> int \<Rightarrow> string \<Rightarrow> bool \<Rightarrow> delivery_db \<Rightarrow> string option \<times> delivery_db" where
  "processEmailTask env now i allowThrow s =
     (case beginTask AUTH_PASSWORD_EMAIL s now i of
        None \<Rightarrow> (None, s)
      | Some (p, s1) \<Rightarrow>
          (case dt_payload p of
             EmailPayload m \<Rightarrow>
               (case en_mail env m of
                  None \<Rightarrow> (None, finishTask s1 now p None)
                | Some e \<Rightarrow>
                    let s2 = failTask s1 now p e;
                        s3 = (if dt_attemptCount p \<ge> dt_maxAttempts p
                                 \<and> truthy (em_residentInviteTokenHash m)
                              then markResidentInviteFailed s2 now (the (em_residentInviteTokenHash m)) e
                              else s2)
                    in (if allowThrow then Some e else None, s3))
           | _ \<Rightarrow> (None, s1)))"

definition dispatchEmail :: "delivery_env \<Rightarrow> int \<Rightarrow> delivery_task \<Rightarrow> delivery_db \<Rightarrow> delivery_db" where
  "dispatchEmail env now t s =
     (case en_queue env (dt_queueName t) of
        Enqueued \<Rightarrow> s\<lparr> dl_jobs := dl_jobs s @ [queue_job_of 15000 t] \<rparr>
      | _ \<Rightarrow> snd (processEmailTask env now (dt_id t) False s))"

definition createAndDispatchEmail ::
  "delivery_env \<Rightarrow> int \<Rightarrow> string \<Rightarrow> task_input \<Rightarrow> delivery_db \<Rightarrow> delivery_task run" where
  "createAndDispatchEmail env now i input s =
     (case createTask (dl_tasks s) now i input of
        Inl e \<Rightarrow> (Inl e, s)
      | Inr (t, ts) \<Rightarrow> (Inr t, dispatchEmail env now t (s\<lparr> dl_tasks := ts \<rparr>)))"

record reset_request =
  rr_email :: string
  rr_token :: string
  rr_tokenHash :: string
  rr_expiresAt :: int
  rr_purpose :: email_purpose
  rr_inviteeName :: "string option"
  rr_inviterName :: "string option"
  rr_issuedByUserId :: "string option"
  rr_orgId :: "string option"
  rr_userId :: "string option"

definition enqueuePasswordResetEmail ::
  "delivery_env \<Rightarrow> int \<Rightarrow> string \<Rightarrow> reset_request \<Rightarrow> delivery_db \<Rightarrow> delivery_task run" where
  "enqueuePasswordResetEmail env now i r s =
     createAndDispatchEmail env now i
       \<lparr> ti_queueName = ''auth-deliveries'', ti_jobName = ''auth.password-email'', ti_orgId = rr_orgId r,
         ti_userId = rr_userId r, ti_referenceType = Some ''PASSWORD_RESET_TOKEN'',
         ti_referenceId = Some (rr_tokenHash r),
         ti_payload = EmailPayload
           \<lparr> em_email = rr_email r, em_token = rr_token r, em_expiresAt = rr_expiresAt r,
             em_purpose = rr_purpose r, em_inviteeName = rr_inviteeName r, em_inviterName = rr_inviterName r,
             em_issuedByUserId = rr_issuedByUserId r,
             em_residentInviteTokenHash =
               (if rr_purpose r = RESIDENT_INVITE then Some (rr_tokenHash r) else None) \<rparr>,
         ti_maxAttempts = Some 5 \<rparr> s"

definition retryEmailTask ::
  "delivery_env \<Rightarrow> int \<Rightarrow> int \<Rightarrow> string \<Rightarrow> string \<Rightarrow> delivery_task \<Rightarrow> email_payload \<Rightarrow> delivery_db
   \<Rightarrow> delivery_task run" where
  "retryEmailTask env now ttlMinutes i nextToken t m s =
     (if \<not> truthy (dt_userId t)
      then (Inl (Conflict ''Cannot retry auth delivery task without a user reference''), s)
      else case find_by us_id (the (dt_userId t)) (users (dl_core s)) of
        None \<Rightarrow> (Inl (NotFound ''User not found for auth delivery task''), s)
      | Some x \<Rightarrow>
          if \<not> us_isActive x
          then (Inl (Conflict ''Cannot retry auth delivery task for an inactive user''), s)
          else let hash = en_hash env nextToken; expiresAt = now + ttlMinutes * 60 * 1000
          in case createPasswordResetToken s (us_id x) hash expiresAt (em_purpose m) of
               Inl e \<Rightarrow> (Inl e, s)
             | Inr s1 \<Rightarrow>
                 (case (if em_purpose m = RESIDENT_INVITE \<and> truthy (dt_orgId t)
                        then createResidentInvite s1 (the (dt_orgId t)) (us_id x) (em_issuedByUserId m)
                               (us_email x) hash expiresAt
                        else Inr s1) of
                    Inl e \<Rightarrow> (Inl e, s1)
                  | Inr s2 \<Rightarrow>
                      createAndDispatchEmail env now i
                        \<lparr> ti_queueName = dt_queueName t, ti_jobName = dt_jobName t, ti_orgId = dt_orgId t,
                          ti_userId = dt_userId t, ti_referenceType = dt_referenceType t,
                          ti_referenceId = Some hash,
                          ti_payload = EmailPayload (m\<lparr> em_email := us_email x, em_token := nextToken,
                            em_expiresAt := expiresAt,
                            em_residentInviteTokenHash :=
                              (if em_purpose m = RESIDENT_INVITE then Some hash else None) \<rparr>),
                          ti_maxAttempts = Some (dt_maxAttempts t) \<rparr> s2))"

section \<open>Broadcasts\<close>

definition broadcast_data_of :: "broadcast_payload \<Rightarrow> notification_data" where
  "broadcast_data_of b =
     BroadcastData \<lparr> bc_broadcastId = bp_broadcastId b, bc_buildingIds = bp_buildingIds b,
                     bc_senderUserId = bp_senderUserId b, bc_metadata = bp_metadata b \<rparr>"

definition broadcast_inputs :: "broadcast_payload \<Rightarrow> notification_input list" where
  "broadcast_inputs b =
     map (\<lambda>u. \<lparr> ni_orgId = bp_orgId b, ni_recipientUserId = u, ni_type = BROADCAST, ni_title = bp_title b,
                 ni_body = bp_body b, ni_data = broadcast_data_of b \<rparr>) (bp_userIds b)"

text \<open>
  The transaction of the fan-out: the notifications and the success of the task, together or
  not at all.
\<close>

definition fanout ::
  "delivery_env \<Rightarrow> int \<Rightarrow> (nat \<Rightarrow> string) \<Rightarrow> string \<Rightarrow> broadcast_payload \<Rightarrow> delivery_db
   \<Rightarrow> string + (notification_row list \<times> delivery_db)" where
  "fanout env now ids i b s =
     (case en_txError env of
        Some e \<Rightarrow> Inl e
      | None \<Rightarrow>
          if map_option dt_status (findTask (dl_tasks s) i) = Some TS_SUCCEEDED then Inr ([], s)
          else (case createManyAndReturn (dl_core s) now ids 0 (broadcast_inputs b) (dl_notifications s) of
                  (Some e, new, rows) \<Rightarrow> Inl (en_dbError env)
                | (None, new, rows) \<Rightarrow>
                    (case markSucceeded (dl_tasks s) now i of
                       Inl e \<Rightarrow> Inl (en_dbError env)
                     | Inr (t, ts) \<Rightarrow> Inr (new, s\<lparr> dl_notifications := rows, dl_tasks := ts \<rparr>))))"

definition processBroadcastTask ::
  "delivery_env \<Rightarrow> int \<Rightarrow> (nat \<Rightarrow> string) \<Rightarrow> string \<Rightarrow> string \<Rightarrow> bool \<Rightarrow> delivery_db
   \<Rightarrow> string option \<times> delivery_db" where
  "processBroadcastTask env now ids pushId i allowThrow s =
     (case beginTask BROADCAST_FANOUT s now i of
        None \<Rightarrow> (None, s)
      | Some (p, s1) \<Rightarrow>
          (case dt_payload p of
             BroadcastPayload b \<Rightarrow>
               (case fanout env now ids i b s1 of
                  Inl e \<Rightarrow> (if allowThrow then Some e else None, failTask s1 now p e)
                | Inr (new, s2) \<Rightarrow>
                    if new = [] then (None, s2)
                    else let s3 = publishCreatedNotifications (bp_orgId b) new s2
                         in (None, case queuePushForNotificationBatch env now pushId (bp_orgId b)
                                      (bp_userIds b) BROADCAST (bp_title b) (bp_body b)
                                      (broadcast_data_of b) s3 of
                                     Inl e \<Rightarrow> s3 | Inr s4 \<Rightarrow> s4))
           | _ \<Rightarrow> (None, s1)))"

definition dispatchBroadcast ::
  "delivery_env \<Rightarrow> int \<Rightarrow> (nat \<Rightarrow> string) \<Rightarrow> string \<Rightarrow> delivery_task \<Rightarrow> delivery_db \<Rightarrow> delivery_db" where
  "dispatchBroadcast env now ids pushId t s =
     (case en_queue env (dt_queueName t) of
        Enqueued \<Rightarrow> s\<lparr> dl_jobs := dl_jobs s @ [queue_job_of 10000 t] \<rparr>
      | _ \<Rightarrow> snd (processBroadcastTask env now ids pushId (dt_id t) False s))"

definition enqueueFanoutTask ::
  "delivery_env \<Rightarrow> int \<Rightarrow> (nat \<Rightarrow> string) \<Rightarrow> string \<Rightarrow> string \<Rightarrow> broadcast_payload \<Rightarrow> delivery_db
   \<Rightarrow> delivery_task run" where
  "enqueueFanoutTask env now ids pushId i b s =
     (case createTask (dl_tasks s) now i
        \<lparr> ti_queueName = ''broadcast-deliveries'', ti_jobName = ''broadcasts.fanout'',
          ti_orgId = Some (bp_orgId b), ti_userId = Some (bp_senderUserId b),
          ti_referenceType = Some ''BROADCAST'', ti_referenceId = Some (bp_broadcastId b),
          ti_payload = BroadcastPayload b, ti_maxAttempts = Some 5 \<rparr> of
        Inl e \<Rightarrow> (Inl e, s)
      | Inr (t, ts) \<Rightarrow> (Inr t, dispatchBroadcast env now ids pushId t (s\<lparr> dl_tasks := ts \<rparr>)))"

section \<open>The platform's view\<close>

text \<open>What a retry draws from the database and from node: ids of new rows and a new token.\<close>

record fresh =
  fr_taskId :: string
  fr_pushId :: string
  fr_token :: string
  fr_notificationIds :: "nat \<Rightarrow> string"

definition retryByKind ::
  "delivery_env \<Rightarrow> int \<Rightarrow> int \<Rightarrow> fresh \<Rightarrow> delivery_task \<Rightarrow> delivery_db \<Rightarrow> delivery_task run" where
  "retryByKind env now ttlMinutes fr t s =
     (case dt_payload t of
        EmailPayload m \<Rightarrow> retryEmailTask env now ttlMinutes (fr_taskId fr) (fr_token fr) t m s
      | PushPayload p \<Rightarrow>
          (case enqueueDelivery env now (fr_taskId fr) p s of
             Inl e \<Rightarrow> (Inl e, s) | Inr (t', s') \<Rightarrow> (Inr t', s'))
      | BroadcastPayload b \<Rightarrow>
          enqueueFanoutTask env now (fr_notificationIds fr) (fr_pushId fr) (fr_taskId fr) b s)"

definition retryRefusal :: "delivery_task option \<Rightarrow> error" where
  "retryRefusal current =
     (case current of
        None \<Rightarrow> NotFound ''Delivery task not found''
      | Some t \<Rightarrow>
          if dt_status t = TS_RETRIED then Conflict ''Delivery task has already been retried''
          else if dt_status t \<noteq> TS_FAILED then Conflict ''Only failed delivery tasks can be retried''
          else if dt_retriedAt t \<noteq> None \<or> truthy (dt_replacedByTaskId t)
          then Conflict ''Delivery task has already been retried''
          else Conflict ''Delivery task retry is already in progress'')"

definition retryTask :: "delivery_env \<Rightarrow> int \<Rightarrow> int \<Rightarrow> fresh \<Rightarrow> string \<Rightarrow> delivery_db \<Rightarrow> delivery_task run" where
  "retryTask env now ttlMinutes fr i s =
     (if findTask (dl_tasks s) i = None then (Inl (NotFound ''Delivery task not found''), s)
      else case claimForRetry (dl_tasks s) i of
        (None, ts) \<Rightarrow> (Inl (retryRefusal (findTask ts i)), s\<lparr> dl_tasks := ts \<rparr>)
      | (Some claimed, ts) \<Rightarrow>
          (case retryByKind env now ttlMinutes fr claimed (s\<lparr> dl_tasks := ts \<rparr>) of
             (Inl e, s1) \<Rightarrow> (Inl e, setTask s1 (releaseRetryClaim (dl_tasks s1) i))
           | (Inr t', s1) \<Rightarrow> (Inr t', setTask s1 (markRetried (dl_tasks s1) now i (dt_id t')))))"

text \<open>The loop over the failed tasks ends with the first retry that throws.\<close>

fun retryEach ::
  "delivery_env \<Rightarrow> int \<Rightarrow> int \<Rightarrow> (nat \<Rightarrow> fresh) \<Rightarrow> nat \<Rightarrow> string list \<Rightarrow> delivery_db \<Rightarrow> string list run" where
  "retryEach env now ttlMinutes frs k [] s = (Inr [], s)"
| "retryEach env now ttlMinutes frs k (i # is) s =
     (case retryTask env now ttlMinutes (frs k) i s of
        (Inl e, s1) \<Rightarrow> (Inl e, s1)
      | (Inr t, s1) \<Rightarrow>
          (case retryEach env now ttlMinutes frs (Suc k) is s1 of
             (Inl e, s2) \<Rightarrow> (Inl e, s2)
           | (Inr new, s2) \<Rightarrow> (Inr (dt_id t # new), s2)))"

definition retryFailed ::
  "delivery_env \<Rightarrow> int \<Rightarrow> int \<Rightarrow> (nat \<Rightarrow> fresh) \<Rightarrow> task_filter \<Rightarrow> int option \<Rightarrow> delivery_db \<Rightarrow> string list run" where
  "retryFailed env now ttlMinutes frs f limit s =
     (let failed = listTasks (dl_tasks s) (f\<lparr> tf_status := Some TS_FAILED \<rparr>)
            (nat (clampLimit 20 100 limit)) None
      in retryEach env now ttlMinutes frs 0 (map dt_id failed) s)"

definition listTaskPage ::
  "delivery_db \<Rightarrow> task_filter \<Rightarrow> int option \<Rightarrow> cursor option
   \<Rightarrow> (delivery_task \<times> receipt_summary option) list \<times> cursor option" where
  "listTaskPage s f limit c =
     (let n = nat (clampLimit 20 100 limit);
          (items, next) = cutPage task_key n (listTasks (dl_tasks s) f (Suc n) c)
      in (map (\<lambda>t. (t, if dt_kind t = PUSH_NOTIFICATION
                       then summarizeReceipts (listByTaskId (dl_receipts s) (dt_id t)) else None)) items, next))"

definition getTaskById :: "delivery_db \<Rightarrow> string \<Rightarrow> (delivery_task \<times> push_receipt list) res" where
  "getTaskById s i =
     andThen (orThrow (findTask (dl_tasks s) i) (NotFound ''Delivery task not found'')) (\<lambda>t.
     Inr (t, if dt_kind t = PUSH_NOTIFICATION then listByTaskId (dl_receipts s) (dt_id t) else []))"

fun status_rank :: "task_status \<Rightarrow> nat" where
  "status_rank TS_FAILED = 0"
| "status_rank TS_PENDING = 1"
| "status_rank TS_PROCESSING = 2"
| "status_rank TS_RETRIED = 3"
| "status_rank TS_SUCCEEDED = 4"

definition taskSummary :: "delivery_db \<Rightarrow> task_filter \<Rightarrow> task_summary" where
  "taskSummary s f =
     (let sm = summarizeTasks (dl_tasks s) f
      in sm\<lparr> sm_byStatus := sort_key (\<lambda>(st, n). status_rank st) (sm_byStatus sm),
             sm_byKind := sort_key (\<lambda>(k, n). kind_rank k) (sm_byKind sm) \<rparr>)"

definition cleanupTasks ::
  "delivery_db \<Rightarrow> int \<Rightarrow> int \<Rightarrow> int option \<Rightarrow> task_status list option \<Rightarrow> bool \<Rightarrow> (nat \<times> delivery_db) res" where
  "cleanupTasks s now retentionDays olderThanDays statuses dryRun =
     (let sts = (case statuses of None \<Rightarrow> terminalStatuses | Some [] \<Rightarrow> terminalStatuses | Some xs \<Rightarrow> xs)
      in if list_ex (\<lambda>st. \<not> List.member terminalStatuses st) sts
         then Inl (BadRequest ''Cleanup only supports terminal delivery task statuses'')
         else case pruneExpiredTasks (dl_tasks s) now retentionDays olderThanDays (Some sts) dryRun of
                (n, ts) \<Rightarrow> Inr (n, s\<lparr> dl_tasks := ts \<rparr>))"

section \<open>The queue workers\<close>

text \<open>
  One call of a worker by the queue (\<^verbatim>\<open>auth-delivery.worker.ts\<close>, \<^verbatim>\<open>push-delivery.worker.ts\<close>,
  \<^verbatim>\<open>broadcast-delivery.worker.ts\<close>): each listens to one queue, and an error of its service
  goes back to the queue.
\<close>

record job_call =
  jc_env :: delivery_env
  jc_now :: int
  jc_ids :: "nat \<Rightarrow> string"
  jc_pushId :: string

definition emailJob :: "job_call \<Rightarrow> string \<Rightarrow> delivery_db \<Rightarrow> string option \<times> delivery_db" where
  "emailJob c i s = (if i = [] then (None, s) else processEmailTask (jc_env c) (jc_now c) i True s)"

definition pushJob :: "job_call \<Rightarrow> string \<Rightarrow> delivery_db \<Rightarrow> string option \<times> delivery_db" where
  "pushJob c i s = (if i = [] then (None, s) else processDeliveryTask (jc_env c) (jc_now c) i True s)"

definition broadcastJob :: "job_call \<Rightarrow> string \<Rightarrow> delivery_db \<Rightarrow> string option \<times> delivery_db" where
  "broadcastJob c i s =
     (if i = [] then (None, s)
      else processBroadcastTask (jc_env c) (jc_now c) (jc_ids c) (jc_pushId c) i True s)"

definition runJob :: "job_call \<Rightarrow> queue_job \<Rightarrow> delivery_db \<Rightarrow> string option \<times> delivery_db" where
  "runJob c j s =
     (if qj_queue j = ''auth-deliveries'' then emailJob c (qj_taskId j) s
      else if qj_queue j = ''push-deliveries'' then pushJob c (qj_taskId j) s
      else if qj_queue j = ''broadcast-deliveries'' then broadcastJob c (qj_taskId j) s
      else (None, s))"

end
