(* ===== verification/DeliveryMachine.thy ===== *)
theory DeliveryMachine
  imports DeliveryWorkers
begin

text \<open>
  The life of a delivery task. One attempt changes the row of its task by \<open>attempt\<close> and no other
  row: the three workers are shown to implement this step. On it rest the invariant of the
  task table, the history of a row, and the system of all operations on tasks
  (interpretation \<open>delivery_system\<close> of \<open>guarded_system\<close>).
\<close>

section \<open>One attempt\<close>

definition attempt :: "int \<Rightarrow> string option \<Rightarrow> delivery_task \<Rightarrow> delivery_task" where
  "attempt now outcome t =
     (let p = upd_processing now t in
      case outcome of
        None \<Rightarrow> upd_succeeded now p
      | Some e \<Rightarrow> if dt_attemptCount p \<ge> dt_maxAttempts p then upd_failed now e p
                  else upd_retryScheduled e p)"

definition processable :: "task_kind \<Rightarrow> tasks \<Rightarrow> string \<Rightarrow> bool" where
  "processable kind ts i \<longleftrightarrow>
     (case findTask ts i of
        None \<Rightarrow> False
      | Some t \<Rightarrow> dt_kind t = kind \<and> dt_status t \<noteq> TS_SUCCEEDED \<and> dt_status t \<noteq> TS_RETRIED)"

lemma upd_task_fields [simp]:
  "dt_payload (upd_processing now t) = dt_payload t"
  "dt_maxAttempts (upd_processing now t) = dt_maxAttempts t"
  "dt_attemptCount (upd_processing now t) = dt_attemptCount t + 1"
  "dt_status (upd_processing now t) = TS_PROCESSING"
  "dt_status (upd_succeeded now t) = TS_SUCCEEDED"
  "dt_status (upd_failed now e t) = TS_FAILED"
  "dt_status (upd_retryScheduled e t) = TS_PENDING"
  by (simp_all add: upd_processing_def upd_succeeded_def upd_failed_def upd_retryScheduled_def)

lemma attempt_id [simp]: "dt_id (attempt now o' t) = dt_id t"
  by (simp add: attempt_def Let_def split: option.splits)

lemma beginTask_None: "beginTask kind s now i = None \<longleftrightarrow> \<not> processable kind (dl_tasks s) i"
  by (auto simp: beginTask_def processable_def markProcessing_def updateTask_def findTask_def
      split: option.splits)

lemma beginTask_skip [simp]: "\<not> processable kind (dl_tasks s) i \<Longrightarrow> beginTask kind s now i = None"
  by (simp add: beginTask_None)

lemma beginTask_Some:
  "beginTask kind s now i = Some (p, s1) \<longleftrightarrow>
     (\<exists>t. findTask (dl_tasks s) i = Some t \<and> processable kind (dl_tasks s) i \<and> p = upd_processing now t
        \<and> s1 = s\<lparr> dl_tasks := modify_by dt_id i (upd_processing now) (dl_tasks s) \<rparr>)"
  by (auto simp: beginTask_def processable_def markProcessing_def updateTask_def findTask_def
      split: option.splits if_splits)

lemma modify_by_twice:
  assumes "\<And>r. key (f r) = key r"
  shows "modify_by key i g (modify_by key i f rows) = modify_by key i (g \<circ> f) rows"
  by (simp add: modify_by_def assms)

lemma modify_by_cong_found:
  assumes "distinct (map key rows)" and "find_by key i rows = Some r" and "f r = g r"
  shows "modify_by key i f rows = modify_by key i g rows"
  using assms find_by_distinct by (fastforce simp: modify_by_def)

lemma setTask_update [simp]:
  "findTask ts i = Some t \<Longrightarrow>
   setTask s (updateTask ts i f) = s\<lparr> dl_tasks := modify_by dt_id i f ts \<rparr>"
  by (auto simp: setTask_def updateTask_def findTask_def split: option.splits)

text \<open>The end of an attempt: what is written depends on the row as it was when the attempt began.\<close>

lemma finish_attempt:
  assumes u: "unique_tasks ts" and f: "findTask ts i = Some t"
    and s: "dl_tasks s = modify_by dt_id i (upd_processing now) ts"
  shows "dl_tasks (finishTask s now (upd_processing now t) outcome) = modify_by dt_id i (attempt now outcome) ts"
proof -
  have i: "dt_id t = i" using f by (simp add: findTask_mem)
  have found: "findTask (dl_tasks s) i = Some (upd_processing now t)"
    using f by (simp add: s findTask_modify)
  have eq: "modify_by dt_id i (g \<circ> upd_processing now) ts = modify_by dt_id i (attempt now outcome) ts"
    if "g (upd_processing now t) = attempt now outcome t" for g
    using modify_by_cong_found [of dt_id ts i t "g \<circ> upd_processing now" "attempt now outcome"] u f that
    by (simp add: unique_tasks_def findTask_def)
  show ?thesis
  proof (cases outcome)
    case None
    then show ?thesis
      using found i eq [of "upd_succeeded now"]
      by (simp add: finishTask_def markSucceeded_def s modify_by_twice attempt_def)
  next
    case (Some e)
    show ?thesis
    proof (cases "dt_attemptCount t + 1 \<ge> dt_maxAttempts t")
      case True
      with Some show ?thesis
        using found i eq [of "upd_failed now e"]
        by (simp add: finishTask_def failTask_def markFailed_def s modify_by_twice attempt_def)
    next
      case False
      with Some show ?thesis
        using found i eq [of "upd_retryScheduled e"]
        by (simp add: finishTask_def failTask_def markRetryScheduled_def s modify_by_twice attempt_def)
    qed
  qed
qed

section \<open>The workers implement the attempt\<close>

lemma handleExpoTickets_tasks: "handleExpoTickets s now i ds ts = Inr s' \<Longrightarrow> dl_tasks s' = dl_tasks s"
  by (auto simp: handleExpoTickets_def Let_def)

lemma sendChunks_tasks: "dl_tasks (snd (sendChunks env now i p chunks s)) = dl_tasks s"
  by (induction env now i p chunks s rule: sendChunks.induct)
    (auto split: expo_reply.splits sum.splits dest: handleExpoTickets_tasks)

lemma deliverToUsersNow_tasks [simp]: "dl_tasks (snd (deliverToUsersNow env now i p s)) = dl_tasks s"
  by (simp add: deliverToUsersNow_def sendExpo_def Let_def sendChunks_tasks)

lemma processPush_skip:
  "\<not> processable PUSH_NOTIFICATION (dl_tasks s) i \<Longrightarrow> processDeliveryTask env now i b s = (None, s)"
  by (simp add: processDeliveryTask_def)

lemma payload_of_kind:
  "dt_kind t = AUTH_PASSWORD_EMAIL \<longleftrightarrow> (\<exists>m. dt_payload t = EmailPayload m)"
  "dt_kind t = PUSH_NOTIFICATION \<longleftrightarrow> (\<exists>p. dt_payload t = PushPayload p)"
  "dt_kind t = BROADCAST_FANOUT \<longleftrightarrow> (\<exists>b. dt_payload t = BroadcastPayload b)"
  by (cases "dt_payload t"; simp add: dt_kind_def)+

text \<open>
  What an attempt of a kind does to the table of tasks: nothing when the task cannot be
  processed, else the step of its row, with an outcome that is thrown to the queue when the
  caller lets it.
\<close>

definition attempted ::
  "task_kind \<Rightarrow> int \<Rightarrow> string \<Rightarrow> bool \<Rightarrow> tasks \<Rightarrow> string option \<Rightarrow> tasks \<Rightarrow> bool" where
  "attempted kind now i allowThrow ts thrown ts' \<longleftrightarrow>
     (if processable kind ts i
      then (\<exists>outcome. ts' = modify_by dt_id i (attempt now outcome) ts
              \<and> thrown = (if allowThrow then outcome else None))
      else thrown = None \<and> ts' = ts)"

lemma processPush_attempt:
  assumes "unique_tasks (dl_tasks s)" and "processDeliveryTask env now i allowThrow s = (thrown, s')"
  shows "attempted PUSH_NOTIFICATION now i allowThrow (dl_tasks s) thrown (dl_tasks s')"
proof (cases "processable PUSH_NOTIFICATION (dl_tasks s) i")
  case False
  with assms(2) show ?thesis by (simp add: attempted_def processPush_skip)
next
  case True
  then obtain t pl where t: "findTask (dl_tasks s) i = Some t" "dt_payload t = PushPayload pl"
    by (auto simp: processable_def payload_of_kind split: option.splits)
  let ?s1 = "s\<lparr> dl_tasks := modify_by dt_id i (upd_processing now) (dl_tasks s) \<rparr>"
  have b: "beginTask PUSH_NOTIFICATION s now i = Some (upd_processing now t, ?s1)"
    using True t by (simp add: beginTask_Some)
  obtain outcome s2 where d: "deliverToUsersNow env now i pl ?s1 = (outcome, s2)" by fastforce
  then have "dl_tasks s2 = modify_by dt_id i (upd_processing now) (dl_tasks s)"
    using deliverToUsersNow_tasks [of env now i pl ?s1] by simp
  from finish_attempt [OF assms(1) t(1) this, of outcome] show ?thesis
    using assms(2) True t(2) by (auto simp: processDeliveryTask_def b d attempted_def)
qed

lemma markInviteFailed_tasks [simp]: "dl_tasks (markResidentInviteFailed s now h e) = dl_tasks s"
  by (simp add: markResidentInviteFailed_def)

lemma processEmail_attempt:
  assumes "unique_tasks (dl_tasks s)" and "processEmailTask env now i allowThrow s = (thrown, s')"
  shows "attempted AUTH_PASSWORD_EMAIL now i allowThrow (dl_tasks s) thrown (dl_tasks s')"
proof (cases "processable AUTH_PASSWORD_EMAIL (dl_tasks s) i")
  case False
  with assms(2) show ?thesis
    by (simp add: attempted_def processEmailTask_def)
next
  case True
  then obtain t m where t: "findTask (dl_tasks s) i = Some t" "dt_payload t = EmailPayload m"
    by (auto simp: processable_def payload_of_kind split: option.splits)
  let ?s1 = "s\<lparr> dl_tasks := modify_by dt_id i (upd_processing now) (dl_tasks s) \<rparr>"
  have b: "beginTask AUTH_PASSWORD_EMAIL s now i = Some (upd_processing now t, ?s1)"
    using True t by (simp add: beginTask_Some)
  have "dl_tasks (finishTask ?s1 now (upd_processing now t) (en_mail env m))
    = modify_by dt_id i (attempt now (en_mail env m)) (dl_tasks s)"
    by (rule finish_attempt [OF assms(1) t(1)]) simp
  then show ?thesis
    using assms(2) True t(2)
    by (auto simp: processEmailTask_def b attempted_def finishTask_def Let_def split: option.splits if_splits)
qed

text \<open>A broadcast that reaches somebody is followed by a push task; before it stands the attempt.\<close>

lemma fanout_Inr:
  assumes "findTask (dl_tasks s) i = Some p" and "dt_status p \<noteq> TS_SUCCEEDED"
    and "fanout env now ids i b s = Inr (new, s')"
  shows "dl_tasks s' = modify_by dt_id i (upd_succeeded now) (dl_tasks s)"
    and "dl_notifications s' = dl_notifications s @ new"
    and "map (\<lambda>n. (nt_recipientUserId n, nt_data n)) new = map (\<lambda>u. (u, broadcast_data_of b)) (bp_userIds b)"
    and "dl_core s' = dl_core s"
  using assms
  by (auto simp: fanout_def markSucceeded_def broadcast_inputs_def
      split: option.splits if_splits prod.splits sum.splits
      dest: createMany_append createMany_recipients)

definition broadcast_push ::
  "delivery_env \<Rightarrow> int \<Rightarrow> string \<Rightarrow> broadcast_payload \<Rightarrow> delivery_db \<Rightarrow> delivery_db" where
  "broadcast_push env now pushId b s =
     (case queuePushForNotificationBatch env now pushId (bp_orgId b) (bp_userIds b) BROADCAST (bp_title b)
        (bp_body b) (broadcast_data_of b) s of Inl e \<Rightarrow> s | Inr s' \<Rightarrow> s')"

lemma processBroadcast_attempt:
  assumes "unique_tasks (dl_tasks s)"
    and "processBroadcastTask env now ids pushId i allowThrow s = (thrown, s')"
  shows "\<exists>s1. attempted BROADCAST_FANOUT now i allowThrow (dl_tasks s) thrown (dl_tasks s1)
    \<and> (s' = s1 \<or> (\<exists>b. s' = broadcast_push env now pushId b s1))"
proof (cases "processable BROADCAST_FANOUT (dl_tasks s) i")
  case False
  with assms(2) show ?thesis by (auto simp: attempted_def processBroadcastTask_def)
next
  case True
  then obtain t b where t: "findTask (dl_tasks s) i = Some t" "dt_payload t = BroadcastPayload b"
    by (auto simp: processable_def payload_of_kind split: option.splits)
  let ?s1 = "s\<lparr> dl_tasks := modify_by dt_id i (upd_processing now) (dl_tasks s) \<rparr>"
  have b: "beginTask BROADCAST_FANOUT s now i = Some (upd_processing now t, ?s1)"
    using True t by (simp add: beginTask_Some)
  have end': "dl_tasks (finishTask ?s1 now (upd_processing now t) outcome)
    = modify_by dt_id i (attempt now outcome) (dl_tasks s)" for outcome
    by (rule finish_attempt [OF assms(1) t(1)]) simp
  have found: "findTask (dl_tasks ?s1) i = Some (upd_processing now t)"
    using t(1) by (simp add: findTask_modify)
  have id: "dt_id t = i" using t(1) by (simp add: findTask_mem)
  show ?thesis
  proof (cases "fanout env now ids i b ?s1")
    case (Inl e)
    then have "thrown = (if allowThrow then Some e else None)"
      and "s' = finishTask ?s1 now (upd_processing now t) (Some e)"
      using assms(2) t(2) by (auto simp: processBroadcastTask_def b finishTask_def)
    then show ?thesis using True end' by (auto simp: attempted_def)
  next
    case (Inr r)
    then obtain new s2 where r: "fanout env now ids i b ?s1 = Inr (new, s2)" by (cases r) auto
    have "dl_tasks s2 = modify_by dt_id i (attempt now None) (dl_tasks s)"
      using fanout_Inr(1) [OF found _ r] end' [of None] found id
      by (simp add: finishTask_def markSucceeded_def)
    then have at: "attempted BROADCAST_FANOUT now i allowThrow (dl_tasks s) None (dl_tasks s2)"
      using True by (auto simp: attempted_def)
    show ?thesis
    proof (cases "new = []")
      case True
      with r assms(2) t(2) at show ?thesis by (auto simp: processBroadcastTask_def b)
    next
      case False
      with r assms(2) t(2) at show ?thesis
        by (intro exI [of _ "publishCreatedNotifications (bp_orgId b) new s2"])
          (auto simp: processBroadcastTask_def b broadcast_push_def Let_def)
    qed
  qed
qed

section \<open>Invariant and history of the tasks\<close>

definition task_ok :: "delivery_task \<Rightarrow> bool" where
  "task_ok t \<longleftrightarrow>
     0 \<le> dt_attemptCount t \<and> 1 \<le> dt_maxAttempts t
     \<and> (case dt_lastError t of None \<Rightarrow> True | Some e \<Rightarrow> length e \<le> 2000)
     \<and> (case dt_status t of
           TS_PENDING \<Rightarrow> dt_attemptCount t < dt_maxAttempts t
             \<and> (0 < dt_attemptCount t \<longleftrightarrow> dt_lastError t \<noteq> None)
         | TS_PROCESSING \<Rightarrow> False
         | TS_SUCCEEDED \<Rightarrow> 1 \<le> dt_attemptCount t \<and> dt_completedAt t \<noteq> None \<and> dt_lastError t = None
         | TS_FAILED \<Rightarrow> dt_maxAttempts t \<le> dt_attemptCount t \<and> dt_completedAt t \<noteq> None
             \<and> dt_lastError t \<noteq> None
         | TS_RETRIED \<Rightarrow> dt_maxAttempts t \<le> dt_attemptCount t \<and> dt_completedAt t \<noteq> None
             \<and> dt_lastError t \<noteq> None)
     \<and> (dt_status t = TS_RETRIED \<longleftrightarrow> dt_retriedAt t \<noteq> None)
     \<and> (dt_status t = TS_RETRIED \<longleftrightarrow> dt_replacedByTaskId t \<noteq> None)"

definition tasks_inv :: "tasks \<Rightarrow> bool" where
  "tasks_inv ts \<longleftrightarrow> unique_tasks ts \<and> (\<forall>t \<in> set ts. task_ok t)"

definition evolves :: "delivery_task \<Rightarrow> delivery_task \<Rightarrow> bool" where
  "evolves t t' \<longleftrightarrow>
     dt_id t' = dt_id t \<and> dt_payload t' = dt_payload t \<and> dt_maxAttempts t' = dt_maxAttempts t
     \<and> dt_createdAt t' = dt_createdAt t \<and> dt_attemptCount t \<le> dt_attemptCount t'
     \<and> (dt_status t = TS_SUCCEEDED \<or> dt_status t = TS_RETRIED \<longrightarrow> t' = t)"

definition tasks_history :: "tasks \<Rightarrow> tasks \<Rightarrow> bool" where
  "tasks_history ts ts' \<longleftrightarrow> (\<forall>t \<in> set ts. \<exists>t' \<in> set ts'. evolves t t')"

definition task_step :: "tasks \<Rightarrow> tasks \<Rightarrow> bool" where
  "task_step ts ts' \<longleftrightarrow> (tasks_inv ts \<longrightarrow> tasks_inv ts' \<and> tasks_history ts ts')"

lemma evolves_refl [simp]: "evolves t t"
  by (simp add: evolves_def)

lemma evolves_trans: "evolves t u \<Longrightarrow> evolves u v \<Longrightarrow> evolves t v"
  by (auto simp: evolves_def)

lemma tasks_history_refl [simp]: "tasks_history ts ts"
  unfolding tasks_history_def using evolves_refl by blast

lemma tasks_history_append [simp]: "tasks_history ts (ts @ us)"
  unfolding tasks_history_def using evolves_refl by (metis Un_iff set_append)

lemma tasks_history_trans: "tasks_history ts us \<Longrightarrow> tasks_history us vs \<Longrightarrow> tasks_history ts vs"
  unfolding tasks_history_def by (meson evolves_trans)

lemma task_step_refl [simp]: "task_step ts ts"
  by (simp add: task_step_def)

lemma task_step_trans [trans]: "task_step ts us \<Longrightarrow> task_step us vs \<Longrightarrow> task_step ts vs"
  unfolding task_step_def by (meson tasks_history_trans)

lemma task_step_modify:
  assumes "\<And>t. t \<in> set ts \<Longrightarrow> dt_id t = i \<Longrightarrow> task_ok t \<Longrightarrow> task_ok (f t) \<and> evolves t (f t)"
    and "\<And>t. dt_id (f t) = dt_id t"
  shows "task_step ts (modify_by dt_id i f ts)"
  unfolding task_step_def
proof
  assume inv: "tasks_inv ts"
  then have "unique_tasks (modify_by dt_id i f ts)"
    using assms(2) by (simp add: unique_tasks_def tasks_inv_def task_table.keys_modify)
  moreover have "task_ok t" if "t \<in> set (modify_by dt_id i f ts)" for t
    using that inv assms(1) by (auto simp: tasks_inv_def modify_by_def)
  moreover have "tasks_history ts (modify_by dt_id i f ts)"
    unfolding tasks_history_def
  proof
    fix t assume "t \<in> set ts"
    with inv assms(1) show "\<exists>t' \<in> set (modify_by dt_id i f ts). evolves t t'"
      by (intro bexI [of _ "if dt_id t = i then f t else t"]) (auto simp: tasks_inv_def modify_by_def)
  qed
  ultimately show "tasks_inv (modify_by dt_id i f ts) \<and> tasks_history ts (modify_by dt_id i f ts)"
    by (simp add: tasks_inv_def)
qed

lemma attempt_cases:
  "attempt now None t = upd_succeeded now (upd_processing now t)"
  "dt_maxAttempts t \<le> dt_attemptCount t + 1 \<Longrightarrow> attempt now (Some e) t = upd_failed now e (upd_processing now t)"
  "dt_attemptCount t + 1 < dt_maxAttempts t
   \<Longrightarrow> attempt now (Some e) t = upd_retryScheduled e (upd_processing now t)"
  by (simp_all add: attempt_def)

lemma attempt_ok:
  assumes "task_ok t" and "dt_status t \<noteq> TS_SUCCEEDED" and "dt_status t \<noteq> TS_RETRIED"
  shows "task_ok (attempt now outcome t) \<and> evolves t (attempt now outcome t)"
proof -
  have r: "dt_retriedAt t = None" "dt_replacedByTaskId t = None" "0 \<le> dt_attemptCount t" "1 \<le> dt_maxAttempts t"
    using assms by (simp_all add: task_ok_def)
  note fields = task_ok_def evolves_def upd_processing_def upd_succeeded_def upd_failed_def
    upd_retryScheduled_def truncateError_def
  consider (ok) "outcome = None"
    | (last) e where "outcome = Some e" "dt_maxAttempts t \<le> dt_attemptCount t + 1"
    | (again) e where "outcome = Some e" "dt_attemptCount t + 1 < dt_maxAttempts t"
    by (cases outcome) force+
  then show ?thesis
    by cases (use r assms(2,3) in \<open>simp_all add: attempt_cases fields\<close>)
qed

lemma step_attempt:
  assumes "attempted kind now i allowThrow ts thrown ts'"
  shows "task_step ts ts'"
proof (cases "processable kind ts i")
  case False
  with assms show ?thesis by (simp add: attempted_def)
next
  case True
  with assms obtain outcome t where o: "ts' = modify_by dt_id i (attempt now outcome) ts"
    and t: "findTask ts i = Some t" "dt_status t \<noteq> TS_SUCCEEDED" "dt_status t \<noteq> TS_RETRIED"
    by (auto simp: attempted_def processable_def split: option.splits)
  show ?thesis
  proof (cases "unique_tasks ts")
    case True
    then have only: "x = t" if "x \<in> set ts" "dt_id x = i" for x
      using that t(1) findTask_distinct [OF True that(1)] by simp
    show ?thesis unfolding o
      by (rule task_step_modify) (use only t attempt_ok in blast, simp)
  qed (simp add: task_step_def tasks_inv_def)
qed

lemma createTask_row:
  assumes "createTask ts now i input = Inr (t, ts')"
  shows "ts' = ts @ [t]" and "dt_id t = i" and "dt_payload t = ti_payload input" and "dt_status t = TS_PENDING"
    and "dt_attemptCount t = 0" and "dt_maxAttempts t = nullish (ti_maxAttempts input) 5"
    and "dt_queueName t = ti_queueName input" and "findTask ts i = None"
  using assms by (auto simp: createTask_def Let_def findTask_def split: if_splits)

lemma step_create:
  assumes "createTask ts now i input = Inr (t, ts')" and "1 \<le> nullish (ti_maxAttempts input) 5"
  shows "task_step ts ts'"
  using assms
  by (auto simp: createTask_def Let_def task_step_def tasks_inv_def unique_tasks_def find_by_None_iff
      task_ok_def split: if_splits)

text \<open>
  Putting something into tasks only adds rows, also when it is worked off on the spot: the rows
  there before, a claimed one among them, stay as they are.
\<close>

definition appends :: "tasks \<Rightarrow> tasks \<Rightarrow> bool" where
  "appends ts ts' \<longleftrightarrow>
     (unique_tasks ts \<longrightarrow> (\<exists>new. ts' = ts @ new \<and> unique_tasks ts' \<and> (\<forall>t \<in> set new. task_ok t)))"

lemma appends_refl [simp]: "appends ts ts"
  by (simp add: appends_def)

lemma appends_trans: "appends ts us \<Longrightarrow> appends us vs \<Longrightarrow> appends ts vs"
  by (fastforce simp: appends_def)

lemma appends_step: "appends ts ts' \<Longrightarrow> task_step ts ts'"
  by (auto simp: appends_def task_step_def tasks_inv_def)

lemma appends_find:
  "appends ts ts' \<Longrightarrow> unique_tasks ts \<Longrightarrow> findTask ts i = Some t \<Longrightarrow> findTask ts' i = Some t"
  by (auto simp: appends_def findTask_def find_by_append)

lemma attempt_new:
  assumes "attempted kind now i b (ts @ [t]) thrown ts'" and "unique_tasks (ts @ [t])"
    and "dt_id t = i" and "task_ok t"
  shows "\<exists>t'. ts' = ts @ [t'] \<and> task_ok t' \<and> evolves t t'"
proof (cases "processable kind (ts @ [t]) i")
  case False
  with assms show ?thesis by (auto simp: attempted_def)
next
  case True
  from assms(2,3) have "i \<notin> dt_id ` set ts" by (simp add: unique_tasks_def)
  then have other: "r \<in> set ts \<Longrightarrow> dt_id r \<noteq> i" for r by blast
  from assms(2,3) have "findTask (ts @ [t]) i = Some t"
    using findTask_distinct [of "ts @ [t]" t] by simp
  with True have "dt_status t \<noteq> TS_SUCCEEDED" "dt_status t \<noteq> TS_RETRIED" by (auto simp: processable_def)
  then have "task_ok (attempt now outcome t) \<and> evolves t (attempt now outcome t)" for outcome
    using assms(4) attempt_ok by blast
  moreover have "modify_by dt_id i (attempt now outcome) (ts @ [t]) = ts @ [attempt now outcome t]" for outcome
    using other assms(3) by (simp add: modify_by_def map_idI)
  ultimately show ?thesis using assms(1) True by (auto simp: attempted_def)
qed

lemma create_then:
  assumes "createTask ts now i input = Inr (t, ts1)" and "1 \<le> nullish (ti_maxAttempts input) 5"
    and "unique_tasks ts1 \<Longrightarrow> ts2 = ts1 \<or> (\<exists>kind b thrown. attempted kind now i b ts1 thrown ts2)"
  shows "appends ts ts2"
  unfolding appends_def
proof
  assume u: "unique_tasks ts"
  have t: "ts1 = ts @ [t]" "dt_id t = i" "task_ok t" "unique_tasks (ts @ [t])"
    using assms(1,2) u
    by (auto simp: createTask_def Let_def unique_tasks_def find_by_None_iff task_ok_def split: if_splits)
  with assms(3) consider "ts2 = ts @ [t]"
    | kind b thrown where "attempted kind now i b (ts @ [t]) thrown ts2" by blast
  then show "\<exists>new. ts2 = ts @ new \<and> unique_tasks ts2 \<and> (\<forall>t \<in> set new. task_ok t)"
  proof cases
    case 1
    with t show ?thesis by simp
  next
    case 2
    from attempt_new [OF this t(4,2,3)] obtain t' where "ts2 = ts @ [t']" "task_ok t'" "evolves t t'" by blast
    with t(4) show ?thesis by (auto simp: evolves_def unique_tasks_def)
  qed
qed

section \<open>The operations\<close>

text \<open>Work that follows the creation of a task: a job in the queue, or one attempt.\<close>

definition dispatched :: "int \<Rightarrow> string \<Rightarrow> tasks \<Rightarrow> tasks \<Rightarrow> bool" where
  "dispatched now i ts ts' \<longleftrightarrow>
     (unique_tasks ts \<longrightarrow> ts' = ts \<or> (\<exists>kind b thrown. attempted kind now i b ts thrown ts'))"

lemma dispatchPush_dispatched: "dispatched now (dt_id t) (dl_tasks s) (dl_tasks (dispatchPush env now t s))"
  using processPush_attempt [OF _ prod.collapse [symmetric], where s = s and env = env and now = now
      and i = "dt_id t" and allowThrow = False]
  unfolding dispatched_def dispatchPush_def by (auto split: enqueue_reply.splits)

lemma dispatchEmail_dispatched: "dispatched now (dt_id t) (dl_tasks s) (dl_tasks (dispatchEmail env now t s))"
  using processEmail_attempt [OF _ prod.collapse [symmetric], where s = s and env = env and now = now
      and i = "dt_id t" and allowThrow = False]
  unfolding dispatched_def dispatchEmail_def by (auto split: enqueue_reply.splits)

lemma create_dispatched:
  assumes "createTask ts now i input = Inr (t, ts1)" and "1 \<le> nullish (ti_maxAttempts input) 5"
    and "dispatched now (dt_id t) ts1 ts2"
  shows "appends ts ts2"
  using create_then [OF assms(1,2)] assms(3) createTask_row(2) [OF assms(1)]
  by (auto simp: dispatched_def)

lemma enqueueDelivery_appends:
  "enqueueDelivery env now i p s = Inr (t, s') \<Longrightarrow> appends (dl_tasks s) (dl_tasks s')"
  by (auto simp: enqueueDelivery_def elim!: create_dispatched intro: dispatchPush_dispatched
      [where s = "s\<lparr>dl_tasks := ts\<rparr>" for ts, simplified])

lemma sendToUsers_appends: "sendToUsers env now i p s = Inr s' \<Longrightarrow> appends (dl_tasks s) (dl_tasks s')"
  by (auto simp: sendToUsers_def Let_def split: if_splits dest: enqueueDelivery_appends)

lemma broadcast_push_appends: "appends (dl_tasks s) (dl_tasks (broadcast_push env now pushId b s))"
  by (auto simp: broadcast_push_def queuePushForNotificationBatch_def split: sum.splits dest: sendToUsers_appends)

lemma createForUsers_appends:
  "createForUsers env now ids i org us ty title body d s = (e, s') \<Longrightarrow> appends (dl_tasks s) (dl_tasks s')"
  by (auto simp: createForUsers_def queuePushForNotificationBatch_def Let_def
      split: if_splits prod.splits option.splits sum.splits dest: sendToUsers_appends)

lemma createAndDispatchEmail_appends:
  assumes "createAndDispatchEmail env now i input s = (r, s')" and "1 \<le> nullish (ti_maxAttempts input) 5"
  shows "appends (dl_tasks s) (dl_tasks s')"
  using assms
  by (auto simp: createAndDispatchEmail_def split: sum.splits elim!: create_dispatched
      intro: dispatchEmail_dispatched [where s = "s\<lparr>dl_tasks := ts\<rparr>" for ts, simplified])

lemma enqueueFanoutTask_appends:
  assumes "enqueueFanoutTask env now ids pushId i b s = (r, s')"
  shows "appends (dl_tasks s) (dl_tasks s')"
proof (cases r)
  case (Inl e)
  with assms show ?thesis by (auto simp: enqueueFanoutTask_def split: sum.splits)
next
  case (Inr t)
  with assms obtain input ts where c: "createTask (dl_tasks s) now i input = Inr (t, ts)"
    "ti_maxAttempts input = Some 5" "s' = dispatchBroadcast env now ids pushId t (s\<lparr> dl_tasks := ts \<rparr>)"
    by (auto simp: enqueueFanoutTask_def split: sum.splits intro: that)
  let ?s1 = "s\<lparr> dl_tasks := ts \<rparr>"
  show ?thesis
  proof (cases "en_queue env (dt_queueName t) = Enqueued \<or> \<not> unique_tasks (dl_tasks s)")
    case True
    then show ?thesis using c create_dispatched [OF c(1), of ts]
      by (auto simp: dispatchBroadcast_def dispatched_def appends_def)
  next
    case False
    then have "unique_tasks (dl_tasks ?s1)"
      using createTask_row [OF c(1)] by (auto simp: unique_tasks_def findTask_def find_by_None_iff)
    moreover have "processBroadcastTask env now ids pushId i False ?s1 = (fst (processBroadcastTask env now ids pushId i False ?s1), s')"
      using c False createTask_row(2) [OF c(1)] by (auto simp: dispatchBroadcast_def split: enqueue_reply.splits)
    ultimately obtain s2 where
      "attempted BROADCAST_FANOUT now i False ts (fst (processBroadcastTask env now ids pushId i False ?s1)) (dl_tasks s2)"
      and s2: "s' = s2 \<or> (\<exists>b. s' = broadcast_push env now pushId b s2)"
      using processBroadcast_attempt by fastforce
    then have "appends (dl_tasks s) (dl_tasks s2)"
      using create_then [OF c(1)] c(2) by auto
    with s2 show ?thesis using broadcast_push_appends appends_trans by blast
  qed
qed

lemma createResidentInvite_tasks: "createResidentInvite s org u c e h x = Inr s' \<Longrightarrow> dl_tasks s' = dl_tasks s"
  by (auto simp: createResidentInvite_def split: if_splits)

lemma createPasswordResetToken_tasks: "createPasswordResetToken s u h x p = Inr s' \<Longrightarrow> dl_tasks s' = dl_tasks s"
  by (auto simp: createPasswordResetToken_def Let_def split: if_splits)

lemma retryEmailTask_appends:
  assumes "retryEmailTask env now ttl i tok t m s = (r, s')" and "1 \<le> dt_maxAttempts t"
  shows "appends (dl_tasks s) (dl_tasks s')"
  using assms
  by (auto simp: retryEmailTask_def Let_def split: if_splits option.splits sum.splits
      dest!: createPasswordResetToken_tasks createResidentInvite_tasks createAndDispatchEmail_appends)

lemma retryByKind_appends:
  assumes "retryByKind env now ttl fr t s = (r, s')" and "1 \<le> dt_maxAttempts t"
  shows "appends (dl_tasks s) (dl_tasks s')"
  using assms
  by (auto simp: retryByKind_def split: task_payload.splits sum.splits
      dest: retryEmailTask_appends enqueueDelivery_appends enqueueFanoutTask_appends)

text \<open>A claim that is released leaves the row as it was; one that is used up ends in \<open>TS_RETRIED\<close>.\<close>

lemma claim_spec:
  assumes "unique_tasks ts" and "claimForRetry ts i = (r, ts')"
  shows "(\<exists>t. findTask ts i = Some t \<and> claimable t \<and> r = Some (upd_claim t) \<and> ts' = modify_by dt_id i upd_claim ts)
    \<or> (r = None \<and> ts' = ts \<and> (\<forall>t. findTask ts i = Some t \<longrightarrow> \<not> claimable t))"
proof (cases "\<exists>t. findTask ts i = Some t \<and> claimable t")
  case True
  then obtain t where t: "findTask ts i = Some t" "claimable t" by blast
  have only: "x = t" if "x \<in> set ts" "dt_id x = i" for x
    using that t(1) findTask_distinct [OF assms(1) that(1)] by simp
  have "map (\<lambda>t. if dt_id t = i \<and> claimable t then upd_claim t else t) ts = modify_by dt_id i upd_claim ts"
    using only t(2) by (auto simp: modify_by_def)
  moreover have "filter (\<lambda>t. dt_id t = i \<and> claimable t) ts \<noteq> []"
    using t findTask_mem [OF t(1)] by (auto simp: filter_empty_conv)
  ultimately show ?thesis
    using assms(2) t by (auto simp: claimForRetry_def Let_def findTask_modify)
next
  case False
  then have "filter (\<lambda>t. dt_id t = i \<and> claimable t) ts = []"
    using findTask_distinct [OF assms(1)] by (auto simp: filter_empty_conv)
  with False assms(2) show ?thesis by (auto simp: claimForRetry_def Let_def)
qed

lemma release_claim: "claimable t \<Longrightarrow> upd_release (upd_claim t) = t"
  by (simp add: claimable_def upd_release_def upd_claim_def)

lemma retried_ok:
  "task_ok t \<Longrightarrow> claimable t \<Longrightarrow> task_ok (upd_retried now by (upd_claim t)) \<and> evolves t (upd_retried now by (upd_claim t))"
  by (simp add: task_ok_def evolves_def claimable_def upd_retried_def upd_claim_def)

lemma modify_append:
  "i \<notin> dt_id ` set new \<Longrightarrow> modify_by dt_id i f (ts @ new) = modify_by dt_id i f ts @ new"
  by (auto simp: modify_by_def intro!: map_idI)

lemma retryTask_spec:
  assumes u: "unique_tasks (dl_tasks s)" and ok: "\<forall>t \<in> set (dl_tasks s). task_ok t"
    and r: "retryTask env now ttl fr i s = (r, s')"
  shows "(\<exists>e. r = Inl e) \<and> appends (dl_tasks s) (dl_tasks s')
    \<or> (\<exists>t t' s1. r = Inr t' \<and> findTask (dl_tasks s) i = Some t \<and> claimable t
        \<and> retryByKind env now ttl fr (upd_claim t) (s\<lparr> dl_tasks := modify_by dt_id i upd_claim (dl_tasks s) \<rparr>) = (Inr t', s1)
        \<and> appends (modify_by dt_id i (upd_retried now (dt_id t') \<circ> upd_claim) (dl_tasks s)) (dl_tasks s'))"
proof (cases "\<exists>t. findTask (dl_tasks s) i = Some t \<and> claimable t")
  case False
  then show ?thesis
    using r claim_spec [OF u prod.collapse [symmetric], where i = i]
    by (auto simp: retryTask_def split: if_splits prod.splits option.splits)
next
  case True
  then obtain t where t: "findTask (dl_tasks s) i = Some t" "claimable t" by blast
  let ?s0 = "s\<lparr> dl_tasks := modify_by dt_id i upd_claim (dl_tasks s) \<rparr>"
  have c: "claimForRetry (dl_tasks s) i = (Some (upd_claim t), dl_tasks ?s0)"
    using t claim_spec [OF u prod.collapse [symmetric], where i = i] by (simp add: prod_eq_iff)
  obtain k s1 where k: "retryByKind env now ttl fr (upd_claim t) ?s0 = (k, s1)" by fastforce
  have "unique_tasks (dl_tasks ?s0)" using u by (simp add: unique_tasks_def task_table.keys_modify)
  moreover have "1 \<le> dt_maxAttempts (upd_claim t)"
    using ok findTask_mem [OF t(1)] by (simp add: task_ok_def upd_claim_def)
  ultimately obtain new where new: "dl_tasks s1 = dl_tasks ?s0 @ new" "unique_tasks (dl_tasks s1)"
      "\<forall>t \<in> set new. task_ok t"
    using retryByKind_appends [OF k] by (auto simp: appends_def)
  have found: "findTask (dl_tasks s1) i = Some (upd_claim t)"
    using t new(1) by (simp add: findTask_def find_by_append find_by_modify_by)
  have fresh: "i \<notin> dt_id ` set new"
    using new(1,2) findTask_mem [OF t(1)]
    by (auto simp: unique_tasks_def task_table.keys_modify)
  have upd: "modify_by dt_id i f (dl_tasks s1) = modify_by dt_id i (f \<circ> upd_claim) (dl_tasks s) @ new" for f
    using fresh by (simp add: new(1) modify_append modify_by_twice)
  have app: "appends (modify_by dt_id i (f \<circ> upd_claim) (dl_tasks s)) (modify_by dt_id i f (dl_tasks s1))"
    if "\<And>t. dt_id (f t) = dt_id t" for f
    unfolding upd appends_def
    using new(2,3) that by (auto simp: unique_tasks_def new(1) task_table.keys_modify)
  show ?thesis
  proof (cases k)
    case (Inl e)
    have "modify_by dt_id i (upd_release \<circ> upd_claim) (dl_tasks s) = modify_by dt_id i id (dl_tasks s)"
      using u t release_claim by (intro modify_by_cong_found) (auto simp: unique_tasks_def findTask_def)
    also have "\<dots> = dl_tasks s" by (auto simp: modify_by_def intro: map_idI)
    finally show ?thesis
      using r t c k Inl found app [of upd_release] by (auto simp: retryTask_def releaseRetryClaim_def)
  next
    case (Inr t')
    then show ?thesis
      using r t c k found app [of "upd_retried now (dt_id t')"] by (auto simp: retryTask_def markRetried_def)
  qed
qed

lemma retryTask_step: "task_step (dl_tasks s) (dl_tasks (snd (retryTask env now ttl fr i s)))"
proof (cases "tasks_inv (dl_tasks s)")
  case True
  then have inv: "unique_tasks (dl_tasks s)" "\<forall>t \<in> set (dl_tasks s). task_ok t" by (auto simp: tasks_inv_def)
  have retried: "task_step (dl_tasks s) (modify_by dt_id i (upd_retried now by \<circ> upd_claim) (dl_tasks s))"
    if "findTask (dl_tasks s) i = Some t" "claimable t" for t "by"
  proof (rule task_step_modify)
    fix x assume "x \<in> set (dl_tasks s)" "dt_id x = i" "task_ok x"
    moreover from this have "x = t" using that(1) findTask_distinct [OF inv(1)] by fastforce
    ultimately show "task_ok ((upd_retried now by \<circ> upd_claim) x) \<and> evolves x ((upd_retried now by \<circ> upd_claim) x)"
      using retried_ok that(2) by simp
  qed simp
  show ?thesis
    using retryTask_spec [OF inv prod.collapse [symmetric], where i = i and env = env and now = now and ttl = ttl and fr = fr]
    by (meson appends_step retried task_step_trans)
qed (simp add: task_step_def)

lemma retryEach_step: "task_step (dl_tasks s) (dl_tasks (snd (retryEach env now ttl frs k is s)))"
proof (induction env now ttl frs k "is" s rule: retryEach.induct)
  case (2 env now ttl frs k i "is" s)
  then show ?case
    using retryTask_step [of s env now ttl "frs k" i]
    by (auto split: prod.splits sum.splits intro: task_step_trans)
qed simp

section \<open>The system\<close>

text \<open>
  The operations on tasks; what an operation needs beside its arguments comes from the
  environment it runs in.
\<close>

datatype delivery_op =
    EnqueueEmail string reset_request
  | SendPush string push_payload
  | Notify "nat \<Rightarrow> string" string string "string list" notification_type string "string option" notification_data
  | EnqueueBroadcast "nat \<Rightarrow> string" string string broadcast_payload
  | RunJob job_call queue_job
  | RetryTask int fresh string
  | RetryFailed int "nat \<Rightarrow> fresh" task_filter "int option"
  | PollReceipts "string list \<Rightarrow> (string \<times> expo_receipt) list option" int

fun deliver :: "delivery_env \<times> int \<times> delivery_op \<Rightarrow> delivery_db \<Rightarrow> delivery_db" where
  "deliver (env, now, EnqueueEmail i r) s = snd (enqueuePasswordResetEmail env now i r s)"
| "deliver (env, now, SendPush i p) s = (case sendToUsers env now i p s of Inl e \<Rightarrow> s | Inr s' \<Rightarrow> s')"
| "deliver (env, now, Notify ids i org us ty title body d) s =
     snd (createForUsers env now ids i org us ty title body d s)"
| "deliver (env, now, EnqueueBroadcast ids pushId i b) s = snd (enqueueFanoutTask env now ids pushId i b s)"
| "deliver (env, now, RunJob c j) s = snd (runJob c j s)"
| "deliver (env, now, RetryTask ttl fr i) s = snd (retryTask env now ttl fr i s)"
| "deliver (env, now, RetryFailed ttl frs f limit) s = snd (retryFailed env now ttl frs f limit s)"
| "deliver (env, now, PollReceipts look delay) s = snd (snd (pollPendingReceipts look now delay s))"

lemma step_if_unique: "(unique_tasks ts \<Longrightarrow> task_step ts ts') \<Longrightarrow> task_step ts ts'"
  by (auto simp: task_step_def tasks_inv_def)

lemma pollChunks_tasks: "dl_tasks (snd (snd (pollChunks look now chunks s))) = dl_tasks s"
  by (induction chunks arbitrary: s) (simp_all add: case_prod_beta split: option.splits)

lemma processBroadcast_step: "task_step (dl_tasks s) (dl_tasks (snd (processBroadcastTask env now ids pushId i b s)))"
proof (rule step_if_unique)
  assume u: "unique_tasks (dl_tasks s)"
  show "task_step (dl_tasks s) (dl_tasks (snd (processBroadcastTask env now ids pushId i b s)))"
    using processBroadcast_attempt [OF u prod.collapse [symmetric], where env = env and now = now and ids = ids
        and pushId = pushId and i = i and allowThrow = b]
    by (metis appends_step broadcast_push_appends step_attempt task_step_trans)
qed

lemma runJob_step: "task_step (dl_tasks s) (dl_tasks (snd (runJob c j s)))"
  using step_attempt [OF processEmail_attempt [OF _ prod.collapse [symmetric]]]
    step_attempt [OF processPush_attempt [OF _ prod.collapse [symmetric]]]
  by (auto simp: runJob_def emailJob_def pushJob_def broadcastJob_def processBroadcast_step intro: step_if_unique)

lemma deliver_step: "task_step (dl_tasks s) (dl_tasks (deliver (env, now, op) s))"
proof (cases op)
  case (EnqueueEmail i r)
  then show ?thesis
    by (simp add: enqueuePasswordResetEmail_def
        appends_step [OF createAndDispatchEmail_appends [OF prod.collapse [symmetric]]])
next
  case (SendPush i p)
  then show ?thesis by (auto split: sum.splits dest: sendToUsers_appends intro: appends_step)
next
  case (Notify ids i org us ty title body d)
  then show ?thesis using appends_step [OF createForUsers_appends [OF prod.collapse [symmetric]]] by simp
next
  case (EnqueueBroadcast ids pushId i b)
  then show ?thesis using appends_step [OF enqueueFanoutTask_appends [OF prod.collapse [symmetric]]] by simp
next
  case (RunJob c j)
  then show ?thesis by (simp add: runJob_step)
next
  case (RetryTask ttl fr i)
  then show ?thesis by (simp add: retryTask_step)
next
  case (RetryFailed ttl frs f limit)
  then show ?thesis by (simp add: retryFailed_def Let_def retryEach_step)
next
  case (PollReceipts look delay)
  then show ?thesis by (simp add: pollPendingReceipts_def Let_def pollChunks_tasks)
qed

interpretation delivery_system: guarded_system "\<lambda>op s. Inr (deliver op s)" "\<lambda>s. tasks_inv (dl_tasks s)"
  "\<lambda>s s'. tasks_history (dl_tasks s) (dl_tasks s')"
proof
  fix s s' :: delivery_db and op
  assume "tasks_inv (dl_tasks s)" and "Inr (deliver op s) = Inr s'"
  then show "tasks_inv (dl_tasks s')" and "tasks_history (dl_tasks s) (dl_tasks s')"
    using deliver_step [of s "fst op" "fst (snd op)" "snd (snd op)"] by (auto simp: task_step_def)
qed (auto intro: tasks_history_trans)

definition runDelivery :: "(delivery_env \<times> int \<times> delivery_op) list \<Rightarrow> delivery_db \<Rightarrow> delivery_db" where
  "runDelivery ops s = run_ops (\<lambda>op s. Inr (deliver op s)) ops s"

lemmas runDelivery_inv = delivery_system.run_inv [folded runDelivery_def]
lemmas runDelivery_history = delivery_system.run_allowed [folded runDelivery_def]

section \<open>The calls of a job\<close>

fun queue_of_kind :: "task_kind \<Rightarrow> string" where
  "queue_of_kind AUTH_PASSWORD_EMAIL = ''auth-deliveries''"
| "queue_of_kind PUSH_NOTIFICATION = ''push-deliveries''"
| "queue_of_kind BROADCAST_FANOUT = ''broadcast-deliveries''"

lemma attempted_row:
  assumes "attempted (dt_kind t) now i True ts thrown ts'" and "findTask ts i = Some t"
    and "dt_status t \<noteq> TS_SUCCEEDED" and "dt_status t \<noteq> TS_RETRIED" and "unique_tasks ts"
  shows "findTask ts' i = Some (attempt now thrown t) \<and> unique_tasks ts'"
  using assms
  by (auto simp: attempted_def processable_def findTask_modify unique_tasks_def task_table.keys_modify)

text \<open>A call of the job of a task that is not finished is one attempt, whatever its kind.\<close>

lemma runJob_row:
  assumes "findTask (dl_tasks s) i = Some t" and "unique_tasks (dl_tasks s)" and "i \<noteq> []"
    and "dt_status t \<noteq> TS_SUCCEEDED" and "dt_status t \<noteq> TS_RETRIED"
    and "qj_taskId j = i" and "qj_queue j = queue_of_kind (dt_kind t)"
    and "runJob c j s = (thrown, s')"
  shows "findTask (dl_tasks s') i = Some (attempt (jc_now c) thrown t) \<and> unique_tasks (dl_tasks s')"
proof (cases "dt_kind t")
  case AUTH_PASSWORD_EMAIL
  with assms have "processEmailTask (jc_env c) (jc_now c) i True s = (thrown, s')"
    by (simp add: runJob_def emailJob_def)
  from processEmail_attempt [OF assms(2) this] show ?thesis
    using attempted_row [OF _ assms(1,4,5,2)] AUTH_PASSWORD_EMAIL by simp
next
  case PUSH_NOTIFICATION
  with assms have "processDeliveryTask (jc_env c) (jc_now c) i True s = (thrown, s')"
    by (simp add: runJob_def pushJob_def)
  from processPush_attempt [OF assms(2) this] show ?thesis
    using attempted_row [OF _ assms(1,4,5,2)] PUSH_NOTIFICATION by simp
next
  case BROADCAST_FANOUT
  with assms have "processBroadcastTask (jc_env c) (jc_now c) (jc_ids c) (jc_pushId c) i True s = (thrown, s')"
    by (simp add: runJob_def broadcastJob_def)
  from processBroadcast_attempt [OF assms(2) this] obtain s1 where
    s1: "attempted BROADCAST_FANOUT (jc_now c) i True (dl_tasks s) thrown (dl_tasks s1)"
      "s' = s1 \<or> (\<exists>b. s' = broadcast_push (jc_env c) (jc_now c) (jc_pushId c) b s1)" by blast
  have row: "findTask (dl_tasks s1) i = Some (attempt (jc_now c) thrown t) \<and> unique_tasks (dl_tasks s1)"
    using attempted_row [OF _ assms(1,4,5,2)] s1(1) BROADCAST_FANOUT by simp
  with s1(2) show ?thesis
    using broadcast_push_appends appends_find unfolding appends_def by blast
qed

end
