(* ===== verification/DeliveryJobs.thy ===== *)
theory DeliveryJobs
  imports DeliveryMachine
begin

text \<open>
  Which jobs the operations put into the queue: jobs of tasks they have just created, never one of
  a task that was there before. So a pending task without a job stays as it is for as long as the
  queue calls only jobs it was given (\<open>stuck_for_ever\<close>).
\<close>

section \<open>Jobs of a task\<close>

definition jobsFor :: "string \<Rightarrow> delivery_db \<Rightarrow> queue_job list" where
  "jobsFor i s = filter (\<lambda>j. qj_taskId j = i) (dl_jobs s)"

lemma jobsFor_frame [simp]:
  "jobsFor i (s\<lparr> dl_tasks := ts \<rparr>) = jobsFor i s" "jobsFor i (s\<lparr> dl_notifications := ns \<rparr>) = jobsFor i s"
  by (simp_all add: jobsFor_def)

lemma jobs_sendChunks [simp]: "dl_jobs (snd (sendChunks env now i p chunks s)) = dl_jobs s"
  by (induction chunks arbitrary: s)
    (auto simp: handleExpoTickets_def Let_def split: expo_reply.splits sum.splits)

lemma jobs_deliver [simp]: "dl_jobs (snd (deliverToUsersNow env now i p s)) = dl_jobs s"
  by (simp add: deliverToUsersNow_def sendExpo_def Let_def)

lemma jobs_delivered: "deliverToUsersNow env now i p s = (e, s') \<Longrightarrow> dl_jobs s' = dl_jobs s"
  using jobs_deliver [of env now i p s] by simp

lemma jobs_setTask [simp]: "dl_jobs (setTask s r) = dl_jobs s"
  by (simp add: setTask_def split: sum.splits)

lemma jobs_failTask [simp]: "dl_jobs (failTask s now p e) = dl_jobs s"
  by (simp add: failTask_def)

lemma jobs_finishTask [simp]: "dl_jobs (finishTask s now p outcome) = dl_jobs s"
  by (simp add: finishTask_def split: option.splits)

lemma jobs_beginTask: "beginTask kind s now i = Some (p, s1) \<Longrightarrow> dl_jobs s1 = dl_jobs s"
  by (auto simp: beginTask_Some)

lemma jobs_processPush [simp]: "dl_jobs (snd (processDeliveryTask env now i b s)) = dl_jobs s"
  by (auto simp: processDeliveryTask_def split: option.splits task_payload.splits prod.splits
      dest!: jobs_beginTask jobs_delivered)

lemma jobs_processEmail [simp]: "dl_jobs (snd (processEmailTask env now i b s)) = dl_jobs s"
  by (auto simp: processEmailTask_def markResidentInviteFailed_def Let_def
      split: option.splits task_payload.splits dest: jobs_beginTask)

section \<open>New jobs are for new tasks\<close>

lemma jobs_dispatch:
  assumes "dt_id t \<noteq> i"
  shows "jobsFor i (dispatchPush env now t s) = jobsFor i s" and "jobsFor i (dispatchEmail env now t s) = jobsFor i s"
  using assms
  by (auto simp: dispatchPush_def dispatchEmail_def jobsFor_def queue_job_of_def split: enqueue_reply.splits)

lemma created_other:
  "createTask ts now k input = Inr (t, ts') \<Longrightarrow> findTask ts i \<noteq> None \<Longrightarrow> dt_id t \<noteq> i"
  using createTask_row(2,8) [of ts now k input t ts'] by auto

lemma jobs_enqueueDelivery:
  assumes "findTask (dl_tasks s) i \<noteq> None" and "enqueueDelivery env now k p s = Inr (t, s')"
  shows "jobsFor i s' = jobsFor i s"
  using assms(2) jobs_dispatch(1) created_other [OF _ assms(1)] by (auto simp: enqueueDelivery_def)

lemma jobs_sendToUsers:
  assumes "findTask (dl_tasks s) i \<noteq> None" and "sendToUsers env now k p s = Inr s'"
  shows "jobsFor i s' = jobsFor i s"
  using assms(2) jobs_enqueueDelivery [OF assms(1)] by (auto simp: sendToUsers_def Let_def split: if_splits)

lemma published_frame [simp]:
  "dl_tasks (publishCreatedNotifications org new s) = dl_tasks s" "dl_jobs (publishCreatedNotifications org new s) = dl_jobs s"
  by (induction new arbitrary: s) (simp_all add: publish_def)

lemma published_jobsFor [simp]: "jobsFor i (publishCreatedNotifications org new s) = jobsFor i s"
  by (simp add: jobsFor_def)

lemma jobs_queuePush:
  assumes "findTask (dl_tasks s) i \<noteq> None" and "queuePushForNotificationBatch env now k org us ty title body d s = Inr s'"
  shows "jobsFor i s' = jobsFor i s"
  using assms(2) jobs_sendToUsers [OF assms(1)] by (auto simp: queuePushForNotificationBatch_def)

lemma jobs_createForUsers:
  assumes "findTask (dl_tasks s) i \<noteq> None" and "createForUsers env now ids k org us ty title body d s = (e, s')"
  shows "jobsFor i s' = jobsFor i s"
proof -
  have "jobsFor i s4 = jobsFor i s"
    if "queuePushForNotificationBatch env now k org vs ty title body d
          (publishCreatedNotifications org new (s\<lparr> dl_notifications := rows \<rparr>)) = Inr s4" for vs new rows s4
    using jobs_queuePush [OF _ that, of i] assms(1) by simp
  with assms(2) show ?thesis
    by (auto simp: createForUsers_def Let_def split: if_splits prod.splits option.splits sum.splits)
qed

lemma jobs_createEmail:
  assumes "findTask (dl_tasks s) i \<noteq> None" and "createAndDispatchEmail env now k input s = (r, s')"
  shows "jobsFor i s' = jobsFor i s"
  using assms(2) jobs_dispatch(2) created_other [OF _ assms(1)]
  by (auto simp: createAndDispatchEmail_def split: sum.splits)

lemma found_modify [simp]: "(\<And>t. dt_id (f t) = dt_id t) \<Longrightarrow> findTask (modify_by dt_id k f ts) i = None \<longleftrightarrow> findTask ts i = None"
  by (simp add: findTask_def find_by_modify_by)

lemma jobs_processBroadcast:
  assumes "findTask (dl_tasks s) i \<noteq> None"
  shows "jobsFor i (snd (processBroadcastTask env now ids pushId k b s)) = jobsFor i s"
proof (cases "beginTask BROADCAST_FANOUT s now k")
  case (Some ps)
  then obtain p s1 where ps: "beginTask BROADCAST_FANOUT s now k = Some (p, s1)" by (cases ps) simp
  then have s1: "findTask (dl_tasks s1) i \<noteq> None" "dl_jobs s1 = dl_jobs s" "findTask (dl_tasks s1) k = Some p"
      "dt_status p = TS_PROCESSING"
    using assms by (auto simp: beginTask_Some findTask_modify)
  have fan: "findTask (dl_tasks s2) i \<noteq> None" "dl_jobs s2 = dl_jobs s"
    if "fanout env now ids k pl s1 = Inr (new, s2)" for pl new s2
  proof -
    show "findTask (dl_tasks s2) i \<noteq> None"
      using fanout_Inr(1) [OF s1(3) _ that] s1(1,4) by (simp add: upd_succeeded_def)
    show "dl_jobs s2 = dl_jobs s"
      using that s1(2) by (auto simp: fanout_def split: option.splits if_splits prod.splits sum.splits)
  qed
  have push: "jobsFor i s4 = jobsFor i s"
    if "fanout env now ids k pl s1 = Inr (new, s2)"
      "queuePushForNotificationBatch env now pushId org us ty title body d (publishCreatedNotifications org new s2) = Inr s4"
    for pl new s2 org us ty title body d s4
    using jobs_queuePush [OF _ that(2), of i] fan [OF that(1)] by (simp add: jobsFor_def [of i s] jobsFor_def [of i s2])
  show ?thesis
  proof (cases "dt_payload p")
    case (BroadcastPayload pl)
    show ?thesis
    proof (cases "fanout env now ids k pl s1")
      case (Inl e)
      then show ?thesis using s1(2) by (simp add: processBroadcastTask_def ps BroadcastPayload jobsFor_def)
    next
      case (Inr r)
      then obtain new s2 where r: "fanout env now ids k pl s1 = Inr (new, s2)" by (cases r) simp
      have "jobsFor i s2 = jobsFor i s" using fan(2) [OF r] by (simp add: jobsFor_def)
      with r push [OF r] show ?thesis
        by (simp add: processBroadcastTask_def ps BroadcastPayload Let_def split: sum.split)
    qed
  qed (use s1(2) in \<open>simp_all add: processBroadcastTask_def ps jobsFor_def\<close>)
qed (simp add: processBroadcastTask_def)

lemma jobs_fanoutTask:
  assumes "findTask (dl_tasks s) i \<noteq> None" and "enqueueFanoutTask env now ids pushId k b s = (r, s')"
  shows "jobsFor i s' = jobsFor i s"
proof (cases r)
  case (Inr t)
  with assms(2) obtain input ts where c: "createTask (dl_tasks s) now k input = Inr (t, ts)"
    "s' = dispatchBroadcast env now ids pushId t (s\<lparr> dl_tasks := ts \<rparr>)"
    by (auto simp: enqueueFanoutTask_def split: sum.splits intro: that)
  have "findTask ts i \<noteq> None"
    using assms(1) createTask_row(1) [OF c(1)] by (auto simp: findTask_def find_by_append)
  then show ?thesis
    using c(2) created_other [OF c(1) assms(1)] jobs_processBroadcast [of "s\<lparr> dl_tasks := ts \<rparr>" i]
    by (auto simp: dispatchBroadcast_def jobsFor_def queue_job_of_def split: enqueue_reply.splits)
qed (use assms(2) in \<open>auto simp: enqueueFanoutTask_def split: sum.splits\<close>)

lemma jobs_resetToken: "createPasswordResetToken s u h x p = Inr s' \<Longrightarrow> dl_jobs s' = dl_jobs s"
  by (auto simp: createPasswordResetToken_def Let_def split: if_splits)

lemma jobs_residentInvite: "createResidentInvite s org u c e h x = Inr s' \<Longrightarrow> dl_jobs s' = dl_jobs s"
  by (auto simp: createResidentInvite_def split: if_splits)

lemma jobs_retryEmail:
  assumes "findTask (dl_tasks s) i \<noteq> None" and "retryEmailTask env now ttl k tok t m s = (r, s')"
  shows "jobsFor i s' = jobsFor i s"
proof -
  have token: "findTask (dl_tasks s1) i \<noteq> None \<and> jobsFor i s1 = jobsFor i s"
    if "createPasswordResetToken s u h x p = Inr s1" for u h x p s1
    using that assms(1) by (simp add: createPasswordResetToken_tasks jobs_resetToken jobsFor_def)
  have invite: "findTask (dl_tasks s2) i = findTask (dl_tasks s1) i \<and> jobsFor i s2 = jobsFor i s1"
    if "createResidentInvite s1 org u c e h x = Inr s2" for s1 org u c e h x s2
    using that by (simp add: createResidentInvite_tasks jobs_residentInvite jobsFor_def)
  show ?thesis
    using assms(2)
    by (auto simp: retryEmailTask_def Let_def split: if_splits option.splits sum.splits
        dest!: token invite jobs_createEmail [where i = i, rotated])
qed

lemma jobs_retryByKind:
  assumes "findTask (dl_tasks s) i \<noteq> None" and "retryByKind env now ttl fr t s = (r, s')"
  shows "jobsFor i s' = jobsFor i s"
  using assms jobs_retryEmail [OF assms(1)] jobs_enqueueDelivery [OF assms(1)] jobs_fanoutTask [OF assms(1)]
  by (auto simp: retryByKind_def split: task_payload.splits sum.splits)

lemma jobs_retryTask:
  assumes "findTask (dl_tasks s) i \<noteq> None"
  shows "jobsFor i (snd (retryTask env now ttl fr k s)) = jobsFor i s"
proof -
  obtain c ts where c: "claimForRetry (dl_tasks s) k = (c, ts)" by force
  have "findTask ts i \<noteq> None"
  proof -
    have "map dt_id ts = map dt_id (dl_tasks s)"
      using c by (auto simp: claimForRetry_def Let_def upd_claim_def split: if_splits)
    then have "i \<in> dt_id ` set ts" using assms by (metis findTask_def find_by_None_iff list.set_map)
    then show ?thesis by (simp add: findTask_def find_by_None_iff)
  qed
  then have "jobsFor i s1 = jobsFor i s" if "retryByKind env now ttl fr t (s\<lparr> dl_tasks := ts \<rparr>) = (r, s1)" for t r s1
    using jobs_retryByKind [OF _ that, of i] by simp
  moreover have "jobsFor i (setTask s1 r) = jobsFor i s1" for s1 r by (simp add: jobsFor_def)
  ultimately show ?thesis
    by (auto simp: retryTask_def c split: option.splits prod.splits sum.splits)
qed

section \<open>A pending task without a job\<close>

definition stuck :: "string \<Rightarrow> delivery_task \<Rightarrow> delivery_db \<Rightarrow> bool" where
  "stuck i t s \<longleftrightarrow> tasks_inv (dl_tasks s) \<and> findTask (dl_tasks s) i = Some t \<and> dt_status t = TS_PENDING \<and> jobsFor i s = []"

lemma stuck_appends:
  assumes "stuck i t s" and "appends (dl_tasks s) (dl_tasks s')" and "jobsFor i s' = jobsFor i s"
  shows "stuck i t s'"
  using assms appends_step [OF assms(2)] appends_find [OF assms(2)]
  by (auto simp: stuck_def task_step_def tasks_inv_def)

lemma attempted_other:
  assumes "attempted kind now k b ts thrown ts'" and "k \<noteq> i"
  shows "findTask ts' i = findTask ts i"
  using assms by (auto simp: attempted_def findTask_def find_by_modify_by split: if_splits)

lemma stuck_runJob:
  assumes "stuck i t s" and "qj_taskId j \<noteq> i"
  shows "stuck i t (snd (runJob c j s))"
proof -
  let ?s' = "snd (runJob c j s)"
  have u: "unique_tasks (dl_tasks s)" and inv: "tasks_inv (dl_tasks s)" and f: "findTask (dl_tasks s) i = Some t"
    using assms(1) by (auto simp: stuck_def tasks_inv_def)
  have broadcast: "findTask (dl_tasks (snd (processBroadcastTask env now ids pushId (qj_taskId j) b s))) i = Some t" for env now ids pushId b
  proof -
    obtain s1 where s1: "attempted BROADCAST_FANOUT now (qj_taskId j) b (dl_tasks s)
        (fst (processBroadcastTask env now ids pushId (qj_taskId j) b s)) (dl_tasks s1)"
      "snd (processBroadcastTask env now ids pushId (qj_taskId j) b s) = s1
        \<or> (\<exists>pl. snd (processBroadcastTask env now ids pushId (qj_taskId j) b s) = broadcast_push env now pushId pl s1)"
      using processBroadcast_attempt [OF u prod.collapse [symmetric]] by blast
    have "findTask (dl_tasks s1) i = Some t" using attempted_other [OF s1(1) assms(2)] f by simp
    moreover have "unique_tasks (dl_tasks s1)"
      using step_attempt [OF s1(1)] inv by (simp add: task_step_def tasks_inv_def)
    ultimately show ?thesis using s1(2) appends_find [OF broadcast_push_appends] by auto
  qed
  have "findTask (dl_tasks ?s') i = Some t"
    using f broadcast attempted_other [OF processEmail_attempt [OF u prod.collapse [symmetric]] assms(2)]
      attempted_other [OF processPush_attempt [OF u prod.collapse [symmetric]] assms(2)]
    by (simp add: runJob_def emailJob_def pushJob_def broadcastJob_def)
  moreover have "jobsFor i ?s' = []"
    using assms(1) f jobs_processBroadcast [of s i]
    by (simp add: stuck_def runJob_def emailJob_def pushJob_def broadcastJob_def jobsFor_def)
  moreover have "tasks_inv (dl_tasks ?s')" using runJob_step [of s c j] inv by (simp add: task_step_def)
  ultimately show ?thesis using assms(1) by (simp add: stuck_def)
qed

lemma stuck_retryTask:
  assumes "stuck i t s"
  shows "stuck i t (snd (retryTask env now ttl fr k s))"
proof -
  let ?s' = "snd (retryTask env now ttl fr k s)"
  have inv: "tasks_inv (dl_tasks s)" and f: "findTask (dl_tasks s) i = Some t" and p: "dt_status t = TS_PENDING"
    using assms by (auto simp: stuck_def)
  have u: "unique_tasks (dl_tasks s)" and ok: "\<forall>t \<in> set (dl_tasks s). task_ok t" using inv by (auto simp: tasks_inv_def)
  have "findTask (dl_tasks ?s') i = Some t"
    using retryTask_spec [OF u ok prod.collapse [symmetric], where env = env and now = now and ttl = ttl and fr = fr and i = k]
  proof (elim disjE conjE exE)
    assume "appends (dl_tasks s) (dl_tasks ?s')"
    from appends_find [OF this u f] show ?thesis .
  next
    fix x x' s1
    assume x: "findTask (dl_tasks s) k = Some x" "claimable x"
      and app: "appends (modify_by dt_id k (upd_retried now (dt_id x') \<circ> upd_claim) (dl_tasks s)) (dl_tasks ?s')"
    have "k \<noteq> i" using x f p by (auto simp: claimable_def)
    then have "findTask (modify_by dt_id k (upd_retried now (dt_id x') \<circ> upd_claim) (dl_tasks s)) i = Some t"
      using f by (simp add: findTask_def find_by_modify_by)
    moreover have "unique_tasks (modify_by dt_id k (upd_retried now (dt_id x') \<circ> upd_claim) (dl_tasks s))"
      using u by (simp add: unique_tasks_def task_table.keys_modify)
    ultimately show ?thesis using appends_find [OF app] by blast
  qed
  moreover have "tasks_inv (dl_tasks ?s')" using retryTask_step inv by (simp add: task_step_def)
  ultimately show ?thesis using assms p jobs_retryTask [of s i] by (simp add: stuck_def)
qed

lemma stuck_retryEach: "stuck i t s \<Longrightarrow> stuck i t (snd (retryEach env now ttl frs k is s))"
proof (induction env now ttl frs k "is" s rule: retryEach.induct)
  case (2 env now ttl frs k x "is" s)
  show ?case
    using 2 stuck_retryTask [OF "2.prems", of env now ttl "frs k" x] by (auto split: prod.splits sum.splits)
qed simp

text \<open>What the queue may do: call jobs it was given.\<close>

fun queued :: "delivery_op \<Rightarrow> delivery_db \<Rightarrow> bool" where
  "queued (RunJob c j) s \<longleftrightarrow> j \<in> set (dl_jobs s)"
| "queued _ s \<longleftrightarrow> True"

lemma jobs_pollChunks: "dl_jobs (snd (snd (pollChunks look now chunks s))) = dl_jobs s"
  by (induction chunks arbitrary: s) (simp_all add: case_prod_beta split: option.splits)

lemma stuck_deliver:
  assumes "stuck i t s" and "queued op s"
  shows "stuck i t (deliver (env, now, op) s)"
proof (cases op)
  case (EnqueueEmail k r)
  have "findTask (dl_tasks s) i \<noteq> None" using assms(1) by (simp add: stuck_def)
  from stuck_appends [OF assms(1) createAndDispatchEmail_appends [OF prod.collapse [symmetric]]
      jobs_createEmail [OF this prod.collapse [symmetric]]] EnqueueEmail
  show ?thesis by (simp add: enqueuePasswordResetEmail_def)
next
  case (SendPush k p)
  have "findTask (dl_tasks s) i \<noteq> None" using assms(1) by (simp add: stuck_def)
  with SendPush show ?thesis
    using assms(1) stuck_appends [OF assms(1) sendToUsers_appends jobs_sendToUsers] by (auto split: sum.splits)
next
  case (Notify ids k org us ty title body d)
  have "findTask (dl_tasks s) i \<noteq> None" using assms(1) by (simp add: stuck_def)
  from stuck_appends [OF assms(1) createForUsers_appends [OF prod.collapse [symmetric]]
      jobs_createForUsers [OF this prod.collapse [symmetric]]] Notify show ?thesis by simp
next
  case (EnqueueBroadcast ids pushId k b)
  have "findTask (dl_tasks s) i \<noteq> None" using assms(1) by (simp add: stuck_def)
  from stuck_appends [OF assms(1) enqueueFanoutTask_appends [OF prod.collapse [symmetric]]
      jobs_fanoutTask [OF this prod.collapse [symmetric]]] EnqueueBroadcast show ?thesis by simp
next
  case (RunJob c j)
  with assms have "qj_taskId j \<noteq> i" by (auto simp: stuck_def jobsFor_def filter_empty_conv)
  with RunJob show ?thesis using stuck_runJob [OF assms(1)] by simp
next
  case (RetryTask ttl fr k)
  then show ?thesis using stuck_retryTask [OF assms(1)] by simp
next
  case (RetryFailed ttl frs f limit)
  then show ?thesis using stuck_retryEach [OF assms(1)] by (simp add: retryFailed_def Let_def)
next
  case (PollReceipts look delay)
  then show ?thesis
    using assms(1) by (simp add: stuck_def jobsFor_def pollPendingReceipts_def Let_def pollChunks_tasks jobs_pollChunks)
qed

fun queuedRun :: "(delivery_env \<times> int \<times> delivery_op) list \<Rightarrow> delivery_db \<Rightarrow> bool" where
  "queuedRun [] s \<longleftrightarrow> True"
| "queuedRun ((env, now, op) # ops) s \<longleftrightarrow> queued op s \<and> queuedRun ops (deliver (env, now, op) s)"

lemma stuck_for_ever:
  "stuck i t s \<Longrightarrow> queuedRun ops s \<Longrightarrow> stuck i t (runDelivery ops s)"
  unfolding runDelivery_def
proof (induction ops s rule: queuedRun.induct)
  case (2 env now op ops s)
  then show ?case using stuck_deliver [OF "2.prems"(1)] by simp
qed simp

end
