(* ===== verification/DeliveryTheorems.thy ===== *)
theory DeliveryTheorems
  imports Fixture DeliveryJobs
begin

text \<open>
  Theorems about deliveries: the invariant and the history of tasks, what a job that the queue
  retries comes to, the fan-out of a broadcast, the retry of a failed task, the task that
  is stranded without a queue, and the cursor pages of notifications.
\<close>

section \<open>A concrete state\<close>

definition fx_env :: delivery_env where
  "fx_env = \<lparr> en_pushProvider = ''noop'', en_expo = (\<lambda>ds p. Tickets []), en_mail = (\<lambda>m. Some ''smtp down''),
     en_queue = (\<lambda>q. Enqueued), en_hash = (\<lambda>x. ''h'' @ x), en_txError = None, en_dbError = ''db error'' \<rparr>"

definition fx_delivery :: delivery_db where
  "fx_delivery = \<lparr> dl_core = fx0, dl_tasks = [], dl_devices = [], dl_receipts = [], dl_notifications = [],
     dl_published = [], dl_resetTokens = [], dl_invites = [], dl_jobs = [] \<rparr>"

definition fx_reset :: reset_request where
  "fx_reset = \<lparr> rr_email = ''res@x'', rr_token = ''k'', rr_tokenHash = ''hk'', rr_expiresAt = 99,
     rr_purpose = PASSWORD_RESET, rr_inviteeName = None, rr_inviterName = None, rr_issuedByUserId = None,
     rr_orgId = Some ''o1'', rr_userId = Some ''res'' \<rparr>"

definition fx_broadcast :: broadcast_payload where
  "fx_broadcast = \<lparr> bp_broadcastId = ''bc'', bp_orgId = ''o1'', bp_userIds = [''res'', ''stf''],
     bp_title = ''Water'', bp_body = None, bp_senderUserId = ''mgr'', bp_buildingIds = [''b1''],
     bp_metadata = JObject [] \<rparr>"

definition fx_task :: "string \<Rightarrow> task_payload \<Rightarrow> task_status \<Rightarrow> int \<Rightarrow> delivery_task" where
  "fx_task i p st n =
     \<lparr> dt_id = i, dt_status = st, dt_queueName = queue_of_kind (payload_kind p), dt_jobName = ''job'',
       dt_orgId = Some ''o1'', dt_userId = Some ''res'', dt_referenceType = None, dt_referenceId = None,
       dt_payload = p, dt_attemptCount = n, dt_maxAttempts = 5, dt_queuedAt = 1, dt_lastAttemptAt = None,
       dt_processingStartedAt = None, dt_completedAt = (if st = TS_FAILED then Some 9 else None),
       dt_lastError = (if n = 0 then None else Some ''smtp down''), dt_retriedAt = None,
       dt_replacedByTaskId = None, dt_createdAt = 1 \<rparr>"

definition fx_call :: "int \<Rightarrow> string option \<Rightarrow> job_call" where
  "fx_call now txe = \<lparr> jc_env = fx_env\<lparr> en_txError := txe \<rparr>, jc_now = now, jc_ids = (\<lambda>k. ''n'' @ replicate k CHR ''x''),
     jc_pushId = ''p1'' \<rparr>"

section \<open>Invariant and history\<close>

lemma cleanup_ok:
  assumes "tasks_inv (dl_tasks s)" and "cleanupTasks s now days olderThan sts dryRun = Inr (n, s')"
  shows "tasks_inv (dl_tasks s')" and "set (dl_tasks s') \<subseteq> set (dl_tasks s)"
    and "\<And>t. t \<in> set (dl_tasks s) \<Longrightarrow> dt_status t = TS_PENDING \<Longrightarrow> t \<in> set (dl_tasks s')"
  using assms
  by (auto simp: cleanupTasks_def pruneExpiredTasks_def cleanupTerminalOlderThan_def terminalStatuses_def
      tasks_inv_def unique_tasks_def distinct_map_filter list_ex_iff Let_def
      split: if_splits list.splits option.splits)

text \<open>
  C30. Whatever operations run, in whatever environment and order (mails, pushes and broadcasts put
  into tasks, calls of the workers by the queue, retries, the receipt monitor), the table of tasks
  stays well formed: ids are unique, no task is left half way in \<open>TS_PROCESSING\<close>, a pending task
  has attempts left and carries an error exactly when it was tried before, a failed task has
  used up its attempts and names its error, the marks of a retry stand exactly on retried tasks,
  and errors are at most 2000 characters. A task is never lost, keeps its payload and its number
  of attempts allowed, never counts down, and does not change any more once it has succeeded or
  was retried. A cleanup keeps the table well formed, adds nothing and keeps every pending task.
\<close>

theorem delivery_tasks_invariant:
  assumes "tasks_inv (dl_tasks s)" and "s' = runDelivery ops s"
  shows "tasks_inv (dl_tasks s') \<and> tasks_history (dl_tasks s) (dl_tasks s')
    \<and> (\<forall>now days olderThan sts n s''. cleanupTasks s' now days olderThan sts False = Inr (n, s'') \<longrightarrow>
         tasks_inv (dl_tasks s'') \<and> set (dl_tasks s'') \<subseteq> set (dl_tasks s')
         \<and> (\<forall>t \<in> set (dl_tasks s'). dt_status t = TS_PENDING \<longrightarrow> t \<in> set (dl_tasks s'')))"
proof -
  have inv: "tasks_inv (dl_tasks s')" and "tasks_history (dl_tasks s) (dl_tasks s')"
    using runDelivery_inv [OF assms(1)] runDelivery_history [OF assms(1)] assms(2) by auto
  then show ?thesis
    using cleanup_ok(1) [OF inv] cleanup_ok(3) [OF inv] subsetD [OF cleanup_ok(2) [OF inv]]
    by (intro conjI allI impI ballI subsetI)
qed

theorem delivery_tasks_invariant_witness:
  "\<exists>ops. tasks_inv (dl_tasks (runDelivery ops fx_delivery))
     \<and> map dt_status (dl_tasks (runDelivery ops fx_delivery)) = [TS_PENDING]"
proof -
  let ?ops = "[(fx_env, 1, EnqueueEmail ''t1'' fx_reset)]"
  have inv: "tasks_inv (dl_tasks fx_delivery)"
    by (simp add: fx_delivery_def tasks_inv_def unique_tasks_def)
  from delivery_tasks_invariant [OF inv refl, of ?ops]
  have "tasks_inv (dl_tasks (runDelivery ?ops fx_delivery))" by blast
  moreover have "map dt_status (dl_tasks (runDelivery ?ops fx_delivery)) = [TS_PENDING]"
    by (simp add: runDelivery_def fx_delivery_def fx_env_def enqueuePasswordResetEmail_def createAndDispatchEmail_def
        createTask_def dispatchEmail_def fx_reset_def Let_def)
  ultimately show ?thesis by (intro exI conjI)
qed

section \<open>The queue retries a job\<close>

text \<open>
  The calls of the worker for one job. The queue is BullMQ: its documented contract for a job
  with \<open>n\<close> attempts is that the processor is called at least once and at most \<open>n\<close> times, is
  called again only after a call that threw, and is given up only when the attempts are used up.
\<close>

fun callAll :: "job_call list \<Rightarrow> queue_job \<Rightarrow> delivery_db \<Rightarrow> string option list \<times> delivery_db" where
  "callAll [] j s = ([], s)"
| "callAll (c # cs) j s =
     (case runJob c j s of (thrown, s1) \<Rightarrow> (case callAll cs j s1 of (rest, s2) \<Rightarrow> (thrown # rest, s2)))"

definition queue_contract :: "int \<Rightarrow> string option list \<Rightarrow> bool" where
  "queue_contract n outs \<longleftrightarrow>
     outs \<noteq> [] \<and> int (length outs) \<le> n \<and> (\<forall>r \<in> set (butlast outs). r \<noteq> None)
     \<and> (last outs \<noteq> None \<longrightarrow> int (length outs) = n)"

definition ended :: "string option \<Rightarrow> delivery_task \<Rightarrow> bool" where
  "ended outcome t \<longleftrightarrow>
     (case outcome of
        None \<Rightarrow> dt_status t = TS_SUCCEEDED \<and> dt_lastError t = None
      | Some e \<Rightarrow> dt_status t = TS_FAILED \<and> dt_lastError t = Some (truncateError e))"

lemma attempt_fields [simp]:
  "dt_payload (attempt now r t) = dt_payload t" "dt_maxAttempts (attempt now r t) = dt_maxAttempts t"
  "dt_attemptCount (attempt now r t) = dt_attemptCount t + 1" "dt_kind (attempt now r t) = dt_kind t"
  by (simp_all add: attempt_def upd_processing_def upd_succeeded_def upd_failed_def upd_retryScheduled_def
      dt_kind_def Let_def split: option.splits)

lemma attempt_last:
  "r \<noteq> None \<Longrightarrow> dt_maxAttempts t \<le> dt_attemptCount t + 1 \<Longrightarrow> ended r (attempt now r t)"
  "ended None (attempt now None t)"
  by (auto simp: attempt_def ended_def upd_failed_def upd_succeeded_def)

lemma attempt_again:
  "dt_attemptCount t + 1 < dt_maxAttempts t \<Longrightarrow> dt_status (attempt now (Some e) t) = TS_PENDING"
  by (simp add: attempt_def)

lemma calls_end:
  assumes "findTask (dl_tasks s) i = Some t" and "unique_tasks (dl_tasks s)" and "i \<noteq> []"
    and "dt_status t = TS_PENDING" and "qj_taskId j = i" and "qj_queue j = queue_of_kind (dt_kind t)"
    and "callAll calls j s = (outs, s')" and "queue_contract (dt_maxAttempts t - dt_attemptCount t) outs"
  shows "\<exists>t'. findTask (dl_tasks s') i = Some t' \<and> ended (last outs) t'
    \<and> dt_attemptCount t' = dt_attemptCount t + int (length outs)"
  using assms
proof (induction calls arbitrary: s t outs)
  case Nil
  then show ?case by (simp add: queue_contract_def)
next
  case (Cons c cs)
  obtain r s1 rest where r: "runJob c j s = (r, s1)" "callAll cs j s1 = (rest, s')" "outs = r # rest"
    using Cons.prems(7) by (auto split: prod.splits)
  let ?t1 = "attempt (jc_now c) r t"
  have row: "findTask (dl_tasks s1) i = Some ?t1" "unique_tasks (dl_tasks s1)"
    using runJob_row [OF Cons.prems(1-3) _ _ Cons.prems(5,6) r(1)] Cons.prems(4) by auto
  show ?case
  proof (cases cs)
    case Nil
    with r have [simp]: "rest = []" "s' = s1" by auto
    have "ended r ?t1"
      using Cons.prems(8) attempt_last by (cases r) (auto simp: r(3) queue_contract_def)
    with row show ?thesis by (simp add: r(3))
  next
    case (Cons d ds)
    with r(2) have "rest \<noteq> []" by (auto split: prod.splits)
    then obtain e where e: "r = Some e" and more: "dt_attemptCount t + 1 < dt_maxAttempts t"
      and c: "queue_contract (dt_maxAttempts t - (dt_attemptCount t + 1)) rest"
      using Cons.prems(8) by (cases rest) (auto simp: r(3) queue_contract_def)
    have "dt_status ?t1 = TS_PENDING" using e more attempt_again by simp
    then show ?thesis
      using Cons.IH [OF row Cons.prems(3) _ Cons.prems(5) _ r(2)] Cons.prems(6) c \<open>rest \<noteq> []\<close>
      by (auto simp: r(3))
  qed
qed

text \<open>
  C31. A task that has been handed to the queue comes to an end: for a new task of any kind,
  whatever its environment does in each call (mail server, Expo, database), the calls the queue
  makes leave the task \<open>TS_SUCCEEDED\<close> when the last call returned and \<open>TS_FAILED\<close> with the error of
  the last call when it threw; it is never left pending. The number of attempts on the row is
  the number of calls, and it stays within the maximum.
\<close>

theorem queued_task_ends:
  assumes "findTask (dl_tasks s) i = Some t" and "unique_tasks (dl_tasks s)" and "i \<noteq> []"
    and "dt_status t = TS_PENDING" and "dt_attemptCount t = 0"
    and "dt_queueName t = queue_of_kind (dt_kind t)"
    and "callAll calls (queue_job_of backoff t) s = (outs, s')"
    and bullmq: "queue_contract (qj_attempts (queue_job_of backoff t)) outs"
  shows "\<exists>t'. findTask (dl_tasks s') i = Some t' \<and> ended (last outs) t'
    \<and> dt_attemptCount t' = int (length outs) \<and> dt_attemptCount t' \<le> dt_maxAttempts t"
  using calls_end [OF assms(1-4) _ _ assms(7)] assms(5,6) bullmq findTask_mem [OF assms(1)]
  by (auto simp: queue_job_of_def queue_contract_def)

definition fx_broadcastTask :: delivery_task where
  "fx_broadcastTask = fx_task ''t1'' (BroadcastPayload fx_broadcast) TS_PENDING 0"

definition fx_queued :: delivery_db where
  "fx_queued = fx_delivery\<lparr> dl_tasks := [fx_broadcastTask] \<rparr>"

lemma fx_calls:
  "\<exists>s'. callAll [fx_call 5 (Some ''tx''), fx_call 6 None] (queue_job_of 10000 fx_broadcastTask) fx_queued
     = ([Some ''tx'', None], s') \<and> map nt_recipientUserId (dl_notifications s') = [''res'', ''stf'']
       \<and> map dt_status (dl_tasks s') = [TS_SUCCEEDED]"
  by (simp add: fx_queued_def fx_delivery_def fx_broadcastTask_def fx_task_def fx_call_def fx_env_def runJob_def
      broadcastJob_def queue_job_of_def processBroadcastTask_def beginTask_def findTask_def dt_kind_def
      markProcessing_def updateTask_def upd_processing_def modify_by_def fanout_def failTask_def
      markRetryScheduled_def setTask_def upd_retryScheduled_def broadcast_inputs_def fx_broadcast_def
      notification_of_def fx0_def fx_users_def fx_account_def markSucceeded_def upd_succeeded_def publish_def
      queuePushForNotificationBatch_def sendToUsers_def Let_def)

theorem queued_task_ends_witness:
  "\<exists>t'. findTask (dl_tasks (snd (callAll [fx_call 5 (Some ''tx''), fx_call 6 None]
      (queue_job_of 10000 fx_broadcastTask) fx_queued))) ''t1'' = Some t'
    \<and> ended None t' \<and> dt_attemptCount t' = 2"
proof -
  obtain s' where s': "callAll [fx_call 5 (Some ''tx''), fx_call 6 None] (queue_job_of 10000 fx_broadcastTask)
      fx_queued = ([Some ''tx'', None], s')" using fx_calls by blast
  have found: "findTask (dl_tasks fx_queued) ''t1'' = Some fx_broadcastTask" "unique_tasks (dl_tasks fx_queued)"
    by (simp_all add: fx_queued_def findTask_def unique_tasks_def fx_broadcastTask_def fx_task_def)
  have "dt_status fx_broadcastTask = TS_PENDING" "dt_attemptCount fx_broadcastTask = 0"
    "dt_queueName fx_broadcastTask = queue_of_kind (dt_kind fx_broadcastTask)"
    "queue_contract (qj_attempts (queue_job_of 10000 fx_broadcastTask)) [Some ''tx'', None]"
    by (simp_all add: fx_broadcastTask_def fx_task_def dt_kind_def queue_contract_def queue_job_of_def)
  from queued_task_ends [OF found _ this(1,2,3) s' this(4)] show ?thesis
    by (auto simp: s' simp del: callAll.simps)
qed

section \<open>A broadcast reaches its users once\<close>

text \<open>Sending pushes leaves the notifications alone.\<close>

lemma setTask_notifications [simp]: "dl_notifications (setTask s r) = dl_notifications s"
  by (auto simp: setTask_def split: sum.splits)

lemma finishTask_notifications [simp]:
  "dl_notifications (finishTask s now p r) = dl_notifications s"
  "dl_notifications (failTask s now p e) = dl_notifications s"
  by (simp_all add: finishTask_def failTask_def split: option.splits)

lemma sendChunks_notifications: "dl_notifications (snd (sendChunks env now i p chunks s)) = dl_notifications s"
proof (induction env now i p chunks s rule: sendChunks.induct)
  case (2 env now i p ds rest s)
  then show ?case
    by (auto simp: handleExpoTickets_def Let_def split: expo_reply.splits sum.splits)
qed simp

lemma deliver_notifications: "dl_notifications (snd (deliverToUsersNow env now i p s)) = dl_notifications s"
  by (simp add: deliverToUsersNow_def sendExpo_def Let_def sendChunks_notifications)

lemma processPush_notifications: "dl_notifications (snd (processDeliveryTask env now i b s)) = dl_notifications s"
  using deliver_notifications
  by (auto simp: processDeliveryTask_def beginTask_Some split: option.splits prod.splits task_payload.splits)
    (metis snd_conv delivery_db.select_convs(5) delivery_db.surjective delivery_db.update_convs(2))

lemma dispatchPush_notifications [simp]: "dl_notifications (dispatchPush env now t s) = dl_notifications s"
  by (simp add: dispatchPush_def processPush_notifications split: enqueue_reply.splits)

lemma broadcast_push_notifications [simp]: "dl_notifications (broadcast_push env now i b s) = dl_notifications s"
  by (auto simp: broadcast_push_def queuePushForNotificationBatch_def sendToUsers_def enqueueDelivery_def
      Let_def split: sum.splits if_splits)

lemma broadcast_call:
  assumes t: "findTask (dl_tasks s) i = Some t" "dt_payload t = BroadcastPayload b"
    "dt_status t \<noteq> TS_SUCCEEDED" "dt_status t \<noteq> TS_RETRIED"
    and r: "processBroadcastTask env now ids pushId i True s = (thrown, s')"
  shows "\<exists>new. dl_notifications s' = dl_notifications s @ new
    \<and> map (\<lambda>n. (nt_recipientUserId n, nt_data n)) new
       = (if thrown = None then map (\<lambda>u. (u, broadcast_data_of b)) (bp_userIds b) else [])"
proof -
  let ?s1 = "s\<lparr> dl_tasks := modify_by dt_id i (upd_processing now) (dl_tasks s) \<rparr>"
  have b: "beginTask BROADCAST_FANOUT s now i = Some (upd_processing now t, ?s1)"
    using t by (simp add: beginTask_Some processable_def dt_kind_def)
  have found: "findTask (dl_tasks ?s1) i = Some (upd_processing now t)"
    using t(1) by (simp add: findTask_modify)
  show ?thesis
  proof (cases "fanout env now ids i b ?s1")
    case (Inl e)
    with r t(2) show ?thesis by (auto simp: processBroadcastTask_def b)
  next
    case (Inr x)
    then obtain new s2 where x: "fanout env now ids i b ?s1 = Inr (new, s2)" by (cases x) auto
    have n: "dl_notifications s2 = dl_notifications s @ new"
      "map (\<lambda>n. (nt_recipientUserId n, nt_data n)) new = map (\<lambda>u. (u, broadcast_data_of b)) (bp_userIds b)"
      using fanout_Inr(2,3) [OF found _ x] by simp_all
    have "thrown = None \<and> dl_notifications s' = dl_notifications s2"
      using r t(2) x by (auto simp: processBroadcastTask_def b Let_def broadcast_push_def [symmetric] split: if_splits)
    with n show ?thesis by simp
  qed
qed

lemma finished_call:
  assumes "findTask (dl_tasks s) i = Some t" and "dt_status t = TS_SUCCEEDED"
  shows "processBroadcastTask env now ids pushId i b s = (None, s)"
proof -
  have "beginTask BROADCAST_FANOUT s now i = None" using assms by (simp add: processable_def)
  then show ?thesis by (simp add: processBroadcastTask_def)
qed

lemma finished_calls:
  assumes "findTask (dl_tasks s) i = Some t" and "dt_status t = TS_SUCCEEDED" and "qj_taskId j = i"
    and "qj_queue j = ''broadcast-deliveries''" and "callAll calls j s = (outs, s')"
  shows "s' = s \<and> set outs \<subseteq> {None}"
  using assms(5)
proof (induction calls arbitrary: outs)
  case (Cons c cs)
  have "runJob c j s = (None, s)"
    using assms finished_call [OF assms(1,2)] by (simp add: runJob_def broadcastJob_def)
  with Cons show ?case by (auto split: prod.splits)
qed simp

text \<open>
  C32. The notifications of a broadcast are written exactly once. However often the queue
  calls the worker of the task, also again after a call that had succeeded, and
  whichever calls fail, the calls add to the notifications one row per user of the broadcast, in
  order and with its data, if some call returned normally, and then the task is
  \<open>TS_SUCCEEDED\<close>; if every call threw they add nothing at all.
\<close>

theorem broadcast_exactly_once:
  assumes "findTask (dl_tasks s) i = Some t" and "unique_tasks (dl_tasks s)" and "i \<noteq> []"
    and "dt_payload t = BroadcastPayload b" and "dt_status t = TS_PENDING \<or> dt_status t = TS_FAILED"
    and "qj_taskId j = i" and "qj_queue j = ''broadcast-deliveries''" and "callAll calls j s = (outs, s')"
  shows "\<exists>new t'. dl_notifications s' = dl_notifications s @ new \<and> findTask (dl_tasks s') i = Some t'
    \<and> (dt_status t' = TS_SUCCEEDED \<longleftrightarrow> None \<in> set outs)
    \<and> map (\<lambda>n. (nt_recipientUserId n, nt_data n)) new
       = (if None \<in> set outs then map (\<lambda>u. (u, broadcast_data_of b)) (bp_userIds b) else [])"
  using assms(1,2,4,5,8)
proof (induction calls arbitrary: s t outs)
  case Nil
  then show ?case by auto
next
  case (Cons c cs)
  obtain r s1 rest where r: "runJob c j s = (r, s1)" "callAll cs j s1 = (rest, s')" "outs = r # rest"
    using Cons.prems(5) by (auto split: prod.splits)
  have fresh: "dt_status t \<noteq> TS_SUCCEEDED" "dt_status t \<noteq> TS_RETRIED" using Cons.prems(4) by auto
  let ?t1 = "attempt (jc_now c) r t"
  have row: "findTask (dl_tasks s1) i = Some ?t1" "unique_tasks (dl_tasks s1)"
    using runJob_row [OF Cons.prems(1,2) assms(3) fresh assms(6) _ r(1)] Cons.prems(3) assms(7)
    by (simp_all add: dt_kind_def)
  have "processBroadcastTask (jc_env c) (jc_now c) (jc_ids c) (jc_pushId c) i True s = (r, s1)"
    using r(1) assms(3,6,7) by (simp add: runJob_def broadcastJob_def)
  from broadcast_call [OF Cons.prems(1,3) fresh this] obtain new where
    new: "dl_notifications s1 = dl_notifications s @ new"
      "map (\<lambda>n. (nt_recipientUserId n, nt_data n)) new
       = (if r = None then map (\<lambda>u. (u, broadcast_data_of b)) (bp_userIds b) else [])" by blast
  show ?case
  proof (cases r)
    case None
    then have "dt_status ?t1 = TS_SUCCEEDED" by (simp add: attempt_def)
    with finished_calls [OF row(1) this assms(6,7) r(2)] new row None show ?thesis by (auto simp: r(3))
  next
    case (Some e)
    then have "dt_status ?t1 = TS_PENDING \<or> dt_status ?t1 = TS_FAILED" by (simp add: attempt_def Let_def)
    moreover have "dt_payload ?t1 = BroadcastPayload b" using Cons.prems(3) by simp
    ultimately show ?thesis
      using Cons.IH [OF row _ _ r(2)] new Some by (auto simp: r(3))
  qed
qed

theorem broadcast_exactly_once_witness:
  "\<exists>outs s'. callAll [fx_call 5 (Some ''tx''), fx_call 6 None] (queue_job_of 10000 fx_broadcastTask) fx_queued
      = (outs, s') \<and> None \<in> set outs
     \<and> map (\<lambda>n. (nt_recipientUserId n, nt_data n)) (dl_notifications s')
       = [(''res'', broadcast_data_of fx_broadcast), (''stf'', broadcast_data_of fx_broadcast)]"
proof -
  obtain s' where s': "callAll [fx_call 5 (Some ''tx''), fx_call 6 None] (queue_job_of 10000 fx_broadcastTask)
      fx_queued = ([Some ''tx'', None], s')" using fx_calls by blast
  have found: "findTask (dl_tasks fx_queued) ''t1'' = Some fx_broadcastTask" "unique_tasks (dl_tasks fx_queued)"
    by (simp_all add: fx_queued_def findTask_def unique_tasks_def fx_broadcastTask_def fx_task_def)
  have task: "dt_payload fx_broadcastTask = BroadcastPayload fx_broadcast"
    "dt_status fx_broadcastTask = TS_PENDING \<or> dt_status fx_broadcastTask = TS_FAILED"
    "qj_taskId (queue_job_of 10000 fx_broadcastTask) = ''t1''"
    "qj_queue (queue_job_of 10000 fx_broadcastTask) = ''broadcast-deliveries''"
    by (simp_all add: fx_broadcastTask_def fx_task_def queue_job_of_def)
  have "dl_notifications fx_queued = []" by (simp add: fx_queued_def fx_delivery_def)
  moreover have "bp_userIds fx_broadcast = [''res'', ''stf'']" by (simp add: fx_broadcast_def)
  ultimately show ?thesis
    using broadcast_exactly_once [OF found _ task s'] by (auto simp: s' simp del: callAll.simps)
qed

section \<open>Retries by the platform\<close>

lemma dispatched_ids: "dispatched now i ts ts' \<Longrightarrow> unique_tasks ts \<Longrightarrow> map dt_id ts' = map dt_id ts"
  by (auto simp: dispatched_def attempted_def task_table.keys_modify split: if_splits)

lemma appends_ids: "appends ts ts' \<Longrightarrow> unique_tasks ts \<Longrightarrow> dt_id ` set ts \<subseteq> dt_id ` set ts'"
  by (auto simp: appends_def)

lemma created_ids:
  assumes "createTask ts now i input = Inr (t, ts1)" and "unique_tasks ts"
  shows "unique_tasks ts1" and "i \<in> dt_id ` set ts1"
  using createTask_row [OF assms(1)] assms(2)
  by (auto simp: unique_tasks_def findTask_def find_by_None_iff)

lemma dispatchBroadcast_ids:
  assumes u: "unique_tasks (dl_tasks s)"
  shows "dt_id ` set (dl_tasks s) \<subseteq> dt_id ` set (dl_tasks (dispatchBroadcast env now ids pushId t s))"
proof -
  let ?r = "processBroadcastTask env now ids pushId (dt_id t) False s"
  obtain s1 where s1: "attempted BROADCAST_FANOUT now (dt_id t) False (dl_tasks s) (fst ?r) (dl_tasks s1)"
    "snd ?r = s1 \<or> (\<exists>b. snd ?r = broadcast_push env now pushId b s1)"
    using processBroadcast_attempt [OF u prod.collapse [symmetric], where env = env and now = now and ids = ids
        and pushId = pushId and i = "dt_id t" and allowThrow = False] by (elim exE conjE)
  then have ids: "map dt_id (dl_tasks s1) = map dt_id (dl_tasks s)"
    by (auto simp: attempted_def task_table.keys_modify split: if_splits)
  then have "unique_tasks (dl_tasks s1)" using u by (simp add: unique_tasks_def)
  moreover from ids have "dt_id ` set (dl_tasks s1) = dt_id ` set (dl_tasks s)" by (metis list.set_map)
  ultimately have "dt_id ` set (dl_tasks s) \<subseteq> dt_id ` set (dl_tasks (snd ?r))"
    using s1(2) appends_ids [OF broadcast_push_appends, where s1 = s1 and env1 = env and now1 = now and pushId1 = pushId]
    by (elim disjE exE) simp_all
  then show ?thesis by (simp add: dispatchBroadcast_def split: enqueue_reply.splits)
qed

lemma retryByKind_created:
  assumes u: "unique_tasks (dl_tasks s)" and r: "retryByKind env now ttl fr t s = (Inr t', s1)"
  shows "findTask (dl_tasks s) (fr_taskId fr) = None" and "dt_id t' = fr_taskId fr" and "dt_kind t' = dt_kind t"
    and "fr_taskId fr \<in> dt_id ` set (dl_tasks s1)"
proof -
  have "\<exists>input ts1. createTask (dl_tasks s) now (fr_taskId fr) input = Inr (t', ts1)
    \<and> payload_kind (ti_payload input) = dt_kind t
    \<and> dt_id ` set ts1 \<subseteq> dt_id ` set (dl_tasks s1)"
  proof (cases "dt_payload t")
    case (EmailPayload m)
    from r EmailPayload obtain s0 input where
      "createAndDispatchEmail env now (fr_taskId fr) input s0 = (Inr t', s1)"
      and s0: "dl_tasks s0 = dl_tasks s" "payload_kind (ti_payload input) = dt_kind t"
      by (auto simp: retryByKind_def retryEmailTask_def Let_def dt_kind_def
          split: if_splits option.splits sum.splits
          dest!: createPasswordResetToken_tasks createResidentInvite_tasks)
    then obtain ts1 where c: "createTask (dl_tasks s) now (fr_taskId fr) input = Inr (t', ts1)"
      and s1: "s1 = dispatchEmail env now t' (s0\<lparr> dl_tasks := ts1 \<rparr>)"
      by (auto simp: createAndDispatchEmail_def split: sum.splits)
    have "map dt_id (dl_tasks s1) = map dt_id ts1"
      using dispatched_ids [OF dispatchEmail_dispatched [where s = "s0\<lparr> dl_tasks := ts1 \<rparr>"]] created_ids(1) [OF c u]
      by (simp add: s1)
    with c s0(2) show ?thesis by (metis list.set_map subset_refl)
  next
    case (PushPayload p)
    from r PushPayload obtain input ts1 where
      c: "createTask (dl_tasks s) now (fr_taskId fr) input = Inr (t', ts1)" "ti_payload input = PushPayload p"
      and s1: "s1 = dispatchPush env now t' (s\<lparr> dl_tasks := ts1 \<rparr>)"
      by (auto simp: retryByKind_def enqueueDelivery_def split: sum.splits)
    have "map dt_id (dl_tasks s1) = map dt_id ts1"
      using dispatched_ids [OF dispatchPush_dispatched [where s = "s\<lparr> dl_tasks := ts1 \<rparr>"]] created_ids(1) [OF c(1) u]
      by (simp add: s1)
    with c PushPayload show ?thesis by (metis list.set_map subset_refl dt_kind_def)
  next
    case (BroadcastPayload b)
    from r BroadcastPayload obtain input ts1 where
      c: "createTask (dl_tasks s) now (fr_taskId fr) input = Inr (t', ts1)" "ti_payload input = BroadcastPayload b"
      and s1: "s1 = dispatchBroadcast env now (fr_notificationIds fr) (fr_pushId fr) t' (s\<lparr> dl_tasks := ts1 \<rparr>)"
      by (auto simp: retryByKind_def enqueueFanoutTask_def split: sum.splits)
    have "dt_id ` set ts1 \<subseteq> dt_id ` set (dl_tasks s1)"
      using dispatchBroadcast_ids [where s = "s\<lparr> dl_tasks := ts1 \<rparr>"] created_ids(1) [OF c(1) u] by (simp add: s1)
    with c BroadcastPayload show ?thesis by (metis dt_kind_def)
  qed
  then obtain input ts1 where c: "createTask (dl_tasks s) now (fr_taskId fr) input = Inr (t', ts1)"
    "payload_kind (ti_payload input) = dt_kind t" "dt_id ` set ts1 \<subseteq> dt_id ` set (dl_tasks s1)" by blast
  show "findTask (dl_tasks s) (fr_taskId fr) = None" "dt_id t' = fr_taskId fr" "dt_kind t' = dt_kind t"
    using createTask_row [OF c(1)] c(2) by (simp_all add: dt_kind_def)
  show "fr_taskId fr \<in> dt_id ` set (dl_tasks s1)" using created_ids(2) [OF c(1) u] c(3) by blast
qed

lemma retryTask_refused:
  assumes "unique_tasks (dl_tasks s)" and "findTask (dl_tasks s) i = Some t" and "\<not> claimable t"
  shows "retryTask env now ttl fr i s = (Inl (retryRefusal (Some t)), s)"
proof -
  have "claimForRetry (dl_tasks s) i = (None, dl_tasks s)"
    using claim_spec [OF assms(1) prod.collapse [symmetric], where i = i] assms(2,3) by (simp add: prod_eq_iff)
  with assms(2) show ?thesis by (simp add: retryTask_def)
qed

text \<open>
  C33. A failed task is retried at most once. A retry that returns a new task found the old one
  failed and not retried before; it leaves the old one \<open>TS_RETRIED\<close>, replaced by the new task, which
  is of the same kind and was not there before; and after any further operations every
  retry of the old task is refused.
\<close>

theorem retried_once:
  assumes inv: "tasks_inv (dl_tasks s)" and r: "retryTask env now ttl fr i s = (Inr t', s')"
  shows "\<exists>t u. findTask (dl_tasks s) i = Some t \<and> claimable t \<and> dt_kind t' = dt_kind t
    \<and> findTask (dl_tasks s) (dt_id t') = None \<and> dt_id t' \<in> dt_id ` set (dl_tasks s')
    \<and> findTask (dl_tasks s') i = Some u \<and> dt_status u = TS_RETRIED \<and> dt_replacedByTaskId u = Some (dt_id t')
    \<and> (\<forall>ops env2 now2 ttl2 fr2. fst (retryTask env2 now2 ttl2 fr2 i (runDelivery ops s'))
          = Inl (Conflict ''Delivery task has already been retried''))"
proof -
  from inv have ok: "unique_tasks (dl_tasks s)" "\<forall>t \<in> set (dl_tasks s). task_ok t" by (auto simp: tasks_inv_def)
  let ?s0 = "s\<lparr> dl_tasks := modify_by dt_id i upd_claim (dl_tasks s) \<rparr>"
  from retryTask_spec [OF ok r] obtain t s1 where t: "findTask (dl_tasks s) i = Some t" "claimable t"
    and k: "retryByKind env now ttl fr (upd_claim t) ?s0 = (Inr t', s1)"
    and app: "appends (modify_by dt_id i (upd_retried now (dt_id t') \<circ> upd_claim) (dl_tasks s)) (dl_tasks s')"
    by auto
  let ?u = "upd_retried now (dt_id t') (upd_claim t)"
  have u0: "unique_tasks (modify_by dt_id i f (dl_tasks s))" if "\<And>t. dt_id (f t) = dt_id t" for f
    using ok(1) that by (simp add: unique_tasks_def task_table.keys_modify)
  have u: "findTask (dl_tasks s') i = Some ?u"
    using appends_find [OF app u0] t(1) by (simp add: findTask_modify)
  have new: "findTask (dl_tasks ?s0) (dt_id t') = None" "dt_kind t' = dt_kind t" "dt_id t' \<in> dt_id ` set (dl_tasks s1)"
    using retryByKind_created [OF _ k] u0 by (simp_all add: dt_kind_def upd_claim_def)
  have inv': "tasks_inv (dl_tasks s')"
    using retryTask_step [of s env now ttl fr i] inv r by (simp add: task_step_def)
  have again: "fst (retryTask env2 now2 ttl2 fr2 i (runDelivery ops s'))
      = Inl (Conflict ''Delivery task has already been retried'')" for ops env2 now2 ttl2 fr2
  proof -
    let ?s2 = "runDelivery ops s'"
    have "tasks_history (dl_tasks s') (dl_tasks ?s2)" and i2: "tasks_inv (dl_tasks ?s2)"
      using runDelivery_history [OF inv'] runDelivery_inv [OF inv'] by auto
    then have "?u \<in> set (dl_tasks ?s2)"
      using findTask_mem [OF u] by (force simp: tasks_history_def evolves_def upd_retried_def)
    then have "findTask (dl_tasks ?s2) i = Some ?u"
      using i2 findTask_distinct [of "dl_tasks ?s2" ?u] findTask_mem [OF u] by (simp add: tasks_inv_def)
    then show ?thesis
      using retryTask_refused [of ?s2 i ?u] i2
      by (simp add: claimable_def retryRefusal_def upd_retried_def tasks_inv_def)
  qed
  have "map dt_id (dl_tasks s') = map dt_id (dl_tasks s1)"
    using r t(1) k claim_spec [OF ok(1) prod.collapse [symmetric], where i = i] t(2)
    by (auto simp: retryTask_def markRetried_def setTask_def updateTask_def task_table.keys_modify
        split: option.splits prod.splits)
  then have "dt_id t' \<in> dt_id ` set (dl_tasks s')" using new(3) by (metis list.set_map)
  moreover have "findTask (dl_tasks s) (dt_id t') = None"
    using new(1) by (simp add: findTask_modify split: if_splits)
  ultimately show ?thesis
    using t u again new(2) by (intro exI [of _ t] exI [of _ ?u]) (simp add: upd_retried_def)
qed

definition fx_failedTask :: delivery_task where
  "fx_failedTask = fx_task ''t1'' (PushPayload \<lparr> pp_orgId = ''o1'', pp_userIds = [''res''], pp_title = ''Hi'',
     pp_body = None, pp_data = None \<rparr>) TS_FAILED 5"

definition fx_fresh :: fresh where
  "fx_fresh = \<lparr> fr_taskId = ''t2'', fr_pushId = ''p2'', fr_token = ''k2'', fr_notificationIds = (\<lambda>k. ''n'') \<rparr>"

theorem retried_once_witness:
  "\<exists>t' s'. retryTask fx_env 20 30 fx_fresh ''t1'' (fx_delivery\<lparr> dl_tasks := [fx_failedTask] \<rparr>) = (Inr t', s')
     \<and> (\<forall>ops. fst (retryTask fx_env 30 30 fx_fresh ''t1'' (runDelivery ops s'))
          = Inl (Conflict ''Delivery task has already been retried''))"
proof -
  let ?s = "fx_delivery\<lparr> dl_tasks := [fx_failedTask] \<rparr>"
  have inv: "tasks_inv (dl_tasks ?s)"
    by (simp add: tasks_inv_def unique_tasks_def task_ok_def fx_failedTask_def fx_task_def)
  have "\<exists>t' s'. retryTask fx_env 20 30 fx_fresh ''t1'' ?s = (Inr t', s')"
    by (simp add: retryTask_def claimForRetry_def claimable_def upd_claim_def retryByKind_def enqueueDelivery_def
        createTask_def dispatchPush_def fx_env_def fx_failedTask_def fx_task_def findTask_def fx_fresh_def
        Let_def)
  then obtain t' s' where r: "retryTask fx_env 20 30 fx_fresh ''t1'' ?s = (Inr t', s')" by blast
  show ?thesis using retried_once [OF inv r] r by (intro exI conjI) auto
qed

section \<open>A task without a queue\<close>

lemma stranded_task:
  assumes "tasks_inv (dl_tasks s)" and "findTask (dl_tasks s) i = None"
    and "en_queue env ''auth-deliveries'' \<noteq> Enqueued" and "\<And>m. en_mail env m = Some e"
    and "enqueuePasswordResetEmail env now i r s = (res, s')"
  shows "\<exists>t. findTask (dl_tasks s') i = Some t \<and> dt_status t = TS_PENDING \<and> dt_attemptCount t = 1
    \<and> dt_maxAttempts t = 5 \<and> dl_jobs s' = dl_jobs s"
proof -
  define input where "input =
     \<lparr> ti_queueName = ''auth-deliveries'', ti_jobName = ''auth.password-email'', ti_orgId = rr_orgId r,
       ti_userId = rr_userId r, ti_referenceType = Some ''PASSWORD_RESET_TOKEN'',
       ti_referenceId = Some (rr_tokenHash r),
       ti_payload = EmailPayload
         \<lparr> em_email = rr_email r, em_token = rr_token r, em_expiresAt = rr_expiresAt r,
           em_purpose = rr_purpose r, em_inviteeName = rr_inviteeName r, em_inviterName = rr_inviterName r,
           em_issuedByUserId = rr_issuedByUserId r,
           em_residentInviteTokenHash =
             (if rr_purpose r = RESIDENT_INVITE then Some (rr_tokenHash r) else None) \<rparr>,
       ti_maxAttempts = Some 5 \<rparr>"
  have "\<exists>t ts. createTask (dl_tasks s) now i input = Inr (t, ts)"
    using assms(2) by (simp add: createTask_def Let_def findTask_def)
  then obtain t ts where new: "createTask (dl_tasks s) now i input = Inr (t, ts)" by blast
  then have "s' = dispatchEmail env now t (s\<lparr> dl_tasks := ts \<rparr>)"
    using assms(5) by (simp add: enqueuePasswordResetEmail_def input_def [symmetric] createAndDispatchEmail_def)
  with createTask_row [OF new] have c: "findTask ts i = Some t" "ts = dl_tasks s @ [t]"
    "dt_status t = TS_PENDING" "dt_attemptCount t = 0" "dt_maxAttempts t = 5" "dt_id t = i"
    "dt_kind t = AUTH_PASSWORD_EMAIL" "dt_queueName t = ''auth-deliveries''"
    "s' = dispatchEmail env now t (s\<lparr> dl_tasks := ts \<rparr>)"
    by (simp_all add: input_def findTask_def find_by_append dt_kind_def)
  let ?s1 = "s\<lparr> dl_tasks := ts \<rparr>"
  have u: "unique_tasks (dl_tasks ?s1)"
    using assms(1,2) c(2,6) by (simp add: tasks_inv_def unique_tasks_def findTask_def find_by_None_iff)
  obtain m where m: "dt_payload t = EmailPayload m" using c(7) by (auto simp: payload_of_kind)
  have first: "beginTask AUTH_PASSWORD_EMAIL ?s1 now i = Some (upd_processing now t,
      s\<lparr> dl_tasks := modify_by dt_id i (upd_processing now) ts \<rparr>)"
    using c by (auto simp: beginTask_Some processable_def)
  have s': "s' = snd (processEmailTask env now i False ?s1)"
    using c assms(3) by (simp add: dispatchEmail_def split: enqueue_reply.splits)
  have "processEmailTask env now i True ?s1 = (Some e, s')"
    by (simp add: processEmailTask_def s' first m assms(4) Let_def)
  then have "findTask (dl_tasks s') i = Some (attempt now (Some e) t) \<and> unique_tasks (dl_tasks s')"
    using attempted_row [of t now i ts "Some e" "dl_tasks s'"] processEmail_attempt [OF u] c u by fastforce
  moreover have "attempt now (Some e) t = upd_retryScheduled e (upd_processing now t)"
    using c by (simp add: attempt_def)
  moreover have "dl_jobs s' = dl_jobs s"
    by (simp add: s' processEmailTask_def first m assms(4) Let_def failTask_def setTask_def
        markResidentInviteFailed_def split: sum.splits prod.splits)
  ultimately show ?thesis using c by (simp add: upd_retryScheduled_def upd_processing_def)
qed

text \<open>
  C34. A mail task is stranded when the queue does not take its job and the one attempt made
  on the spot fails. Whatever operations follow (other mails, pushes and broadcasts, calls of the
  workers for jobs that are in the queue, retries of this or of other tasks, the receipt monitor), the
  task stays \<open>TS_PENDING\<close> after one of its five attempts, the queue never holds a job for it, and
  the platform's retry refuses it because it is not failed.
\<close>

theorem stranded_without_queue:
  assumes "tasks_inv (dl_tasks s)" and "findTask (dl_tasks s) i = None" and "jobsFor i s = []"
    and "en_queue env ''auth-deliveries'' \<noteq> Enqueued" and "\<And>m. en_mail env m = Some e"
    and "enqueuePasswordResetEmail env now i r s = (res, s')"
    and "queuedRun ops s'" and "s'' = runDelivery ops s'"
  shows "\<exists>t. findTask (dl_tasks s'') i = Some t \<and> dt_status t = TS_PENDING \<and> dt_attemptCount t = 1
    \<and> dt_maxAttempts t = 5 \<and> jobsFor i s'' = []
    \<and> (\<forall>env2 now2 ttl fr. retryTask env2 now2 ttl fr i s''
          = (Inl (Conflict ''Only failed delivery tasks can be retried''), s''))"
proof -
  from stranded_task [OF assms(1,2,4,5,6)] obtain t where t: "findTask (dl_tasks s') i = Some t" "dt_status t = TS_PENDING"
    "dt_attemptCount t = 1" "dt_maxAttempts t = 5" "dl_jobs s' = dl_jobs s" by blast
  have "tasks_inv (dl_tasks s')"
    using deliver_step [of s env now "EnqueueEmail i r"] assms(1,6) by (simp add: task_step_def)
  with t assms(3) have "stuck i t s'" by (simp add: stuck_def jobsFor_def)
  then have s: "stuck i t s''" using stuck_for_ever [OF _ assms(7)] assms(8) by simp
  then have "unique_tasks (dl_tasks s'')" by (simp add: stuck_def tasks_inv_def)
  with s t show ?thesis
    using retryTask_refused [of s'' i] by (simp add: stuck_def claimable_def retryRefusal_def)
qed

theorem stranded_without_queue_witness:
  "\<exists>t. findTask (dl_tasks (runDelivery [(fx_env, 5, RetryTask 30 fx_fresh ''t1''), (fx_env, 6, EnqueueEmail ''t2'' fx_reset)]
         (snd (enqueuePasswordResetEmail (fx_env\<lparr> en_queue := (\<lambda>q. QueueError ''redis'') \<rparr>) 1 ''t1'' fx_reset
            fx_delivery)))) ''t1'' = Some t
     \<and> dt_status t = TS_PENDING \<and> dt_attemptCount t = 1"
proof -
  let ?env = "fx_env\<lparr> en_queue := (\<lambda>q. QueueError ''redis'') \<rparr>"
  let ?s = "snd (enqueuePasswordResetEmail ?env 1 ''t1'' fx_reset fx_delivery)"
  have s: "tasks_inv (dl_tasks fx_delivery)" "findTask (dl_tasks fx_delivery) ''t1'' = None" "jobsFor ''t1'' fx_delivery = []"
    "en_queue ?env ''auth-deliveries'' \<noteq> Enqueued" "\<And>m. en_mail ?env m = Some ''smtp down''"
    by (simp_all add: tasks_inv_def unique_tasks_def findTask_def jobsFor_def fx_delivery_def fx_env_def)
  have "queuedRun [(fx_env, 5, RetryTask 30 fx_fresh ''t1''), (fx_env, 6, EnqueueEmail ''t2'' fx_reset)] ?s" by simp
  from stranded_without_queue [OF s prod.collapse [symmetric] this refl] show ?thesis by blast
qed

section \<open>Pages\<close>

text \<open>
  C35. Following the cursors of the notification list ends and shows everything once: with any
  filters and any limit a client may send, as many requests as there are notifications
  plus one are enough to reach the page without a cursor, the pages together are the matching
  notifications of the user in their order, newest first, without repetition or gap, and no page
  is longer than 100.
\<close>

theorem notification_pages_complete:
  assumes "unique_notifications (dl_notifications s)" and "orgs \<noteq> []"
    and "length (dl_notifications s) < fuel"
  shows "\<exists>pages. walkPages (notificationPage s orgs userId opts limit) fuel None = (pages, True)
    \<and> concat pages = newestRows notification_key (filter (notificationWhere orgs userId opts) (dl_notifications s))
    \<and> distinct (map nt_id (concat pages)) \<and> (\<forall>p \<in> set pages. length p \<le> 100)"
proof -
  let ?n = "nat (clampLimit 20 100 limit)"
  have n: "0 < ?n" "?n \<le> 100" using clampLimit_bounds [of 100 20 limit] by auto
  have "notificationPage s orgs userId opts limit
    = (\<lambda>c. cutPage notification_key ?n (listNotificationRows (dl_notifications s) orgs userId opts (Suc ?n) c))"
    by (auto simp: notificationPage_def Let_def)
  moreover have "length (filter (notificationWhere orgs userId opts) (dl_notifications s)) < fuel"
    using assms(3) by (meson le_less_trans length_filter_le)
  ultimately obtain pages where p: "walkPages (notificationPage s orgs userId opts limit) fuel None = (pages, True)"
    "concat pages = newestRows notification_key (filter (notificationWhere orgs userId opts) (dl_notifications s))"
    "\<forall>p \<in> set pages. length p \<le> ?n"
    using notification_pages.walk_all [of "(dl_notifications s, orgs, userId, opts)" ?n fuel] assms n(1) by auto
  have "distinct (map nt_id (filter (notificationWhere orgs userId opts) (dl_notifications s)))"
    using assms(1) by (simp add: unique_notifications_def distinct_map_filter)
  then have "distinct (map nt_id (concat pages))"
    by (simp add: p(2) newestRows_def rev_map [symmetric] distinct_map)
  with p n(2) show ?thesis by fastforce
qed

definition fx_notification :: "string \<Rightarrow> int \<Rightarrow> notification_row" where
  "fx_notification i created =
     \<lparr> nt_id = i, nt_orgId = ''o1'', nt_recipientUserId = ''res'', nt_type = BROADCAST, nt_title = ''T'',
       nt_body = None, nt_data = OtherData (JObject []), nt_readAt = None, nt_dismissedAt = None, nt_createdAt = created \<rparr>"

theorem notification_pages_complete_witness:
  "\<exists>pages. walkPages (notificationPage (fx_delivery\<lparr> dl_notifications := [fx_notification ''a'' 1, fx_notification ''b'' 2] \<rparr>)
       [''o1''] ''res'' \<lparr> lo_unreadOnly = True, lo_includeDismissed = False, lo_type = None \<rparr> (Some (- 3))) 3 None
     = (pages, True) \<and> map nt_id (concat pages) = [''b'', ''a'']"
proof -
  let ?s = "fx_delivery\<lparr> dl_notifications := [fx_notification ''a'' 1, fx_notification ''b'' 2] \<rparr>"
  let ?o = "\<lparr> lo_unreadOnly = True, lo_includeDismissed = False, lo_type = None \<rparr>"
  have "unique_notifications (dl_notifications ?s)" "[''o1''] \<noteq> []" "length (dl_notifications ?s) < 3"
    by (simp_all add: unique_notifications_def fx_notification_def)
  note pages = notification_pages_complete [OF this, where userId = "''res''" and opts = ?o and limit = "Some (- 3)"]
  have "filter (notificationWhere [''o1''] ''res'' ?o) (dl_notifications ?s)
    = [fx_notification ''a'' 1, fx_notification ''b'' 2]"
    by (simp add: notificationWhere_def fx_notification_def)
  moreover have "map nt_id (newestRows notification_key [fx_notification ''a'' 1, fx_notification ''b'' 2])
    = [''b'', ''a'']"
    by (simp add: newestRows_def notification_key_def fx_notification_def)
  ultimately show ?thesis using pages by (elim exE conjE) auto
qed

end
