(* ===== verification/Recipients.thy ===== *)
theory Recipients
  imports RequestOwner Notifications
begin

text \<open>
  Who is told about a request (\<^verbatim>\<open>notification-recipient.resolver.ts\<close>) and what they are told
  (\<^verbatim>\<open>notifications.listener.ts\<close>): the listener turns each event of the request workflow into
  notifications. A JavaScript \<^verbatim>\<open>Set\<close> of user ids is the list of its members in the order in which
  they were added; a query without an order gives the rows in the order of the table.
\<close>

section \<open>Groups of users\<close>

definition addAll :: "string list \<Rightarrow> string list \<Rightarrow> string list" where
  "addAll xs ys = js_unique (xs @ ys)"

definition addTruthy :: "string list \<Rightarrow> string option \<Rightarrow> string list" where
  "addTruthy xs x = (if truthy x then addAll xs [the x] else xs)"

definition getBuildingManagersAndAdmins :: "db \<Rightarrow> string \<Rightarrow> string \<Rightarrow> string list" where
  "getBuildingManagersAndAdmins s org bldg =
     js_unique (map ua_userId (filter (\<lambda>a.
       ua_scopeType a = SC_BUILDING \<and> ua_scopeId a = Some bldg
       \<and> (case find_by rt_id (ua_roleTemplateId a) (roleTemplates s) of
            None \<Rightarrow> False
          | Some t \<Rightarrow> rt_orgId t = Some org \<and> rt_scopeType t = SC_BUILDING
              \<and> List.member [''building_manager'', ''building_admin''] (rt_key t))
       \<and> (case find_by us_id (ua_userId a) (users s) of
            None \<Rightarrow> False | Some x \<Rightarrow> us_isActive x \<and> us_orgId x = Some org)) (accessAssignments s)))"

definition getOrgAdmins :: "db \<Rightarrow> string \<Rightarrow> string list" where
  "getOrgAdmins s org =
     js_unique (map us_id (filter (\<lambda>x.
       us_orgId x = Some org \<and> us_isActive x
       \<and> list_ex (\<lambda>a. ua_userId a = us_id x \<and> ua_scopeType a = SC_ORG \<and> ua_scopeId a = None
            \<and> (case find_by rt_id (ua_roleTemplateId a) (roleTemplates s) of
                 None \<Rightarrow> False
               | Some t \<Rightarrow> rt_key t = ''org_admin'' \<and> rt_orgId t = Some org)) (accessAssignments s)) (users s)))"

definition resolveOpsRecipients :: "db \<Rightarrow> string \<Rightarrow> string \<Rightarrow> string list" where
  "resolveOpsRecipients s org bldg =
     (let managers = getBuildingManagersAndAdmins s org bldg
      in if managers = [] then getOrgAdmins s org else managers)"

definition getActiveProviderManagers :: "db \<Rightarrow> string \<Rightarrow> string list" where
  "getActiveProviderManagers s sp =
     js_unique (map su_userId (filter (\<lambda>m.
       su_serviceProviderId m = sp \<and> su_role m = PROVIDER_ADMIN \<and> su_isActive m
       \<and> user_active s (su_userId m) \<and> provider_active s sp) (providerUsers s)))"

text \<open>The owners of the unit of a request: by a current ownership row, else by the unit's owner column.\<close>

definition ownerIdsForRequest :: "db \<Rightarrow> string \<Rightarrow> string \<Rightarrow> string list" where
  "ownerIdsForRequest s org unitId =
     (let current = js_unique (map uo_ownerId (filter (\<lambda>x. uo_orgId x = org \<and> uo_unitId x = unitId
            \<and> uo_endDate x = None \<and> ownerActive s (uo_ownerId x)) (unitOwnerships s)))
      in if current \<noteq> [] then current
         else case List.find (\<lambda>n. un_id n = unitId
                \<and> list_ex (\<lambda>b. bd_id b = un_buildingId n \<and> bd_orgId b = org) (buildings s)
                \<and> \<not> list_ex (\<lambda>x. uo_unitId x = unitId \<and> uo_endDate x = None) (unitOwnerships s)
                \<and> (case un_ownerId n of None \<Rightarrow> False | Some o' \<Rightarrow> ownerActive s o')) (units s) of
                None \<Rightarrow> []
              | Some n \<Rightarrow> if truthy (un_ownerId n) then [the (un_ownerId n)] else [])"

definition resolveActiveOwnerRecipientsForRequest :: "db \<Rightarrow> request_snapshot \<Rightarrow> string list" where
  "resolveActiveOwnerRecipientsForRequest s r =
     (if \<not> truthy (sn_unitId r) then []
      else let ownerIds = ownerIdsForRequest s (sn_orgId r) (the (sn_unitId r))
        in if ownerIds = [] then []
           else js_unique (List.map_filter (\<lambda>g.
                  if List.member ownerIds (og_ownerId g) \<and> og_status g = GR_ACTIVE
                     \<and> truthy (og_userId g) \<and> ownerActive s (og_ownerId g)
                  then og_userId g else None) (ownerGrants s)))"

definition finalizeRecipients :: "string list \<Rightarrow> string \<Rightarrow> string list" where
  "finalizeRecipients recipients actor =
     (let others = filter (\<lambda>u. u \<noteq> actor) recipients
      in if others = [] then [actor] else others)"

section \<open>The recipients of an event\<close>

definition resolveExecutionRecipients :: "db \<Rightarrow> request_snapshot \<Rightarrow> string list" where
  "resolveExecutionRecipients s r =
     (let xs = addTruthy [sn_createdByUserId r] (sn_assignedToUserId r);
          ys = (if truthy (sn_serviceProviderAssignedUserId r) then addTruthy xs (sn_serviceProviderAssignedUserId r)
                else if truthy (sn_serviceProviderId r)
                then addAll xs (getActiveProviderManagers s (the (sn_serviceProviderId r)))
                else xs)
      in addAll ys (resolveOpsRecipients s (sn_orgId r) (sn_buildingId r)))"

definition addPreviousExecutionRecipients ::
  "db \<Rightarrow> string list \<Rightarrow> request_snapshot \<Rightarrow> request_snapshot option \<Rightarrow> string list" where
  "addPreviousExecutionRecipients s recipients r previous =
     (case previous of
        None \<Rightarrow> recipients
      | Some p \<Rightarrow>
          let xs = (if sn_assignedToUserId p \<noteq> sn_assignedToUserId r
                    then addTruthy recipients (sn_assignedToUserId p) else recipients);
              ys = (if sn_serviceProviderAssignedUserId p \<noteq> sn_serviceProviderAssignedUserId r
                    then addTruthy xs (sn_serviceProviderAssignedUserId p) else xs)
          in if truthy (sn_serviceProviderId p) \<and> sn_serviceProviderId p \<noteq> sn_serviceProviderId r
             then addAll ys (getActiveProviderManagers s (the (sn_serviceProviderId p))) else ys)"

definition resolveForRequestAssigned ::
  "db \<Rightarrow> request_snapshot \<Rightarrow> string \<Rightarrow> request_snapshot option \<Rightarrow> string list" where
  "resolveForRequestAssigned s r actor previous =
     (let xs = (if truthy (sn_serviceProviderAssignedUserId r) then [the (sn_serviceProviderAssignedUserId r)]
                else if truthy (sn_serviceProviderId r)
                then getActiveProviderManagers s (the (sn_serviceProviderId r))
                else addAll (addAll (addTruthy [] (sn_assignedToUserId r)) [sn_createdByUserId r])
                       (resolveOpsRecipients s (sn_orgId r) (sn_buildingId r)));
          ys = (if sn_isEmergency r then addAll xs (resolveActiveOwnerRecipientsForRequest s r) else xs)
      in finalizeRecipients (addPreviousExecutionRecipients s ys r previous) actor)"

definition resolveForRequestStatusChanged ::
  "db \<Rightarrow> request_snapshot \<Rightarrow> string \<Rightarrow> request_snapshot option \<Rightarrow> string list" where
  "resolveForRequestStatusChanged s r actor previous =
     (let xs = addAll (addTruthy [sn_createdByUserId r] (sn_assignedToUserId r))
                 (resolveOpsRecipients s (sn_orgId r) (sn_buildingId r))
      in finalizeRecipients (addPreviousExecutionRecipients s xs r previous) actor)"

definition resolveForRequestCommented :: "db \<Rightarrow> request_snapshot \<Rightarrow> string \<Rightarrow> string list" where
  "resolveForRequestCommented s r actor =
     finalizeRecipients
       (addAll (addAll (addTruthy [sn_createdByUserId r] (sn_assignedToUserId r))
          (resolveOpsRecipients s (sn_orgId r) (sn_buildingId r)))
          (resolveActiveOwnerRecipientsForRequest s r)) actor"

definition resolveForRequestCanceled :: "db \<Rightarrow> request_snapshot \<Rightarrow> string \<Rightarrow> string list" where
  "resolveForRequestCanceled s r actor =
     finalizeRecipients (addTruthy (resolveOpsRecipients s (sn_orgId r) (sn_buildingId r)) (sn_assignedToUserId r))
       actor"

definition resolveForOps :: "db \<Rightarrow> request_snapshot \<Rightarrow> string \<Rightarrow> string list" where
  "resolveForOps s r actor = finalizeRecipients (resolveOpsRecipients s (sn_orgId r) (sn_buildingId r)) actor"

definition resolveForOwners :: "db \<Rightarrow> request_snapshot \<Rightarrow> string \<Rightarrow> string list" where
  "resolveForOwners s r actor = finalizeRecipients (resolveActiveOwnerRecipientsForRequest s r) actor"

definition resolveForOwnerDecision :: "db \<Rightarrow> request_snapshot \<Rightarrow> string \<Rightarrow> string list" where
  "resolveForOwnerDecision s r actor = finalizeRecipients (resolveExecutionRecipients s r) actor"

definition resolveForOwnerRequestOverridden :: "db \<Rightarrow> request_snapshot \<Rightarrow> string \<Rightarrow> string list" where
  "resolveForOwnerRequestOverridden s r actor =
     finalizeRecipients (addAll (resolveExecutionRecipients s r) (resolveActiveOwnerRecipientsForRequest s r)) actor"

section \<open>The listener\<close>

definition truncateMessage :: "string \<Rightarrow> string" where
  "truncateMessage message =
     (let t = trim message in if length t \<le> 80 then t else take 77 t @ ''...'')"

definition buildRequestBody :: "request_snapshot \<Rightarrow> string" where
  "buildRequestBody r =
     (case sn_unit r of
        None \<Rightarrow> sn_title r
      | Some (i, label) \<Rightarrow> if label = [] then sn_title r else ''Unit '' @ label @ '': '' @ sn_title r)"

definition buildNotificationData :: "request_event \<Rightarrow> notification_data" where
  "buildNotificationData e =
     (let r = ev_request e
      in RequestData
         \<lparr> rd_requestId = sn_id r, rd_buildingId = sn_buildingId r,
           rd_unitId = orElse (map_option fst (sn_unit r)) (sn_unitId r), rd_actorUserId = ev_actorUserId e,
           rd_status = sn_status r, rd_ownerApprovalStatus = sn_ownerApprovalStatus r,
           rd_isEmergency = sn_isEmergency r, rd_commentId = map_option fst (ev_comment e) \<rparr>)"

fun req_status_str :: "req_status \<Rightarrow> string" where
  "req_status_str OPEN = ''OPEN''"
| "req_status_str ASSIGNED = ''ASSIGNED''"
| "req_status_str IN_PROGRESS = ''IN_PROGRESS''"
| "req_status_str COMPLETED = ''COMPLETED''"
| "req_status_str CANCELED = ''CANCELED''"

record request_message =
  ms_recipients :: "string list"
  ms_type :: notification_type
  ms_title :: string
  ms_body :: "string option"

text \<open>One clause per handler of the listener.\<close>

definition requestMessage :: "db \<Rightarrow> request_event \<Rightarrow> request_message" where
  "requestMessage s e =
     (let r = ev_request e; actor = ev_actorUserId e; body = Some (buildRequestBody r)
      in case ev_name e of
           EV_CREATED \<Rightarrow> \<lparr> ms_recipients = resolveForOps s r actor, ms_type = REQUEST_CREATED,
             ms_title = ''New maintenance request'', ms_body = body \<rparr>
         | EV_ASSIGNED \<Rightarrow> \<lparr> ms_recipients = resolveForRequestAssigned s r actor (ev_previousRequest e),
             ms_type = REQUEST_ASSIGNED, ms_title = ''Request assigned'', ms_body = body \<rparr>
         | EV_STATUS_CHANGED \<Rightarrow> \<lparr> ms_recipients = resolveForRequestStatusChanged s r actor (ev_previousRequest e),
             ms_type = REQUEST_STATUS_CHANGED, ms_title = ''Request status updated'',
             ms_body = Some (req_status_str (sn_status r)) \<rparr>
         | EV_COMMENTED \<Rightarrow> \<lparr> ms_recipients = resolveForRequestCommented s r actor, ms_type = REQUEST_COMMENTED,
             ms_title = ''New comment'', ms_body = map_option (\<lambda>(i, m). truncateMessage m) (ev_comment e) \<rparr>
         | EV_CANCELED \<Rightarrow> \<lparr> ms_recipients = resolveForRequestCanceled s r actor, ms_type = REQUEST_CANCELED,
             ms_title = ''Request canceled'', ms_body = body \<rparr>
         | EV_ESTIMATE_REMINDER \<Rightarrow> \<lparr> ms_recipients = resolveForOps s r actor, ms_type = ESTIMATE_REMINDER,
             ms_title = ''Estimate overdue'', ms_body = body \<rparr>
         | EV_OWNER_APPROVAL_REQUESTED \<Rightarrow> \<lparr> ms_recipients = resolveForOwners s r actor,
             ms_type = OWNER_APPROVAL_REQUESTED, ms_title = ''Owner approval requested'', ms_body = body \<rparr>
         | EV_OWNER_APPROVAL_REMINDER \<Rightarrow> \<lparr> ms_recipients = resolveForOwners s r actor,
             ms_type = OWNER_APPROVAL_REMINDER, ms_title = ''Owner approval reminder'', ms_body = body \<rparr>
         | EV_OWNER_REQUEST_APPROVED \<Rightarrow> \<lparr> ms_recipients = resolveForOwnerDecision s r actor,
             ms_type = OWNER_REQUEST_APPROVED, ms_title = ''Request approved'', ms_body = body \<rparr>
         | EV_OWNER_REQUEST_REJECTED \<Rightarrow> \<lparr> ms_recipients = resolveForOwnerDecision s r actor,
             ms_type = OWNER_REQUEST_REJECTED, ms_title = ''Request rejected'', ms_body = body \<rparr>
         | EV_OWNER_REQUEST_OVERRIDDEN \<Rightarrow> \<lparr> ms_recipients = resolveForOwnerRequestOverridden s r actor,
             ms_type = OWNER_REQUEST_OVERRIDDEN, ms_title = ''Request overridden'', ms_body = body \<rparr>)"

definition handleRequestEvent ::
  "delivery_env \<Rightarrow> int \<Rightarrow> (nat \<Rightarrow> string) \<Rightarrow> string \<Rightarrow> request_event \<Rightarrow> delivery_db \<Rightarrow> error option \<times> delivery_db" where
  "handleRequestEvent env now ids taskId e s =
     (let m = requestMessage (dl_core s) e
      in createForUsers env now ids taskId (sn_orgId (ev_request e)) (ms_recipients m) (ms_type m) (ms_title m)
           (ms_body m) (buildNotificationData e) s)"

section \<open>Lemmas\<close>

lemma set_addAll [simp]: "set (addAll xs ys) = set xs \<union> set ys"
  by (simp add: addAll_def)

lemma set_finalize:
  "set (finalizeRecipients xs actor) = (if set xs \<subseteq> {actor} then {actor} else set xs - {actor})"
  by (auto simp: finalizeRecipients_def Let_def filter_empty_conv)

lemma finalize_not_empty [simp]: "finalizeRecipients xs actor \<noteq> []"
  by (simp add: finalizeRecipients_def Let_def)

end
