(* ===== verification/RecipientTheorems.thy ===== *)
theory RecipientTheorems
  imports ApprovalTheorems DeliveryTheorems Recipients
begin

text \<open>
  Theorems that join the request workflow and the notifications: who is asked for an owner's
  approval, and who hears of the owner's decision.
\<close>

section \<open>The owners that are asked\<close>

text \<open>
  The database as its foreign keys and its services keep it, around the unit of one request:
  unit ids are unique, the building of the unit and the ownership rows of the unit belong to
  the organisation of the request.
\<close>

definition unit_in_org :: "db \<Rightarrow> string \<Rightarrow> string \<Rightarrow> bool" where
  "unit_in_org s org i \<longleftrightarrow>
     distinct (map un_id (units s)) \<and> i \<noteq> []
     \<and> (\<forall>n \<in> set (units s). un_id n = i \<longrightarrow> list_ex (\<lambda>b. bd_id b = un_buildingId n \<and> bd_orgId b = org) (buildings s))
     \<and> (\<forall>x \<in> set (unitOwnerships s). uo_unitId x = i \<longrightarrow> uo_orgId x = org)
     \<and> (\<forall>n \<in> set (units s). un_ownerId n \<noteq> Some [])"

lemma ownerIds_own:
  assumes "unit_in_org s org i"
  shows "o' \<in> set (ownerIdsForRequest s org i) \<longleftrightarrow>
     ownerActive s o' \<and> ((\<exists>x \<in> set (unitOwnerships s). uo_unitId x = i \<and> uo_ownerId x = o' \<and> uo_endDate x = None)
         \<or> (\<exists>n \<in> set (units s). un_id n = i \<and> un_ownerId n = Some o')
            \<and> \<not> (\<exists>x \<in> set (unitOwnerships s). uo_unitId x = i \<and> uo_endDate x = None))"
proof -
  let ?cur = "filter (\<lambda>x. uo_orgId x = org \<and> uo_unitId x = i \<and> uo_endDate x = None \<and> ownerActive s (uo_ownerId x))
    (unitOwnerships s)"
  let ?P = "\<lambda>n. un_id n = i \<and> list_ex (\<lambda>b. bd_id b = un_buildingId n \<and> bd_orgId b = org) (buildings s)
     \<and> \<not> list_ex (\<lambda>x. uo_unitId x = i \<and> uo_endDate x = None) (unitOwnerships s)
     \<and> (case un_ownerId n of None \<Rightarrow> False | Some o' \<Rightarrow> ownerActive s o')"
  have one: "n = m" if "n \<in> set (units s)" "m \<in> set (units s)" "un_id n = i" "un_id m = i" for n m
    using assms that by (auto simp: unit_in_org_def distinct_map dest: inj_onD)
  show ?thesis
  proof (cases "?cur = []")
    case False
    then obtain x where "x \<in> set (unitOwnerships s)" "uo_unitId x = i" "uo_endDate x = None"
      by (auto simp: filter_empty_conv)
    with False assms show ?thesis
      unfolding ownerIdsForRequest_def Let_def unit_in_org_def by (auto simp: image_iff)
  next
    case True
    then have ids: "ownerIdsForRequest s org i = (case List.find ?P (units s) of
        None \<Rightarrow> [] | Some n \<Rightarrow> if truthy (un_ownerId n) then [the (un_ownerId n)] else [])"
      by (simp add: ownerIdsForRequest_def Let_def)
    have none: "\<not> ownerActive s (uo_ownerId x)"
      if "x \<in> set (unitOwnerships s)" "uo_unitId x = i" "uo_endDate x = None" for x
      using True that assms by (auto simp: filter_empty_conv unit_in_org_def)
    show ?thesis
    proof (cases "List.find ?P (units s)")
      case None
      then have "\<not> ?P n" if "n \<in> set (units s)" for n using that by (auto simp: find_None_iff)
      then have "\<not> (ownerActive s o' \<and> (\<exists>n \<in> set (units s). un_id n = i \<and> un_ownerId n = Some o')
          \<and> \<not> (\<exists>x \<in> set (unitOwnerships s). uo_unitId x = i \<and> uo_endDate x = None))"
        using assms by (fastforce simp: unit_in_org_def list_ex_iff)
      moreover have "ownerIdsForRequest s org i = []" using None by (simp only: ids option.case)
      ultimately show ?thesis using none by auto
    next
      case (Some n)
      then have n: "n \<in> set (units s)" "?P n" by (auto simp: find_Some_iff in_set_conv_nth)
      then obtain w where w: "un_ownerId n = Some w" "w \<noteq> []" "ownerActive s w"
        using assms by (auto simp: unit_in_org_def split: option.splits)
      then have set: "ownerIdsForRequest s org i = [w]" using Some by (simp only: ids option.case truthy_simps option.sel) simp
      have "o'' = w" if "m \<in> set (units s)" "un_id m = i" "un_ownerId m = Some o''" for m o''
        using one [OF that(1) n(1)] that n(2) w(1) by simp
      then have "ownerActive s o' \<and> (\<exists>n \<in> set (units s). un_id n = i \<and> un_ownerId n = Some o') \<longleftrightarrow> o' = w"
        using n(1) w n(2) by metis
      moreover have "\<not> (\<exists>x \<in> set (unitOwnerships s). uo_unitId x = i \<and> uo_endDate x = None)"
        using n(2) by (simp add: list_ex_iff)
      ultimately show ?thesis unfolding set by fastforce
    qed
  qed
qed

lemma ownerRecipients_own:
  assumes "unit_in_org s (sn_orgId r) i" and "sn_unitId r = Some i"
  shows "u \<in> set (resolveActiveOwnerRecipientsForRequest s r) \<longleftrightarrow> u \<noteq> [] \<and> owns_unit s u i"
proof -
  let ?ids = "ownerIdsForRequest s (sn_orgId r) i"
  let ?f = "\<lambda>g. if List.member ?ids (og_ownerId g) \<and> og_status g = GR_ACTIVE \<and> truthy (og_userId g)
      \<and> ownerActive s (og_ownerId g) then og_userId g else None"
  have "i \<noteq> []" using assms(1) by (simp add: unit_in_org_def)
  with assms(2) have recs: "set (resolveActiveOwnerRecipientsForRequest s r) = {x. \<exists>g \<in> set (ownerGrants s). ?f g = Some x}"
    by (simp add: resolveActiveOwnerRecipientsForRequest_def Let_def set_map_filter Bex_def)
  have f: "?f g = Some u \<longleftrightarrow> og_ownerId g \<in> set ?ids \<and> og_status g = GR_ACTIVE \<and> u \<noteq> []
      \<and> og_userId g = Some u \<and> ownerActive s (og_ownerId g)" for g
    by (cases "og_userId g") auto
  have "u \<in> set (resolveActiveOwnerRecipientsForRequest s r) \<longleftrightarrow>
      (\<exists>g \<in> set (ownerGrants s). og_ownerId g \<in> set ?ids \<and> og_status g = GR_ACTIVE \<and> u \<noteq> []
         \<and> og_userId g = Some u \<and> ownerActive s (og_ownerId g))"
    by (simp only: recs mem_Collect_eq f)
  moreover define Q where "Q o' \<longleftrightarrow> (\<exists>x \<in> set (unitOwnerships s). uo_unitId x = i \<and> uo_ownerId x = o' \<and> uo_endDate x = None)
         \<or> (\<exists>n \<in> set (units s). un_id n = i \<and> un_ownerId n = Some o')
            \<and> \<not> (\<exists>x \<in> set (unitOwnerships s). uo_unitId x = i \<and> uo_endDate x = None)" for o'
  moreover have "o' \<in> set ?ids \<longleftrightarrow> ownerActive s o' \<and> Q o'" for o'
    using ownerIds_own [OF assms(1)] by (simp add: Q_def)
  moreover have "owns_unit s u i \<longleftrightarrow> (\<exists>o'. grantedOwner s u o' \<and> Q o')"
    by (simp add: owns_unit_def Q_def)
  ultimately show ?thesis unfolding grantedOwner_def list_ex_iff by blast
qed

section \<open>The owners that can decide\<close>

lemma scope_iff_owns:
  assumes "\<And>x. x \<in> set (unitOwnerships s) \<Longrightarrow> \<exists>n \<in> set (units s). un_id n = uo_unitId x"
    and "\<And>n. n \<in> set (units s) \<Longrightarrow> (\<exists>b \<in> set (buildings s). bd_id b = un_buildingId n) \<and> un_ownerId n \<noteq> Some []"
  shows "i \<in> pu_unitId ` set (loadAccessibleUnitScope s u None) \<longleftrightarrow> owns_unit s u i"
proof
  let ?ids = "getAccessibleOwnerIds s u"
  assume own: "owns_unit s u i"
  then have "?ids \<noteq> []" using granted_owner_listed by (fastforce simp: owns_unit_def)
  then have "set (map pu_unitId (loadAccessibleUnitScope s u None))
      = pu_unitId ` (set (ownershipUnits s u ?ids None) \<union> set (fallbackUnits s u ?ids None))"
    by (simp add: loadAccessibleUnitScope_def Let_def normalize_ids del: set_map) (simp add: image_Un)
  with owned_unit_listed [OF assms own] show "i \<in> pu_unitId ` set (loadAccessibleUnitScope s u None)" by simp
qed (auto dest: scope_owns)

lemma accessible_iff_owns:
  assumes fk: "\<And>x. x \<in> set (unitOwnerships s) \<Longrightarrow> \<exists>n \<in> set (units s). un_id n = uo_unitId x"
      "\<And>n. n \<in> set (units s) \<Longrightarrow> (\<exists>b \<in> set (buildings s). bd_id b = un_buildingId n) \<and> un_ownerId n \<noteq> Some []"
    and u: "unique_ids s" and r: "find_by mr_id rid (requests s) = Some r" "mr_unitId r = Some i" "i \<noteq> []"
  shows "(\<exists>n. getAccessibleRequest s u rid = Inr (r, n)) \<longleftrightarrow> owns_unit s u i"
proof
  assume "owns_unit s u i"
  then have mem: "i \<in> pu_unitId ` set (loadAccessibleUnitScope s u None)" using scope_iff_owns [OF fk] by simp
  then have "find_by pu_unitId i (loadAccessibleUnitScope s u None) \<noteq> None" by (simp only: find_by_None_iff) simp
  then obtain n where n: "find_by pu_unitId i (loadAccessibleUnitScope s u None) = Some n"
    by (elim not_None_eq [THEN iffD1, elim_format] exE)
  have scope: "in_scope (loadAccessibleUnitScope s u None) r" using mem r(2) by (auto simp: in_scope_def)
  have "List.find (\<lambda>x. mr_id x = rid \<and> in_scope (loadAccessibleUnitScope s u None) x) (requests s) = Some r"
  proof -
    have "\<exists>x. List.find (\<lambda>x. mr_id x = rid \<and> in_scope (loadAccessibleUnitScope s u None) x) (requests s) = Some x"
      using scope find_by_SomeD [OF r(1)] by (metis (mono_tags, lifting) find_None_iff not_None_eq)
    then show ?thesis
      using find_Some_iff_find_by u r(1) by (fastforce simp: unique_ids_def)
  qed
  with mem n r show "\<exists>n. getAccessibleRequest s u rid = Inr (r, n)"
    by (auto simp: getAccessibleRequest_def Let_def)
next
  assume "\<exists>n. getAccessibleRequest s u rid = Inr (r, n)"
  then show "owns_unit s u i"
    using getAccessibleRequest_Inr [OF u] r(2) by (auto simp: owner_scope_def)
qed

definition can_decide :: "db \<Rightarrow> int \<Rightarrow> string \<Rightarrow> string \<Rightarrow> bool" where
  "can_decide s now rid u \<longleftrightarrow> (\<exists>res. approveAccessibleRequest s now u rid None = Inr res)"

lemma can_decide_owns:
  assumes "\<And>x. x \<in> set (unitOwnerships s) \<Longrightarrow> \<exists>n \<in> set (units s). un_id n = uo_unitId x"
    and "\<And>n. n \<in> set (units s) \<Longrightarrow> (\<exists>b \<in> set (buildings s). bd_id b = un_buildingId n) \<and> un_ownerId n \<noteq> Some []"
    and "unique_ids s" and r: "find_by mr_id rid (requests s) = Some r" "mr_unitId r = Some i" "i \<noteq> []"
    and "mr_ownerApprovalStatus r = PENDING"
  shows "can_decide s now rid u \<longleftrightarrow> owns_unit s u i"
proof -
  have "can_decide s now rid u \<longleftrightarrow> (\<exists>acc. pendingAccessible s u rid = Inr acc)"
    using r(1) by (auto simp: can_decide_def approveAccessibleRequest_def commitOwnerDecision_def updateById_def Let_def)
  also have "\<dots> \<longleftrightarrow> (\<exists>n. getAccessibleRequest s u rid = Inr (r, n))"
    using getAccessibleRequest_Inr(1) [OF assms(3)] r(1) assms(7) by (fastforce simp: pendingAccessible_def)
  finally show ?thesis using accessible_iff_owns [OF assms(1-3) r] by simp
qed

lemma sendToUsers_notifications: "sendToUsers env now i p s = Inr s' \<Longrightarrow> dl_notifications s' = dl_notifications s"
  by (auto simp: sendToUsers_def enqueueDelivery_def Let_def split: if_splits)

lemma createForUsers_rows:
  assumes "createForUsers env now ids i org us ty title body d s = (None, s')"
  shows "\<exists>new. dl_notifications s' = dl_notifications s @ new
    \<and> map (\<lambda>n. (nt_recipientUserId n, nt_data n)) new = map (\<lambda>u. (u, d)) (filter (\<lambda>u. u \<noteq> []) (js_unique us))"
proof (cases "filter (\<lambda>u. u \<noteq> []) (js_unique us) = []")
  case True
  with assms show ?thesis by (auto simp: createForUsers_def)
next
  case False
  let ?nis = "map (\<lambda>u. \<lparr> ni_orgId = org, ni_recipientUserId = u, ni_type = ty, ni_title = title, ni_body = body,
      ni_data = d \<rparr>) (filter (\<lambda>u. u \<noteq> []) (js_unique us))"
  obtain e new rows where c: "createManyAndReturn (dl_core s) now ids 0 ?nis (dl_notifications s) = (e, new, rows)"
    by (metis prod.exhaust)
  with assms False have "e = None" and "dl_notifications s' = rows"
    by (auto simp: createForUsers_def Let_def queuePushForNotificationBatch_def
        split: option.splits sum.splits dest: sendToUsers_notifications)
  with createMany_append [OF c] createMany_recipients [of "dl_core s" now ids 0 ?nis "dl_notifications s" new rows] c
  show ?thesis by (auto simp: comp_def)
qed

text \<open>
  C36. When a manager asks for the owner's approval of a request, the notifications that the
  listener writes go to exactly the users that can decide it (those for whom the decision of the
  owner portfolio succeeds), each once, without the manager who asked; only if nobody else can
  decide does the manager get the message. (The hypotheses on tables are foreign keys, and that
  the unit, its building and its ownership rows are in the organisation of the request.)
\<close>

theorem approval_request_reaches_deciders:
  assumes "\<And>x. x \<in> set (unitOwnerships s) \<Longrightarrow> \<exists>n \<in> set (units s). un_id n = uo_unitId x"
    and "\<And>n. n \<in> set (units s) \<Longrightarrow> (\<exists>b \<in> set (buildings s). bd_id b = un_buildingId n) \<and> un_ownerId n \<noteq> Some []"
    and "unique_ids s" and "find_by mr_id rid (requests s) = Some r" and "mr_unitId r = Some i"
    and "unit_in_org s (mr_orgId r) i" and "mr_ownerApprovalStatus r = PENDING" and "actor \<noteq> []"
    and "handleRequestEvent env now ids taskId (event EV_OWNER_APPROVAL_REQUESTED (toEventRequest s r) None actor) d
       = (None, d')" and "dl_core d = s"
  shows "\<exists>new. dl_notifications d' = dl_notifications d @ new \<and> distinct (map nt_recipientUserId new)
    \<and> set (map nt_recipientUserId new) =
        (let deciders = {u. u \<noteq> [] \<and> can_decide s now rid u}
         in if deciders \<subseteq> {actor} then {actor} else deciders - {actor})"
proof -
  let ?e = "event EV_OWNER_APPROVAL_REQUESTED (toEventRequest s r) None actor"
  let ?rec = "resolveForOwners s (toEventRequest s r) actor"
  have "ms_recipients (requestMessage s ?e) = ?rec"
    by (simp add: requestMessage_def event_def Let_def)
  with assms(9,10) obtain new where new: "dl_notifications d' = dl_notifications d @ new"
    "map (\<lambda>n. (nt_recipientUserId n, nt_data n)) new
     = map (\<lambda>u. (u, buildNotificationData ?e)) (filter (\<lambda>u. u \<noteq> []) (js_unique ?rec))"
    by (auto simp: handleRequestEvent_def Let_def dest!: createForUsers_rows)
  from arg_cong [OF new(2), of "map fst"]
  have ids: "map nt_recipientUserId new = filter (\<lambda>u. u \<noteq> []) (js_unique ?rec)" by (simp add: comp_def)
  have "i \<noteq> []" using assms(6) by (simp add: unit_in_org_def)
  note dec = can_decide_owns [OF assms(1-5) this assms(7)]
  have "set (resolveActiveOwnerRecipientsForRequest s (toEventRequest s r)) = {u. u \<noteq> [] \<and> can_decide s now rid u}"
    using ownerRecipients_own [of s "toEventRequest s r" i] assms(5,6) by (auto simp: dec toEventRequest_def)
  then have "set ?rec = (let deciders = {u. u \<noteq> [] \<and> can_decide s now rid u}
      in if deciders \<subseteq> {actor} then {actor} else deciders - {actor})"
    by (simp only: resolveForOwners_def set_finalize Let_def)
  moreover from this have "[] \<notin> set ?rec" using assms(8) by (auto simp: Let_def split: if_splits)
  then have "set (filter (\<lambda>u. u \<noteq> []) (js_unique ?rec)) = set ?rec" by auto
  ultimately show ?thesis using new(1) ids by (intro exI [of _ new]) simp
qed

theorem approval_request_reaches_deciders_witness:
  "\<exists>d'. handleRequestEvent fx_env 30 (\<lambda>k. ''n1'') ''t1''
        (event EV_OWNER_APPROVAL_REQUESTED (toEventRequest fx2 fx_pending) None ''mgr'')
        (fx_delivery\<lparr> dl_core := fx2 \<rparr>) = (None, d')
     \<and> can_decide fx2 30 ''q1'' ''own'' \<and> ''own'' \<in> set (map nt_recipientUserId (dl_notifications d'))"
proof -
  let ?d = "fx_delivery\<lparr> dl_core := fx2 \<rparr>"
  let ?e = "event EV_OWNER_APPROVAL_REQUESTED (toEventRequest fx2 fx_pending) None ''mgr''"
  have unit: "mr_unitId fx_pending = Some ''n1''" "mr_orgId fx_pending = ''o1''"
    by (simp_all add: fx_pending_def upd_requestApprovalNow_def apply_triage_def fx_row_def new_request_def
        fx_occupancy_def Let_def)
  have "fst (handleRequestEvent fx_env 30 (\<lambda>k. ''n1'') ''t1'' ?e ?d) = None" by code_simp
  then have "\<exists>d'. handleRequestEvent fx_env 30 (\<lambda>k. ''n1'') ''t1'' ?e ?d = (None, d')" by (metis prod.collapse)
  then obtain d' where d': "handleRequestEvent fx_env 30 (\<lambda>k. ''n1'') ''t1'' ?e ?d = (None, d')" by blast
  have fk: "\<exists>n \<in> set (units fx2). un_id n = uo_unitId x" if "x \<in> set (unitOwnerships fx2)" for x
    using that by (simp add: fx2_def fx0_def)
  have fk': "(\<exists>b \<in> set (buildings fx2). bd_id b = un_buildingId n) \<and> un_ownerId n \<noteq> Some []" if "n \<in> set (units fx2)" for n
    using that by (simp add: fx2_def fx0_def)
  have org: "unit_in_org fx2 (mr_orgId fx_pending) ''n1''" by (simp add: unit_in_org_def unit fx2_def fx0_def)
  have found: "find_by mr_id ''q1'' (requests fx2) = Some fx_pending" by (simp add: fx_pending_fields)
  have "owns_unit fx2 ''own'' ''n1''" by (simp add: owns_unit_def grantedOwner_def ownerActive_def fx_grant_def fx2_def fx0_def)
  then have dec: "can_decide fx2 30 ''q1'' ''own''"
    using can_decide_owns [OF fk fk' fx_unique(3) found unit(1) _ fx_pending_fields(1)] by simp
  from approval_request_reaches_deciders [OF fk fk' fx_unique(3) found unit(1) org fx_pending_fields(1) _ d']
  have "''own'' \<in> set (map nt_recipientUserId (dl_notifications d'))"
    using dec by (auto simp: Let_def image_Un split: if_splits)
  with d' dec show ?thesis by blast
qed

section \<open>Who hears of the decision\<close>

text \<open>
  The event of an owner's decision carries no service provider, so that the branch of the
  resolver that would tell the provider's managers is not taken: a provider that holds the
  request learns nothing of the approval it waits for.
\<close>

lemma owner_decision_skips_provider:
  assumes "approveAccessibleRequest s now u rid reason = Inr (r', s')" and "e = last (eventLog s')"
    and "v \<in> set (ms_recipients (requestMessage s' e))"
  shows "v = u \<or> v = mr_createdByUserId r' \<or> mr_assignedToUserId r' = Some v
    \<or> v \<in> set (resolveOpsRecipients s' (sn_orgId (ev_request e)) (sn_buildingId (ev_request e)))"
proof -
  from assms(1,2) obtain n where e: "e = event EV_OWNER_REQUEST_APPROVED (ownerEventRequest r' n) None u"
    by (auto simp: approveAccessibleRequest_def commitOwnerDecision_def emitEvent_def Let_def)
  have "v \<in> insert u (set (resolveExecutionRecipients s' (ownerEventRequest r' n)))"
    using assms(3) by (auto simp: e requestMessage_def event_def Let_def resolveForOwnerDecision_def set_finalize
        split: if_splits)
  then show ?thesis
    by (auto simp: e event_def resolveExecutionRecipients_def ownerEventRequest_def addTruthy_def Let_def
        split: if_splits)
qed

end
