(* ===== verification/Csv.thy ===== *)
theory Csv
  imports Prelude "HOL-Library.AList"
begin

text \<open>
  The CSV reader of the imports (\<^verbatim>\<open>common/utils/csv.ts\<close>). The byte order mark that the source strips is
  not an ASCII character, so the step is left out. A row is an object keyed by the headers: an
  association list, in which a header that is repeated keeps the value of its last column.

  The reader is compared with a grammar of the format (\<open>csvFile\<close>): what a text means as a table of cells.
\<close>

section \<open>The reader\<close>

definition trimEnd :: "string \<Rightarrow> string" where
  "trimEnd s = rev (trimStart (rev s))"

abbreviation quote :: char where "quote \<equiv> CHR 0x22"
abbreviation comma :: char where "comma \<equiv> CHR '',''"
abbreviation newline :: char where "newline \<equiv> CHR 0x0A"
abbreviation creturn :: char where "creturn \<equiv> CHR 0x0D"

text \<open>The loop over the characters of a line, with the cell so far and whether it is inside quotes.\<close>

fun csvCells :: "bool \<Rightarrow> string \<Rightarrow> string \<Rightarrow> string list" where
  "csvCells q current [] = [current]"
| "csvCells True current (c # cs) =
     (if c = quote
      then (case cs of
              d # ds \<Rightarrow> if d = quote then csvCells True (current @ [quote]) ds else csvCells False current cs
            | [] \<Rightarrow> csvCells False current cs)
      else csvCells True (current @ [c]) cs)"
| "csvCells False current (c # cs) =
     (if c = comma then current # csvCells False [] cs
      else if c = quote then csvCells True current cs
      else csvCells False (current @ [c]) cs)"

definition splitCsvRow :: "string \<Rightarrow> string list" where
  "splitCsvRow line = map trim (csvCells False [] line)"

text \<open>\<^verbatim>\<open>.replace(/\r\n/g, '\n').replace(/\r/g, '\n')\<close> and \<^verbatim>\<open>.split('\n')\<close>.\<close>

fun crlfToLf :: "string \<Rightarrow> string" where
  "crlfToLf [] = []"
| "crlfToLf (c # cs) =
     (case cs of
        d # ds \<Rightarrow> if c = creturn \<and> d = newline then newline # crlfToLf ds else c # crlfToLf cs
      | [] \<Rightarrow> [c])"

definition crToLf :: "string \<Rightarrow> string" where
  "crToLf s = map (\<lambda>c. if c = creturn then newline else c) s"

fun splitLines :: "string \<Rightarrow> string list" where
  "splitLines [] = [[]]"
| "splitLines (c # cs) =
     (if c = newline then [] # splitLines cs
      else case splitLines cs of [] \<Rightarrow> [[c]] | l # ls \<Rightarrow> (c # l) # ls)"

definition csvLines :: "string \<Rightarrow> string list" where
  "csvLines input = filter (\<lambda>l. l \<noteq> []) (map trimEnd (splitLines (crToLf (crlfToLf input))))"

type_synonym csv_row = "(string \<times> string) list"

definition csvRecord :: "string list \<Rightarrow> string list \<Rightarrow> csv_row" where
  "csvRecord headers values =
     fold (\<lambda>j row. AList.update (headers ! j) (if j < length values then values ! j else []) row)
       [0..<length headers] []"

definition parseCsv :: "string \<Rightarrow> string list \<times> csv_row list" where
  "parseCsv input =
     (case csvLines input of
        [] \<Rightarrow> ([], [])
      | l # ls \<Rightarrow>
          let headers = map trim (splitCsvRow l)
          in (headers, map (\<lambda>x. csvRecord headers (splitCsvRow x)) ls))"

section \<open>The format\<close>

text \<open>
  What a text means as a CSV file (RFC 4180, restricted to what the reader can take): a cell is
  plain, or in quotes with the quotes inside doubled, and may have blanks around it; the cells
  of a row are separated by commas; a row ends with any of the three line ends or with the file; blank lines mean
  nothing. A value has no line breaks and no blanks around it, because the reader cuts lines before it looks at
  quotes and trims quoted cells too.
\<close>

definition blank :: "string \<Rightarrow> bool" where
  "blank w \<longleftrightarrow> list_all is_ws w \<and> newline \<notin> set w \<and> creturn \<notin> set w"

definition plainCell :: "string \<Rightarrow> bool" where
  "plainCell c \<longleftrightarrow> newline \<notin> set c \<and> creturn \<notin> set c \<and> trim c = c"

fun escapeQuotes :: "string \<Rightarrow> string" where
  "escapeQuotes [] = []"
| "escapeQuotes (c # cs) = (if c = quote then quote # quote # escapeQuotes cs else c # escapeQuotes cs)"

inductive csvCell :: "string \<Rightarrow> string \<Rightarrow> bool" where
  bare: "plainCell v \<Longrightarrow> quote \<notin> set v \<Longrightarrow> comma \<notin> set v \<Longrightarrow> csvCell v v"
| quoted: "plainCell v \<Longrightarrow> csvCell (quote # escapeQuotes v @ [quote]) v"
| padded: "csvCell t v \<Longrightarrow> blank w \<Longrightarrow> blank w' \<Longrightarrow> csvCell (w @ t @ w') v"

inductive csvRow :: "string \<Rightarrow> string list \<Rightarrow> bool" where
  one: "csvCell t v \<Longrightarrow> csvRow t [v]"
| more: "csvCell t v \<Longrightarrow> csvRow ts vs \<Longrightarrow> csvRow (t @ comma # ts) (v # vs)"

definition lineEnd :: "string \<Rightarrow> bool" where
  "lineEnd e \<longleftrightarrow> e = [newline] \<or> e = [creturn, newline] \<or> e = [creturn]"

inductive csvFile :: "string \<Rightarrow> string list list \<Rightarrow> bool" where
  empty: "blank t \<Longrightarrow> csvFile t []"
| last_row: "csvRow t vs \<Longrightarrow> \<not> blank t \<Longrightarrow> csvFile t [vs]"
| row: "csvRow t vs \<Longrightarrow> \<not> blank t \<Longrightarrow> lineEnd e \<Longrightarrow> csvFile f rows \<Longrightarrow> csvFile (t @ e @ f) (vs # rows)"
| blank_line: "blank t \<Longrightarrow> lineEnd e \<Longrightarrow> csvFile f rows \<Longrightarrow> csvFile (t @ e @ f) rows"

section \<open>Blanks\<close>

lemma blank_Nil [simp]: "blank []" by (simp add: blank_def)

lemma blank_chars:
  assumes "blank w"
  shows "quote \<notin> set w" and "comma \<notin> set w" and "newline \<notin> set w" and "creturn \<notin> set w"
  using assms unfolding blank_def list_all_iff is_ws_def by fastforce+

lemma trimStart_blank: "blank w \<Longrightarrow> trimStart (w @ s) = trimStart s"
  by (auto simp: trimStart_def blank_def list_all_iff dropWhile_append1 dropWhile_append2)

lemma trim_padded:
  assumes "blank w" and "blank w'"
  shows "trim (w @ s @ w') = trim s"
proof -
  have rev: "blank (rev w')" using assms(2) by (simp add: blank_def)
  have "trimStart (s @ w') = (if trimStart s = [] then [] else trimStart s @ w')"
    using assms(2) by (auto simp: trimStart_def blank_def list_all_iff dropWhile_append dropWhile_eq_Nil_conv)
  then show ?thesis
    using trimStart_blank [OF rev] trimStart_blank [OF assms(1), of "s @ w'"]
    by (simp add: trim_def)
qed

lemma trimEnd_split:
  assumes "newline \<notin> set s" and "creturn \<notin> set s"
  obtains w where "s = trimEnd s @ w" and "blank w"
proof -
  let ?w = "rev (takeWhile is_ws (rev s))"
  have "rev s = takeWhile is_ws (rev s) @ dropWhile is_ws (rev s)" by simp
  then have "s = trimEnd s @ ?w"
    unfolding trimEnd_def trimStart_def by (metis rev_append rev_rev_ident)
  moreover from this have "blank ?w" using assms
    by (auto simp: blank_def list_all_iff dest: set_takeWhileD)
  ultimately show ?thesis by (rule that)
qed

lemma trimEnd_Nil_iff:
  assumes "newline \<notin> set s" and "creturn \<notin> set s"
  shows "trimEnd s = [] \<longleftrightarrow> blank s"
  using assms by (simp add: trimEnd_def trimStart_def blank_def list_all_iff)

section \<open>Cells and rows\<close>

lemma cells_plain:
  assumes "quote \<notin> set w" and "comma \<notin> set w"
  shows "csvCells False current (w @ rest) = csvCells False (current @ w) rest"
  using assms by (induction w arbitrary: current) auto

lemma cells_quoted:
  assumes "rest = [] \<or> hd rest \<noteq> quote"
  shows "csvCells True current (escapeQuotes c @ quote # rest) = csvCells False (current @ c) rest"
proof (induction c arbitrary: current)
  case Nil
  show ?case using assms by (cases rest) auto
next
  case (Cons x xs)
  show ?case
  proof (cases "x = quote")
    case True
    then show ?thesis using Cons [of "current @ [quote]"] by simp
  next
    case False
    then show ?thesis using Cons [of "current @ [x]"] by simp
  qed
qed

lemma cell_read:
  assumes "csvCell t v" and "rest = [] \<or> hd rest \<noteq> quote"
  shows "\<exists>x. csvCells False current (t @ rest) = csvCells False (current @ x) rest \<and> trim x = v"
  using assms
proof (induction arbitrary: current rest)
  case (bare v)
  then show ?case by (intro exI [of _ v]) (simp add: cells_plain plainCell_def)
next
  case (quoted v)
  then show ?case using cells_quoted [of rest current v]
    by (intro exI [of _ v]) (simp add: plainCell_def)
next
  case (padded t v w w')
  have "w' @ rest = [] \<or> hd (w' @ rest) \<noteq> quote"
    using padded.prems blank_chars(1) [OF padded.hyps(3)] by (cases w') auto
  from padded.IH [OF this, of "current @ w"] obtain x
    where "csvCells False (current @ w) (t @ w' @ rest) = csvCells False ((current @ w) @ x) (w' @ rest)"
      and "trim x = v" by blast
  then show ?case
    using blank_chars(1,2) [OF padded.hyps(2)] blank_chars(1,2) [OF padded.hyps(3)] trim_padded [OF padded.hyps(2,3)]
    by (intro exI [of _ "w @ x @ w'"]) (simp add: cells_plain)
qed

lemma row_read: "csvRow t vs \<Longrightarrow> splitCsvRow t = vs"
proof (induction rule: csvRow.induct)
  case (one t v)
  from cell_read [OF one, of "[]" "[]"] show ?case by (auto simp: splitCsvRow_def)
next
  case (more t v ts vs)
  from cell_read [OF more.hyps(1), of "comma # ts" "[]"] more.IH show ?case by (auto simp: splitCsvRow_def)
qed

lemma set_escape: "set (escapeQuotes c) \<subseteq> insert quote (set c)"
  by (induction c) auto

lemma cell_chars: "csvCell t v \<Longrightarrow> newline \<notin> set t \<and> creturn \<notin> set t \<and> trim v = v"
proof (induction rule: csvCell.induct)
  case (quoted v)
  then show ?case using set_escape [of v] by (auto simp: plainCell_def)
qed (auto simp: plainCell_def blank_chars)

lemma row_chars: "csvRow t vs \<Longrightarrow> newline \<notin> set t \<and> creturn \<notin> set t \<and> map trim vs = vs"
  by (induction rule: csvRow.induct) (auto dest: cell_chars)

text \<open>Blanks at the end of a line, which the reader cuts off, do not change its cells.\<close>

lemma cells_nonempty: "csvCells q current s \<noteq> []"
proof (induction q current s rule: csvCells.induct)
  case (2 current c cs)
  then show ?case by (cases cs) auto
qed simp_all

lemma cells_flat:
  assumes "quote \<notin> set w" and "comma \<notin> set w"
  shows "csvCells q current w = [current @ w]"
  using assms
proof (induction w arbitrary: current)
  case (Cons c w)
  then have "c \<noteq> quote" and "c \<noteq> comma" by auto
  with Cons show ?case by (cases q) simp_all
qed simp

lemma cells_trailing:
  assumes "quote \<notin> set w" and "comma \<notin> set w"
  shows "csvCells q current (s @ w)
    = butlast (csvCells q current s) @ [last (csvCells q current s) @ w]"
proof (induction q current s rule: csvCells.induct)
  case (1 q current)
  show ?case using cells_flat [OF assms] by simp
next
  case (2 current c cs)
  show ?case
  proof (cases "c = quote")
    case False
    with 2 show ?thesis by simp
  next
    case True
    show ?thesis
    proof (cases cs)
      case Nil
      have "w = [] \<or> hd w \<noteq> quote" using assms(1) by (cases w) auto
      then show ?thesis using Nil True cells_flat [OF assms, of False current] by (cases w) simp_all
    next
      case (Cons d ds)
      then show ?thesis using True 2 by (cases "d = quote") (simp_all add: cells_nonempty)
    qed
  qed
next
  case (3 current c cs)
  then show ?case by (simp add: cells_nonempty)
qed

lemma splitCsvRow_trimEnd:
  assumes "newline \<notin> set t" and "creturn \<notin> set t"
  shows "splitCsvRow (trimEnd t) = splitCsvRow t"
proof -
  obtain w where t: "t = trimEnd t @ w" and w: "blank w" using trimEnd_split [OF assms] .
  let ?cells = "csvCells False [] (trimEnd t)"
  have "csvCells False [] t = butlast ?cells @ [last ?cells @ w]"
    by (subst t) (rule cells_trailing [OF blank_chars(1,2) [OF w]])
  moreover have "trim (last ?cells @ w) = trim (last ?cells)" using trim_padded [OF blank_Nil w] by simp
  moreover have "map trim ?cells = map trim (butlast ?cells) @ [trim (last ?cells)]"
    by (metis append_butlast_last_id cells_nonempty list.simps(8,9) map_append)
  ultimately show ?thesis by (simp add: splitCsvRow_def)
qed

section \<open>Lines\<close>

lemma crlf_step: "creturn \<notin> set t \<Longrightarrow> crlfToLf (t @ s) = t @ crlfToLf s"
proof (induction t)
  case (Cons c t)
  then show ?case by (cases "t @ s") auto
qed simp

lemma splitLines_step: "newline \<notin> set l \<Longrightarrow> splitLines (l @ newline # s) = l # splitLines s"
  by (induction l) auto

lemma splitLines_one: "newline \<notin> set l \<Longrightarrow> splitLines l = [l]"
  by (induction l) auto

lemma crToLf_append [simp]: "crToLf (s @ t) = crToLf s @ crToLf t" by (simp add: crToLf_def)

lemma cr_id: "creturn \<notin> set s \<Longrightarrow> crToLf s = s"
  by (auto simp: crToLf_def intro!: map_idI)

definition keptLine :: "string \<Rightarrow> string list" where
  "keptLine t = (if blank t then [] else [trimEnd t])"

lemma csvLines_one:
  assumes "newline \<notin> set t" and "creturn \<notin> set t"
  shows "csvLines t = keptLine t"
  using assms crlf_step [of t "[]"]
  by (simp add: csvLines_def keptLine_def splitLines_one cr_id trimEnd_Nil_iff)

lemma csvLines_newline:
  assumes "newline \<notin> set t" and "creturn \<notin> set t"
  shows "csvLines (t @ newline # s) = keptLine t @ csvLines s"
proof -
  have "crlfToLf (newline # s) = newline # crlfToLf s" by (cases s) auto
  then have "crToLf (crlfToLf (t @ newline # s)) = t @ newline # crToLf (crlfToLf s)"
    using assms by (simp add: crlf_step cr_id) (simp add: crToLf_def)
  then show ?thesis
    using assms by (simp add: csvLines_def keptLine_def splitLines_step trimEnd_Nil_iff)
qed

lemma csvLines_line:
  assumes "newline \<notin> set t" and "creturn \<notin> set t" and "lineEnd e"
  shows "csvLines (t @ e @ s) = keptLine t @ csvLines s"
proof -
  have crlf: "csvLines (t @ creturn # newline # s) = csvLines (t @ newline # s)" for s
    using assms by (cases s) (simp_all add: csvLines_def crlf_step)
  have cr: "csvLines (t @ [creturn] @ s) = keptLine t @ csvLines s"
  proof (cases "s \<noteq> [] \<and> hd s = newline")
    case True
    then obtain s' where s: "s = newline # s'" by (cases s) auto
    show ?thesis using crlf [of s'] csvLines_newline [OF assms(1,2)] csvLines_newline [of "[]" s']
      by (simp add: s keptLine_def)
  next
    case False
    then have "crlfToLf (creturn # s) = creturn # crlfToLf s" and "crlfToLf (newline # s) = newline # crlfToLf s"
      by (cases s; simp)+
    then have "csvLines (t @ [creturn] @ s) = csvLines (t @ newline # s)"
      using assms by (simp add: csvLines_def crlf_step) (simp add: crToLf_def)
    then show ?thesis using csvLines_newline [OF assms(1,2)] by simp
  qed
  show ?thesis using assms(3) cr crlf [of s] csvLines_newline [OF assms(1,2), of s]
    by (auto simp: lineEnd_def)
qed

lemma file_read: "csvFile f rows \<Longrightarrow> map splitCsvRow (csvLines f) = rows"
proof (induction rule: csvFile.induct)
  case (last_row t vs)
  then show ?case using row_chars [of t vs]
    by (simp add: csvLines_one keptLine_def splitCsvRow_trimEnd row_read)
next
  case (row t vs e f rows)
  then show ?case using row_chars [of t vs]
    by (simp add: csvLines_line keptLine_def splitCsvRow_trimEnd row_read)
qed (simp_all add: blank_chars csvLines_one csvLines_line keptLine_def)

lemma file_trimmed: "csvFile f rows \<Longrightarrow> r \<in> set rows \<Longrightarrow> map trim r = r"
  by (induction arbitrary: r rule: csvFile.induct) (auto dest: row_chars)

section \<open>Rows as records\<close>

lemma update_new: "k \<notin> fst ` set al \<Longrightarrow> AList.update k v al = al @ [(k, v)]"
  by (induction al) auto

lemma csvRecord_zip:
  assumes "distinct headers"
  shows "csvRecord headers values = zip headers (values @ replicate (length headers) [])"
proof -
  let ?upd = "\<lambda>j row. AList.update (headers ! j) (if j < length values then values ! j else []) row"
  let ?padded = "values @ replicate (length headers) []"
  have "fold ?upd [0..<k] [] = zip (take k headers) (take k ?padded)" if "k \<le> length headers" for k
    using that
  proof (induction k)
    case (Suc k)
    have "headers ! k \<notin> set (take k headers)"
      using assms(1) Suc.prems by (auto simp: in_set_conv_nth nth_eq_iff_index_eq)
    then have "headers ! k \<notin> fst ` set (zip (take k headers) (take k ?padded))"
      by (auto dest: set_zip_leftD)
    moreover have "?padded ! k = (if k < length values then values ! k else [])"
      using Suc.prems by (simp add: nth_append)
    moreover have "zip (take (Suc k) headers) (take (Suc k) ?padded)
      = zip (take k headers) (take k ?padded) @ [(headers ! k, ?padded ! k)]"
      using Suc.prems by (simp add: take_Suc_conv_app_nth del: append_take_drop_id take_append)
    ultimately show ?case using Suc by (simp add: update_new del: take_append)
  qed simp
  from this [of "length headers"] show ?thesis
    using take_zip [of "length headers" headers ?padded] by (simp add: csvRecord_def)
qed

end
