(* ===== verification/Units.thy ===== *)
theory Units
  imports BuildingAccess Csv
begin

text \<open>
  Units of a building (\<^verbatim>\<open>units.service.ts\<close>, \<^verbatim>\<open>units.repo.ts\<close>), their types
  (\<^verbatim>\<open>unit-types.service.ts\<close>), the amenities of a building (\<^verbatim>\<open>building-amenities.service.ts\<close>) and the
  history of owners (\<^verbatim>\<open>unit-ownership.service.ts\<close>). Amounts and sizes are
  rationals, rounded and bounded by the columns that keep them.
\<close>

section \<open>State\<close>

record unit_type_row =
  ut_id :: string
  ut_orgId :: string
  ut_name :: string
  ut_isActive :: bool
  ut_createdAt :: int

record amenity_row =
  am_id :: string
  am_buildingId :: string
  am_name :: string
  am_isActive :: bool
  am_isDefault :: bool
  am_createdAt :: int

record estate =
  es_core :: db
  es_unitTypes :: "unit_type_row list"
  es_amenities :: "amenity_row list"
  es_unitAmenities :: "(string \<times> string) list"

definition findBuildingForOrg :: "db \<Rightarrow> string \<Rightarrow> string \<Rightarrow> building_row option" where
  "findBuildingForOrg s org bldg = List.find (\<lambda>b. bd_id b = bldg \<and> bd_orgId b = org) (buildings s)"

definition orgBuilding :: "db \<Rightarrow> principal \<Rightarrow> string \<Rightarrow> string res" where
  "orgBuilding s u bldg =
     andThen (assertOrgScope u) (\<lambda>org.
     andThen (orThrow (findBuildingForOrg s org bldg) (NotFound ''Building not found'')) (\<lambda>_. Inr org))"

section \<open>Unit types and amenities\<close>

definition listActiveUnitTypes :: "estate \<Rightarrow> principal \<Rightarrow> unit_type_row list res" where
  "listActiveUnitTypes s u =
     andThen (assertOrgScope u) (\<lambda>org.
     Inr (rev (sort_key ut_createdAt (filter (\<lambda>t. ut_orgId t = org \<and> ut_isActive t) (es_unitTypes s)))))"

definition createUnitType ::
  "estate \<Rightarrow> int \<Rightarrow> principal \<Rightarrow> string \<Rightarrow> string \<Rightarrow> bool option \<Rightarrow> (unit_type_row \<times> estate) res" where
  "createUnitType s now u i name active =
     andThen (assertOrgScope u) (\<lambda>org.
     if list_ex (\<lambda>t. ut_id t = i \<or> ut_orgId t = org \<and> ut_name t = name) (es_unitTypes s)
     then Inl (Conflict ''Unit type already exists'')
     else let t = \<lparr> ut_id = i, ut_orgId = org, ut_name = name, ut_isActive = nullish active True, ut_createdAt = now \<rparr>
          in Inr (t, s\<lparr> es_unitTypes := es_unitTypes s @ [t] \<rparr>))"

definition listAmenities :: "estate \<Rightarrow> principal \<Rightarrow> string \<Rightarrow> amenity_row list res" where
  "listAmenities s u bldg =
     andThen (orgBuilding (es_core s) u bldg) (\<lambda>_.
     Inr (rev (sort_key am_createdAt (filter (\<lambda>a. am_buildingId a = bldg) (es_amenities s)))))"

definition createAmenity ::
  "estate \<Rightarrow> int \<Rightarrow> principal \<Rightarrow> string \<Rightarrow> string \<Rightarrow> string \<Rightarrow> bool option \<Rightarrow> bool option
   \<Rightarrow> (amenity_row \<times> estate) res" where
  "createAmenity s now u bldg i name isDefault active =
     andThen (orgBuilding (es_core s) u bldg) (\<lambda>_.
     if list_ex (\<lambda>a. am_id a = i \<or> am_buildingId a = bldg \<and> am_name a = name) (es_amenities s)
     then Inl (Conflict ''Amenity already exists'')
     else let a = \<lparr> am_id = i, am_buildingId = bldg, am_name = name, am_isActive = nullish active True,
                    am_isDefault = nullish isDefault False, am_createdAt = now \<rparr>
          in Inr (a, s\<lparr> es_amenities := es_amenities s @ [a] \<rparr>))"

definition updateAmenity ::
  "estate \<Rightarrow> principal \<Rightarrow> string \<Rightarrow> string \<Rightarrow> string option \<Rightarrow> bool option \<Rightarrow> bool option \<Rightarrow> estate res" where
  "updateAmenity s u bldg i name isDefault active =
     andThen (orgBuilding (es_core s) u bldg) (\<lambda>_.
     andThen (orThrow (List.find (\<lambda>a. am_id a = i \<and> am_buildingId a = bldg) (es_amenities s))
        (NotFound ''Amenity not found'')) (\<lambda>a.
     if list_ex (\<lambda>b. am_id b \<noteq> i \<and> am_buildingId b = bldg \<and> am_name b = nullish name (am_name a)) (es_amenities s)
     then Inl UniqueViolation
     else Inr (s\<lparr> es_amenities := modify_by am_id i (\<lambda>x. x\<lparr> am_name := nullish name (am_name x),
             am_isDefault := nullish isDefault (am_isDefault x), am_isActive := nullish active (am_isActive x) \<rparr>)
             (es_amenities s) \<rparr>)))"

section \<open>Current owners\<close>

definition currentOwnerships :: "db \<Rightarrow> string \<Rightarrow> unit_ownership list" where
  "currentOwnerships s unitId = filter (\<lambda>x. uo_unitId x = unitId \<and> uo_endDate x = None) (unitOwnerships s)"

definition endOwnerships :: "int \<Rightarrow> (unit_ownership \<Rightarrow> bool) \<Rightarrow> db \<Rightarrow> db" where
  "endOwnerships now P s =
     s\<lparr> unitOwnerships := map (\<lambda>x. if P x then x\<lparr> uo_endDate := Some now \<rparr> else x) (unitOwnerships s) \<rparr>"

definition syncCurrentOwner :: "db \<Rightarrow> int \<Rightarrow> string \<Rightarrow> string \<Rightarrow> string \<Rightarrow> string option \<Rightarrow> db" where
  "syncCurrentOwner s now newId org unitId owner =
     (let active = currentOwnerships s unitId
      in if \<not> truthy owner
         then (if active = [] then s
               else endOwnerships now (\<lambda>x. uo_unitId x = unitId \<and> uo_endDate x = None) s)
         else let o' = the owner; matching = list_ex (\<lambda>x. uo_ownerId x = o') active
           in if matching \<and> length active = 1 then s
              else let s1 = (if active = [] then s
                             else endOwnerships now (\<lambda>x. uo_unitId x = unitId \<and> uo_endDate x = None
                                    \<and> uo_ownerId x \<noteq> o') s)
                in if matching then s1
                   else s1\<lparr> unitOwnerships := unitOwnerships s1 @
                          [\<lparr> uo_orgId = org, uo_unitId = unitId, uo_ownerId = o', uo_endDate = None, uo_id = newId,
                             uo_startDate = now, uo_isPrimary = Some True, uo_createdAt = now \<rparr>] \<rparr>)"

section \<open>Units\<close>

text \<open>
  The data of a unit as a client or an import sends it: a missing column is left as it is. An
  empty owner or type disconnects it.
\<close>

record unit_dto =
  nd_label :: "string option"
  nd_floor :: "int option"
  nd_notes :: "string option"
  nd_status :: "unit_status option"
  nd_unitTypeId :: "string option"
  nd_ownerId :: "string option"
  nd_maintenancePayer :: "maintenance_payer option"
  nd_unitSize :: "rat option"
  nd_unitSizeUnit :: "unit_size_unit option"
  nd_bedrooms :: "int option"
  nd_bathrooms :: "int option"
  nd_balcony :: "bool option"
  nd_kitchenType :: "kitchen_type option"
  nd_furnishedStatus :: "furnished_status option"
  nd_rentAnnual :: "rat option"
  nd_paymentFrequency :: "payment_frequency option"
  nd_securityDepositAmount :: "rat option"
  nd_serviceChargePerUnit :: "rat option"
  nd_vatApplicable :: "bool option"
  nd_electricityMeterNumber :: "string option"
  nd_waterMeterNumber :: "string option"
  nd_gasMeterNumber :: "string option"
  nd_amenityIds :: "string list option"

definition detailsUpdate :: "unit_dto \<Rightarrow> unit_details \<Rightarrow> unit_details" where
  "detailsUpdate d x =
     x\<lparr> ud_floor := orElse (nd_floor d) (ud_floor x), ud_notes := orElse (nd_notes d) (ud_notes x),
        ud_maintenancePayer := orElse (nd_maintenancePayer d) (ud_maintenancePayer x),
        ud_unitSize := orElse (nd_unitSize d) (ud_unitSize x),
        ud_unitSizeUnit := nullish (nd_unitSizeUnit d) (ud_unitSizeUnit x),
        ud_bedrooms := orElse (nd_bedrooms d) (ud_bedrooms x),
        ud_bathrooms := orElse (nd_bathrooms d) (ud_bathrooms x),
        ud_balcony := orElse (nd_balcony d) (ud_balcony x),
        ud_kitchenType := orElse (nd_kitchenType d) (ud_kitchenType x),
        ud_furnishedStatus := orElse (nd_furnishedStatus d) (ud_furnishedStatus x),
        ud_rentAnnual := orElse (nd_rentAnnual d) (ud_rentAnnual x),
        ud_paymentFrequency := orElse (nd_paymentFrequency d) (ud_paymentFrequency x),
        ud_securityDepositAmount := orElse (nd_securityDepositAmount d) (ud_securityDepositAmount x),
        ud_serviceChargePerUnit := orElse (nd_serviceChargePerUnit d) (ud_serviceChargePerUnit x),
        ud_vatApplicable := orElse (nd_vatApplicable d) (ud_vatApplicable x),
        ud_electricityMeterNumber := orElse (nd_electricityMeterNumber d) (ud_electricityMeterNumber x),
        ud_waterMeterNumber := orElse (nd_waterMeterNumber d) (ud_waterMeterNumber x),
        ud_gasMeterNumber := orElse (nd_gasMeterNumber d) (ud_gasMeterNumber x) \<rparr>"

text \<open>
  The columns: \<^verbatim>\<open>Int\<close> has 32 bits, \<^verbatim>\<open>Decimal(12, 2)\<close> rounds to two digits after the point, half a unit
  away from zero, and holds twelve digits. A value that does not fit fails the statement.
\<close>

definition intColumn :: "int \<Rightarrow> int res" where
  "intColumn x = (if - (2 ^ 31) \<le> x \<and> x < 2 ^ 31 then Inr x else Inl OutOfRange)"

definition decimalColumn :: "rat \<Rightarrow> rat res" where
  "decimalColumn x =
     (let c = (if x \<ge> 0 then \<lfloor>x * 100 + 1 / 2\<rfloor> else - \<lfloor>- x * 100 + 1 / 2\<rfloor>)
      in if \<bar>c\<bar> < 10 ^ 12 then Inr (of_int c / 100) else Inl OutOfRange)"

definition inColumn :: "('a \<Rightarrow> 'b res) \<Rightarrow> 'a option \<Rightarrow> 'b option res" where
  "inColumn f x = (case x of None \<Rightarrow> Inr None | Some v \<Rightarrow> andThen (f v) (\<lambda>w. Inr (Some w)))"

definition columnValues :: "unit_dto \<Rightarrow> unit_dto res" where
  "columnValues d =
     andThen (inColumn intColumn (nd_floor d)) (\<lambda>floor.
     andThen (inColumn intColumn (nd_bedrooms d)) (\<lambda>bedrooms.
     andThen (inColumn intColumn (nd_bathrooms d)) (\<lambda>bathrooms.
     andThen (inColumn decimalColumn (nd_unitSize d)) (\<lambda>unitSize.
     andThen (inColumn decimalColumn (nd_rentAnnual d)) (\<lambda>rent.
     andThen (inColumn decimalColumn (nd_securityDepositAmount d)) (\<lambda>deposit.
     andThen (inColumn decimalColumn (nd_serviceChargePerUnit d)) (\<lambda>charge.
     Inr (d\<lparr> nd_floor := floor, nd_bedrooms := bedrooms, nd_bathrooms := bathrooms, nd_unitSize := unitSize,
       nd_rentAnnual := rent, nd_securityDepositAmount := deposit, nd_serviceChargePerUnit := charge \<rparr>))))))))"

definition mapUnitData :: "int \<Rightarrow> string \<Rightarrow> string \<Rightarrow> unit_dto \<Rightarrow> unit_row" where
  "mapUnitData now i bldg d =
     \<lparr> un_id = i, un_buildingId = bldg, un_label = nullish (nd_label d) [], un_ownerId = nd_ownerId d,
       un_unitTypeId = nd_unitTypeId d, un_status = AVAILABLE, un_details = detailsUpdate d no_details,
       un_createdAt = now \<rparr>"

definition connectOrNot :: "string option \<Rightarrow> string option \<Rightarrow> string option" where
  "connectOrNot new old = (case new of None \<Rightarrow> old | Some i \<Rightarrow> if i = [] then None else Some i)"

definition mapUnitUpdate :: "unit_dto \<Rightarrow> unit_row \<Rightarrow> unit_row" where
  "mapUnitUpdate d n =
     n\<lparr> un_label := nullish (nd_label d) (un_label n), un_status := nullish (nd_status d) (un_status n),
        un_unitTypeId := connectOrNot (nd_unitTypeId d) (un_unitTypeId n),
        un_ownerId := connectOrNot (nd_ownerId d) (un_ownerId n),
        un_details := detailsUpdate d (un_details n) \<rparr>"

definition findUnitForBuilding :: "db \<Rightarrow> string \<Rightarrow> string \<Rightarrow> unit_row option" where
  "findUnitForBuilding s bldg i = List.find (\<lambda>n. un_id n = i \<and> un_buildingId n = bldg) (units s)"

definition unitVacant :: "db \<Rightarrow> unit_row \<Rightarrow> bool" where
  "unitVacant s n \<longleftrightarrow> \<not> list_ex (\<lambda>oc. oc_unitId oc = un_id n \<and> oc_status oc = OC_ACTIVE) (occupancies s)"

definition listByBuildingWithAvailability :: "db \<Rightarrow> string \<Rightarrow> bool \<Rightarrow> unit_row list" where
  "listByBuildingWithAvailability s bldg availableOnly =
     rev (sort_key un_createdAt (filter (\<lambda>n. un_buildingId n = bldg \<and> (availableOnly \<longrightarrow> unitVacant s n)) (units s)))"

definition listByBuildingWithOccupancy :: "db \<Rightarrow> string \<Rightarrow> (unit_row \<times> occupancy_row list) list" where
  "listByBuildingWithOccupancy s bldg =
     map (\<lambda>n. (n, filter (\<lambda>oc. oc_unitId oc = un_id n \<and> oc_status oc = OC_ACTIVE) (occupancies s)))
       (rev (sort_key un_createdAt (filter (\<lambda>n. un_buildingId n = bldg) (units s))))"

definition countVacantByBuilding :: "db \<Rightarrow> string \<Rightarrow> nat" where
  "countVacantByBuilding s bldg = length (filter (\<lambda>n. un_buildingId n = bldg \<and> unitVacant s n) (units s))"

text \<open>The primary key and the unique label of a unit in its building (code P2002).\<close>

definition createUnitRow :: "db \<Rightarrow> unit_row \<Rightarrow> db res" where
  "createUnitRow s n =
     (if list_ex (\<lambda>m. un_id m = un_id n \<or> un_buildingId m = un_buildingId n \<and> un_label m = un_label n) (units s)
      then Inl UniqueViolation else Inr (s\<lparr> units := units s @ [n] \<rparr>))"

definition insertUnit :: "db \<Rightarrow> int \<Rightarrow> string \<Rightarrow> string \<Rightarrow> unit_dto \<Rightarrow> (unit_row \<times> db) res" where
  "insertUnit s now i bldg d0 =
     andThen (columnValues d0) (\<lambda>d.
     let n = mapUnitData now i bldg d
     in andThen (createUnitRow s n) (\<lambda>c. Inr (n, c)))"

definition updateUnitRow :: "db \<Rightarrow> string \<Rightarrow> unit_dto \<Rightarrow> db res" where
  "updateUnitRow s i d0 =
     andThen (columnValues d0) (\<lambda>d.
     case find_by un_id i (units s) of
        None \<Rightarrow> Inl RecordNotFound
      | Some n \<Rightarrow>
          if list_ex (\<lambda>m. un_id m \<noteq> i \<and> un_buildingId m = un_buildingId n
                \<and> un_label m = un_label (mapUnitUpdate d n)) (units s)
          then Inl UniqueViolation
          else Inr (s\<lparr> units := modify_by un_id i (mapUnitUpdate d) (units s) \<rparr>))"

definition assertUnitTypeInOrg :: "estate \<Rightarrow> string \<Rightarrow> string option \<Rightarrow> unit res" where
  "assertUnitTypeInOrg s org i =
     (if \<not> truthy i then Inr ()
      else ensure (list_ex (\<lambda>t. Some (ut_id t) = i \<and> ut_orgId t = org) (es_unitTypes s))
             (NotFound ''Unit type not found''))"

definition assertOwnerInOrg :: "db \<Rightarrow> string \<Rightarrow> string option \<Rightarrow> unit res" where
  "assertOwnerInOrg s org i =
     (if \<not> truthy i then Inr ()
      else ensure (list_ex (\<lambda>x. Some (ow_id x) = i \<and> ow_orgId x = org) (owners s)) (NotFound ''Owner not found''))"

definition getDefaultAmenityIds :: "estate \<Rightarrow> string \<Rightarrow> string list" where
  "getDefaultAmenityIds s bldg =
     map am_id (filter (\<lambda>a. am_buildingId a = bldg \<and> am_isActive a \<and> am_isDefault a) (es_amenities s))"

definition assertAmenityIds :: "estate \<Rightarrow> string \<Rightarrow> string list \<Rightarrow> unit res" where
  "assertAmenityIds s bldg ids =
     (if ids = [] then Inr ()
      else ensure (length (filter (\<lambda>a. am_buildingId a = bldg \<and> am_isActive a \<and> List.member ids (am_id a))
                     (es_amenities s)) = length ids)
             (BadRequest ''Amenity does not belong to the same building as the unit''))"

text \<open>\<^verbatim>\<open>createMany\<close> with \<^verbatim>\<open>skipDuplicates\<close>: links that are there already are left out.\<close>

definition linkAmenities :: "estate \<Rightarrow> string \<Rightarrow> string list \<Rightarrow> estate" where
  "linkAmenities s unitId ids =
     s\<lparr> es_unitAmenities := es_unitAmenities s @
          filter (\<lambda>l. l \<notin> set (es_unitAmenities s)) (map (Pair unitId) (js_unique ids)) \<rparr>"

text \<open>\<^verbatim>\<open>catch\<close>: a violated unique key is reported as a conflict, other errors go on.\<close>

definition labelConflict :: "'a res \<Rightarrow> 'a res" where
  "labelConflict r = (case r of Inl UniqueViolation \<Rightarrow> Inl (Conflict ''Unit label already exists'') | _ \<Rightarrow> r)"

definition createUnit ::
  "estate \<Rightarrow> int \<Rightarrow> string \<Rightarrow> string \<Rightarrow> principal \<Rightarrow> string \<Rightarrow> unit_dto \<Rightarrow> (unit_row \<times> estate) res" where
  "createUnit s now newId ownershipId u bldg d =
     andThen (orgBuilding (es_core s) u bldg) (\<lambda>org. labelConflict (
     andThen (assertUnitTypeInOrg s org (nd_unitTypeId d)) (\<lambda>_.
     andThen (assertOwnerInOrg (es_core s) org (nd_ownerId d)) (\<lambda>_.
     let ids = nullish (nd_amenityIds d) (getDefaultAmenityIds s bldg) in
     andThen (assertAmenityIds s bldg ids) (\<lambda>_.
     andThen (insertUnit (es_core s) now newId bldg d) (\<lambda>(n, c1).
     let s1 = linkAmenities (s\<lparr> es_core := c1 \<rparr>) newId ids
     in Inr (n, s1\<lparr> es_core := syncCurrentOwner (es_core s1) now ownershipId org newId (nd_ownerId d) \<rparr>)))))))"

definition hasUpdates :: "unit_dto \<Rightarrow> bool" where
  "hasUpdates d \<longleftrightarrow> d\<lparr> nd_amenityIds := None \<rparr> \<noteq>
     \<lparr> nd_label = None, nd_floor = None, nd_notes = None, nd_status = None, nd_unitTypeId = None, nd_ownerId = None,
       nd_maintenancePayer = None, nd_unitSize = None, nd_unitSizeUnit = None, nd_bedrooms = None,
       nd_bathrooms = None, nd_balcony = None, nd_kitchenType = None, nd_furnishedStatus = None,
       nd_rentAnnual = None, nd_paymentFrequency = None, nd_securityDepositAmount = None,
       nd_serviceChargePerUnit = None, nd_vatApplicable = None, nd_electricityMeterNumber = None,
       nd_waterMeterNumber = None, nd_gasMeterNumber = None, nd_amenityIds = None \<rparr>"

definition updateUnit ::
  "estate \<Rightarrow> int \<Rightarrow> string \<Rightarrow> principal \<Rightarrow> string \<Rightarrow> string \<Rightarrow> unit_dto \<Rightarrow> (unit_row \<times> estate) res" where
  "updateUnit s now ownershipId u bldg i d =
     andThen (orgBuilding (es_core s) u bldg) (\<lambda>org.
     andThen (orThrow (findUnitForBuilding (es_core s) bldg i) (NotFound ''Unit not found'')) (\<lambda>n. labelConflict (
     andThen (assertUnitTypeInOrg s org (nd_unitTypeId d)) (\<lambda>_.
     andThen (assertOwnerInOrg (es_core s) org (nd_ownerId d)) (\<lambda>_.
     andThen (case nd_amenityIds d of None \<Rightarrow> Inr () | Some ids \<Rightarrow> assertAmenityIds s bldg ids) (\<lambda>_.
     andThen (if hasUpdates d then updateUnitRow (es_core s) (un_id n) d else Inr (es_core s)) (\<lambda>c1.
     let s1 = s\<lparr> es_core := c1 \<rparr>;
         s2 = (case nd_amenityIds d of
                 None \<Rightarrow> s1
               | Some ids \<Rightarrow> linkAmenities (s1\<lparr> es_unitAmenities :=
                               filter (\<lambda>(x, a). x \<noteq> un_id n) (es_unitAmenities s1) \<rparr>) (un_id n) ids);
         s3 = (case nd_ownerId d of
                 None \<Rightarrow> s2
               | Some o' \<Rightarrow> s2\<lparr> es_core := syncCurrentOwner (es_core s2) now ownershipId org (un_id n) (Some o') \<rparr>)
     in andThen (orThrow (findUnitForBuilding (es_core s3) bldg (un_id n)) (NotFound ''Unit not found'')) (\<lambda>n'.
        Inr (n', s3)))))))))"

definition listUnits :: "estate \<Rightarrow> principal \<Rightarrow> string \<Rightarrow> bool option \<Rightarrow> unit_row list res" where
  "listUnits s u bldg available =
     andThen (orgBuilding (es_core s) u bldg) (\<lambda>_.
     Inr (listByBuildingWithAvailability (es_core s) bldg (available = Some True)))"

definition listUnitsWithOccupancy :: "estate \<Rightarrow> principal \<Rightarrow> string \<Rightarrow> (unit_row \<times> occupancy_row list) list res" where
  "listUnitsWithOccupancy s u bldg =
     andThen (orgBuilding (es_core s) u bldg) (\<lambda>_. Inr (listByBuildingWithOccupancy (es_core s) bldg))"

definition findUnitById :: "estate \<Rightarrow> principal \<Rightarrow> string \<Rightarrow> string \<Rightarrow> (unit_row \<times> string list) res" where
  "findUnitById s u bldg i =
     andThen (orgBuilding (es_core s) u bldg) (\<lambda>_.
     andThen (orThrow (findUnitForBuilding (es_core s) bldg i) (NotFound ''Unit not found'')) (\<lambda>n.
     Inr (n, map snd (filter (\<lambda>(x, a). x = i) (es_unitAmenities s)))))"

definition countVacant :: "estate \<Rightarrow> principal \<Rightarrow> string \<Rightarrow> (nat \<times> nat) res" where
  "countVacant s u bldg =
     andThen (orgBuilding (es_core s) u bldg) (\<lambda>_.
     Inr (length (filter (\<lambda>n. un_buildingId n = bldg) (units (es_core s))), countVacantByBuilding (es_core s) bldg))"

end
