(* ===== verification/UnitImport.thy ===== *)
theory UnitImport
  imports Units
begin

text \<open>
  The import of units from a CSV file (\<^verbatim>\<open>importCsv\<close> of \<^verbatim>\<open>units.service.ts\<close> with
  \<^verbatim>\<open>units-import.constants.ts\<close>): the header is checked, each row is turned into the data of a unit or
  into errors, and only when there is no error at all are the rows written, in one transaction.
\<close>

section \<open>Numbers\<close>

fun digit_of :: "char \<Rightarrow> nat option" where
  "digit_of c = (let n = of_char c :: nat in if 48 \<le> n \<and> n \<le> 57 then Some (n - 48) else None)"

text \<open>The digits a string begins with: their number, their value and what follows them.\<close>

fun takeDigits :: "string \<Rightarrow> nat \<times> nat \<times> string" where
  "takeDigits s = (let ds = takeWhile (\<lambda>c. digit_of c \<noteq> None) s
     in (length ds, foldl (\<lambda>n c. 10 * n + the (digit_of c)) 0 ds, drop (length ds) s))"

fun takeSign :: "string \<Rightarrow> bool \<times> string" where
  "takeSign [] = (False, [])"
| "takeSign (c # cs) = (if c = CHR ''-'' then (True, cs) else if c = CHR ''+'' then (False, cs) else (False, c # cs))"

text \<open>
  A number from here on is infinite as a double: \<open>2^1024 - 2^970\<close> is half way between the largest
  double and the next power of two, and rounds up.
\<close>

definition js_finite :: "rat \<Rightarrow> bool" where
  "js_finite x \<longleftrightarrow> \<bar>x\<bar> < 2 ^ 1024 - 2 ^ 970"

text \<open>\<^verbatim>\<open>Number.parseInt(value, 10)\<close> and \<^verbatim>\<open>Number.parseFloat(value)\<close>, nothing for what is not finite: both read the longest prefix that is a number.\<close>

definition jsParseInt :: "string \<Rightarrow> int option" where
  "jsParseInt value =
     (let (neg, s) = takeSign (trimStart value); (k, n, rest) = takeDigits s
      in if k = 0 then None
         else let x = (if neg then - int n else int n) in if js_finite (of_int x) then Some x else None)"

definition takeExponent :: "string \<Rightarrow> int" where
  "takeExponent s =
     (case s of
        c # cs \<Rightarrow>
          if c = CHR ''e'' \<or> c = CHR ''E''
          then let (neg, t) = takeSign cs; (k, n, rest) = takeDigits t
               in if k = 0 then 0 else if neg then - int n else int n
          else 0
      | [] \<Rightarrow> 0)"

definition scaled :: "rat \<Rightarrow> int \<Rightarrow> rat" where
  "scaled x e = (if e \<ge> 0 then x * 10 ^ nat e else x / 10 ^ nat (- e))"

definition jsParseFloat :: "string \<Rightarrow> rat option" where
  "jsParseFloat value =
     (let (neg, s) = takeSign (trimStart value);
          (k, n, rest) = takeDigits s;
          (j, m, rest') = (case rest of
             c # cs \<Rightarrow> if c = CHR ''.'' then takeDigits cs else (0, 0, rest)
           | [] \<Rightarrow> (0, 0, rest))
      in if k + j = 0 then None
         else let x = scaled (of_nat (n * 10 ^ j + m)) (takeExponent rest' - int j); y = (if neg then - x else x)
           in if js_finite y then Some y else None)"

fun showDigit :: "nat \<Rightarrow> char" where
  "showDigit d = char_of (48 + d)"

fun showNat :: "nat \<Rightarrow> string" where
  "showNat n = (if n < 10 then [showDigit n] else showNat (n div 10) @ [showDigit (n mod 10)])"

declare showNat.simps [simp del]

section \<open>Fields\<close>

record import_error =
  ie_row :: nat
  ie_field :: "string option"
  ie_message :: string

definition rowError :: "nat \<Rightarrow> string \<Rightarrow> string \<Rightarrow> import_error" where
  "rowError n field message = \<lparr> ie_row = n, ie_field = (if field = [] then None else Some field), ie_message = message \<rparr>"

text \<open>A parsed cell: its value, and the errors it pushed.\<close>

type_synonym 'a cell = "'a option \<times> import_error list"

definition parseBool :: "nat \<Rightarrow> string \<Rightarrow> string \<Rightarrow> bool cell" where
  "parseBool n field value =
     (let v = toLowerCase (trim value)
      in if List.member [''true'', ''1'', ''yes'', ''y''] v then (Some True, [])
         else if List.member [''false'', ''0'', ''no'', ''n''] v then (Some False, [])
         else (None, [rowError n field (''Invalid boolean: '' @ value)]))"

definition parseIntField :: "nat \<Rightarrow> string \<Rightarrow> string \<Rightarrow> int cell" where
  "parseIntField n field value =
     (case jsParseInt value of
        None \<Rightarrow> (None, [rowError n field (''Invalid integer: '' @ value)]) | Some x \<Rightarrow> (Some x, []))"

definition parseNumberField :: "nat \<Rightarrow> string \<Rightarrow> string \<Rightarrow> rat cell" where
  "parseNumberField n field value =
     (case jsParseFloat value of
        None \<Rightarrow> (None, [rowError n field (''Invalid number: '' @ value)]) | Some x \<Rightarrow> (Some x, []))"

definition normalizeEnum :: "string \<Rightarrow> string" where
  "normalizeEnum value = map (\<lambda>c. if is_ws c \<or> c = CHR ''-'' then CHR ''_'' else c) (toUpperCase (trim value))"

definition parseEnumField :: "(string \<times> 'a) list \<Rightarrow> nat \<Rightarrow> string \<Rightarrow> string \<Rightarrow> 'a cell" where
  "parseEnumField allowed n field value =
     (case map_of allowed (normalizeEnum value) of
        Some x \<Rightarrow> (Some x, [])
      | None \<Rightarrow> (None, [rowError n field (''Invalid '' @ field @ '': '' @ value)]))"

definition ENUM_unitSizeUnit :: "(string \<times> unit_size_unit) list" where
  "ENUM_unitSizeUnit = [(''SQ_FT'', SQ_FT)]"

definition ENUM_furnishedStatus :: "(string \<times> furnished_status) list" where
  "ENUM_furnishedStatus =
     [(''UNFURNISHED'', UNFURNISHED), (''SEMI_FURNISHED'', SEMI_FURNISHED), (''FULLY_FURNISHED'', FULLY_FURNISHED)]"

definition ENUM_kitchenType :: "(string \<times> kitchen_type) list" where
  "ENUM_kitchenType = [(''OPEN'', KITCHEN_OPEN), (''CLOSED'', KITCHEN_CLOSED)]"

definition ENUM_paymentFrequency :: "(string \<times> payment_frequency) list" where
  "ENUM_paymentFrequency =
     [(''MONTHLY'', MONTHLY), (''QUARTERLY'', QUARTERLY), (''SEMI_ANNUAL'', SEMI_ANNUAL), (''ANNUAL'', ANNUAL)]"

definition ENUM_maintenancePayer :: "(string \<times> maintenance_payer) list" where
  "ENUM_maintenancePayer = [(''OWNER'', PAYER_OWNER), (''TENANT'', PAYER_TENANT), (''BUILDING'', PAYER_BUILDING)]"

section \<open>The header\<close>

definition UNITS_IMPORT_ALLOWED_HEADERS :: "string list" where
  "UNITS_IMPORT_ALLOWED_HEADERS =
     [''label'', ''floor'', ''unittype'', ''notes'', ''bedrooms'', ''bathrooms'', ''unitsize'', ''unitsizeunit'',
      ''furnishedstatus'', ''balcony'', ''kitchentype'', ''rentannual'', ''paymentfrequency'',
      ''securitydepositamount'', ''servicechargeperunit'', ''vatapplicable'', ''maintenancepayer'',
      ''electricitymeternumber'', ''watermeternumber'', ''gasmeternumber'']"

definition canonicalHeader :: "string \<Rightarrow> string" where
  "canonicalHeader value = filter (\<lambda>c. \<not> (is_ws c \<or> c = CHR ''_'' \<or> c = CHR ''-'')) (toLowerCase value)"

type_synonym header_map = "(string \<times> string) list"

fun checkHeaders :: "string list \<Rightarrow> nat \<Rightarrow> string list \<Rightarrow> header_map \<Rightarrow> import_error list \<times> header_map" where
  "checkHeaders allowed index [] m = ([], m)"
| "checkHeaders allowed index (h # hs) m =
     (let canonical = canonicalHeader h
      in if \<not> List.member allowed canonical
         then (case checkHeaders allowed (Suc index) hs m of (es, m') \<Rightarrow>
                (rowError 1 (if h = [] then ''col_'' @ showNat (Suc index) else h) (''Unknown header: '' @ h) # es, m'))
         else if map_of m canonical \<noteq> None
         then (case checkHeaders allowed (Suc index) hs m of (es, m') \<Rightarrow>
                (rowError 1 h (''Duplicate header: '' @ h) # es, m'))
         else checkHeaders allowed (Suc index) hs (m @ [(canonical, h)]))"

definition headerErrors :: "string list \<Rightarrow> import_error list \<times> header_map" where
  "headerErrors headers =
     (case checkHeaders UNITS_IMPORT_ALLOWED_HEADERS 0 headers [] of
        (es, m) \<Rightarrow>
          (if map_of m ''label'' = None then es @ [rowError 1 ''label'' ''Missing required header: label''] else es, m))"

definition readCell :: "header_map \<Rightarrow> csv_row \<Rightarrow> string \<Rightarrow> string option" where
  "readCell m row canonical =
     (case map_of m canonical of
        None \<Rightarrow> None
      | Some actual \<Rightarrow>
          if actual = [] then None
          else let v = trim (nullish (map_of row actual) []) in if v = [] then None else Some v)"

section \<open>The rows\<close>

definition fieldOf :: "string option \<Rightarrow> (string \<Rightarrow> 'a cell) \<Rightarrow> 'a cell" where
  "fieldOf v parse = (case v of None \<Rightarrow> (None, []) | Some x \<Rightarrow> parse x)"

definition unitTypeField :: "(string \<times> string) list \<Rightarrow> nat \<Rightarrow> string \<Rightarrow> string cell" where
  "unitTypeField byName n value =
     (case map_of byName (toLowerCase (trim value)) of
        Some i \<Rightarrow> if i = [] then (None, [rowError n ''unitType'' (''Unit type not found: '' @ value)]) else (Some i, [])
      | None \<Rightarrow> (None, [rowError n ''unitType'' (''Unit type not found: '' @ value)]))"

definition parseUnitRow ::
  "header_map \<Rightarrow> (string \<times> string) list \<Rightarrow> nat \<Rightarrow> csv_row \<Rightarrow> string \<Rightarrow> unit_dto \<times> import_error list" where
  "parseUnitRow m byName n row label =
     (let cell = readCell m row;
          floor = fieldOf (cell ''floor'') (parseIntField n ''floor'');
          bedrooms = fieldOf (cell ''bedrooms'') (parseIntField n ''bedrooms'');
          bathrooms = fieldOf (cell ''bathrooms'') (parseIntField n ''bathrooms'');
          unitSize = fieldOf (cell ''unitsize'') (parseNumberField n ''unitSize'');
          unitSizeUnit = fieldOf (cell ''unitsizeunit'') (parseEnumField ENUM_unitSizeUnit n ''unitSizeUnit'');
          furnishedStatus = fieldOf (cell ''furnishedstatus'')
            (parseEnumField ENUM_furnishedStatus n ''furnishedStatus'');
          balcony = fieldOf (cell ''balcony'') (parseBool n ''balcony'');
          kitchenType = fieldOf (cell ''kitchentype'') (parseEnumField ENUM_kitchenType n ''kitchenType'');
          rentAnnual = fieldOf (cell ''rentannual'') (parseNumberField n ''rentAnnual'');
          paymentFrequency = fieldOf (cell ''paymentfrequency'')
            (parseEnumField ENUM_paymentFrequency n ''paymentFrequency'');
          securityDepositAmount = fieldOf (cell ''securitydepositamount'')
            (parseNumberField n ''securityDepositAmount'');
          serviceChargePerUnit = fieldOf (cell ''servicechargeperunit'')
            (parseNumberField n ''serviceChargePerUnit'');
          vatApplicable = fieldOf (cell ''vatapplicable'') (parseBool n ''vatApplicable'');
          maintenancePayer = fieldOf (cell ''maintenancepayer'')
            (parseEnumField ENUM_maintenancePayer n ''maintenancePayer'');
          unitType = fieldOf (cell ''unittype'') (unitTypeField byName n)
      in (\<lparr> nd_label = Some label, nd_floor = fst floor, nd_notes = cell ''notes'', nd_status = None,
            nd_unitTypeId = fst unitType, nd_ownerId = None, nd_maintenancePayer = fst maintenancePayer,
            nd_unitSize = fst unitSize, nd_unitSizeUnit = fst unitSizeUnit, nd_bedrooms = fst bedrooms,
            nd_bathrooms = fst bathrooms, nd_balcony = fst balcony, nd_kitchenType = fst kitchenType,
            nd_furnishedStatus = fst furnishedStatus, nd_rentAnnual = fst rentAnnual,
            nd_paymentFrequency = fst paymentFrequency, nd_securityDepositAmount = fst securityDepositAmount,
            nd_serviceChargePerUnit = fst serviceChargePerUnit, nd_vatApplicable = fst vatApplicable,
            nd_electricityMeterNumber = cell ''electricitymeternumber'',
            nd_waterMeterNumber = cell ''watermeternumber'', nd_gasMeterNumber = cell ''gasmeternumber'',
            nd_amenityIds = None \<rparr>,
          snd floor @ snd bedrooms @ snd bathrooms @ snd unitSize @ snd unitSizeUnit @ snd furnishedStatus
          @ snd balcony @ snd kitchenType @ snd rentAnnual @ snd paymentFrequency @ snd securityDepositAmount
          @ snd serviceChargePerUnit @ snd vatApplicable @ snd maintenancePayer @ snd unitType))"

fun parseUnitRows ::
  "header_map \<Rightarrow> (string \<times> string) list \<Rightarrow> nat \<Rightarrow> csv_row list \<Rightarrow> string list
   \<Rightarrow> (nat \<times> unit_dto) list \<times> import_error list" where
  "parseUnitRows m byName i [] seen = ([], [])"
| "parseUnitRows m byName i (row # rows) seen =
     (let n = i + 2 in
      if \<not> list_ex (\<lambda>(h, v). trim v \<noteq> []) row then parseUnitRows m byName (Suc i) rows seen
      else case readCell m row ''label'' of
        None \<Rightarrow> (case parseUnitRows m byName (Suc i) rows seen of
                   (ok, es) \<Rightarrow> (ok, rowError n ''label'' ''Label is required'' # es))
      | Some label \<Rightarrow>
          if List.member seen label
          then (case parseUnitRows m byName (Suc i) rows seen of
                  (ok, es) \<Rightarrow> (ok, rowError n ''label'' (''Duplicate label in CSV: '' @ label) # es))
          else (case parseUnitRow m byName n row label of
                  (d, des) \<Rightarrow>
                    (case parseUnitRows m byName (Suc i) rows (label # seen) of
                       (ok, es) \<Rightarrow> (if des = [] then (n, d) # ok else ok, des @ es))))"

section \<open>The import\<close>

datatype import_mode = IM_CREATE | IM_UPSERT

record import_result =
  ir_dryRun :: bool
  ir_mode :: import_mode
  ir_totalRows :: nat
  ir_validRows :: nat
  ir_created :: nat
  ir_updated :: nat
  ir_errors :: "import_error list"
  ir_unitIds :: "string list option"

definition unitTypeByName :: "estate \<Rightarrow> string \<Rightarrow> (string \<times> string) list" where
  "unitTypeByName s org =
     rev (map (\<lambda>t. (toLowerCase (trim (ut_name t)), ut_id t))
       (filter (\<lambda>t. ut_orgId t = org \<and> ut_isActive t) (es_unitTypes s)))"

definition existingByLabel :: "db \<Rightarrow> string \<Rightarrow> (string \<times> string) list" where
  "existingByLabel s bldg = rev (map (\<lambda>n. (un_label n, un_id n)) (filter (\<lambda>n. un_buildingId n = bldg) (units s)))"

text \<open>
  The loop of the transaction: the k-th new unit gets the k-th id. An error anywhere undoes all of it.
\<close>

fun writeUnits ::
  "int \<Rightarrow> (nat \<Rightarrow> string) \<Rightarrow> nat \<Rightarrow> string \<Rightarrow> import_mode \<Rightarrow> (string \<times> string) list \<Rightarrow> string list
   \<Rightarrow> (nat \<times> unit_dto) list \<Rightarrow> estate \<Rightarrow> (string list \<times> nat \<times> nat \<times> estate) res" where
  "writeUnits now ids k bldg mode byLabel amenityIds [] s = Inr ([], 0, 0, s)"
| "writeUnits now ids k bldg mode byLabel amenityIds ((row, d) # es) s =
     (case (if mode = IM_UPSERT then map_of byLabel (nullish (nd_label d) []) else None) of
        Some i \<Rightarrow>
          if i \<noteq> [] then
            andThen (updateUnitRow (es_core s) i d) (\<lambda>c.
            andThen (writeUnits now ids k bldg mode byLabel amenityIds es (s\<lparr> es_core := c \<rparr>)) (\<lambda>(us, c', u', s').
            Inr (i # us, c', Suc u', s')))
          else
            andThen (insertUnit (es_core s) now (ids k) bldg d) (\<lambda>(n, c).
            andThen (writeUnits now ids (Suc k) bldg mode byLabel amenityIds es
                       (linkAmenities (s\<lparr> es_core := c \<rparr>) (ids k) amenityIds)) (\<lambda>(us, c', u', s').
            Inr (ids k # us, Suc c', u', s')))
      | None \<Rightarrow>
          andThen (insertUnit (es_core s) now (ids k) bldg d) (\<lambda>(n, c).
          andThen (writeUnits now ids (Suc k) bldg mode byLabel amenityIds es
                     (linkAmenities (s\<lparr> es_core := c \<rparr>) (ids k) amenityIds)) (\<lambda>(us, c', u', s').
          Inr (ids k # us, Suc c', u', s'))))"

definition takenLabels :: "(string \<times> string) list \<Rightarrow> (nat \<times> unit_dto) list \<Rightarrow> import_error list" where
  "takenLabels byLabel entries =
     List.map_filter (\<lambda>(n, d). let l = nullish (nd_label d) [] in
        if map_of byLabel l \<noteq> None then Some (rowError n ''label'' (''Unit label already exists: '' @ l)) else None)
       entries"

definition importCsv ::
  "estate \<Rightarrow> int \<Rightarrow> (nat \<Rightarrow> string) \<Rightarrow> principal \<Rightarrow> string \<Rightarrow> string option \<Rightarrow> import_mode option \<Rightarrow> bool option
   \<Rightarrow> (import_result \<times> estate) res" where
  "importCsv s now ids u bldg file mode0 dryRun0 =
     andThen (orgBuilding (es_core s) u bldg) (\<lambda>org.
     andThen (ensure (truthy file) (BadRequest ''CSV file is required'')) (\<lambda>_.
     let mode = nullish mode0 IM_CREATE; dryRun = (dryRun0 = Some True);
         (headers, rows) = parseCsv (the file);
         result = (\<lambda>total valid created updated es us.
           \<lparr> ir_dryRun = dryRun, ir_mode = mode, ir_totalRows = total, ir_validRows = valid, ir_created = created,
             ir_updated = updated, ir_errors = es, ir_unitIds = us \<rparr>)
     in if headers = [] then Inr (result 0 0 0 0 [rowError 1 [] ''CSV is empty''] None, s)
        else case headerErrors headers of (hes, m) \<Rightarrow>
          if hes \<noteq> [] then Inr (result (length rows) 0 0 0 hes None, s)
          else if length rows > 2000
          then Inr (result (length rows) 0 0 0 [rowError 1 [] ''Too many rows (max 2000)''] None, s)
          else
            let (entries, es) = parseUnitRows m (unitTypeByName s org) 0 rows [];
                byLabel = existingByLabel (es_core s) bldg;
                es' = es @ (if mode = IM_CREATE then takenLabels byLabel entries else [])
            in if dryRun \<or> es' \<noteq> [] then Inr (result (length rows) (length entries) 0 0 es' None, s)
               else
                 let amenityIds = getDefaultAmenityIds s bldg in
                 andThen (assertAmenityIds s bldg amenityIds) (\<lambda>_.
                 andThen (writeUnits now ids 0 bldg mode byLabel amenityIds entries s) (\<lambda>(us, created, updated, s').
                 Inr (result (length rows) (length entries) created updated [] (Some us), s')))))"

end
