(* ===== verification/UnitTheorems.thy ===== *)
theory UnitTheorems
  imports Fixture UnitImport
begin

text \<open>
  Theorems about the CSV reader, the import of units, and the history of owners.
\<close>

section \<open>The CSV reader\<close>

text \<open>
  C37. The reader agrees with the format: a text that means a table of cells (plain or quoted cells
  with commas between them, quotes doubled inside quotes, blanks around cells, any of the three
  line ends, blank lines anywhere) is read as that table. The first row gives the headers, which must be
  distinct; every other row gives one record, each header with its cell, where missing cells are empty and
  surplus cells are dropped. A blank text gives no headers and no rows. (The cells of the format have no line breaks and
  no blanks around their value: the reader cuts the text into lines before it looks at quotes, and trims quoted
  cells too.)
\<close>

theorem csv_reader_follows_format:
  assumes "csvFile text table" and "\<And>headers rows. table = headers # rows \<Longrightarrow> distinct headers"
  shows "parseCsv text = (case table of [] \<Rightarrow> ([], [])
     | headers # rows \<Rightarrow> (headers, map (\<lambda>r. zip headers (r @ replicate (length headers) [])) rows))"
proof (cases "csvLines text")
  case Nil
  then show ?thesis using file_read [OF assms(1)] by (simp add: parseCsv_def)
next
  case (Cons l ls)
  have table: "table = splitCsvRow l # map splitCsvRow ls" using file_read [OF assms(1)] Cons by simp
  have "map trim (splitCsvRow l) = splitCsvRow l" by (rule file_trimmed [OF assms(1)]) (simp add: table)
  moreover have "distinct (splitCsvRow l)" by (rule assms(2) [OF table])
  ultimately show ?thesis using Cons table by (simp add: parseCsv_def csvRecord_zip Let_def)
qed

definition fx_csvText :: string where
  "fx_csvText = ''label, notes'' @ [creturn, newline, newline]
     @ ''A-1,'' @ [quote] @ ''big, '' @ [quote, quote] @ ''new'' @ [quote, quote, quote] @ [newline] @ ''B-2''"

lemma fx_csvText_format:
  "csvFile fx_csvText [[''label'', ''notes''], [''A-1'', ''big, '' @ [quote] @ ''new'' @ [quote]], [''B-2'']]"
proof -
  note plain = plainCell_def trim_def trimStart_def is_ws_def
  let ?quoted = "''big, '' @ [quote] @ ''new'' @ [quote]"
  have header: "csvRow (''label'' @ comma # '' notes'') [''label'', ''notes'']"
  proof (rule csvRow.more)
    have "csvCell ('' '' @ ''notes'' @ []) ''notes''"
      by (rule csvCell.padded, rule csvCell.bare) (simp_all add: plain blank_def)
    then show "csvRow '' notes'' [''notes'']" by (simp add: csvRow.one)
  qed (rule csvCell.bare; simp add: plain)
  have first: "csvRow (''A-1'' @ comma # quote # escapeQuotes ?quoted @ [quote]) [''A-1'', ?quoted]"
    by (intro csvRow.intros csvCell.bare csvCell.quoted) (simp_all add: plain)
  have "csvFile ''B-2'' [[''B-2'']]"
    by (intro csvFile.last_row csvRow.one csvCell.bare) (simp_all add: plain blank_def)
  from csvFile.row [OF first _ _ this, of "[newline]"]
  have "csvFile ((''A-1'' @ comma # quote # escapeQuotes ?quoted @ [quote]) @ [newline] @ ''B-2'') [[''A-1'', ?quoted], [''B-2'']]"
    by (simp add: lineEnd_def blank_def is_ws_def)
  from csvFile.blank_line [OF _ _ this, of "[]" "[newline]"]
  have rest: "csvFile ([newline] @ (''A-1'' @ comma # quote # escapeQuotes ?quoted @ [quote]) @ [newline] @ ''B-2'')
    [[''A-1'', ?quoted], [''B-2'']]" by (simp add: lineEnd_def)
  from csvFile.row [OF header _ _ rest, of "[creturn, newline]"]
  show ?thesis by (simp add: lineEnd_def blank_def is_ws_def fx_csvText_def)
qed

theorem csv_reader_follows_format_witness:
  "parseCsv fx_csvText
   = ([''label'', ''notes''], [[(''label'', ''A-1''), (''notes'', ''big, '' @ [quote] @ ''new'' @ [quote])],
        [(''label'', ''B-2''), (''notes'', [])]])"
  using csv_reader_follows_format [OF fx_csvText_format] by simp

section \<open>The import\<close>

abbreviation entry_label :: "nat \<times> unit_dto \<Rightarrow> string" where
  "entry_label e \<equiv> nullish (nd_label (snd e)) []"

lemma parseUnitRow_label: "parseUnitRow m byName n row l = (d, es) \<Longrightarrow> nd_label d = Some l"
  by (auto simp: parseUnitRow_def Let_def)

lemma parseUnitRows_labels:
  assumes "parseUnitRows m byName i rows seen = (entries, es)"
  shows "distinct (map entry_label entries) \<and> set (map entry_label entries) \<inter> set seen = {}"
  using assms
proof (induction rows arbitrary: i seen entries es)
  case (Cons row rows)
  let ?blank = "\<not> list_ex (\<lambda>(h, v). trim v \<noteq> []) row"
  show ?case
  proof (cases "?blank \<or> readCell m row ''label'' = None \<or> List.member seen (the (readCell m row ''label''))")
    case True
    then have "\<exists>es'. parseUnitRows m byName (Suc i) rows seen = (entries, es')"
      using Cons.prems by (auto simp: Let_def split: if_splits prod.splits option.splits)
    then show ?thesis using Cons.IH by blast
  next
    case False
    then obtain l where l: "readCell m row ''label'' = Some l" "l \<notin> set seen" by auto
    obtain d des where d: "parseUnitRow m byName (i + 2) row l = (d, des)" by fastforce
    obtain ok es' where ok: "parseUnitRows m byName (Suc i) rows (l # seen) = (ok, es')" by fastforce
    have "entries = (if des = [] then (i + 2, d) # ok else ok)"
      using Cons.prems False l d ok by (auto simp: Let_def)
    then show ?thesis using Cons.IH [OF ok] parseUnitRow_label [OF d] l(2) by auto
  qed
qed simp

text \<open>
  What the unique keys of the table see of a unit: its id, its building and its label.
\<close>

definition unit_keys :: "db \<Rightarrow> (string \<times> string \<times> string) list" where
  "unit_keys s = map (\<lambda>n. (un_id n, un_buildingId n, un_label n)) (units s)"

lemma length_unit_keys: "length (unit_keys s) = length (units s)"
  by (simp add: unit_keys_def)

definition keys_unique :: "db \<Rightarrow> bool" where
  "keys_unique s \<longleftrightarrow> distinct (map fst (unit_keys s)) \<and> distinct (map snd (unit_keys s))"

lemma mapUnitUpdate_keys:
  "un_id (mapUnitUpdate d n) = un_id n" "un_buildingId (mapUnitUpdate d n) = un_buildingId n"
  "nd_label d = Some l \<Longrightarrow> un_label (mapUnitUpdate d n) = l"
  by (simp_all add: mapUnitUpdate_def)

lemma mapUnitData_keys [simp]:
  "un_id (mapUnitData now i bldg d) = i" "un_buildingId (mapUnitData now i bldg d) = bldg"
  "un_label (mapUnitData now i bldg d) = nullish (nd_label d) []"
  by (simp_all add: mapUnitData_def)

definition fits :: "unit_dto \<Rightarrow> bool" where
  "fits d = (case columnValues d of Inl _ \<Rightarrow> False | Inr _ \<Rightarrow> True)"

lemma columnValues_label: "columnValues d = Inr d' \<Longrightarrow> nd_label d' = nd_label d"
  by (auto simp: columnValues_def)

lemma inColumn_Inl:
  "inColumn intColumn x = Inl e \<Longrightarrow> e = OutOfRange" "inColumn decimalColumn y = Inl e \<Longrightarrow> e = OutOfRange"
  by (auto simp: inColumn_def andThen_Inl intColumn_def decimalColumn_def Let_def split: option.splits if_splits)

lemma columnValues_Inl: "columnValues d = Inl e \<Longrightarrow> e = OutOfRange"
  unfolding columnValues_def andThen_Inl by (elim disjE exE conjE) (auto dest: inColumn_Inl)

lemma columnValues_unfit: "\<not> fits d \<Longrightarrow> columnValues d = Inl OutOfRange"
  using columnValues_Inl by (auto simp: fits_def split: sum.splits)

lemma columnValues_fit: "fits d \<Longrightarrow> \<exists>d'. columnValues d = Inr d' \<and> nd_label d' = nd_label d"
  using columnValues_label by (auto simp: fits_def split: sum.splits)

lemma createUnitRow_keys:
  assumes "un_id n \<notin> fst ` set (unit_keys c)" and "(un_buildingId n, un_label n) \<notin> snd ` set (unit_keys c)"
  shows "\<exists>c'. createUnitRow c n = Inr c' \<and> unit_keys c' = unit_keys c @ [(un_id n, un_buildingId n, un_label n)]"
proof -
  have "\<not> list_ex (\<lambda>m. un_id m = un_id n \<or> un_buildingId m = un_buildingId n \<and> un_label m = un_label n) (units c)"
    using assms by (auto simp: unit_keys_def list_ex_iff image_iff)
  then show ?thesis by (simp add: createUnitRow_def unit_keys_def)
qed

lemma insertUnit_keys:
  assumes "i \<notin> fst ` set (unit_keys c)" and "(bldg, l) \<notin> snd ` set (unit_keys c)"
    and d: "nd_label d = Some l" and f: "fits d"
  shows "\<exists>n c'. insertUnit c now i bldg d = Inr (n, c') \<and> unit_keys c' = unit_keys c @ [(i, bldg, l)]"
proof -
  obtain d' where d': "columnValues d = Inr d'" "nd_label d' = Some l" using columnValues_fit [OF f] d by auto
  then show ?thesis
    using createUnitRow_keys [of "mapUnitData now i bldg d'" c] assms(1,2) by (auto simp: insertUnit_def Let_def)
qed

lemma updateUnitRow_keys:
  assumes f: "fits d0" and d0: "nd_label d0 = Some l" and u: "keys_unique c" and i: "(i, bldg, l) \<in> set (unit_keys c)"
  shows "\<exists>c'. updateUnitRow c i d0 = Inr c' \<and> unit_keys c' = unit_keys c"
proof -
  obtain d where cols: "columnValues d0 = Inr d" and d: "nd_label d = Some l" using columnValues_fit [OF f] d0 by auto
  have ids: "distinct (map un_id (units c))"
    using u by (simp add: keys_unique_def unit_keys_def comp_def)
  have keys: "distinct (map (\<lambda>n. (un_buildingId n, un_label n)) (units c))"
    using u by (simp add: keys_unique_def unit_keys_def comp_def)
  obtain n where n: "n \<in> set (units c)" "un_id n = i" "un_buildingId n = bldg" "un_label n = l"
    using i by (auto simp: unit_keys_def)
  have found: "find_by un_id i (units c) = Some n"
    using find_by_distinct [OF ids n(1)] n(2) by simp
  have lone: "m = n" if "m \<in> set (units c)" "un_buildingId m = bldg" "un_label m = l" for m
    using keys n that by (auto simp: distinct_map dest: inj_onD)
  have same: "x = n" if "x \<in> set (units c)" "un_id x = i" for x
    using ids n that by (auto simp: distinct_map dest: inj_onD)
  have "map (\<lambda>n. (un_id n, un_buildingId n, un_label n)) (modify_by un_id i (mapUnitUpdate d) (units c))
        = map (\<lambda>n. (un_id n, un_buildingId n, un_label n)) (units c)"
    unfolding modify_by_def map_map by (rule map_cong) (use d n(4) same in \<open>auto simp: mapUnitUpdate_keys\<close>)
  moreover have "\<not> list_ex (\<lambda>m. un_id m \<noteq> i \<and> un_buildingId m = un_buildingId n
                   \<and> un_label m = un_label (mapUnitUpdate d n)) (units c)"
    unfolding list_ex_iff mapUnitUpdate_keys(3) [OF d] n(3) using lone n(2) by blast
  ultimately show ?thesis using found by (simp add: updateUnitRow_def unit_keys_def cols)
qed

text \<open>
  When the loop can write a list of entries: every entry whose label is known names the unit that
  has it, every other label is free, and so are the ids to come.
\<close>

definition writable ::
  "(nat \<Rightarrow> string) \<Rightarrow> nat \<Rightarrow> string \<Rightarrow> (string \<Rightarrow> string option) \<Rightarrow> (nat \<times> unit_dto) list \<Rightarrow> db \<Rightarrow> bool" where
  "writable ids k bldg known es c \<longleftrightarrow>
     keys_unique c \<and> inj ids \<and> (\<forall>j \<ge> k. ids j \<notin> fst ` set (unit_keys c))
     \<and> distinct (map entry_label es) \<and> (\<forall>e \<in> set es. nd_label (snd e) \<noteq> None)
     \<and> (\<forall>e \<in> set es. case known (entry_label e) of
          Some i \<Rightarrow> i \<noteq> [] \<and> (i, bldg, entry_label e) \<in> set (unit_keys c)
        | None \<Rightarrow> (bldg, entry_label e) \<notin> snd ` set (unit_keys c))"

lemma writable_update:
  assumes "writable ids k bldg known ((r, d) # es) c" and "unit_keys c' = unit_keys c"
  shows "writable ids k bldg known es c'"
  using assms(1) unfolding writable_def keys_unique_def assms(2) by simp

lemma writable_head:
  assumes "writable ids k bldg known ((r, d) # es) c" and "nd_label d = Some l"
  shows "keys_unique c" and "ids k \<notin> fst ` set (unit_keys c)"
    and "known l = None \<Longrightarrow> (bldg, l) \<notin> snd ` set (unit_keys c)"
    and "known l = Some i \<Longrightarrow> i \<noteq> [] \<and> (i, bldg, l) \<in> set (unit_keys c)"
  using assms by (simp_all add: writable_def)

lemma writable_create:
  assumes w: "writable ids k bldg known ((r, d) # es) c" and l: "l = entry_label (r, d)"
    and free: "known l = None" and c': "unit_keys c' = unit_keys c @ [(ids k, bldg, l)]"
  shows "writable ids (Suc k) bldg known es c'"
proof -
  have "ids j \<noteq> ids k" if "Suc k \<le> j" for j
    using w that by (auto simp: writable_def dest: injD)
  moreover have "entry_label e \<noteq> l" if "e \<in> set es" for e
    using w that l by (auto simp: writable_def)
  ultimately show ?thesis
    using w l free unfolding writable_def keys_unique_def c'
    by (auto split: option.splits)
qed

lemma writeUnits_unfit:
  "\<not> fits d \<Longrightarrow> (\<And>i. (if mode = IM_UPSERT then map_of byLabel (entry_label (r, d)) else None) = Some i \<Longrightarrow> i \<noteq> [])
   \<Longrightarrow> writeUnits now ids k bldg mode byLabel amenityIds ((r, d) # es) s = Inl OutOfRange"
  by (auto simp: insertUnit_def updateUnitRow_def columnValues_unfit split: option.splits)

text \<open>What the loop leaves behind, as numbers of units and as labels of the building.\<close>

definition wrote ::
  "string \<Rightarrow> import_mode \<Rightarrow> (nat \<times> unit_dto) list \<Rightarrow> db \<Rightarrow> string list \<times> nat \<times> nat \<times> estate \<Rightarrow> bool" where
  "wrote bldg mode es c = (\<lambda>(us, n, u, s').
     n + u = length es \<and> length us = length es \<and> (mode = IM_CREATE \<longrightarrow> u = 0)
     \<and> snd ` set (unit_keys (es_core s')) = snd ` set (unit_keys c) \<union> Pair bldg ` entry_label ` set es
     \<and> length (units (es_core s')) = length (units c) + n)"

lemma wrote_created:
  assumes "wrote bldg mode es c' (us, n, u, s')" and "unit_keys c' = unit_keys c @ [(i, bldg, entry_label e)]"
  shows "wrote bldg mode (e # es) c (i # us, Suc n, u, s')"
  using assms arg_cong [OF assms(2), of length, unfolded length_unit_keys] by (simp add: wrote_def length_unit_keys)

lemma wrote_updated:
  assumes "wrote bldg IM_UPSERT es c' (us, n, u, s')" and "unit_keys c' = unit_keys c"
    and "(i, bldg, entry_label e) \<in> set (unit_keys c)"
  shows "wrote bldg IM_UPSERT (e # es) c (i # us, n, Suc u, s')"
proof -
  have "(bldg, entry_label e) \<in> snd ` set (unit_keys c)" using assms(3) by force
  then show ?thesis
    using assms(1,2) arg_cong [OF assms(2), of length, unfolded length_unit_keys]
    by (simp add: wrote_def insert_absorb)
qed

lemma andThen_if_total:
  assumes "if A then \<exists>w. q = Inr w \<and> W w else q = Inl x" and "\<And>w. W w \<Longrightarrow> \<exists>w'. k w = Inr w' \<and> W' w'"
  shows "if A then \<exists>w. andThen q k = Inr w \<and> W' w else andThen q k = Inl x"
  using assms by (auto split: if_splits)

lemma writeUnits_total:
  fixes s :: estate
  assumes "writable ids k bldg (\<lambda>l. if mode = IM_UPSERT then map_of byLabel l else None) es (es_core s)"
  shows "if \<forall>e \<in> set es. fits (snd e)
     then \<exists>w. writeUnits now ids k bldg mode byLabel amenityIds es s = Inr w \<and> wrote bldg mode es (es_core s) w
     else writeUnits now ids k bldg mode byLabel amenityIds es s = Inl OutOfRange"
  using assms
proof (induction es arbitrary: k s)
  case Nil
  then show ?case by (simp add: wrote_def)
next
  case (Cons e es)
  obtain r d where e: "e = (r, d)" by fastforce
  let ?known = "\<lambda>l. if mode = IM_UPSERT then map_of byLabel l else None"
  let ?run = "\<lambda>k. writeUnits now ids k bldg mode byLabel amenityIds es"
  obtain l where l: "nd_label d = Some l" using Cons.prems by (auto simp: writable_def e)
  note head = writable_head [OF Cons.prems [unfolded e] l]
  show ?case
  proof (cases "fits d")
    case False
    have "writeUnits now ids k bldg mode byLabel amenityIds (e # es) s = Inl OutOfRange"
      unfolding e by (rule writeUnits_unfit [OF False], unfold snd_conv l nullish_simps) (blast dest: head(4))
    then show ?thesis using False by (simp add: e)
  next
    case fit: True
    have all: "(\<forall>x \<in> set (e # es). fits (snd x)) \<longleftrightarrow> (\<forall>x \<in> set es. fits (snd x))" using fit by (simp add: e)
    show ?thesis
    proof (cases "?known l")
      case None
      obtain n c' where c': "insertUnit (es_core s) now (ids k) bldg d = Inr (n, c')"
        "unit_keys c' = unit_keys (es_core s) @ [(ids k, bldg, entry_label e)]"
        using insertUnit_keys [OF head(2) head(3) [OF None] l fit, of now] l by (auto simp: e)
      let ?s = "linkAmenities (s\<lparr> es_core := c' \<rparr>) (ids k) amenityIds"
      have core: "es_core ?s = c'" by (simp add: linkAmenities_def)
      have run: "writeUnits now ids k bldg mode byLabel amenityIds (e # es) s
          = andThen (?run (Suc k) ?s) (\<lambda>(us, n, u, s'). Inr (ids k # us, Suc n, u, s'))"
        using c'(1) by (simp only: e writeUnits.simps l nullish_simps None option.case andThen_simps prod.case)
      have w: "writable ids (Suc k) bldg ?known es (es_core ?s)"
        using writable_create [OF Cons.prems [unfolded e] _ None, of c'] c'(2) l by (simp add: core e)
      show ?thesis unfolding run all
      proof (rule andThen_if_total [OF Cons.IH [OF w]])
        show "\<exists>w'. (case w of (us, n, u, s') \<Rightarrow> Inr (ids k # us, Suc n, u, s')) = Inr w' \<and> wrote bldg mode (e # es) (es_core s) w'"
          if "wrote bldg mode es (es_core ?s) w" for w
          using wrote_created [OF _ c'(2)] that by (cases w rule: prod_cases4) (simp only: core prod.case, blast)
      qed
    next
      case (Some i)
      obtain c' where c': "updateUnitRow (es_core s) i d = Inr c'" "unit_keys c' = unit_keys (es_core s)"
        using updateUnitRow_keys [OF fit l head(1)] head(4) [OF Some] by blast
      let ?s = "s\<lparr> es_core := c' \<rparr>"
      have core: "es_core ?s = c'" by simp
      have mode: "mode = IM_UPSERT" using Some by (auto split: if_splits)
      have run: "writeUnits now ids k bldg mode byLabel amenityIds (e # es) s
          = andThen (?run k ?s) (\<lambda>(us, n, u, s'). Inr (i # us, n, Suc u, s'))"
        using c'(1) head(4) [OF Some]
        by (simp only: e writeUnits.simps l nullish_simps Some option.case andThen_simps prod.case not_False_eq_True if_True)
      have here: "(i, bldg, entry_label e) \<in> set (unit_keys (es_core s))" using head(4) [OF Some] l by (simp add: e)
      have w: "writable ids k bldg ?known es (es_core ?s)"
        using writable_update [OF Cons.prems [unfolded e] c'(2)] by simp
      show ?thesis unfolding run all
      proof (rule andThen_if_total [OF Cons.IH [OF w]])
        show "\<exists>w'. (case w of (us, n, u, s') \<Rightarrow> Inr (i # us, n, Suc u, s')) = Inr w' \<and> wrote bldg mode (e # es) (es_core s) w'"
          if "wrote bldg mode es (es_core ?s) w" for w
          using wrote_updated [OF _ c'(2) here] that mode
          by (cases w rule: prod_cases4) (simp only: core prod.case, blast)
      qed
    qed
  qed
qed

lemma default_amenities_ok:
  assumes "distinct (map am_id (es_amenities s))"
  shows "assertAmenityIds s bldg (getDefaultAmenityIds s bldg) = Inr ()"
proof -
  let ?P = "\<lambda>a. am_buildingId a = bldg \<and> am_isActive a \<and> am_isDefault a"
  have "filter (\<lambda>a. am_buildingId a = bldg \<and> am_isActive a \<and> List.member (getDefaultAmenityIds s bldg) (am_id a))
          (es_amenities s) = filter ?P (es_amenities s)"
    using assms by (intro filter_cong) (auto simp: getDefaultAmenityIds_def distinct_map dest: inj_onD)
  then show ?thesis by (simp add: assertAmenityIds_def getDefaultAmenityIds_def ensure_def)
qed

lemma parseUnitRows_labelled:
  "parseUnitRows m byName i rows seen = (entries, es) \<Longrightarrow> e \<in> set entries \<Longrightarrow> nd_label (snd e) \<noteq> None"
proof (induction rows arbitrary: i seen entries es)
  case (Cons row rows)
  then show ?case
    by (fastforce simp: Let_def dest: parseUnitRow_label split: if_splits prod.splits option.splits)
qed simp

lemma existingByLabel_map:
  "map_of (existingByLabel c bldg) l = Some i \<Longrightarrow> (i, bldg, l) \<in> set (unit_keys c)"
  "map_of (existingByLabel c bldg) l = None \<Longrightarrow> (bldg, l) \<notin> snd ` set (unit_keys c)"
  by (auto simp: existingByLabel_def unit_keys_def map_of_eq_None_iff image_image dest!: map_of_SomeD)

lemma import_writable:
  assumes "keys_unique (es_core s)" and "\<forall>n \<in> set (units (es_core s)). un_id n \<noteq> []"
    and "inj ids" and "\<forall>j. ids j \<notin> un_id ` set (units (es_core s))"
    and rows: "parseUnitRows m byName 0 rows [] = (entries, es)"
    and free: "mode = IM_CREATE \<Longrightarrow> takenLabels (existingByLabel (es_core s) bldg) entries = []"
  shows "writable ids 0 bldg
     (\<lambda>l. if mode = IM_UPSERT then map_of (existingByLabel (es_core s) bldg) l else None) entries (es_core s)"
proof -
  let ?by = "existingByLabel (es_core s) bldg"
  have ids: "fst ` set (unit_keys (es_core s)) = un_id ` set (units (es_core s))"
    by (auto simp: unit_keys_def image_iff)
  have named: "([], b, l) \<notin> set (unit_keys (es_core s))" for b l
    using assms(2) by (auto simp: unit_keys_def)
  have "map_of ?by (entry_label e) = None" if "mode = IM_CREATE" "e \<in> set entries" for e
    using free [OF that(1)] that(2)
    by (cases e) (auto simp: takenLabels_def map_filter_def Let_def filter_empty_conv split: if_splits prod.splits)
  then have "case (if mode = IM_UPSERT then map_of ?by (entry_label e) else None) of
       Some i \<Rightarrow> i \<noteq> [] \<and> (i, bldg, entry_label e) \<in> set (unit_keys (es_core s))
     | None \<Rightarrow> (bldg, entry_label e) \<notin> snd ` set (unit_keys (es_core s))" if "e \<in> set entries" for e
    using that existingByLabel_map [of "es_core s" bldg "entry_label e"] named
    by (cases mode) (auto split: option.splits)
  then show ?thesis
    using assms(1,3,4) parseUnitRows_labels [OF rows] parseUnitRows_labelled [OF rows]
    unfolding writable_def ids by auto
qed

definition csvEntries :: "estate \<Rightarrow> string \<Rightarrow> string \<Rightarrow> (nat \<times> unit_dto) list" where
  "csvEntries s org csv =
     (case parseCsv csv of (headers, rows) \<Rightarrow>
        fst (parseUnitRows (snd (headerErrors headers)) (unitTypeByName s org) 0 rows []))"

text \<open>
  C38. What the dry run of an import promises. It changes nothing, and when it reports no error,
  the import itself, run on the same database, writes every row the dry run found valid, as a new
  unit or, only in the mode that allows it, onto the unit with that label, adds as many units as it
  says and names every unit it wrote. The one thing the dry run does not see is a number too large
  for its column: then, and only then, the import fails, and writes nothing. The hypotheses are
  the unique keys of the tables and fresh ids.
\<close>

theorem dry_run_predicts_import:
  assumes "keys_unique (es_core s)" and "\<forall>n \<in> set (units (es_core s)). un_id n \<noteq> []"
    and "distinct (map am_id (es_amenities s))"
    and "inj ids" and "\<forall>j. ids j \<notin> un_id ` set (units (es_core s))"
    and org: "orgBuilding (es_core s) u bldg = Inr org"
    and dry: "importCsv s now ids u bldg (Some csv) mode (Some True) = Inr (preview, s1)" "ir_errors preview = []"
    and real: "dryRun \<noteq> Some True"
  shows "s1 = s \<and> ir_validRows preview = length (csvEntries s org csv)
     \<and> (if \<forall>e \<in> set (csvEntries s org csv). fits (snd e)
        then \<exists>r s'. importCsv s now' ids u bldg (Some csv) mode dryRun = Inr (r, s')
          \<and> ir_errors r = [] \<and> ir_created r + ir_updated r = ir_validRows preview
          \<and> (mode \<noteq> Some IM_UPSERT \<longrightarrow> ir_updated r = 0)
          \<and> (\<exists>us. ir_unitIds r = Some us \<and> length us = ir_validRows preview)
          \<and> snd ` set (unit_keys (es_core s')) =
              snd ` set (unit_keys (es_core s)) \<union> Pair bldg ` entry_label ` set (csvEntries s org csv)
          \<and> length (units (es_core s')) = length (units (es_core s)) + ir_created r
        else importCsv s now' ids u bldg (Some csv) mode dryRun = Inl OutOfRange)"
proof -
  let ?mode = "nullish mode IM_CREATE"
  obtain headers rows where parsed: "parseCsv csv = (headers, rows)" by fastforce
  obtain hes m where h: "headerErrors headers = (hes, m)" by fastforce
  obtain entries es where e: "parseUnitRows m (unitTypeByName s org) 0 rows [] = (entries, es)" by fastforce
  have entries: "csvEntries s org csv = entries" by (simp add: csvEntries_def parsed h e)
  note fixed = importCsv_def org parsed h e ensure_def Let_def
  have ok: "csv \<noteq> []" "headers \<noteq> []" "hes = []" "\<not> 2000 < length rows" "es = []"
    "?mode = IM_CREATE \<longrightarrow> takenLabels (existingByLabel (es_core s) bldg) entries = []"
    "s1 = s" "ir_validRows preview = length entries"
    using dry by (auto simp: fixed truthy_def split: if_splits)
  have create: "?mode = IM_CREATE" if "mode \<noteq> Some IM_UPSERT"
    using that by (cases mode; cases "the mode") auto
  note w = writeUnits_total [OF import_writable [OF assms(1,2,4,5) e, of ?mode bldg], of now' "getDefaultAmenityIds s bldg"]
  have run: "importCsv s now' ids u bldg (Some csv) mode dryRun =
      andThen (writeUnits now' ids 0 bldg ?mode (existingByLabel (es_core s) bldg) (getDefaultAmenityIds s bldg) entries s)
        (\<lambda>(us, created, updated, s'). Inr (\<lparr> ir_dryRun = False, ir_mode = ?mode, ir_totalRows = length rows,
           ir_validRows = length entries, ir_created = created, ir_updated = updated, ir_errors = [],
           ir_unitIds = Some us \<rparr>, s'))"
    using ok(1-6) real default_amenities_ok [OF assms(3), of bldg] by (auto simp: fixed truthy_def)
  show ?thesis
  proof (cases "\<forall>e \<in> set entries. fits (snd e)")
    case True
    then obtain us c n s' where w: "writeUnits now' ids 0 bldg ?mode (existingByLabel (es_core s) bldg)
        (getDefaultAmenityIds s bldg) entries s = Inr (us, c, n, s')" "wrote bldg ?mode entries (es_core s) (us, c, n, s')"
      using w ok(6) by (auto simp del: writeUnits.simps)
    then show ?thesis using True create ok(7,8) by (auto simp: run entries wrote_def)
  next
    case False
    then show ?thesis using w ok(6-8) by (auto simp: run entries simp del: writeUnits.simps)
  qed
qed

definition fx_estate :: estate where
  "fx_estate = \<lparr> es_core = fx0, es_unitTypes = [], es_amenities = [], es_unitAmenities = [] \<rparr>"

definition fx_csv :: string where
  "fx_csv = ''label,notes'' @ [newline] @ ''A,old'' @ [newline] @ ''B,new'' @ [newline]"

definition fx_ids :: "nat \<Rightarrow> string" where
  "fx_ids k = CHR ''k'' # replicate k CHR ''x''"

definition fx_rows :: "csv_row list" where
  "fx_rows = [[(''label'', ''A''), (''notes'', ''old'')], [(''label'', ''B''), (''notes'', ''new'')]]"

definition fx_preview :: import_result where
  "fx_preview = \<lparr> ir_dryRun = True, ir_mode = IM_UPSERT, ir_totalRows = 2, ir_validRows = 2, ir_created = 0,
     ir_updated = 0, ir_errors = [], ir_unitIds = None \<rparr>"

lemma fx_ids_ok: "inj fx_ids" "\<forall>j. fx_ids j \<notin> un_id ` set (units (es_core fx_estate))"
  by (auto simp: fx_ids_def fx_estate_def fx0_def intro!: injI dest: arg_cong [of _ _ length])

lemma fx_csv_parsed: "parseCsv fx_csv = ([''label'', ''notes''], fx_rows)"
  by code_simp

lemma fx_csv_header: "fst (headerErrors [''label'', ''notes'']) = []"
  by code_simp

lemma fx_csv_entries:
  "length (fst (parseUnitRows (snd (headerErrors [''label'', ''notes''])) [] 0 fx_rows [])) = 2"
  "snd (parseUnitRows (snd (headerErrors [''label'', ''notes''])) [] 0 fx_rows []) = []"
  by code_simp+

lemma fx_org: "orgBuilding (es_core fx_estate) (fx_user ''mgr'') ''b1'' = Inr ''o1''"
  by code_simp

lemma fx_dry_run:
  "importCsv fx_estate 5 fx_ids (fx_user ''mgr'') ''b1'' (Some fx_csv) (Some IM_UPSERT) (Some True)
   = Inr (fx_preview, fx_estate)"
proof -
  obtain m where m: "headerErrors [''label'', ''notes''] = ([], m)"
    using fx_csv_header by (cases "headerErrors [''label'', ''notes'']") simp
  obtain entries where e: "parseUnitRows m [] 0 fx_rows [] = (entries, [])" "length entries = 2"
    using fx_csv_entries by (cases "parseUnitRows m [] 0 fx_rows []") (simp add: m)
  have "fx_csv \<noteq> []" "length fx_rows = 2" "unitTypeByName fx_estate ''o1'' = []"
    by code_simp+
  then show ?thesis
    by (simp add: importCsv_def fx_csv_parsed fx_org ensure_def fx_preview_def Let_def truthy_def m e del: parseUnitRows.simps)
qed

lemma fx_keys:
  "keys_unique (es_core fx_estate)" "\<forall>n \<in> set (units (es_core fx_estate)). un_id n \<noteq> []"
  "distinct (map am_id (es_amenities fx_estate))"
  by code_simp+

lemma fx_fits: "\<forall>e \<in> set (csvEntries fx_estate ''o1'' fx_csv). fits (snd e)"
  by code_simp

theorem dry_run_predicts_import_witness:
  "\<exists>r s'. importCsv fx_estate 9 fx_ids (fx_user ''mgr'') ''b1'' (Some fx_csv) (Some IM_UPSERT) None = Inr (r, s')
     \<and> ir_errors r = [] \<and> ir_created r + ir_updated r = 2
     \<and> length (units (es_core s')) = 1 + ir_created r"
proof -
  have u: "length (units (es_core fx_estate)) = 1" by (simp add: fx_estate_def fx0_def)
  have "fx_preview\<lparr> ir_errors := [] \<rparr> = fx_preview" "ir_validRows fx_preview = 2" by (simp_all add: fx_preview_def)
  then show ?thesis
    using dry_run_predicts_import [of fx_estate fx_ids "fx_user ''mgr''" "''b1''" "''o1''" 5 fx_csv "Some IM_UPSERT"
      fx_preview fx_estate None 9, OF fx_keys fx_ids_ok fx_org fx_dry_run] u fx_fits
    by (auto simp: fx_preview_def)
qed

end
