(* ===== verification/RoleAdmin.thy ===== *)
theory RoleAdmin
  imports AccessControl
begin

text \<open>
  Administration of roles and of who holds them: role templates (\<^verbatim>\<open>roles.service.ts\<close>), access assignments and
  permission overrides of a user (\<^verbatim>\<open>user-access.service.ts\<close>), the lists of permissions and of the
  assignments of a building (\<^verbatim>\<open>permissions.service.ts\<close>, \<^verbatim>\<open>building-assignments.service.ts\<close>) and the writes of
  \<^verbatim>\<open>access-control.repo.ts\<close>. The sort keys that \<^verbatim>\<open>localeCompare\<close> compares are the parameter \<open>collate\<close>, the MD5 digest of
  Node's crypto module the parameter \<open>md5\<close>. An operation that writes in more than one
  transaction returns the database as it is when it raises.
\<close>

section \<open>Keys of the platform\<close>

definition isPlatformPermissionKey :: "string \<Rightarrow> bool" where
  "isPlatformPermissionKey key = startsWith key ''platform.''"

definition listPlatformPermissionKeys :: "(string \<Rightarrow> nat list) \<Rightarrow> string list \<Rightarrow> string list" where
  "listPlatformPermissionKeys collate keys = sort_key collate (js_unique (filter isPlatformPermissionKey keys))"

section \<open>Reads\<close>

definition findPermissionsByKeys :: "db \<Rightarrow> string list \<Rightarrow> permission_row list" where
  "findPermissionsByKeys s keys = filter (\<lambda>p. List.member keys (pm_key p)) (permissions s)"

definition findRoleTemplateById :: "db \<Rightarrow> string \<Rightarrow> string \<Rightarrow> role_template option" where
  "findRoleTemplateById s org i = List.find (\<lambda>t. rt_id t = i \<and> rt_orgId t = Some org) (roleTemplates s)"

definition hasUserRoleTemplateKeyInOrg :: "db \<Rightarrow> string \<Rightarrow> string option \<Rightarrow> string \<Rightarrow> bool" where
  "hasUserRoleTemplateKeyInOrg s userId org key =
     list_ex (\<lambda>a. ua_userId a = userId \<and> ua_scopeType a = SC_ORG \<and> ua_scopeId a = None
       \<and> template_sat s a (\<lambda>t. rt_orgId t = org \<and> rt_key t = key \<and> rt_scopeType t = SC_ORG)) (accessAssignments s)"

definition countUsersAssignedToRoleTemplate :: "db \<Rightarrow> string \<Rightarrow> nat" where
  "countUsersAssignedToRoleTemplate s i = length (filter (\<lambda>a. ua_roleTemplateId a = i) (accessAssignments s))"

text \<open>A role template with the keys of its permissions, as the routes answer it.\<close>

type_synonym role_response = "role_template \<times> string list"

definition toRoleResponse :: "(string \<Rightarrow> nat list) \<Rightarrow> db \<Rightarrow> role_template \<Rightarrow> role_response" where
  "toRoleResponse collate s t =
     (t, sort_key collate (List.map_filter (\<lambda>rp. permissionKey s (rp_permissionId rp))
           (filter (\<lambda>rp. rp_roleTemplateId rp = rt_id t) (rolePermissions s))))"

fun scope_rank :: "scope_type \<Rightarrow> nat" where
  "scope_rank SC_ORG = 0"
| "scope_rank SC_BUILDING = 1"

definition listRoles :: "(string \<Rightarrow> nat list) \<Rightarrow> db \<Rightarrow> string \<Rightarrow> role_response list" where
  "listRoles collate s org =
     map (toRoleResponse collate s) (filter isVisibleRoleTemplate
       (sort_key (\<lambda>t. (scope_rank (rt_scopeType t), rt_key t))
         (filter (\<lambda>t. rt_orgId t = Some org) (roleTemplates s))))"

definition getRoleById :: "(string \<Rightarrow> nat list) \<Rightarrow> db \<Rightarrow> string \<Rightarrow> string \<Rightarrow> role_response res" where
  "getRoleById collate s org i =
     (case findRoleTemplateById s org i of
        None \<Rightarrow> Inl (NotFound ''Role template not found'')
      | Some t \<Rightarrow> if isVisibleRoleTemplate t then Inr (toRoleResponse collate s t)
                  else Inl (NotFound ''Role template not found''))"

section \<open>Roles\<close>

definition assertOrgAdmin :: "db \<Rightarrow> string \<Rightarrow> string \<Rightarrow> unit res" where
  "assertOrgAdmin s userId org =
     ensure (hasUserRoleTemplateKeyInOrg s userId (Some org) ''org_admin'')
       (Forbidden ''Only org_admin can manage role templates'')"

definition resolvePermissionIds :: "(string \<Rightarrow> nat list) \<Rightarrow> db \<Rightarrow> string list \<Rightarrow> string list res" where
  "resolvePermissionIds collate s permissionKeys =
     (let keys = js_unique (filter (\<lambda>k. k \<noteq> []) (map trim permissionKeys));
          platform = listPlatformPermissionKeys collate keys;
          found = findPermissionsByKeys s keys;
          missing = filter (\<lambda>k. \<not> list_ex (\<lambda>p. pm_key p = k) found) keys
      in if platform \<noteq> []
         then Inl (BadRequest (''Platform permission keys cannot be assigned to org role templates: ''
                     @ joinWith '', '' platform))
         else if missing \<noteq> [] then Inl (BadRequest (''Unknown permission keys: '' @ joinWith '', '' missing))
         else Inr (map pm_id found))"

definition createRoleTemplate :: "db \<Rightarrow> role_template \<Rightarrow> db res" where
  "createRoleTemplate s t =
     (if list_ex (\<lambda>x. rt_id x = rt_id t \<or> rt_orgId x \<noteq> None \<and> rt_orgId x = rt_orgId t \<and> rt_key x = rt_key t)
           (roleTemplates s)
      then Inl UniqueViolation else Inr (s\<lparr> roleTemplates := roleTemplates s @ [t] \<rparr>))"

definition replaceRoleTemplatePermissions :: "db \<Rightarrow> string \<Rightarrow> string list \<Rightarrow> db" where
  "replaceRoleTemplatePermissions s i permissionIds =
     s\<lparr> rolePermissions := filter (\<lambda>rp. rp_roleTemplateId rp \<noteq> i) (rolePermissions s)
          @ map (\<lambda>p. \<lparr> rp_roleTemplateId = i, rp_permissionId = p \<rparr>) (js_unique permissionIds) \<rparr>"

definition keyConflict :: "'a res \<Rightarrow> 'a res" where
  "keyConflict r = (case r of Inl UniqueViolation \<Rightarrow> Inl (Conflict ''Role template key already exists'') | _ \<Rightarrow> r)"

record role_dto =
  ro_key :: string
  ro_name :: string
  ro_description :: "string option"
  ro_scopeType :: scope_type
  ro_permissionKeys :: "string list"

definition createRole ::
  "(string \<Rightarrow> nat list) \<Rightarrow> db \<Rightarrow> string \<Rightarrow> string \<Rightarrow> string \<Rightarrow> role_dto \<Rightarrow> role_response res \<times> db" where
  "createRole collate s newId actor org d =
     (case andThen (assertOrgAdmin s actor org) (\<lambda>_.
           andThen (ensure (\<not> isReservedRoleTemplateKey (trim (ro_key d))) (BadRequest ''Role template key is reserved'')) (\<lambda>_.
           andThen (resolvePermissionIds collate s (ro_permissionKeys d)) (\<lambda>ids.
           andThen (keyConflict (createRoleTemplate s
               \<lparr> rt_id = newId, rt_orgId = Some org, rt_key = trim (ro_key d), rt_name = trim (ro_name d),
                 rt_description = map_option trim (ro_description d), rt_isSystem = False,
                 rt_scopeType = ro_scopeType d \<rparr>)) (\<lambda>s1.
           Inr (replaceRoleTemplatePermissions s1 newId ids))))) of
        Inl e \<Rightarrow> (Inl e, s)
      | Inr s2 \<Rightarrow> (getRoleById collate s2 org newId, s2))"

definition customRole :: "db \<Rightarrow> string \<Rightarrow> string \<Rightarrow> string \<Rightarrow> error \<Rightarrow> role_template res" where
  "customRole s actor org i systemError =
     andThen (assertOrgAdmin s actor org) (\<lambda>_.
     andThen (orThrow (findRoleTemplateById s org i) (NotFound ''Role template not found'')) (\<lambda>t.
     andThen (ensure (isVisibleRoleTemplate t) (NotFound ''Role template not found'')) (\<lambda>_.
     andThen (ensure (\<not> rt_isSystem t) systemError) (\<lambda>_. Inr t))))"

text \<open>The description may be absent, null or a text.\<close>

definition updateRole ::
  "(string \<Rightarrow> nat list) \<Rightarrow> db \<Rightarrow> string \<Rightarrow> string \<Rightarrow> string \<Rightarrow> string option \<Rightarrow> string option option
   \<Rightarrow> string list option \<Rightarrow> role_response res \<times> db" where
  "updateRole collate s actor org i name desc permissionKeys =
     (case customRole s actor org i (BadRequest ''System role templates cannot be edited'') of
        Inl e \<Rightarrow> (Inl e, s)
      | Inr t \<Rightarrow>
          let s1 = (if name = None \<and> desc = None then s
                    else s\<lparr> roleTemplates := modify_by rt_id i (\<lambda>r. r\<lparr> rt_name := nullish (map_option trim name) (rt_name r),
                           rt_description := nullish (map_option (map_option trim) desc) (rt_description r) \<rparr>)
                           (roleTemplates s) \<rparr>)
          in case permissionKeys of
               None \<Rightarrow> (getRoleById collate s1 org i, s1)
             | Some keys \<Rightarrow>
                 (case resolvePermissionIds collate s1 keys of
                    Inl e \<Rightarrow> (Inl e, s1)
                  | Inr ids \<Rightarrow> let s2 = replaceRoleTemplatePermissions s1 i ids
                               in (getRoleById collate s2 org i, s2)))"

text \<open>Deleting a role takes its permissions and assignments with it (\<^verbatim>\<open>onDelete: Cascade\<close>).\<close>

definition deleteRoleTemplate :: "db \<Rightarrow> string \<Rightarrow> db" where
  "deleteRoleTemplate s i =
     s\<lparr> roleTemplates := filter (\<lambda>t. rt_id t \<noteq> i) (roleTemplates s),
        rolePermissions := filter (\<lambda>rp. rp_roleTemplateId rp \<noteq> i) (rolePermissions s),
        accessAssignments := filter (\<lambda>a. ua_roleTemplateId a \<noteq> i) (accessAssignments s) \<rparr>"

definition deleteRole :: "db \<Rightarrow> string \<Rightarrow> string \<Rightarrow> string \<Rightarrow> db res" where
  "deleteRole s actor org i =
     andThen (customRole s actor org i (BadRequest ''System role templates cannot be deleted'')) (\<lambda>_.
     andThen (ensure (countUsersAssignedToRoleTemplate s i = 0)
        (Conflict ''Role template is assigned and cannot be deleted'')) (\<lambda>_.
     Inr (deleteRoleTemplate s i)))"

section \<open>Assignments\<close>

definition assertUserInOrg :: "db \<Rightarrow> string \<Rightarrow> string \<Rightarrow> unit res" where
  "assertUserInOrg s userId org =
     (case find_by us_id userId (users s) of
        None \<Rightarrow> Inl (BadRequest ''User not in org'')
      | Some u \<Rightarrow> ensure (us_orgId u = Some org) (BadRequest ''User not in org''))"

fun scope_str :: "scope_type \<Rightarrow> string" where
  "scope_str SC_ORG = ''ORG''"
| "scope_str SC_BUILDING = ''BUILDING''"

definition buildUserAccessAssignmentId ::
  "(string \<Rightarrow> string) \<Rightarrow> string \<Rightarrow> string \<Rightarrow> scope_type \<Rightarrow> string option \<Rightarrow> string" where
  "buildUserAccessAssignmentId md5 userId roleTemplateId scopeType scopeId =
     md5 (joinWith '':'' [userId, roleTemplateId, scope_str scopeType, nullish scopeId []])"

text \<open>An \<^verbatim>\<open>upsert\<close> with nothing to update: a row with that id is returned as it is.\<close>

definition createUserAccessAssignment ::
  "(string \<Rightarrow> string) \<Rightarrow> db \<Rightarrow> int \<Rightarrow> string \<Rightarrow> string \<Rightarrow> scope_type \<Rightarrow> string option \<Rightarrow> access_assignment \<times> db" where
  "createUserAccessAssignment md5 s now userId roleTemplateId scopeType scopeId =
     (let i = buildUserAccessAssignmentId md5 userId roleTemplateId scopeType scopeId
      in case find_by ua_id i (accessAssignments s) of
           Some a \<Rightarrow> (a, s)
         | None \<Rightarrow>
             let a = \<lparr> ua_id = i, ua_userId = userId, ua_roleTemplateId = roleTemplateId, ua_scopeType = scopeType,
                       ua_scopeId = scopeId, ua_createdAt = now \<rparr>
             in (a, s\<lparr> accessAssignments := accessAssignments s @ [a] \<rparr>))"

definition findUserAccessAssignmentById :: "db \<Rightarrow> string \<Rightarrow> string \<Rightarrow> access_assignment option" where
  "findUserAccessAssignmentById s i org =
     List.find (\<lambda>a. ua_id a = i \<and> template_sat s a (\<lambda>t. rt_orgId t = Some org)) (accessAssignments s)"

definition findDuplicateUserAccessAssignment :: "db \<Rightarrow> string \<Rightarrow> string \<Rightarrow> scope_type \<Rightarrow> string option \<Rightarrow> bool" where
  "findDuplicateUserAccessAssignment s userId roleTemplateId scopeType scopeId =
     list_ex (\<lambda>a. ua_userId a = userId \<and> ua_roleTemplateId a = roleTemplateId \<and> ua_scopeType a = scopeType
       \<and> ua_scopeId a = scopeId) (accessAssignments s)"

record assignment_dto =
  ga_roleTemplateId :: string
  ga_scopeType :: scope_type
  ga_scopeId :: "string option"

definition assignmentScope :: "assignment_dto \<Rightarrow> string option" where
  "assignmentScope d = (if ga_scopeType d = SC_ORG then None else ga_scopeId d)"

text \<open>The checks in front of the write, in their order.\<close>

definition checkAssignment :: "db \<Rightarrow> string \<Rightarrow> string \<Rightarrow> assignment_dto \<Rightarrow> unit res" where
  "checkAssignment s userId org d =
     andThen (assertUserInOrg s userId org) (\<lambda>_.
     andThen (orThrow (findRoleTemplateById s org (ga_roleTemplateId d)) (BadRequest ''Role template not found'')) (\<lambda>t.
     andThen (ensure (isVisibleRoleTemplate t) (BadRequest ''Role template not found'')) (\<lambda>_.
     let scopeId = assignmentScope d in
     andThen (ensure (rt_scopeType t = ga_scopeType d)
        (BadRequest ''Assignment scopeType must match the role template scopeType'')) (\<lambda>_.
     andThen (ensure (\<not> (ga_scopeType d = SC_ORG \<and> scopeId \<noteq> None))
        (BadRequest ''ORG assignments must use scopeId null'')) (\<lambda>_.
     andThen (if ga_scopeType d = SC_BUILDING
              then andThen (ensure (truthy scopeId) (BadRequest ''BUILDING assignments require a building scopeId'')) (\<lambda>_.
                   ensure (list_ex (\<lambda>b. Some (bd_id b) = scopeId \<and> bd_orgId b = org) (buildings s))
                     (NotFound ''Building not found''))
              else Inr ()) (\<lambda>_.
     ensure (\<not> findDuplicateUserAccessAssignment s userId (ga_roleTemplateId d) (ga_scopeType d) scopeId)
       (Conflict ''Access assignment already exists'')))))))"

definition createAccessAssignment ::
  "(string \<Rightarrow> string) \<Rightarrow> db \<Rightarrow> int \<Rightarrow> string \<Rightarrow> string \<Rightarrow> assignment_dto \<Rightarrow> access_assignment res \<times> db" where
  "createAccessAssignment md5 s now userId org d =
     (case checkAssignment s userId org d of
        Inl e \<Rightarrow> (Inl e, s)
      | Inr _ \<Rightarrow>
          let (a, s1) = createUserAccessAssignment md5 s now userId (ga_roleTemplateId d) (ga_scopeType d) (assignmentScope d)
          in (orThrow (findUserAccessAssignmentById s1 (ua_id a) org) (NotFound ''Access assignment not found''), s1))"

definition deleteAccessAssignment :: "db \<Rightarrow> string \<Rightarrow> string \<Rightarrow> string \<Rightarrow> db res" where
  "deleteAccessAssignment s userId org i =
     andThen (assertUserInOrg s userId org) (\<lambda>_.
     andThen (orThrow (findUserAccessAssignmentById s i org) (NotFound ''Access assignment not found'')) (\<lambda>a.
     andThen (ensure (ua_userId a = userId) (NotFound ''Access assignment not found'')) (\<lambda>_.
     Inr (s\<lparr> accessAssignments := filter (\<lambda>x. ua_id x \<noteq> i) (accessAssignments s) \<rparr>))))"

text \<open>\<^verbatim>\<open>orderBy\<close> scope type, scope id with nulls last, newest first.\<close>

definition listAccessAssignments :: "db \<Rightarrow> string \<Rightarrow> string \<Rightarrow> access_assignment list res" where
  "listAccessAssignments s userId org =
     andThen (assertUserInOrg s userId org) (\<lambda>_.
     Inr (filter (\<lambda>a. template_sat s a isVisibleRoleTemplate)
       (sort_key (\<lambda>a. (scope_rank (ua_scopeType a), ua_scopeId a = None, nullish (ua_scopeId a) [], - ua_createdAt a))
         (rev (sort_key ua_id (filter (\<lambda>a. ua_userId a = userId \<and> template_sat s a (\<lambda>t. rt_orgId t = Some org))
           (accessAssignments s)))))))"

definition listBuildingAssignments :: "db \<Rightarrow> string \<Rightarrow> string \<Rightarrow> access_assignment list" where
  "listBuildingAssignments s org bldg =
     filter (\<lambda>a. template_sat s a isVisibleRoleTemplate)
       (newestFirst (filter (\<lambda>a. ua_scopeType a = SC_BUILDING \<and> ua_scopeId a = Some bldg
          \<and> template_sat s a (\<lambda>t. rt_orgId t = Some org \<and> rt_scopeType t = SC_BUILDING)) (accessAssignments s)))"

section \<open>Overrides\<close>

text \<open>\<^verbatim>\<open>createMany\<close> with \<^verbatim>\<open>skipDuplicates\<close>: of several rows with one permission the first is kept.\<close>

definition replaceUserPermissions :: "db \<Rightarrow> string \<Rightarrow> (string \<times> permission_effect) list \<Rightarrow> db" where
  "replaceUserPermissions s userId overrides =
     s\<lparr> userPermissions := filter (\<lambda>up. up_userId up \<noteq> userId) (userPermissions s)
          @ map (\<lambda>p. \<lparr> up_userId = userId, up_permissionId = p, up_effect = the (map_of overrides p) \<rparr>)
              (js_unique (map fst overrides)) \<rparr>"

definition setPermissionOverrides ::
  "(string \<Rightarrow> nat list) \<Rightarrow> db \<Rightarrow> string \<Rightarrow> (string \<times> permission_effect) list \<Rightarrow> string \<Rightarrow> db res" where
  "setPermissionOverrides collate s userId overrides org =
     andThen (assertUserInOrg s userId org) (\<lambda>_.
     let keys = map fst overrides;
         platform = listPlatformPermissionKeys collate keys;
         found = findPermissionsByKeys s keys;
         missing = filter (\<lambda>k. \<not> list_ex (\<lambda>p. pm_key p = k) found) keys;
         idByKey = map_of (rev (map (\<lambda>p. (pm_key p, pm_id p)) found))
     in andThen (ensure (platform = [])
          (BadRequest (''Platform permission keys cannot be assigned to org users: '' @ joinWith '', '' platform))) (\<lambda>_.
        andThen (ensure (missing = []) (BadRequest (''Unknown permission keys: '' @ joinWith '', '' missing))) (\<lambda>_.
        Inr (replaceUserPermissions s userId
          (List.map_filter (\<lambda>(k, e). case idByKey k of
               None \<Rightarrow> None | Some p \<Rightarrow> if p = [] then None else Some (p, e)) overrides)))))"

definition getPermissionOverrides :: "db \<Rightarrow> string \<Rightarrow> string \<Rightarrow> (string \<times> permission_effect) list res" where
  "getPermissionOverrides s userId org =
     andThen (assertUserInOrg s userId org) (\<lambda>_.
     Inr (sa_userOverrides (getUserScopedAccess s userId (Some org) None False)))"

definition getEffectivePermissions :: "db \<Rightarrow> string \<Rightarrow> string \<Rightarrow> string option \<Rightarrow> string list res" where
  "getEffectivePermissions s userId org bldg =
     andThen (assertUserInOrg s userId org) (\<lambda>_.
     Inr (sorted_list_of_set (getUserEffectivePermissions s userId (Some org) bldg False)))"

fun effectivePermissionsOf :: "db \<Rightarrow> string \<Rightarrow> string list \<Rightarrow> (string \<times> string list) list res" where
  "effectivePermissionsOf s org [] = Inr []"
| "effectivePermissionsOf s org (u # us) =
     andThen (getEffectivePermissions s u org None) (\<lambda>ps.
     andThen (effectivePermissionsOf s org us) (\<lambda>rest. Inr ((u, ps) # rest)))"

definition getEffectivePermissionsForUsers :: "db \<Rightarrow> string list \<Rightarrow> string \<Rightarrow> (string \<times> string list) list res" where
  "getEffectivePermissionsForUsers s userIds org =
     effectivePermissionsOf s org (filter (\<lambda>u. u \<noteq> []) (js_unique userIds))"

text \<open>The permissions a user may see; the keys of the platform are for its superadmins.\<close>

definition listVisiblePermissions :: "db \<Rightarrow> string \<Rightarrow> string option \<Rightarrow> permission_row list res" where
  "listVisiblePermissions s userId org =
     (let platform = hasUserRoleTemplateKeyInOrg s userId None ''platform_superadmin'' \<and> org = None
      in andThen (ensure (platform \<or> ''roles.read'' \<in> getUserEffectivePermissions s userId org None False)
           (Forbidden ''Missing required permissions'')) (\<lambda>_.
         Inr (filter (\<lambda>p. platform \<or> \<not> isPlatformPermissionKey (pm_key p)) (sort_key pm_key (permissions s)))))"

end
