(* ===== verification/RoleTheorems.thy ===== *)
theory RoleTheorems
  imports Fixture RoleAdmin
begin

text \<open>
  Theorems about the administration of roles: what every sequence of its operations keeps, and
  that the permissions of the platform stay out of reach of the users of an organisation.
\<close>

section \<open>The operations as a system\<close>

datatype admin_op =
    CreateRole string string string role_dto
  | UpdateRole string string string "string option" "string option option" "string list option"
  | DeleteRole string string string
  | CreateAssignment int string string assignment_dto
  | DeleteAssignment string string string
  | SetOverrides string "(string \<times> permission_effect) list" string

text \<open>Each step has its own sort keys and its own digest: nothing below depends on them.\<close>

fun administer :: "(string \<Rightarrow> nat list) \<times> (string \<Rightarrow> string) \<times> admin_op \<Rightarrow> db \<Rightarrow> db res" where
  "administer (collate, md5, CreateRole newId actor org d) s = Inr (snd (createRole collate s newId actor org d))"
| "administer (collate, md5, UpdateRole actor org i name desc keys) s =
     Inr (snd (updateRole collate s actor org i name desc keys))"
| "administer (collate, md5, DeleteRole actor org i) s = deleteRole s actor org i"
| "administer (collate, md5, CreateAssignment now u org d) s = Inr (snd (createAccessAssignment md5 s now u org d))"
| "administer (collate, md5, DeleteAssignment u org i) s = deleteAccessAssignment s u org i"
| "administer (collate, md5, SetOverrides u os org) s = setPermissionOverrides collate s u os org"

section \<open>Invariant\<close>

definition orgOf :: "db \<Rightarrow> string \<Rightarrow> string option" where
  "orgOf s u = (case find_by us_id u (users s) of None \<Rightarrow> None | Some r \<Rightarrow> us_orgId r)"

definition platformPermission :: "db \<Rightarrow> string \<Rightarrow> bool" where
  "platformPermission s p = (case permissionKey s p of None \<Rightarrow> False | Some k \<Rightarrow> isPlatformPermissionKey k)"

definition roles_ok :: "db \<Rightarrow> bool" where
  "roles_ok s \<longleftrightarrow> distinct (map rt_id (roleTemplates s)) \<and> distinct (map pm_id (permissions s))
     \<and> (\<forall>rp \<in> set (rolePermissions s). \<forall>t \<in> set (roleTemplates s).
          rt_id t = rp_roleTemplateId rp \<longrightarrow> rt_orgId t \<noteq> None \<longrightarrow> \<not> platformPermission s (rp_permissionId rp))"

definition overrides_ok :: "db \<Rightarrow> bool" where
  "overrides_ok s \<longleftrightarrow> (\<forall>up \<in> set (userPermissions s).
     orgOf s (up_userId up) \<noteq> None \<longrightarrow> \<not> platformPermission s (up_permissionId up))"

text \<open>
  An assignment has the scope its role is made for, an assignment to a building names one, and
  the role and the building of an assignment to a user of an organisation are of that organisation.
\<close>

definition assignment_ok :: "db \<Rightarrow> access_assignment \<Rightarrow> bool" where
  "assignment_ok s a \<longleftrightarrow>
     (\<exists>t. templateOf s a = Some t \<and> rt_scopeType t = ua_scopeType a
        \<and> (orgOf s (ua_userId a) \<noteq> None \<longrightarrow> rt_orgId t = orgOf s (ua_userId a)))
     \<and> (ua_scopeType a = SC_ORG \<longleftrightarrow> ua_scopeId a = None)
     \<and> (\<forall>b org. ua_scopeId a = Some b \<longrightarrow> orgOf s (ua_userId a) = Some org
          \<longrightarrow> (\<exists>x \<in> set (buildings s). bd_id x = b \<and> bd_orgId x = org))"

definition assignments_ok :: "db \<Rightarrow> bool" where
  "assignments_ok s \<longleftrightarrow> (\<forall>a \<in> set (accessAssignments s). assignment_ok s a)
     \<and> distinct (map (\<lambda>a. (ua_userId a, ua_roleTemplateId a, ua_scopeType a, ua_scopeId a)) (accessAssignments s))"

definition admin_inv :: "db \<Rightarrow> bool" where
  "admin_inv s \<longleftrightarrow> roles_ok s \<and> overrides_ok s \<and> assignments_ok s"

subsection \<open>Keys\<close>

lemma no_platform_keys: "listPlatformPermissionKeys collate keys = [] \<longleftrightarrow> (\<forall>k \<in> set keys. \<not> isPlatformPermissionKey k)"
proof -
  have "listPlatformPermissionKeys collate keys = [] \<longleftrightarrow> set (listPlatformPermissionKeys collate keys) = {}" by simp
  then show ?thesis unfolding listPlatformPermissionKeys_def by auto
qed

lemma resolved_not_platform:
  assumes "resolvePermissionIds collate s keys = Inr ids" and "p \<in> set ids" and "distinct (map pm_id (permissions s))"
   
  shows "\<not> platformPermission s p"
proof -
  from assms(1,2) obtain r where r: "r \<in> set (permissions s)" "pm_id r = p"
    "pm_key r \<in> set (filter (\<lambda>k. k \<noteq> []) (map trim keys))"
    and none: "listPlatformPermissionKeys collate (js_unique (filter (\<lambda>k. k \<noteq> []) (map trim keys))) = []"
    by (auto simp: resolvePermissionIds_def findPermissionsByKeys_def Let_def split: if_splits)
  have "\<not> isPlatformPermissionKey (pm_key r)"
    using none r(3) by (auto simp: no_platform_keys)
  moreover have "permissionKey s p = Some (pm_key r)"
    using find_by_distinct [OF assms(3) r(1)] r(2) by (simp add: permissionKey_def)
  ultimately show ?thesis by (simp add: platformPermission_def)
qed

text \<open>What the operations leave alone: the users, the buildings and the permissions.\<close>

definition same_base :: "db \<Rightarrow> db \<Rightarrow> bool" where
  "same_base s s' \<longleftrightarrow> users s' = users s \<and> buildings s' = buildings s \<and> permissions s' = permissions s"

lemma same_base_reads:
  assumes "same_base s s'"
  shows "orgOf s' = orgOf s" "platformPermission s' = platformPermission s" "permissionKey s' = permissionKey s"
    "permissions s' = permissions s" "buildings s' = buildings s"
  using assms by (auto simp: same_base_def orgOf_def platformPermission_def permissionKey_def fun_eq_iff)

lemma same_base_refl [simp]: "same_base s s"
  by (simp add: same_base_def)

lemma same_base_trans: "same_base s t \<Longrightarrow> same_base t u \<Longrightarrow> same_base s u"
  by (simp add: same_base_def)

subsection \<open>Each operation\<close>

lemma assignments_ok_frame:
  assumes "assignments_ok s" and "same_base s s'" and "accessAssignments s' = accessAssignments s"
    and "\<And>a t. a \<in> set (accessAssignments s) \<Longrightarrow> templateOf s a = Some t
         \<Longrightarrow> \<exists>t'. templateOf s' a = Some t' \<and> rt_scopeType t' = rt_scopeType t \<and> rt_orgId t' = rt_orgId t"
  shows "assignments_ok s'"
proof -
  have "assignment_ok s' a" if a: "a \<in> set (accessAssignments s)" for a
  proof -
    have ok: "assignment_ok s a" using assms(1) a by (simp add: assignments_ok_def)
    then obtain t where "templateOf s a = Some t" by (auto simp: assignment_ok_def)
    with ok assms(4) [OF a this] show ?thesis
      unfolding assignment_ok_def same_base_reads [OF assms(2)] by auto
  qed
  then show ?thesis using assms(1,3) by (simp add: assignments_ok_def)
qed

lemma overrides_ok_frame:
  "overrides_ok s \<Longrightarrow> same_base s s' \<Longrightarrow> userPermissions s' = userPermissions s \<Longrightarrow> overrides_ok s'"
  by (simp add: overrides_ok_def same_base_reads)

lemma replaceRolePermissions_inv:
  assumes "admin_inv s" and "resolvePermissionIds collate s keys = Inr ids"
  shows "admin_inv (replaceRoleTemplatePermissions s i ids)"
proof -
  let ?s = "replaceRoleTemplatePermissions s i ids"
  have base: "same_base s ?s" by (simp add: same_base_def replaceRoleTemplatePermissions_def)
  have "\<not> platformPermission s p" if "p \<in> set ids" for p
    using resolved_not_platform [OF assms(2) that] assms(1) by (simp add: admin_inv_def roles_ok_def)
  then have "roles_ok ?s"
    using assms(1) unfolding roles_ok_def admin_inv_def same_base_reads [OF base]
    by (auto simp: replaceRoleTemplatePermissions_def)
  moreover have "assignments_ok ?s"
    by (rule assignments_ok_frame [OF _ base])
      (use assms(1) in \<open>auto simp: admin_inv_def replaceRoleTemplatePermissions_def templateOf_def\<close>)
  moreover have "overrides_ok ?s"
    by (rule overrides_ok_frame [OF _ base]) (use assms(1) in \<open>simp_all add: admin_inv_def replaceRoleTemplatePermissions_def\<close>)
  ultimately show ?thesis by (simp add: admin_inv_def)
qed

lemma resolve_cong:
  "permissions s' = permissions s \<Longrightarrow> resolvePermissionIds collate s' keys = resolvePermissionIds collate s keys"
  by (simp add: resolvePermissionIds_def findPermissionsByKeys_def)

lemma renameRole_inv:
  assumes "admin_inv s"
    and f: "\<And>t. rt_id (f t) = rt_id t" "\<And>t. rt_orgId (f t) = rt_orgId t" "\<And>t. rt_scopeType (f t) = rt_scopeType t"
  shows "admin_inv (s\<lparr> roleTemplates := modify_by rt_id i f (roleTemplates s) \<rparr>)"
proof -
  let ?s = "s\<lparr> roleTemplates := modify_by rt_id i f (roleTemplates s) \<rparr>"
  have base: "same_base s ?s" by (simp add: same_base_def)
  have ids: "map rt_id (modify_by rt_id i f (roleTemplates s)) = map rt_id (roleTemplates s)"
    by (simp add: modify_by_def f)
  have "roles_ok ?s"
    using assms(1) unfolding roles_ok_def admin_inv_def same_base_reads [OF base]
    by (auto simp: ids) (auto simp: modify_by_def f split: if_splits)
  moreover have "assignments_ok ?s"
    by (rule assignments_ok_frame [OF _ base])
      (use assms(1) in \<open>auto simp: admin_inv_def templateOf_def find_by_modify_by f\<close>)
  moreover have "overrides_ok ?s"
    by (rule overrides_ok_frame [OF _ base]) (use assms(1) in \<open>simp_all add: admin_inv_def\<close>)
  ultimately show ?thesis by (simp add: admin_inv_def)
qed

lemma addRole_inv:
  assumes "admin_inv s" and "createRoleTemplate s t = Inr s1" and ids: "resolvePermissionIds collate s keys = Inr ids"
   
  shows "admin_inv (replaceRoleTemplatePermissions s1 (rt_id t) ids)"
proof -
  let ?s = "replaceRoleTemplatePermissions s1 (rt_id t) ids"
  from assms(2) have s1: "s1 = s\<lparr> roleTemplates := roleTemplates s @ [t] \<rparr>"
    and new: "rt_id t \<notin> rt_id ` set (roleTemplates s)"
    by (auto simp: createRoleTemplate_def list_ex_iff split: if_splits)
  have base: "same_base s ?s" by (simp add: same_base_def replaceRoleTemplatePermissions_def s1)
  have "\<not> platformPermission s p" if "p \<in> set ids" for p
    using resolved_not_platform [OF ids that] assms(1) by (simp add: admin_inv_def roles_ok_def)
  then have "roles_ok ?s"
    using assms(1) new unfolding roles_ok_def admin_inv_def same_base_reads [OF base]
    by (auto simp: replaceRoleTemplatePermissions_def s1)
  moreover have "assignments_ok ?s"
    by (rule assignments_ok_frame [OF _ base])
      (use assms(1) in \<open>auto simp: admin_inv_def replaceRoleTemplatePermissions_def s1 templateOf_def find_by_append\<close>)
  moreover have "overrides_ok ?s"
    by (rule overrides_ok_frame [OF _ base]) (use assms(1) in \<open>simp_all add: admin_inv_def replaceRoleTemplatePermissions_def s1\<close>)
  ultimately show ?thesis by (simp add: admin_inv_def)
qed

lemma createRole_inv:
  assumes "admin_inv s"
  shows "admin_inv (snd (createRole collate s newId actor org d))"
proof -
  have "admin_inv s2" if "andThen (assertOrgAdmin s actor org) (\<lambda>_.
           andThen (ensure (\<not> isReservedRoleTemplateKey (trim (ro_key d))) (BadRequest ''Role template key is reserved'')) (\<lambda>_.
           andThen (resolvePermissionIds collate s (ro_permissionKeys d)) (\<lambda>ids.
           andThen (keyConflict (createRoleTemplate s
               \<lparr> rt_id = newId, rt_orgId = Some org, rt_key = trim (ro_key d), rt_name = trim (ro_name d),
                 rt_description = map_option trim (ro_description d), rt_isSystem = False,
                 rt_scopeType = ro_scopeType d \<rparr>)) (\<lambda>s1.
           Inr (replaceRoleTemplatePermissions s1 newId ids))))) = Inr s2" for s2
    using that addRole_inv [OF assms(1)]
    by (fastforce simp: keyConflict_def split: sum.splits error.splits)
  then show ?thesis using assms(1) by (auto simp: createRole_def split: sum.splits)
qed

lemma updateRole_inv:
  assumes "admin_inv s"
  shows "admin_inv (snd (updateRole collate s actor org i name desc keys))"
proof -
  define s1 where "s1 = (if name = None \<and> desc = None then s
      else s\<lparr> roleTemplates := modify_by rt_id i (\<lambda>r. r\<lparr> rt_name := nullish (map_option trim name) (rt_name r),
             rt_description := nullish (map_option (map_option trim) desc) (rt_description r) \<rparr>) (roleTemplates s) \<rparr>)"
  have inv: "admin_inv s1" unfolding s1_def using assms(1) by (auto intro!: renameRole_inv)
  show ?thesis
    unfolding updateRole_def Let_def s1_def [symmetric]
    using assms(1) inv replaceRolePermissions_inv [OF inv] by (auto split: sum.splits option.splits)
qed

lemma deleteRole_inv:
  assumes "admin_inv s" and "deleteRole s actor org i = Inr s'"
  shows "admin_inv s'"
proof -
  have s': "s' = deleteRoleTemplate s i" and none: "\<And>a. a \<in> set (accessAssignments s) \<Longrightarrow> ua_roleTemplateId a \<noteq> i"
    using assms(2) by (auto simp: deleteRole_def countUsersAssignedToRoleTemplate_def filter_empty_conv)
  have same: "accessAssignments s' = accessAssignments s"
    unfolding s' deleteRoleTemplate_def using none by (simp add: filter_id_conv)
  have base: "same_base s s'" by (simp add: s' same_base_def deleteRoleTemplate_def)
  have kept: "find_by rt_id k (filter (\<lambda>t. rt_id t \<noteq> i) ts) = find_by rt_id k ts" if "k \<noteq> i" for k ts
    using that by (induction ts) auto
  have "roles_ok s'"
    using assms(1) unfolding roles_ok_def admin_inv_def same_base_reads [OF base]
    by (auto simp: s' deleteRoleTemplate_def distinct_map_filter)
  moreover have "assignments_ok s'"
    by (rule assignments_ok_frame [OF _ base same])
      (use assms(1) none in \<open>auto simp: admin_inv_def s' deleteRoleTemplate_def templateOf_def kept\<close>)
  moreover have "overrides_ok s'"
    by (rule overrides_ok_frame [OF _ base]) (use assms(1) in \<open>simp_all add: admin_inv_def s' deleteRoleTemplate_def\<close>)
  ultimately show ?thesis by (simp add: admin_inv_def)
qed

lemma setAssignments_inv:
  assumes "admin_inv s" and "\<And>a. a \<in> set as \<Longrightarrow> assignment_ok s a"
    and "distinct (map (\<lambda>a. (ua_userId a, ua_roleTemplateId a, ua_scopeType a, ua_scopeId a)) as)"
  shows "admin_inv (s\<lparr> accessAssignments := as \<rparr>)"
proof -
  have base: "same_base s (s\<lparr> accessAssignments := as \<rparr>)" by (simp add: same_base_def)
  then have "assignment_ok (s\<lparr> accessAssignments := as \<rparr>) a = assignment_ok s a" for a
    by (simp add: assignment_ok_def same_base_reads templateOf_def)
  then show ?thesis
    using assms overrides_ok_frame [OF _ base]
    by (simp add: admin_inv_def assignments_ok_def roles_ok_def same_base_reads [OF base])
qed

lemma checked_assignment_ok:
  assumes "admin_inv s" and "checkAssignment s u org d = Inr ()"
    and a: "ua_userId a = u" "ua_roleTemplateId a = ga_roleTemplateId d" "ua_scopeType a = ga_scopeType d"
      "ua_scopeId a = assignmentScope d"
  shows "assignment_ok s a"
proof -
  from assms(2) obtain t where t: "findRoleTemplateById s org (ga_roleTemplateId d) = Some t"
    "rt_scopeType t = ga_scopeType d" and org: "orgOf s u = Some org"
    and b: "ga_scopeType d = SC_BUILDING \<Longrightarrow> truthy (assignmentScope d)
      \<and> (\<exists>b \<in> set (buildings s). Some (bd_id b) = assignmentScope d \<and> bd_orgId b = org)"
    by (auto simp: checkAssignment_def assertUserInOrg_def orgOf_def list_ex_iff Let_def split: option.splits if_splits)
  have "find_by rt_id (ga_roleTemplateId d) (roleTemplates s) = Some t \<and> rt_orgId t = Some org"
    using find_Some_iff_find_by [OF t(1) [unfolded findRoleTemplateById_def]] assms(1)
    by (simp add: admin_inv_def roles_ok_def)
  then show ?thesis
    using t(2) org b a by (cases "ga_scopeType d") (auto simp: assignment_ok_def templateOf_def assignmentScope_def)
qed

lemma createAccessAssignment_inv:
  assumes "admin_inv s"
  shows "admin_inv (snd (createAccessAssignment md5 s now u org d))"
proof (cases "checkAssignment s u org d")
  case (Inl e)
  then show ?thesis using assms by (simp add: createAccessAssignment_def)
next
  case (Inr x)
  let ?i = "buildUserAccessAssignmentId md5 u (ga_roleTemplateId d) (ga_scopeType d) (assignmentScope d)"
  let ?a = "\<lparr> ua_id = ?i, ua_userId = u, ua_roleTemplateId = ga_roleTemplateId d, ua_scopeType = ga_scopeType d,
              ua_scopeId = assignmentScope d, ua_createdAt = now \<rparr>"
  have new: "(u, ga_roleTemplateId d, ga_scopeType d, assignmentScope d)
      \<notin> (\<lambda>a. (ua_userId a, ua_roleTemplateId a, ua_scopeType a, ua_scopeId a)) ` set (accessAssignments s)"
    using Inr by (auto simp: checkAssignment_def findDuplicateUserAccessAssignment_def list_ex_iff Let_def)
  have "assignment_ok s ?a" using checked_assignment_ok [OF assms, of u org d ?a] Inr by simp
  then have "admin_inv (s\<lparr> accessAssignments := accessAssignments s @ [?a] \<rparr>)"
    using assms new by (intro setAssignments_inv) (auto simp: admin_inv_def assignments_ok_def)
  then show ?thesis
    using assms Inr by (auto simp: createAccessAssignment_def createUserAccessAssignment_def Let_def split: option.splits)
qed

lemma deleteAccessAssignment_inv:
  assumes "admin_inv s" and "deleteAccessAssignment s u org i = Inr s'"
  shows "admin_inv s'"
proof -
  have "s' = s\<lparr> accessAssignments := filter (\<lambda>x. ua_id x \<noteq> i) (accessAssignments s) \<rparr>"
    using assms(2) by (auto simp: deleteAccessAssignment_def)
  moreover have "distinct (map (\<lambda>a. (ua_userId a, ua_roleTemplateId a, ua_scopeType a, ua_scopeId a))
      (filter (\<lambda>x. ua_id x \<noteq> i) (accessAssignments s)))" and "\<forall>a \<in> set (accessAssignments s). assignment_ok s a"
    using assms(1) by (auto simp: admin_inv_def assignments_ok_def distinct_map_filter)
  ultimately show ?thesis using setAssignments_inv [OF assms(1), of "filter (\<lambda>x. ua_id x \<noteq> i) (accessAssignments s)"] by simp
qed

lemma replaceUserPermissions_rows:
  "up \<in> set (userPermissions (replaceUserPermissions s u os))
   \<Longrightarrow> up \<in> set (userPermissions s) \<or> up_permissionId up \<in> fst ` set os"
  by (force simp: replaceUserPermissions_def)

lemma setPermissionOverrides_inv:
  assumes "admin_inv s" and run: "setPermissionOverrides collate s u os org = Inr s'"
   
  shows "admin_inv s'"
proof -
  let ?found = "findPermissionsByKeys s (map fst os)"
  let ?os = "List.map_filter (\<lambda>(k, e). case map_of (rev (map (\<lambda>p. (pm_key p, pm_id p)) ?found)) k of
               None \<Rightarrow> None | Some p \<Rightarrow> if p = [] then None else Some (p, e)) os"
  from run have s': "s' = replaceUserPermissions s u ?os"
    and none: "listPlatformPermissionKeys collate (map fst os) = []"
    by (auto simp: setPermissionOverrides_def Let_def)
  have base: "same_base s s'" by (simp add: s' same_base_def replaceUserPermissions_def)
  have allowed: "\<not> platformPermission s p" if p: "p \<in> fst ` set ?os" for p
  proof -
    from p obtain r where r: "r \<in> set (permissions s)" "pm_id r = p" "pm_key r \<in> fst ` set os"
      by (fastforce simp: set_map_filter findPermissionsByKeys_def split: option.splits if_splits dest!: map_of_SomeD)
    then have "\<not> isPlatformPermissionKey (pm_key r)"
      using none by (auto simp: no_platform_keys)
    moreover have "permissionKey s p = Some (pm_key r)"
      using find_by_distinct [of pm_id "permissions s" r] assms(1) r(1,2)
      by (simp add: permissionKey_def admin_inv_def roles_ok_def)
    ultimately show ?thesis by (simp add: platformPermission_def)
  qed
  have "overrides_ok s'"
    unfolding overrides_ok_def same_base_reads [OF base]
  proof (intro ballI impI)
    fix up
    assume "up \<in> set (userPermissions s')" and "orgOf s (up_userId up) \<noteq> None"
    then consider "up \<in> set (userPermissions s)" | "up_permissionId up \<in> fst ` set ?os"
      unfolding s' using replaceUserPermissions_rows by blast
    then show "\<not> platformPermission s (up_permissionId up)"
      using allowed assms(1) \<open>orgOf s (up_userId up) \<noteq> None\<close> by cases (simp_all only: admin_inv_def overrides_ok_def, blast+)
  qed
  moreover have "roles_ok s'"
    using assms(1) unfolding roles_ok_def admin_inv_def same_base_reads [OF base]
    by (simp add: s' replaceUserPermissions_def)
  moreover have "assignments_ok s'"
    by (rule assignments_ok_frame [OF _ base])
      (use assms(1) in \<open>auto simp: admin_inv_def s' replaceUserPermissions_def templateOf_def\<close>)
  ultimately show ?thesis by (simp add: admin_inv_def)
qed

lemma administer_inv: "admin_inv s \<Longrightarrow> administer (collate, md5, op) s = Inr s' \<Longrightarrow> admin_inv s'"
  by (cases op) (auto simp: createRole_inv updateRole_inv createAccessAssignment_inv
      dest: deleteRole_inv deleteAccessAssignment_inv setPermissionOverrides_inv)

lemma administer_base: "administer (collate, md5, op) s = Inr s' \<Longrightarrow> same_base s s'"
  by (cases op) (auto simp: createRole_def updateRole_def deleteRole_def createAccessAssignment_def
      createUserAccessAssignment_def deleteAccessAssignment_def setPermissionOverrides_def keyConflict_def
      createRoleTemplate_def replaceRoleTemplatePermissions_def deleteRoleTemplate_def replaceUserPermissions_def
      same_base_def Let_def split: sum.splits option.splits error.splits if_splits)

interpretation admin_system: guarded_system administer admin_inv same_base
proof
  fix s s' :: db and op
  assume "admin_inv s" and "administer op s = Inr s'"
  then show "admin_inv s'" and "same_base s s'"
    using administer_inv [of s "fst op" "fst (snd op)" "snd (snd op)" s']
      administer_base [of "fst op" "fst (snd op)" "snd (snd op)" s s'] by simp_all
qed (auto intro: same_base_trans)

definition runAdmin :: "((string \<Rightarrow> nat list) \<times> (string \<Rightarrow> string) \<times> admin_op) list \<Rightarrow> db \<Rightarrow> db" where
  "runAdmin = run_ops administer"

section \<open>Permissions of the platform\<close>

lemma applyOverrides_subset: "applyOverrides os eff \<subseteq> eff \<union> fst ` set os"
proof (induction os arbitrary: eff)
  case (Cons o' os)
  obtain k e where "o' = (k, e)" by (cases o')
  then show ?case using Cons [of "if e = ALLOW then insert k eff else eff - {k}"] by (auto split: if_splits)
qed simp

lemma override_keys_ok:
  assumes "admin_inv s" and "orgOf s u = Some org" and "k \<in> fst ` set (userOverridesOf s u)"
  shows "\<not> isPlatformPermissionKey k"
  using assms by (fastforce simp: userOverridesOf_def set_map_filter admin_inv_def overrides_ok_def platformPermission_def)

lemma role_keys_ok:
  assumes "admin_inv s" and "orgOf s (ua_userId a) = Some org" and "a \<in> set (accessAssignments s)"
    and "k \<in> set (rolePermissionKeysOf s a)"
  shows "\<not> isPlatformPermissionKey k"
proof -
  obtain t where t: "find_by rt_id (ua_roleTemplateId a) (roleTemplates s) = Some t" "rt_orgId t = Some org"
    using assms(1-3) by (auto simp: admin_inv_def assignments_ok_def assignment_ok_def templateOf_def)
  obtain rp where rp: "rp \<in> set (rolePermissions s)" "rp_roleTemplateId rp = ua_roleTemplateId a"
    "permissionKey s (rp_permissionId rp) = Some k"
    using assms(4) by (auto simp: rolePermissionKeysOf_def set_map_filter)
  then have "\<not> platformPermission s (rp_permissionId rp)"
    using assms(1) find_by_SomeD [OF t(1)] t(2) by (auto simp: admin_inv_def roles_ok_def)
  then show ?thesis using rp(3) by (simp add: platformPermission_def)
qed

text \<open>
  C39. Role administration cannot escape the organisation. Any sequence of the operations (roles
  made, edited and deleted, roles given and taken, overrides set, by any callers, with failing
  operations in between) keeps the tables sound: every assignment has the scope of its role, at
  most one exists for a user, role and scope, and roles and buildings given to a user of an
  organisation belong to it. And in every state reached, no user of an organisation has a
  permission of the platform, whatever scope it is asked for.
\<close>

theorem platform_permissions_out_of_reach:
  assumes "admin_inv s"
  shows "admin_inv (runAdmin ops s)
     \<and> (\<forall>u org k. orgOf s u = Some org \<longrightarrow> isPlatformPermissionKey k \<longrightarrow>
          k \<notin> getUserEffectivePermissions (runAdmin ops s) u ctx bldg hidden
          \<and> k \<notin> getUserEffectivePermissionsAcrossAnyScope (runAdmin ops s) u ctx)"
proof -
  let ?s = "runAdmin ops s"
  have inv: "admin_inv ?s" using admin_system.run_inv [OF assms] by (simp add: runAdmin_def)
  have orgs: "orgOf ?s = orgOf s"
    using same_base_reads(1) [OF admin_system.run_allowed [OF assms]] by (simp add: runAdmin_def)
  have "k \<notin> getUserEffectivePermissions ?s u ctx bldg hidden \<and> k \<notin> getUserEffectivePermissionsAcrossAnyScope ?s u ctx"
    if u: "orgOf s u = Some org" and k: "isPlatformPermissionKey k" for u org k
  proof -
    have over: "k \<notin> fst ` set (userOverridesOf ?s u)"
      using override_keys_ok [OF inv] u k by (auto simp: orgs)
    have roles: "k \<notin> set (rolePermissionKeysOf ?s a)" if "a \<in> set (accessAssignments ?s)" "ua_userId a = u" for a
      using role_keys_ok [OF inv _ that(1)] that(2) u k by (auto simp: orgs)
    then show ?thesis
      using over subsetD [OF applyOverrides_subset]
      by (fastforce simp: getUserEffectivePermissions_def getUserEffectivePermissionsAcrossAnyScope_def scoped_access_defs
          assignmentWhere_def split: if_splits)
  qed
  then show ?thesis using inv by blast
qed

lemma fx_admin_inv: "admin_inv fx0"
  by (auto simp: admin_inv_def roles_ok_def overrides_ok_def assignments_ok_def assignment_ok_def orgOf_def templateOf_def
      platformPermission_def permissionKey_def isPlatformPermissionKey_def fx_defs)

theorem platform_permissions_out_of_reach_witness:
  "''platform.orgs.create'' \<notin> getUserEffectivePermissions
     (runAdmin [(\<lambda>_. [], id, SetOverrides ''mgr'' [(''platform.orgs.create'', ALLOW)] ''o1'')] fx0) ''mgr'' (Some ''o1'') None False"
proof -
  have "orgOf fx0 ''mgr'' = Some ''o1''" "isPlatformPermissionKey ''platform.orgs.create''"
    by (simp_all add: orgOf_def fx_defs isPlatformPermissionKey_def)
  then show ?thesis
    by (rule platform_permissions_out_of_reach [OF fx_admin_inv, THEN conjunct2, rule_format, THEN conjunct1])
qed

text \<open>
  An update that is refused because of its permissions has renamed the role already.
\<close>

lemma refused_update_renames:
  assumes "customRole s actor org i (BadRequest ''System role templates cannot be edited'') = Inr t"
    and "resolvePermissionIds collate s keys = Inl e"
  shows "\<exists>s'. updateRole collate s actor org i (Some name) None (Some keys) = (Inl e, s')
     \<and> (\<forall>t \<in> set (roleTemplates s'). rt_id t = i \<longrightarrow> rt_name t = trim name)"
proof -
  let ?s = "s\<lparr> roleTemplates := modify_by rt_id i (\<lambda>r. r\<lparr> rt_name := trim name \<rparr>) (roleTemplates s) \<rparr>"
  have "resolvePermissionIds collate ?s keys = Inl e" using resolve_cong [of ?s s] assms(2) by simp
  then have "updateRole collate s actor org i (Some name) None (Some keys) = (Inl e, ?s)"
    using assms(1) by (simp add: updateRole_def Let_def)
  moreover have "\<forall>t \<in> set (roleTemplates ?s). rt_id t = i \<longrightarrow> rt_name t = trim name"
    by (simp add: modify_by_def ball_Un)
  ultimately show ?thesis by (intro exI conjI)
qed

end
