(* ===== verification/Tenancy.thy ===== *)
theory Tenancy
  imports Notifications UnitImport
begin

text \<open>
  The tables of the tenancy services: leases (the code also calls them contracts), requests to move in and out,
  the things handed out with a lease (access cards, parking stickers), its occupants, documents and
  additional terms, the history and the activities of a lease, parking slots, allocations and vehicles. The tables
  of access control, units and notifications are those of the other theories.

  The columns of a lease are kept in three groups: what the tenancy contract says, the terms of payment, and
  what is filled in when the tenant moves out. The text of an amount is read by decimal.js, the
  parameter \<open>dec\<close> of the operations that take one.

  An occupancy shows its lease: \<open>setLeases\<close> keeps that reference in step with the lease table, so that the
  maintenance services see the same leases.
\<close>

section \<open>Enumerations\<close>

datatype lease_status = LE_DRAFT | LE_ACTIVE | LE_ENDED | LE_CANCELLED
datatype move_status = MV_PENDING | MV_APPROVED | MV_REJECTED | MV_CANCELLED | MV_COMPLETED
datatype property_usage = INDUSTRIAL | COMMERCIAL | RESIDENTIAL
datatype charges_payer = CHARGES_OWNER | CHARGES_TENANT
datatype yes_no = YES | NO
datatype condition_status = COND_OK | REPAIR_NEEDED
datatype manager_approval = MA_APPROVED | MA_PENDING | MA_REJECTED
datatype refund_method = BANK_TRANSFER | CHEQUE | CASH
datatype document_type =
  EMIRATES_ID_COPY | PASSPORT_COPY | SIGNED_TENANCY_CONTRACT | CHEQUE_COPY | DOCUMENT_OTHER
datatype item_status = ISSUED | RETURNED | DEACTIVATED
datatype slot_type = SLOT_CAR | SLOT_BIKE | SLOT_EV
datatype history_action = LH_CREATED | LH_UPDATED | LH_MOVED_OUT
datatype activity_source = SOURCE_USER | SOURCE_SYSTEM
datatype activity_action =
    LA_MOVE_IN | LA_MOVE_OUT
  | LA_MOVE_IN_REQUEST_CREATED | LA_MOVE_IN_REQUEST_APPROVED | LA_MOVE_IN_REQUEST_REJECTED
  | LA_MOVE_OUT_REQUEST_CREATED | LA_MOVE_OUT_REQUEST_APPROVED | LA_MOVE_OUT_REQUEST_REJECTED
  | LA_CONTRACT_ACTIVATED | LA_CONTRACT_CANCELLED | LA_DOCUMENT_ADDED | LA_DOCUMENT_DELETED
  | LA_ACCESS_CARD_ISSUED | LA_ACCESS_CARD_STATUS_CHANGED | LA_ACCESS_CARD_DELETED
  | LA_PARKING_STICKER_ISSUED | LA_PARKING_STICKER_STATUS_CHANGED | LA_PARKING_STICKER_DELETED
  | LA_OCCUPANTS_REPLACED | LA_PARKING_ALLOCATED | LA_PARKING_ALLOCATION_ENDED
  | LA_VEHICLE_ADDED | LA_VEHICLE_UPDATED | LA_VEHICLE_DELETED

section \<open>Rows\<close>

record lease_contract =
  lc_ijariId :: "string option"
  lc_contractDate :: "int option"
  lc_propertyUsage :: "property_usage option"
  lc_ownerNameSnapshot :: "string option"
  lc_landlordNameSnapshot :: "string option"
  lc_tenantNameSnapshot :: "string option"
  lc_tenantEmailSnapshot :: "string option"
  lc_landlordEmailSnapshot :: "string option"
  lc_tenantPhoneSnapshot :: "string option"
  lc_landlordPhoneSnapshot :: "string option"
  lc_buildingNameSnapshot :: "string option"
  lc_locationCommunity :: "string option"
  lc_propertySizeSqm :: "rat option"
  lc_propertyTypeLabel :: "string option"
  lc_propertyNumber :: "string option"
  lc_premisesNoDewa :: "string option"
  lc_plotNo :: "string option"
  lc_contractValue :: "rat option"
  lc_paymentModeText :: "string option"

record lease_terms =
  lt_leaseStartDate :: int
  lt_leaseEndDate :: int
  lt_tenancyRegistrationExpiry :: "int option"
  lt_noticeGivenDate :: "int option"
  lt_annualRent :: rat
  lt_paymentFrequency :: payment_frequency
  lt_numberOfCheques :: "int option"
  lt_securityDepositAmount :: rat
  lt_internetTvProvider :: "string option"
  lt_serviceChargesPaidBy :: "charges_payer option"
  lt_vatApplicable :: "bool option"
  lt_notes :: "string option"
  lt_firstPaymentReceived :: "yes_no option"
  lt_firstPaymentAmount :: "rat option"
  lt_depositReceived :: "yes_no option"
  lt_depositReceivedAmount :: "rat option"

record lease_moveout =
  lx_actualMoveOutDate :: "int option"
  lx_forwardingPhone :: "string option"
  lx_forwardingEmail :: "string option"
  lx_forwardingAddress :: "string option"
  lx_finalElectricityReading :: "string option"
  lx_finalWaterReading :: "string option"
  lx_finalGasReading :: "string option"
  lx_wallsCondition :: "condition_status option"
  lx_floorCondition :: "condition_status option"
  lx_kitchenCondition :: "condition_status option"
  lx_bathroomCondition :: "condition_status option"
  lx_doorsLocksCondition :: "condition_status option"
  lx_keysReturned :: "yes_no option"
  lx_accessCardsReturnedCount :: "int option"
  lx_parkingStickersReturned :: "yes_no option"
  lx_damageDescription :: "string option"
  lx_damageCharges :: "rat option"
  lx_pendingRent :: "rat option"
  lx_pendingUtilities :: "rat option"
  lx_pendingServiceFines :: "rat option"
  lx_totalDeductions :: "rat option"
  lx_netRefund :: "rat option"
  lx_inspectionDoneBy :: "string option"
  lx_inspectionDate :: "int option"
  lx_managerApproval :: "manager_approval option"
  lx_refundMethod :: "refund_method option"
  lx_refundDate :: "int option"
  lx_adminNotes :: "string option"

record lease_row =
  le_id :: string
  le_orgId :: string
  le_buildingId :: string
  le_unitId :: string
  le_occupancyId :: "string option"
  le_residentUserId :: "string option"
  le_status :: lease_status
  le_contract :: lease_contract
  le_terms :: lease_terms
  le_out :: lease_moveout
  le_createdAt :: int

definition no_contract :: lease_contract where
  "no_contract =
     \<lparr> lc_ijariId = None, lc_contractDate = None, lc_propertyUsage = None, lc_ownerNameSnapshot = None,
       lc_landlordNameSnapshot = None, lc_tenantNameSnapshot = None, lc_tenantEmailSnapshot = None,
       lc_landlordEmailSnapshot = None, lc_tenantPhoneSnapshot = None, lc_landlordPhoneSnapshot = None,
       lc_buildingNameSnapshot = None, lc_locationCommunity = None, lc_propertySizeSqm = None,
       lc_propertyTypeLabel = None, lc_propertyNumber = None, lc_premisesNoDewa = None, lc_plotNo = None,
       lc_contractValue = None, lc_paymentModeText = None \<rparr>"

definition no_moveout :: lease_moveout where
  "no_moveout =
     \<lparr> lx_actualMoveOutDate = None, lx_forwardingPhone = None, lx_forwardingEmail = None,
       lx_forwardingAddress = None, lx_finalElectricityReading = None, lx_finalWaterReading = None,
       lx_finalGasReading = None, lx_wallsCondition = None, lx_floorCondition = None, lx_kitchenCondition = None,
       lx_bathroomCondition = None, lx_doorsLocksCondition = None, lx_keysReturned = None,
       lx_accessCardsReturnedCount = None, lx_parkingStickersReturned = None, lx_damageDescription = None,
       lx_damageCharges = None, lx_pendingRent = None, lx_pendingUtilities = None, lx_pendingServiceFines = None,
       lx_totalDeductions = None, lx_netRefund = None, lx_inspectionDoneBy = None, lx_inspectionDate = None,
       lx_managerApproval = None, lx_refundMethod = None, lx_refundDate = None, lx_adminNotes = None \<rparr>"

record move_request =
  mv_id :: string
  mv_orgId :: string
  mv_buildingId :: string
  mv_unitId :: string
  mv_leaseId :: string
  mv_residentUserId :: string
  mv_status :: move_status
  mv_requestedMoveAt :: int
  mv_notes :: "string option"
  mv_reviewedByUserId :: "string option"
  mv_reviewedAt :: "int option"
  mv_rejectionReason :: "string option"
  mv_createdAt :: int

record lease_history =
  lh_id :: string
  lh_orgId :: string
  lh_leaseId :: string
  lh_action :: history_action
  lh_changedByUserId :: "string option"
  lh_changes :: "(string \<times> json \<times> json) list"
  lh_createdAt :: int

record lease_activity =
  la_id :: string
  la_orgId :: string
  la_leaseId :: string
  la_action :: activity_action
  la_source :: activity_source
  la_changedByUserId :: "string option"
  la_payload :: "(string \<times> json) list"
  la_createdAt :: int

record lease_document =
  ld_id :: string
  ld_leaseId :: string
  ld_orgId :: string
  ld_type :: document_type
  ld_fileName :: string
  ld_mimeType :: string
  ld_sizeBytes :: int
  ld_url :: string
  ld_createdAt :: int

text \<open>A row of \<^verbatim>\<open>LeaseAccessCard\<close> or of \<^verbatim>\<open>LeaseParkingSticker\<close>: the number is the card's or the sticker's.\<close>

record access_item =
  ai_id :: string
  ai_leaseId :: string
  ai_number :: string
  ai_status :: item_status
  ai_issuedAt :: int
  ai_returnedAt :: "int option"
  ai_createdAt :: int

record lease_occupant =
  ln_id :: string
  ln_leaseId :: string
  ln_name :: string
  ln_createdAt :: int

record lease_term =
  lm_id :: string
  lm_leaseId :: string
  lm_orgId :: string
  lm_termText :: string
  lm_createdAt :: int

record parking_slot =
  ps_id :: string
  ps_orgId :: string
  ps_buildingId :: string
  ps_code :: string
  ps_level :: "string option"
  ps_type :: slot_type
  ps_isCovered :: bool
  ps_isActive :: bool
  ps_createdAt :: int

record parking_allocation =
  pa_id :: string
  pa_orgId :: string
  pa_buildingId :: string
  pa_parkingSlotId :: string
  pa_occupancyId :: "string option"
  pa_unitId :: "string option"
  pa_startDate :: int
  pa_endDate :: "int option"
  pa_createdAt :: int

record vehicle_row =
  vh_id :: string
  vh_orgId :: string
  vh_occupancyId :: string
  vh_plateNumber :: string
  vh_label :: "string option"
  vh_createdAt :: int

record profile_data =
  pf_emiratesIdNumber :: "string option"
  pf_passportNumber :: "string option"
  pf_nationality :: "string option"
  pf_dateOfBirth :: "int option"
  pf_currentAddress :: "string option"
  pf_emergencyContactName :: "string option"
  pf_emergencyContactPhone :: "string option"

record resident_profile =
  rf_id :: string
  rf_orgId :: string
  rf_userId :: string
  rf_preferredBuildingId :: "string option"
  rf_data :: profile_data

section \<open>The state\<close>

record tenancy =
  tn_delivery :: delivery_db
  tn_unitTypes :: "unit_type_row list"
  tn_leases :: "lease_row list"
  tn_moveIns :: "move_request list"
  tn_moveOuts :: "move_request list"
  tn_history :: "lease_history list"
  tn_activities :: "lease_activity list"
  tn_documents :: "lease_document list"
  tn_cards :: "access_item list"
  tn_stickers :: "access_item list"
  tn_occupants :: "lease_occupant list"
  tn_additionalTerms :: "lease_term list"
  tn_slots :: "parking_slot list"
  tn_allocations :: "parking_allocation list"
  tn_vehicles :: "vehicle_row list"
  tn_profiles :: "resident_profile list"

definition core :: "tenancy \<Rightarrow> db" where
  "core s = dl_core (tn_delivery s)"

definition setCore :: "db \<Rightarrow> tenancy \<Rightarrow> tenancy" where
  "setCore c s = s\<lparr> tn_delivery := (tn_delivery s)\<lparr> dl_core := c \<rparr> \<rparr>"

definition setOccupancies :: "occupancy_row list \<Rightarrow> tenancy \<Rightarrow> tenancy" where
  "setOccupancies ocs s = setCore ((core s)\<lparr> occupancies := ocs \<rparr>) s"

definition leaseRef :: "lease_row list \<Rightarrow> string \<Rightarrow> lease_ref option" where
  "leaseRef ls i =
     map_option (\<lambda>l. \<lparr> lr_id = le_id l, lr_active = (le_status l = LE_ACTIVE) \<rparr>)
       (List.find (\<lambda>l. le_occupancyId l = Some i) ls)"

definition setLeases :: "lease_row list \<Rightarrow> tenancy \<Rightarrow> tenancy" where
  "setLeases ls s =
     setOccupancies (map (\<lambda>oc. oc\<lparr> oc_lease := leaseRef ls (oc_id oc) \<rparr>) (occupancies (core s)))
       (s\<lparr> tn_leases := ls \<rparr>)"

end
