(* ===== verification/Leases.thy ===== *)
theory Leases
  imports Tenancy
begin

text \<open>
  Leases as rows: the columns' bounds, creation and update (\<^verbatim>\<open>leases.repo.ts\<close>), the record of what changed
  (\<^verbatim>\<open>lease-history.util.ts\<close>, \<^verbatim>\<open>lease-history.repo.ts\<close>, \<^verbatim>\<open>lease-activity.repo.ts\<close>) and the service that lists and
  edits them (\<^verbatim>\<open>leases.service.ts\<close>).

  Parameters: \<open>dec\<close> reads a text as decimal.js does, \<open>ilike\<close> is the database's case-insensitive
  \<^verbatim>\<open>contains\<close>, \<open>collate\<close> gives the sort keys of \<^verbatim>\<open>localeCompare\<close>. The ids of the rows of the history and of the
  activities are the ones the database generates; nothing reads such a row by its id.
\<close>

section \<open>Columns\<close>

definition sizeColumn :: "rat \<Rightarrow> rat res" where
  "sizeColumn x = andThen (decimalColumn x) (\<lambda>y. if \<bar>y\<bar> < 10 ^ 8 then Inr y else Inl OutOfRange)"

definition contractColumns :: "lease_contract \<Rightarrow> lease_contract res" where
  "contractColumns c =
     andThen (inColumn sizeColumn (lc_propertySizeSqm c)) (\<lambda>size.
     andThen (inColumn decimalColumn (lc_contractValue c)) (\<lambda>value.
     Inr (c\<lparr> lc_propertySizeSqm := size, lc_contractValue := value \<rparr>)))"

definition termsColumns :: "lease_terms \<Rightarrow> lease_terms res" where
  "termsColumns t =
     andThen (decimalColumn (lt_annualRent t)) (\<lambda>rent.
     andThen (inColumn intColumn (lt_numberOfCheques t)) (\<lambda>cheques.
     andThen (decimalColumn (lt_securityDepositAmount t)) (\<lambda>deposit.
     andThen (inColumn decimalColumn (lt_firstPaymentAmount t)) (\<lambda>payment.
     andThen (inColumn decimalColumn (lt_depositReceivedAmount t)) (\<lambda>received.
     Inr (t\<lparr> lt_annualRent := rent, lt_numberOfCheques := cheques, lt_securityDepositAmount := deposit,
             lt_firstPaymentAmount := payment, lt_depositReceivedAmount := received \<rparr>))))))"

definition moveoutColumns :: "lease_moveout \<Rightarrow> lease_moveout res" where
  "moveoutColumns x =
     andThen (inColumn intColumn (lx_accessCardsReturnedCount x)) (\<lambda>cards.
     andThen (inColumn decimalColumn (lx_damageCharges x)) (\<lambda>damage.
     andThen (inColumn decimalColumn (lx_pendingRent x)) (\<lambda>rent.
     andThen (inColumn decimalColumn (lx_pendingUtilities x)) (\<lambda>utilities.
     andThen (inColumn decimalColumn (lx_pendingServiceFines x)) (\<lambda>fines.
     andThen (inColumn decimalColumn (lx_totalDeductions x)) (\<lambda>deductions.
     andThen (inColumn decimalColumn (lx_netRefund x)) (\<lambda>refund.
     Inr (x\<lparr> lx_accessCardsReturnedCount := cards, lx_damageCharges := damage, lx_pendingRent := rent,
             lx_pendingUtilities := utilities, lx_pendingServiceFines := fines, lx_totalDeductions := deductions,
             lx_netRefund := refund \<rparr>))))))))"

definition leaseColumns :: "lease_row \<Rightarrow> lease_row res" where
  "leaseColumns l =
     andThen (contractColumns (le_contract l)) (\<lambda>c.
     andThen (termsColumns (le_terms l)) (\<lambda>t.
     andThen (moveoutColumns (le_out l)) (\<lambda>x.
     Inr (l\<lparr> le_contract := c, le_terms := t, le_out := x \<rparr>))))"

section \<open>Writes\<close>

definition sameIjari :: "lease_row \<Rightarrow> lease_row \<Rightarrow> bool" where
  "sameIjari l m \<longleftrightarrow> le_orgId m = le_orgId l \<and> lc_ijariId (le_contract m) = lc_ijariId (le_contract l)
     \<and> lc_ijariId (le_contract l) \<noteq> None"

definition createLease :: "tenancy \<Rightarrow> lease_row \<Rightarrow> (lease_row \<times> tenancy) res" where
  "createLease s l0 =
     andThen (leaseColumns l0) (\<lambda>l.
     if list_ex (\<lambda>m. le_id m = le_id l \<or> sameIjari l m) (tn_leases s) then Inl UniqueViolation
     else if le_occupancyId l \<noteq> None \<and> list_ex (\<lambda>m. le_occupancyId m = le_occupancyId l) (tn_leases s)
     then Inl (ConstraintViolation ''occupancyId'')
     else Inr (l, setLeases (tn_leases s @ [l]) s))"

definition updateLeaseRow :: "tenancy \<Rightarrow> string \<Rightarrow> (lease_row \<Rightarrow> lease_row) \<Rightarrow> (lease_row \<times> tenancy) res" where
  "updateLeaseRow s i f =
     andThen (orThrow (find_by le_id i (tn_leases s)) RecordNotFound) (\<lambda>l0.
     andThen (leaseColumns (f l0)) (\<lambda>l.
     if list_ex (\<lambda>m. le_id m \<noteq> i \<and> sameIjari l m) (tn_leases s) then Inl UniqueViolation
     else if le_occupancyId l \<noteq> None \<and> list_ex (\<lambda>m. le_id m \<noteq> i \<and> le_occupancyId m = le_occupancyId l) (tn_leases s)
     then Inl (ConstraintViolation ''occupancyId'')
     else Inr (l, setLeases (modify_by le_id i (\<lambda>_. l) (tn_leases s)) s)))"

section \<open>What changed\<close>

fun lease_status_str :: "lease_status \<Rightarrow> string" where
  "lease_status_str LE_DRAFT = ''DRAFT''"
| "lease_status_str LE_ACTIVE = ''ACTIVE''"
| "lease_status_str LE_ENDED = ''ENDED''"
| "lease_status_str LE_CANCELLED = ''CANCELLED''"

fun property_usage_str :: "property_usage \<Rightarrow> string" where
  "property_usage_str INDUSTRIAL = ''INDUSTRIAL''"
| "property_usage_str COMMERCIAL = ''COMMERCIAL''"
| "property_usage_str RESIDENTIAL = ''RESIDENTIAL''"

fun payment_frequency_str :: "payment_frequency \<Rightarrow> string" where
  "payment_frequency_str MONTHLY = ''MONTHLY''"
| "payment_frequency_str QUARTERLY = ''QUARTERLY''"
| "payment_frequency_str SEMI_ANNUAL = ''SEMI_ANNUAL''"
| "payment_frequency_str ANNUAL = ''ANNUAL''"

fun charges_payer_str :: "charges_payer \<Rightarrow> string" where
  "charges_payer_str CHARGES_OWNER = ''OWNER''"
| "charges_payer_str CHARGES_TENANT = ''TENANT''"

fun yes_no_str :: "yes_no \<Rightarrow> string" where
  "yes_no_str YES = ''YES''"
| "yes_no_str NO = ''NO''"

fun condition_str :: "condition_status \<Rightarrow> string" where
  "condition_str COND_OK = ''OK''"
| "condition_str REPAIR_NEEDED = ''REPAIR_NEEDED''"

fun manager_approval_str :: "manager_approval \<Rightarrow> string" where
  "manager_approval_str MA_APPROVED = ''APPROVED''"
| "manager_approval_str MA_PENDING = ''PENDING''"
| "manager_approval_str MA_REJECTED = ''REJECTED''"

fun refund_method_str :: "refund_method \<Rightarrow> string" where
  "refund_method_str BANK_TRANSFER = ''BANK_TRANSFER''"
| "refund_method_str CHEQUE = ''CHEQUE''"
| "refund_method_str CASH = ''CASH''"

definition leaseTrackedFields :: "string list" where
  "leaseTrackedFields =
     [''status'', ''ijariId'', ''contractDate'', ''propertyUsage'', ''ownerNameSnapshot'', ''landlordNameSnapshot'',
      ''tenantNameSnapshot'', ''tenantEmailSnapshot'', ''landlordEmailSnapshot'', ''tenantPhoneSnapshot'',
      ''landlordPhoneSnapshot'', ''buildingNameSnapshot'', ''locationCommunity'', ''propertySizeSqm'',
      ''propertyTypeLabel'', ''propertyNumber'', ''premisesNoDewa'', ''plotNo'', ''contractValue'',
      ''paymentModeText'', ''leaseStartDate'', ''leaseEndDate'', ''tenancyRegistrationExpiry'', ''noticeGivenDate'',
      ''annualRent'', ''paymentFrequency'', ''numberOfCheques'', ''securityDepositAmount'', ''internetTvProvider'',
      ''serviceChargesPaidBy'', ''vatApplicable'', ''notes'', ''firstPaymentReceived'', ''firstPaymentAmount'',
      ''depositReceived'', ''depositReceivedAmount'', ''actualMoveOutDate'', ''forwardingPhone'', ''forwardingEmail'',
      ''forwardingAddress'', ''finalElectricityReading'', ''finalWaterReading'', ''finalGasReading'',
      ''wallsCondition'', ''floorCondition'', ''kitchenCondition'', ''bathroomCondition'', ''doorsLocksCondition'',
      ''keysReturned'', ''accessCardsReturnedCount'', ''parkingStickersReturned'', ''damageDescription'',
      ''damageCharges'', ''pendingRent'', ''pendingUtilities'', ''pendingServiceFines'', ''totalDeductions'',
      ''netRefund'', ''inspectionDoneBy'', ''inspectionDate'', ''managerApproval'', ''refundMethod'', ''refundDate'',
      ''adminNotes'']"

text \<open>The tracked columns of a lease as \<^verbatim>\<open>normalizeLeaseValue\<close> reads them, in the same order.\<close>

definition contractValues :: "lease_contract \<Rightarrow> json list" where
  "contractValues c =
     [jsonOf JText (lc_ijariId c), jsonOf JDate (lc_contractDate c),
      jsonOf (JText \<circ> property_usage_str) (lc_propertyUsage c), jsonOf JText (lc_ownerNameSnapshot c),
      jsonOf JText (lc_landlordNameSnapshot c), jsonOf JText (lc_tenantNameSnapshot c),
      jsonOf JText (lc_tenantEmailSnapshot c), jsonOf JText (lc_landlordEmailSnapshot c),
      jsonOf JText (lc_tenantPhoneSnapshot c), jsonOf JText (lc_landlordPhoneSnapshot c),
      jsonOf JText (lc_buildingNameSnapshot c), jsonOf JText (lc_locationCommunity c),
      jsonOf JDecimal (lc_propertySizeSqm c), jsonOf JText (lc_propertyTypeLabel c),
      jsonOf JText (lc_propertyNumber c), jsonOf JText (lc_premisesNoDewa c), jsonOf JText (lc_plotNo c),
      jsonOf JDecimal (lc_contractValue c), jsonOf JText (lc_paymentModeText c)]"

definition termsValues :: "lease_terms \<Rightarrow> json list" where
  "termsValues t =
     [JDate (lt_leaseStartDate t), JDate (lt_leaseEndDate t), jsonOf JDate (lt_tenancyRegistrationExpiry t),
      jsonOf JDate (lt_noticeGivenDate t), JDecimal (lt_annualRent t),
      JText (payment_frequency_str (lt_paymentFrequency t)), jsonOf JNumber (lt_numberOfCheques t),
      JDecimal (lt_securityDepositAmount t), jsonOf JText (lt_internetTvProvider t),
      jsonOf (JText \<circ> charges_payer_str) (lt_serviceChargesPaidBy t), jsonOf JBool (lt_vatApplicable t),
      jsonOf JText (lt_notes t), jsonOf (JText \<circ> yes_no_str) (lt_firstPaymentReceived t),
      jsonOf JDecimal (lt_firstPaymentAmount t), jsonOf (JText \<circ> yes_no_str) (lt_depositReceived t),
      jsonOf JDecimal (lt_depositReceivedAmount t)]"

definition moveoutValues :: "lease_moveout \<Rightarrow> json list" where
  "moveoutValues x =
     [jsonOf JDate (lx_actualMoveOutDate x), jsonOf JText (lx_forwardingPhone x), jsonOf JText (lx_forwardingEmail x),
      jsonOf JText (lx_forwardingAddress x), jsonOf JText (lx_finalElectricityReading x),
      jsonOf JText (lx_finalWaterReading x), jsonOf JText (lx_finalGasReading x),
      jsonOf (JText \<circ> condition_str) (lx_wallsCondition x), jsonOf (JText \<circ> condition_str) (lx_floorCondition x),
      jsonOf (JText \<circ> condition_str) (lx_kitchenCondition x), jsonOf (JText \<circ> condition_str) (lx_bathroomCondition x),
      jsonOf (JText \<circ> condition_str) (lx_doorsLocksCondition x), jsonOf (JText \<circ> yes_no_str) (lx_keysReturned x),
      jsonOf JNumber (lx_accessCardsReturnedCount x), jsonOf (JText \<circ> yes_no_str) (lx_parkingStickersReturned x),
      jsonOf JText (lx_damageDescription x), jsonOf JDecimal (lx_damageCharges x), jsonOf JDecimal (lx_pendingRent x),
      jsonOf JDecimal (lx_pendingUtilities x), jsonOf JDecimal (lx_pendingServiceFines x),
      jsonOf JDecimal (lx_totalDeductions x), jsonOf JDecimal (lx_netRefund x), jsonOf JText (lx_inspectionDoneBy x),
      jsonOf JDate (lx_inspectionDate x), jsonOf (JText \<circ> manager_approval_str) (lx_managerApproval x),
      jsonOf (JText \<circ> refund_method_str) (lx_refundMethod x), jsonOf JDate (lx_refundDate x),
      jsonOf JText (lx_adminNotes x)]"

definition trackedColumns :: "lease_row \<Rightarrow> (string \<times> json) list" where
  "trackedColumns l =
     zip leaseTrackedFields
       (JText (lease_status_str (le_status l)) # contractValues (le_contract l) @ termsValues (le_terms l)
        @ moveoutValues (le_out l))"

type_synonym change = "string \<times> json \<times> json"

definition buildLeaseChangeSet :: "(string \<times> json) list \<Rightarrow> (string \<times> json) list \<Rightarrow> change list" where
  "buildLeaseChangeSet previous current =
     List.map_filter (\<lambda>field.
       let from = nullish (map_of previous field) JNull; to = nullish (map_of current field) JNull
       in if from \<noteq> to then Some (field, from, to) else None) leaseTrackedFields"

definition buildLeaseCreationChangeSet :: "lease_row \<Rightarrow> change list" where
  "buildLeaseCreationChangeSet l = buildLeaseChangeSet [] (trackedColumns l)"

definition createHistory ::
  "tenancy \<Rightarrow> int \<Rightarrow> string \<Rightarrow> string \<Rightarrow> string \<Rightarrow> history_action \<Rightarrow> string option \<Rightarrow> change list \<Rightarrow> tenancy" where
  "createHistory s now i org leaseId action changedBy changes =
     s\<lparr> tn_history := tn_history s @
          [\<lparr> lh_id = i, lh_orgId = org, lh_leaseId = leaseId, lh_action = action, lh_changedByUserId = changedBy,
             lh_changes = changes, lh_createdAt = now \<rparr>] \<rparr>"

text \<open>An update writes a row of history only when a tracked column changed.\<close>

definition recordChanges ::
  "tenancy \<Rightarrow> int \<Rightarrow> string \<Rightarrow> string \<Rightarrow> history_action \<Rightarrow> string option \<Rightarrow> lease_row \<Rightarrow> lease_row \<Rightarrow> tenancy" where
  "recordChanges s now i org action changedBy before after =
     (let changes = buildLeaseChangeSet (trackedColumns before) (trackedColumns after)
      in if changes \<noteq> [] then createHistory s now i org (le_id after) action changedBy changes else s)"

definition createActivity ::
  "tenancy \<Rightarrow> int \<Rightarrow> string \<Rightarrow> string \<Rightarrow> string \<Rightarrow> activity_action \<Rightarrow> string option \<Rightarrow> (string \<times> json) list \<Rightarrow> tenancy" where
  "createActivity s now i org leaseId action changedBy payload =
     s\<lparr> tn_activities := tn_activities s @
          [\<lparr> la_id = i, la_orgId = org, la_leaseId = leaseId, la_action = action, la_source = SOURCE_USER,
             la_changedByUserId = changedBy, la_payload = payload, la_createdAt = now \<rparr>] \<rparr>"

section \<open>Reads\<close>

definition occupancyOf :: "tenancy \<Rightarrow> lease_row \<Rightarrow> occupancy_row option" where
  "occupancyOf s l =
     (case le_occupancyId l of None \<Rightarrow> None | Some i \<Rightarrow> find_by oc_id i (occupancies (core s)))"

definition occupancySat :: "tenancy \<Rightarrow> lease_row \<Rightarrow> (occupancy_row \<Rightarrow> bool) \<Rightarrow> bool" where
  "occupancySat s l P = (case occupancyOf s l of None \<Rightarrow> False | Some oc \<Rightarrow> P oc)"

definition findLeaseById :: "tenancy \<Rightarrow> string \<Rightarrow> string \<Rightarrow> lease_row option" where
  "findLeaseById s org i = List.find (\<lambda>l. le_id l = i \<and> le_orgId l = org) (tn_leases s)"

definition lease_key :: "lease_row \<Rightarrow> cursor" where
  "lease_key l = (lt_leaseStartDate (le_terms l), le_id l)"

definition leaseOfResident :: "tenancy \<Rightarrow> string \<Rightarrow> lease_row \<Rightarrow> bool" where
  "leaseOfResident s userId l \<longleftrightarrow>
     le_residentUserId l = Some userId \<or> occupancySat s l (\<lambda>oc. oc_residentUserId oc = userId)"

definition findActiveLeaseByUnit :: "tenancy \<Rightarrow> string \<Rightarrow> string \<Rightarrow> lease_row option" where
  "findActiveLeaseByUnit s org unitId =
     List.find (\<lambda>l. le_orgId l = org \<and> le_unitId l = unitId \<and> le_status l = LE_ACTIVE
       \<and> occupancySat s l (\<lambda>oc. oc_status oc = OC_ACTIVE)) (tn_leases s)"

definition findActiveLeaseByResident :: "tenancy \<Rightarrow> string \<Rightarrow> string \<Rightarrow> lease_row option" where
  "findActiveLeaseByResident s org userId =
     (case newestRows lease_key (filter (\<lambda>l. le_orgId l = org \<and> le_status l = LE_ACTIVE
             \<and> occupancySat s l (\<lambda>oc. oc_residentUserId oc = userId \<and> oc_status oc = OC_ACTIVE)) (tn_leases s)) of
        [] \<Rightarrow> None
      | l # _ \<Rightarrow> Some l)"

datatype sort_order = ASC | DESC

definition orderRows :: "sort_order \<Rightarrow> ('r \<Rightarrow> cursor) \<Rightarrow> 'r list \<Rightarrow> 'r list" where
  "orderRows ord key rows = (case ord of DESC \<Rightarrow> newestRows key rows | ASC \<Rightarrow> sort_key key rows)"

definition beyondCursor :: "sort_order \<Rightarrow> cursor option \<Rightarrow> cursor \<Rightarrow> bool" where
  "beyondCursor ord c k =
     (case c of
        None \<Rightarrow> True
      | Some (v, i) \<Rightarrow>
          (case ord of
             DESC \<Rightarrow> fst k < v \<or> fst k = v \<and> snd k < i
           | ASC \<Rightarrow> fst k > v \<or> fst k = v \<and> snd k > i))"

definition statusFilter :: "'a option option \<Rightarrow> 'a \<Rightarrow> bool" where
  "statusFilter f x = (case f of Some (Some y) \<Rightarrow> x = y | _ \<Rightarrow> True)"

text \<open>
  The options of \<^verbatim>\<open>listByOrg\<close>. A status is missing, \<^verbatim>\<open>'ALL'\<close> (the inner \<open>None\<close>) or a status; the texts
  are options that a falsy value does not set.
\<close>

record lease_query =
  lq_status :: "lease_status option option"
  lq_order :: "sort_order option"
  lq_buildingId :: "string option"
  lq_unitId :: "string option"
  lq_residentUserId :: "string option"
  lq_q :: "string option"
  lq_dateFrom :: "int option"
  lq_dateTo :: "int option"
  lq_cursor :: "cursor option"
  lq_limit :: "int option"

definition whenSet :: "string option \<Rightarrow> (string \<Rightarrow> bool) \<Rightarrow> bool" where
  "whenSet x P = (case x of Some v \<Rightarrow> if v = [] then True else P v | None \<Rightarrow> True)"

definition userText :: "tenancy \<Rightarrow> string \<Rightarrow> (user_row \<Rightarrow> bool) \<Rightarrow> bool" where
  "userText s i P = (case find_by us_id i (users (core s)) of None \<Rightarrow> False | Some u \<Rightarrow> P u)"

definition optText :: "(string \<Rightarrow> bool) \<Rightarrow> string option \<Rightarrow> bool" where
  "optText P x = (case x of None \<Rightarrow> False | Some v \<Rightarrow> P v)"

definition leaseMatches :: "(string \<Rightarrow> string \<Rightarrow> bool) \<Rightarrow> tenancy \<Rightarrow> string \<Rightarrow> lease_row \<Rightarrow> bool" where
  "leaseMatches ilike s q l \<longleftrightarrow>
     le_id l = q
     \<or> (case find_by un_id (le_unitId l) (units (core s)) of None \<Rightarrow> False | Some n \<Rightarrow> ilike (un_label n) q)
     \<or> (case find_by bd_id (le_buildingId l) (buildings (core s)) of None \<Rightarrow> False | Some b \<Rightarrow> ilike (bd_name b) q)
     \<or> occupancySat s l (\<lambda>oc. userText s (oc_residentUserId oc) (\<lambda>u. optText (\<lambda>n. ilike n q) (us_name u)))
     \<or> occupancySat s l (\<lambda>oc. userText s (oc_residentUserId oc) (\<lambda>u. ilike (us_email u) q))"

definition dateWithin :: "int option \<Rightarrow> int option \<Rightarrow> int \<Rightarrow> bool" where
  "dateWithin lo hi d \<longleftrightarrow> (case lo of None \<Rightarrow> True | Some a \<Rightarrow> a \<le> d) \<and> (case hi of None \<Rightarrow> True | Some b \<Rightarrow> d \<le> b)"

definition leaseWhere ::
  "(string \<Rightarrow> lease_row \<Rightarrow> bool) \<Rightarrow> tenancy \<Rightarrow> string \<Rightarrow> lease_query \<Rightarrow> lease_row \<Rightarrow> bool" where
  "leaseWhere matches s org q l \<longleftrightarrow>
     le_orgId l = org
     \<and> whenSet (lq_buildingId q) (\<lambda>b. le_buildingId l = b)
     \<and> whenSet (lq_unitId q) (\<lambda>n. le_unitId l = n)
     \<and> whenSet (lq_residentUserId q) (\<lambda>r. leaseOfResident s r l)
     \<and> statusFilter (lq_status q) (le_status l)
     \<and> dateWithin (lq_dateFrom q) (lq_dateTo q) (lt_leaseStartDate (le_terms l))
     \<and> whenSet (lq_q q) (\<lambda>t. matches t l)
     \<and> beyondCursor (nullish (lq_order q) DESC) (lq_cursor q) (lease_key l)"

definition listByOrg ::
  "(string \<Rightarrow> string \<Rightarrow> bool) \<Rightarrow> tenancy \<Rightarrow> string \<Rightarrow> lease_query \<Rightarrow> nat \<Rightarrow> lease_row list" where
  "listByOrg ilike s org q limit =
     take limit (orderRows (nullish (lq_order q) DESC) lease_key
       (filter (leaseWhere (leaseMatches ilike s) s org q) (tn_leases s)))"

definition listByResident ::
  "tenancy \<Rightarrow> string \<Rightarrow> string \<Rightarrow> lease_query \<Rightarrow> nat \<Rightarrow> lease_row list" where
  "listByResident s org userId q limit =
     take limit (orderRows (nullish (lq_order q) DESC) lease_key
       (filter (\<lambda>l. le_orgId l = org \<and> leaseOfResident s userId l \<and> statusFilter (lq_status q) (le_status l)
          \<and> beyondCursor (nullish (lq_order q) DESC) (lq_cursor q) (lease_key l)) (tn_leases s)))"

definition history_key :: "lease_history \<Rightarrow> cursor" where
  "history_key h = (lh_createdAt h, lh_id h)"

definition activity_key :: "lease_activity \<Rightarrow> cursor" where
  "activity_key a = (la_createdAt a, la_id a)"

definition historyByLeaseId ::
  "tenancy \<Rightarrow> string \<Rightarrow> string \<Rightarrow> history_action option \<Rightarrow> sort_order \<Rightarrow> lease_history list" where
  "historyByLeaseId s org leaseId action ord =
     orderRows ord history_key (filter (\<lambda>h. lh_orgId h = org \<and> lh_leaseId h = leaseId
       \<and> statusFilter (Some action) (lh_action h)) (tn_history s))"

definition activityByLeaseId ::
  "tenancy \<Rightarrow> string \<Rightarrow> string \<Rightarrow> activity_action option \<Rightarrow> sort_order \<Rightarrow> lease_activity list" where
  "activityByLeaseId s org leaseId action ord =
     orderRows ord activity_key (filter (\<lambda>a. la_orgId a = org \<and> la_leaseId a = leaseId
       \<and> statusFilter (Some action) (la_action a)) (tn_activities s))"

definition historyByResident ::
  "tenancy \<Rightarrow> string \<Rightarrow> string \<Rightarrow> history_action option \<Rightarrow> sort_order \<Rightarrow> cursor option \<Rightarrow> nat \<Rightarrow> lease_history list" where
  "historyByResident s org userId action ord c limit =
     take limit (orderRows ord history_key (filter (\<lambda>h. lh_orgId h = org
       \<and> (case find_by le_id (lh_leaseId h) (tn_leases s) of
            None \<Rightarrow> False
          | Some l \<Rightarrow> occupancySat s l (\<lambda>oc. oc_residentUserId oc = userId))
       \<and> statusFilter (Some action) (lh_action h) \<and> beyondCursor ord c (history_key h)) (tn_history s)))"

end
