(* ===== verification/LeasesService.thy ===== *)
theory LeasesService
  imports Leases
begin

text \<open>
  \<^verbatim>\<open>leases.service.ts\<close>: a lease and its timeline, pages of leases, and the edit of a lease's terms. Cursors are the
  pair they encode; a cursor that does not decode is the inner \<open>None\<close> and is refused.
\<close>

section \<open>Reads\<close>

definition getActiveLeaseForUnit :: "tenancy \<Rightarrow> principal \<Rightarrow> string \<Rightarrow> string \<Rightarrow> lease_row option res" where
  "getActiveLeaseForUnit s u bldg unitId =
     andThen (orgBuilding (core s) u bldg) (\<lambda>org.
     andThen (orThrow (findUnitForBuilding (core s) bldg unitId) (BadRequest ''Unit not in building'')) (\<lambda>_.
     Inr (findActiveLeaseByUnit s org unitId)))"

definition orgAndUser :: "principal \<Rightarrow> (string \<times> string) res" where
  "orgAndUser u =
     andThen (assertOrgScope u) (\<lambda>org. andThen (requireUserId u) (\<lambda>userId. Inr (org, userId)))"

definition getActiveLeaseForResident :: "tenancy \<Rightarrow> principal \<Rightarrow> lease_row option res" where
  "getActiveLeaseForResident s u =
     andThen (orgAndUser u) (\<lambda>(org, userId). Inr (findActiveLeaseByResident s org userId))"

definition findLeaseOrThrow :: "tenancy \<Rightarrow> principal \<Rightarrow> string \<Rightarrow> (string \<times> lease_row) res" where
  "findLeaseOrThrow s u leaseId =
     andThen (assertOrgScope u) (\<lambda>org.
     andThen (orThrow (findLeaseById s org leaseId) (NotFound ''Lease not found'')) (\<lambda>l. Inr (org, l)))"

definition getLeaseById :: "tenancy \<Rightarrow> principal \<Rightarrow> string \<Rightarrow> lease_row res" where
  "getLeaseById s u leaseId = andThen (findLeaseOrThrow s u leaseId) (\<lambda>(org, l). Inr l)"

definition getLeaseHistory :: "tenancy \<Rightarrow> principal \<Rightarrow> string \<Rightarrow> lease_history list res" where
  "getLeaseHistory s u leaseId =
     andThen (findLeaseOrThrow s u leaseId) (\<lambda>(org, l). Inr (historyByLeaseId s org leaseId None DESC))"

section \<open>The timeline\<close>

datatype timeline_source = TL_HISTORY | TL_ACTIVITY

record timeline_item =
  ti_id :: string
  ti_source :: timeline_source
  ti_action :: "history_action + activity_action"
  ti_activitySource :: "activity_source option"
  ti_createdAt :: int
  ti_changedByUserId :: "string option"
  ti_payload :: json

definition historyItem :: "lease_history \<Rightarrow> timeline_item" where
  "historyItem h =
     \<lparr> ti_id = lh_id h, ti_source = TL_HISTORY, ti_action = Inl (lh_action h), ti_activitySource = None,
       ti_createdAt = lh_createdAt h, ti_changedByUserId = lh_changedByUserId h,
       ti_payload = JObject [(''changes'', JObject (map (\<lambda>(f, a, b).
         (f, JObject [(''from'', a), (''to'', b)])) (lh_changes h)))] \<rparr>"

definition activityItem :: "lease_activity \<Rightarrow> timeline_item" where
  "activityItem a =
     \<lparr> ti_id = la_id a, ti_source = TL_ACTIVITY, ti_action = Inr (la_action a), ti_activitySource = Some (la_source a),
       ti_createdAt = la_createdAt a, ti_changedByUserId = la_changedByUserId a, ti_payload = JObject (la_payload a) \<rparr>"

fun timeline_source_str :: "timeline_source \<Rightarrow> string" where
  "timeline_source_str TL_HISTORY = ''HISTORY''"
| "timeline_source_str TL_ACTIVITY = ''ACTIVITY''"

type_synonym timeline_cursor = "int \<times> timeline_source \<times> string"

definition timelineKey :: "(string \<Rightarrow> nat list) \<Rightarrow> timeline_cursor \<Rightarrow> int \<times> nat list" where
  "timelineKey collate k =
     (case k of (createdAt, source, i) \<Rightarrow> (createdAt, collate (timeline_source_str source @ '':'' @ i)))"

definition cursorOfItem :: "timeline_item \<Rightarrow> timeline_cursor" where
  "cursorOfItem t = (ti_createdAt t, ti_source t, ti_id t)"

record timeline_query =
  tq_source :: "timeline_source option"
  tq_order :: "sort_order option"
  tq_historyAction :: "history_action option"
  tq_activityAction :: "activity_action option"
  tq_dateFrom :: "int option"
  tq_dateTo :: "int option"
  tq_cursor :: "timeline_cursor option option"
  tq_limit :: "int option"

definition readCursor :: "'a option option \<Rightarrow> 'a option res" where
  "readCursor c = (case c of None \<Rightarrow> Inr None | Some None \<Rightarrow> Inl (BadRequest ''Invalid cursor'') | Some (Some k) \<Rightarrow> Inr (Some k))"

definition checkDates :: "int option \<Rightarrow> int option \<Rightarrow> unit res" where
  "checkDates dateFrom dateTo =
     (case (dateFrom, dateTo) of
        (Some a, Some b) \<Rightarrow> ensure (\<not> b < a) (BadRequest ''date_to must be on or after date_from'')
      | _ \<Rightarrow> Inr ())"

text \<open>
  \<^verbatim>\<open>sort\<close> is stable: with equal keys the items stay in the order they came in, whichever way the list is sorted.
\<close>

definition sortTimeline :: "(string \<Rightarrow> nat list) \<Rightarrow> sort_order \<Rightarrow> timeline_item list \<Rightarrow> timeline_item list" where
  "sortTimeline collate ord items =
     (case ord of
        ASC \<Rightarrow> sort_key (timelineKey collate \<circ> cursorOfItem) items
      | DESC \<Rightarrow> rev (sort_key (timelineKey collate \<circ> cursorOfItem) (rev items)))"

definition timelineAfter :: "(string \<Rightarrow> nat list) \<Rightarrow> sort_order \<Rightarrow> timeline_cursor option \<Rightarrow> timeline_item \<Rightarrow> bool" where
  "timelineAfter collate ord c t =
     (case c of
        None \<Rightarrow> True
      | Some k \<Rightarrow>
          (case ord of
             ASC \<Rightarrow> timelineKey collate (cursorOfItem t) > timelineKey collate k
           | DESC \<Rightarrow> timelineKey collate (cursorOfItem t) < timelineKey collate k))"

definition timelineRows :: "(string \<Rightarrow> nat list) \<Rightarrow> tenancy \<Rightarrow> string \<Rightarrow> string \<Rightarrow> timeline_query \<Rightarrow> timeline_item list" where
  "timelineRows collate s org leaseId q =
     (let ord = nullish (tq_order q) DESC;
          hs = (if tq_source q = Some TL_ACTIVITY then [] else historyByLeaseId s org leaseId (tq_historyAction q) ord);
          as = (if tq_source q = Some TL_HISTORY then [] else activityByLeaseId s org leaseId (tq_activityAction q) ord)
      in filter (\<lambda>t. dateWithin (tq_dateFrom q) (tq_dateTo q) (ti_createdAt t))
           (sortTimeline collate ord (map historyItem hs @ map activityItem as)))"

text \<open>The response names an item by its source and id.\<close>

definition shownItem :: "timeline_item \<Rightarrow> timeline_item" where
  "shownItem t = t\<lparr> ti_id := toLowerCase (timeline_source_str (ti_source t)) @ '':'' @ ti_id t \<rparr>"

definition getLeaseTimeline ::
  "(string \<Rightarrow> nat list) \<Rightarrow> tenancy \<Rightarrow> principal \<Rightarrow> string \<Rightarrow> timeline_query
   \<Rightarrow> (timeline_item list \<times> timeline_cursor option) res" where
  "getLeaseTimeline collate s u leaseId q =
     andThen (findLeaseOrThrow s u leaseId) (\<lambda>(org, l).
     andThen (checkDates (tq_dateFrom q) (tq_dateTo q)) (\<lambda>_.
     andThen (readCursor (tq_cursor q)) (\<lambda>c.
     Inr (apfst (map shownItem) (cutPage cursorOfItem (nat (clampLimit 20 100 (tq_limit q)))
       (filter (timelineAfter collate (nullish (tq_order q) DESC) c) (timelineRows collate s org leaseId q)))))))"

section \<open>Pages of leases\<close>

definition assertResidentInOrg :: "tenancy \<Rightarrow> string \<Rightarrow> string \<Rightarrow> unit res" where
  "assertResidentInOrg s org userId =
     ensure (list_ex (\<lambda>x. us_id x = userId \<and> us_orgId x = Some org) (users (core s))) (NotFound ''Resident not found'')"

definition listResidentLeases ::
  "tenancy \<Rightarrow> principal \<Rightarrow> string \<Rightarrow> lease_query \<Rightarrow> cursor option option \<Rightarrow> (lease_row list \<times> cursor option) res" where
  "listResidentLeases s u residentUserId q c0 =
     andThen (assertOrgScope u) (\<lambda>org.
     andThen (assertResidentInOrg s org residentUserId) (\<lambda>_.
     andThen (readCursor c0) (\<lambda>c.
     let limit = nat (clampLimit 20 100 (lq_limit q))
     in Inr (cutPage lease_key limit (listByResident s org residentUserId (q\<lparr> lq_cursor := c \<rparr>) (Suc limit))))))"

definition listOrgLeases ::
  "(string \<Rightarrow> string \<Rightarrow> bool) \<Rightarrow> tenancy \<Rightarrow> principal \<Rightarrow> lease_query \<Rightarrow> cursor option option
   \<Rightarrow> (lease_row list \<times> cursor option) res" where
  "listOrgLeases ilike s u q c0 =
     andThen (assertOrgScope u) (\<lambda>org.
     andThen (checkDates (lq_dateFrom q) (lq_dateTo q)) (\<lambda>_.
     andThen (readCursor c0) (\<lambda>c.
     let limit = nat (clampLimit 20 100 (lq_limit q))
     in Inr (cutPage lease_key limit
          (listByOrg ilike s org (q\<lparr> lq_q := map_option trim (lq_q q), lq_cursor := c \<rparr>) (Suc limit))))))"

definition listResidentLeaseTimeline ::
  "tenancy \<Rightarrow> principal \<Rightarrow> string \<Rightarrow> history_action option \<Rightarrow> sort_order option \<Rightarrow> cursor option option \<Rightarrow> int option
   \<Rightarrow> (lease_history list \<times> cursor option) res" where
  "listResidentLeaseTimeline s u residentUserId action ord c0 limit0 =
     andThen (assertOrgScope u) (\<lambda>org.
     andThen (assertResidentInOrg s org residentUserId) (\<lambda>_.
     andThen (readCursor c0) (\<lambda>c.
     let limit = nat (clampLimit 20 100 limit0)
     in Inr (cutPage history_key limit
          (historyByResident s org residentUserId action (nullish ord DESC) c (Suc limit))))))"

section \<open>Editing\<close>

text \<open>A field of the data that may be \<^verbatim>\<open>null\<close> has an option inside the one that says whether it was sent.\<close>

record lease_update =
  lu_leaseStartDate :: "int option"
  lu_leaseEndDate :: "int option"
  lu_tenancyRegistrationExpiry :: "int option option"
  lu_noticeGivenDate :: "int option option"
  lu_annualRent :: "string option"
  lu_paymentFrequency :: "payment_frequency option"
  lu_numberOfCheques :: "int option option"
  lu_securityDepositAmount :: "string option"
  lu_internetTvProvider :: "string option option"
  lu_serviceChargesPaidBy :: "charges_payer option option"
  lu_vatApplicable :: "bool option option"
  lu_notes :: "string option option"
  lu_firstPaymentReceived :: "yes_no option option"
  lu_firstPaymentAmount :: "string option option"
  lu_depositReceived :: "yes_no option option"
  lu_depositReceivedAmount :: "string option option"

definition no_update :: lease_update where
  "no_update =
     \<lparr> lu_leaseStartDate = None, lu_leaseEndDate = None, lu_tenancyRegistrationExpiry = None,
       lu_noticeGivenDate = None, lu_annualRent = None, lu_paymentFrequency = None, lu_numberOfCheques = None,
       lu_securityDepositAmount = None, lu_internetTvProvider = None, lu_serviceChargesPaidBy = None,
       lu_vatApplicable = None, lu_notes = None, lu_firstPaymentReceived = None, lu_firstPaymentAmount = None,
       lu_depositReceived = None, lu_depositReceivedAmount = None \<rparr>"

definition toDecimal :: "(string \<Rightarrow> rat option) \<Rightarrow> string \<Rightarrow> string \<Rightarrow> rat res" where
  "toDecimal dec value field =
     (let trimmed = trim value
      in if trimmed = [] then Inl (BadRequest (field @ '' must be a valid decimal string''))
         else orThrow (dec trimmed) (BadRequest (field @ '' must be a valid decimal string'')))"

definition nullableDecimal :: "(string \<Rightarrow> rat option) \<Rightarrow> string \<Rightarrow> string option \<Rightarrow> rat option res" where
  "nullableDecimal dec field value =
     (if truthy value then andThen (toDecimal dec (the value) field) (\<lambda>x. Inr (Some x)) else Inr None)"

definition sent :: "('a \<Rightarrow> 'b res) \<Rightarrow> 'a option \<Rightarrow> 'b option res" where
  "sent f x = (case x of None \<Rightarrow> Inr None | Some v \<Rightarrow> andThen (f v) (\<lambda>y. Inr (Some y)))"

definition buildUpdateData :: "(string \<Rightarrow> rat option) \<Rightarrow> lease_update \<Rightarrow> (lease_terms \<Rightarrow> lease_terms) res" where
  "buildUpdateData dec d =
     andThen (sent (\<lambda>v. toDecimal dec v ''annualRent'') (lu_annualRent d)) (\<lambda>rent.
     andThen (sent (\<lambda>v. toDecimal dec v ''securityDepositAmount'') (lu_securityDepositAmount d)) (\<lambda>deposit.
     andThen (sent (nullableDecimal dec ''firstPaymentAmount'') (lu_firstPaymentAmount d)) (\<lambda>payment.
     andThen (sent (nullableDecimal dec ''depositReceivedAmount'') (lu_depositReceivedAmount d)) (\<lambda>received.
     Inr (\<lambda>t. t\<lparr> lt_leaseStartDate := nullish (lu_leaseStartDate d) (lt_leaseStartDate t),
       lt_leaseEndDate := nullish (lu_leaseEndDate d) (lt_leaseEndDate t),
       lt_tenancyRegistrationExpiry := nullish (lu_tenancyRegistrationExpiry d) (lt_tenancyRegistrationExpiry t),
       lt_noticeGivenDate := nullish (lu_noticeGivenDate d) (lt_noticeGivenDate t),
       lt_annualRent := nullish rent (lt_annualRent t),
       lt_paymentFrequency := nullish (lu_paymentFrequency d) (lt_paymentFrequency t),
       lt_numberOfCheques := nullish (lu_numberOfCheques d) (lt_numberOfCheques t),
       lt_securityDepositAmount := nullish deposit (lt_securityDepositAmount t),
       lt_internetTvProvider := nullish (lu_internetTvProvider d) (lt_internetTvProvider t),
       lt_serviceChargesPaidBy := nullish (lu_serviceChargesPaidBy d) (lt_serviceChargesPaidBy t),
       lt_vatApplicable := nullish (lu_vatApplicable d) (lt_vatApplicable t),
       lt_notes := nullish (lu_notes d) (lt_notes t),
       lt_firstPaymentReceived := nullish (lu_firstPaymentReceived d) (lt_firstPaymentReceived t),
       lt_firstPaymentAmount := nullish payment (lt_firstPaymentAmount t),
       lt_depositReceived := nullish (lu_depositReceived d) (lt_depositReceived t),
       lt_depositReceivedAmount := nullish received (lt_depositReceivedAmount t) \<rparr>)))))"

definition updateLeaseForOrg ::
  "tenancy \<Rightarrow> string \<Rightarrow> string \<Rightarrow> (lease_row \<Rightarrow> lease_row) \<Rightarrow> (lease_row \<times> tenancy) option res" where
  "updateLeaseForOrg s org leaseId f =
     (case findLeaseById s org leaseId of
        None \<Rightarrow> Inr None
      | Some l \<Rightarrow> andThen (updateLeaseRow s leaseId f) (\<lambda>r. Inr (Some r)))"

definition updateLease ::
  "(string \<Rightarrow> rat option) \<Rightarrow> tenancy \<Rightarrow> int \<Rightarrow> string \<Rightarrow> principal \<Rightarrow> string \<Rightarrow> lease_update \<Rightarrow> (lease_row \<times> tenancy) res" where
  "updateLease dec s now historyId u leaseId d =
     andThen (findLeaseOrThrow s u leaseId) (\<lambda>(org, l).
     andThen (buildUpdateData dec d) (\<lambda>f.
     andThen (ensure (d \<noteq> no_update) (BadRequest ''No lease fields provided'')) (\<lambda>_.
     andThen (ensure (\<not> nullish (lu_leaseEndDate d) (lt_leaseEndDate (le_terms l))
                        \<le> nullish (lu_leaseStartDate d) (lt_leaseStartDate (le_terms l)))
                (BadRequest ''leaseEndDate must be after leaseStartDate'')) (\<lambda>_.
     andThen (updateLeaseForOrg s org leaseId (\<lambda>x. x\<lparr> le_terms := f (le_terms x) \<rparr>)) (\<lambda>r.
     andThen (orThrow r (NotFound ''Lease not found'')) (\<lambda>(l', s1).
     Inr (l', recordChanges s1 now historyId org LH_UPDATED (user_sub u) l l')))))))"

end
