(* ===== verification/LeaseItems.thy ===== *)
theory LeaseItems
  imports LeasesService
begin

text \<open>
  What goes with a lease: access cards and parking stickers (\<^verbatim>\<open>lease-access-cards.service.ts\<close> and
  \<^verbatim>\<open>lease-parking-stickers.service.ts\<close>, the same code over two tables), the names of the occupants
  (\<^verbatim>\<open>lease-occupants.service.ts\<close>) and the documents (\<^verbatim>\<open>lease-documents.service.ts\<close>), each with its repository.
  The signed address of a stored file is the parameter \<open>signUrl\<close>.
\<close>

section \<open>Cards and stickers\<close>

datatype item_kind = ACCESS_CARD | PARKING_STICKER

fun itemsOf :: "item_kind \<Rightarrow> tenancy \<Rightarrow> access_item list" where
  "itemsOf ACCESS_CARD s = tn_cards s"
| "itemsOf PARKING_STICKER s = tn_stickers s"

fun setItems :: "item_kind \<Rightarrow> access_item list \<Rightarrow> tenancy \<Rightarrow> tenancy" where
  "setItems ACCESS_CARD rows s = s\<lparr> tn_cards := rows \<rparr>"
| "setItems PARKING_STICKER rows s = s\<lparr> tn_stickers := rows \<rparr>"

definition listItems :: "item_kind \<Rightarrow> tenancy \<Rightarrow> string \<Rightarrow> access_item list" where
  "listItems k s leaseId = rev (sort_key ai_createdAt (filter (\<lambda>x. ai_leaseId x = leaseId) (itemsOf k s)))"

definition findByNumbers :: "item_kind \<Rightarrow> tenancy \<Rightarrow> string \<Rightarrow> string list \<Rightarrow> access_item list" where
  "findByNumbers k s leaseId numbers =
     filter (\<lambda>x. ai_leaseId x = leaseId \<and> List.member numbers (ai_number x)) (itemsOf k s)"

definition findItemById :: "item_kind \<Rightarrow> tenancy \<Rightarrow> string \<Rightarrow> string \<Rightarrow> access_item option" where
  "findItemById k s leaseId i = List.find (\<lambda>x. ai_id x = i \<and> ai_leaseId x = leaseId) (itemsOf k s)"

definition newItems :: "int \<Rightarrow> (nat \<Rightarrow> string) \<Rightarrow> string \<Rightarrow> string list \<Rightarrow> access_item list" where
  "newItems now ids leaseId numbers =
     map (\<lambda>(j, n). \<lparr> ai_id = ids j, ai_leaseId = leaseId, ai_number = n, ai_status = ISSUED, ai_issuedAt = now,
                     ai_returnedAt = None, ai_createdAt = now \<rparr>) (enumerate 0 numbers)"

text \<open>\<^verbatim>\<open>createMany\<close> is one statement: when a key is taken no row is written.\<close>

definition createManyItems ::
  "item_kind \<Rightarrow> tenancy \<Rightarrow> int \<Rightarrow> (nat \<Rightarrow> string) \<Rightarrow> string \<Rightarrow> string list \<Rightarrow> tenancy res" where
  "createManyItems k s now ids leaseId numbers =
     (let rows = itemsOf k s @ newItems now ids leaseId numbers
      in if distinct (map ai_id rows) \<and> distinct (map (\<lambda>x. (ai_leaseId x, ai_number x)) rows)
         then Inr (setItems k rows s) else Inl UniqueViolation)"

fun duplicateItems :: "item_kind \<Rightarrow> string" where
  "duplicateItems ACCESS_CARD = ''Duplicate card numbers in request''"
| "duplicateItems PARKING_STICKER = ''Duplicate sticker numbers in request''"

fun itemExists :: "item_kind \<Rightarrow> string" where
  "itemExists ACCESS_CARD = ''Card number already exists for this lease''"
| "itemExists PARKING_STICKER = ''Sticker number already exists for this lease''"

fun itemMissing :: "item_kind \<Rightarrow> string" where
  "itemMissing ACCESS_CARD = ''Access card not found''"
| "itemMissing PARKING_STICKER = ''Parking sticker not found''"

fun invalidTransition :: "item_kind \<Rightarrow> string" where
  "invalidTransition ACCESS_CARD = ''Invalid access card status transition''"
| "invalidTransition PARKING_STICKER = ''Invalid parking sticker status transition''"

fun item_status_str :: "item_status \<Rightarrow> string" where
  "item_status_str ISSUED = ''ISSUED''"
| "item_status_str RETURNED = ''RETURNED''"
| "item_status_str DEACTIVATED = ''DEACTIVATED''"

fun itemAction :: "item_kind \<Rightarrow> activity_action \<times> activity_action \<times> activity_action" where
  "itemAction ACCESS_CARD = (LA_ACCESS_CARD_ISSUED, LA_ACCESS_CARD_STATUS_CHANGED, LA_ACCESS_CARD_DELETED)"
| "itemAction PARKING_STICKER = (LA_PARKING_STICKER_ISSUED, LA_PARKING_STICKER_STATUS_CHANGED, LA_PARKING_STICKER_DELETED)"

fun itemField :: "item_kind \<Rightarrow> string \<Rightarrow> string" where
  "itemField ACCESS_CARD f = ''card'' @ f"
| "itemField PARKING_STICKER f = ''sticker'' @ f"

definition listLeaseItems :: "item_kind \<Rightarrow> tenancy \<Rightarrow> principal \<Rightarrow> string \<Rightarrow> access_item list res" where
  "listLeaseItems k s u leaseId = andThen (findLeaseOrThrow s u leaseId) (\<lambda>_. Inr (listItems k s leaseId))"

definition createLeaseItems ::
  "item_kind \<Rightarrow> tenancy \<Rightarrow> int \<Rightarrow> (nat \<Rightarrow> string) \<Rightarrow> string \<Rightarrow> principal \<Rightarrow> string \<Rightarrow> string list
   \<Rightarrow> (access_item list \<times> tenancy) res" where
  "createLeaseItems k s now ids activityId u leaseId numbers =
     andThen (findLeaseOrThrow s u leaseId) (\<lambda>(org, l).
     let unique = js_unique (filter (\<lambda>x. x \<noteq> []) (map trim numbers)) in
     andThen (ensure (length unique = length numbers \<and> unique \<noteq> []) (Conflict (duplicateItems k))) (\<lambda>_.
     andThen (ensure (findByNumbers k s leaseId unique = []) (Conflict (itemExists k))) (\<lambda>_.
     andThen (createManyItems k s now ids leaseId unique) (\<lambda>s1.
     let s2 = createActivity s1 now activityId org leaseId (fst (itemAction k)) (user_sub u)
                [(itemField k ''Numbers'', JList (map JText unique)), (''count'', JNumber (int (length unique)))]
     in Inr (listItems k s2 leaseId, s2)))))"

definition isValidTransition :: "item_status \<Rightarrow> item_status \<Rightarrow> bool" where
  "isValidTransition current new \<longleftrightarrow>
     current = new \<or> current = ISSUED \<and> (new = RETURNED \<or> new = DEACTIVATED)
     \<or> current = RETURNED \<and> new = DEACTIVATED"

definition returnedAtAfter :: "int \<Rightarrow> access_item \<Rightarrow> item_status \<Rightarrow> int option" where
  "returnedAtAfter now x new =
     (case new of
        RETURNED \<Rightarrow> Some (nullish (ai_returnedAt x) now)
      | ISSUED \<Rightarrow> None
      | DEACTIVATED \<Rightarrow> ai_returnedAt x)"

definition updateItemStatus ::
  "item_kind \<Rightarrow> tenancy \<Rightarrow> int \<Rightarrow> string \<Rightarrow> principal \<Rightarrow> string \<Rightarrow> string \<Rightarrow> item_status \<Rightarrow> (access_item \<times> tenancy) res" where
  "updateItemStatus k s now activityId u leaseId itemId new =
     andThen (findLeaseOrThrow s u leaseId) (\<lambda>(org, l).
     andThen (orThrow (findItemById k s leaseId itemId) (NotFound (itemMissing k))) (\<lambda>x.
     andThen (ensure (isValidTransition (ai_status x) new) (BadRequest (invalidTransition k))) (\<lambda>_.
     let x' = x\<lparr> ai_status := new, ai_returnedAt := returnedAtAfter now x new \<rparr>;
         s1 = setItems k (modify_by ai_id (ai_id x) (\<lambda>_. x') (itemsOf k s)) s
     in Inr (x', createActivity s1 now activityId org leaseId (fst (snd (itemAction k))) (user_sub u)
          [(itemField k ''Id'', JText (ai_id x)), (itemField k ''Number'', JText (ai_number x)),
           (''from'', JText (item_status_str (ai_status x))), (''to'', JText (item_status_str new))]))))"

definition deleteItem ::
  "item_kind \<Rightarrow> tenancy \<Rightarrow> int \<Rightarrow> string \<Rightarrow> principal \<Rightarrow> string \<Rightarrow> string \<Rightarrow> tenancy res" where
  "deleteItem k s now activityId u leaseId itemId =
     andThen (findLeaseOrThrow s u leaseId) (\<lambda>(org, l).
     andThen (orThrow (findItemById k s leaseId itemId) (NotFound (itemMissing k))) (\<lambda>x.
     Inr (createActivity (setItems k (filter (\<lambda>y. ai_id y \<noteq> ai_id x) (itemsOf k s)) s) now activityId org leaseId
       (snd (snd (itemAction k))) (user_sub u)
       [(itemField k ''Id'', JText (ai_id x)), (itemField k ''Number'', JText (ai_number x)),
        (''status'', JText (item_status_str (ai_status x)))])))"

definition listAccessCards :: "tenancy \<Rightarrow> principal \<Rightarrow> string \<Rightarrow> access_item list res" where
  "listAccessCards = listLeaseItems ACCESS_CARD"

definition createAccessCards where "createAccessCards = createLeaseItems ACCESS_CARD"
definition updateAccessCardStatus where "updateAccessCardStatus = updateItemStatus ACCESS_CARD"
definition deleteAccessCard where "deleteAccessCard = deleteItem ACCESS_CARD"
definition listParkingStickers where "listParkingStickers = listLeaseItems PARKING_STICKER"
definition createParkingStickers where "createParkingStickers = createLeaseItems PARKING_STICKER"
definition updateParkingStickerStatus where "updateParkingStickerStatus = updateItemStatus PARKING_STICKER"
definition deleteParkingSticker where "deleteParkingSticker = deleteItem PARKING_STICKER"

section \<open>Occupants\<close>

fun dedupeNames :: "string list \<Rightarrow> string list \<Rightarrow> string list" where
  "dedupeNames seen [] = []"
| "dedupeNames seen (raw # names) =
     (let trimmed = trim raw; key = toLowerCase trimmed
      in if trimmed = [] \<or> List.member seen key then dedupeNames seen names
         else trimmed # dedupeNames (key # seen) names)"

definition normalizeNames :: "string list \<Rightarrow> string list" where
  "normalizeNames names = dedupeNames [] names"

definition listOccupants :: "tenancy \<Rightarrow> string \<Rightarrow> lease_occupant list" where
  "listOccupants s leaseId = sort_key ln_createdAt (filter (\<lambda>x. ln_leaseId x = leaseId) (tn_occupants s))"

definition replaceOccupantRows :: "tenancy \<Rightarrow> int \<Rightarrow> (nat \<Rightarrow> string) \<Rightarrow> string \<Rightarrow> string list \<Rightarrow> tenancy" where
  "replaceOccupantRows s now ids leaseId names =
     s\<lparr> tn_occupants := filter (\<lambda>x. ln_leaseId x \<noteq> leaseId) (tn_occupants s) @
          map (\<lambda>(j, n). \<lparr> ln_id = ids j, ln_leaseId = leaseId, ln_name = n, ln_createdAt = now \<rparr>) (enumerate 0 names) \<rparr>"

definition listLeaseOccupants :: "tenancy \<Rightarrow> principal \<Rightarrow> string \<Rightarrow> lease_occupant list res" where
  "listLeaseOccupants s u leaseId = andThen (findLeaseOrThrow s u leaseId) (\<lambda>_. Inr (listOccupants s leaseId))"

definition replaceOccupants ::
  "tenancy \<Rightarrow> int \<Rightarrow> (nat \<Rightarrow> string) \<Rightarrow> string \<Rightarrow> principal \<Rightarrow> string \<Rightarrow> string list \<Rightarrow> (lease_occupant list \<times> tenancy) res" where
  "replaceOccupants s now ids activityId u leaseId names =
     andThen (findLeaseOrThrow s u leaseId) (\<lambda>(org, l).
     let cleaned = normalizeNames names;
         s1 = replaceOccupantRows s now ids leaseId cleaned;
         s2 = createActivity s1 now activityId org leaseId LA_OCCUPANTS_REPLACED (user_sub u)
                [(''names'', JList (map JText cleaned)), (''count'', JNumber (int (length cleaned)))]
     in Inr (listOccupants s2 leaseId, s2))"

section \<open>Documents\<close>

record document_dto =
  dd_type :: document_type
  dd_fileName :: string
  dd_mimeType :: string
  dd_sizeBytes :: int
  dd_url :: string

fun document_type_str :: "document_type \<Rightarrow> string" where
  "document_type_str EMIRATES_ID_COPY = ''EMIRATES_ID_COPY''"
| "document_type_str PASSPORT_COPY = ''PASSPORT_COPY''"
| "document_type_str SIGNED_TENANCY_CONTRACT = ''SIGNED_TENANCY_CONTRACT''"
| "document_type_str CHEQUE_COPY = ''CHEQUE_COPY''"
| "document_type_str DOCUMENT_OTHER = ''OTHER''"

definition createDocumentRow ::
  "tenancy \<Rightarrow> int \<Rightarrow> string \<Rightarrow> string \<Rightarrow> string \<Rightarrow> document_dto \<Rightarrow> (lease_document \<times> tenancy) res" where
  "createDocumentRow s now i org leaseId d =
     andThen (intColumn (dd_sizeBytes d)) (\<lambda>size.
     if find_by ld_id i (tn_documents s) \<noteq> None then Inl UniqueViolation
     else let x = \<lparr> ld_id = i, ld_leaseId = leaseId, ld_orgId = org, ld_type = dd_type d, ld_fileName = dd_fileName d,
                    ld_mimeType = dd_mimeType d, ld_sizeBytes = size, ld_url = dd_url d, ld_createdAt = now \<rparr>
          in Inr (x, s\<lparr> tn_documents := tn_documents s @ [x] \<rparr>))"

definition listDocumentRows :: "tenancy \<Rightarrow> string \<Rightarrow> string \<Rightarrow> lease_document list" where
  "listDocumentRows s org leaseId =
     rev (sort_key ld_createdAt (filter (\<lambda>x. ld_orgId x = org \<and> ld_leaseId x = leaseId) (tn_documents s)))"

definition storagePrefix :: string where "storagePrefix = ''storage://''"

definition resolveDocumentUrl :: "(string \<Rightarrow> string) \<Rightarrow> lease_document \<Rightarrow> lease_document" where
  "resolveDocumentUrl signUrl x =
     (let key = drop (length storagePrefix) (ld_url x)
      in if \<not> startsWith (ld_url x) storagePrefix \<or> key = [] then x else x\<lparr> ld_url := signUrl key \<rparr>)"

definition listDocuments :: "(string \<Rightarrow> string) \<Rightarrow> tenancy \<Rightarrow> principal \<Rightarrow> string \<Rightarrow> lease_document list res" where
  "listDocuments signUrl s u leaseId =
     andThen (findLeaseOrThrow s u leaseId) (\<lambda>(org, l).
     Inr (map (resolveDocumentUrl signUrl) (listDocumentRows s org leaseId)))"

definition listActiveResidentDocuments :: "(string \<Rightarrow> string) \<Rightarrow> tenancy \<Rightarrow> principal \<Rightarrow> lease_document list res" where
  "listActiveResidentDocuments signUrl s u =
     andThen (orgAndUser u) (\<lambda>(org, userId).
     case findActiveLeaseByResident s org userId of
       None \<Rightarrow> Inr []
     | Some l \<Rightarrow> Inr (map (resolveDocumentUrl signUrl) (listDocumentRows s org (le_id l))))"

definition createDocument ::
  "(string \<Rightarrow> string) \<Rightarrow> tenancy \<Rightarrow> int \<Rightarrow> string \<Rightarrow> string \<Rightarrow> principal \<Rightarrow> string \<Rightarrow> document_dto
   \<Rightarrow> (lease_document \<times> tenancy) res" where
  "createDocument signUrl s now i activityId u leaseId d =
     andThen (findLeaseOrThrow s u leaseId) (\<lambda>(org, l).
     andThen (createDocumentRow s now i org leaseId d) (\<lambda>(x, s1).
     Inr (resolveDocumentUrl signUrl x,
          createActivity s1 now activityId org leaseId LA_DOCUMENT_ADDED (user_sub u)
            [(''documentId'', JText (ld_id x)), (''type'', JText (document_type_str (ld_type x))),
             (''fileName'', JText (ld_fileName x)), (''sizeBytes'', JNumber (ld_sizeBytes x))])))"

definition deleteDocument ::
  "tenancy \<Rightarrow> int \<Rightarrow> string \<Rightarrow> principal \<Rightarrow> string \<Rightarrow> string \<Rightarrow> tenancy res" where
  "deleteDocument s now activityId u leaseId documentId =
     andThen (findLeaseOrThrow s u leaseId) (\<lambda>(org, l).
     andThen (orThrow (List.find (\<lambda>x. ld_id x = documentId \<and> ld_orgId x = org \<and> ld_leaseId x = leaseId) (tn_documents s))
                (NotFound ''Lease document not found'')) (\<lambda>x.
     Inr (createActivity (s\<lparr> tn_documents := filter (\<lambda>y. ld_id y \<noteq> ld_id x) (tn_documents s) \<rparr>) now activityId org
       leaseId LA_DOCUMENT_DELETED (user_sub u)
       [(''documentId'', JText (ld_id x)), (''type'', JText (document_type_str (ld_type x))),
        (''fileName'', JText (ld_fileName x))])))"

end
