(* ===== verification/ParkingRows.thy ===== *)
theory ParkingRows
  imports LeaseItems
begin

text \<open>
  The parking tables (\<^verbatim>\<open>parking.repo.ts\<close>): slots with a code unique in their building, allocations of a slot to an
  occupancy or to a unit (never both, a check constraint of the table), vehicles with a plate unique in the
  organisation. An allocation without an end date is current.
\<close>

section \<open>Slots\<close>

definition isCurrent :: "parking_allocation \<Rightarrow> bool" where
  "isCurrent a \<longleftrightarrow> pa_endDate a = None"

definition slotFree :: "tenancy \<Rightarrow> string \<Rightarrow> bool" where
  "slotFree s slotId \<longleftrightarrow> \<not> list_ex (\<lambda>a. pa_parkingSlotId a = slotId \<and> isCurrent a) (tn_allocations s)"

definition createSlotRow :: "tenancy \<Rightarrow> parking_slot \<Rightarrow> (parking_slot \<times> tenancy) res" where
  "createSlotRow s p =
     (if list_ex (\<lambda>x. ps_id x = ps_id p \<or> ps_buildingId x = ps_buildingId p \<and> ps_code x = ps_code p) (tn_slots s)
      then Inl UniqueViolation else Inr (p, s\<lparr> tn_slots := tn_slots s @ [p] \<rparr>))"

definition updateSlotRow :: "tenancy \<Rightarrow> string \<Rightarrow> (parking_slot \<Rightarrow> parking_slot) \<Rightarrow> (parking_slot \<times> tenancy) res" where
  "updateSlotRow s i f =
     andThen (orThrow (find_by ps_id i (tn_slots s)) RecordNotFound) (\<lambda>p.
     if list_ex (\<lambda>x. ps_id x \<noteq> i \<and> ps_buildingId x = ps_buildingId p \<and> ps_code x = ps_code (f p)) (tn_slots s)
     then Inl UniqueViolation
     else Inr (f p, s\<lparr> tn_slots := modify_by ps_id i (\<lambda>_. f p) (tn_slots s) \<rparr>))"

definition listSlotsByBuilding :: "tenancy \<Rightarrow> string \<Rightarrow> string \<Rightarrow> bool option \<Rightarrow> parking_slot list" where
  "listSlotsByBuilding s org bldg availableOnly =
     rev (sort_key ps_createdAt (filter (\<lambda>p. ps_orgId p = org \<and> ps_buildingId p = bldg
       \<and> (availableOnly = Some True \<longrightarrow> slotFree s (ps_id p))) (tn_slots s)))"

definition findSlotForOrg :: "tenancy \<Rightarrow> string \<Rightarrow> string \<Rightarrow> parking_slot option" where
  "findSlotForOrg s org i = List.find (\<lambda>p. ps_id p = i \<and> ps_orgId p = org) (tn_slots s)"

definition findSlotsByIds :: "tenancy \<Rightarrow> string \<Rightarrow> string \<Rightarrow> string list \<Rightarrow> parking_slot list" where
  "findSlotsByIds s org bldg slotIds =
     filter (\<lambda>p. List.member slotIds (ps_id p) \<and> ps_orgId p = org \<and> ps_buildingId p = bldg \<and> ps_isActive p) (tn_slots s)"

text \<open>\<open>collate\<close> gives the sort keys of the database's text order.\<close>

definition findAvailableSlots ::
  "(string \<Rightarrow> nat list) \<Rightarrow> tenancy \<Rightarrow> string \<Rightarrow> string \<Rightarrow> nat \<Rightarrow> parking_slot list" where
  "findAvailableSlots collate s org bldg n =
     take n (sort_key (\<lambda>p. (collate (ps_code p), ps_createdAt p))
       (filter (\<lambda>p. ps_orgId p = org \<and> ps_buildingId p = bldg \<and> ps_isActive p \<and> slotFree s (ps_id p)) (tn_slots s)))"

section \<open>Allocations\<close>

definition findActiveAllocationsForSlots :: "tenancy \<Rightarrow> string list \<Rightarrow> parking_allocation list" where
  "findActiveAllocationsForSlots s slotIds =
     filter (\<lambda>a. List.member slotIds (pa_parkingSlotId a) \<and> isCurrent a) (tn_allocations s)"

datatype allocation_target = ForOccupancy string | ForUnit string

fun targetOccupancy :: "allocation_target \<Rightarrow> string option" where
  "targetOccupancy (ForOccupancy i) = Some i"
| "targetOccupancy (ForUnit i) = None"

fun targetUnit :: "allocation_target \<Rightarrow> string option" where
  "targetUnit (ForOccupancy i) = None"
| "targetUnit (ForUnit i) = Some i"

definition newAllocations ::
  "int \<Rightarrow> (nat \<Rightarrow> string) \<Rightarrow> string \<Rightarrow> string \<Rightarrow> allocation_target \<Rightarrow> int \<Rightarrow> string list \<Rightarrow> parking_allocation list" where
  "newAllocations now ids org bldg target startDate slotIds =
     map (\<lambda>(j, i). \<lparr> pa_id = ids j, pa_orgId = org, pa_buildingId = bldg, pa_parkingSlotId = i,
                     pa_occupancyId = targetOccupancy target, pa_unitId = targetUnit target,
                     pa_startDate = startDate, pa_endDate = None, pa_createdAt = now \<rparr>) (enumerate 0 slotIds)"

definition createManyAllocations :: "tenancy \<Rightarrow> parking_allocation list \<Rightarrow> tenancy res" where
  "createManyAllocations s new =
     (if distinct (map pa_id (tn_allocations s @ new))
      then Inr (s\<lparr> tn_allocations := tn_allocations s @ new \<rparr>) else Inl UniqueViolation)"

text \<open>The rows that were written are read back by target, slot and start date.\<close>

definition createAllocations ::
  "tenancy \<Rightarrow> int \<Rightarrow> (nat \<Rightarrow> string) \<Rightarrow> string \<Rightarrow> string \<Rightarrow> allocation_target \<Rightarrow> string list
   \<Rightarrow> (parking_allocation list \<times> tenancy) res" where
  "createAllocations s now ids org bldg target slotIds =
     andThen (createManyAllocations s (newAllocations now ids org bldg target now slotIds)) (\<lambda>s1.
     Inr (filter (\<lambda>a. pa_orgId a = org \<and> pa_buildingId a = bldg
            \<and> (case target of ForOccupancy i \<Rightarrow> pa_occupancyId a = Some i | ForUnit i \<Rightarrow> pa_unitId a = Some i)
            \<and> List.member slotIds (pa_parkingSlotId a) \<and> pa_startDate a = now) (tn_allocations s1), s1))"

definition findAllocationForOrg :: "tenancy \<Rightarrow> string \<Rightarrow> string \<Rightarrow> parking_allocation option" where
  "findAllocationForOrg s org i = List.find (\<lambda>a. pa_id a = i \<and> pa_orgId a = org) (tn_allocations s)"

definition endAllocations :: "(parking_allocation \<Rightarrow> bool) \<Rightarrow> int \<Rightarrow> tenancy \<Rightarrow> tenancy" where
  "endAllocations P endDate s =
     s\<lparr> tn_allocations := map (\<lambda>a. if P a then a\<lparr> pa_endDate := Some endDate \<rparr> else a) (tn_allocations s) \<rparr>"

definition endAllocationRow :: "tenancy \<Rightarrow> string \<Rightarrow> int \<Rightarrow> tenancy res" where
  "endAllocationRow s i endDate =
     andThen (orThrow (find_by pa_id i (tn_allocations s)) RecordNotFound) (\<lambda>_.
     Inr (endAllocations (\<lambda>a. pa_id a = i) endDate s))"

definition ofOccupancy :: "string \<Rightarrow> string \<Rightarrow> parking_allocation \<Rightarrow> bool" where
  "ofOccupancy org occupancyId a \<longleftrightarrow> pa_orgId a = org \<and> pa_occupancyId a = Some occupancyId \<and> isCurrent a"

definition ofUnit :: "string \<Rightarrow> string \<Rightarrow> parking_allocation \<Rightarrow> bool" where
  "ofUnit org unitId a \<longleftrightarrow> pa_orgId a = org \<and> pa_unitId a = Some unitId \<and> isCurrent a"

definition endAllActiveForOccupancy :: "tenancy \<Rightarrow> string \<Rightarrow> string \<Rightarrow> int \<Rightarrow> nat \<times> tenancy" where
  "endAllActiveForOccupancy s org occupancyId endDate =
     (length (filter (ofOccupancy org occupancyId) (tn_allocations s)), endAllocations (ofOccupancy org occupancyId) endDate s)"

definition endAllActiveForUnit :: "tenancy \<Rightarrow> string \<Rightarrow> string \<Rightarrow> int \<Rightarrow> nat \<times> tenancy" where
  "endAllActiveForUnit s org unitId endDate =
     (length (filter (ofUnit org unitId) (tn_allocations s)), endAllocations (ofUnit org unitId) endDate s)"

definition listAllocationsForOccupancy :: "tenancy \<Rightarrow> string \<Rightarrow> string \<Rightarrow> bool option \<Rightarrow> parking_allocation list" where
  "listAllocationsForOccupancy s org occupancyId activeOnly =
     rev (sort_key (\<lambda>a. (pa_startDate a, pa_createdAt a))
       (filter (\<lambda>a. pa_orgId a = org \<and> pa_occupancyId a = Some occupancyId
          \<and> (activeOnly = Some True \<longrightarrow> isCurrent a)) (tn_allocations s)))"

definition listAllocationRowsForUnit :: "tenancy \<Rightarrow> string \<Rightarrow> string \<Rightarrow> bool option \<Rightarrow> parking_allocation list" where
  "listAllocationRowsForUnit s org unitId activeOnly =
     rev (sort_key (\<lambda>a. (pa_startDate a, pa_createdAt a))
       (filter (\<lambda>a. pa_orgId a = org \<and> pa_unitId a = Some unitId
          \<and> (activeOnly = Some True \<longrightarrow> isCurrent a)) (tn_allocations s)))"

section \<open>Vehicles\<close>

definition createVehicleRow ::
  "tenancy \<Rightarrow> int \<Rightarrow> string \<Rightarrow> string \<Rightarrow> string \<Rightarrow> string \<Rightarrow> string option \<Rightarrow> (vehicle_row \<times> tenancy) res" where
  "createVehicleRow s now i org occupancyId plate label =
     (if list_ex (\<lambda>v. vh_id v = i \<or> vh_orgId v = org \<and> vh_plateNumber v = plate) (tn_vehicles s)
      then Inl UniqueViolation
      else let v = \<lparr> vh_id = i, vh_orgId = org, vh_occupancyId = occupancyId, vh_plateNumber = plate,
                     vh_label = label, vh_createdAt = now \<rparr>
           in Inr (v, s\<lparr> tn_vehicles := tn_vehicles s @ [v] \<rparr>))"

definition listVehiclesForOccupancy :: "tenancy \<Rightarrow> string \<Rightarrow> string \<Rightarrow> vehicle_row list" where
  "listVehiclesForOccupancy s org occupancyId =
     sort_key vh_createdAt (filter (\<lambda>v. vh_orgId v = org \<and> vh_occupancyId v = occupancyId) (tn_vehicles s))"

definition findVehicleForOrg :: "tenancy \<Rightarrow> string \<Rightarrow> string \<Rightarrow> vehicle_row option" where
  "findVehicleForOrg s org i = List.find (\<lambda>v. vh_id v = i \<and> vh_orgId v = org) (tn_vehicles s)"

definition updateVehicleRow ::
  "tenancy \<Rightarrow> string \<Rightarrow> string option \<Rightarrow> string option option \<Rightarrow> (vehicle_row \<times> tenancy) res" where
  "updateVehicleRow s i plate label =
     andThen (orThrow (find_by vh_id i (tn_vehicles s)) RecordNotFound) (\<lambda>v.
     let v' = v\<lparr> vh_plateNumber := nullish plate (vh_plateNumber v), vh_label := nullish label (vh_label v) \<rparr>
     in if list_ex (\<lambda>x. vh_id x \<noteq> i \<and> vh_orgId x = vh_orgId v \<and> vh_plateNumber x = vh_plateNumber v') (tn_vehicles s)
        then Inl UniqueViolation
        else Inr (v', s\<lparr> tn_vehicles := modify_by vh_id i (\<lambda>_. v') (tn_vehicles s) \<rparr>))"

end
