(* ===== verification/LeaseLifecycle.thy ===== *)
theory LeaseLifecycle
  imports ParkingRows
begin

text \<open>
  Moving in and moving out as the management does it (\<^verbatim>\<open>lease-lifecycle.service.ts\<close>), and the partial unique indexes and the check that a migration puts on the
  occupancy table (\<^verbatim>\<open>occupancy-constraints.ts\<close> maps their violations).

  Parameters: \<open>hash\<close> is argon2, \<open>randomPw\<close> the random password the service makes when none is given,
  \<open>ids\<close> the id the database generates for the n-th new row of a table.
\<close>

section \<open>Occupancies\<close>

definition occupancyConsistent :: "occupancy_row \<Rightarrow> bool" where
  "occupancyConsistent oc \<longleftrightarrow>
     oc_status oc = OC_ACTIVE \<and> oc_endAt oc = None \<or> oc_status oc = OC_ENDED \<and> oc_endAt oc \<noteq> None"

definition createOccupancyRow :: "tenancy \<Rightarrow> occupancy_row \<Rightarrow> tenancy res" where
  "createOccupancyRow s oc =
     (let ocs = occupancies (core s)
      in if find_by oc_id (oc_id oc) ocs \<noteq> None then Inl UniqueViolation
         else if oc_status oc = OC_ACTIVE \<and> list_ex (\<lambda>x. oc_unitId x = oc_unitId oc \<and> oc_status x = OC_ACTIVE) ocs
         then Inl (ConstraintViolation ''uniq_active_occupancy_per_unit'')
         else if oc_status oc = OC_ACTIVE
                 \<and> list_ex (\<lambda>x. oc_residentUserId x = oc_residentUserId oc \<and> oc_status x = OC_ACTIVE) ocs
         then Inl (ConstraintViolation ''uniq_active_occupancy_per_resident'')
         else if \<not> occupancyConsistent oc then Inl (ConstraintViolation ''occupancy_status_endat_consistency'')
         else Inr (setOccupancies (ocs @ [oc\<lparr> oc_lease := leaseRef (tn_leases s) (oc_id oc) \<rparr>]) s))"

definition newOccupancy :: "int \<Rightarrow> string \<Rightarrow> string \<Rightarrow> string \<Rightarrow> string \<Rightarrow> int \<Rightarrow> occupancy_row" where
  "newOccupancy now i bldg unitId residentUserId startAt =
     \<lparr> oc_id = i, oc_buildingId = bldg, oc_unitId = unitId, oc_residentUserId = residentUserId, oc_status = OC_ACTIVE,
       oc_startAt = startAt, oc_createdAt = now, oc_endAt = None, oc_lease = None \<rparr>"

definition hasActiveForUnit :: "tenancy \<Rightarrow> string \<Rightarrow> bool" where
  "hasActiveForUnit s unitId \<longleftrightarrow> list_ex (\<lambda>x. oc_unitId x = unitId \<and> oc_status x = OC_ACTIVE) (occupancies (core s))"

definition hasActiveForResident :: "tenancy \<Rightarrow> string \<Rightarrow> bool" where
  "hasActiveForResident s userId \<longleftrightarrow>
     list_ex (\<lambda>x. oc_residentUserId x = userId \<and> oc_status x = OC_ACTIVE) (occupancies (core s))"

datatype occupancy_constraint = CT_UNIT | CT_RESIDENT | CT_STATUS

definition OCCUPANCY_CONSTRAINTS :: "(string \<times> occupancy_constraint) list" where
  "OCCUPANCY_CONSTRAINTS =
     [(''uniq_active_occupancy_per_unit'', CT_UNIT), (''uniq_active_occupancy_per_resident'', CT_RESIDENT),
      (''occupancy_status_endat_consistency'', CT_STATUS)]"

fun detectOccupancyConstraint :: "error \<Rightarrow> occupancy_constraint option" where
  "detectOccupancyConstraint (ConstraintViolation n) = map_of OCCUPANCY_CONSTRAINTS n"
| "detectOccupancyConstraint e = None"

definition mapOccupancyConstraintError :: "error \<Rightarrow> error option" where
  "mapOccupancyConstraintError e =
     (case detectOccupancyConstraint e of
        None \<Rightarrow> None
      | Some CT_UNIT \<Rightarrow> Some (Conflict ''Unit is already occupied'')
      | Some CT_RESIDENT \<Rightarrow> Some (Conflict ''Resident already occupying a unit'')
      | Some CT_STATUS \<Rightarrow> Some (BadRequest ''Invalid occupancy state''))"

definition catchMap :: "(error \<Rightarrow> error option) \<Rightarrow> 'a res \<Rightarrow> 'a res" where
  "catchMap f r = (case r of Inl e \<Rightarrow> Inl (nullish (f e) e) | Inr x \<Rightarrow> Inr x)"

lemma catchMap_Inr [simp]: "catchMap f r = Inr x \<longleftrightarrow> r = Inr x"
  by (cases r) (simp_all add: catchMap_def)

section \<open>The resident who moves in\<close>

record new_resident =
  nr_name :: string
  nr_email :: string
  nr_phone :: "string option"
  nr_password :: "string option"

record move_in_dto =
  mi_unitId :: string
  mi_residentUserId :: "string option"
  mi_resident :: "new_resident option"
  mi_residentProfile :: "profile_data option"
  mi_leaseStartDate :: int
  mi_leaseEndDate :: int
  mi_tenancyRegistrationExpiry :: "int option"
  mi_noticeGivenDate :: "int option"
  mi_annualRent :: string
  mi_paymentFrequency :: payment_frequency
  mi_numberOfCheques :: "int option"
  mi_securityDepositAmount :: string
  mi_internetTvProvider :: "string option"
  mi_serviceChargesPaidBy :: "charges_payer option"
  mi_vatApplicable :: "bool option"
  mi_notes :: "string option"
  mi_firstPaymentReceived :: "yes_no option"
  mi_firstPaymentAmount :: "string option"
  mi_depositReceived :: "yes_no option"
  mi_depositReceivedAmount :: "string option"
  mi_occupantNames :: "string list option"
  mi_parkingSlotIds :: "string list option"
  mi_vehiclePlateNumbers :: "string list option"
  mi_accessCardNumbers :: "string list option"
  mi_parkingStickerNumbers :: "string list option"
  mi_documents :: "document_dto list option"

definition describeEmailOwnershipConflict :: "string option \<Rightarrow> string option \<Rightarrow> string" where
  "describeEmailOwnershipConflict existingOrgId targetOrgId =
     (if \<not> truthy existingOrgId then ''Email already belongs to a platform user''
      else if truthy targetOrgId \<and> existingOrgId = targetOrgId then ''Email already in use in this organization''
      else ''Email already belongs to a user in another organization'')"

definition createUserRow :: "tenancy \<Rightarrow> user_row \<Rightarrow> tenancy res" where
  "createUserRow s x =
     (if list_ex (\<lambda>y. us_id y = us_id x \<or> us_email y = us_email x) (users (core s)) then Inl UniqueViolation
      else Inr (setCore ((core s)\<lparr> users := users (core s) @ [x] \<rparr>) s))"

definition resolveResidentUser ::
  "(string \<Rightarrow> string) \<Rightarrow> tenancy \<Rightarrow> int \<Rightarrow> string \<Rightarrow> string \<Rightarrow> string \<Rightarrow> move_in_dto \<Rightarrow> (string \<times> tenancy) res" where
  "resolveResidentUser hash s now newUserId randomPw org d =
     (if truthy (mi_residentUserId d)
      then andThen (orThrow (List.find (\<lambda>x. Some (us_id x) = mi_residentUserId d \<and> us_orgId x = Some org \<and> us_isActive x)
                      (users (core s))) (NotFound ''Resident user not found'')) (\<lambda>x. Inr (us_id x, s))
      else
        andThen (orThrow (mi_resident d) (BadRequest ''Resident details are required'')) (\<lambda>r.
        let email = normalizeEmail (nr_email r)
        in case List.find (\<lambda>x. toLowerCase (us_email x) = email) (users (core s)) of
             Some x \<Rightarrow> Inl (Conflict (describeEmailOwnershipConflict (us_orgId x) (Some org)))
           | None \<Rightarrow>
               let password = (case nr_password r of
                     Some p \<Rightarrow> if trim p \<noteq> [] then trim p else randomPw
                   | None \<Rightarrow> randomPw)
               in andThen (createUserRow s
                    \<lparr> us_id = newUserId, us_email = email, us_orgId = Some org, us_isActive = True,
                      us_name = Some (trim (nr_name r)), us_avatarUrl = None, us_phone = map_option trim (nr_phone r),
                      us_passwordHash = hash password, us_refreshTokenHash = None, us_mustChangePassword = True,
                      us_createdAt = now \<rparr>) (\<lambda>s1. Inr (newUserId, s1))))"

definition upsertProfileByUserId :: "tenancy \<Rightarrow> string \<Rightarrow> string \<Rightarrow> string \<Rightarrow> profile_data \<Rightarrow> tenancy" where
  "upsertProfileByUserId s newId org userId p =
     (if list_ex (\<lambda>x. rf_userId x = userId) (tn_profiles s)
      then s\<lparr> tn_profiles := map (\<lambda>x. if rf_userId x = userId then x\<lparr> rf_data := p \<rparr> else x) (tn_profiles s) \<rparr>
      else s\<lparr> tn_profiles := tn_profiles s @
               [\<lparr> rf_id = newId, rf_orgId = org, rf_userId = userId, rf_preferredBuildingId = None, rf_data = p \<rparr>] \<rparr>)"

section \<open>Moving in\<close>

text \<open>\<^verbatim>\<open>new Decimal(text)\<close> raises when the text is not a decimal.\<close>

definition newDecimal :: "(string \<Rightarrow> rat option) \<Rightarrow> string \<Rightarrow> rat res" where
  "newDecimal dec v = orThrow (dec v) InvalidDecimal"

definition truthyDecimal :: "(string \<Rightarrow> rat option) \<Rightarrow> string option \<Rightarrow> rat option res" where
  "truthyDecimal dec v = (if truthy v then andThen (newDecimal dec (the v)) (\<lambda>x. Inr (Some x)) else Inr None)"

definition leaseOfMoveIn ::
  "(string \<Rightarrow> rat option) \<Rightarrow> int \<Rightarrow> string \<Rightarrow> string \<Rightarrow> string \<Rightarrow> string \<Rightarrow> string \<Rightarrow> move_in_dto \<Rightarrow> lease_row res" where
  "leaseOfMoveIn dec now leaseId org bldg unitId occupancyId d =
     andThen (newDecimal dec (mi_annualRent d)) (\<lambda>rent.
     andThen (newDecimal dec (mi_securityDepositAmount d)) (\<lambda>deposit.
     andThen (truthyDecimal dec (mi_firstPaymentAmount d)) (\<lambda>payment.
     andThen (truthyDecimal dec (mi_depositReceivedAmount d)) (\<lambda>received.
     Inr \<lparr> le_id = leaseId, le_orgId = org, le_buildingId = bldg, le_unitId = unitId,
           le_occupancyId = Some occupancyId, le_residentUserId = None, le_status = LE_ACTIVE,
           le_contract = no_contract,
           le_terms =
             \<lparr> lt_leaseStartDate = mi_leaseStartDate d, lt_leaseEndDate = mi_leaseEndDate d,
               lt_tenancyRegistrationExpiry = mi_tenancyRegistrationExpiry d, lt_noticeGivenDate = mi_noticeGivenDate d,
               lt_annualRent = rent, lt_paymentFrequency = mi_paymentFrequency d,
               lt_numberOfCheques = mi_numberOfCheques d, lt_securityDepositAmount = deposit,
               lt_internetTvProvider = mi_internetTvProvider d, lt_serviceChargesPaidBy = mi_serviceChargesPaidBy d,
               lt_vatApplicable = mi_vatApplicable d, lt_notes = mi_notes d,
               lt_firstPaymentReceived = mi_firstPaymentReceived d, lt_firstPaymentAmount = payment,
               lt_depositReceived = mi_depositReceived d, lt_depositReceivedAmount = received \<rparr>,
           le_out = no_moveout, le_createdAt = now \<rparr>))))"

definition allocateParkingSlots ::
  "tenancy \<Rightarrow> int \<Rightarrow> (nat \<Rightarrow> string) \<Rightarrow> string \<Rightarrow> string \<Rightarrow> string list \<Rightarrow> string \<Rightarrow> int \<Rightarrow> tenancy res" where
  "allocateParkingSlots s now ids org bldg slotIds occupancyId startDate =
     andThen (ensure (length (findSlotsByIds s org bldg slotIds) = length slotIds)
                (NotFound ''Parking slot not found in org/building'')) (\<lambda>_.
     andThen (ensure (findActiveAllocationsForSlots s slotIds = []) (Conflict ''Parking slot already allocated'')) (\<lambda>_.
     createManyAllocations s (newAllocations now ids org bldg (ForOccupancy occupancyId) startDate slotIds)))"

fun createVehicles :: "int \<Rightarrow> (nat \<Rightarrow> string) \<Rightarrow> nat \<Rightarrow> string \<Rightarrow> string \<Rightarrow> string list \<Rightarrow> tenancy \<Rightarrow> tenancy res" where
  "createVehicles now ids k org occupancyId [] s = Inr s"
| "createVehicles now ids k org occupancyId (plate # plates) s =
     andThen (createVehicleRow s now (ids k) org occupancyId (trim plate) None) (\<lambda>(v, s1).
     createVehicles now ids (Suc k) org occupancyId plates s1)"

fun createDocuments :: "int \<Rightarrow> (nat \<Rightarrow> string) \<Rightarrow> nat \<Rightarrow> string \<Rightarrow> string \<Rightarrow> document_dto list \<Rightarrow> tenancy \<Rightarrow> tenancy res" where
  "createDocuments now ids k org leaseId [] s = Inr s"
| "createDocuments now ids k org leaseId (d # ds) s =
     andThen (createDocumentRow s now (ids k) org leaseId d) (\<lambda>(x, s1).
     createDocuments now ids (Suc k) org leaseId ds s1)"

fun issuedTwice :: "item_kind \<Rightarrow> string" where
  "issuedTwice ACCESS_CARD = ''Duplicate access card numbers''"
| "issuedTwice PARKING_STICKER = ''Duplicate parking sticker numbers''"

fun issuedBefore :: "item_kind \<Rightarrow> string" where
  "issuedBefore ACCESS_CARD = ''Access card already exists for lease''"
| "issuedBefore PARKING_STICKER = ''Parking sticker already exists''"

definition issueItems ::
  "item_kind \<Rightarrow> tenancy \<Rightarrow> int \<Rightarrow> (nat \<Rightarrow> string) \<Rightarrow> string \<Rightarrow> string list option \<Rightarrow> tenancy res" where
  "issueItems k s now ids leaseId numbers0 =
     (case numbers0 of
        None \<Rightarrow> Inr s
      | Some [] \<Rightarrow> Inr s
      | Some numbers \<Rightarrow>
          let unique = normalizeNames numbers in
          andThen (ensure (length unique = length numbers) (Conflict (issuedTwice k))) (\<lambda>_.
          andThen (ensure (findByNumbers k s leaseId unique = []) (Conflict (issuedBefore k))) (\<lambda>_.
          createManyItems k s now ids leaseId unique)))"

definition mapMoveInError :: "string \<Rightarrow> move_in_dto \<Rightarrow> error \<Rightarrow> error option" where
  "mapMoveInError unitId d e =
     (let hint = (if truthy (mi_residentUserId d) then '' for resident '' @ the (mi_residentUserId d) else [])
      in case detectOccupancyConstraint e of
           Some CT_UNIT \<Rightarrow> Some (Conflict (''Unit already has an active occupancy ('' @ unitId @ '')''))
         | Some CT_RESIDENT \<Rightarrow> Some (Conflict (''Resident already has an active occupancy'' @ hint))
         | Some CT_STATUS \<Rightarrow> Some (BadRequest ''Invalid occupancy state'')
         | None \<Rightarrow>
             (case e of
                ConstraintViolation n \<Rightarrow>
                  if n = ''occupancyId'' then Some (Conflict ''Lease already exists for occupancy'') else None
              | UniqueViolation \<Rightarrow> Some (Conflict ''Duplicate value'')
              | _ \<Rightarrow> None))"

text \<open>The rows around the new lease: profile, occupants, parking, vehicles, cards, stickers and documents.\<close>

definition moveInExtras ::
  "tenancy \<Rightarrow> int \<Rightarrow> (string \<Rightarrow> nat \<Rightarrow> string) \<Rightarrow> principal \<Rightarrow> string \<Rightarrow> string \<Rightarrow> string \<Rightarrow> string \<Rightarrow> string \<Rightarrow> move_in_dto
   \<Rightarrow> tenancy res" where
  "moveInExtras s now ids u org bldg residentUserId occupancyId leaseId d =
     (let s1 = (case mi_residentProfile d of
            None \<Rightarrow> s | Some p \<Rightarrow> upsertProfileByUserId s (ids ''ResidentProfile'' 0) org residentUserId p);
          s2 = (case mi_occupantNames d of
            None \<Rightarrow> s1 | Some names \<Rightarrow> replaceOccupantRows s1 now (ids ''LeaseOccupant'') leaseId (normalizeNames names))
      in andThen (case mi_parkingSlotIds d of
            None \<Rightarrow> Inr s2
          | Some [] \<Rightarrow> Inr s2
          | Some slotIds \<Rightarrow>
              andThen (allocateParkingSlots s2 now (ids ''ParkingAllocation'') org bldg slotIds occupancyId
                         (mi_leaseStartDate d)) (\<lambda>s3.
              Inr (createActivity s3 now (ids ''LeaseActivity'' 1) org leaseId LA_PARKING_ALLOCATED (user_sub u)
                [(''slotIds'', JList (map JText slotIds)), (''count'', JNumber (int (length slotIds))),
                 (''occupancyId'', JText occupancyId)]))) (\<lambda>s4.
         andThen (createVehicles now (ids ''Vehicle'') 0 org occupancyId (nullish (mi_vehiclePlateNumbers d) []) s4) (\<lambda>s5.
         andThen (issueItems ACCESS_CARD s5 now (ids ''LeaseAccessCard'') leaseId (mi_accessCardNumbers d)) (\<lambda>s6.
         andThen (issueItems PARKING_STICKER s6 now (ids ''LeaseParkingSticker'') leaseId (mi_parkingStickerNumbers d)) (\<lambda>s7.
         createDocuments now (ids ''LeaseDocument'') 0 org leaseId (nullish (mi_documents d) []) s7)))))"

definition moveInTransaction ::
  "(string \<Rightarrow> rat option) \<Rightarrow> (string \<Rightarrow> string) \<Rightarrow> tenancy \<Rightarrow> int \<Rightarrow> (string \<Rightarrow> nat \<Rightarrow> string) \<Rightarrow> string \<Rightarrow> principal
   \<Rightarrow> string \<Rightarrow> string \<Rightarrow> string \<Rightarrow> move_in_dto \<Rightarrow> (lease_row \<times> tenancy) res" where
  "moveInTransaction dec hash s now ids randomPw u org bldg unitId d =
     andThen (resolveResidentUser hash s now (ids ''User'' 0) randomPw org d) (\<lambda>(residentUserId, s1).
     andThen (ensure (\<not> hasActiveForUnit s1 unitId) (Conflict ''Unit already has an active occupancy'')) (\<lambda>_.
     andThen (ensure (\<not> hasActiveForResident s1 residentUserId)
                (Conflict ''Resident already has an active occupancy'')) (\<lambda>_.
     let occupancyId = ids ''Occupancy'' 0 in
     andThen (createOccupancyRow s1 (newOccupancy now occupancyId bldg unitId residentUserId (mi_leaseStartDate d))) (\<lambda>s2.
     andThen (leaseOfMoveIn dec now (ids ''Lease'' 0) org bldg unitId occupancyId d) (\<lambda>l0.
     andThen (createLease s2 l0) (\<lambda>(l, s3).
     let s4 = createHistory s3 now (ids ''LeaseHistory'' 0) org (le_id l) LH_CREATED (user_sub u)
                (buildLeaseCreationChangeSet l);
         s5 = createActivity s4 now (ids ''LeaseActivity'' 0) org (le_id l) LA_MOVE_IN (user_sub u)
                [(''occupancyId'', JText occupancyId), (''residentUserId'', JText residentUserId),
                 (''buildingId'', JText bldg), (''unitId'', JText unitId),
                 (''leaseStartDate'', JDate (mi_leaseStartDate d)), (''leaseEndDate'', JDate (mi_leaseEndDate d))]
     in andThen (moveInExtras s5 now ids u org bldg residentUserId occupancyId (le_id l) d) (\<lambda>s6. Inr (l, s6))))))))"

definition moveIn ::
  "(string \<Rightarrow> rat option) \<Rightarrow> (string \<Rightarrow> string) \<Rightarrow> tenancy \<Rightarrow> int \<Rightarrow> (string \<Rightarrow> nat \<Rightarrow> string) \<Rightarrow> string \<Rightarrow> principal
   \<Rightarrow> string \<Rightarrow> move_in_dto \<Rightarrow> (lease_row \<times> tenancy) res" where
  "moveIn dec hash s now ids randomPw u bldg d =
     andThen (orgBuilding (core s) u bldg) (\<lambda>org.
     andThen (orThrow (findUnitForBuilding (core s) bldg (mi_unitId d)) (BadRequest ''Unit not in building'')) (\<lambda>n.
     catchMap (mapMoveInError (un_id n) d) (moveInTransaction dec hash s now ids randomPw u org bldg (un_id n) d)))"

section \<open>Moving out\<close>

text \<open>The data a client sends: the columns as they go into the row, the amounts as texts.\<close>

record move_out_dto =
  mo_actualMoveOutDate :: int
  mo_columns :: lease_moveout
  mo_damageCharges :: "string option"
  mo_pendingRent :: "string option"
  mo_pendingUtilities :: "string option"
  mo_pendingServiceFines :: "string option"
  mo_totalDeductions :: "string option"
  mo_netRefund :: "string option"
  mo_markAllAccessCardsReturned :: "bool option"
  mo_markAllParkingStickersReturned :: "bool option"

definition onlyDate :: "int \<Rightarrow> move_out_dto" where
  "onlyDate d =
     \<lparr> mo_actualMoveOutDate = d, mo_columns = no_moveout, mo_damageCharges = None, mo_pendingRent = None,
       mo_pendingUtilities = None, mo_pendingServiceFines = None, mo_totalDeductions = None, mo_netRefund = None,
       mo_markAllAccessCardsReturned = None, mo_markAllParkingStickersReturned = None \<rparr>"

definition returnItems :: "item_kind \<Rightarrow> int \<Rightarrow> string \<Rightarrow> tenancy \<Rightarrow> tenancy" where
  "returnItems k now leaseId s =
     setItems k (map (\<lambda>x. if ai_leaseId x = leaseId \<and> ai_status x = ISSUED
       then x\<lparr> ai_status := RETURNED, ai_returnedAt := Some now \<rparr> else x) (itemsOf k s)) s"

definition endOccupancy :: "string \<Rightarrow> int \<Rightarrow> tenancy \<Rightarrow> tenancy" where
  "endOccupancy occupancyId endAt s =
     setOccupancies (map (\<lambda>oc. if oc_id oc = occupancyId then oc\<lparr> oc_status := OC_ENDED, oc_endAt := Some endAt \<rparr> else oc)
       (occupancies (core s))) s"

definition deductionsOf :: "(string \<Rightarrow> rat option) \<Rightarrow> lease_row \<Rightarrow> move_out_dto \<Rightarrow> rat res" where
  "deductionsOf dec l d =
     (case mo_totalDeductions d of
        Some t \<Rightarrow> newDecimal dec t
      | None \<Rightarrow> Inr (nullish (lx_totalDeductions (le_out l)) 0))"

definition refundOf :: "(string \<Rightarrow> rat option) \<Rightarrow> lease_row \<Rightarrow> rat \<Rightarrow> move_out_dto \<Rightarrow> rat res" where
  "refundOf dec l deductions d =
     (case mo_netRefund d of
        Some t \<Rightarrow> newDecimal dec t
      | None \<Rightarrow> Inr (max 0 (lt_securityDepositAmount (le_terms l) - deductions)))"

definition moveOutColumns :: "(string \<Rightarrow> rat option) \<Rightarrow> lease_row \<Rightarrow> move_out_dto \<Rightarrow> lease_moveout res" where
  "moveOutColumns dec l d =
     andThen (deductionsOf dec l d) (\<lambda>deductions.
     andThen (refundOf dec l deductions d) (\<lambda>refund.
     andThen (truthyDecimal dec (mo_damageCharges d)) (\<lambda>damage.
     andThen (truthyDecimal dec (mo_pendingRent d)) (\<lambda>rent.
     andThen (truthyDecimal dec (mo_pendingUtilities d)) (\<lambda>utilities.
     andThen (truthyDecimal dec (mo_pendingServiceFines d)) (\<lambda>fines.
     Inr ((mo_columns d)\<lparr> lx_actualMoveOutDate := Some (mo_actualMoveOutDate d), lx_damageCharges := damage,
            lx_pendingRent := rent, lx_pendingUtilities := utilities, lx_pendingServiceFines := fines,
            lx_totalDeductions := Some deductions, lx_netRefund := Some refund \<rparr>)))))))"

definition moveOutTransaction ::
  "(string \<Rightarrow> rat option) \<Rightarrow> tenancy \<Rightarrow> int \<Rightarrow> (string \<Rightarrow> nat \<Rightarrow> string) \<Rightarrow> principal \<Rightarrow> string \<Rightarrow> lease_row \<Rightarrow> string
   \<Rightarrow> move_out_dto \<Rightarrow> (lease_row \<times> tenancy) res" where
  "moveOutTransaction dec s now ids u org l occupancyId d =
     (let s1 = (if mo_markAllAccessCardsReturned d \<noteq> Some False then returnItems ACCESS_CARD now (le_id l) s else s);
          s2 = (if mo_markAllParkingStickersReturned d \<noteq> Some False then returnItems PARKING_STICKER now (le_id l) s1 else s1);
          s3 = endAllocations (ofOccupancy org occupancyId) (mo_actualMoveOutDate d) s2;
          s4 = endOccupancy occupancyId (mo_actualMoveOutDate d) s3
      in andThen (moveOutColumns dec l d) (\<lambda>x.
         andThen (updateLeaseRow s4 (le_id l) (\<lambda>m. m\<lparr> le_status := LE_ENDED, le_out := x \<rparr>)) (\<lambda>(l', s5).
         let s6 = recordChanges s5 now (ids ''LeaseHistory'' 0) org LH_MOVED_OUT (user_sub u) l l'
         in Inr (l', createActivity s6 now (ids ''LeaseActivity'' 0) org (le_id l') LA_MOVE_OUT (user_sub u)
              [(''occupancyId'', JText occupancyId), (''actualMoveOutDate'', JDate (mo_actualMoveOutDate d))]))))"

definition moveOut ::
  "(string \<Rightarrow> rat option) \<Rightarrow> tenancy \<Rightarrow> int \<Rightarrow> (string \<Rightarrow> nat \<Rightarrow> string) \<Rightarrow> principal \<Rightarrow> string \<Rightarrow> string \<Rightarrow> move_out_dto
   \<Rightarrow> (lease_row \<times> tenancy) res" where
  "moveOut dec s now ids u bldg leaseId d =
     andThen (orgBuilding (core s) u bldg) (\<lambda>org.
     andThen (orThrow (List.find (\<lambda>l. le_id l = leaseId \<and> le_orgId l = org \<and> le_buildingId l = bldg) (tn_leases s))
                (NotFound ''Lease not found'')) (\<lambda>l.
     andThen (ensure (le_status l = LE_ACTIVE) (Conflict ''Only active lease can be moved out'')) (\<lambda>_.
     andThen (ensure (truthy (le_occupancyId l)) (Conflict ''Lease has no active occupancy'')) (\<lambda>_.
     moveOutTransaction dec s now ids u org l (the (le_occupancyId l)) d))))"

end
