(* ===== verification/Occupancies.thy ===== *)
theory Occupancies
  imports LeaseLifecycle
begin

text \<open>
  \<^verbatim>\<open>occupancies.service.ts\<close> and \<^verbatim>\<open>occupancies.repo.ts\<close>: an occupancy that is made without a lease, the pages of a
  building's occupancies and their number. \<open>collate\<close> gives the sort keys of the database's text order, in
  which a missing name comes after every name.
\<close>

section \<open>Creation\<close>

definition createOccupancy ::
  "tenancy \<Rightarrow> int \<Rightarrow> string \<Rightarrow> principal \<Rightarrow> string \<Rightarrow> string \<Rightarrow> string \<Rightarrow> (occupancy_row \<times> tenancy) res" where
  "createOccupancy s now newId u bldg unitId residentUserId =
     andThen (orgBuilding (core s) u bldg) (\<lambda>org.
     andThen (orThrow (findUnitForBuilding (core s) bldg unitId) (BadRequest ''Unit not in building'')) (\<lambda>n.
     andThen (orThrow (find_by us_id residentUserId (users (core s))) (BadRequest ''Resident not in org'')) (\<lambda>r.
     andThen (ensure (us_isActive r \<and> us_orgId r = Some org) (BadRequest ''Resident not in org'')) (\<lambda>_.
     andThen (ensure (\<not> hasActiveForUnit s (un_id n)) (Conflict ''Unit is already occupied'')) (\<lambda>_.
     andThen (ensure (\<not> hasActiveForResident s (us_id r)) (Conflict ''Resident already occupying a unit'')) (\<lambda>_.
     let oc = newOccupancy now newId bldg (un_id n) (us_id r) now
     in catchMap mapOccupancyConstraintError (andThen (createOccupancyRow s oc) (\<lambda>s1. Inr (oc, s1)))))))))"

definition countActiveByBuilding :: "tenancy \<Rightarrow> string \<Rightarrow> nat" where
  "countActiveByBuilding s bldg =
     length (filter (\<lambda>x. oc_buildingId x = bldg \<and> oc_status x = OC_ACTIVE) (occupancies (core s)))"

definition countActive :: "tenancy \<Rightarrow> principal \<Rightarrow> string \<Rightarrow> nat res" where
  "countActive s u bldg = andThen (orgBuilding (core s) u bldg) (\<lambda>_. Inr (countActiveByBuilding s bldg))"

section \<open>Lists\<close>

datatype occupancy_sort = SORT_CREATED | SORT_START | SORT_RESIDENT | SORT_UNIT

type_synonym occupancy_key = "(int \<times> bool \<times> nat list) \<times> string"

definition residentName :: "tenancy \<Rightarrow> occupancy_row \<Rightarrow> string option" where
  "residentName s oc = (case find_by us_id (oc_residentUserId oc) (users (core s)) of None \<Rightarrow> None | Some x \<Rightarrow> us_name x)"

definition unitLabelOf :: "tenancy \<Rightarrow> occupancy_row \<Rightarrow> string option" where
  "unitLabelOf s oc = map_option un_label (find_by un_id (oc_unitId oc) (units (core s)))"

definition textKey :: "(string \<Rightarrow> nat list) \<Rightarrow> string option \<Rightarrow> int \<times> bool \<times> nat list" where
  "textKey collate x = (case x of None \<Rightarrow> (0, True, []) | Some v \<Rightarrow> (0, False, collate v))"

definition occupancyKey :: "(string \<Rightarrow> nat list) \<Rightarrow> tenancy \<Rightarrow> occupancy_sort \<Rightarrow> occupancy_row \<Rightarrow> occupancy_key" where
  "occupancyKey collate s field oc =
     (case field of
        SORT_CREATED \<Rightarrow> (oc_createdAt oc, False, [])
      | SORT_START \<Rightarrow> (oc_startAt oc, False, [])
      | SORT_RESIDENT \<Rightarrow> textKey collate (residentName s oc)
      | SORT_UNIT \<Rightarrow> textKey collate (unitLabelOf s oc), oc_id oc)"

text \<open>The value of a cursor: a date or a text, as the sort field has it. A missing text is encoded as the empty one.\<close>

type_synonym occupancy_cursor = "(int + string) \<times> string"

definition occupancyCursor :: "tenancy \<Rightarrow> occupancy_sort \<Rightarrow> occupancy_row \<Rightarrow> occupancy_cursor" where
  "occupancyCursor s field oc =
     (case field of
        SORT_CREATED \<Rightarrow> Inl (oc_createdAt oc)
      | SORT_START \<Rightarrow> Inl (oc_startAt oc)
      | SORT_RESIDENT \<Rightarrow> Inr (nullish (residentName s oc) [])
      | SORT_UNIT \<Rightarrow> Inr (nullish (unitLabelOf s oc) []), oc_id oc)"

definition cursorValue :: "(string \<Rightarrow> nat list) \<Rightarrow> int + string \<Rightarrow> int \<times> bool \<times> nat list" where
  "cursorValue collate v = (case v of Inl d \<Rightarrow> (d, False, []) | Inr t \<Rightarrow> textKey collate (Some t))"

text \<open>A comparison with a missing name is neither true nor false: such a row never comes after a cursor.\<close>

definition afterOccupancyCursor ::
  "(string \<Rightarrow> nat list) \<Rightarrow> tenancy \<Rightarrow> occupancy_sort \<Rightarrow> sort_order \<Rightarrow> occupancy_cursor option \<Rightarrow> occupancy_row \<Rightarrow> bool" where
  "afterOccupancyCursor collate s field ord c oc =
     (case c of
        None \<Rightarrow> True
      | Some (v, i) \<Rightarrow>
          let k = fst (occupancyKey collate s field oc); k' = cursorValue collate v
          in \<not> fst (snd k)
             \<and> (case ord of
                  DESC \<Rightarrow> k < k' \<or> k = k' \<and> oc_id oc < i
                | ASC \<Rightarrow> k > k' \<or> k = k' \<and> oc_id oc > i))"

definition occupancyMatches :: "(string \<Rightarrow> string \<Rightarrow> bool) \<Rightarrow> tenancy \<Rightarrow> string \<Rightarrow> occupancy_row \<Rightarrow> bool" where
  "occupancyMatches ilike s q oc \<longleftrightarrow>
     optText (\<lambda>n. ilike n q) (residentName s oc)
     \<or> userText s (oc_residentUserId oc) (\<lambda>x. ilike (us_email x) q)
     \<or> optText (\<lambda>n. ilike n q) (unitLabelOf s oc)"

definition listOccupancyRows ::
  "(string \<Rightarrow> nat list) \<Rightarrow> (string \<Rightarrow> string \<Rightarrow> bool) \<Rightarrow> tenancy \<Rightarrow> string \<Rightarrow> occupancy_status option \<Rightarrow> string option
   \<Rightarrow> occupancy_sort \<Rightarrow> sort_order \<Rightarrow> occupancy_cursor option \<Rightarrow> nat option \<Rightarrow> occupancy_row list" where
  "listOccupancyRows collate ilike s bldg status q field ord c limit =
     (let rows = sort_key (occupancyKey collate s field)
            (filter (\<lambda>oc. oc_buildingId oc = bldg \<and> statusFilter (Some status) (oc_status oc)
               \<and> whenSet (map_option trim q) (\<lambda>t. occupancyMatches ilike s t oc)
               \<and> afterOccupancyCursor collate s field ord c oc) (occupancies (core s)));
          ordered = (case ord of ASC \<Rightarrow> rows | DESC \<Rightarrow> rev rows)
      in case limit of None \<Rightarrow> ordered | Some n \<Rightarrow> take n ordered)"

record occupancy_query =
  oq_status :: "occupancy_status option option"
  oq_q :: "string option"
  oq_sort :: "occupancy_sort option"
  oq_order :: "sort_order option"
  oq_limit :: "nat option"
  oq_cursor :: "occupancy_cursor option option"

definition listOccupancies ::
  "(string \<Rightarrow> nat list) \<Rightarrow> (string \<Rightarrow> string \<Rightarrow> bool) \<Rightarrow> tenancy \<Rightarrow> principal \<Rightarrow> string \<Rightarrow> occupancy_query
   \<Rightarrow> (occupancy_row list \<times> occupancy_cursor option) res" where
  "listOccupancies collate ilike s u bldg q =
     andThen (orgBuilding (core s) u bldg) (\<lambda>org.
     let status = nullish (oq_status q) (Some OC_ACTIVE);
         field = nullish (oq_sort q) SORT_CREATED;
         ord = nullish (oq_order q) DESC;
         limit = (case oq_limit q of Some n \<Rightarrow> Some n | None \<Rightarrow> if oq_cursor q \<noteq> None then Some 50 else None)
     in andThen (readCursor (oq_cursor q)) (\<lambda>c.
        case limit of
          Some (Suc n) \<Rightarrow>
            Inr (cutPage (occupancyCursor s field) (Suc n)
              (listOccupancyRows collate ilike s bldg status (oq_q q) field ord c (Some (Suc (Suc n)))))
        | _ \<Rightarrow> Inr (listOccupancyRows collate ilike s bldg status (oq_q q) field ord c None, None)))"

end
