(* ===== verification/Contracts.thy ===== *)
theory Contracts
  imports Occupancies
begin

text \<open>
  The first half of \<^verbatim>\<open>contracts.service.ts\<close>: drafts, lists, edits, activation, cancellation and additional terms of
  a contract, which is a row of the lease table. A field of the data of an edit that may be \<^verbatim>\<open>null\<close> has an option
  inside the one that says whether it was sent.
\<close>

section \<open>Reads\<close>

definition findContractOrThrow :: "tenancy \<Rightarrow> string \<Rightarrow> string \<Rightarrow> lease_row res" where
  "findContractOrThrow s org contractId = orThrow (findLeaseById s org contractId) (NotFound ''Contract not found'')"

definition contractResident :: "tenancy \<Rightarrow> lease_row \<Rightarrow> string option" where
  "contractResident s l = orElse (le_residentUserId l) (map_option oc_residentUserId (occupancyOf s l))"

definition assertContractResidentOwnership :: "tenancy \<Rightarrow> lease_row \<Rightarrow> string \<Rightarrow> unit res" where
  "assertContractResidentOwnership s l userId =
     ensure (truthy (contractResident s l) \<and> contractResident s l = Some userId)
       (Unauthorized ''Not allowed to request move for this contract'')"

definition getContractById :: "tenancy \<Rightarrow> principal \<Rightarrow> string \<Rightarrow> lease_row res" where
  "getContractById s u contractId = andThen (assertOrgScope u) (\<lambda>org. findContractOrThrow s org contractId)"

definition ownContract :: "tenancy \<Rightarrow> principal \<Rightarrow> string \<Rightarrow> (string \<times> string \<times> lease_row) res" where
  "ownContract s u contractId =
     andThen (orgAndUser u) (\<lambda>(org, userId).
     andThen (findContractOrThrow s org contractId) (\<lambda>l.
     andThen (assertContractResidentOwnership s l userId) (\<lambda>_. Inr (org, userId, l))))"

definition getResidentContractById :: "tenancy \<Rightarrow> principal \<Rightarrow> string \<Rightarrow> lease_row res" where
  "getResidentContractById s u contractId = andThen (ownContract s u contractId) (\<lambda>(org, userId, l). Inr l)"

definition contractMatches :: "(string \<Rightarrow> string \<Rightarrow> bool) \<Rightarrow> tenancy \<Rightarrow> string \<Rightarrow> lease_row \<Rightarrow> bool" where
  "contractMatches ilike s q l \<longleftrightarrow>
     le_id l = q \<or> lc_ijariId (le_contract l) = Some q
     \<or> optText (\<lambda>v. ilike v q) (lc_propertyNumber (le_contract l))
     \<or> optText (\<lambda>v. ilike v q) (lc_tenantNameSnapshot (le_contract l))
     \<or> optText (\<lambda>v. ilike v q) (lc_tenantEmailSnapshot (le_contract l))
     \<or> (case find_by un_id (le_unitId l) (units (core s)) of None \<Rightarrow> False | Some n \<Rightarrow> ilike (un_label n) q)
     \<or> (case find_by bd_id (le_buildingId l) (buildings (core s)) of None \<Rightarrow> False | Some b \<Rightarrow> ilike (bd_name b) q)
     \<or> optText (\<lambda>i. userText s i (\<lambda>x. optText (\<lambda>v. ilike v q) (us_name x) \<or> ilike (us_email x) q)) (le_residentUserId l)
     \<or> occupancySat s l (\<lambda>oc. userText s (oc_residentUserId oc)
          (\<lambda>x. optText (\<lambda>v. ilike v q) (us_name x) \<or> ilike (us_email x) q))"

definition listContractRows ::
  "(string \<Rightarrow> string \<Rightarrow> bool) \<Rightarrow> tenancy \<Rightarrow> string \<Rightarrow> lease_query \<Rightarrow> nat \<Rightarrow> lease_row list" where
  "listContractRows ilike s org q limit =
     take limit (orderRows (nullish (lq_order q) DESC) lease_key
       (filter (leaseWhere (contractMatches ilike s) s org q) (tn_leases s)))"

definition listContracts ::
  "(string \<Rightarrow> string \<Rightarrow> bool) \<Rightarrow> tenancy \<Rightarrow> principal \<Rightarrow> lease_query \<Rightarrow> cursor option option
   \<Rightarrow> (lease_row list \<times> cursor option) res" where
  "listContracts ilike s u q c0 =
     andThen (assertOrgScope u) (\<lambda>org.
     andThen (readCursor c0) (\<lambda>c.
     let limit = nat (clampLimit 20 100 (lq_limit q))
     in Inr (cutPage lease_key limit (listContractRows ilike s org (q\<lparr> lq_cursor := c \<rparr>) (Suc limit)))))"

definition listResidentContracts ::
  "tenancy \<Rightarrow> principal \<Rightarrow> lease_query \<Rightarrow> cursor option option \<Rightarrow> (lease_row list \<times> cursor option) res" where
  "listResidentContracts s u q c0 =
     andThen (orgAndUser u) (\<lambda>(org, userId).
     andThen (readCursor c0) (\<lambda>c.
     let limit = nat (clampLimit 20 100 (lq_limit q))
     in Inr (cutPage lease_key limit (listByResident s org userId (q\<lparr> lq_cursor := c \<rparr>) (Suc limit)))))"

definition latestContract :: "tenancy \<Rightarrow> string \<Rightarrow> string \<Rightarrow> lease_row option" where
  "latestContract s org userId =
     (case newestRows lease_key (filter (\<lambda>l. le_orgId l = org \<and> leaseOfResident s userId l) (tn_leases s)) of
        [] \<Rightarrow> None
      | l # _ \<Rightarrow> Some l)"

definition getLatestContractForResident :: "tenancy \<Rightarrow> principal \<Rightarrow> string \<Rightarrow> lease_row option res" where
  "getLatestContractForResident s u residentUserId =
     andThen (assertOrgScope u) (\<lambda>org. Inr (latestContract s org residentUserId))"

section \<open>Drafts\<close>

record contract_dto =
  cd_unitId :: string
  cd_residentUserId :: string
  cd_contractPeriodFrom :: int
  cd_contractPeriodTo :: int
  cd_annualRent :: string
  cd_paymentFrequency :: payment_frequency
  cd_numberOfCheques :: "int option"
  cd_securityDepositAmount :: string
  cd_contractValue :: "string option"
  cd_propertySizeSqm :: "string option"
  cd_columns :: lease_contract
  cd_notes :: "string option"
  cd_additionalTerms :: "string list option"

definition normalizeTerms :: "string list \<Rightarrow> string list" where
  "normalizeTerms terms = dedupeNames [] terms"

definition createTerms :: "tenancy \<Rightarrow> int \<Rightarrow> (nat \<Rightarrow> string) \<Rightarrow> string \<Rightarrow> string \<Rightarrow> string list \<Rightarrow> tenancy" where
  "createTerms s now ids org leaseId terms =
     s\<lparr> tn_additionalTerms := tn_additionalTerms s @
          map (\<lambda>(j, t). \<lparr> lm_id = ids j, lm_leaseId = leaseId, lm_orgId = org, lm_termText = t, lm_createdAt = now \<rparr>)
            (enumerate 0 terms) \<rparr>"

definition unitTypeNameOf :: "tenancy \<Rightarrow> unit_row \<Rightarrow> string option" where
  "unitTypeNameOf s n =
     (case un_unitTypeId n of None \<Rightarrow> None | Some i \<Rightarrow> map_option ut_name (find_by ut_id i (tn_unitTypes s)))"

definition draftLease ::
  "tenancy \<Rightarrow> int \<Rightarrow> string \<Rightarrow> string \<Rightarrow> building_row \<Rightarrow> unit_row \<Rightarrow> user_row \<Rightarrow> contract_dto
   \<Rightarrow> rat \<Rightarrow> rat \<Rightarrow> rat \<Rightarrow> rat option \<Rightarrow> lease_row" where
  "draftLease s now leaseId org b n r d rent deposit value sqm =
     (let c = cd_columns d in
      \<lparr> le_id = leaseId, le_orgId = org, le_buildingId = bd_id b, le_unitId = un_id n, le_occupancyId = None,
        le_residentUserId = Some (us_id r), le_status = LE_DRAFT,
        le_contract = c\<lparr> lc_tenantNameSnapshot := orElse (lc_tenantNameSnapshot c) (us_name r),
          lc_tenantEmailSnapshot := orElse (lc_tenantEmailSnapshot c) (Some (us_email r)),
          lc_tenantPhoneSnapshot := orElse (lc_tenantPhoneSnapshot c) (us_phone r),
          lc_buildingNameSnapshot := orElse (lc_buildingNameSnapshot c) (Some (bd_name b)),
          lc_locationCommunity := orElse (lc_locationCommunity c) (Some (bd_city b)),
          lc_propertySizeSqm := sqm,
          lc_propertyTypeLabel := orElse (lc_propertyTypeLabel c) (unitTypeNameOf s n),
          lc_propertyNumber := orElse (lc_propertyNumber c) (Some (un_label n)),
          lc_contractValue := Some value \<rparr>,
        le_terms =
          \<lparr> lt_leaseStartDate = cd_contractPeriodFrom d, lt_leaseEndDate = cd_contractPeriodTo d,
            lt_tenancyRegistrationExpiry = None, lt_noticeGivenDate = None, lt_annualRent = rent,
            lt_paymentFrequency = cd_paymentFrequency d, lt_numberOfCheques = cd_numberOfCheques d,
            lt_securityDepositAmount = deposit, lt_internetTvProvider = None, lt_serviceChargesPaidBy = None,
            lt_vatApplicable = None, lt_notes = cd_notes d, lt_firstPaymentReceived = None,
            lt_firstPaymentAmount = None, lt_depositReceived = None, lt_depositReceivedAmount = None \<rparr>,
        le_out = no_moveout, le_createdAt = now \<rparr>)"

definition createDraftContract ::
  "(string \<Rightarrow> rat option) \<Rightarrow> tenancy \<Rightarrow> int \<Rightarrow> (string \<Rightarrow> nat \<Rightarrow> string) \<Rightarrow> principal \<Rightarrow> string \<Rightarrow> contract_dto
   \<Rightarrow> (lease_row \<times> tenancy) res" where
  "createDraftContract dec s now ids u bldg d =
     andThen (assertOrgScope u) (\<lambda>org.
     andThen (orThrow (findBuildingForOrg (core s) org bldg) (NotFound ''Building not found'')) (\<lambda>b.
     andThen (orThrow (findUnitForBuilding (core s) bldg (cd_unitId d)) (BadRequest ''Unit not in building'')) (\<lambda>n.
     andThen (orThrow (List.find (\<lambda>x. us_id x = cd_residentUserId d \<and> us_orgId x = Some org \<and> us_isActive x)
                (users (core s))) (BadRequest ''Resident not found in org'')) (\<lambda>r.
     andThen (ensure (\<not> cd_contractPeriodTo d \<le> cd_contractPeriodFrom d)
                (BadRequest ''contractPeriodTo must be after contractPeriodFrom'')) (\<lambda>_.
     andThen (ensure (\<not> list_ex (\<lambda>l. le_orgId l = org \<and> le_unitId l = un_id n \<and> le_status l = LE_ACTIVE) (tn_leases s))
                (Conflict ''Unit already has an active contract'')) (\<lambda>_.
     let terms = normalizeTerms (nullish (cd_additionalTerms d) []) in
     andThen (newDecimal dec (cd_annualRent d)) (\<lambda>rent.
     andThen (newDecimal dec (cd_securityDepositAmount d)) (\<lambda>deposit.
     andThen (if truthy (cd_contractValue d) then newDecimal dec (the (cd_contractValue d)) else Inr rent) (\<lambda>value.
     andThen (truthyDecimal dec (cd_propertySizeSqm d)) (\<lambda>sqm.
     andThen (createLease s (draftLease s now (ids ''Lease'' 0) org b n r d rent deposit value sqm)) (\<lambda>(l, s1).
     let s2 = createTerms s1 now (ids ''LeaseAdditionalTerm'') org (le_id l) terms;
         s3 = createHistory s2 now (ids ''LeaseHistory'' 0) org (le_id l) LH_CREATED (user_sub u)
                (buildLeaseCreationChangeSet l)
     in andThen (getContractById s3 u (le_id l)) (\<lambda>l'. Inr (l', s3)))))))))))))"

section \<open>Edits\<close>

record contract_update =
  cu_contractPeriodFrom :: "int option option"
  cu_contractPeriodTo :: "int option option"
  cu_annualRent :: "string option option"
  cu_paymentFrequency :: "payment_frequency option"
  cu_numberOfCheques :: "int option option"
  cu_securityDepositAmount :: "string option option"
  cu_contractValue :: "string option option"
  cu_paymentModeText :: "string option option"
  cu_ijariId :: "string option option"
  cu_contractDate :: "int option option"
  cu_propertyUsage :: "property_usage option option"
  cu_ownerNameSnapshot :: "string option option"
  cu_landlordNameSnapshot :: "string option option"
  cu_tenantNameSnapshot :: "string option option"
  cu_tenantEmailSnapshot :: "string option option"
  cu_landlordEmailSnapshot :: "string option option"
  cu_tenantPhoneSnapshot :: "string option option"
  cu_landlordPhoneSnapshot :: "string option option"
  cu_buildingNameSnapshot :: "string option option"
  cu_locationCommunity :: "string option option"
  cu_propertySizeSqm :: "string option option"
  cu_propertyTypeLabel :: "string option option"
  cu_propertyNumber :: "string option option"
  cu_premisesNoDewa :: "string option option"
  cu_plotNo :: "string option option"
  cu_notes :: "string option option"

definition no_contract_update :: contract_update where
  "no_contract_update =
     \<lparr> cu_contractPeriodFrom = None, cu_contractPeriodTo = None, cu_annualRent = None, cu_paymentFrequency = None,
       cu_numberOfCheques = None, cu_securityDepositAmount = None, cu_contractValue = None, cu_paymentModeText = None,
       cu_ijariId = None, cu_contractDate = None, cu_propertyUsage = None, cu_ownerNameSnapshot = None,
       cu_landlordNameSnapshot = None, cu_tenantNameSnapshot = None, cu_tenantEmailSnapshot = None,
       cu_landlordEmailSnapshot = None, cu_tenantPhoneSnapshot = None, cu_landlordPhoneSnapshot = None,
       cu_buildingNameSnapshot = None, cu_locationCommunity = None, cu_propertySizeSqm = None,
       cu_propertyTypeLabel = None, cu_propertyNumber = None, cu_premisesNoDewa = None, cu_plotNo = None,
       cu_notes = None \<rparr>"

text \<open>The legal fields are all fields but the notes.\<close>

definition sendsLegalField :: "contract_update \<Rightarrow> bool" where
  "sendsLegalField d \<longleftrightarrow> d\<lparr> cu_notes := None \<rparr> \<noteq> no_contract_update"

text \<open>
  \<^verbatim>\<open>new Date(null)\<close> is the epoch; \<^verbatim>\<open>new Decimal(null)\<close> raises. The optional validators let \<^verbatim>\<open>null\<close> through for the
  period and for the two amounts.
\<close>

definition periodDate :: "int option option \<Rightarrow> int \<Rightarrow> int" where
  "periodDate x old = (case x of None \<Rightarrow> old | Some None \<Rightarrow> 0 | Some (Some v) \<Rightarrow> v)"

definition requiredDecimal :: "(string \<Rightarrow> rat option) \<Rightarrow> string option \<Rightarrow> rat res" where
  "requiredDecimal dec v = (case v of None \<Rightarrow> Inl InvalidDecimal | Some t \<Rightarrow> newDecimal dec t)"

definition optionalDecimal :: "(string \<Rightarrow> rat option) \<Rightarrow> string option \<Rightarrow> rat option res" where
  "optionalDecimal dec v = (case v of None \<Rightarrow> Inr None | Some t \<Rightarrow> andThen (newDecimal dec t) (\<lambda>x. Inr (Some x)))"

definition contractData :: "(string \<Rightarrow> rat option) \<Rightarrow> contract_update \<Rightarrow> (lease_row \<Rightarrow> lease_row) res" where
  "contractData dec d =
     andThen (sent (requiredDecimal dec) (cu_annualRent d)) (\<lambda>rent.
     andThen (sent (requiredDecimal dec) (cu_securityDepositAmount d)) (\<lambda>deposit.
     andThen (sent (optionalDecimal dec) (cu_contractValue d)) (\<lambda>value.
     andThen (sent (optionalDecimal dec) (cu_propertySizeSqm d)) (\<lambda>size.
     Inr (\<lambda>l. l\<lparr>
       le_terms := (le_terms l)\<lparr>
         lt_leaseStartDate := periodDate (cu_contractPeriodFrom d) (lt_leaseStartDate (le_terms l)),
         lt_leaseEndDate := periodDate (cu_contractPeriodTo d) (lt_leaseEndDate (le_terms l)),
         lt_annualRent := nullish rent (lt_annualRent (le_terms l)),
         lt_paymentFrequency := nullish (cu_paymentFrequency d) (lt_paymentFrequency (le_terms l)),
         lt_numberOfCheques := nullish (cu_numberOfCheques d) (lt_numberOfCheques (le_terms l)),
         lt_securityDepositAmount := nullish deposit (lt_securityDepositAmount (le_terms l)),
         lt_notes := nullish (cu_notes d) (lt_notes (le_terms l)) \<rparr>,
       le_contract := (le_contract l)\<lparr>
         lc_contractValue := nullish value (lc_contractValue (le_contract l)),
         lc_paymentModeText := nullish (cu_paymentModeText d) (lc_paymentModeText (le_contract l)),
         lc_ijariId := nullish (cu_ijariId d) (lc_ijariId (le_contract l)),
         lc_contractDate := nullish (cu_contractDate d) (lc_contractDate (le_contract l)),
         lc_propertyUsage := nullish (cu_propertyUsage d) (lc_propertyUsage (le_contract l)),
         lc_ownerNameSnapshot := nullish (cu_ownerNameSnapshot d) (lc_ownerNameSnapshot (le_contract l)),
         lc_landlordNameSnapshot := nullish (cu_landlordNameSnapshot d) (lc_landlordNameSnapshot (le_contract l)),
         lc_tenantNameSnapshot := nullish (cu_tenantNameSnapshot d) (lc_tenantNameSnapshot (le_contract l)),
         lc_tenantEmailSnapshot := nullish (cu_tenantEmailSnapshot d) (lc_tenantEmailSnapshot (le_contract l)),
         lc_landlordEmailSnapshot := nullish (cu_landlordEmailSnapshot d) (lc_landlordEmailSnapshot (le_contract l)),
         lc_tenantPhoneSnapshot := nullish (cu_tenantPhoneSnapshot d) (lc_tenantPhoneSnapshot (le_contract l)),
         lc_landlordPhoneSnapshot := nullish (cu_landlordPhoneSnapshot d) (lc_landlordPhoneSnapshot (le_contract l)),
         lc_buildingNameSnapshot := nullish (cu_buildingNameSnapshot d) (lc_buildingNameSnapshot (le_contract l)),
         lc_locationCommunity := nullish (cu_locationCommunity d) (lc_locationCommunity (le_contract l)),
         lc_propertySizeSqm := nullish size (lc_propertySizeSqm (le_contract l)),
         lc_propertyTypeLabel := nullish (cu_propertyTypeLabel d) (lc_propertyTypeLabel (le_contract l)),
         lc_propertyNumber := nullish (cu_propertyNumber d) (lc_propertyNumber (le_contract l)),
         lc_premisesNoDewa := nullish (cu_premisesNoDewa d) (lc_premisesNoDewa (le_contract l)),
         lc_plotNo := nullish (cu_plotNo d) (lc_plotNo (le_contract l)) \<rparr> \<rparr>)))))"

definition sentValue :: "'a option option \<Rightarrow> 'a option" where
  "sentValue x = (case x of Some (Some v) \<Rightarrow> Some v | _ \<Rightarrow> None)"

definition updateContract ::
  "(string \<Rightarrow> rat option) \<Rightarrow> tenancy \<Rightarrow> int \<Rightarrow> (string \<Rightarrow> nat \<Rightarrow> string) \<Rightarrow> principal \<Rightarrow> string \<Rightarrow> contract_update
   \<Rightarrow> (lease_row \<times> tenancy) res" where
  "updateContract dec s now ids u contractId d =
     andThen (assertOrgScope u) (\<lambda>org.
     andThen (findContractOrThrow s org contractId) (\<lambda>before.
     andThen (ensure (\<not> (le_status before = LE_ACTIVE \<and> truthy (lc_ijariId (le_contract before)) \<and> sendsLegalField d))
       (Conflict ''Legal contract fields are locked for active Ejari-linked contracts. Use amendment/renewal flow.'')) (\<lambda>_.
     let from = sentValue (cu_contractPeriodFrom d); to = sentValue (cu_contractPeriodTo d) in
     andThen (ensure (\<not> ((from \<noteq> None \<or> to \<noteq> None)
                \<and> nullish to (lt_leaseEndDate (le_terms before)) \<le> nullish from (lt_leaseStartDate (le_terms before))))
       (BadRequest ''contractPeriodTo must be after contractPeriodFrom'')) (\<lambda>_.
     andThen (contractData dec d) (\<lambda>f.
     andThen (updateLeaseRow s contractId f) (\<lambda>(l, s1).
     let s2 = recordChanges s1 now (ids ''LeaseHistory'' 0) org LH_UPDATED (user_sub u) before l
     in andThen (findContractOrThrow s2 org (le_id l)) (\<lambda>l'. Inr (l', s2))))))))"

section \<open>Status\<close>

definition setLeaseStatus :: "tenancy \<Rightarrow> string \<Rightarrow> lease_status \<Rightarrow> tenancy res" where
  "setLeaseStatus s i status = andThen (updateLeaseRow s i (\<lambda>l. l\<lparr> le_status := status \<rparr>)) (\<lambda>(l, s1). Inr s1)"

definition activateContract ::
  "tenancy \<Rightarrow> int \<Rightarrow> (string \<Rightarrow> nat \<Rightarrow> string) \<Rightarrow> principal \<Rightarrow> string \<Rightarrow> (lease_row \<times> tenancy) res" where
  "activateContract s now ids u contractId =
     andThen (assertOrgScope u) (\<lambda>org.
     andThen (findContractOrThrow s org contractId) (\<lambda>existing.
     andThen (ensure (le_status existing \<noteq> LE_ENDED) (Conflict ''Ended contract cannot be activated'')) (\<lambda>_.
     if le_status existing = LE_ACTIVE then Inr (existing, s)
     else
       andThen (setLeaseStatus s (le_id existing) LE_ACTIVE) (\<lambda>s1.
       let s2 = createActivity s1 now (ids ''LeaseActivity'' 0) org (le_id existing) LA_CONTRACT_ACTIVATED (user_sub u)
                  [(''fromStatus'', JText (lease_status_str (le_status existing))), (''toStatus'', JText ''ACTIVE'')]
       in andThen (findContractOrThrow s2 org contractId) (\<lambda>l. Inr (l, s2))))))"

definition isOpen :: "move_request \<Rightarrow> bool" where
  "isOpen r \<longleftrightarrow> mv_status r = MV_PENDING \<or> mv_status r = MV_APPROVED"

definition cancelOpenRequests :: "string \<Rightarrow> string \<Rightarrow> move_request list \<Rightarrow> move_request list" where
  "cancelOpenRequests org leaseId rows =
     map (\<lambda>r. if mv_orgId r = org \<and> mv_leaseId r = leaseId \<and> isOpen r then r\<lparr> mv_status := MV_CANCELLED \<rparr> else r) rows"

text \<open>
  Work that follows a committed transaction: when it fails, its writes are undone and the error stands beside the
  state the first transaction left.
\<close>

definition afterCommit :: "tenancy \<Rightarrow> ('a \<times> tenancy) res \<Rightarrow> 'a res \<times> tenancy" where
  "afterCommit s r = (case r of Inl e \<Rightarrow> (Inl e, s) | Inr (x, s') \<Rightarrow> (Inr x, s'))"

definition cancelContract ::
  "(string \<Rightarrow> rat option) \<Rightarrow> tenancy \<Rightarrow> int \<Rightarrow> (string \<Rightarrow> nat \<Rightarrow> string) \<Rightarrow> principal \<Rightarrow> string \<Rightarrow> string option
   \<Rightarrow> (lease_row res \<times> tenancy) res" where
  "cancelContract dec s now ids u contractId reason =
     andThen (assertOrgScope u) (\<lambda>org.
     andThen (findContractOrThrow s org contractId) (\<lambda>existing.
     andThen (ensure (le_status existing \<noteq> LE_ENDED) (Conflict ''Ended contract cannot be cancelled'')) (\<lambda>_.
     andThen (if le_status existing = LE_ACTIVE \<and> truthy (le_occupancyId existing)
              then andThen (moveOut dec s now ids u (le_buildingId existing) (le_id existing) (onlyDate now)) (\<lambda>(l, s1). Inr s1)
              else Inr s) (\<lambda>s1.
     let s2 = s1\<lparr> tn_moveIns := cancelOpenRequests org (le_id existing) (tn_moveIns s1),
                  tn_moveOuts := cancelOpenRequests org (le_id existing) (tn_moveOuts s1) \<rparr>
     in Inr (afterCommit s1 (
          andThen (setLeaseStatus s2 (le_id existing) LE_CANCELLED) (\<lambda>s3.
          let s4 = createActivity s3 now (ids ''LeaseActivity'' 1) org (le_id existing) LA_CONTRACT_CANCELLED (user_sub u)
                     [(''fromStatus'', JText (lease_status_str (le_status existing))), (''toStatus'', JText ''CANCELLED''),
                      (''reason'', jsonOf JText reason)]
          in andThen (findContractOrThrow s4 org contractId) (\<lambda>l. Inr (l, s4)))))))))"

definition replaceAdditionalTerms ::
  "tenancy \<Rightarrow> int \<Rightarrow> (string \<Rightarrow> nat \<Rightarrow> string) \<Rightarrow> principal \<Rightarrow> string \<Rightarrow> string list \<Rightarrow> (lease_row \<times> tenancy) res" where
  "replaceAdditionalTerms s now ids u contractId terms0 =
     andThen (assertOrgScope u) (\<lambda>org.
     andThen (findContractOrThrow s org contractId) (\<lambda>_.
     let s1 = createTerms (s\<lparr> tn_additionalTerms := filter (\<lambda>t. lm_leaseId t \<noteq> contractId) (tn_additionalTerms s) \<rparr>)
                now (ids ''LeaseAdditionalTerm'') org contractId (normalizeTerms terms0)
     in andThen (findContractOrThrow s1 org contractId) (\<lambda>l. Inr (l, s1))))"

end
