(* ===== verification/MoveRequests.thy ===== *)
theory MoveRequests
  imports Contracts
begin

text \<open>
  The second half of \<^verbatim>\<open>contracts.service.ts\<close>: a resident asks to move in or out, the management approves or
  rejects, and executes an approved request; the summary and the documents of a resident's contract. Requests to
  move in and to move out are two tables with the same columns; what the code does the same way for both
  takes the kind of the request.

  A request is stored in a transaction and then announced to the reviewers: when the notification
  fails, the operation raises although the request exists, so the error stands beside the new state.
\<close>

section \<open>The tables\<close>

datatype move_kind = MOVE_IN | MOVE_OUT

fun requestsOf :: "move_kind \<Rightarrow> tenancy \<Rightarrow> move_request list" where
  "requestsOf MOVE_IN s = tn_moveIns s"
| "requestsOf MOVE_OUT s = tn_moveOuts s"

fun setRequests :: "move_kind \<Rightarrow> move_request list \<Rightarrow> tenancy \<Rightarrow> tenancy" where
  "setRequests MOVE_IN rows s = s\<lparr> tn_moveIns := rows \<rparr>"
| "setRequests MOVE_OUT rows s = s\<lparr> tn_moveOuts := rows \<rparr>"

fun pendingIndex :: "move_kind \<Rightarrow> string" where
  "pendingIndex MOVE_IN = ''uniq_pending_movein_per_lease''"
| "pendingIndex MOVE_OUT = ''uniq_pending_moveout_per_lease''"

definition createMoveRequestRow :: "move_kind \<Rightarrow> tenancy \<Rightarrow> move_request \<Rightarrow> tenancy res" where
  "createMoveRequestRow k s r =
     (if find_by mv_id (mv_id r) (requestsOf k s) \<noteq> None then Inl UniqueViolation
      else if mv_status r = MV_PENDING
              \<and> list_ex (\<lambda>x. mv_leaseId x = mv_leaseId r \<and> mv_status x = MV_PENDING) (requestsOf k s)
      then Inl (ConstraintViolation (pendingIndex k))
      else Inr (setRequests k (requestsOf k s @ [r]) s))"

definition updateMoveRequestRow ::
  "move_kind \<Rightarrow> tenancy \<Rightarrow> string \<Rightarrow> (move_request \<Rightarrow> move_request) \<Rightarrow> (move_request \<times> tenancy) res" where
  "updateMoveRequestRow k s i f =
     andThen (orThrow (find_by mv_id i (requestsOf k s)) RecordNotFound) (\<lambda>r.
     Inr (f r, setRequests k (modify_by mv_id i f (requestsOf k s)) s))"

definition openRequestExists :: "move_kind \<Rightarrow> tenancy \<Rightarrow> string \<Rightarrow> string \<Rightarrow> bool" where
  "openRequestExists k s org leaseId \<longleftrightarrow>
     list_ex (\<lambda>r. mv_orgId r = org \<and> mv_leaseId r = leaseId \<and> isOpen r) (requestsOf k s)"

definition request_key :: "move_request \<Rightarrow> cursor" where
  "request_key r = (mv_createdAt r, mv_id r)"

section \<open>The summary of the latest contract\<close>

record contract_summary =
  cs_contract :: "lease_row option"
  cs_canRequestMoveIn :: bool
  cs_canRequestMoveOut :: bool
  cs_latestMoveInRequestStatus :: "move_status option"
  cs_latestMoveOutRequestStatus :: "move_status option"

definition latestRequestStatus :: "move_kind \<Rightarrow> tenancy \<Rightarrow> string \<Rightarrow> string \<Rightarrow> move_status option" where
  "latestRequestStatus k s org leaseId =
     (case newestRows request_key (filter (\<lambda>r. mv_orgId r = org \<and> mv_leaseId r = leaseId) (requestsOf k s)) of
        [] \<Rightarrow> None
      | r # _ \<Rightarrow> Some (mv_status r))"

definition blocksRequest :: "move_status option \<Rightarrow> bool" where
  "blocksRequest st \<longleftrightarrow> st = Some MV_PENDING \<or> st = Some MV_APPROVED"

definition hasActiveOccupancyOf :: "tenancy \<Rightarrow> lease_row \<Rightarrow> bool" where
  "hasActiveOccupancyOf s l \<longleftrightarrow> truthy (le_occupancyId l) \<and> occupancySat s l (\<lambda>oc. oc_status oc = OC_ACTIVE)"

definition getLatestContractSummaryForResident :: "tenancy \<Rightarrow> principal \<Rightarrow> contract_summary res" where
  "getLatestContractSummaryForResident s u =
     andThen (orgAndUser u) (\<lambda>(org, userId).
     case latestContract s org userId of
       None \<Rightarrow> Inr \<lparr> cs_contract = None, cs_canRequestMoveIn = False, cs_canRequestMoveOut = False,
                      cs_latestMoveInRequestStatus = None, cs_latestMoveOutRequestStatus = None \<rparr>
     | Some l \<Rightarrow>
         let movedIn = hasActiveOccupancyOf s l;
             stIn = latestRequestStatus MOVE_IN s org (le_id l);
             stOut = latestRequestStatus MOVE_OUT s org (le_id l)
         in Inr \<lparr> cs_contract = Some l,
                  cs_canRequestMoveIn = (le_status l = LE_ACTIVE \<and> \<not> movedIn \<and> \<not> blocksRequest stIn),
                  cs_canRequestMoveOut = (le_status l = LE_ACTIVE \<and> movedIn \<and> \<not> blocksRequest stOut),
                  cs_latestMoveInRequestStatus = stIn, cs_latestMoveOutRequestStatus = stOut \<rparr>)"

section \<open>The reviewers\<close>

definition MOVE_REVIEW_PERMISSION :: string where "MOVE_REVIEW_PERMISSION = ''contracts.move_requests.review''"
definition MOVE_IN_EXECUTE_PERMISSION :: string where "MOVE_IN_EXECUTE_PERMISSION = ''contracts.move_in.execute''"
definition MOVE_OUT_EXECUTE_PERMISSION :: string where "MOVE_OUT_EXECUTE_PERMISSION = ''contracts.move_out.execute''"

definition reviewsMoves :: "db \<Rightarrow> string \<Rightarrow> scope_type \<Rightarrow> access_assignment \<Rightarrow> bool" where
  "reviewsMoves s org scope a \<longleftrightarrow>
     ua_scopeType a = scope \<and> template_sat s a (\<lambda>t. rt_orgId t = Some org \<and> rt_scopeType t = scope)
     \<and> List.member (rolePermissionKeysOf s a) MOVE_REVIEW_PERMISSION"

definition resolveMoveRequestRecipients :: "db \<Rightarrow> string \<Rightarrow> string \<Rightarrow> string list" where
  "resolveMoveRequestRecipients s org bldg =
     js_unique (map ua_userId (filter (\<lambda>a. reviewsMoves s org SC_BUILDING a \<and> ua_scopeId a = Some bldg
           \<and> activeInOrg s org (ua_userId a)) (accessAssignments s))
       @ map ua_userId (filter (\<lambda>a. reviewsMoves s org SC_ORG a \<and> ua_scopeId a = None
           \<and> activeInOrg s org (ua_userId a)) (accessAssignments s)))"

definition getManagedBuildingIds :: "db \<Rightarrow> string \<Rightarrow> string \<Rightarrow> string list" where
  "getManagedBuildingIds s org userId =
     js_unique (filter (\<lambda>i. i \<noteq> []) (List.map_filter ua_scopeId
       (filter (\<lambda>a. ua_userId a = userId \<and> reviewsMoves s org SC_BUILDING a) (accessAssignments s))))"

definition assertAssignedMoveManagementAccess :: "db \<Rightarrow> principal \<Rightarrow> string \<Rightarrow> string \<Rightarrow> unit res" where
  "assertAssignedMoveManagementAccess s u bldg permission =
     andThen (requireUserId u) (\<lambda>userId.
     andThen (assertOrgScope u) (\<lambda>org.
     ensure (hasAllPermissionMatches (Some (getUserEffectivePermissions s userId (Some org) (Some bldg) False)) [permission])
       (Forbidden ''Forbidden'')))"

definition moveRequestBody :: "move_kind \<Rightarrow> string option \<Rightarrow> string option \<Rightarrow> string" where
  "moveRequestBody k unitLabel name =
     joinWith '' - '' (filter (\<lambda>x. x \<noteq> [])
       [if truthy unitLabel then ''Unit '' @ the unitLabel else [], nullish name [],
        if k = MOVE_IN then ''requested move-in'' else ''requested move-out''])"

definition notifyMoveRequestCreated ::
  "delivery_env \<Rightarrow> int \<Rightarrow> (string \<Rightarrow> nat \<Rightarrow> string) \<Rightarrow> move_kind \<Rightarrow> string option \<Rightarrow> string option \<Rightarrow> move_request
   \<Rightarrow> tenancy \<Rightarrow> error option \<times> tenancy" where
  "notifyMoveRequestCreated env now ids k unitLabel name r s =
     (let recipients = resolveMoveRequestRecipients (core s) (mv_orgId r) (mv_buildingId r)
      in if recipients = [] then (None, s)
         else
           let (e, dl) = createForUsers env now (ids ''Notification'') (ids ''DeliveryTask'' 0) (mv_orgId r) recipients
                 (if k = MOVE_IN then MOVE_IN_REQUEST_CREATED else MOVE_OUT_REQUEST_CREATED)
                 (if k = MOVE_IN then ''New move-in request'' else ''New move-out request'')
                 (Some (moveRequestBody k unitLabel name))
                 (OtherData (JObject [(''kind'', JText ''move_request''), (''requestId'', JText (mv_id r)),
                    (''requestType'', JText (if k = MOVE_IN then ''MOVE_IN'' else ''MOVE_OUT'')),
                    (''buildingId'', JText (mv_buildingId r)), (''unitLabel'', jsonOf JText unitLabel),
                    (''residentName'', jsonOf JText name), (''requestedMoveAt'', JDate (mv_requestedMoveAt r)),
                    (''notes'', jsonOf JText (mv_notes r))])) (tn_delivery s)
           in (e, s\<lparr> tn_delivery := dl \<rparr>))"

section \<open>The resident asks\<close>

fun createdAction :: "move_kind \<Rightarrow> activity_action" where
  "createdAction MOVE_IN = LA_MOVE_IN_REQUEST_CREATED"
| "createdAction MOVE_OUT = LA_MOVE_OUT_REQUEST_CREATED"

definition storeMoveRequest ::
  "move_kind \<Rightarrow> tenancy \<Rightarrow> int \<Rightarrow> (string \<Rightarrow> nat \<Rightarrow> string) \<Rightarrow> string \<Rightarrow> string \<Rightarrow> lease_row \<Rightarrow> int \<Rightarrow> string option
   \<Rightarrow> (move_request \<times> tenancy) res" where
  "storeMoveRequest k s now ids org userId l requestedMoveAt notes =
     (let r = \<lparr> mv_id = ids ''MoveRequest'' 0, mv_orgId = org, mv_buildingId = le_buildingId l, mv_unitId = le_unitId l,
                mv_leaseId = le_id l, mv_residentUserId = userId, mv_status = MV_PENDING,
                mv_requestedMoveAt = requestedMoveAt, mv_notes = notes, mv_reviewedByUserId = None,
                mv_reviewedAt = None, mv_rejectionReason = None, mv_createdAt = now \<rparr>
      in andThen (createMoveRequestRow k s r) (\<lambda>s1.
         Inr (r, createActivity s1 now (ids ''LeaseActivity'' 0) org (le_id l) (createdAction k) (Some userId)
           [(''requestId'', JText (mv_id r)), (''requestedMoveAt'', JDate requestedMoveAt),
            (''notes'', jsonOf JText notes)])))"

definition announceMoveRequest ::
  "delivery_env \<Rightarrow> int \<Rightarrow> (string \<Rightarrow> nat \<Rightarrow> string) \<Rightarrow> move_kind \<Rightarrow> lease_row \<Rightarrow> move_request \<times> tenancy
   \<Rightarrow> error option \<times> move_request \<times> tenancy" where
  "announceMoveRequest env now ids k l rs =
     (case rs of (r, s) \<Rightarrow>
        case notifyMoveRequestCreated env now ids k
          (map_option un_label (find_by un_id (le_unitId l) (units (core s))))
          (case le_residentUserId l of
             None \<Rightarrow> None
           | Some i \<Rightarrow> (case find_by us_id i (users (core s)) of None \<Rightarrow> None | Some x \<Rightarrow> us_name x)) r s of
          (e, s1) \<Rightarrow> (e, r, s1))"

definition createResidentMoveInRequest ::
  "delivery_env \<Rightarrow> tenancy \<Rightarrow> int \<Rightarrow> (string \<Rightarrow> nat \<Rightarrow> string) \<Rightarrow> principal \<Rightarrow> string \<Rightarrow> int \<Rightarrow> string option
   \<Rightarrow> (error option \<times> move_request \<times> tenancy) res" where
  "createResidentMoveInRequest env s now ids u contractId requestedMoveAt notes =
     andThen (ownContract s u contractId) (\<lambda>(org, userId, l).
     andThen (ensure (le_status l = LE_ACTIVE) (BadRequest ''Move-in requests require active contract'')) (\<lambda>_.
     andThen (ensure (\<not> truthy (le_occupancyId l)) (Conflict ''Contract is already moved in'')) (\<lambda>_.
     andThen (ensure (\<not> openRequestExists MOVE_IN s org (le_id l))
                (Conflict ''A move-in request is already pending or approved'')) (\<lambda>_.
     andThen (storeMoveRequest MOVE_IN s now ids org userId l requestedMoveAt notes) (\<lambda>rs.
     Inr (announceMoveRequest env now ids MOVE_IN l rs))))))"

definition createResidentMoveOutRequest ::
  "delivery_env \<Rightarrow> tenancy \<Rightarrow> int \<Rightarrow> (string \<Rightarrow> nat \<Rightarrow> string) \<Rightarrow> principal \<Rightarrow> string \<Rightarrow> int \<Rightarrow> string option
   \<Rightarrow> (error option \<times> move_request \<times> tenancy) res" where
  "createResidentMoveOutRequest env s now ids u contractId requestedMoveAt notes =
     andThen (ownContract s u contractId) (\<lambda>(org, userId, l).
     andThen (ensure (le_status l = LE_ACTIVE) (BadRequest ''Move-out requests require active contract'')) (\<lambda>_.
     andThen (ensure (hasActiveOccupancyOf s l) (Conflict ''Move-out request requires active occupancy'')) (\<lambda>_.
     andThen (ensure (\<not> openRequestExists MOVE_OUT s org (le_id l))
                (Conflict ''A move-out request is already pending or approved'')) (\<lambda>_.
     andThen (storeMoveRequest MOVE_OUT s now ids org userId l requestedMoveAt notes) (\<lambda>rs.
     Inr (announceMoveRequest env now ids MOVE_OUT l rs))))))"

definition listResidentMoveRequests ::
  "move_kind \<Rightarrow> tenancy \<Rightarrow> principal \<Rightarrow> string \<Rightarrow> move_status option option \<Rightarrow> move_request list res" where
  "listResidentMoveRequests k s u contractId status =
     andThen (ownContract s u contractId) (\<lambda>(org, userId, l).
     Inr (newestRows request_key (filter (\<lambda>r. mv_orgId r = org \<and> mv_leaseId r = le_id l
       \<and> mv_residentUserId r = userId \<and> statusFilter status (mv_status r)) (requestsOf k s))))"

definition listResidentMoveInRequests where "listResidentMoveInRequests = listResidentMoveRequests MOVE_IN"
definition listResidentMoveOutRequests where "listResidentMoveOutRequests = listResidentMoveRequests MOVE_OUT"

section \<open>The management reviews\<close>

definition listMoveRequests ::
  "move_kind \<Rightarrow> tenancy \<Rightarrow> principal \<Rightarrow> string \<Rightarrow> move_status option option \<Rightarrow> move_request list res" where
  "listMoveRequests k s u bldg status =
     andThen (orgBuilding (core s) u bldg) (\<lambda>org.
     Inr (rev (sort_key mv_createdAt (filter (\<lambda>r. mv_orgId r = org \<and> mv_buildingId r = bldg
       \<and> statusFilter status (mv_status r)) (requestsOf k s)))))"

definition listMoveInRequests where "listMoveInRequests = listMoveRequests MOVE_IN"
definition listMoveOutRequests where "listMoveOutRequests = listMoveRequests MOVE_OUT"

definition getMoveRequestInboxCount :: "tenancy \<Rightarrow> principal \<Rightarrow> (nat \<times> nat \<times> nat) res" where
  "getMoveRequestInboxCount s u =
     andThen (orgAndUser u) (\<lambda>(org, userId).
     let canReviewAll = hasAllPermissionMatches
           (Some (getUserEffectivePermissions (core s) userId (Some org) None False)) [MOVE_REVIEW_PERMISSION];
         buildingIds = (if canReviewAll then [] else getManagedBuildingIds (core s) org userId);
         count = (\<lambda>k. length (filter (\<lambda>r. mv_orgId r = org \<and> mv_status r = MV_PENDING
           \<and> (canReviewAll \<or> List.member buildingIds (mv_buildingId r))) (requestsOf k s)))
     in if \<not> canReviewAll \<and> buildingIds = [] then Inr (0, 0, 0)
        else Inr (count MOVE_IN, count MOVE_OUT, count MOVE_IN + count MOVE_OUT))"

fun notFoundRequest :: "move_kind \<Rightarrow> string" where
  "notFoundRequest MOVE_IN = ''Move-in request not found''"
| "notFoundRequest MOVE_OUT = ''Move-out request not found''"

fun notPending :: "move_kind \<Rightarrow> string" where
  "notPending MOVE_IN = ''Move-in request is not pending''"
| "notPending MOVE_OUT = ''Move-out request is not pending''"

fun reviewedAction :: "move_kind \<Rightarrow> bool \<Rightarrow> activity_action" where
  "reviewedAction MOVE_IN ok = (if ok then LA_MOVE_IN_REQUEST_APPROVED else LA_MOVE_IN_REQUEST_REJECTED)"
| "reviewedAction MOVE_OUT ok = (if ok then LA_MOVE_OUT_REQUEST_APPROVED else LA_MOVE_OUT_REQUEST_REJECTED)"

definition reviewableRequest :: "move_kind \<Rightarrow> tenancy \<Rightarrow> principal \<Rightarrow> string \<Rightarrow> (string \<times> move_request) res" where
  "reviewableRequest k s u requestId =
     andThen (assertOrgScope u) (\<lambda>org.
     andThen (orThrow (List.find (\<lambda>r. mv_id r = requestId \<and> mv_orgId r = org) (requestsOf k s))
                (NotFound (notFoundRequest k))) (\<lambda>r.
     andThen (assertAssignedMoveManagementAccess (core s) u (mv_buildingId r) MOVE_REVIEW_PERMISSION) (\<lambda>_.
     andThen (ensure (mv_status r = MV_PENDING) (Conflict (notPending k))) (\<lambda>_. Inr (org, r)))))"

definition reviewed :: "move_status \<Rightarrow> string option \<Rightarrow> int \<Rightarrow> string option \<Rightarrow> move_request \<Rightarrow> move_request" where
  "reviewed status reviewer now reason r =
     r\<lparr> mv_status := status, mv_reviewedByUserId := reviewer, mv_reviewedAt := Some now, mv_rejectionReason := reason \<rparr>"

definition approveMoveRequest ::
  "move_kind \<Rightarrow> tenancy \<Rightarrow> int \<Rightarrow> (string \<Rightarrow> nat \<Rightarrow> string) \<Rightarrow> principal \<Rightarrow> string \<Rightarrow> (move_request \<times> tenancy) res" where
  "approveMoveRequest k s now ids u requestId =
     andThen (reviewableRequest k s u requestId) (\<lambda>(org, r).
     andThen (updateMoveRequestRow k s (mv_id r) (reviewed MV_APPROVED (user_sub u) now None)) (\<lambda>(r', s1).
     Inr (r', createActivity s1 now (ids ''LeaseActivity'' 0) org (mv_leaseId r) (reviewedAction k True) (user_sub u)
       [(''requestId'', JText (mv_id r))])))"

definition rejectMoveRequest ::
  "move_kind \<Rightarrow> tenancy \<Rightarrow> int \<Rightarrow> (string \<Rightarrow> nat \<Rightarrow> string) \<Rightarrow> principal \<Rightarrow> string \<Rightarrow> string option
   \<Rightarrow> (move_request \<times> tenancy) res" where
  "rejectMoveRequest k s now ids u requestId reason =
     andThen (reviewableRequest k s u requestId) (\<lambda>(org, r).
     andThen (updateMoveRequestRow k s (mv_id r) (reviewed MV_REJECTED (user_sub u) now reason)) (\<lambda>(r', s1).
     Inr (r', createActivity s1 now (ids ''LeaseActivity'' 0) org (mv_leaseId r) (reviewedAction k False) (user_sub u)
       [(''requestId'', JText (mv_id r)), (''rejectionReason'', jsonOf JText reason)])))"

definition approveMoveInRequest where "approveMoveInRequest = approveMoveRequest MOVE_IN"
definition approveMoveOutRequest where "approveMoveOutRequest = approveMoveRequest MOVE_OUT"
definition rejectMoveInRequest where "rejectMoveInRequest = rejectMoveRequest MOVE_IN"
definition rejectMoveOutRequest where "rejectMoveOutRequest = rejectMoveRequest MOVE_OUT"

section \<open>The management executes\<close>

text \<open>
  \<^verbatim>\<open>orderBy: [{ reviewedAt: 'asc' }, { createdAt: 'asc' }]\<close>: a request that was never reviewed comes last.
\<close>

definition approvedRequest :: "move_kind \<Rightarrow> tenancy \<Rightarrow> string \<Rightarrow> string \<Rightarrow> move_request option" where
  "approvedRequest k s org leaseId =
     (case sort_key (\<lambda>r. (mv_reviewedAt r = None, nullish (mv_reviewedAt r) 0, mv_createdAt r))
             (filter (\<lambda>r. mv_orgId r = org \<and> mv_leaseId r = leaseId \<and> mv_status r = MV_APPROVED) (requestsOf k s)) of
        [] \<Rightarrow> None
      | r # _ \<Rightarrow> Some r)"

definition completeRequest :: "move_kind \<Rightarrow> tenancy \<Rightarrow> string \<Rightarrow> tenancy res" where
  "completeRequest k s i =
     andThen (updateMoveRequestRow k s i (\<lambda>r. r\<lparr> mv_status := MV_COMPLETED \<rparr>)) (\<lambda>(r, s1). Inr s1)"

definition executeApprovedMoveIn ::
  "tenancy \<Rightarrow> int \<Rightarrow> (string \<Rightarrow> nat \<Rightarrow> string) \<Rightarrow> principal \<Rightarrow> string \<Rightarrow> (lease_row \<times> tenancy) res" where
  "executeApprovedMoveIn s now ids u contractId =
     andThen (assertOrgScope u) (\<lambda>org.
     andThen (findContractOrThrow s org contractId) (\<lambda>l.
     andThen (assertAssignedMoveManagementAccess (core s) u (le_buildingId l) MOVE_IN_EXECUTE_PERMISSION) (\<lambda>_.
     andThen (ensure (le_status l = LE_ACTIVE) (BadRequest ''Move-in execution requires active contract'')) (\<lambda>_.
     andThen (ensure (\<not> truthy (le_occupancyId l)) (Conflict ''Contract already moved in'')) (\<lambda>_.
     andThen (ensure (truthy (le_residentUserId l)) (Conflict ''Contract has no resident assigned'')) (\<lambda>_.
     andThen (orThrow (approvedRequest MOVE_IN s org (le_id l)) (Conflict ''No approved move-in request found'')) (\<lambda>r.
     andThen (ensure (\<not> hasActiveForUnit s (le_unitId l)) (Conflict ''Unit already has an active occupancy'')) (\<lambda>_.
     let resident = the (le_residentUserId l); occupancyId = ids ''Occupancy'' 0 in
     andThen (ensure (\<not> hasActiveForResident s resident) (Conflict ''Resident already has an active occupancy'')) (\<lambda>_.
     andThen (createOccupancyRow s (newOccupancy now occupancyId (le_buildingId l) (le_unitId l) resident now)) (\<lambda>s1.
     andThen (updateLeaseRow s1 (le_id l) (\<lambda>m. m\<lparr> le_occupancyId := Some occupancyId, le_status := LE_ACTIVE \<rparr>)) (\<lambda>(l1, s2).
     andThen (completeRequest MOVE_IN s2 (mv_id r)) (\<lambda>s3.
     let s4 = createActivity s3 now (ids ''LeaseActivity'' 0) org (le_id l) LA_MOVE_IN (user_sub u)
                [(''requestId'', JText (mv_id r)), (''occupancyId'', JText occupancyId),
                 (''requestedMoveAt'', JDate (mv_requestedMoveAt r)), (''actualMoveInAt'', JDate now)]
     in andThen (findContractOrThrow s4 org contractId) (\<lambda>l'. Inr (l', s4))))))))))))))"

definition executeApprovedMoveOut ::
  "(string \<Rightarrow> rat option) \<Rightarrow> tenancy \<Rightarrow> int \<Rightarrow> (string \<Rightarrow> nat \<Rightarrow> string) \<Rightarrow> principal \<Rightarrow> string
   \<Rightarrow> (lease_row res \<times> tenancy) res" where
  "executeApprovedMoveOut dec s now ids u contractId =
     andThen (assertOrgScope u) (\<lambda>org.
     andThen (findContractOrThrow s org contractId) (\<lambda>l.
     andThen (assertAssignedMoveManagementAccess (core s) u (le_buildingId l) MOVE_OUT_EXECUTE_PERMISSION) (\<lambda>_.
     andThen (ensure (truthy (le_occupancyId l)) (Conflict ''Contract has no active occupancy to move out'')) (\<lambda>_.
     andThen (orThrow (approvedRequest MOVE_OUT s org (le_id l)) (Conflict ''No approved move-out request found'')) (\<lambda>r.
     andThen (moveOut dec s now ids u (le_buildingId l) (le_id l) (onlyDate (mv_requestedMoveAt r))) (\<lambda>(l1, s1).
     Inr (afterCommit s1 (
       andThen (completeRequest MOVE_OUT s1 (mv_id r)) (\<lambda>s2.
       andThen (if mv_requestedMoveAt r < lt_leaseEndDate (le_terms l)
                then andThen (setLeaseStatus s2 (le_id l) LE_CANCELLED) (\<lambda>s3.
                     Inr (createActivity s3 now (ids ''LeaseActivity'' 1) org (le_id l) LA_CONTRACT_CANCELLED (user_sub u)
                       [(''reason'', JText ''EARLY_MOVE_OUT''), (''requestId'', JText (mv_id r))]))
                else Inr s2) (\<lambda>s4.
       andThen (findContractOrThrow s4 org contractId) (\<lambda>l'. Inr (l', s4))))))))))))"

section \<open>The resident's documents\<close>

definition sanitizeFileName :: "string \<Rightarrow> string res" where
  "sanitizeFileName fileName =
     (let trimmed = trim fileName;
          keep = (\<lambda>c. let n = of_char c :: nat in
            48 \<le> n \<and> n \<le> 57 \<or> 65 \<le> n \<and> n \<le> 90 \<or> 97 \<le> n \<and> n \<le> 122 \<or> c = CHR ''.'' \<or> c = CHR ''_'' \<or> c = CHR ''-'')
      in if trimmed = [] then Inl (BadRequest ''fileName is required'')
         else Inr (take 120 (map (\<lambda>c. if keep c then c else CHR ''_'') (collapse_ws trimmed))))"

definition isAllowedResidentContractMimeType :: "string \<Rightarrow> bool" where
  "isAllowedResidentContractMimeType mimeType =
     List.member [''application/pdf'', ''image/jpeg'', ''image/jpg'', ''image/png'', ''image/webp'']
       (toLowerCase (trim mimeType))"

definition residentKeyPrefix :: "string \<Rightarrow> string \<Rightarrow> string" where
  "residentKeyPrefix org contractId = ''contracts/'' @ org @ ''/'' @ contractId @ ''/resident/''"

record upload_url =
  uu_uploadUrl :: string
  uu_storageUrl :: string
  uu_objectKey :: string
  uu_type :: document_type
  uu_expiresInSeconds :: nat

definition createResidentContractDocumentUploadUrl ::
  "(string \<Rightarrow> string \<Rightarrow> nat \<Rightarrow> string) \<Rightarrow> tenancy \<Rightarrow> nat \<Rightarrow> string \<Rightarrow> principal \<Rightarrow> string \<Rightarrow> string \<Rightarrow> string \<Rightarrow> int
   \<Rightarrow> document_type option \<Rightarrow> upload_url res" where
  "createResidentContractDocumentUploadUrl signUpload s now uuid u contractId fileName mimeType sizeBytes ty =
     andThen (ownContract s u contractId) (\<lambda>(org, userId, l).
     let documentType = nullish ty SIGNED_TENANCY_CONTRACT in
     andThen (ensure (documentType = SIGNED_TENANCY_CONTRACT)
                (BadRequest ''Residents can only upload signed tenancy contract documents'')) (\<lambda>_.
     andThen (ensure (\<not> sizeBytes > 15 * 1024 * 1024) (BadRequest ''File size exceeds 15728640 bytes'')) (\<lambda>_.
     andThen (ensure (isAllowedResidentContractMimeType mimeType)
                (BadRequest ''Unsupported file type for contract upload'')) (\<lambda>_.
     andThen (sanitizeFileName fileName) (\<lambda>safe.
     let key = residentKeyPrefix org (le_id l) @ showNat now @ ''-'' @ uuid @ ''-'' @ safe
     in Inr \<lparr> uu_uploadUrl = signUpload key mimeType 900, uu_storageUrl = storagePrefix @ key, uu_objectKey = key,
              uu_type = documentType, uu_expiresInSeconds = 900 \<rparr>)))))"

definition assertResidentDocumentUrlBelongsToContract :: "string \<Rightarrow> string \<Rightarrow> string \<Rightarrow> unit res" where
  "assertResidentDocumentUrlBelongsToContract url org contractId =
     (if \<not> startsWith url storagePrefix then Inr ()
      else ensure (startsWith (drop (length storagePrefix) url) (residentKeyPrefix org contractId))
             (BadRequest ''Uploaded document key does not match this contract''))"

definition createResidentContractDocument ::
  "(string \<Rightarrow> string) \<Rightarrow> tenancy \<Rightarrow> int \<Rightarrow> (string \<Rightarrow> nat \<Rightarrow> string) \<Rightarrow> principal \<Rightarrow> string \<Rightarrow> document_dto
   \<Rightarrow> (lease_document \<times> tenancy) res" where
  "createResidentContractDocument signUrl s now ids u contractId d =
     andThen (ownContract s u contractId) (\<lambda>(org, userId, l).
     andThen (ensure (dd_type d = SIGNED_TENANCY_CONTRACT)
                (BadRequest ''Residents can only upload signed tenancy contract documents'')) (\<lambda>_.
     andThen (assertResidentDocumentUrlBelongsToContract (dd_url d) org (le_id l)) (\<lambda>_.
     createDocument signUrl s now (ids ''LeaseDocument'' 0) (ids ''LeaseActivity'' 0) u (le_id l) d)))"

end
