(* ===== verification/Parking.thy ===== *)
theory Parking
  imports LeaseLifecycle
begin

text \<open>
  \<^verbatim>\<open>parking.service.ts\<close>: the slots of a building and their import from a CSV file, the allocation of slots to an
  occupancy or to a unit, and the vehicles of an occupancy. An allocation or a vehicle of an occupancy may be changed
  only while the occupancy is active and has an active lease, and the change is recorded as an activity of that lease.
\<close>

section \<open>Slots\<close>

definition codeConflict :: "error \<Rightarrow> error option" where
  "codeConflict e =
     (case e of UniqueViolation \<Rightarrow> Some (Conflict ''Parking slot code already exists for this building'') | _ \<Rightarrow> None)"

record slot_dto =
  sd_code :: "string option"
  sd_level :: "string option option"
  sd_type :: "slot_type option"
  sd_isCovered :: "bool option"
  sd_isActive :: "bool option"

definition newSlot :: "int \<Rightarrow> string \<Rightarrow> string \<Rightarrow> string \<Rightarrow> slot_dto \<Rightarrow> slot_type \<Rightarrow> parking_slot" where
  "newSlot now i org bldg d ty =
     \<lparr> ps_id = i, ps_orgId = org, ps_buildingId = bldg, ps_code = nullish (sd_code d) [],
       ps_level = nullish (sd_level d) None, ps_type = ty, ps_isCovered = nullish (sd_isCovered d) False,
       ps_isActive = nullish (sd_isActive d) True, ps_createdAt = now \<rparr>"

definition slotUpdate :: "slot_dto \<Rightarrow> parking_slot \<Rightarrow> parking_slot" where
  "slotUpdate d p =
     p\<lparr> ps_code := nullish (sd_code d) (ps_code p), ps_level := nullish (sd_level d) (ps_level p),
        ps_type := nullish (sd_type d) (ps_type p), ps_isCovered := nullish (sd_isCovered d) (ps_isCovered p),
        ps_isActive := nullish (sd_isActive d) (ps_isActive p) \<rparr>"

definition createSlot ::
  "tenancy \<Rightarrow> int \<Rightarrow> string \<Rightarrow> principal \<Rightarrow> string \<Rightarrow> slot_dto \<Rightarrow> slot_type \<Rightarrow> (parking_slot \<times> tenancy) res" where
  "createSlot s now newId u bldg d ty =
     andThen (orgBuilding (core s) u bldg) (\<lambda>org.
     catchMap codeConflict (createSlotRow s (newSlot now newId org bldg d ty)))"

definition listSlots :: "tenancy \<Rightarrow> principal \<Rightarrow> string \<Rightarrow> bool option \<Rightarrow> parking_slot list res" where
  "listSlots s u bldg available =
     andThen (orgBuilding (core s) u bldg) (\<lambda>org. Inr (listSlotsByBuilding s org bldg available))"

definition updateSlot :: "tenancy \<Rightarrow> principal \<Rightarrow> string \<Rightarrow> slot_dto \<Rightarrow> (parking_slot \<times> tenancy) res" where
  "updateSlot s u slotId d =
     andThen (assertOrgScope u) (\<lambda>org.
     andThen (orThrow (findSlotForOrg s org slotId) (NotFound ''Parking slot not found'')) (\<lambda>p.
     catchMap codeConflict (updateSlotRow s (ps_id p) (slotUpdate d))))"

section \<open>The import of slots\<close>

definition SLOT_HEADERS :: "string list" where
  "SLOT_HEADERS = [''code'', ''type'', ''level'', ''iscovered'', ''isactive'']"

definition ENUM_slotType :: "(string \<times> slot_type) list" where
  "ENUM_slotType = [(''CAR'', SLOT_CAR), (''BIKE'', SLOT_BIKE), (''EV'', SLOT_EV)]"

definition missingHeader :: "header_map \<Rightarrow> string \<Rightarrow> import_error list" where
  "missingHeader m h = (if map_of m h = None then [rowError 1 h (''Missing required header: '' @ h)] else [])"

definition slotHeaderErrors :: "string list \<Rightarrow> import_error list \<times> header_map" where
  "slotHeaderErrors headers =
     (case checkHeaders SLOT_HEADERS 0 headers [] of
        (es, m) \<Rightarrow> (es @ missingHeader m ''code'' @ missingHeader m ''type'', m))"

definition parseSlotRow :: "header_map \<Rightarrow> nat \<Rightarrow> csv_row \<Rightarrow> string \<Rightarrow> string \<Rightarrow> slot_dto \<times> import_error list" where
  "parseSlotRow m n row code type' =
     (let cell = readCell m row;
          ty = parseEnumField ENUM_slotType n ''type'' type';
          covered = fieldOf (cell ''iscovered'') (parseBool n ''isCovered'');
          active = fieldOf (cell ''isactive'') (parseBool n ''isActive'')
      in (\<lparr> sd_code = Some code, sd_level = map_option Some (cell ''level''), sd_type = fst ty,
            sd_isCovered = fst covered, sd_isActive = fst active \<rparr>,
          snd ty @ snd covered @ snd active))"

fun parseSlotRows ::
  "header_map \<Rightarrow> nat \<Rightarrow> csv_row list \<Rightarrow> string list \<Rightarrow> (nat \<times> slot_dto) list \<times> import_error list" where
  "parseSlotRows m i [] seen = ([], [])"
| "parseSlotRows m i (row # rows) seen =
     (let n = i + 2 in
      if \<not> list_ex (\<lambda>(h, v). trim v \<noteq> []) row then parseSlotRows m (Suc i) rows seen
      else case (readCell m row ''code'', readCell m row ''type'') of
        (None, _) \<Rightarrow> (case parseSlotRows m (Suc i) rows seen of
                        (ok, es) \<Rightarrow> (ok, rowError n ''code'' ''Code is required'' # es))
      | (Some code, None) \<Rightarrow> (case parseSlotRows m (Suc i) rows seen of
                        (ok, es) \<Rightarrow> (ok, rowError n ''type'' ''Type is required'' # es))
      | (Some code, Some type') \<Rightarrow>
          if List.member seen code
          then (case parseSlotRows m (Suc i) rows seen of
                  (ok, es) \<Rightarrow> (ok, rowError n ''code'' (''Duplicate code in CSV: '' @ code) # es))
          else (case parseSlotRow m n row code type' of
                  (d, des) \<Rightarrow>
                    (case parseSlotRows m (Suc i) rows (code # seen) of
                       (ok, es) \<Rightarrow> (if des = [] then (n, d) # ok else ok, des @ es))))"

text \<open>\<^verbatim>\<open>new Map(existing.map(s => [s.code, s.id]))\<close>: the last entry of a code counts.\<close>

definition existingByCode :: "tenancy \<Rightarrow> string \<Rightarrow> string \<Rightarrow> (string \<times> string) list" where
  "existingByCode s org bldg =
     rev (map (\<lambda>p. (ps_code p, ps_id p)) (filter (\<lambda>p. ps_orgId p = org \<and> ps_buildingId p = bldg) (tn_slots s)))"

definition takenCodes :: "(string \<times> string) list \<Rightarrow> (nat \<times> slot_dto) list \<Rightarrow> import_error list" where
  "takenCodes byCode entries =
     List.map_filter (\<lambda>(n, d). let c = nullish (sd_code d) [] in
        if map_of byCode c \<noteq> None then Some (rowError n ''code'' (''Parking slot code already exists: '' @ c)) else None)
       entries"

text \<open>
  The loop of the transaction: the k-th new slot gets the k-th id. Every parsed row has a type: one without is among
  the errors, and then nothing is written.
\<close>

fun writeSlots ::
  "int \<Rightarrow> (nat \<Rightarrow> string) \<Rightarrow> nat \<Rightarrow> string \<Rightarrow> string \<Rightarrow> import_mode \<Rightarrow> (string \<times> string) list
   \<Rightarrow> (nat \<times> slot_dto) list \<Rightarrow> tenancy \<Rightarrow> (string list \<times> nat \<times> nat \<times> tenancy) res" where
  "writeSlots now ids k org bldg mode byCode [] s = Inr ([], 0, 0, s)"
| "writeSlots now ids k org bldg mode byCode ((row, d) # es) s =
     (case (if mode = IM_UPSERT then map_of byCode (nullish (sd_code d) []) else None) of
        Some i \<Rightarrow>
          if i \<noteq> [] then
            andThen (updateSlotRow s i (slotUpdate d)) (\<lambda>(p, s1).
            andThen (writeSlots now ids k org bldg mode byCode es s1) (\<lambda>(is, c, u, s').
            Inr (i # is, c, Suc u, s')))
          else
            andThen (createSlotRow s (newSlot now (ids k) org bldg d (nullish (sd_type d) SLOT_CAR))) (\<lambda>(p, s1).
            andThen (writeSlots now ids (Suc k) org bldg mode byCode es s1) (\<lambda>(is, c, u, s').
            Inr (ids k # is, Suc c, u, s')))
      | None \<Rightarrow>
          andThen (createSlotRow s (newSlot now (ids k) org bldg d (nullish (sd_type d) SLOT_CAR))) (\<lambda>(p, s1).
          andThen (writeSlots now ids (Suc k) org bldg mode byCode es s1) (\<lambda>(is, c, u, s').
          Inr (ids k # is, Suc c, u, s'))))"

text \<open>The ids of the written slots are in \<open>ir_unitIds\<close>, the field the two imports share.\<close>

definition importSlotsCsv ::
  "tenancy \<Rightarrow> int \<Rightarrow> (nat \<Rightarrow> string) \<Rightarrow> principal \<Rightarrow> string \<Rightarrow> string option \<Rightarrow> import_mode option \<Rightarrow> bool option
   \<Rightarrow> (import_result \<times> tenancy) res" where
  "importSlotsCsv s now ids u bldg file mode0 dryRun0 =
     andThen (orgBuilding (core s) u bldg) (\<lambda>org.
     andThen (ensure (truthy file) (BadRequest ''CSV file is required'')) (\<lambda>_.
     let mode = nullish mode0 IM_CREATE; dryRun = (dryRun0 = Some True);
         (headers, rows) = parseCsv (the file);
         result = (\<lambda>total valid created updated es us.
           \<lparr> ir_dryRun = dryRun, ir_mode = mode, ir_totalRows = total, ir_validRows = valid, ir_created = created,
             ir_updated = updated, ir_errors = es, ir_unitIds = us \<rparr>)
     in if headers = [] then Inr (result 0 0 0 0 [rowError 1 [] ''CSV is empty''] None, s)
        else case slotHeaderErrors headers of (hes, m) \<Rightarrow>
          if hes \<noteq> [] then Inr (result (length rows) 0 0 0 hes None, s)
          else if length rows > 5000
          then Inr (result (length rows) 0 0 0 [rowError 1 [] ''Too many rows (max 5000)''] None, s)
          else
            let (entries, es) = parseSlotRows m 0 rows [];
                byCode = existingByCode s org bldg;
                es' = es @ (if mode = IM_CREATE then takenCodes byCode entries else [])
            in if dryRun \<or> es' \<noteq> [] then Inr (result (length rows) (length entries) 0 0 es' None, s)
               else andThen (writeSlots now ids 0 org bldg mode byCode entries s) (\<lambda>(us, created, updated, s').
                    Inr (result (length rows) (length entries) created updated [] (Some us), s'))))"

section \<open>Context\<close>

definition assertOccupancyInOrg :: "tenancy \<Rightarrow> string \<Rightarrow> string \<Rightarrow> occupancy_row option" where
  "assertOccupancyInOrg s org occupancyId =
     List.find (\<lambda>oc. oc_id oc = occupancyId \<and> buildingInOrg (core s) (oc_buildingId oc) org) (occupancies (core s))"

definition assertUnitInOrg :: "tenancy \<Rightarrow> string \<Rightarrow> string \<Rightarrow> unit_row option" where
  "assertUnitInOrg s org unitId =
     List.find (\<lambda>n. un_id n = unitId \<and> buildingInOrg (core s) (un_buildingId n) org) (units (core s))"

definition assertActiveLeaseContextForOccupancy :: "tenancy \<Rightarrow> string \<Rightarrow> string \<Rightarrow> (occupancy_row \<times> lease_row) res" where
  "assertActiveLeaseContextForOccupancy s org occupancyId =
     andThen (orThrow (assertOccupancyInOrg s org occupancyId) (NotFound ''Occupancy not found'')) (\<lambda>oc.
     andThen (ensure (oc_status oc = OC_ACTIVE) (BadRequest ''Occupancy is not active'')) (\<lambda>_.
     andThen (orThrow (List.find (\<lambda>l. le_orgId l = org \<and> le_occupancyId l = Some occupancyId \<and> le_status l = LE_ACTIVE)
                (tn_leases s)) (BadRequest ''Active lease not found for occupancy'')) (\<lambda>l.
     Inr (oc, l))))"

section \<open>Allocations\<close>

record allocate_dto =
  al_occupancyId :: "string option"
  al_unitId :: "string option"
  al_slotIds :: "string list option"
  al_count :: "nat option"

definition allocationTarget :: "allocate_dto \<Rightarrow> allocation_target res" where
  "allocationTarget d =
     (case (al_occupancyId d, al_unitId d) of
        (Some i, None) \<Rightarrow> Inr (ForOccupancy i)
      | (None, Some i) \<Rightarrow> Inr (ForUnit i)
      | _ \<Rightarrow> Inl (BadRequest ''Provide either occupancyId or unitId, but not both''))"

definition checkTarget :: "tenancy \<Rightarrow> string \<Rightarrow> string \<Rightarrow> allocation_target \<Rightarrow> unit res" where
  "checkTarget s org bldg target =
     (case target of
        ForOccupancy i \<Rightarrow>
          andThen (assertActiveLeaseContextForOccupancy s org i) (\<lambda>(oc, l).
          ensure (oc_buildingId oc = bldg) (NotFound ''Occupancy not found''))
      | ForUnit i \<Rightarrow> ensure (findUnitForBuilding (core s) bldg i \<noteq> None) (NotFound ''Unit not found''))"

definition requestedSlots ::
  "(string \<Rightarrow> nat list) \<Rightarrow> tenancy \<Rightarrow> string \<Rightarrow> string \<Rightarrow> allocate_dto \<Rightarrow> string list res" where
  "requestedSlots collate s org bldg d =
     (case (al_slotIds d, al_count d) of
        (Some slotIds, None) \<Rightarrow>
          andThen (ensure (length (findSlotsByIds s org bldg slotIds) = length slotIds)
                     (NotFound ''One or more parking slots not found'')) (\<lambda>_.
          andThen (ensure (findActiveAllocationsForSlots s slotIds = [])
                     (Conflict ''One or more slots are already allocated'')) (\<lambda>_. Inr slotIds))
      | (None, Some n) \<Rightarrow>
          let available = (if n = 0 then [] else findAvailableSlots collate s org bldg n)
          in andThen (ensure (\<not> length available < n) (Conflict ''Not enough available parking slots'')) (\<lambda>_.
             Inr (map ps_id available))
      | _ \<Rightarrow> Inl (BadRequest ''Provide either slotIds or count, but not both''))"

definition slotCodeOf :: "tenancy \<Rightarrow> parking_allocation \<Rightarrow> json" where
  "slotCodeOf s a = jsonOf (JText \<circ> ps_code) (find_by ps_id (pa_parkingSlotId a) (tn_slots s))"

definition allocate ::
  "(string \<Rightarrow> nat list) \<Rightarrow> tenancy \<Rightarrow> int \<Rightarrow> (string \<Rightarrow> nat \<Rightarrow> string) \<Rightarrow> principal \<Rightarrow> string \<Rightarrow> allocate_dto
   \<Rightarrow> (parking_allocation list \<times> tenancy) res" where
  "allocate collate s now ids u bldg d =
     andThen (orgBuilding (core s) u bldg) (\<lambda>org.
     andThen (allocationTarget d) (\<lambda>target.
     andThen (checkTarget s org bldg target) (\<lambda>_.
     andThen (requestedSlots collate s org bldg d) (\<lambda>slotIds.
     andThen (createAllocations s now (ids ''ParkingAllocation'') org bldg target slotIds) (\<lambda>(as, s1).
     case target of
       ForUnit i \<Rightarrow> Inr (as, s1)
     | ForOccupancy i \<Rightarrow>
         andThen (assertActiveLeaseContextForOccupancy s org i) (\<lambda>(oc, l).
         Inr (as, createActivity s1 now (ids ''LeaseActivity'' 0) org (le_id l) LA_PARKING_ALLOCATED (user_sub u)
           [(''occupancyId'', JText i), (''allocationIds'', JList (map (JText \<circ> pa_id) as)),
            (''slotIds'', JList (map (JText \<circ> pa_parkingSlotId) as)), (''slotCodes'', JList (map (slotCodeOf s1) as)),
            (''count'', JNumber (int (length as)))])))))))"

definition endAllocation ::
  "tenancy \<Rightarrow> int \<Rightarrow> (string \<Rightarrow> nat \<Rightarrow> string) \<Rightarrow> principal \<Rightarrow> string \<Rightarrow> int option \<Rightarrow> (parking_allocation \<times> tenancy) res" where
  "endAllocation s now ids u allocationId endDate0 =
     andThen (assertOrgScope u) (\<lambda>org.
     andThen (orThrow (findAllocationForOrg s org allocationId) (NotFound ''Allocation not found'')) (\<lambda>a.
     andThen (ensure (isCurrent a) (BadRequest ''Allocation already ended'')) (\<lambda>_.
     let endDate = nullish endDate0 now in
     andThen (if truthy (pa_occupancyId a)
              then andThen (assertActiveLeaseContextForOccupancy s org (the (pa_occupancyId a))) (\<lambda>(oc, l). Inr (Some l))
              else Inr None) (\<lambda>lease.
     andThen (endAllocationRow s (pa_id a) endDate) (\<lambda>s1.
     andThen (orThrow (findAllocationForOrg s1 org allocationId) (NotFound ''Allocation not found after update'')) (\<lambda>a'.
     Inr (a', case lease of
            None \<Rightarrow> s1
          | Some l \<Rightarrow> createActivity s1 now (ids ''LeaseActivity'' 0) org (le_id l) LA_PARKING_ALLOCATION_ENDED (user_sub u)
              [(''occupancyId'', jsonOf JText (pa_occupancyId a')), (''allocationId'', JText (pa_id a')),
               (''parkingSlotId'', JText (pa_parkingSlotId a')), (''parkingSlotCode'', slotCodeOf s1 a'),
               (''endDate'', JDate endDate)])))))))"

definition endAllForOccupancy ::
  "tenancy \<Rightarrow> int \<Rightarrow> (string \<Rightarrow> nat \<Rightarrow> string) \<Rightarrow> principal \<Rightarrow> string \<Rightarrow> int option \<Rightarrow> (nat \<times> tenancy) res" where
  "endAllForOccupancy s now ids u occupancyId endDate0 =
     andThen (assertOrgScope u) (\<lambda>org.
     let endDate = nullish endDate0 now in
     andThen (assertActiveLeaseContextForOccupancy s org occupancyId) (\<lambda>(oc, l).
     case endAllActiveForOccupancy s org occupancyId endDate of (n, s1) \<Rightarrow>
       Inr (n, if n > 0
               then createActivity s1 now (ids ''LeaseActivity'' 0) org (le_id l) LA_PARKING_ALLOCATION_ENDED (user_sub u)
                      [(''occupancyId'', JText occupancyId), (''endedCount'', JNumber (int n)),
                       (''endDate'', JDate endDate), (''scope'', JText ''ALL_ACTIVE_ALLOCATIONS'')]
               else s1)))"

definition endAllForUnit :: "tenancy \<Rightarrow> int \<Rightarrow> principal \<Rightarrow> string \<Rightarrow> int option \<Rightarrow> (nat \<times> tenancy) res" where
  "endAllForUnit s now u unitId endDate0 =
     andThen (assertOrgScope u) (\<lambda>org.
     andThen (orThrow (assertUnitInOrg s org unitId) (NotFound ''Unit not found'')) (\<lambda>_.
     Inr (endAllActiveForUnit s org unitId (nullish endDate0 now))))"

definition listAllocations :: "tenancy \<Rightarrow> principal \<Rightarrow> string \<Rightarrow> bool option \<Rightarrow> parking_allocation list res" where
  "listAllocations s u occupancyId active =
     andThen (assertOrgScope u) (\<lambda>org.
     andThen (orThrow (assertOccupancyInOrg s org occupancyId) (NotFound ''Occupancy not found'')) (\<lambda>_.
     Inr (listAllocationsForOccupancy s org occupancyId active)))"

definition listAllocationsForUnit :: "tenancy \<Rightarrow> principal \<Rightarrow> string \<Rightarrow> bool option \<Rightarrow> parking_allocation list res" where
  "listAllocationsForUnit s u unitId active =
     andThen (assertOrgScope u) (\<lambda>org.
     andThen (orThrow (assertUnitInOrg s org unitId) (NotFound ''Unit not found'')) (\<lambda>_.
     Inr (listAllocationRowsForUnit s org unitId active)))"

definition getActiveAllocationForResident :: "tenancy \<Rightarrow> principal \<Rightarrow> parking_allocation option res" where
  "getActiveAllocationForResident s u =
     andThen (orgAndUser u) (\<lambda>(org, userId).
     case rev (sort_key oc_createdAt (filter (\<lambda>oc. oc_residentUserId oc = userId \<and> oc_status oc = OC_ACTIVE
            \<and> buildingInOrg (core s) (oc_buildingId oc) org) (occupancies (core s)))) of
       [] \<Rightarrow> Inr None
     | oc # _ \<Rightarrow> (case listAllocationsForOccupancy s org (oc_id oc) (Some True) of
                    [] \<Rightarrow> Inr None | a # _ \<Rightarrow> Inr (Some a)))"

section \<open>Vehicles\<close>

definition plateConflict :: "error \<Rightarrow> error option" where
  "plateConflict e =
     (case e of UniqueViolation \<Rightarrow> Some (Conflict ''Vehicle with this plate number already exists'') | _ \<Rightarrow> None)"

definition createVehicle ::
  "tenancy \<Rightarrow> int \<Rightarrow> (string \<Rightarrow> nat \<Rightarrow> string) \<Rightarrow> principal \<Rightarrow> string \<Rightarrow> string \<Rightarrow> string option \<Rightarrow> (vehicle_row \<times> tenancy) res" where
  "createVehicle s now ids u occupancyId plate label =
     andThen (assertOrgScope u) (\<lambda>org. catchMap plateConflict (
     andThen (assertActiveLeaseContextForOccupancy s org occupancyId) (\<lambda>(oc, l).
     andThen (createVehicleRow s now (ids ''Vehicle'' 0) org occupancyId plate label) (\<lambda>(v, s1).
     Inr (v, createActivity s1 now (ids ''LeaseActivity'' 0) org (le_id l) LA_VEHICLE_ADDED (user_sub u)
       [(''occupancyId'', JText occupancyId), (''vehicleId'', JText (vh_id v)),
        (''plateNumber'', JText (vh_plateNumber v)), (''label'', jsonOf JText (vh_label v))])))))"

definition listVehicles :: "tenancy \<Rightarrow> principal \<Rightarrow> string \<Rightarrow> vehicle_row list res" where
  "listVehicles s u occupancyId =
     andThen (assertOrgScope u) (\<lambda>org.
     andThen (orThrow (assertOccupancyInOrg s org occupancyId) (NotFound ''Occupancy not found'')) (\<lambda>_.
     Inr (listVehiclesForOccupancy s org occupancyId)))"

definition vehicleJson :: "vehicle_row \<Rightarrow> json" where
  "vehicleJson v = JObject [(''plateNumber'', JText (vh_plateNumber v)), (''label'', jsonOf JText (vh_label v))]"

definition updateVehicle ::
  "tenancy \<Rightarrow> int \<Rightarrow> (string \<Rightarrow> nat \<Rightarrow> string) \<Rightarrow> principal \<Rightarrow> string \<Rightarrow> string option \<Rightarrow> string option option
   \<Rightarrow> (vehicle_row \<times> tenancy) res" where
  "updateVehicle s now ids u vehicleId plate label =
     andThen (assertOrgScope u) (\<lambda>org. catchMap plateConflict (
     andThen (orThrow (findVehicleForOrg s org vehicleId) (NotFound ''Vehicle not found'')) (\<lambda>v.
     andThen (assertActiveLeaseContextForOccupancy s org (vh_occupancyId v)) (\<lambda>(oc, l).
     andThen (updateVehicleRow s vehicleId plate label) (\<lambda>(v', s1).
     Inr (v', createActivity s1 now (ids ''LeaseActivity'' 0) org (le_id l) LA_VEHICLE_UPDATED (user_sub u)
       [(''occupancyId'', JText (vh_occupancyId v)), (''vehicleId'', JText (vh_id v')),
        (''previous'', vehicleJson v), (''current'', vehicleJson v')]))))))"

definition deleteVehicle ::
  "tenancy \<Rightarrow> int \<Rightarrow> (string \<Rightarrow> nat \<Rightarrow> string) \<Rightarrow> principal \<Rightarrow> string \<Rightarrow> tenancy res" where
  "deleteVehicle s now ids u vehicleId =
     andThen (assertOrgScope u) (\<lambda>org.
     andThen (orThrow (findVehicleForOrg s org vehicleId) (NotFound ''Vehicle not found'')) (\<lambda>v.
     andThen (assertActiveLeaseContextForOccupancy s org (vh_occupancyId v)) (\<lambda>(oc, l).
     Inr (createActivity (s\<lparr> tn_vehicles := filter (\<lambda>x. vh_id x \<noteq> vehicleId) (tn_vehicles s) \<rparr>) now
       (ids ''LeaseActivity'' 0) org (le_id l) LA_VEHICLE_DELETED (user_sub u)
       [(''occupancyId'', JText (vh_occupancyId v)), (''vehicleId'', JText (vh_id v)),
        (''plateNumber'', JText (vh_plateNumber v)), (''label'', jsonOf JText (vh_label v))]))))"

end
