(* ===== verification/TenancyView.thy ===== *)
theory TenancyView
  imports MoveRequests Parking
begin

text \<open>
  The tables a tenancy rests on, and the few ways in which the services change them: \<open>tstep\<close> is a step relation on
  the view of a state that keeps the leases, the occupancies (without the reference to their lease), the move requests,
  the parking slots and their allocations. The invariant is proved once by cases over these steps.
\<close>

section \<open>The view\<close>

record tview =
  tv_buildings :: "building_row list"
  tv_leases :: "lease_row list"
  tv_occupancies :: "occupancy_row list"
  tv_moveIns :: "move_request list"
  tv_moveOuts :: "move_request list"
  tv_slots :: "parking_slot list"
  tv_allocations :: "parking_allocation list"

definition bare :: "occupancy_row \<Rightarrow> occupancy_row" where
  "bare oc = oc\<lparr> oc_lease := None \<rparr>"

lemma bare_simps [simp]:
  "oc_id (bare oc) = oc_id oc" "oc_buildingId (bare oc) = oc_buildingId oc" "oc_unitId (bare oc) = oc_unitId oc"
  "oc_residentUserId (bare oc) = oc_residentUserId oc" "oc_status (bare oc) = oc_status oc"
  "oc_endAt (bare oc) = oc_endAt oc"
  by (simp_all add: bare_def)

definition viewOf :: "tenancy \<Rightarrow> tview" where
  "viewOf s =
     \<lparr> tv_buildings = buildings (core s), tv_leases = tn_leases s, tv_occupancies = map bare (occupancies (core s)),
       tv_moveIns = tn_moveIns s, tv_moveOuts = tn_moveOuts s, tv_slots = tn_slots s,
       tv_allocations = tn_allocations s \<rparr>"

fun viewRequests :: "move_kind \<Rightarrow> tview \<Rightarrow> move_request list" where
  "viewRequests MOVE_IN v = tv_moveIns v"
| "viewRequests MOVE_OUT v = tv_moveOuts v"

fun setViewRequests :: "move_kind \<Rightarrow> move_request list \<Rightarrow> tview \<Rightarrow> tview" where
  "setViewRequests MOVE_IN rows v = v\<lparr> tv_moveIns := rows \<rparr>"
| "setViewRequests MOVE_OUT rows v = v\<lparr> tv_moveOuts := rows \<rparr>"

lemma viewRequests_set [simp]:
  "viewRequests k (setViewRequests k' rows v) = (if k = k' then rows else viewRequests k v)"
  "tv_leases (setViewRequests k' rows v) = tv_leases v"
  "tv_buildings (setViewRequests k' rows v) = tv_buildings v"
  "tv_occupancies (setViewRequests k' rows v) = tv_occupancies v"
  "tv_slots (setViewRequests k' rows v) = tv_slots v"
  "tv_allocations (setViewRequests k' rows v) = tv_allocations v"
  by (cases k; cases k'; simp)+

lemma viewRequests_other [simp]:
  "viewRequests k (v\<lparr> tv_leases := ls \<rparr>) = viewRequests k v"
  "viewRequests k (v\<lparr> tv_occupancies := ocs \<rparr>) = viewRequests k v"
  "viewRequests k (v\<lparr> tv_slots := ps \<rparr>) = viewRequests k v"
  "viewRequests k (v\<lparr> tv_allocations := as \<rparr>) = viewRequests k v"
  by (cases k; simp)+

section \<open>The steps\<close>

definition sameLease :: "lease_row \<Rightarrow> lease_row \<Rightarrow> bool" where
  "sameLease l m \<longleftrightarrow> le_id m = le_id l \<and> le_orgId m = le_orgId l \<and> le_buildingId m = le_buildingId l
     \<and> le_unitId m = le_unitId l \<and> le_residentUserId m = le_residentUserId l"

definition mayBecome :: "lease_row \<Rightarrow> lease_status \<Rightarrow> bool" where
  "mayBecome l st \<longleftrightarrow> st = le_status l
     \<or> le_status l \<noteq> LE_ENDED \<and> (st = LE_ACTIVE \<or> st = LE_CANCELLED \<and> (le_status l \<noteq> LE_ACTIVE \<or> le_occupancyId l = None))"

definition inOrg :: "building_row list \<Rightarrow> string \<Rightarrow> string \<Rightarrow> bool" where
  "inOrg bs bldg org \<longleftrightarrow> (\<exists>b \<in> set bs. bd_id b = bldg \<and> bd_orgId b = org)"

definition noActive :: "occupancy_row list \<Rightarrow> string \<Rightarrow> string \<Rightarrow> bool" where
  "noActive ocs unitId userId \<longleftrightarrow>
     (\<forall>oc \<in> set ocs. oc_status oc = OC_ACTIVE \<longrightarrow> oc_unitId oc \<noteq> unitId \<and> oc_residentUserId oc \<noteq> userId)"

definition endedOccupancy :: "string \<Rightarrow> int \<Rightarrow> occupancy_row \<Rightarrow> occupancy_row" where
  "endedOccupancy c d oc = (if oc_id oc = c then oc\<lparr> oc_status := OC_ENDED, oc_endAt := Some d \<rparr> else oc)"

definition endedAllocation :: "(parking_allocation \<Rightarrow> bool) \<Rightarrow> int \<Rightarrow> parking_allocation \<Rightarrow> parking_allocation" where
  "endedAllocation P d a = (if P a then a\<lparr> pa_endDate := Some d \<rparr> else a)"

inductive tstep :: "tview \<Rightarrow> tview \<Rightarrow> bool" where
  edit_lease:
    "find_by le_id i (tv_leases v) = Some l \<Longrightarrow> sameLease l l' \<Longrightarrow> le_occupancyId l' = le_occupancyId l
     \<Longrightarrow> mayBecome l (le_status l')
     \<Longrightarrow> tstep v (v\<lparr> tv_leases := modify_by le_id i (\<lambda>_. l') (tv_leases v) \<rparr>)"
| move_out:
    "find_by le_id i (tv_leases v) = Some l \<Longrightarrow> sameLease l l' \<Longrightarrow> le_occupancyId l' = le_occupancyId l
     \<Longrightarrow> le_status l = LE_ACTIVE \<Longrightarrow> le_occupancyId l = Some c \<Longrightarrow> le_status l' \<in> {LE_ENDED, LE_CANCELLED}
     \<Longrightarrow> tstep v (v\<lparr> tv_leases := modify_by le_id i (\<lambda>_. l') (tv_leases v),
                    tv_occupancies := map (endedOccupancy c d) (tv_occupancies v),
                    tv_allocations := map (endedAllocation (ofOccupancy (le_orgId l) c) d) (tv_allocations v) \<rparr>)"
| add_lease:
    "find_by le_id (le_id l) (tv_leases v) = None \<Longrightarrow> inOrg (tv_buildings v) (le_buildingId l) (le_orgId l)
     \<Longrightarrow> (\<forall>c. le_occupancyId l = Some c \<longrightarrow> le_status l = LE_ACTIVE \<and> (\<forall>m \<in> set (tv_leases v). le_occupancyId m \<noteq> Some c)
            \<and> (\<exists>oc \<in> set (tv_occupancies v). oc_id oc = c \<and> oc_unitId oc = le_unitId l \<and> oc_buildingId oc = le_buildingId l
                 \<and> (le_residentUserId l = None \<or> le_residentUserId l = Some (oc_residentUserId oc))))
     \<Longrightarrow> tstep v (v\<lparr> tv_leases := tv_leases v @ [l] \<rparr>)"
| link_lease:
    "find_by le_id i (tv_leases v) = Some l \<Longrightarrow> sameLease l l' \<Longrightarrow> le_occupancyId l = None
     \<Longrightarrow> le_occupancyId l' = Some c \<Longrightarrow> le_status l = LE_ACTIVE \<Longrightarrow> le_status l' = LE_ACTIVE
     \<Longrightarrow> (\<forall>m \<in> set (tv_leases v). le_occupancyId m \<noteq> Some c)
     \<Longrightarrow> (\<exists>oc \<in> set (tv_occupancies v). oc_id oc = c \<and> oc_unitId oc = le_unitId l \<and> oc_buildingId oc = le_buildingId l
           \<and> (le_residentUserId l = None \<or> le_residentUserId l = Some (oc_residentUserId oc)))
     \<Longrightarrow> tstep v (v\<lparr> tv_leases := modify_by le_id i (\<lambda>_. l') (tv_leases v) \<rparr>)"
| occupy:
    "find_by oc_id (oc_id oc) (tv_occupancies v) = None \<Longrightarrow> oc_id oc \<noteq> [] \<Longrightarrow> oc_status oc = OC_ACTIVE
     \<Longrightarrow> oc_endAt oc = None \<Longrightarrow> noActive (tv_occupancies v) (oc_unitId oc) (oc_residentUserId oc)
     \<Longrightarrow> tstep v (v\<lparr> tv_occupancies := tv_occupancies v @ [oc] \<rparr>)"
| ask:
    "find_by mv_id (mv_id r) (viewRequests k v) = None \<Longrightarrow> mv_status r = MV_PENDING
     \<Longrightarrow> (\<exists>l \<in> set (tv_leases v). le_id l = mv_leaseId r \<and> le_orgId l = mv_orgId r)
     \<Longrightarrow> (\<forall>x \<in> set (viewRequests k v). isOpen x \<longrightarrow> mv_orgId x = mv_orgId r \<longrightarrow> mv_leaseId x \<noteq> mv_leaseId r)
     \<Longrightarrow> tstep v (setViewRequests k (viewRequests k v @ [r]) v)"
| change_requests:
    "(\<And>r. mv_id (f r) = mv_id r \<and> mv_leaseId (f r) = mv_leaseId r \<and> mv_orgId (f r) = mv_orgId r)
     \<Longrightarrow> (\<And>r. r \<in> set (viewRequests k v) \<Longrightarrow> isOpen (f r) \<Longrightarrow> isOpen r)
     \<Longrightarrow> (\<And>r. r \<in> set (viewRequests k v) \<Longrightarrow> k = MOVE_IN \<Longrightarrow> mv_status (f r) = MV_COMPLETED \<Longrightarrow>
           mv_status r = MV_COMPLETED \<or> (\<exists>l \<in> set (tv_leases v). le_id l = mv_leaseId r \<and> le_occupancyId l \<noteq> None))
     \<Longrightarrow> tstep v (setViewRequests k (map f (viewRequests k v)) v)"
| allocate_slots:
    "distinct (map pa_id (tv_allocations v @ new)) \<Longrightarrow> distinct (map pa_parkingSlotId new)
     \<Longrightarrow> (\<forall>a \<in> set new. pa_endDate a = None \<and> inOrg (tv_buildings v) (pa_buildingId a) (pa_orgId a)
           \<and> (pa_occupancyId a = None) \<noteq> (pa_unitId a = None)
           \<and> (\<exists>p \<in> set (tv_slots v). ps_id p = pa_parkingSlotId a \<and> ps_buildingId p = pa_buildingId a \<and> ps_orgId p = pa_orgId a)
           \<and> (\<forall>b \<in> set (tv_allocations v). isCurrent b \<longrightarrow> pa_parkingSlotId b \<noteq> pa_parkingSlotId a)
           \<and> (\<forall>c. pa_occupancyId a = Some c \<longrightarrow> (\<exists>oc \<in> set (tv_occupancies v). oc_id oc = c \<and> oc_status oc = OC_ACTIVE
                 \<and> oc_buildingId oc = pa_buildingId a)))
     \<Longrightarrow> tstep v (v\<lparr> tv_allocations := tv_allocations v @ new \<rparr>)"
| end_allocations:
    "tstep v (v\<lparr> tv_allocations := map (endedAllocation P d) (tv_allocations v) \<rparr>)"
| add_slot:
    "(\<forall>x \<in> set (tv_slots v). ps_id x \<noteq> ps_id p \<and> (ps_buildingId x = ps_buildingId p \<longrightarrow> ps_code x \<noteq> ps_code p))
     \<Longrightarrow> tstep v (v\<lparr> tv_slots := tv_slots v @ [p] \<rparr>)"
| edit_slot:
    "find_by ps_id i (tv_slots v) = Some p \<Longrightarrow> ps_id p' = ps_id p \<Longrightarrow> ps_orgId p' = ps_orgId p
     \<Longrightarrow> ps_buildingId p' = ps_buildingId p
     \<Longrightarrow> (\<forall>x \<in> set (tv_slots v). ps_id x \<noteq> i \<longrightarrow> ps_buildingId x = ps_buildingId p \<longrightarrow> ps_code x \<noteq> ps_code p')
     \<Longrightarrow> tstep v (v\<lparr> tv_slots := modify_by ps_id i (\<lambda>_. p') (tv_slots v) \<rparr>)"

section \<open>The invariant\<close>

text \<open>Among the rows that satisfy \<open>P\<close>, the column \<open>f\<close> is unique: two rows with the same value are the same row.\<close>

definition uniqueBy :: "('r \<Rightarrow> string) \<Rightarrow> ('r \<Rightarrow> bool) \<Rightarrow> ('r \<Rightarrow> 'x) \<Rightarrow> 'r set \<Rightarrow> bool" where
  "uniqueBy key P f A \<longleftrightarrow> (\<forall>x \<in> A. \<forall>y \<in> A. P x \<longrightarrow> P y \<longrightarrow> f x = f y \<longrightarrow> key x = key y)"

lemma uniqueByD: "uniqueBy key P f A \<Longrightarrow> x \<in> A \<Longrightarrow> y \<in> A \<Longrightarrow> P x \<Longrightarrow> P y \<Longrightarrow> f x = f y \<Longrightarrow> key x = key y"
  unfolding uniqueBy_def by blast

lemma uniqueBy_empty [simp]: "uniqueBy key P f {}"
  by (simp add: uniqueBy_def)

lemma uniqueBy_insert:
  assumes "uniqueBy key P f A" and "\<And>y. y \<in> A \<Longrightarrow> P y \<Longrightarrow> P x \<Longrightarrow> f y \<noteq> f x"
  shows "uniqueBy key P f (insert x A)"
  using assms unfolding uniqueBy_def by (metis insert_iff)

lemma uniqueBy_subset: "uniqueBy key P f A \<Longrightarrow> B \<subseteq> A \<Longrightarrow> uniqueBy key P f B"
  unfolding uniqueBy_def by blast

lemma uniqueBy_image:
  assumes "uniqueBy key P f A"
    and "\<And>x. x \<in> A \<Longrightarrow> key (g x) = key x \<and> f (g x) = f x \<and> (P (g x) \<longrightarrow> P x)"
  shows "uniqueBy key P f (g ` A)"
  unfolding uniqueBy_def
proof (intro ballI impI)
  fix x y assume "x \<in> g ` A" "y \<in> g ` A" and xy: "P x" "P y" "f x = f y"
  then obtain a b where "a \<in> A" "x = g a" "b \<in> A" "y = g b" by blast
  with xy assms(2) [of a] assms(2) [of b] uniqueByD [OF assms(1), of a b] show "key x = key y" by simp
qed

definition isActiveOccupancy :: "occupancy_row \<Rightarrow> bool" where
  "isActiveOccupancy oc \<longleftrightarrow> oc_status oc = OC_ACTIVE"

definition occupancyInv :: "occupancy_row list \<Rightarrow> bool" where
  "occupancyInv ocs \<longleftrightarrow> distinct (map oc_id ocs)
     \<and> (\<forall>oc \<in> set ocs. occupancyConsistent oc \<and> oc_id oc \<noteq> [])
     \<and> uniqueBy oc_id isActiveOccupancy oc_unitId (set ocs) \<and> uniqueBy oc_id isActiveOccupancy oc_residentUserId (set ocs)"

text \<open>The occupancy a lease points to: of the same unit and resident, and active only while the lease is.\<close>

definition leaseOccupied :: "occupancy_row list \<Rightarrow> lease_row \<Rightarrow> bool" where
  "leaseOccupied ocs l \<longleftrightarrow>
     (\<forall>c. le_occupancyId l = Some c \<longrightarrow>
        (\<exists>oc \<in> set ocs. oc_id oc = c \<and> oc_unitId oc = le_unitId l \<and> oc_buildingId oc = le_buildingId l
           \<and> (le_residentUserId l = None \<or> le_residentUserId l = Some (oc_residentUserId oc))
           \<and> (oc_status oc = OC_ACTIVE \<longrightarrow> le_status l = LE_ACTIVE)))"

definition hasOccupancy :: "lease_row \<Rightarrow> bool" where
  "hasOccupancy l \<longleftrightarrow> le_occupancyId l \<noteq> None"

definition leaseInv :: "building_row list \<Rightarrow> occupancy_row list \<Rightarrow> lease_row list \<Rightarrow> bool" where
  "leaseInv bs ocs ls \<longleftrightarrow> distinct (map le_id ls) \<and> uniqueBy le_id hasOccupancy le_occupancyId (set ls)
     \<and> (\<forall>l \<in> set ls. inOrg bs (le_buildingId l) (le_orgId l) \<and> leaseOccupied ocs l)"

definition requestInv :: "move_kind \<Rightarrow> lease_row list \<Rightarrow> move_request list \<Rightarrow> bool" where
  "requestInv k ls rs \<longleftrightarrow> distinct (map mv_id rs) \<and> uniqueBy mv_id isOpen mv_leaseId (set rs)
     \<and> (\<forall>r \<in> set rs. \<exists>l \<in> set ls. le_id l = mv_leaseId r \<and> le_orgId l = mv_orgId r
          \<and> (k = MOVE_IN \<longrightarrow> mv_status r = MV_COMPLETED \<longrightarrow> le_occupancyId l \<noteq> None))"

definition slotInv :: "parking_slot list \<Rightarrow> bool" where
  "slotInv ps \<longleftrightarrow> distinct (map ps_id ps)
     \<and> uniqueBy ps_id (\<lambda>_. True) (\<lambda>p. (ps_buildingId p, ps_code p)) (set ps)"

definition allocationSound ::
  "building_row list \<Rightarrow> occupancy_row list \<Rightarrow> parking_slot list \<Rightarrow> parking_allocation \<Rightarrow> bool" where
  "allocationSound bs ocs ps a \<longleftrightarrow>
     inOrg bs (pa_buildingId a) (pa_orgId a) \<and> (pa_occupancyId a = None) \<noteq> (pa_unitId a = None)
     \<and> (\<exists>p \<in> set ps. ps_id p = pa_parkingSlotId a \<and> ps_buildingId p = pa_buildingId a \<and> ps_orgId p = pa_orgId a)
     \<and> (\<forall>c. isCurrent a \<longrightarrow> pa_occupancyId a = Some c \<longrightarrow>
          (\<exists>oc \<in> set ocs. oc_id oc = c \<and> oc_status oc = OC_ACTIVE \<and> oc_buildingId oc = pa_buildingId a))"

definition allocationInv ::
  "building_row list \<Rightarrow> occupancy_row list \<Rightarrow> parking_slot list \<Rightarrow> parking_allocation list \<Rightarrow> bool" where
  "allocationInv bs ocs ps as \<longleftrightarrow> distinct (map pa_id as) \<and> uniqueBy pa_id isCurrent pa_parkingSlotId (set as)
     \<and> (\<forall>a \<in> set as. allocationSound bs ocs ps a)"

definition viewInv :: "tview \<Rightarrow> bool" where
  "viewInv v \<longleftrightarrow> distinct (map bd_id (tv_buildings v)) \<and> occupancyInv (tv_occupancies v)
     \<and> leaseInv (tv_buildings v) (tv_occupancies v) (tv_leases v)
     \<and> requestInv MOVE_IN (tv_leases v) (tv_moveIns v) \<and> requestInv MOVE_OUT (tv_leases v) (tv_moveOuts v)
     \<and> slotInv (tv_slots v)
     \<and> allocationInv (tv_buildings v) (tv_occupancies v) (tv_slots v) (tv_allocations v)"

lemma viewInvD:
  assumes "viewInv v"
  shows "distinct (map bd_id (tv_buildings v))" and "occupancyInv (tv_occupancies v)"
    and "leaseInv (tv_buildings v) (tv_occupancies v) (tv_leases v)"
    and "requestInv MOVE_IN (tv_leases v) (tv_moveIns v)" and "requestInv MOVE_OUT (tv_leases v) (tv_moveOuts v)"
    and "slotInv (tv_slots v)" and "allocationInv (tv_buildings v) (tv_occupancies v) (tv_slots v) (tv_allocations v)"
    and "distinct (map le_id (tv_leases v))"
  using assms by (simp_all add: viewInv_def leaseInv_def)

lemma viewInv_requests: "viewInv v \<Longrightarrow> requestInv k (tv_leases v) (viewRequests k v)"
  by (cases k) (simp_all add: viewInv_def)

section \<open>The steps keep the invariant\<close>

lemma set_modify_const:
  "find_by key i rows = Some r \<Longrightarrow> set (modify_by key i (\<lambda>_. r') rows) = insert r' {x \<in> set rows. key x \<noteq> i}"
  by (auto simp: modify_by_def image_iff dest: find_by_SomeD split: if_splits)

lemma keys_modify_const: "key r' = i \<Longrightarrow> map key (modify_by key i (\<lambda>_. r') rows) = map key rows"
  by (simp add: modify_by_def)

lemma find_by_unique:
  "distinct (map key rows) \<Longrightarrow> find_by key i rows = Some r \<Longrightarrow> x \<in> set rows \<Longrightarrow> key x = i \<Longrightarrow> x = r"
  using find_by_distinct by fastforce

lemma leaseInv_modify:
  assumes inv: "leaseInv bs ocs ls" and fnd: "find_by le_id i ls = Some l" and same: "sameLease l l'"
    and occ: "leaseOccupied ocs l'"
    and new: "\<And>m. m \<in> set ls \<Longrightarrow> le_id m \<noteq> i \<Longrightarrow> le_occupancyId l' \<noteq> None \<Longrightarrow> le_occupancyId m \<noteq> le_occupancyId l'"
  shows "leaseInv bs ocs (modify_by le_id i (\<lambda>_. l') ls)"
proof -
  let ?ls = "modify_by le_id i (\<lambda>_. l') ls"
  from fnd have l: "l \<in> set ls" "le_id l = i" by (auto dest: find_by_SomeD)
  with same have i: "le_id l' = i" by (simp add: sameLease_def)
  have "distinct (map le_id ?ls)"
    using inv keys_modify_const [of le_id, OF i] by (simp add: leaseInv_def)
  moreover have "uniqueBy le_id hasOccupancy le_occupancyId {x \<in> set ls. le_id x \<noteq> i}"
    using inv unfolding leaseInv_def by (blast intro: uniqueBy_subset)
  then have "uniqueBy le_id hasOccupancy le_occupancyId (set ?ls)"
    unfolding set_modify_const [OF fnd] by (rule uniqueBy_insert) (use new in \<open>auto simp: hasOccupancy_def\<close>)
  moreover have "inOrg bs (le_buildingId l) (le_orgId l)" using inv l by (simp add: leaseInv_def)
  then have "inOrg bs (le_buildingId x) (le_orgId x) \<and> leaseOccupied ocs x" if "x \<in> set ?ls" for x
    using that inv occ same unfolding leaseInv_def sameLease_def set_modify_const [OF fnd] by auto
  ultimately show ?thesis unfolding leaseInv_def by blast
qed

lemma leaseOccupied_edit:
  assumes "leaseOccupied ocs l" and "sameLease l l'" and "le_occupancyId l' = le_occupancyId l"
    and "mayBecome l (le_status l')"
  shows "leaseOccupied ocs l'"
proof -
  have "le_status l' = LE_ACTIVE" if "le_status l = LE_ACTIVE" "le_occupancyId l \<noteq> None"
    using assms(4) that by (auto simp: mayBecome_def)
  with assms show ?thesis by (fastforce simp: leaseOccupied_def sameLease_def)
qed

lemma requestInv_modify:
  assumes inv: "requestInv k ls rs" and fnd: "find_by le_id i ls = Some l" and same: "sameLease l l'"
    and dis: "distinct (map le_id ls)" and occ: "le_occupancyId l \<noteq> None \<Longrightarrow> le_occupancyId l' \<noteq> None"
  shows "requestInv k (modify_by le_id i (\<lambda>_. l') ls) rs"
proof -
  have "\<exists>m \<in> set (modify_by le_id i (\<lambda>_. l') ls). le_id m = mv_leaseId r \<and> le_orgId m = mv_orgId r
      \<and> (k = MOVE_IN \<longrightarrow> mv_status r = MV_COMPLETED \<longrightarrow> le_occupancyId m \<noteq> None)" if r: "r \<in> set rs" for r
  proof -
    from inv r obtain m where m: "m \<in> set ls" "le_id m = mv_leaseId r" "le_orgId m = mv_orgId r"
        "k = MOVE_IN \<longrightarrow> mv_status r = MV_COMPLETED \<longrightarrow> le_occupancyId m \<noteq> None"
      unfolding requestInv_def by blast
    show ?thesis
    proof (cases "le_id m = i")
      case True
      with find_by_unique [OF dis fnd m(1)] have "m = l" .
      with m same occ show ?thesis
        by (intro bexI [of _ l']) (auto simp: sameLease_def set_modify_const [OF fnd])
    next
      case False
      with m show ?thesis by (intro bexI [of _ m]) (auto simp: set_modify_const [OF fnd])
    qed
  qed
  with inv show ?thesis unfolding requestInv_def by blast
qed

lemma endedOccupancy_simps [simp]:
  "oc_id (endedOccupancy c d oc) = oc_id oc" "oc_unitId (endedOccupancy c d oc) = oc_unitId oc"
  "oc_buildingId (endedOccupancy c d oc) = oc_buildingId oc"
  "oc_residentUserId (endedOccupancy c d oc) = oc_residentUserId oc"
  "oc_status (endedOccupancy c d oc) = OC_ACTIVE \<longleftrightarrow> oc_id oc \<noteq> c \<and> oc_status oc = OC_ACTIVE"
  by (simp_all add: endedOccupancy_def)

lemma endedAllocation_simps [simp]:
  "pa_id (endedAllocation P d a) = pa_id a" "pa_orgId (endedAllocation P d a) = pa_orgId a"
  "pa_buildingId (endedAllocation P d a) = pa_buildingId a" "pa_parkingSlotId (endedAllocation P d a) = pa_parkingSlotId a"
  "pa_occupancyId (endedAllocation P d a) = pa_occupancyId a" "pa_unitId (endedAllocation P d a) = pa_unitId a"
  "isCurrent (endedAllocation P d a) \<longleftrightarrow> \<not> P a \<and> isCurrent a"
  by (simp_all add: endedAllocation_def isCurrent_def)

lemma occupancyInv_ended:
  assumes "occupancyInv ocs"
  shows "occupancyInv (map (endedOccupancy c d) ocs)"
proof -
  have "occupancyConsistent (endedOccupancy c d oc)" if "oc \<in> set ocs" for oc
    using assms that by (auto simp: occupancyInv_def occupancyConsistent_def endedOccupancy_def)
  moreover have "uniqueBy oc_id isActiveOccupancy oc_unitId (endedOccupancy c d ` set ocs)"
    "uniqueBy oc_id isActiveOccupancy oc_residentUserId (endedOccupancy c d ` set ocs)"
    using assms by (auto simp: occupancyInv_def isActiveOccupancy_def intro!: uniqueBy_image)
  ultimately show ?thesis using assms by (simp add: occupancyInv_def comp_def)
qed

lemma leaseOccupied_ended:
  assumes "leaseOccupied ocs l"
  shows "leaseOccupied (map (endedOccupancy c d) ocs) l"
  unfolding leaseOccupied_def
proof (intro allI impI)
  fix c' assume "le_occupancyId l = Some c'"
  with assms obtain oc where "oc \<in> set ocs" "oc_id oc = c'" "oc_unitId oc = le_unitId l"
      "oc_buildingId oc = le_buildingId l"
      "le_residentUserId l = None \<or> le_residentUserId l = Some (oc_residentUserId oc)"
      "oc_status oc = OC_ACTIVE \<longrightarrow> le_status l = LE_ACTIVE"
    unfolding leaseOccupied_def by blast
  then show "\<exists>oc \<in> set (map (endedOccupancy c d) ocs). oc_id oc = c' \<and> oc_unitId oc = le_unitId l
      \<and> oc_buildingId oc = le_buildingId l
      \<and> (le_residentUserId l = None \<or> le_residentUserId l = Some (oc_residentUserId oc))
      \<and> (oc_status oc = OC_ACTIVE \<longrightarrow> le_status l = LE_ACTIVE)"
    by (intro bexI [of _ "endedOccupancy c d oc"]) auto
qed

lemma leaseOccupied_moved_out:
  assumes "leaseOccupied ocs l" and "sameLease l l'" and "le_occupancyId l' = Some c" and "le_occupancyId l = Some c"
  shows "leaseOccupied (map (endedOccupancy c d) ocs) l'"
proof -
  from assms(1,4) obtain oc where "oc \<in> set ocs" "oc_id oc = c" "oc_unitId oc = le_unitId l"
      "oc_buildingId oc = le_buildingId l"
      "le_residentUserId l = None \<or> le_residentUserId l = Some (oc_residentUserId oc)"
    unfolding leaseOccupied_def by blast
  with assms(2,3) show ?thesis
    unfolding leaseOccupied_def sameLease_def by (intro allI impI bexI [of _ "endedOccupancy c d oc"]) auto
qed

lemma inOrg_unique: "distinct (map bd_id bs) \<Longrightarrow> inOrg bs b o1 \<Longrightarrow> inOrg bs b o2 \<Longrightarrow> o1 = o2"
  by (auto simp: inOrg_def distinct_map inj_on_def)

lemma allocationInv_ended:
  assumes "allocationInv bs ocs ps as"
  shows "allocationInv bs ocs ps (map (endedAllocation P d) as)"
proof -
  have "allocationSound bs ocs ps (endedAllocation P d a)" if "allocationSound bs ocs ps a" for a
    using that by (simp add: allocationSound_def)
  moreover have "uniqueBy pa_id isCurrent pa_parkingSlotId (endedAllocation P d ` set as)"
    using assms by (auto simp: allocationInv_def intro: uniqueBy_image)
  ultimately show ?thesis using assms by (simp add: allocationInv_def comp_def)
qed

lemma allocationInv_moved_out:
  assumes inv: "allocationInv bs ocs ps as" and lease: "leaseInv bs ocs ls" and l: "l \<in> set ls"
    and occ: "le_occupancyId l = Some c" and bs: "distinct (map bd_id bs)" and ocs: "occupancyInv ocs"
  shows "allocationInv bs (map (endedOccupancy c d) ocs) ps (map (endedAllocation (ofOccupancy (le_orgId l) c) d') as)"
proof -
  have "allocationSound bs (map (endedOccupancy c d) ocs) ps (endedAllocation (ofOccupancy (le_orgId l) c) d' a)"
    if a: "a \<in> set as" for a
  proof -
    from inv a have snd: "allocationSound bs ocs ps a" by (simp add: allocationInv_def)
    have live: "\<exists>oc \<in> set (map (endedOccupancy c d) ocs). oc_id oc = c' \<and> oc_status oc = OC_ACTIVE \<and> oc_buildingId oc = pa_buildingId a"
      if cur: "isCurrent a" "\<not> ofOccupancy (le_orgId l) c a" and c': "pa_occupancyId a = Some c'" for c'
    proof -
      from snd cur(1) c' obtain oc where oc: "oc \<in> set ocs" "oc_id oc = c'" "oc_status oc = OC_ACTIVE"
          "oc_buildingId oc = pa_buildingId a" unfolding allocationSound_def by blast
      have "c' \<noteq> c"
      proof
        assume [simp]: "c' = c"
        from lease l occ obtain oc' where oc': "oc' \<in> set ocs" "oc_id oc' = c" "oc_buildingId oc' = le_buildingId l"
          unfolding leaseInv_def leaseOccupied_def by blast
        from ocs oc(1,2) oc'(1,2) have "oc' = oc" by (auto simp: occupancyInv_def distinct_map inj_on_def)
        with oc oc' have "pa_buildingId a = le_buildingId l" by simp
        moreover have "inOrg bs (pa_buildingId a) (pa_orgId a)" using snd by (simp add: allocationSound_def)
        moreover have "inOrg bs (le_buildingId l) (le_orgId l)" using lease l by (simp add: leaseInv_def)
        ultimately have "pa_orgId a = le_orgId l" using inOrg_unique [OF bs] by metis
        with cur c' show False by (simp add: ofOccupancy_def)
      qed
      with oc show ?thesis by (intro bexI [of _ "endedOccupancy c d oc"]) auto
    qed
    with snd show ?thesis unfolding allocationSound_def by auto
  qed
  moreover have "uniqueBy pa_id isCurrent pa_parkingSlotId (set (map (endedAllocation (ofOccupancy (le_orgId l) c) d') as))"
    using allocationInv_ended [OF inv, of "ofOccupancy (le_orgId l) c" d'] unfolding allocationInv_def by blast
  ultimately show ?thesis using inv unfolding allocationInv_def by (simp add: comp_def)
qed

lemma leaseInv_add:
  assumes "leaseInv bs ocs ls" and "find_by le_id (le_id l) ls = None" and "inOrg bs (le_buildingId l) (le_orgId l)"
    and "leaseOccupied ocs l" and "\<And>m. m \<in> set ls \<Longrightarrow> le_occupancyId l \<noteq> None \<Longrightarrow> le_occupancyId m \<noteq> le_occupancyId l"
  shows "leaseInv bs ocs (ls @ [l])"
proof -
  have "uniqueBy le_id hasOccupancy le_occupancyId (insert l (set ls))"
    using assms(1,5) by (intro uniqueBy_insert) (auto simp: leaseInv_def hasOccupancy_def)
  with assms show ?thesis by (auto simp: leaseInv_def find_by_None_iff)
qed

lemma requestInv_more_leases: "requestInv k ls rs \<Longrightarrow> set ls \<subseteq> set ls' \<Longrightarrow> requestInv k ls' rs"
  unfolding requestInv_def by (meson subsetD)

lemma occupancyInv_add:
  assumes "occupancyInv ocs" and "find_by oc_id (oc_id oc) ocs = None" and "oc_id oc \<noteq> []"
    and "oc_status oc = OC_ACTIVE" and "oc_endAt oc = None" and "noActive ocs (oc_unitId oc) (oc_residentUserId oc)"
  shows "occupancyInv (ocs @ [oc])"
proof -
  have "uniqueBy oc_id isActiveOccupancy oc_unitId (insert oc (set ocs))"
    "uniqueBy oc_id isActiveOccupancy oc_residentUserId (insert oc (set ocs))"
    using assms(1,6) by (auto simp: occupancyInv_def isActiveOccupancy_def noActive_def intro!: uniqueBy_insert)
  with assms(1-5) show ?thesis
    by (auto simp: occupancyInv_def find_by_None_iff occupancyConsistent_def)
qed

lemma leaseInv_more_occupancies: "leaseInv bs ocs ls \<Longrightarrow> set ocs \<subseteq> set ocs' \<Longrightarrow> leaseInv bs ocs' ls"
  unfolding leaseInv_def leaseOccupied_def by (meson subsetD)

lemma allocationSound_more:
  assumes "allocationSound bs ocs ps a" and "set ocs \<subseteq> set ocs'" and "set ps \<subseteq> set ps'"
  shows "allocationSound bs ocs' ps' a"
proof -
  from assms(1,3) have "\<exists>p \<in> set ps'. ps_id p = pa_parkingSlotId a \<and> ps_buildingId p = pa_buildingId a \<and> ps_orgId p = pa_orgId a"
    unfolding allocationSound_def by blast
  moreover from assms(1,2) have "isCurrent a \<longrightarrow> pa_occupancyId a = Some c \<longrightarrow>
      (\<exists>oc \<in> set ocs'. oc_id oc = c \<and> oc_status oc = OC_ACTIVE \<and> oc_buildingId oc = pa_buildingId a)" for c
    unfolding allocationSound_def by blast
  ultimately show ?thesis using assms(1) unfolding allocationSound_def by simp
qed

lemma allocationInv_more:
  "allocationInv bs ocs ps as \<Longrightarrow> set ocs \<subseteq> set ocs' \<Longrightarrow> set ps \<subseteq> set ps' \<Longrightarrow> allocationInv bs ocs' ps' as"
  unfolding allocationInv_def by (blast intro: allocationSound_more)

lemma requestInv_ask:
  assumes inv: "requestInv k ls rs" and "find_by mv_id (mv_id r) rs = None" and "mv_status r = MV_PENDING"
    and l: "l \<in> set ls" "le_id l = mv_leaseId r" "le_orgId l = mv_orgId r" and dis: "distinct (map le_id ls)"
    and none: "\<And>x. x \<in> set rs \<Longrightarrow> isOpen x \<Longrightarrow> mv_orgId x = mv_orgId r \<Longrightarrow> mv_leaseId x \<noteq> mv_leaseId r"
  shows "requestInv k ls (rs @ [r])"
proof -
  have "mv_leaseId x \<noteq> mv_leaseId r" if x: "x \<in> set rs" "isOpen x" for x
  proof
    assume eq: "mv_leaseId x = mv_leaseId r"
    from inv x obtain m where m: "m \<in> set ls" "le_id m = mv_leaseId x" "le_orgId m = mv_orgId x"
      unfolding requestInv_def by blast
    with eq l dis have "m = l" by (auto simp: distinct_map inj_on_def)
    with m l none [OF x] eq show False by simp
  qed
  then have "uniqueBy mv_id isOpen mv_leaseId (insert r (set rs))"
    using inv by (intro uniqueBy_insert) (auto simp: requestInv_def)
  with assms show ?thesis unfolding requestInv_def by (auto simp: find_by_None_iff)
qed

lemma requestInv_change:
  assumes inv: "requestInv k ls rs" and dis: "distinct (map le_id ls)"
    and f: "\<And>r. mv_id (f r) = mv_id r \<and> mv_leaseId (f r) = mv_leaseId r \<and> mv_orgId (f r) = mv_orgId r"
    and op: "\<And>r. r \<in> set rs \<Longrightarrow> isOpen (f r) \<Longrightarrow> isOpen r"
    and comp: "\<And>r. r \<in> set rs \<Longrightarrow> k = MOVE_IN \<Longrightarrow> mv_status (f r) = MV_COMPLETED \<Longrightarrow>
      mv_status r = MV_COMPLETED \<or> (\<exists>l \<in> set ls. le_id l = mv_leaseId r \<and> le_occupancyId l \<noteq> None)"
  shows "requestInv k ls (map f rs)"
proof -
  have "uniqueBy mv_id isOpen mv_leaseId (f ` set rs)"
    using inv f op by (auto simp: requestInv_def intro!: uniqueBy_image)
  moreover have "\<exists>l \<in> set ls. le_id l = mv_leaseId (f r) \<and> le_orgId l = mv_orgId (f r)
      \<and> (k = MOVE_IN \<longrightarrow> mv_status (f r) = MV_COMPLETED \<longrightarrow> le_occupancyId l \<noteq> None)" if r: "r \<in> set rs" for r
  proof -
    from inv r obtain m where m: "m \<in> set ls" "le_id m = mv_leaseId r" "le_orgId m = mv_orgId r"
        "k = MOVE_IN \<longrightarrow> mv_status r = MV_COMPLETED \<longrightarrow> le_occupancyId m \<noteq> None"
      unfolding requestInv_def by blast
    have "le_occupancyId m \<noteq> None" if st: "k = MOVE_IN" "mv_status (f r) = MV_COMPLETED"
      using comp [OF r st]
    proof
      assume "\<exists>l \<in> set ls. le_id l = mv_leaseId r \<and> le_occupancyId l \<noteq> None"
      then obtain l where l: "l \<in> set ls" "le_id l = mv_leaseId r" "le_occupancyId l \<noteq> None" by blast
      with m dis have "l = m" by (auto simp: distinct_map inj_on_def)
      with l show ?thesis by simp
    qed (use m st in simp)
    with m f show ?thesis by (intro bexI [of _ m]) auto
  qed
  ultimately show ?thesis using inv f by (simp add: requestInv_def comp_def)
qed

lemma allocationInv_add:
  assumes inv: "allocationInv bs ocs ps as" and ids: "distinct (map pa_id (as @ new))"
    and slots: "distinct (map pa_parkingSlotId new)"
    and new: "\<And>a. a \<in> set new \<Longrightarrow> allocationSound bs ocs ps a"
    and free: "\<And>a b. a \<in> set new \<Longrightarrow> b \<in> set as \<Longrightarrow> isCurrent b \<Longrightarrow> pa_parkingSlotId b \<noteq> pa_parkingSlotId a"
  shows "allocationInv bs ocs ps (as @ new)"
proof -
  have "pa_id x = pa_id y" if "x \<in> set as \<union> set new" "y \<in> set as \<union> set new" "isCurrent x" "isCurrent y"
      and eq: "pa_parkingSlotId x = pa_parkingSlotId y" for x y
    using that(1,2)
  proof (elim UnE)
    assume "x \<in> set as" "y \<in> set as"
    with inv that(3,4) eq show ?thesis unfolding allocationInv_def by (blast dest: uniqueByD)
  next
    assume "x \<in> set new" "y \<in> set new"
    with slots eq show ?thesis by (auto simp: distinct_map inj_on_def)
  qed (use free that(3,4) eq in metis)+
  then have "uniqueBy pa_id isCurrent pa_parkingSlotId (set (as @ new))" unfolding uniqueBy_def set_append by blast
  moreover have "\<forall>a \<in> set new. allocationSound bs ocs ps a" using new by blast
  ultimately show ?thesis using inv ids unfolding allocationInv_def by (simp add: ball_Un)
qed

lemma slotInv_add:
  assumes "slotInv ps" and new: "\<And>x. x \<in> set ps \<Longrightarrow> ps_id x \<noteq> ps_id p \<and> (ps_buildingId x = ps_buildingId p \<longrightarrow> ps_code x \<noteq> ps_code p)"
  shows "slotInv (ps @ [p])"
proof -
  have "uniqueBy ps_id (\<lambda>_. True) (\<lambda>p. (ps_buildingId p, ps_code p)) (insert p (set ps))"
    using assms by (intro uniqueBy_insert) (auto simp: slotInv_def)
  moreover have "ps_id p \<notin> ps_id ` set ps" using new by force
  ultimately show ?thesis using assms(1) by (simp add: slotInv_def)
qed

lemma slotInv_modify:
  assumes "slotInv ps" and fnd: "find_by ps_id i ps = Some p" and "ps_id p' = ps_id p" and "ps_buildingId p' = ps_buildingId p"
    and "\<And>x. x \<in> set ps \<Longrightarrow> ps_id x \<noteq> i \<Longrightarrow> ps_buildingId x = ps_buildingId p \<Longrightarrow> ps_code x \<noteq> ps_code p'"
  shows "slotInv (modify_by ps_id i (\<lambda>_. p') ps)"
proof -
  have i: "ps_id p' = i" using fnd assms(3) by (auto dest: find_by_SomeD)
  have "uniqueBy ps_id (\<lambda>_. True) (\<lambda>p. (ps_buildingId p, ps_code p)) {x \<in> set ps. ps_id x \<noteq> i}"
    using assms(1) unfolding slotInv_def by (blast intro: uniqueBy_subset)
  then have "uniqueBy ps_id (\<lambda>_. True) (\<lambda>p. (ps_buildingId p, ps_code p)) (set (modify_by ps_id i (\<lambda>_. p') ps))"
    unfolding set_modify_const [OF fnd] by (rule uniqueBy_insert) (use assms(4,5) in auto)
  with assms(1) keys_modify_const [of ps_id, OF i] show ?thesis by (simp add: slotInv_def)
qed

lemma allocationInv_modify_slot:
  assumes inv: "allocationInv bs ocs ps as" and dis: "distinct (map ps_id ps)" and fnd: "find_by ps_id i ps = Some p"
    and same: "ps_id p' = ps_id p" "ps_orgId p' = ps_orgId p" "ps_buildingId p' = ps_buildingId p"
  shows "allocationInv bs ocs (modify_by ps_id i (\<lambda>_. p') ps) as"
proof -
  have "\<exists>q \<in> set (modify_by ps_id i (\<lambda>_. p') ps). ps_id q = ps_id x \<and> ps_buildingId q = ps_buildingId x \<and> ps_orgId q = ps_orgId x"
    if x: "x \<in> set ps" for x
  proof (cases "ps_id x = i")
    case True
    with find_by_unique [OF dis fnd x] same show ?thesis
      by (intro bexI [of _ p']) (auto simp: set_modify_const [OF fnd])
  next
    case False
    with x show ?thesis by (intro bexI [of _ x]) (auto simp: set_modify_const [OF fnd])
  qed
  then have "allocationSound bs ocs (modify_by ps_id i (\<lambda>_. p') ps) a" if "allocationSound bs ocs ps a" for a
    using that unfolding allocationSound_def by metis
  with inv show ?thesis unfolding allocationInv_def by blast
qed

lemma tstep_edit_inv:
  assumes inv: "viewInv v" and fnd: "find_by le_id i (tv_leases v) = Some l" and same: "sameLease l l'"
    and occ: "leaseOccupied (tv_occupancies v) l'" and keep: "le_occupancyId l \<noteq> None \<Longrightarrow> le_occupancyId l' \<noteq> None"
    and new: "\<And>m. m \<in> set (tv_leases v) \<Longrightarrow> le_id m \<noteq> i \<Longrightarrow> le_occupancyId l' \<noteq> None \<Longrightarrow> le_occupancyId m \<noteq> le_occupancyId l'"
  shows "viewInv (v\<lparr> tv_leases := modify_by le_id i (\<lambda>_. l') (tv_leases v) \<rparr>)"
proof -
  from inv have lv: "leaseInv (tv_buildings v) (tv_occupancies v) (tv_leases v)" by (simp add: viewInv_def)
  then have dis: "distinct (map le_id (tv_leases v))" by (simp add: leaseInv_def)
  from inv have "requestInv MOVE_IN (tv_leases v) (tv_moveIns v)" "requestInv MOVE_OUT (tv_leases v) (tv_moveOuts v)"
    by (simp_all add: viewInv_def)
  from this [THEN requestInv_modify, OF fnd same dis keep] leaseInv_modify [OF lv fnd same occ new] inv
  show ?thesis by (simp add: viewInv_def)
qed

lemma lease_of_view:
  assumes "viewInv v" and "find_by le_id i (tv_leases v) = Some l"
  shows "l \<in> set (tv_leases v)" and "le_id l = i" and "leaseOccupied (tv_occupancies v) l"
    and "\<And>m. m \<in> set (tv_leases v) \<Longrightarrow> le_id m \<noteq> i \<Longrightarrow> le_occupancyId l \<noteq> None \<Longrightarrow> le_occupancyId m \<noteq> le_occupancyId l"
proof -
  from assms(1) have lv: "leaseInv (tv_buildings v) (tv_occupancies v) (tv_leases v)" by (simp add: viewInv_def)
  from assms(2) show l: "l \<in> set (tv_leases v)" "le_id l = i" by (auto dest: find_by_SomeD)
  with lv show "leaseOccupied (tv_occupancies v) l" by (simp add: leaseInv_def)
  fix m assume m: "m \<in> set (tv_leases v)" "le_id m \<noteq> i" "le_occupancyId l \<noteq> None"
  show "le_occupancyId m \<noteq> le_occupancyId l"
  proof
    assume "le_occupancyId m = le_occupancyId l"
    with lv m l uniqueByD [of le_id hasOccupancy le_occupancyId "set (tv_leases v)" m l] show False
      by (simp add: leaseInv_def hasOccupancy_def)
  qed
qed

lemma tstep_move_out_inv:
  assumes inv: "viewInv v" and fnd: "find_by le_id i (tv_leases v) = Some l" and same: "sameLease l l'"
    and occ: "le_occupancyId l' = le_occupancyId l" "le_occupancyId l = Some c"
  shows "viewInv (v\<lparr> tv_leases := modify_by le_id i (\<lambda>_. l') (tv_leases v),
      tv_occupancies := map (endedOccupancy c d) (tv_occupancies v),
      tv_allocations := map (endedAllocation (ofOccupancy (le_orgId l) c) d) (tv_allocations v) \<rparr>)"
proof -
  let ?ocs = "map (endedOccupancy c d) (tv_occupancies v)"
  note l = lease_of_view [OF inv fnd]
  from inv have lv: "leaseInv (tv_buildings v) (tv_occupancies v) (tv_leases v)"
    and ocs: "occupancyInv (tv_occupancies v)" and bs: "distinct (map bd_id (tv_buildings v))"
    and as: "allocationInv (tv_buildings v) (tv_occupancies v) (tv_slots v) (tv_allocations v)"
    by (simp_all add: viewInv_def)
  have lv': "leaseInv (tv_buildings v) ?ocs (tv_leases v)"
    using lv unfolding leaseInv_def by (blast intro: leaseOccupied_ended)
  have occ': "leaseOccupied ?ocs l'" by (rule leaseOccupied_moved_out [OF l(3) same]) (use occ in simp_all)
  have "leaseInv (tv_buildings v) ?ocs (modify_by le_id i (\<lambda>_. l') (tv_leases v))"
    by (rule leaseInv_modify [OF lv' fnd same occ']) (use l(4) occ in simp)
  moreover have "le_occupancyId l \<noteq> None \<Longrightarrow> le_occupancyId l' \<noteq> None" using occ by simp
  note viewInvD(4) [OF inv, THEN requestInv_modify, OF fnd same viewInvD(8) [OF inv] this]
    viewInvD(5) [OF inv, THEN requestInv_modify, OF fnd same viewInvD(8) [OF inv] this]
  moreover note occupancyInv_ended [OF ocs, of c d]
    allocationInv_moved_out [OF as lv l(1) occ(2) bs ocs, of d d]
  ultimately show ?thesis using inv by (simp add: viewInv_def)
qed

lemma tstep_inv: "tstep v w \<Longrightarrow> viewInv v \<Longrightarrow> viewInv w"
proof (induction rule: tstep.induct)
  case (edit_lease i v l l')
  note l = lease_of_view [OF edit_lease.prems edit_lease.hyps(1)]
  show ?case
    by (rule tstep_edit_inv [OF edit_lease.prems edit_lease.hyps(1,2)])
      (use edit_lease.hyps(2-4) l(3,4) in \<open>auto intro: leaseOccupied_edit\<close>)
next
  case (move_out i v l l' c d)
  then show ?case by (intro tstep_move_out_inv)
next
  case (add_lease l v)
  then have lv: "leaseInv (tv_buildings v) (tv_occupancies v) (tv_leases v)"
    and rq: "requestInv MOVE_IN (tv_leases v) (tv_moveIns v)" "requestInv MOVE_OUT (tv_leases v) (tv_moveOuts v)"
    by (simp_all add: viewInv_def)
  have "leaseOccupied (tv_occupancies v) l" using add_lease.hyps(3) unfolding leaseOccupied_def by blast
  from leaseInv_add [OF lv add_lease.hyps(1,2) this] add_lease.hyps(3)
  have "leaseInv (tv_buildings v) (tv_occupancies v) (tv_leases v @ [l])" by fastforce
  with rq [THEN requestInv_more_leases, of "tv_leases v @ [l]"] add_lease.prems show ?case
    by (auto simp: viewInv_def)
next
  case (link_lease i v l l' c)
  have "leaseOccupied (tv_occupancies v) l'"
    using link_lease.hyps(2,4,6,8) unfolding leaseOccupied_def sameLease_def by auto
  then show ?case
    by (rule tstep_edit_inv [OF link_lease.prems link_lease.hyps(1,2)]) (use link_lease.hyps(3,4,7) in auto)
next
  case (occupy oc v)
  have "occupancyInv (tv_occupancies v @ [oc])"
    by (rule occupancyInv_add [OF viewInvD(2) [OF occupy.prems] occupy.hyps])
  moreover have "leaseInv (tv_buildings v) (tv_occupancies v @ [oc]) (tv_leases v)"
    by (rule leaseInv_more_occupancies [OF viewInvD(3) [OF occupy.prems]]) auto
  moreover have "allocationInv (tv_buildings v) (tv_occupancies v @ [oc]) (tv_slots v) (tv_allocations v)"
    by (rule allocationInv_more [OF viewInvD(7) [OF occupy.prems]]) auto
  ultimately show ?case using occupy.prems by (simp add: viewInv_def)
next
  case (ask r k v)
  then obtain l where l: "l \<in> set (tv_leases v)" "le_id l = mv_leaseId r" "le_orgId l = mv_orgId r" by blast
  have "requestInv k (tv_leases v) (viewRequests k v @ [r])"
    by (rule requestInv_ask [OF viewInv_requests [OF ask.prems] ask.hyps(1,2) l])
      (use ask in \<open>auto simp: viewInv_def leaseInv_def\<close>)
  with ask.prems show ?case by (cases k) (simp_all add: viewInv_def)
next
  case (change_requests f k v)
  have "requestInv k (tv_leases v) (map f (viewRequests k v))"
    by (rule requestInv_change [OF viewInv_requests [OF change_requests.prems] _ change_requests.hyps(1-3)])
      (use change_requests.prems in \<open>simp_all add: viewInv_def leaseInv_def\<close>)
  with change_requests.prems show ?case by (cases k) (simp_all add: viewInv_def)
next
  case (allocate_slots v new)
  have "allocationInv (tv_buildings v) (tv_occupancies v) (tv_slots v) (tv_allocations v @ new)"
  proof (rule allocationInv_add [OF _ allocate_slots.hyps(1,2)])
    fix a assume a: "a \<in> set new"
    show "allocationSound (tv_buildings v) (tv_occupancies v) (tv_slots v) a"
      using allocate_slots.hyps(3) [THEN bspec, OF a] unfolding allocationSound_def by (elim conjE) (intro conjI allI impI, simp_all)
  next
    fix a b assume "a \<in> set new" "b \<in> set (tv_allocations v)" "isCurrent b"
    then show "pa_parkingSlotId b \<noteq> pa_parkingSlotId a" using allocate_slots.hyps(3) by blast
  qed (use allocate_slots.prems in \<open>simp add: viewInv_def\<close>)
  with allocate_slots.prems show ?case by (simp add: viewInv_def)
next
  case (end_allocations v P d)
  then show ?case by (simp add: viewInv_def allocationInv_ended)
next
  case (add_slot v p)
  have "slotInv (tv_slots v @ [p])"
    by (rule slotInv_add [OF viewInvD(6) [OF add_slot.prems]]) (use add_slot.hyps in blast)
  moreover have "allocationInv (tv_buildings v) (tv_occupancies v) (tv_slots v @ [p]) (tv_allocations v)"
    by (rule allocationInv_more [OF viewInvD(7) [OF add_slot.prems]]) auto
  ultimately show ?case using add_slot.prems by (simp add: viewInv_def)
next
  case (edit_slot i v p p')
  then have ps: "slotInv (tv_slots v)" by (simp add: viewInv_def)
  have "slotInv (modify_by ps_id i (\<lambda>_. p') (tv_slots v))"
    by (rule slotInv_modify [OF ps edit_slot.hyps(1,2,4)]) (use edit_slot.hyps(5) in blast)
  moreover have "allocationInv (tv_buildings v) (tv_occupancies v) (modify_by ps_id i (\<lambda>_. p') (tv_slots v)) (tv_allocations v)"
    by (rule allocationInv_modify_slot [OF viewInvD(7) [OF edit_slot.prems] _ edit_slot.hyps(1-4)])
      (use ps in \<open>simp add: slotInv_def\<close>)
  ultimately show ?case using edit_slot.prems by (simp add: viewInv_def)
qed

section \<open>What the steps keep\<close>

text \<open>
  No lease and no occupancy disappears or changes hands, an ended lease and an ended occupancy stay ended, and the
  occupancy of a lease is never replaced.
\<close>

definition leaseKept :: "lease_row \<Rightarrow> lease_row \<Rightarrow> bool" where
  "leaseKept l m \<longleftrightarrow> sameLease l m \<and> (le_status l = LE_ENDED \<longrightarrow> le_status m = LE_ENDED)
     \<and> (le_occupancyId l \<noteq> None \<longrightarrow> le_occupancyId m = le_occupancyId l)"

definition occupancyKept :: "occupancy_row \<Rightarrow> occupancy_row \<Rightarrow> bool" where
  "occupancyKept x y \<longleftrightarrow> oc_id y = oc_id x \<and> oc_buildingId y = oc_buildingId x \<and> oc_unitId y = oc_unitId x
     \<and> oc_residentUserId y = oc_residentUserId x \<and> (oc_status x = OC_ENDED \<longrightarrow> oc_status y = OC_ENDED)"

definition viewKept :: "tview \<Rightarrow> tview \<Rightarrow> bool" where
  "viewKept v w \<longleftrightarrow> (\<forall>l \<in> set (tv_leases v). \<exists>m \<in> set (tv_leases w). leaseKept l m)
     \<and> (\<forall>x \<in> set (tv_occupancies v). \<exists>y \<in> set (tv_occupancies w). occupancyKept x y)"

lemma leaseKept_refl [simp]: "leaseKept l l"
  by (simp add: leaseKept_def sameLease_def)

lemma occupancyKept_refl [simp]: "occupancyKept x x"
  by (simp add: occupancyKept_def)

lemma viewKept_refl: "viewKept v v"
  unfolding viewKept_def by (blast intro: leaseKept_refl occupancyKept_refl)

lemma leaseKept_trans: "leaseKept a b \<Longrightarrow> leaseKept b c \<Longrightarrow> leaseKept a c"
  by (auto simp: leaseKept_def sameLease_def)

lemma occupancyKept_trans: "occupancyKept a b \<Longrightarrow> occupancyKept b c \<Longrightarrow> occupancyKept a c"
  by (simp add: occupancyKept_def)

lemma viewKept_trans: "viewKept u v \<Longrightarrow> viewKept v w \<Longrightarrow> viewKept u w"
  unfolding viewKept_def by (blast intro: leaseKept_trans occupancyKept_trans)

lemma leases_kept:
  assumes inv: "viewInv v" and fnd: "find_by le_id i (tv_leases v) = Some l" and "leaseKept l l'"
  shows "\<forall>x \<in> set (tv_leases v). \<exists>m \<in> set (modify_by le_id i (\<lambda>_. l') (tv_leases v)). leaseKept x m"
proof
  fix x assume x: "x \<in> set (tv_leases v)"
  from inv have dis: "distinct (map le_id (tv_leases v))" by (simp add: viewInv_def leaseInv_def)
  show "\<exists>m \<in> set (modify_by le_id i (\<lambda>_. l') (tv_leases v)). leaseKept x m"
  proof (cases "le_id x = i")
    case True
    with find_by_unique [OF dis fnd x] assms(3) show ?thesis
      by (intro bexI [of _ l']) (simp_all add: set_modify_const [OF fnd])
  next
    case False
    with x show ?thesis by (intro bexI [of _ x]) (simp_all add: set_modify_const [OF fnd])
  qed
qed

lemma tstep_kept: "tstep v w \<Longrightarrow> viewInv v \<Longrightarrow> viewKept v w"
proof (induction rule: tstep.induct)
  case (edit_lease i v l l')
  then have "leaseKept l l'" by (auto simp: leaseKept_def mayBecome_def)
  from leases_kept [OF edit_lease.prems edit_lease.hyps(1) this] show ?case
    unfolding viewKept_def by (auto intro: occupancyKept_refl)
next
  case (move_out i v l l' c d)
  then have "leaseKept l l'" by (auto simp: leaseKept_def)
  moreover have "occupancyKept x (endedOccupancy c d x)" for x by (simp add: occupancyKept_def endedOccupancy_def)
  ultimately show ?case using leases_kept [OF move_out.prems move_out.hyps(1)]
    unfolding viewKept_def by auto
next
  case (link_lease i v l l' c)
  then have "leaseKept l l'" by (auto simp: leaseKept_def)
  from leases_kept [OF link_lease.prems link_lease.hyps(1) this] show ?case
    unfolding viewKept_def by (auto intro: occupancyKept_refl)
qed (auto simp: viewKept_def intro: leaseKept_refl occupancyKept_refl)

text \<open>Several steps.\<close>

lemma tsteps_inv: "tstep\<^sup>*\<^sup>* v w \<Longrightarrow> viewInv v \<Longrightarrow> viewInv w"
  by (induction rule: rtranclp_induct) (auto dest: tstep_inv)

lemma tsteps_kept: "tstep\<^sup>*\<^sup>* v w \<Longrightarrow> viewInv v \<Longrightarrow> viewKept v w"
  by (induction rule: rtranclp_induct) (auto intro: viewKept_refl viewKept_trans tstep_kept tsteps_inv)

end
