(* ===== verification/DeliveryFrame.thy ===== *)
theory DeliveryFrame
  imports DeliveryWorkers
begin

text \<open>Deliveries leave the tables of the other components alone.\<close>

lemma core_sendChunks [simp]: "dl_core (snd (sendChunks env now i p chunks s)) = dl_core s"
  by (induction chunks arbitrary: s)
    (auto simp: handleExpoTickets_def Let_def split: expo_reply.splits sum.splits)

lemma core_deliver [simp]: "dl_core (snd (deliverToUsersNow env now i p s)) = dl_core s"
  by (simp add: deliverToUsersNow_def sendExpo_def Let_def)

lemma core_delivered: "deliverToUsersNow env now i p s = (e, s') \<Longrightarrow> dl_core s' = dl_core s"
  using core_deliver [of env now i p s] by simp

lemma core_finishTask [simp]: "dl_core (finishTask s now p outcome) = dl_core s"
  by (simp add: finishTask_def failTask_def setTask_def split: option.splits sum.splits)

lemma core_processDeliveryTask [simp]: "dl_core (snd (processDeliveryTask env now i b s)) = dl_core s"
proof (cases "beginTask PUSH_NOTIFICATION s now i")
  case (Some ps)
  then obtain p s1 where ps: "beginTask PUSH_NOTIFICATION s now i = Some (p, s1)" by (cases ps) simp
  then have "dl_core s1 = dl_core s"
    by (auto simp: beginTask_def split: option.splits if_splits sum.splits prod.splits)
  with ps show ?thesis
    by (auto simp: processDeliveryTask_def split: task_payload.splits prod.splits dest: core_delivered)
qed (simp add: processDeliveryTask_def)

lemma core_dispatchPush [simp]: "dl_core (dispatchPush env now t s) = dl_core s"
  by (simp add: dispatchPush_def split: enqueue_reply.splits)

lemma core_sendToUsers: "sendToUsers env now i p s = Inr s' \<Longrightarrow> dl_core s' = dl_core s"
  by (auto simp: sendToUsers_def enqueueDelivery_def Let_def split: if_splits)

lemma core_createForUsers:
  assumes "createForUsers env now ids t org us ty title body d s = (e, s')"
  shows "dl_core s' = dl_core s"
  using assms
  by (auto simp: createForUsers_def queuePushForNotificationBatch_def Let_def
      split: if_splits prod.splits option.splits sum.splits dest: core_sendToUsers)

lemma core_processEmailTask [simp]: "dl_core (snd (processEmailTask env now i b s)) = dl_core s"
proof (cases "beginTask AUTH_PASSWORD_EMAIL s now i")
  case (Some ps)
  then obtain p s1 where ps: "beginTask AUTH_PASSWORD_EMAIL s now i = Some (p, s1)" by (cases ps) simp
  then have "dl_core s1 = dl_core s"
    by (auto simp: beginTask_def split: option.splits if_splits sum.splits prod.splits)
  with ps show ?thesis
    by (auto simp: processEmailTask_def markResidentInviteFailed_def failTask_def setTask_def Let_def
        split: task_payload.splits option.splits sum.splits)
qed (simp add: processEmailTask_def)

lemma core_dispatchEmail [simp]: "dl_core (dispatchEmail env now t s) = dl_core s"
  by (simp add: dispatchEmail_def split: enqueue_reply.splits)

lemma core_passwordMail [simp]: "dl_core (snd (enqueuePasswordResetEmail env now i r s)) = dl_core s"
  by (simp add: enqueuePasswordResetEmail_def createAndDispatchEmail_def split: sum.splits prod.splits)

lemma core_resetToken: "createPasswordResetToken s u h x p = Inr s' \<Longrightarrow> dl_core s' = dl_core s"
  by (auto simp: createPasswordResetToken_def Let_def split: if_splits)

lemma core_residentInvite: "createResidentInvite s org u c e h x = Inr s' \<Longrightarrow> dl_core s' = dl_core s"
  by (auto simp: createResidentInvite_def split: if_splits)

end
