(* ===== verification/TenancySteps.thy ===== *)
theory TenancySteps
  imports TenancyView DeliveryFrame
begin

text \<open>
  Each operation of the tenancy services is a sequence of the steps of \<open>tstep\<close> on the view of the state: first the
  writes of single rows, then the handlers.
\<close>

section \<open>Writes as seen in the view\<close>

named_theorems view_frame \<open>writes that leave the view alone\<close>

lemma core_setCore [simp]: "core (setCore c s) = c"
  by (simp add: core_def setCore_def)

lemma viewOf_setLeases [simp]: "viewOf (setLeases ls s) = (viewOf s)\<lparr> tv_leases := ls \<rparr>"
  by (simp add: viewOf_def setLeases_def setOccupancies_def setCore_def core_def bare_def comp_def)

lemma viewOf_setOccupancies [simp]: "viewOf (setOccupancies ocs s) = (viewOf s)\<lparr> tv_occupancies := map bare ocs \<rparr>"
  by (simp add: viewOf_def setOccupancies_def setCore_def core_def)

lemma tn_leases_set [simp]:
  "tn_leases (setCore c s) = tn_leases s" "tn_leases (setOccupancies ocs s) = tn_leases s"
  "tn_leases (setLeases ls s) = ls"
  by (simp_all add: setCore_def setOccupancies_def setLeases_def)

lemma viewOf_simps [simp]:
  "tv_leases (viewOf s) = tn_leases s" "tv_buildings (viewOf s) = buildings (core s)"
  "tv_occupancies (viewOf s) = map bare (occupancies (core s))" "viewRequests k (viewOf s) = requestsOf k s"
  "tv_slots (viewOf s) = tn_slots s" "tv_allocations (viewOf s) = tn_allocations s"
  by (simp_all add: viewOf_def, cases k, simp_all)

lemma viewOf_setRequests [simp]: "viewOf (setRequests k rows s) = setViewRequests k rows (viewOf s)"
  by (cases k) (simp_all add: viewOf_def core_def)

lemma viewOf_createHistory [view_frame]: "viewOf (createHistory s now i org l a by cs) = viewOf s"
  by (simp add: viewOf_def createHistory_def core_def)

lemma viewOf_recordChanges [view_frame]: "viewOf (recordChanges s now i org a by l m) = viewOf s"
  by (simp add: recordChanges_def viewOf_createHistory Let_def)

lemma viewOf_createActivity [view_frame]: "viewOf (createActivity s now i org l a by p) = viewOf s"
  by (simp add: viewOf_def createActivity_def core_def)

lemma viewOf_setItems [view_frame]: "viewOf (setItems k rows s) = viewOf s"
  by (cases k) (simp_all add: viewOf_def core_def)

lemma viewOf_other [view_frame]:
  "viewOf (s\<lparr> tn_documents := ds \<rparr>) = viewOf s" "viewOf (s\<lparr> tn_occupants := os \<rparr>) = viewOf s"
  "viewOf (s\<lparr> tn_additionalTerms := ts \<rparr>) = viewOf s" "viewOf (s\<lparr> tn_vehicles := vs \<rparr>) = viewOf s"
  "viewOf (s\<lparr> tn_profiles := ps \<rparr>) = viewOf s"
  by (simp_all add: viewOf_def core_def)

lemma viewOf_returnItems [view_frame]: "viewOf (returnItems k now l s) = viewOf s"
  by (simp add: returnItems_def viewOf_setItems)

lemma viewOf_createTerms [view_frame]: "viewOf (createTerms s now ids org l ts) = viewOf s"
  by (simp add: createTerms_def view_frame)

lemma viewOf_replaceOccupantRows [view_frame]: "viewOf (replaceOccupantRows s now ids l ns) = viewOf s"
  by (simp add: replaceOccupantRows_def view_frame)

lemma viewOf_upsertProfile [view_frame]: "viewOf (upsertProfileByUserId s i org u p) = viewOf s"
  by (simp add: upsertProfileByUserId_def view_frame)

lemma viewOf_createUserRow [view_frame]: "createUserRow s x = Inr s' \<Longrightarrow> viewOf s' = viewOf s"
  by (auto simp: createUserRow_def viewOf_def setCore_def core_def split: if_splits)

lemma viewOf_createManyItems [view_frame]: "createManyItems k s now ids l ns = Inr s' \<Longrightarrow> viewOf s' = viewOf s"
  by (auto simp: createManyItems_def Let_def view_frame split: if_splits)

lemma viewOf_createDocumentRow [view_frame]: "createDocumentRow s now i org l d = Inr (x, s') \<Longrightarrow> viewOf s' = viewOf s"
  by (auto simp: createDocumentRow_def Let_def view_frame split: if_splits)

lemma viewOf_createVehicleRow [view_frame]:
  "createVehicleRow s now i org oc p lb = Inr (v, s') \<Longrightarrow> viewOf s' = viewOf s"
  by (auto simp: createVehicleRow_def Let_def view_frame split: if_splits)

lemma viewOf_updateVehicleRow [view_frame]: "updateVehicleRow s i p lb = Inr (v, s') \<Longrightarrow> viewOf s' = viewOf s"
  by (auto simp: updateVehicleRow_def Let_def view_frame split: if_splits)

lemma viewOf_createVehicles [view_frame]: "createVehicles now ids k org oc ps s = Inr s' \<Longrightarrow> viewOf s' = viewOf s"
  by (induction ps arbitrary: k s) (auto dest: viewOf_createVehicleRow)

lemma viewOf_createDocuments [view_frame]: "createDocuments now ids k org l ds s = Inr s' \<Longrightarrow> viewOf s' = viewOf s"
  by (induction ds arbitrary: k s) (auto dest: viewOf_createDocumentRow)

lemma viewOf_issueItems [view_frame]: "issueItems k s now ids l ns = Inr s' \<Longrightarrow> viewOf s' = viewOf s"
  by (auto simp: issueItems_def Let_def split: option.splits list.splits dest: viewOf_createManyItems)

lemma viewOf_endAllocations [simp]:
  "viewOf (endAllocations P d s) = (viewOf s)\<lparr> tv_allocations := map (endedAllocation P d) (tn_allocations s) \<rparr>"
  by (simp add: viewOf_def endAllocations_def core_def endedAllocation_def [abs_def])

lemma map_bare_ended: "map bare (map (\<lambda>oc. if oc_id oc = c then oc\<lparr> oc_status := OC_ENDED, oc_endAt := Some d \<rparr> else oc) ocs)
    = map (endedOccupancy c d) (map bare ocs)"
  by (auto simp: endedOccupancy_def bare_def)

lemma viewOf_endOccupancy [simp]:
  "viewOf (endOccupancy c d s) = (viewOf s)\<lparr> tv_occupancies := map (endedOccupancy c d) (tv_occupancies (viewOf s)) \<rparr>"
  unfolding endOccupancy_def viewOf_setOccupancies map_bare_ended by simp

section \<open>Leases\<close>

definition sameTenancy :: "lease_row \<Rightarrow> lease_row \<Rightarrow> bool" where
  "sameTenancy l l' \<longleftrightarrow> sameLease l l' \<and> le_occupancyId l' = le_occupancyId l"

lemma leaseColumns_same: "leaseColumns l = Inr l' \<Longrightarrow> sameTenancy l l' \<and> le_status l' = le_status l"
  by (auto simp: leaseColumns_def sameTenancy_def sameLease_def)

lemma sameTenancy_trans: "sameTenancy a b \<Longrightarrow> sameTenancy b c \<Longrightarrow> sameTenancy a c"
  by (simp add: sameTenancy_def sameLease_def)

lemma updateLeaseRow_Inr:
  assumes "updateLeaseRow s i f = Inr (l', s')"
  obtains l where "find_by le_id i (tn_leases s) = Some l" and "leaseColumns (f l) = Inr l'"
    and "\<forall>m \<in> set (tn_leases s). le_id m \<noteq> i \<longrightarrow> le_occupancyId l' \<noteq> None \<longrightarrow> le_occupancyId m \<noteq> le_occupancyId l'"
    and "s' = setLeases (modify_by le_id i (\<lambda>_. l') (tn_leases s)) s"
  using assms by (auto simp: updateLeaseRow_def list_ex_iff split: if_splits)

lemma updateLeaseRow_step:
  assumes "updateLeaseRow s i f = Inr (l', s')"
    and "\<And>l. find_by le_id i (tn_leases s) = Some l \<Longrightarrow> sameTenancy l (f l) \<and> mayBecome l (le_status (f l))"
  shows "tstep (viewOf s) (viewOf s')"
proof -
  from assms(1) obtain l where l: "find_by le_id i (tn_leases s) = Some l" "leaseColumns (f l) = Inr l'"
      "s' = setLeases (modify_by le_id i (\<lambda>_. l') (tn_leases s)) s"
    by (rule updateLeaseRow_Inr)
  with assms(2) leaseColumns_same [OF l(2)] have "sameTenancy l l'" "mayBecome l (le_status l')"
    by (auto intro: sameTenancy_trans)
  then have "tstep (viewOf s) ((viewOf s)\<lparr> tv_leases := modify_by le_id i (\<lambda>_. l') (tv_leases (viewOf s)) \<rparr>)"
    using l(1) by (intro edit_lease) (simp_all add: sameTenancy_def)
  with l(3) show ?thesis by simp
qed

lemma createLease_step:
  assumes "createLease s l0 = Inr (l, s')" and "inOrg (buildings (core s)) (le_buildingId l0) (le_orgId l0)"
    and "\<And>c. le_occupancyId l0 = Some c \<Longrightarrow> le_status l0 = LE_ACTIVE
      \<and> (\<exists>oc \<in> set (occupancies (core s)). oc_id oc = c \<and> oc_unitId oc = le_unitId l0 \<and> oc_buildingId oc = le_buildingId l0
           \<and> (le_residentUserId l0 = None \<or> le_residentUserId l0 = Some (oc_residentUserId oc)))"
  shows "tstep (viewOf s) (viewOf s')"
proof -
  from assms(1) have l: "leaseColumns l0 = Inr l" "\<not> list_ex (\<lambda>m. le_id m = le_id l) (tn_leases s)"
      "\<not> (le_occupancyId l \<noteq> None \<and> list_ex (\<lambda>m. le_occupancyId m = le_occupancyId l) (tn_leases s))"
      "s' = setLeases (tn_leases s @ [l]) s"
    by (auto simp: createLease_def list_ex_iff split: if_splits)
  have same: "sameTenancy l0 l" "le_status l = le_status l0" using leaseColumns_same [OF l(1)] by simp_all
  have "find_by le_id (le_id l) (tn_leases s) = None" using l(2) by (auto simp: find_by_None_iff list_ex_iff)
  moreover have "inOrg (buildings (core s)) (le_buildingId l) (le_orgId l)"
    using assms(2) same by (simp add: sameTenancy_def sameLease_def)
  moreover have "le_status l = LE_ACTIVE \<and> (\<forall>m \<in> set (tn_leases s). le_occupancyId m \<noteq> Some c)
      \<and> (\<exists>oc \<in> set (map bare (occupancies (core s))). oc_id oc = c \<and> oc_unitId oc = le_unitId l
           \<and> oc_buildingId oc = le_buildingId l
           \<and> (le_residentUserId l = None \<or> le_residentUserId l = Some (oc_residentUserId oc)))"
    if "le_occupancyId l = Some c" for c
  proof -
    have "le_occupancyId l0 = Some c" using that same(1) by (simp add: sameTenancy_def)
    from assms(3) [OF this] that l(3) same show ?thesis by (auto simp: list_ex_iff sameTenancy_def sameLease_def)
  qed
  ultimately have "tstep (viewOf s) ((viewOf s)\<lparr> tv_leases := tv_leases (viewOf s) @ [l] \<rparr>)"
    by (intro add_lease) simp_all
  with l(4) show ?thesis by simp
qed

section \<open>Occupancies\<close>

lemma find_by_bare: "find_by oc_id i (map bare ocs) = map_option bare (find_by oc_id i ocs)"
  by (induction ocs) (auto simp: find_by_def)

lemma createOccupancyRow_step:
  assumes "createOccupancyRow s oc = Inr s'" and "oc_id oc \<noteq> []" and "oc_status oc = OC_ACTIVE"
  shows "tstep (viewOf s) (viewOf s')"
    and "viewOf s' = (viewOf s)\<lparr> tv_occupancies := tv_occupancies (viewOf s) @ [bare oc] \<rparr>"
    and "core s' = (core s)\<lparr> occupancies := occupancies (core s) @ [oc\<lparr> oc_lease := leaseRef (tn_leases s) (oc_id oc) \<rparr>] \<rparr>"
    and "tn_leases s' = tn_leases s" and "requestsOf k s' = requestsOf k s"
proof -
  let ?oc = "oc\<lparr> oc_lease := leaseRef (tn_leases s) (oc_id oc) \<rparr>"
  from assms have oc: "find_by oc_id (oc_id oc) (occupancies (core s)) = None"
      "noActive (occupancies (core s)) (oc_unitId oc) (oc_residentUserId oc)" "oc_endAt oc = None"
      and s': "s' = setOccupancies (occupancies (core s) @ [?oc]) s"
    by (auto simp: createOccupancyRow_def Let_def noActive_def list_ex_iff occupancyConsistent_def split: if_splits)
  have "bare ?oc = bare oc" by (simp add: bare_def)
  then show v: "viewOf s' = (viewOf s)\<lparr> tv_occupancies := tv_occupancies (viewOf s) @ [bare oc] \<rparr>"
    by (simp add: s')
  show "tstep (viewOf s) (viewOf s')"
    unfolding v
    by (rule occupy) (use oc assms in \<open>auto simp: find_by_bare noActive_def\<close>)
  show "core s' = (core s)\<lparr> occupancies := occupancies (core s) @ [?oc] \<rparr>" by (simp add: s' setOccupancies_def)
  show "tn_leases s' = tn_leases s" "requestsOf k s' = requestsOf k s"
    by (simp_all add: s', cases k, simp_all add: setOccupancies_def setCore_def)
qed

section \<open>Moving out\<close>

lemma find_lease:
  assumes "viewInv (viewOf s)" and "List.find P (tn_leases s) = Some l" and "P l \<Longrightarrow> le_id l = i"
  shows "find_by le_id i (tn_leases s) = Some l"
proof -
  from assms(2) have l: "l \<in> set (tn_leases s)" "P l" by (auto dest: find_SomeD)
  have "distinct (map le_id (tn_leases s))" using viewInvD(8) [OF assms(1)] by simp
  from find_by_distinct [OF this l(1)] assms(3) [OF l(2)] show ?thesis by simp
qed

lemma findLeaseById_Some:
  assumes "viewInv (viewOf s)" and "findLeaseById s org i = Some l"
  shows "find_by le_id i (tn_leases s) = Some l" and "le_id l = i" and "le_orgId l = org"
  using assms(2) find_lease [OF assms(1), of "\<lambda>l. le_id l = i \<and> le_orgId l = org" l i]
  by (auto simp: findLeaseById_def dest: find_SomeD)

definition movedOut :: "lease_row \<Rightarrow> lease_row \<Rightarrow> string \<Rightarrow> int \<Rightarrow> tview \<Rightarrow> tview" where
  "movedOut l l' c d v =
     v\<lparr> tv_leases := modify_by le_id (le_id l) (\<lambda>_. l') (tv_leases v),
        tv_occupancies := map (endedOccupancy c d) (tv_occupancies v),
        tv_allocations := map (endedAllocation (ofOccupancy (le_orgId l) c) d) (tv_allocations v) \<rparr>"

lemma allocations_frame [simp]:
  "tn_leases (endOccupancy c d s) = tn_leases s" "tn_leases (endAllocations P d s) = tn_leases s"
  "tn_leases (returnItems k now i s) = tn_leases s" "tn_allocations (returnItems k now i s) = tn_allocations s"
  by (simp_all add: endOccupancy_def endAllocations_def returnItems_def, (cases k, simp_all)+)

lemma moveOut_Inr:
  assumes inv: "viewInv (viewOf s)" and "moveOut dec s now ids u bldg leaseId d = Inr (l', s')"
  obtains l c where "find_by le_id leaseId (tn_leases s) = Some l" and "le_status l = LE_ACTIVE"
    and "le_occupancyId l = Some c" and "sameTenancy l l'" and "le_status l' = LE_ENDED"
    and "viewOf s' = movedOut l l' c (mo_actualMoveOutDate d) (viewOf s)"
proof -
  from assms(2) obtain org l where l: "List.find (\<lambda>l. le_id l = leaseId \<and> le_orgId l = org \<and> le_buildingId l = bldg) (tn_leases s) = Some l"
      and "le_status l = LE_ACTIVE" and occ: "truthy (le_occupancyId l)"
      and t: "moveOutTransaction dec s now ids u org l (the (le_occupancyId l)) d = Inr (l', s')"
    by (auto simp: moveOut_def)
  from l have org: "le_orgId l = org" "le_id l = leaseId" by (auto dest: find_SomeD)
  have fnd: "find_by le_id leaseId (tn_leases s) = Some l" by (rule find_lease [OF inv l]) simp
  from occ obtain c where c: "le_occupancyId l = Some c" by (rule truthyE)
  let ?s2 = "(if mo_markAllAccessCardsReturned d \<noteq> Some False then returnItems ACCESS_CARD now (le_id l) s else s)"
  let ?s3 = "(if mo_markAllParkingStickersReturned d \<noteq> Some False then returnItems PARKING_STICKER now (le_id l) ?s2 else ?s2)"
  let ?s4 = "endOccupancy c (mo_actualMoveOutDate d) (endAllocations (ofOccupancy org c) (mo_actualMoveOutDate d) ?s3)"
  from t c obtain x s5 where u5: "updateLeaseRow ?s4 (le_id l) (\<lambda>m. m\<lparr> le_status := LE_ENDED, le_out := x \<rparr>) = Inr (l', s5)"
      and s': "viewOf s' = viewOf s5"
    by (auto simp: moveOutTransaction_def Let_def view_frame)
  have v3: "viewOf ?s3 = viewOf s" "tn_leases ?s3 = tn_leases s" "tn_allocations ?s3 = tn_allocations s"
    using arg_cong [of "viewOf ?s3" "viewOf s" tv_allocations] by (simp_all add: view_frame)
  from u5 obtain m where m: "find_by le_id (le_id l) (tn_leases ?s4) = Some m"
      "leaseColumns (m\<lparr> le_status := LE_ENDED, le_out := x \<rparr>) = Inr l'"
      "s5 = setLeases (modify_by le_id (le_id l) (\<lambda>_. l') (tn_leases ?s4)) ?s4"
    by (rule updateLeaseRow_Inr)
  have "m = l" using m(1) fnd org by (simp add: v3)
  with leaseColumns_same [OF m(2)] have same: "sameTenancy l l'" "le_status l' = LE_ENDED"
    by (auto simp: sameTenancy_def sameLease_def)
  have "viewOf s5 = movedOut l l' c (mo_actualMoveOutDate d) (viewOf s)"
    unfolding m(3) viewOf_setLeases viewOf_endOccupancy viewOf_endAllocations
    by (simp add: v3 movedOut_def org)
  then show ?thesis
    using that [OF fnd \<open>le_status l = LE_ACTIVE\<close> c same] s' by simp
qed

lemma movedOut_step:
  assumes "find_by le_id i (tv_leases v) = Some l" and "sameTenancy l l'" and "le_status l = LE_ACTIVE"
    and "le_occupancyId l = Some c" and "le_status l' \<in> {LE_ENDED, LE_CANCELLED}"
  shows "tstep v (movedOut l l' c d v)"
proof -
  have "le_id l = i" using assms(1) by (auto dest: find_by_SomeD)
  then show ?thesis unfolding movedOut_def using assms by (intro move_out) (simp_all add: sameTenancy_def)
qed

lemma movedOut_requests: "viewRequests k (movedOut l l' c d v) = viewRequests k v"
  by (cases k) (simp_all add: movedOut_def)

text \<open>The ids of occupancies are not empty, so a lease that has one has a truthy one.\<close>

lemma occupied_truthy:
  assumes "viewInv (viewOf s)" and "find_by le_id i (tn_leases s) = Some l" and "le_occupancyId l = Some c"
  shows "truthy (le_occupancyId l)"
proof -
  have "l \<in> set (tn_leases s)" using assms(2) by (auto dest: find_by_SomeD)
  with viewInvD(3) [OF assms(1)] have "leaseOccupied (tv_occupancies (viewOf s)) l" by (simp add: leaseInv_def)
  with assms(3) obtain oc where "oc \<in> set (tv_occupancies (viewOf s))" "oc_id oc = c" unfolding leaseOccupied_def by blast
  with viewInvD(2) [OF assms(1)] have "c \<noteq> []" unfolding occupancyInv_def by blast
  with assms(3) show ?thesis by (simp add: truthy_def)
qed

lemma moveOut_step:
  assumes "viewInv (viewOf s)" and "moveOut dec s now ids u bldg leaseId d = Inr (l', s')"
  shows "tstep (viewOf s) (viewOf s')"
proof -
  from moveOut_Inr [OF assms] obtain l c where
      "find_by le_id leaseId (tn_leases s) = Some l" "le_status l = LE_ACTIVE" "le_occupancyId l = Some c"
      "sameTenancy l l'" "le_status l' = LE_ENDED" "viewOf s' = movedOut l l' c (mo_actualMoveOutDate d) (viewOf s)"
    by metis
  then show ?thesis using movedOut_step [of leaseId "viewOf s" l l' c] by simp
qed

lemma find_by_modify_const:
  "find_by key i rows = Some r \<Longrightarrow> key r' = i \<Longrightarrow> find_by key i (modify_by key i (\<lambda>_. r') rows) = Some r'"
  by (induction rows) (auto simp: modify_by_def split: if_splits)

text \<open>A move-out whose lease is cancelled right after it is one step.\<close>

lemma modify_by_replaced:
  "key a = i \<Longrightarrow> modify_by key i (\<lambda>_. b) (modify_by key i (\<lambda>_. a) rows) = modify_by key i (\<lambda>_. b) rows"
  by (simp add: modify_by_def comp_def)

lemma moveOut_cancelled_step:
  assumes inv: "viewInv (viewOf s)" and out: "moveOut dec s now ids u bldg i d = Inr (l1, s1)"
    and s2: "viewOf s2 = setViewRequests MOVE_IN ins (setViewRequests MOVE_OUT outs (viewOf s1))"
      "tn_leases s2 = tn_leases s1"
    and set: "setLeaseStatus s2 i LE_CANCELLED = Inr s3"
  obtains v where "tstep (viewOf s) v" and "viewOf s3 = setViewRequests MOVE_IN ins (setViewRequests MOVE_OUT outs v)"
    and "viewRequests MOVE_IN v = tn_moveIns s" and "viewRequests MOVE_OUT v = tn_moveOuts s"
proof -
  from moveOut_Inr [OF inv out] obtain l c where l:
      "find_by le_id i (tn_leases s) = Some l" "le_status l = LE_ACTIVE" "le_occupancyId l = Some c"
      "sameTenancy l l1" "le_status l1 = LE_ENDED" "viewOf s1 = movedOut l l1 c (mo_actualMoveOutDate d) (viewOf s)"
    by metis
  have i: "le_id l = i" "le_id l1 = i"
    using l(1,4) by (auto simp: sameTenancy_def sameLease_def dest: find_by_SomeD)
  have leases: "tn_leases s1 = modify_by le_id i (\<lambda>_. l1) (tn_leases s)"
    using arg_cong [OF l(6), of tv_leases] i by (simp add: movedOut_def)
  from set obtain l3 where "updateLeaseRow s2 i (\<lambda>l. l\<lparr> le_status := LE_CANCELLED \<rparr>) = Inr (l3, s3)"
    by (auto simp: setLeaseStatus_def)
  then obtain m where m: "find_by le_id i (tn_leases s2) = Some m"
      "leaseColumns (m\<lparr> le_status := LE_CANCELLED \<rparr>) = Inr l3"
      "s3 = setLeases (modify_by le_id i (\<lambda>_. l3) (tn_leases s2)) s2"
    by (rule updateLeaseRow_Inr)
  have "m = l1" using m(1) by (simp add: s2(2) leases find_by_modify_const [OF l(1) i(2)])
  with leaseColumns_same [OF m(2)] have l3: "sameTenancy l1 l3" "le_status l3 = LE_CANCELLED"
    by (auto simp: sameTenancy_def sameLease_def)
  let ?v = "movedOut l l3 c (mo_actualMoveOutDate d) (viewOf s)"
  have "tstep (viewOf s) ?v"
    by (rule movedOut_step [of i]) (use l l3 in \<open>auto intro: sameTenancy_trans\<close>)
  moreover have "tn_leases s2 = modify_by le_id i (\<lambda>_. l1) (tn_leases s)" using s2(2) leases by simp
  then have "viewOf s3 = setViewRequests MOVE_IN ins (setViewRequests MOVE_OUT outs ?v)"
    using i by (simp add: m(3) s2(1) l(6) movedOut_def modify_by_replaced)
  ultimately show ?thesis using that by (simp add: movedOut_def viewOf_def)
qed

section \<open>The lease services\<close>

abbreviation tsteps :: "tenancy \<Rightarrow> tenancy \<Rightarrow> bool" where
  "tsteps s s' \<equiv> tstep\<^sup>*\<^sup>* (viewOf s) (viewOf s')"

lemma tsteps_frame: "viewOf s' = viewOf s \<Longrightarrow> tsteps s s'"
  by simp

lemma orgBuilding_inOrg: "orgBuilding c u bldg = Inr org \<Longrightarrow> inOrg (buildings c) bldg org"
  by (auto simp: orgBuilding_def findBuildingForOrg_def inOrg_def dest: find_SomeD)

lemma mayBecome_same [simp]: "mayBecome l (le_status l)"
  by (simp add: mayBecome_def)

lemma updateLeaseRow_edit:
  assumes "updateLeaseRow s i f = Inr (l', s')" and "\<And>l. sameTenancy l (f l) \<and> le_status (f l) = le_status l"
  shows "tsteps s s'"
  using updateLeaseRow_step [OF assms(1)] assms(2) by (metis mayBecome_same r_into_rtranclp)

lemma updateLease_steps:
  assumes "updateLease dec s now i u leaseId d = Inr (l, s')"
  shows "tsteps s s'"
proof -
  from assms obtain f s1 where "updateLeaseRow s leaseId (\<lambda>x. x\<lparr> le_terms := f (le_terms x) \<rparr>) = Inr (l, s1)"
      "viewOf s' = viewOf s1"
    by (auto simp: updateLease_def updateLeaseForOrg_def view_frame split: option.splits)
  then show ?thesis using updateLeaseRow_edit by (fastforce simp: sameTenancy_def sameLease_def)
qed

lemma createLeaseItems_steps: "createLeaseItems k s now ids a u leaseId ns = Inr (x, s') \<Longrightarrow> tsteps s s'"
  by (rule tsteps_frame) (auto simp: createLeaseItems_def Let_def view_frame)

lemma updateItemStatus_steps: "updateItemStatus k s now a u leaseId i new = Inr (x, s') \<Longrightarrow> tsteps s s'"
  by (rule tsteps_frame) (auto simp: updateItemStatus_def Let_def view_frame)

lemma deleteItem_steps: "deleteItem k s now a u leaseId i = Inr s' \<Longrightarrow> tsteps s s'"
  by (rule tsteps_frame) (auto simp: deleteItem_def Let_def view_frame)

lemma replaceOccupants_steps: "replaceOccupants s now ids a u leaseId ns = Inr (x, s') \<Longrightarrow> tsteps s s'"
  by (rule tsteps_frame) (auto simp: replaceOccupants_def Let_def view_frame)

lemma createDocument_steps: "createDocument sg s now i a u leaseId d = Inr (x, s') \<Longrightarrow> tsteps s s'"
  by (rule tsteps_frame) (auto simp: createDocument_def Let_def view_frame)

lemma deleteDocument_steps: "deleteDocument s now a u leaseId i = Inr s' \<Longrightarrow> tsteps s s'"
  by (rule tsteps_frame) (auto simp: deleteDocument_def Let_def view_frame)

lemma createOccupancy_steps:
  assumes "createOccupancy s now i u bldg unitId userId = Inr (oc, s')" and "i \<noteq> []"
  shows "tsteps s s'"
proof -
  from assms(1) obtain n :: unit_row and r :: user_row where "createOccupancyRow s (newOccupancy now i bldg (un_id n) (us_id r) now) = Inr s'"
    by (auto simp: createOccupancy_def Let_def)
  from createOccupancyRow_step(1) [OF this] assms(2) show ?thesis by (auto simp: newOccupancy_def)
qed

section \<open>Moving in\<close>

lemma resolveResidentUser_frame: "resolveResidentUser hash s now i pw org d = Inr (x, s') \<Longrightarrow> viewOf s' = viewOf s"
  by (auto simp: resolveResidentUser_def Let_def view_frame split: if_splits option.splits)

lemma view_eqD:
  assumes "viewOf s' = viewOf s"
  shows "tn_leases s' = tn_leases s" and "buildings (core s') = buildings (core s)"
    and "tn_slots s' = tn_slots s" and "tn_allocations s' = tn_allocations s" and "requestsOf k s' = requestsOf k s"
  using arg_cong [OF assms, of tv_leases] arg_cong [OF assms, of tv_buildings] arg_cong [OF assms, of tv_slots]
    arg_cong [OF assms, of tv_allocations] arg_cong [OF assms, of "viewRequests k"] by simp_all

definition activeIn :: "tview \<Rightarrow> string \<Rightarrow> string \<Rightarrow> bool" where
  "activeIn v c bldg \<longleftrightarrow>
     (\<exists>oc \<in> set (tv_occupancies v). oc_id oc = c \<and> oc_status oc = OC_ACTIVE \<and> oc_buildingId oc = bldg)"

lemma set_newAllocations:
  "set (newAllocations now ids org bldg t d slotIds) \<subseteq>
     {a. pa_orgId a = org \<and> pa_buildingId a = bldg \<and> pa_endDate a = None \<and> pa_occupancyId a = targetOccupancy t
         \<and> pa_unitId a = targetUnit t \<and> pa_parkingSlotId a \<in> set slotIds}"
  by (auto simp: newAllocations_def in_set_enumerate_eq)

lemma slots_newAllocations: "map pa_parkingSlotId (newAllocations now ids org bldg t d slotIds) = slotIds"
  by (simp add: newAllocations_def comp_def case_prod_beta)

text \<open>As many slots as ids: no id is named twice, and every one of them is a slot of the building.\<close>

lemma findSlotsByIds_all:
  assumes "slotInv (tn_slots s)" and "length (findSlotsByIds s org bldg slotIds) = length slotIds"
  shows "distinct slotIds" and "\<forall>i \<in> set slotIds. \<exists>p \<in> set (tn_slots s). ps_id p = i \<and> ps_buildingId p = bldg \<and> ps_orgId p = org"
proof -
  let ?f = "findSlotsByIds s org bldg slotIds"
  have "distinct (map ps_id ?f)"
    using assms(1) by (simp add: slotInv_def findSlotsByIds_def distinct_map_filter)
  then have card: "card (ps_id ` set ?f) = length slotIds"
    using assms(2) distinct_card [of "map ps_id ?f"] by simp
  have sub: "ps_id ` set ?f \<subseteq> set slotIds" by (auto simp: findSlotsByIds_def)
  then have "length slotIds \<le> card (set slotIds)" using card card_mono [of "set slotIds"] by (metis List.finite_set)
  then show "distinct slotIds" using card_length [of slotIds] by (simp add: card_distinct)
  then have all: "ps_id ` set ?f = set slotIds" using sub card by (metis List.finite_set card_subset_eq distinct_card)
  show "\<forall>i \<in> set slotIds. \<exists>p \<in> set (tn_slots s). ps_id p = i \<and> ps_buildingId p = bldg \<and> ps_orgId p = org"
  proof
    fix i assume "i \<in> set slotIds"
    then obtain p where "p \<in> set ?f" "ps_id p = i" unfolding all [symmetric] by blast
    then show "\<exists>p \<in> set (tn_slots s). ps_id p = i \<and> ps_buildingId p = bldg \<and> ps_orgId p = org"
      by (auto simp: findSlotsByIds_def)
  qed
qed

lemma createManyAllocations_step:
  assumes "createManyAllocations s (newAllocations now ids org bldg t d slotIds) = Inr s'"
    and "distinct slotIds" and "inOrg (buildings (core s)) bldg org"
    and "\<forall>i \<in> set slotIds. \<exists>p \<in> set (tn_slots s). ps_id p = i \<and> ps_buildingId p = bldg \<and> ps_orgId p = org"
    and "\<forall>a \<in> set (tn_allocations s). isCurrent a \<longrightarrow> pa_parkingSlotId a \<notin> set slotIds"
    and "\<And>c. t = ForOccupancy c \<Longrightarrow> activeIn (viewOf s) c bldg"
  shows "tstep (viewOf s) (viewOf s')"
proof -
  let ?new = "newAllocations now ids org bldg t d slotIds"
  from assms(1) have dis: "distinct (map pa_id (tn_allocations s @ ?new))"
    and s': "viewOf s' = (viewOf s)\<lparr> tv_allocations := tv_allocations (viewOf s) @ ?new \<rparr>"
    by (auto simp: createManyAllocations_def viewOf_def core_def split: if_splits)
  have sound: "pa_endDate a = None \<and> inOrg (buildings (core s)) (pa_buildingId a) (pa_orgId a)
      \<and> (pa_occupancyId a = None) \<noteq> (pa_unitId a = None)
      \<and> (\<exists>p \<in> set (tn_slots s). ps_id p = pa_parkingSlotId a \<and> ps_buildingId p = pa_buildingId a \<and> ps_orgId p = pa_orgId a)
      \<and> (\<forall>b \<in> set (tn_allocations s). isCurrent b \<longrightarrow> pa_parkingSlotId b \<noteq> pa_parkingSlotId a)
      \<and> (\<forall>c. pa_occupancyId a = Some c \<longrightarrow> (\<exists>oc \<in> set (map bare (occupancies (core s))). oc_id oc = c
           \<and> oc_status oc = OC_ACTIVE \<and> oc_buildingId oc = pa_buildingId a))"
    if "a \<in> set ?new" for a
  proof -
    from that set_newAllocations [of now ids org bldg t d slotIds] have a:
      "pa_orgId a = org" "pa_buildingId a = bldg" "pa_endDate a = None" "pa_occupancyId a = targetOccupancy t"
      "pa_unitId a = targetUnit t" "pa_parkingSlotId a \<in> set slotIds" by auto
    have "\<forall>c. pa_occupancyId a = Some c \<longrightarrow> t = ForOccupancy c" using a by (cases t) simp_all
    moreover have "(pa_occupancyId a = None) \<noteq> (pa_unitId a = None)" using a by (cases t) simp_all
    ultimately show ?thesis using a assms(3,4,5) assms(6) unfolding activeIn_def by fastforce
  qed
  show ?thesis unfolding s'
    by (rule allocate_slots) (use dis assms(2) sound in \<open>simp_all add: slots_newAllocations\<close>)
qed

lemma allocateParkingSlots_step:
  assumes "allocateParkingSlots s now ids org bldg slotIds c d = Inr s'" and "slotInv (tn_slots s)"
    and "inOrg (buildings (core s)) bldg org" and "activeIn (viewOf s) c bldg"
  shows "tstep (viewOf s) (viewOf s')"
proof -
  from assms(1) have len: "length (findSlotsByIds s org bldg slotIds) = length slotIds"
    and free: "findActiveAllocationsForSlots s slotIds = []"
    and new: "createManyAllocations s (newAllocations now ids org bldg (ForOccupancy c) d slotIds) = Inr s'"
    by (auto simp: allocateParkingSlots_def)
  have "\<forall>a \<in> set (tn_allocations s). isCurrent a \<longrightarrow> pa_parkingSlotId a \<notin> set slotIds"
    using free by (auto simp: findActiveAllocationsForSlots_def filter_empty_conv)
  with findSlotsByIds_all [OF assms(2) len] assms(3,4) show ?thesis
    by (intro createManyAllocations_step [OF new]) simp_all
qed

lemma moveInExtras_steps:
  assumes "moveInExtras s now ids u org bldg r c leaseId d = Inr s'" and "slotInv (tn_slots s)"
    and "inOrg (buildings (core s)) bldg org" and "activeIn (viewOf s) c bldg"
  shows "tsteps s s'"
proof -
  define s2 where "s2 = (let s1 = (case mi_residentProfile d of
            None \<Rightarrow> s | Some p \<Rightarrow> upsertProfileByUserId s (ids ''ResidentProfile'' 0) org r p)
      in case mi_occupantNames d of
            None \<Rightarrow> s1 | Some names \<Rightarrow> replaceOccupantRows s1 now (ids ''LeaseOccupant'') leaseId (normalizeNames names))"
  have v2: "viewOf s2 = viewOf s" by (simp add: s2_def Let_def view_frame split: option.splits)
  from assms(1) obtain s4 s5 s6 s7 where
      s4: "(case mi_parkingSlotIds d of
            None \<Rightarrow> Inr s2
          | Some [] \<Rightarrow> Inr s2
          | Some slotIds \<Rightarrow>
              andThen (allocateParkingSlots s2 now (ids ''ParkingAllocation'') org bldg slotIds c
                         (mi_leaseStartDate d)) (\<lambda>s3.
              Inr (createActivity s3 now (ids ''LeaseActivity'' 1) org leaseId LA_PARKING_ALLOCATED (user_sub u)
                [(''slotIds'', JList (map JText slotIds)), (''count'', JNumber (int (length slotIds))),
                 (''occupancyId'', JText c)]))) = Inr s4"
    and rest: "createVehicles now (ids ''Vehicle'') 0 org c (nullish (mi_vehiclePlateNumbers d) []) s4 = Inr s5"
      "issueItems ACCESS_CARD s5 now (ids ''LeaseAccessCard'') leaseId (mi_accessCardNumbers d) = Inr s6"
      "issueItems PARKING_STICKER s6 now (ids ''LeaseParkingSticker'') leaseId (mi_parkingStickerNumbers d) = Inr s7"
      "createDocuments now (ids ''LeaseDocument'') 0 org leaseId (nullish (mi_documents d) []) s7 = Inr s'"
    unfolding moveInExtras_def s2_def Let_def andThen_Inr by blast
  have "viewOf s' = viewOf s4"
    using viewOf_createVehicles [OF rest(1)] viewOf_issueItems [OF rest(2)] viewOf_issueItems [OF rest(3)]
      viewOf_createDocuments [OF rest(4)] by simp
  moreover have "tsteps s2 s3" if "allocateParkingSlots s2 now is org bldg slotIds c t = Inr s3" for "is" slotIds t s3
    using allocateParkingSlots_step [OF that] assms(2-4) v2 view_eqD [OF v2] by auto
  then have "tsteps s2 s4"
    using s4 by (auto simp: view_frame split: option.splits list.splits)
  ultimately show ?thesis by (simp add: v2)
qed

lemma slots_of_invariant: "viewInv (viewOf s) \<Longrightarrow> slotInv (tn_slots s)"
  using viewInvD(6) [of "viewOf s"] by simp

lemma moveIn_steps:
  assumes inv: "viewInv (viewOf s)" and run: "moveIn dec hash s now ids pw u bldg d = Inr (l, s')"
    and ids: "ids ''Occupancy'' 0 \<noteq> []"
  shows "tsteps s s'"
proof -
  let ?c = "ids ''Occupancy'' 0"
  from run obtain org n where org: "orgBuilding (core s) u bldg = Inr org"
      and "moveInTransaction dec hash s now ids pw u org bldg (un_id (n :: unit_row)) d = Inr (l, s')"
    by (auto simp: moveIn_def)
  then obtain r s1 s2 l0 s3 b cs p where
      s1: "resolveResidentUser hash s now (ids ''User'' 0) pw org d = Inr (r, s1)"
      and s2: "createOccupancyRow s1 (newOccupancy now ?c bldg (un_id n) r (mi_leaseStartDate d)) = Inr s2"
      and l0: "leaseOfMoveIn dec now (ids ''Lease'' 0) org bldg (un_id n) ?c d = Inr l0"
      and s3: "createLease s2 l0 = Inr (l, s3)"
      and s': "moveInExtras (createActivity (createHistory s3 now (ids ''LeaseHistory'' 0) org (le_id l) LH_CREATED b cs)
        now (ids ''LeaseActivity'' 0) org (le_id l) LA_MOVE_IN b p) now ids u org bldg r ?c (le_id l) d = Inr s'"
    by (auto simp: moveInTransaction_def Let_def)
  let ?s5 = "createActivity (createHistory s3 now (ids ''LeaseHistory'' 0) org (le_id l) LH_CREATED b cs)
        now (ids ''LeaseActivity'' 0) org (le_id l) LA_MOVE_IN b p"
  have s5: "viewOf ?s5 = viewOf s3" by (simp add: view_frame)
  have v1: "viewOf s1 = viewOf s" by (rule resolveResidentUser_frame [OF s1])
  have bs: "buildings (core s2) = buildings (core s)" "inOrg (buildings (core s)) bldg org"
    using createOccupancyRow_step(3) [OF s2] ids view_eqD(2) [OF v1] orgBuilding_inOrg [OF org]
    by (simp_all add: newOccupancy_def)
  let ?oc = "newOccupancy now ?c bldg (un_id n) r (mi_leaseStartDate d)"
  have st2: "tstep (viewOf s1) (viewOf s2)"
    and v2: "viewOf s2 = (viewOf s1)\<lparr> tv_occupancies := tv_occupancies (viewOf s1) @ [bare ?oc] \<rparr>"
    using createOccupancyRow_step(1,2) [OF s2] ids by (simp_all add: newOccupancy_def)
  have c2: "occupancies (core s2) = occupancies (core s1) @ [?oc\<lparr> oc_lease := leaseRef (tn_leases s1) ?c \<rparr>]"
    using createOccupancyRow_step(3) [OF s2] ids by (simp add: newOccupancy_def)
  have l0': "le_buildingId l0 = bldg" "le_orgId l0 = org" "le_unitId l0 = un_id n" "le_occupancyId l0 = Some ?c"
      "le_status l0 = LE_ACTIVE" "le_residentUserId l0 = None"
    using l0 by (auto simp: leaseOfMoveIn_def)
  have st3: "tstep (viewOf s2) (viewOf s3)"
    by (rule createLease_step [OF s3]) (use l0' bs c2 in \<open>auto simp: newOccupancy_def\<close>)
  from s3 have v3: "viewOf s3 = (viewOf s2)\<lparr> tv_leases := tn_leases s2 @ [l] \<rparr>"
    by (auto simp: createLease_def split: if_splits)
  have "tsteps ?s5 s'"
  proof (rule moveInExtras_steps [OF s'])
    show "slotInv (tn_slots ?s5)"
      using slots_of_invariant [OF inv] view_eqD(3) [OF v1] view_eqD(3) [OF s5]
        arg_cong [OF v3, of tv_slots] arg_cong [OF v2, of tv_slots] by simp
    show "inOrg (buildings (core ?s5)) bldg org"
      using bs view_eqD(2) [OF s5] arg_cong [OF v3, of tv_buildings] by simp
    show "activeIn (viewOf ?s5) ?c bldg" unfolding s5 v3 v2 by (simp add: activeIn_def newOccupancy_def)
  qed
  with st2 st3 show ?thesis unfolding s5 v1 by (meson converse_rtranclp_into_rtranclp)
qed

section \<open>Contracts\<close>

lemma createDraftContract_steps:
  assumes "createDraftContract dec s now ids u bldg d = Inr (l, s')"
  shows "tsteps s s'"
proof -
  from assms obtain org b n r rent deposit val sqm l1 s1 where
      b: "findBuildingForOrg (core s) org bldg = Some b"
      and n: "findUnitForBuilding (core s) bldg (cd_unitId d) = Some n"
      and s1: "createLease s (draftLease s now (ids ''Lease'' 0) org b n r d rent deposit val sqm) = Inr (l1, s1)"
      and s': "viewOf s' = viewOf s1"
    by (auto simp: createDraftContract_def Let_def view_frame)
  have "bd_id b = bldg" "inOrg (buildings (core s)) bldg org"
    using b by (auto simp: findBuildingForOrg_def inOrg_def dest: find_SomeD)
  then have "tstep (viewOf s) (viewOf s1)"
    by (intro createLease_step [OF s1]) (simp_all add: draftLease_def Let_def)
  with s' show ?thesis by simp
qed

lemma contractData_same: "contractData dec d = Inr f \<Longrightarrow> sameTenancy l (f l) \<and> le_status (f l) = le_status l"
  by (auto simp: contractData_def sameTenancy_def sameLease_def)

lemma updateContract_steps:
  assumes "updateContract dec s now ids u i d = Inr (l, s')"
  shows "tsteps s s'"
proof -
  from assms obtain f l1 s1 where f: "contractData dec d = Inr f" and s1: "updateLeaseRow s i f = Inr (l1, s1)"
      and "viewOf s' = viewOf s1"
    by (auto simp: updateContract_def Let_def view_frame)
  then show ?thesis using updateLeaseRow_edit [OF s1 contractData_same [OF f]] by simp
qed

lemma setLeaseStatus_step:
  assumes "setLeaseStatus s i st = Inr s'" and "\<And>l. find_by le_id i (tn_leases s) = Some l \<Longrightarrow> mayBecome l st"
  shows "tstep (viewOf s) (viewOf s')"
proof -
  from assms(1) obtain l where "updateLeaseRow s i (\<lambda>l. l\<lparr> le_status := st \<rparr>) = Inr (l, s')"
    by (auto simp: setLeaseStatus_def)
  then show ?thesis
    by (rule updateLeaseRow_step) (use assms(2) in \<open>auto simp: sameTenancy_def sameLease_def\<close>)
qed

lemma findContract_Inr:
  assumes "viewInv (viewOf s)" and "findContractOrThrow s org i = Inr l"
  shows "find_by le_id i (tn_leases s) = Some l" and "le_id l = i" and "le_orgId l = org"
  using findLeaseById_Some [OF assms(1)] assms(2) by (auto simp: findContractOrThrow_def)

lemma activateContract_steps:
  assumes inv: "viewInv (viewOf s)" and run: "activateContract s now ids u i = Inr (l, s')"
  shows "tsteps s s'"
proof -
  from run obtain org l0 where l0: "findContractOrThrow s org i = Inr l0" "le_status l0 \<noteq> LE_ENDED"
      and rest: "s' = s \<or> (\<exists>s1. setLeaseStatus s (le_id l0) LE_ACTIVE = Inr s1 \<and> viewOf s' = viewOf s1)"
    by (auto simp: activateContract_def Let_def view_frame split: if_splits)
  from rest show ?thesis
  proof
    assume "\<exists>s1. setLeaseStatus s (le_id l0) LE_ACTIVE = Inr s1 \<and> viewOf s' = viewOf s1"
    then obtain s1 where s1: "setLeaseStatus s (le_id l0) LE_ACTIVE = Inr s1" "viewOf s' = viewOf s1" by blast
    have "tstep (viewOf s) (viewOf s1)"
      by (rule setLeaseStatus_step [OF s1(1)])
        (use findContract_Inr [OF inv l0(1)] l0(2) in \<open>auto simp: mayBecome_def\<close>)
    with s1(2) show ?thesis by simp
  qed simp
qed

lemma replaceAdditionalTerms_steps: "replaceAdditionalTerms s now ids u i ts = Inr (l, s') \<Longrightarrow> tsteps s s'"
  by (rule tsteps_frame) (auto simp: replaceAdditionalTerms_def Let_def view_frame)

text \<open>Requests that are cancelled, one table after the other.\<close>

lemma cancelOpenRequests_step:
  "tstep v (setViewRequests k (cancelOpenRequests org i (viewRequests k v)) v)"
  unfolding cancelOpenRequests_def by (rule change_requests) (auto simp: isOpen_def split: if_splits)

lemma cancelOpenRequests_both:
  "tstep\<^sup>*\<^sup>* v (setViewRequests MOVE_IN (cancelOpenRequests org i (viewRequests MOVE_IN v))
     (setViewRequests MOVE_OUT (cancelOpenRequests org i (viewRequests MOVE_OUT v)) v))"
proof -
  let ?w = "setViewRequests MOVE_OUT (cancelOpenRequests org i (viewRequests MOVE_OUT v)) v"
  have "tstep v ?w" by (rule cancelOpenRequests_step)
  moreover have "tstep ?w (setViewRequests MOVE_IN (cancelOpenRequests org i (viewRequests MOVE_IN ?w)) ?w)"
    by (rule cancelOpenRequests_step)
  ultimately show ?thesis by simp
qed

lemma viewOf_cancelOpen:
  "viewOf (s\<lparr> tn_moveIns := cancelOpenRequests org i (tn_moveIns s), tn_moveOuts := cancelOpenRequests org i (tn_moveOuts s) \<rparr>)
   = setViewRequests MOVE_IN (cancelOpenRequests org i (viewRequests MOVE_IN (viewOf s)))
       (setViewRequests MOVE_OUT (cancelOpenRequests org i (viewRequests MOVE_OUT (viewOf s))) (viewOf s))"
  by (simp add: viewOf_def core_def)

lemma afterCommitD: "afterCommit s1 r = (x, s') \<Longrightarrow> s' = s1 \<or> (\<exists>y. r = Inr (y, s'))"
  by (auto simp: afterCommit_def split: sum.splits)

lemma cancelContract_steps:
  assumes inv: "viewInv (viewOf s)" and run: "cancelContract dec s now ids u i reason = Inr (r, s')"
  shows "tsteps s s'"
proof -
  let ?c = "\<lambda>org s. s\<lparr> tn_moveIns := cancelOpenRequests org i (tn_moveIns s), tn_moveOuts := cancelOpenRequests org i (tn_moveOuts s) \<rparr>"
  from run obtain org l s1 where l: "findContractOrThrow s org i = Inr l" "le_status l \<noteq> LE_ENDED"
      and s1: "(if le_status l = LE_ACTIVE \<and> truthy (le_occupancyId l)
              then andThen (moveOut dec s now ids u (le_buildingId l) (le_id l) (onlyDate now)) (\<lambda>(l, s1). Inr s1)
              else Inr s) = Inr s1"
      and tail: "s' = s1 \<or> (\<exists>s3. setLeaseStatus (?c org s1) i LE_CANCELLED = Inr s3 \<and> viewOf s' = viewOf s3)"
    using findContract_Inr(2) [OF inv]
    by (auto simp: cancelContract_def Let_def view_frame dest!: afterCommitD)
  note l' = findContract_Inr [OF inv l(1)]
  have first: "tsteps s s1" using s1 moveOut_step [OF inv] by (auto split: if_splits)
  from tail show ?thesis
  proof
    assume "s' = s1"
    with first show ?thesis by simp
  next
    assume "\<exists>s3. setLeaseStatus (?c org s1) i LE_CANCELLED = Inr s3 \<and> viewOf s' = viewOf s3"
    then obtain s3 where s3: "setLeaseStatus (?c org s1) i LE_CANCELLED = Inr s3" "viewOf s' = viewOf s3" by blast
    show ?thesis
    proof (cases "le_status l = LE_ACTIVE \<and> truthy (le_occupancyId l)")
      case True
      then obtain l1 where out: "moveOut dec s now ids u (le_buildingId l) i (onlyDate now) = Inr (l1, s1)"
        using s1 l'(2) by auto
      from moveOut_cancelled_step [OF inv out viewOf_cancelOpen _ s3(1)] obtain v where v: "tstep (viewOf s) v"
          "viewOf s3 = setViewRequests MOVE_IN (cancelOpenRequests org i (viewRequests MOVE_IN (viewOf s1)))
             (setViewRequests MOVE_OUT (cancelOpenRequests org i (viewRequests MOVE_OUT (viewOf s1))) v)"
          "viewRequests MOVE_IN v = tn_moveIns s" "viewRequests MOVE_OUT v = tn_moveOuts s"
        by auto
      from moveOut_Inr [OF inv out] have "viewRequests k (viewOf s1) = viewRequests k (viewOf s)" for k
        by (metis movedOut_requests)
      then have "viewOf s3 = setViewRequests MOVE_IN (cancelOpenRequests org i (viewRequests MOVE_IN v))
             (setViewRequests MOVE_OUT (cancelOpenRequests org i (viewRequests MOVE_OUT v)) v)"
        using v by simp
      with v(1) cancelOpenRequests_both [of v org i] s3(2) show ?thesis
        by (simp add: converse_rtranclp_into_rtranclp)
    next
      case False
      with s1 have "s1 = s" by auto
      then have "tstep\<^sup>*\<^sup>* (viewOf s) (viewOf (?c org s1))"
        using cancelOpenRequests_both [of "viewOf s" org i] by (simp only: viewOf_cancelOpen)
      moreover have "tstep (viewOf (?c org s1)) (viewOf s3)"
        using False l'(1) l(2) \<open>s1 = s\<close> inv
        by (intro setLeaseStatus_step [OF s3(1)]) (auto simp: mayBecome_def dest: occupied_truthy)
      ultimately show ?thesis using s3(2) by simp
    qed
  qed
qed

section \<open>Move requests\<close>

lemma distinct_requests: "viewInv (viewOf s) \<Longrightarrow> distinct (map mv_id (requestsOf k s))"
  using viewInv_requests [of "viewOf s" k] by (simp add: requestInv_def)

lemma change_one_request:
  assumes "distinct (map mv_id (viewRequests k v))" and "r \<in> set (viewRequests k v)"
    and "\<And>r. mv_id (f r) = mv_id r \<and> mv_leaseId (f r) = mv_leaseId r \<and> mv_orgId (f r) = mv_orgId r"
    and "isOpen (f r) \<Longrightarrow> isOpen r"
    and "k = MOVE_IN \<Longrightarrow> mv_status (f r) = MV_COMPLETED \<Longrightarrow>
      \<exists>l \<in> set (tv_leases v). le_id l = mv_leaseId r \<and> le_occupancyId l \<noteq> None"
  shows "tstep v (setViewRequests k (modify_by mv_id (mv_id r) f (viewRequests k v)) v)"
proof -
  have one: "x = r" if "x \<in> set (viewRequests k v)" "mv_id x = mv_id r" for x
    using that assms(1,2) by (metis find_by_distinct option.inject)
  show ?thesis
    unfolding modify_by_def
    by (rule change_requests) (use assms(3-5) one in \<open>auto split: if_splits\<close>)
qed

lemma updateMoveRequestRow_step:
  assumes "updateMoveRequestRow k s (mv_id r) f = Inr (r', s')" and "distinct (map mv_id (requestsOf k s))"
    and "r \<in> set (requestsOf k s)"
    and "\<And>r. mv_id (f r) = mv_id r \<and> mv_leaseId (f r) = mv_leaseId r \<and> mv_orgId (f r) = mv_orgId r"
    and "isOpen (f r) \<Longrightarrow> isOpen r"
    and "k = MOVE_IN \<Longrightarrow> mv_status (f r) = MV_COMPLETED \<Longrightarrow>
      \<exists>l \<in> set (tn_leases s). le_id l = mv_leaseId r \<and> le_occupancyId l \<noteq> None"
  shows "tstep (viewOf s) (viewOf s')"
    and "viewOf s' = setViewRequests k (modify_by mv_id (mv_id r) f (requestsOf k s)) (viewOf s)"
proof -
  show v: "viewOf s' = setViewRequests k (modify_by mv_id (mv_id r) f (requestsOf k s)) (viewOf s)"
    using assms(1) by (auto simp: updateMoveRequestRow_def)
  show "tstep (viewOf s) (viewOf s')"
    using change_one_request [of k "viewOf s" r f] assms(2-6) by (simp add: v)
qed

lemma reviewableRequest_Inr:
  assumes "reviewableRequest k s u i = Inr (org, r)"
  shows "r \<in> set (requestsOf k s)" and "mv_status r = MV_PENDING" and "mv_orgId r = org"
  using assms by (auto simp: reviewableRequest_def dest: find_SomeD)

lemma approveMoveRequest_steps:
  assumes inv: "viewInv (viewOf s)" and "approveMoveRequest k s now ids u i = Inr (r, s')"
  shows "tsteps s s'"
proof -
  from assms(2) obtain org r0 s1 where r0: "reviewableRequest k s u i = Inr (org, r0)"
      and s1: "updateMoveRequestRow k s (mv_id r0) (reviewed MV_APPROVED (user_sub u) now None) = Inr (r, s1)"
      and "viewOf s' = viewOf s1"
    by (auto simp: approveMoveRequest_def view_frame)
  with updateMoveRequestRow_step(1) [OF s1 distinct_requests [OF inv]] reviewableRequest_Inr [OF r0] show ?thesis
    by (simp add: reviewed_def isOpen_def)
qed

lemma rejectMoveRequest_steps:
  assumes inv: "viewInv (viewOf s)" and "rejectMoveRequest k s now ids u i reason = Inr (r, s')"
  shows "tsteps s s'"
proof -
  from assms(2) obtain org r0 s1 where r0: "reviewableRequest k s u i = Inr (org, r0)"
      and s1: "updateMoveRequestRow k s (mv_id r0) (reviewed MV_REJECTED (user_sub u) now reason) = Inr (r, s1)"
      and "viewOf s' = viewOf s1"
    by (auto simp: rejectMoveRequest_def view_frame)
  with updateMoveRequestRow_step(1) [OF s1 distinct_requests [OF inv]] reviewableRequest_Inr [OF r0] show ?thesis
    by (simp add: reviewed_def isOpen_def)
qed

lemma viewOf_announce: "announceMoveRequest env now ids k l (r0, s) = (e, r, s') \<Longrightarrow> viewOf s' = viewOf s"
  by (auto simp: announceMoveRequest_def notifyMoveRequestCreated_def Let_def viewOf_def core_def
      split: prod.splits if_splits dest: core_createForUsers)

lemma storeMoveRequest_step:
  assumes "storeMoveRequest k s now ids org userId l t notes = Inr (r, s')" and "\<not> openRequestExists k s org (le_id l)"
    and "l \<in> set (tn_leases s)" and "le_orgId l = org"
  shows "tstep (viewOf s) (viewOf s')"
proof -
  from assms(1) have new: "find_by mv_id (mv_id r) (requestsOf k s) = None" "mv_status r = MV_PENDING"
      "mv_leaseId r = le_id l" "mv_orgId r = org"
      and s': "viewOf s' = setViewRequests k (requestsOf k s @ [r]) (viewOf s)"
    by (auto simp: storeMoveRequest_def createMoveRequestRow_def Let_def view_frame split: if_splits)
  have "\<forall>x \<in> set (requestsOf k s). isOpen x \<longrightarrow> mv_orgId x = mv_orgId r \<longrightarrow> mv_leaseId x \<noteq> mv_leaseId r"
    using assms(2) new by (auto simp: openRequestExists_def list_ex_iff)
  then have "tstep (viewOf s) (setViewRequests k (viewRequests k (viewOf s) @ [r]) (viewOf s))"
    using new assms(3,4) by (intro ask) auto
  with s' show ?thesis by simp
qed

lemma ownContract_Inr:
  assumes "ownContract s u i = Inr (org, userId, l)"
  shows "l \<in> set (tn_leases s)" and "le_orgId l = org" and "le_id l = i" and "contractResident s l = Some userId"
    and "user_sub u = Some userId"
  using assms by (auto simp: ownContract_def orgAndUser_def requireUserId_def findContractOrThrow_def findLeaseById_def
      assertContractResidentOwnership_def dest: find_SomeD split: option.splits if_splits)

lemma createResidentMoveInRequest_steps:
  assumes "createResidentMoveInRequest env s now ids u i t notes = Inr (e, r, s')"
  shows "tsteps s s'"
proof -
  from assms obtain org userId l r0 s1 where own: "ownContract s u i = Inr (org, userId, l)"
      and free: "\<not> openRequestExists MOVE_IN s org (le_id l)"
      and s1: "storeMoveRequest MOVE_IN s now ids org userId l t notes = Inr (r0, s1)"
      and s': "announceMoveRequest env now ids MOVE_IN l (r0, s1) = (e, r, s')"
    by (auto simp: createResidentMoveInRequest_def)
  from storeMoveRequest_step [OF s1 free ownContract_Inr(1,2) [OF own]] viewOf_announce [OF s'] show ?thesis by simp
qed

lemma createResidentMoveOutRequest_steps:
  assumes "createResidentMoveOutRequest env s now ids u i t notes = Inr (e, r, s')"
  shows "tsteps s s'"
proof -
  from assms obtain org userId l r0 s1 where own: "ownContract s u i = Inr (org, userId, l)"
      and free: "\<not> openRequestExists MOVE_OUT s org (le_id l)"
      and s1: "storeMoveRequest MOVE_OUT s now ids org userId l t notes = Inr (r0, s1)"
      and s': "announceMoveRequest env now ids MOVE_OUT l (r0, s1) = (e, r, s')"
    by (auto simp: createResidentMoveOutRequest_def)
  from storeMoveRequest_step [OF s1 free ownContract_Inr(1,2) [OF own]] viewOf_announce [OF s'] show ?thesis by simp
qed

lemma createResidentContractDocument_steps:
  "createResidentContractDocument sg s now ids u i d = Inr (x, s') \<Longrightarrow> tsteps s s'"
  by (auto simp: createResidentContractDocument_def dest!: createDocument_steps)

section \<open>Executing an approved request\<close>

lemma approvedRequest_Some:
  assumes "approvedRequest k s org i = Some r"
  shows "r \<in> set (requestsOf k s)" and "mv_orgId r = org" and "mv_leaseId r = i" and "mv_status r = MV_APPROVED"
proof -
  let ?f = "filter (\<lambda>r. mv_orgId r = org \<and> mv_leaseId r = i \<and> mv_status r = MV_APPROVED) (requestsOf k s)"
  from assms obtain rs where rs: "sort_key (\<lambda>r. (mv_reviewedAt r = None, nullish (mv_reviewedAt r) 0, mv_createdAt r)) ?f = r # rs"
    by (auto simp: approvedRequest_def split: list.splits)
  have "r \<in> set ?f" using arg_cong [OF rs, of set] by auto
  then show "r \<in> set (requestsOf k s)" "mv_orgId r = org" "mv_leaseId r = i" "mv_status r = MV_APPROVED" by auto
qed

lemma linkLease_step:
  assumes upd: "updateLeaseRow s i (\<lambda>m. m\<lparr> le_occupancyId := Some c, le_status := LE_ACTIVE \<rparr>) = Inr (l', s')"
    and l: "find_by le_id i (tn_leases s) = Some l" and dis: "distinct (map le_id (tn_leases s))"
    and "le_occupancyId l = None" and "le_status l = LE_ACTIVE"
    and oc: "oc \<in> set (tv_occupancies (viewOf s))" "oc_id oc = c" "oc_unitId oc = le_unitId l" "oc_buildingId oc = le_buildingId l"
      "le_residentUserId l = Some (oc_residentUserId oc)"
  shows "tstep (viewOf s) (viewOf s')"
    and "viewOf s' = (viewOf s)\<lparr> tv_leases := modify_by le_id i (\<lambda>_. l') (tn_leases s) \<rparr>"
    and "l' \<in> set (tn_leases s')" and "le_id l' = i" and "le_occupancyId l' = Some c"
proof -
  from upd obtain m where m: "find_by le_id i (tn_leases s) = Some m"
      "leaseColumns (m\<lparr> le_occupancyId := Some c, le_status := LE_ACTIVE \<rparr>) = Inr l'"
      "\<forall>m \<in> set (tn_leases s). le_id m \<noteq> i \<longrightarrow> le_occupancyId l' \<noteq> None \<longrightarrow> le_occupancyId m \<noteq> le_occupancyId l'"
      "s' = setLeases (modify_by le_id i (\<lambda>_. l') (tn_leases s)) s"
    by (rule updateLeaseRow_Inr)
  have "m = l" using m(1) l by simp
  with leaseColumns_same [OF m(2)] have l': "sameLease l l'" "le_occupancyId l' = Some c" "le_status l' = LE_ACTIVE"
    by (auto simp: sameTenancy_def sameLease_def)
  have i: "le_id l = i" using l by (auto dest: find_by_SomeD)
  have other: "\<forall>m \<in> set (tn_leases s). le_occupancyId m \<noteq> Some c"
  proof
    fix m' assume m': "m' \<in> set (tn_leases s)"
    show "le_occupancyId m' \<noteq> Some c"
    proof (cases "le_id m' = i")
      case True
      from find_by_unique [OF dis l m' True] assms(4) show ?thesis by simp
    next
      case False
      with m(3) m' l'(2) show ?thesis by auto
    qed
  qed
  show v: "viewOf s' = (viewOf s)\<lparr> tv_leases := modify_by le_id i (\<lambda>_. l') (tn_leases s) \<rparr>"
    using m(4) by simp
  have "tstep (viewOf s) ((viewOf s)\<lparr> tv_leases := modify_by le_id i (\<lambda>_. l') (tv_leases (viewOf s)) \<rparr>)"
    by (rule link_lease [of i _ l l' c]) (use l l' assms(4,5) other oc in \<open>auto\<close>)
  then show "tstep (viewOf s) (viewOf s')" by (simp add: v)
  show "l' \<in> set (tn_leases s')" using m(4) by (simp add: set_modify_const [OF l])
  show "le_id l' = i" "le_occupancyId l' = Some c" using l' i by (simp_all add: sameLease_def)
qed

lemma executeApprovedMoveIn_steps:
  assumes inv: "viewInv (viewOf s)" and run: "executeApprovedMoveIn s now ids u i = Inr (x, s')"
    and ids: "ids ''Occupancy'' 0 \<noteq> []"
  shows "tsteps s s'"
proof -
  let ?c = "ids ''Occupancy'' 0"
  from run obtain org l r s1 l1 s2 s3 where l: "findContractOrThrow s org i = Inr l" "le_status l = LE_ACTIVE"
      "\<not> truthy (le_occupancyId l)" "truthy (le_residentUserId l)"
      and r: "approvedRequest MOVE_IN s org (le_id l) = Some r"
      and s1: "createOccupancyRow s (newOccupancy now ?c (le_buildingId l) (le_unitId l) (the (le_residentUserId l)) now) = Inr s1"
      and s2: "updateLeaseRow s1 (le_id l) (\<lambda>m. m\<lparr> le_occupancyId := Some ?c, le_status := LE_ACTIVE \<rparr>) = Inr (l1, s2)"
      and s3: "completeRequest MOVE_IN s2 (mv_id r) = Inr s3" and s': "viewOf s' = viewOf s3"
    by (auto simp: executeApprovedMoveIn_def Let_def view_frame)
  note l' = findContract_Inr [OF inv l(1)]
  let ?oc = "newOccupancy now ?c (le_buildingId l) (le_unitId l) (the (le_residentUserId l)) now"
  have st1: "tstep (viewOf s) (viewOf s1)"
    and v1: "viewOf s1 = (viewOf s)\<lparr> tv_occupancies := tv_occupancies (viewOf s) @ [bare ?oc] \<rparr>"
    and ls1: "tn_leases s1 = tn_leases s" and rs1: "requestsOf k s1 = requestsOf k s" for k
    using createOccupancyRow_step [OF s1] ids by (simp_all add: newOccupancy_def)
  have none: "le_occupancyId l = None" using occupied_truthy [OF inv l'(1)] l(3) by (cases "le_occupancyId l") auto
  have resident: "le_residentUserId l = Some (the (le_residentUserId l))" using l(4) by (auto elim: truthyE)
  note link = linkLease_step [OF s2, of l "bare ?oc"]
  have st2: "tstep (viewOf s1) (viewOf s2)" and in2: "l1 \<in> set (tn_leases s2)" "le_id l1 = le_id l" "le_occupancyId l1 = Some ?c"
    and v2: "viewOf s2 = (viewOf s1)\<lparr> tv_leases := modify_by le_id (le_id l) (\<lambda>_. l1) (tn_leases s1) \<rparr>"
    using link v1 ls1 l' none l(2) resident viewInvD(8) [OF inv] by (simp_all add: newOccupancy_def)
  have rs2: "requestsOf k s2 = requestsOf k s" for k
    using arg_cong [OF v2, of "viewRequests k"] rs1 by simp
  from s3 obtain r' where s3': "updateMoveRequestRow MOVE_IN s2 (mv_id r) (\<lambda>r. r\<lparr> mv_status := MV_COMPLETED \<rparr>) = Inr (r', s3)"
    by (auto simp: completeRequest_def)
  have "tstep (viewOf s2) (viewOf s3)"
  proof (rule updateMoveRequestRow_step(1) [OF s3'])
    show "distinct (map mv_id (requestsOf MOVE_IN s2))" unfolding rs2 by (rule distinct_requests [OF inv])
    show "r \<in> set (requestsOf MOVE_IN s2)" unfolding rs2 by (rule approvedRequest_Some(1) [OF r])
    show "\<exists>l \<in> set (tn_leases s2). le_id l = mv_leaseId r \<and> le_occupancyId l \<noteq> None"
      using in2 approvedRequest_Some(3) [OF r] by auto
  qed (simp_all add: isOpen_def)
  with st1 st2 s' show ?thesis by (simp add: converse_rtranclp_into_rtranclp)
qed

lemma setViewRequests_same [simp]: "setViewRequests k (viewRequests k v) v = v"
  by (cases k) simp_all

lemma executeApprovedMoveOut_steps:
  assumes inv: "viewInv (viewOf s)" and run: "executeApprovedMoveOut dec s now ids u i = Inr (x, s')"
  shows "tsteps s s'"
proof -
  from run obtain org l r l1 s1 where l: "findContractOrThrow s org i = Inr l"
      and r: "approvedRequest MOVE_OUT s org (le_id l) = Some r"
      and out: "moveOut dec s now ids u (le_buildingId l) (le_id l) (onlyDate (mv_requestedMoveAt r)) = Inr (l1, s1)"
      and tail: "s' = s1 \<or> (\<exists>s2. completeRequest MOVE_OUT s1 (mv_id r) = Inr s2
        \<and> (viewOf s' = viewOf s2 \<or> (\<exists>s3. setLeaseStatus s2 (le_id l) LE_CANCELLED = Inr s3 \<and> viewOf s' = viewOf s3)))"
    by (auto simp: executeApprovedMoveOut_def Let_def view_frame dest!: afterCommitD split: if_splits)
  have st1: "tstep (viewOf s) (viewOf s1)" by (rule moveOut_step [OF inv out])
  have rs1: "requestsOf k s1 = requestsOf k s" for k
    using moveOut_Inr [OF inv out] by (metis movedOut_requests viewOf_simps(4))
  let ?f = "\<lambda>r. r\<lparr> mv_status := MV_COMPLETED \<rparr>"
  let ?outs = "modify_by mv_id (mv_id r) ?f (requestsOf MOVE_OUT s)"
  have change: "tstep v (setViewRequests MOVE_OUT ?outs v)" if "viewRequests MOVE_OUT v = requestsOf MOVE_OUT s" for v
    using change_one_request [of MOVE_OUT v r ?f] that distinct_requests [OF inv, of MOVE_OUT] approvedRequest_Some(1) [OF r]
    by (simp add: isOpen_def)
  have s2: "viewOf s2 = setViewRequests MOVE_OUT ?outs (viewOf s1) \<and> tn_leases s2 = tn_leases s1"
    if "completeRequest MOVE_OUT s1 (mv_id r) = Inr s2" for s2
    using that rs1 [of MOVE_OUT] by (auto simp: completeRequest_def updateMoveRequestRow_def viewOf_def core_def)
  from tail show ?thesis
  proof (elim disjE exE conjE)
    assume "s' = s1" with st1 show ?thesis by auto
  next
    fix s2 assume "completeRequest MOVE_OUT s1 (mv_id r) = Inr s2" "viewOf s' = viewOf s2"
    with st1 change [of "viewOf s1"] rs1 s2 show ?thesis by (simp add: converse_rtranclp_into_rtranclp)
  next
    fix s2 s3 assume c: "completeRequest MOVE_OUT s1 (mv_id r) = Inr s2"
      and st: "setLeaseStatus s2 (le_id l) LE_CANCELLED = Inr s3" "viewOf s' = viewOf s3"
    let ?ins = "viewRequests MOVE_IN (viewOf s1)"
    have "viewOf s2 = setViewRequests MOVE_IN ?ins (setViewRequests MOVE_OUT ?outs (viewOf s1))"
      using s2 [OF c] by (simp add: viewOf_def)
    from moveOut_cancelled_step [OF inv out this _ st(1)] s2 [OF c] obtain v where v: "tstep (viewOf s) v"
        "viewOf s3 = setViewRequests MOVE_IN ?ins (setViewRequests MOVE_OUT ?outs v)"
        "viewRequests MOVE_IN v = tn_moveIns s" "viewRequests MOVE_OUT v = tn_moveOuts s" by auto
    then have "viewOf s3 = setViewRequests MOVE_OUT ?outs v" using rs1 [of MOVE_IN] by simp
    with v(1,4) change [of v] st(2) show ?thesis by (simp add: converse_rtranclp_into_rtranclp)
  qed
qed

section \<open>Parking\<close>

lemma createSlotRow_step:
  assumes "createSlotRow s p = Inr (p', s')"
  shows "tstep (viewOf s) (viewOf s')"
proof -
  from assms have "viewOf s' = (viewOf s)\<lparr> tv_slots := tv_slots (viewOf s) @ [p] \<rparr>"
      "\<forall>x \<in> set (tn_slots s). ps_id x \<noteq> ps_id p \<and> (ps_buildingId x = ps_buildingId p \<longrightarrow> ps_code x \<noteq> ps_code p)"
    by (auto simp: createSlotRow_def viewOf_def core_def list_ex_iff split: if_splits)
  then show ?thesis using add_slot [of "viewOf s" p] by simp
qed

lemma updateSlotRow_step:
  assumes "updateSlotRow s i f = Inr (p', s')"
    and "\<And>p. ps_id (f p) = ps_id p \<and> ps_orgId (f p) = ps_orgId p \<and> ps_buildingId (f p) = ps_buildingId p"
  shows "tstep (viewOf s) (viewOf s')"
proof -
  from assms(1) obtain p where p: "find_by ps_id i (tn_slots s) = Some p"
      "\<not> list_ex (\<lambda>x. ps_id x \<noteq> i \<and> ps_buildingId x = ps_buildingId p \<and> ps_code x = ps_code (f p)) (tn_slots s)"
      "s' = s\<lparr> tn_slots := modify_by ps_id i (\<lambda>_. f p) (tn_slots s) \<rparr>"
    by (auto simp: updateSlotRow_def split: if_split_asm)
  have "viewOf s' = (viewOf s)\<lparr> tv_slots := modify_by ps_id i (\<lambda>_. f p) (tv_slots (viewOf s)) \<rparr>"
    by (simp add: p(3) viewOf_def core_def)
  moreover have "\<forall>x \<in> set (tn_slots s). ps_id x \<noteq> i \<longrightarrow> ps_buildingId x = ps_buildingId p \<longrightarrow> ps_code x \<noteq> ps_code (f p)"
    using p(2) unfolding list_ex_iff by blast
  ultimately show ?thesis using edit_slot [of i "viewOf s" p "f p"] p(1) assms(2) by simp
qed

lemma slotUpdate_same [simp]:
  "ps_id (slotUpdate d p) = ps_id p" "ps_orgId (slotUpdate d p) = ps_orgId p" "ps_buildingId (slotUpdate d p) = ps_buildingId p"
  by (simp_all add: slotUpdate_def)

lemma createSlot_steps: "createSlot s now i u bldg d ty = Inr (p, s') \<Longrightarrow> tsteps s s'"
  by (auto simp: createSlot_def dest: createSlotRow_step)

lemma updateSlot_steps: "updateSlot s u i d = Inr (p, s') \<Longrightarrow> tsteps s s'"
  by (auto simp: updateSlot_def dest!: updateSlotRow_step)

lemma writeSlots_steps: "writeSlots now ids k org bldg mode byCode es s = Inr (is, c, n, s') \<Longrightarrow> tsteps s s'"
proof (induction es arbitrary: k s "is" c n)
  case (Cons e es)
  obtain row d where e: "e = (row, d)" by (cases e)
  from Cons.prems obtain k' is' c' n' s1 where "tstep (viewOf s) (viewOf s1)"
      "writeSlots now ids k' org bldg mode byCode es s1 = Inr (is', c', n', s')"
    by (auto simp: e split: option.splits if_splits dest!: createSlotRow_step updateSlotRow_step)
  with Cons.IH show ?case by (meson converse_rtranclp_into_rtranclp)
qed simp

lemma importSlotsCsv_steps:
  assumes "importSlotsCsv s now ids u bldg file mode dry = Inr (r, s')"
  shows "tsteps s s'"
proof -
  obtain headers rows where csv: "parseCsv (the file) = (headers, rows)" by fastforce
  obtain hes m where hs: "slotHeaderErrors headers = (hes, m)" by fastforce
  obtain entries es where rs: "parseSlotRows m 0 rows [] = (entries, es)" by fastforce
  have "s' = s \<or> (\<exists>org is c n. writeSlots now ids 0 org bldg (nullish mode IM_CREATE) (existingByCode s org bldg) entries s
      = Inr (is, c, n, s'))"
    using assms by (auto simp: importSlotsCsv_def csv hs rs Let_def split: if_split_asm)
  then show ?thesis by (auto dest: writeSlots_steps)
qed

lemma activeContext_Inr:
  assumes "assertActiveLeaseContextForOccupancy s org c = Inr (oc, l)"
  shows "oc \<in> set (occupancies (core s))" and "oc_id oc = c" and "oc_status oc = OC_ACTIVE" and "l \<in> set (tn_leases s)"
    and "le_occupancyId l = Some c" and "le_status l = LE_ACTIVE"
  using assms by (auto simp: assertActiveLeaseContextForOccupancy_def assertOccupancyInOrg_def dest: find_SomeD)

lemma requestedSlots_Inr:
  assumes inv: "slotInv (tn_slots s)" and run: "requestedSlots col s org bldg d = Inr slotIds"
  shows "distinct slotIds" and "\<forall>i \<in> set slotIds. \<exists>p \<in> set (tn_slots s). ps_id p = i \<and> ps_buildingId p = bldg \<and> ps_orgId p = org"
    and "\<forall>a \<in> set (tn_allocations s). isCurrent a \<longrightarrow> pa_parkingSlotId a \<notin> set slotIds"
proof -
  consider "length (findSlotsByIds s org bldg slotIds) = length slotIds" "findActiveAllocationsForSlots s slotIds = []"
    | n where "slotIds = map ps_id (if n = 0 then [] else findAvailableSlots col s org bldg n)"
    using run by (auto simp: requestedSlots_def Let_def split: option.splits)
  then have "distinct slotIds
      \<and> (\<forall>i \<in> set slotIds. \<exists>p \<in> set (tn_slots s). ps_id p = i \<and> ps_buildingId p = bldg \<and> ps_orgId p = org)
      \<and> (\<forall>a \<in> set (tn_allocations s). isCurrent a \<longrightarrow> pa_parkingSlotId a \<notin> set slotIds)"
  proof cases
    case 1
    with findSlotsByIds_all [OF inv 1(1)] show ?thesis
      by (auto simp: findActiveAllocationsForSlots_def filter_empty_conv)
  next
    case 2
    let ?f = "filter (\<lambda>p. ps_orgId p = org \<and> ps_buildingId p = bldg \<and> ps_isActive p \<and> slotFree s (ps_id p)) (tn_slots s)"
    let ?sort = "sort_key (\<lambda>p. (col (ps_code p), ps_createdAt p)) ?f"
    have "distinct (map ps_id ?f)" using inv by (simp add: slotInv_def distinct_map_filter)
    then have "distinct (map ps_id ?sort)" by (simp add: distinct_map)
    then have "distinct (map ps_id (take n ?sort))" by (simp add: take_map [symmetric] distinct_take)
    moreover have "set (take n ?sort) \<subseteq> set ?f" using set_take_subset [of n ?sort] by simp
    ultimately show ?thesis
      unfolding 2 findAvailableSlots_def by (auto simp: slotFree_def list_ex_iff)
  qed
  then show "distinct slotIds" "\<forall>i \<in> set slotIds. \<exists>p \<in> set (tn_slots s). ps_id p = i \<and> ps_buildingId p = bldg \<and> ps_orgId p = org"
    "\<forall>a \<in> set (tn_allocations s). isCurrent a \<longrightarrow> pa_parkingSlotId a \<notin> set slotIds" by blast+
qed

lemma allocate_steps:
  assumes inv: "viewInv (viewOf s)" and run: "allocate col s now ids u bldg d = Inr (as, s')"
  shows "tsteps s s'"
proof -
  from run obtain org t slotIds s1 where org: "orgBuilding (core s) u bldg = Inr org"
      and t: "checkTarget s org bldg t = Inr ()" and slots: "requestedSlots col s org bldg d = Inr slotIds"
      and s1: "createManyAllocations s (newAllocations now (ids ''ParkingAllocation'') org bldg t now slotIds) = Inr s1"
      and s': "viewOf s' = viewOf s1"
    unfolding allocate_def createAllocations_def andThen_Inr
    by (elim exE conjE) (auto simp: view_frame split: allocation_target.split_asm)
  have "activeIn (viewOf s) c bldg" if "t = ForOccupancy c" for c
  proof -
    from t that obtain oc l where "assertActiveLeaseContextForOccupancy s org c = Inr (oc, l)" "oc_buildingId oc = bldg"
      by (auto simp: checkTarget_def)
    with activeContext_Inr(1-3) show ?thesis unfolding activeIn_def by fastforce
  qed
  then have "tstep (viewOf s) (viewOf s1)"
    using requestedSlots_Inr [OF slots_of_invariant [OF inv] slots] orgBuilding_inOrg [OF org]
    by (intro createManyAllocations_step [OF s1]) auto
  with s' show ?thesis by simp
qed

lemma endAllocations_steps [simp]: "tsteps s (endAllocations P d s)"
  using end_allocations [of "viewOf s" P d] by simp

lemma endAllocation_steps: "endAllocation s now ids u i d = Inr (a, s') \<Longrightarrow> tsteps s s'"
  using endAllocations_steps [of s "\<lambda>a. pa_id a = _" "nullish d now"]
  by (auto simp: endAllocation_def endAllocationRow_def Let_def view_frame simp del: viewOf_endAllocations
      split: option.splits if_splits)

lemma endAllForOccupancy_steps: "endAllForOccupancy s now ids u c d = Inr (n, s') \<Longrightarrow> tsteps s s'"
  by (auto simp: endAllForOccupancy_def endAllActiveForOccupancy_def Let_def view_frame simp del: viewOf_endAllocations
      split: if_splits)

lemma endAllForUnit_steps: "endAllForUnit s now u i d = Inr (n, s') \<Longrightarrow> tsteps s s'"
  by (auto simp: endAllForUnit_def endAllActiveForUnit_def simp del: viewOf_endAllocations)

lemma createVehicle_steps: "createVehicle s now ids u c p lb = Inr (v, s') \<Longrightarrow> tsteps s s'"
  by (rule tsteps_frame) (auto simp: createVehicle_def view_frame)

lemma updateVehicle_steps: "updateVehicle s now ids u i p lb = Inr (v, s') \<Longrightarrow> tsteps s s'"
  by (rule tsteps_frame) (auto simp: updateVehicle_def view_frame)

lemma deleteVehicle_steps: "deleteVehicle s now ids u i = Inr s' \<Longrightarrow> tsteps s s'"
  by (rule tsteps_frame) (auto simp: deleteVehicle_def view_frame)

end
