(* ===== verification/TenancyMachine.thy ===== *)
theory TenancyMachine
  imports TenancySteps
begin

text \<open>
  The operations of the tenancy services that write, as one system: whoever calls them, in whatever order, the
  invariant of the tables holds and what the steps keep is kept.
\<close>

section \<open>The operations\<close>

datatype tenancy_op =
  UpdateLease string lease_update
| CreateItems item_kind string "string list"
| UpdateItem item_kind string string item_status
| DeleteItem item_kind string string
| ReplaceOccupants string "string list"
| CreateDocument string document_dto
| DeleteDocument string string
| MoveIn string move_in_dto
| MoveOut string string move_out_dto
| CreateOccupancy string string string
| CreateDraft string contract_dto
| UpdateContract string contract_update
| Activate string
| Cancel string "string option"
| ReplaceTerms string "string list"
| AskMoveIn string int "string option"
| AskMoveOut string int "string option"
| ApproveMove move_kind string
| RejectMove move_kind string "string option"
| ExecuteMoveIn string
| ExecuteMoveOut string
| ResidentDocument string document_dto
| CreateSlot string slot_dto slot_type
| UpdateSlot string slot_dto
| ImportSlots string "string option" "import_mode option" "bool option"
| Allocate string allocate_dto
| EndAllocation string "int option"
| EndAllForOccupancy string "int option"
| EndAllForUnit string "int option"
| CreateVehicle string string "string option"
| UpdateVehicle string "string option" "string option option"
| DeleteVehicle string

text \<open>What the services take from outside: deliveries, decimal.js, argon2, the storage and a source of random passwords.\<close>

record tenancy_env =
  te_delivery :: delivery_env
  te_dec :: "string \<Rightarrow> rat option"
  te_hash :: "string \<Rightarrow> string"
  te_signUrl :: "string \<Rightarrow> string"
  te_randomPw :: string
  te_collate :: "string \<Rightarrow> nat list"

abbreviation written :: "('a \<times> tenancy) res \<Rightarrow> tenancy res" where
  "written r \<equiv> map_sum id snd r"

fun perform ::
  "tenancy_env \<Rightarrow> int \<Rightarrow> (string \<Rightarrow> nat \<Rightarrow> string) \<Rightarrow> principal \<Rightarrow> tenancy_op \<Rightarrow> tenancy \<Rightarrow> tenancy res" where
  "perform env now ids u (UpdateLease i d) s = written (updateLease (te_dec env) s now (ids ''LeaseHistory'' 0) u i d)"
| "perform env now ids u (CreateItems k i ns) s = written (createLeaseItems k s now (ids ''LeaseItem'') (ids ''LeaseActivity'' 0) u i ns)"
| "perform env now ids u (UpdateItem k i x st) s = written (updateItemStatus k s now (ids ''LeaseActivity'' 0) u i x st)"
| "perform env now ids u (DeleteItem k i x) s = deleteItem k s now (ids ''LeaseActivity'' 0) u i x"
| "perform env now ids u (ReplaceOccupants i ns) s = written (replaceOccupants s now (ids ''LeaseOccupant'') (ids ''LeaseActivity'' 0) u i ns)"
| "perform env now ids u (CreateDocument i d) s =
     written (createDocument (te_signUrl env) s now (ids ''LeaseDocument'' 0) (ids ''LeaseActivity'' 0) u i d)"
| "perform env now ids u (DeleteDocument i x) s = deleteDocument s now (ids ''LeaseActivity'' 0) u i x"
| "perform env now ids u (MoveIn b d) s = written (moveIn (te_dec env) (te_hash env) s now ids (te_randomPw env) u b d)"
| "perform env now ids u (MoveOut b i d) s = written (moveOut (te_dec env) s now ids u b i d)"
| "perform env now ids u (CreateOccupancy b n r) s = written (createOccupancy s now (ids ''Occupancy'' 0) u b n r)"
| "perform env now ids u (CreateDraft b d) s = written (createDraftContract (te_dec env) s now ids u b d)"
| "perform env now ids u (UpdateContract i d) s = written (updateContract (te_dec env) s now ids u i d)"
| "perform env now ids u (Activate i) s = written (activateContract s now ids u i)"
| "perform env now ids u (Cancel i why) s = written (cancelContract (te_dec env) s now ids u i why)"
| "perform env now ids u (ReplaceTerms i ts) s = written (replaceAdditionalTerms s now ids u i ts)"
| "perform env now ids u (AskMoveIn i t ns) s = map_sum id (snd \<circ> snd) (createResidentMoveInRequest (te_delivery env) s now ids u i t ns)"
| "perform env now ids u (AskMoveOut i t ns) s = map_sum id (snd \<circ> snd) (createResidentMoveOutRequest (te_delivery env) s now ids u i t ns)"
| "perform env now ids u (ApproveMove k i) s = written (approveMoveRequest k s now ids u i)"
| "perform env now ids u (RejectMove k i why) s = written (rejectMoveRequest k s now ids u i why)"
| "perform env now ids u (ExecuteMoveIn i) s = written (executeApprovedMoveIn s now ids u i)"
| "perform env now ids u (ExecuteMoveOut i) s = written (executeApprovedMoveOut (te_dec env) s now ids u i)"
| "perform env now ids u (ResidentDocument i d) s = written (createResidentContractDocument (te_signUrl env) s now ids u i d)"
| "perform env now ids u (CreateSlot b d ty) s = written (createSlot s now (ids ''ParkingSlot'' 0) u b d ty)"
| "perform env now ids u (UpdateSlot i d) s = written (updateSlot s u i d)"
| "perform env now ids u (ImportSlots b f m dry) s = written (importSlotsCsv s now (ids ''ParkingSlot'') u b f m dry)"
| "perform env now ids u (Allocate b d) s = written (allocate (te_collate env) s now ids u b d)"
| "perform env now ids u (EndAllocation i d) s = written (endAllocation s now ids u i d)"
| "perform env now ids u (EndAllForOccupancy i d) s = written (endAllForOccupancy s now ids u i d)"
| "perform env now ids u (EndAllForUnit i d) s = written (endAllForUnit s now u i d)"
| "perform env now ids u (CreateVehicle c p lb) s = written (createVehicle s now ids u c p lb)"
| "perform env now ids u (UpdateVehicle i p lb) s = written (updateVehicle s now ids u i p lb)"
| "perform env now ids u (DeleteVehicle i) s = deleteVehicle s now ids u i"

text \<open>The database generates ids that are never empty.\<close>

definition generated :: "(string \<Rightarrow> nat \<Rightarrow> string) \<Rightarrow> string \<Rightarrow> nat \<Rightarrow> string" where
  "generated ids t n = (if ids t n = [] then ''0'' else ids t n)"

lemma generated_nonempty [simp]: "generated ids t n \<noteq> []"
  by (simp add: generated_def)

type_synonym tenancy_call = "tenancy_env \<times> int \<times> (string \<Rightarrow> nat \<Rightarrow> string) \<times> principal \<times> tenancy_op"

definition serve :: "tenancy_call \<Rightarrow> tenancy \<Rightarrow> tenancy res" where
  "serve call s = (case call of (env, now, ids, u, op) \<Rightarrow> perform env now (generated ids) u op s)"

section \<open>Every operation is a sequence of steps\<close>

lemmas operation_steps =
  updateLease_steps createLeaseItems_steps updateItemStatus_steps deleteItem_steps replaceOccupants_steps
  createDocument_steps deleteDocument_steps moveIn_steps moveOut_step createOccupancy_steps
  createDraftContract_steps updateContract_steps activateContract_steps cancelContract_steps replaceAdditionalTerms_steps
  createResidentMoveInRequest_steps createResidentMoveOutRequest_steps approveMoveRequest_steps rejectMoveRequest_steps
  executeApprovedMoveIn_steps executeApprovedMoveOut_steps createResidentContractDocument_steps
  createSlot_steps updateSlot_steps importSlotsCsv_steps allocate_steps endAllocation_steps endAllForOccupancy_steps
  endAllForUnit_steps createVehicle_steps updateVehicle_steps deleteVehicle_steps

lemma written_Inr [simp]: "map_sum id f r = Inr s' \<longleftrightarrow> (\<exists>x. r = Inr x \<and> f x = s')"
  by (cases r) auto

lemma perform_steps:
  assumes "viewInv (viewOf s)" and "perform env now ids u op s = Inr s'" and "ids ''Occupancy'' 0 \<noteq> []"
  shows "tsteps s s'"
  using assms by (cases op) (auto dest: operation_steps)

definition tenancyInv :: "tenancy \<Rightarrow> bool" where
  "tenancyInv s \<longleftrightarrow> viewInv (viewOf s)"

definition tenancyKept :: "tenancy \<Rightarrow> tenancy \<Rightarrow> bool" where
  "tenancyKept s s' \<longleftrightarrow> viewKept (viewOf s) (viewOf s')"

lemma serve_steps: "tenancyInv s \<Longrightarrow> serve call s = Inr s' \<Longrightarrow> tsteps s s'"
  by (auto simp: serve_def tenancyInv_def split: prod.splits intro: perform_steps)

interpretation tenancy_system: guarded_system serve tenancyInv tenancyKept
proof
  show "tenancyInv s \<Longrightarrow> serve call s = Inr s' \<Longrightarrow> tenancyInv s'" for s call s'
    using serve_steps tsteps_inv unfolding tenancyInv_def by blast
  show "tenancyInv s \<Longrightarrow> serve call s = Inr s' \<Longrightarrow> tenancyKept s s'" for s call s'
    using serve_steps tsteps_kept unfolding tenancyInv_def tenancyKept_def by blast
  show "tenancyKept s s" for s by (simp add: tenancyKept_def viewKept_refl)
  show "tenancyKept s t \<Longrightarrow> tenancyKept t v \<Longrightarrow> tenancyKept s v" for s t v
    unfolding tenancyKept_def by (rule viewKept_trans)
qed

end
