(* ===== verification/TenancyTheorems.thy ===== *)
theory TenancyTheorems
  imports TenancyMachine Fixture
begin

text \<open>
  What the tenancy services guarantee: the invariant of their tables and the irreversibility of an ended tenancy over
  every sequence of operations, the execution of an approved move-in, the record of changes, the refund of a deposit,
  the choice of parking slots, and a guard that activation misses. The fixture is the building of \<^verbatim>\<open>Fixture\<close> with an
  empty unit, a draft contract of its resident and one parking slot.
\<close>

section \<open>A fixture\<close>

definition fx_terms :: lease_terms where
  "fx_terms =
     \<lparr> lt_leaseStartDate = 100, lt_leaseEndDate = 900, lt_tenancyRegistrationExpiry = None, lt_noticeGivenDate = None,
       lt_annualRent = 60000, lt_paymentFrequency = QUARTERLY, lt_numberOfCheques = Some 4, lt_securityDepositAmount = 3000,
       lt_internetTvProvider = None, lt_serviceChargesPaidBy = None, lt_vatApplicable = None, lt_notes = None,
       lt_firstPaymentReceived = None, lt_firstPaymentAmount = None, lt_depositReceived = None,
       lt_depositReceivedAmount = None \<rparr>"

definition fx_lease :: "string \<Rightarrow> lease_row" where
  "fx_lease i =
     \<lparr> le_id = i, le_orgId = ''o1'', le_buildingId = ''b1'', le_unitId = ''n1'', le_occupancyId = None,
       le_residentUserId = Some ''res'', le_status = LE_DRAFT, le_contract = no_contract, le_terms = fx_terms,
       le_out = no_moveout, le_createdAt = 10 \<rparr>"

definition fx_slot :: "string \<Rightarrow> parking_slot" where
  "fx_slot i =
     \<lparr> ps_id = i, ps_orgId = ''o1'', ps_buildingId = ''b1'', ps_code = i, ps_level = None, ps_type = SLOT_CAR,
       ps_isCovered = True, ps_isActive = True, ps_createdAt = 5 \<rparr>"

definition fx_core :: db where
  "fx_core = fx0\<lparr> occupancies := [],
     permissions := fx_permissions @ [\<lparr>pm_id = ''p6'', pm_key = ''contracts.move_requests.review''\<rparr>,
       \<lparr>pm_id = ''p7'', pm_key = ''contracts.move_in.execute''\<rparr>, \<lparr>pm_id = ''p8'', pm_key = ''contracts.move_out.execute''\<rparr>],
     rolePermissions := fx_rolePermissions @ [\<lparr>rp_roleTemplateId = ''rm'', rp_permissionId = ''p6''\<rparr>,
       \<lparr>rp_roleTemplateId = ''rm'', rp_permissionId = ''p7''\<rparr>, \<lparr>rp_roleTemplateId = ''rm'', rp_permissionId = ''p8''\<rparr>] \<rparr>"

definition fx_tenancy :: tenancy where
  "fx_tenancy =
     \<lparr> tn_delivery = \<lparr> dl_core = fx_core, dl_tasks = [], dl_devices = [], dl_receipts = [], dl_notifications = [],
         dl_published = [], dl_resetTokens = [], dl_invites = [], dl_jobs = [] \<rparr>,
       tn_unitTypes = [], tn_leases = [fx_lease ''l1'', fx_lease ''l2''], tn_moveIns = [], tn_moveOuts = [],
       tn_history = [], tn_activities = [], tn_documents = [], tn_cards = [], tn_stickers = [], tn_occupants = [],
       tn_additionalTerms = [], tn_slots = [fx_slot ''s1'', fx_slot ''s2''], tn_allocations = [], tn_vehicles = [], tn_profiles = [] \<rparr>"

definition fx_tenv :: tenancy_env where
  "fx_tenv =
     \<lparr> te_delivery = \<lparr> en_pushProvider = ''noop'', en_expo = (\<lambda>ds p. Tickets []), en_mail = (\<lambda>m. None),
         en_queue = (\<lambda>q. Enqueued), en_hash = id, en_txError = None, en_dbError = ''db'' \<rparr>,
       te_dec = (\<lambda>t. if t = ''500'' then Some 500 else None), te_hash = id, te_signUrl = id, te_randomPw = ''pw'',
       te_collate = map of_char \<rparr>"

definition fx_tcall :: "nat \<Rightarrow> string \<Rightarrow> tenancy_op \<Rightarrow> tenancy_call" where
  "fx_tcall n i op = (fx_tenv, int n * 100, \<lambda>t k. ''x'' @ replicate n CHR ''i'' @ replicate k CHR ''k'', fx_user i, op)"

definition fx_stay :: "tenancy_call list" where
  "fx_stay =
     [fx_tcall 1 ''mgr'' (Activate ''l1''), fx_tcall 2 ''res'' (AskMoveIn ''l1'' 150 None),
      fx_tcall 3 ''mgr'' (ApproveMove MOVE_IN ''xii''), fx_tcall 4 ''mgr'' (ExecuteMoveIn ''l1''),
      fx_tcall 5 ''mgr'' (Allocate ''b1'' \<lparr> al_occupancyId = Some ''xiiii'', al_unitId = None, al_slotIds = None, al_count = Some 1 \<rparr>)]"

lemma fx_tenancy_inv: "tenancyInv fx_tenancy"
  by (simp add: tenancyInv_def viewInv_def viewOf_def core_def fx_tenancy_def fx_core_def fx0_def occupancyInv_def leaseInv_def
      requestInv_def slotInv_def allocationInv_def uniqueBy_def leaseOccupied_def inOrg_def fx_lease_def fx_slot_def hasOccupancy_def)

section \<open>The invariant\<close>

definition oneActivePerUnitAndResident :: "tenancy \<Rightarrow> bool" where
  "oneActivePerUnitAndResident s \<longleftrightarrow>
     (\<forall>x \<in> set (occupancies (core s)). \<forall>y \<in> set (occupancies (core s)). oc_status x = OC_ACTIVE \<longrightarrow> oc_status y = OC_ACTIVE
        \<longrightarrow> oc_unitId x = oc_unitId y \<or> oc_residentUserId x = oc_residentUserId y \<longrightarrow> oc_id x = oc_id y)"

definition leasesMatchOccupancies :: "tenancy \<Rightarrow> bool" where
  "leasesMatchOccupancies s \<longleftrightarrow>
     (\<forall>l \<in> set (tn_leases s). \<forall>oc \<in> set (occupancies (core s)). le_occupancyId l = Some (oc_id oc) \<longrightarrow>
        oc_unitId oc = le_unitId l \<and> (oc_status oc = OC_ACTIVE \<longrightarrow> le_status l = LE_ACTIVE))"

definition slotsSingleHolder :: "tenancy \<Rightarrow> bool" where
  "slotsSingleHolder s \<longleftrightarrow>
     (\<forall>a \<in> set (tn_allocations s). \<forall>b \<in> set (tn_allocations s). isCurrent a \<longrightarrow> isCurrent b
        \<longrightarrow> pa_parkingSlotId a = pa_parkingSlotId b \<longrightarrow> pa_id a = pa_id b)
     \<and> (\<forall>a \<in> set (tn_allocations s). isCurrent a \<longrightarrow> pa_occupancyId a \<noteq> None \<longrightarrow>
          (\<exists>oc \<in> set (occupancies (core s)). pa_occupancyId a = Some (oc_id oc) \<and> oc_status oc = OC_ACTIVE))"

lemma tenancyInv_occupancies:
  assumes "tenancyInv s"
  shows "oneActivePerUnitAndResident s"
proof -
  have "occupancyInv (map bare (occupancies (core s)))"
    using viewInvD(2) [of "viewOf s"] assms by (simp add: tenancyInv_def)
  then have u: "uniqueBy oc_id isActiveOccupancy oc_unitId (bare ` set (occupancies (core s)))"
      "uniqueBy oc_id isActiveOccupancy oc_residentUserId (bare ` set (occupancies (core s)))"
    by (simp_all add: occupancyInv_def)
  show ?thesis unfolding oneActivePerUnitAndResident_def
  proof (intro ballI impI)
    fix x y assume "x \<in> set (occupancies (core s))" "y \<in> set (occupancies (core s))" "oc_status x = OC_ACTIVE"
      "oc_status y = OC_ACTIVE" "oc_unitId x = oc_unitId y \<or> oc_residentUserId x = oc_residentUserId y"
    then show "oc_id x = oc_id y"
      using uniqueByD [OF u(1), of "bare x" "bare y"] uniqueByD [OF u(2), of "bare x" "bare y"]
      by (auto simp: isActiveOccupancy_def)
  qed
qed

lemma tenancyInv_leases:
  assumes "tenancyInv s"
  shows "leasesMatchOccupancies s"
proof -
  have inv: "viewInv (viewOf s)" using assms by (simp add: tenancyInv_def)
  have dis: "distinct (map oc_id (map bare (occupancies (core s))))"
    using viewInvD(2) [OF inv] by (simp add: occupancyInv_def)
  show ?thesis unfolding leasesMatchOccupancies_def
  proof (intro ballI impI)
    fix l oc assume l: "l \<in> set (tn_leases s)" and oc: "oc \<in> set (occupancies (core s))" "le_occupancyId l = Some (oc_id oc)"
    have "leaseOccupied (map bare (occupancies (core s))) l"
      using viewInvD(3) [OF inv] l by (simp add: leaseInv_def)
    then obtain x where x: "x \<in> set (map bare (occupancies (core s)))" "oc_id x = oc_id oc" "oc_unitId x = le_unitId l"
        "oc_status x = OC_ACTIVE \<longrightarrow> le_status l = LE_ACTIVE"
      unfolding leaseOccupied_def using oc(2) by blast
    have "x = bare oc"
    proof -
      have "find_by oc_id (oc_id oc) (map bare (occupancies (core s))) = Some (bare oc)"
        using find_by_distinct [OF dis, of "bare oc"] oc(1) by simp
      from find_by_unique [OF dis this x(1,2)] show ?thesis .
    qed
    with x show "oc_unitId oc = le_unitId l \<and> (oc_status oc = OC_ACTIVE \<longrightarrow> le_status l = LE_ACTIVE)" by simp
  qed
qed

lemma tenancyInv_allocations:
  assumes "tenancyInv s"
  shows "slotsSingleHolder s"
proof -
  have "allocationInv (buildings (core s)) (map bare (occupancies (core s))) (tn_slots s) (tn_allocations s)"
    using viewInvD(7) [of "viewOf s"] assms by (simp add: tenancyInv_def)
  then have u: "uniqueBy pa_id isCurrent pa_parkingSlotId (set (tn_allocations s))"
    and sound: "\<And>a. a \<in> set (tn_allocations s) \<Longrightarrow>
      allocationSound (buildings (core s)) (map bare (occupancies (core s))) (tn_slots s) a"
    by (simp_all add: allocationInv_def)
  have "\<exists>oc \<in> set (occupancies (core s)). pa_occupancyId a = Some (oc_id oc) \<and> oc_status oc = OC_ACTIVE"
    if "a \<in> set (tn_allocations s)" "isCurrent a" "pa_occupancyId a \<noteq> None" for a
    using sound [OF that(1)] that(2,3) unfolding allocationSound_def by fastforce
  with uniqueByD [OF u] show ?thesis unfolding slotsSingleHolder_def by blast
qed

text \<open>
  C12. Whatever operations of the tenancy services are called, by whomever, in whatever order: in the state they leave a
  unit and a resident have at most one active occupancy each; the occupancy of a lease is of the lease's unit and is active only
  while the lease is; a parking slot has at most one current holder, and one that holds it by an occupancy is
  living there; ids are unique, references resolve, and a lease has at most one open request to move in and one to move out.
\<close>

theorem tenancy_invariant:
  assumes "tenancyInv s"
  shows "tenancyInv (run_ops serve calls s) \<and> oneActivePerUnitAndResident (run_ops serve calls s)
    \<and> leasesMatchOccupancies (run_ops serve calls s) \<and> slotsSingleHolder (run_ops serve calls s)"
proof -
  have "tenancyInv (run_ops serve calls s)" using assms by (rule tenancy_system.run_inv)
  then show ?thesis
    using tenancyInv_occupancies tenancyInv_leases tenancyInv_allocations by blast
qed

theorem tenancy_invariant_witness:
  "oneActivePerUnitAndResident (run_ops serve fx_stay fx_tenancy)
   \<and> (let s = run_ops serve fx_stay fx_tenancy
      in (map (\<lambda>a. (pa_parkingSlotId a, pa_occupancyId a)) (tn_allocations s), map oc_status (occupancies (core s))))
     = ([(''s1'', Some ''xiiii'')], [OC_ACTIVE])"
proof (rule conjI)
  show "oneActivePerUnitAndResident (run_ops serve fx_stay fx_tenancy)"
    using tenancy_invariant [OF fx_tenancy_inv] by blast
qed code_simp

text \<open>
  C10. A lease never changes its organisation, building, unit or resident; once ended it stays ended; once it has an
  occupancy it keeps that one; an occupancy that has ended stays ended.
\<close>

theorem ended_tenancies_stay_ended:
  assumes "tenancyInv s"
  shows "(\<forall>l \<in> set (tn_leases s). \<exists>m \<in> set (tn_leases (run_ops serve calls s)). sameLease l m
      \<and> (le_status l = LE_ENDED \<longrightarrow> le_status m = LE_ENDED)
      \<and> (le_occupancyId l \<noteq> None \<longrightarrow> le_occupancyId m = le_occupancyId l))
    \<and> (\<forall>x \<in> set (occupancies (core s)). oc_status x = OC_ENDED \<longrightarrow>
      (\<exists>y \<in> set (occupancies (core (run_ops serve calls s))). oc_id y = oc_id x \<and> oc_status y = OC_ENDED))"
proof -
  have "viewKept (viewOf s) (viewOf (run_ops serve calls s))"
    using tenancy_system.run_allowed [OF assms] by (simp add: tenancyKept_def)
  then have ls: "\<forall>l \<in> set (tn_leases s). \<exists>m \<in> set (tn_leases (run_ops serve calls s)). leaseKept l m"
    and ocs: "\<forall>x \<in> set (occupancies (core s)). \<exists>y \<in> set (occupancies (core (run_ops serve calls s))). occupancyKept (bare x) (bare y)"
    by (simp_all add: viewKept_def)
  from ocs have "\<forall>x \<in> set (occupancies (core s)). oc_status x = OC_ENDED \<longrightarrow>
      (\<exists>y \<in> set (occupancies (core (run_ops serve calls s))). oc_id y = oc_id x \<and> oc_status y = OC_ENDED)"
    unfolding occupancyKept_def by fastforce
  with ls show ?thesis unfolding leaseKept_def by blast
qed

definition fx_ended :: tenancy where
  "fx_ended = fx_tenancy\<lparr> tn_leases := [(fx_lease ''l1'')\<lparr> le_status := LE_ENDED \<rparr>] \<rparr>"

definition fx_after :: "tenancy_call list" where
  "fx_after = [fx_tcall 1 ''mgr'' (Activate ''l1''), fx_tcall 2 ''mgr'' (Cancel ''l1'' None)]"

lemma fx_ended_inv: "tenancyInv fx_ended"
  by (simp add: tenancyInv_def viewInv_def viewOf_def core_def fx_ended_def fx_tenancy_def fx_core_def fx0_def occupancyInv_def
      leaseInv_def requestInv_def slotInv_def allocationInv_def uniqueBy_def leaseOccupied_def inOrg_def fx_lease_def fx_slot_def hasOccupancy_def)

theorem ended_tenancies_stay_ended_witness:
  "map le_status (tn_leases fx_ended) = [LE_ENDED]
   \<and> (\<exists>m \<in> set (tn_leases (run_ops serve fx_after fx_ended)).
        sameLease ((fx_lease ''l1'')\<lparr> le_status := LE_ENDED \<rparr>) m \<and> le_status m = LE_ENDED)"
  using ended_tenancies_stay_ended [OF fx_ended_inv, of fx_after] by (auto simp: fx_ended_def)

section \<open>Executing a move-in\<close>

definition mayExecuteMoveIn :: "tenancy \<Rightarrow> principal \<Rightarrow> string \<Rightarrow> bool" where
  "mayExecuteMoveIn s u bldg \<longleftrightarrow>
     hasAllPermissionMatches (Some (getUserEffectivePermissions (core s) (the (user_sub u)) (user_org u) (Some bldg) False))
       [''contracts.move_in.execute'']"

text \<open>
  C19. A move-in is executed only by a caller with the permission for the building, for an active contract of the caller's
  organisation that has a resident and no occupancy yet, whose unit and resident have no active occupancy, on an
  approved request of that contract. Then the request is completed, the contract has the new occupancy, and that
  occupancy is of the contract's unit and resident, active, and starts at the moment of the call.
\<close>

theorem move_in_needs_approval:
  assumes inv: "tenancyInv s" and run: "executeApprovedMoveIn s now ids u i = Inr (l', s')" and ids: "ids ''Occupancy'' 0 \<noteq> []"
  shows "\<exists>l r resident. find_by le_id i (tn_leases s) = Some l \<and> user_org u = Some (le_orgId l)
    \<and> mayExecuteMoveIn s u (le_buildingId l) \<and> le_status l = LE_ACTIVE \<and> le_occupancyId l = None
    \<and> le_residentUserId l = Some resident \<and> \<not> hasActiveForUnit s (le_unitId l) \<and> \<not> hasActiveForResident s resident
    \<and> r \<in> set (tn_moveIns s) \<and> mv_leaseId r = i \<and> mv_status r = MV_APPROVED
    \<and> r\<lparr> mv_status := MV_COMPLETED \<rparr> \<in> set (tn_moveIns s')
    \<and> sameLease l l' \<and> le_occupancyId l' = Some (ids ''Occupancy'' 0)
    \<and> (\<exists>oc \<in> set (occupancies (core s')). oc_id oc = ids ''Occupancy'' 0 \<and> oc_unitId oc = le_unitId l
         \<and> oc_residentUserId oc = resident \<and> oc_status oc = OC_ACTIVE \<and> oc_startAt oc = now)"
proof -
  let ?c = "ids ''Occupancy'' 0"
  have v: "viewInv (viewOf s)" using inv by (simp add: tenancyInv_def)
  from run obtain org l r s1 l1 s2 s3 p where l: "findContractOrThrow s org i = Inr l" "le_status l = LE_ACTIVE"
      "\<not> truthy (le_occupancyId l)" "truthy (le_residentUserId l)"
      and org: "user_org u = Some org" and may: "assertAssignedMoveManagementAccess (core s) u (le_buildingId l) MOVE_IN_EXECUTE_PERMISSION = Inr ()"
      and r: "approvedRequest MOVE_IN s org (le_id l) = Some r"
      and vacant: "\<not> hasActiveForUnit s (le_unitId l)" "\<not> hasActiveForResident s (the (le_residentUserId l))"
      and s1: "createOccupancyRow s (newOccupancy now ?c (le_buildingId l) (le_unitId l) (the (le_residentUserId l)) now) = Inr s1"
      and s2: "updateLeaseRow s1 (le_id l) (\<lambda>m. m\<lparr> le_occupancyId := Some ?c, le_status := LE_ACTIVE \<rparr>) = Inr (l1, s2)"
      and s3: "completeRequest MOVE_IN s2 (mv_id r) = Inr s3"
      and s': "s' = createActivity s3 now (ids ''LeaseActivity'' 0) org (le_id l) LA_MOVE_IN (user_sub u) p"
      and l': "findContractOrThrow s' org i = Inr l'"
    by (auto simp: executeApprovedMoveIn_def Let_def)
  note lf = findContract_Inr [OF v l(1)]
  note row = createOccupancyRow_step(2-5) [OF s1]
  have leases: "tn_leases s1 = tn_leases s" and rs1: "tn_moveIns s1 = tn_moveIns s"
    using row(3) row(4) [of MOVE_IN] ids by (simp_all add: newOccupancy_def)
  from s2 obtain m where m: "find_by le_id (le_id l) (tn_leases s1) = Some m"
      "leaseColumns (m\<lparr> le_occupancyId := Some ?c, le_status := LE_ACTIVE \<rparr>) = Inr l1"
      "s2 = setLeases (modify_by le_id (le_id l) (\<lambda>_. l1) (tn_leases s1)) s1"
    by (rule updateLeaseRow_Inr)
  have "m = l" using m(1) lf by (simp add: leases)
  with leaseColumns_same [OF m(2)] have l1: "sameLease l l1" "le_occupancyId l1 = Some ?c"
    by (auto simp: sameTenancy_def sameLease_def)
  have s3': "s3 = s2\<lparr> tn_moveIns := modify_by mv_id (mv_id r) (\<lambda>r. r\<lparr> mv_status := MV_COMPLETED \<rparr>) (tn_moveIns s2) \<rparr>"
    using s3 by (auto simp: completeRequest_def updateMoveRequestRow_def)
  have frame: "tn_leases s' = tn_leases s2" "tn_moveIns s' = tn_moveIns s3" "core s' = core s2" "tn_moveIns s2 = tn_moveIns s"
    using rs1 by (simp_all add: s' s3' m(3) createActivity_def core_def setLeases_def setOccupancies_def setCore_def)
  have "find_by le_id i (tn_leases s') = Some l1"
    using lf l1(1) by (simp add: frame m(3) leases find_by_modify_const sameLease_def)
  moreover have "distinct (map le_id (tn_leases s'))"
    using viewInvD(8) [OF v] l1(1) keys_modify_const [of le_id l1 "le_id l" "tn_leases s"]
    by (simp add: frame m(3) leases sameLease_def)
  ultimately have "l' = l1"
    using l' find_Some_iff_find_by [of le_id i "\<lambda>l. le_orgId l = org" "tn_leases s'" l']
    by (simp add: findContractOrThrow_def findLeaseById_def)
  moreover have "r\<lparr> mv_status := MV_COMPLETED \<rparr> \<in> set (tn_moveIns s')"
    using approvedRequest_Some(1) [OF r] by (auto simp: frame(2) s3' frame(4) modify_by_def)
  moreover have "mayExecuteMoveIn s u (le_buildingId l)"
    using may org by (auto simp: assertAssignedMoveManagementAccess_def mayExecuteMoveIn_def MOVE_IN_EXECUTE_PERMISSION_def
        requireUserId_def split: if_splits)
  moreover have "\<exists>oc \<in> set (occupancies (core s')). oc_id oc = ?c \<and> oc_unitId oc = le_unitId l
      \<and> oc_residentUserId oc = the (le_residentUserId l) \<and> oc_status oc = OC_ACTIVE \<and> oc_startAt oc = now"
    using row(2) ids by (simp add: frame m(3) setLeases_def setOccupancies_def newOccupancy_def)
  moreover have "le_occupancyId l = None" using occupied_truthy [OF v lf(1)] l(3) by (cases "le_occupancyId l") auto
  moreover have "le_residentUserId l = Some (the (le_residentUserId l))" using l(4) by (auto elim: truthyE)
  ultimately show ?thesis
    using lf l(2) org vacant approvedRequest_Some [OF r] l1 by (intro exI [of _ l] exI [of _ r] exI [of _ "the (le_residentUserId l)"]) simp
qed

definition fx_request :: move_request where
  "fx_request =
     \<lparr> mv_id = ''m1'', mv_orgId = ''o1'', mv_buildingId = ''b1'', mv_unitId = ''n1'', mv_leaseId = ''l1'', mv_residentUserId = ''res'',
       mv_status = MV_APPROVED, mv_requestedMoveAt = 150, mv_notes = None, mv_reviewedByUserId = Some ''mgr'',
       mv_reviewedAt = Some 120, mv_rejectionReason = None, mv_createdAt = 110 \<rparr>"

definition fx_approved :: tenancy where
  "fx_approved = fx_tenancy\<lparr> tn_leases := [(fx_lease ''l1'')\<lparr> le_status := LE_ACTIVE \<rparr>], tn_moveIns := [fx_request] \<rparr>"

lemma fx_approved_inv: "tenancyInv fx_approved"
  by (simp add: tenancyInv_def viewInv_def viewOf_def core_def fx_approved_def fx_tenancy_def fx_core_def fx0_def occupancyInv_def
      leaseInv_def requestInv_def slotInv_def allocationInv_def uniqueBy_def leaseOccupied_def inOrg_def fx_lease_def fx_slot_def
      hasOccupancy_def fx_request_def)

theorem move_in_needs_approval_witness:
  "\<exists>l' s'. executeApprovedMoveIn fx_approved 200 (\<lambda>t n. ''c'') (fx_user ''mgr'') ''l1'' = Inr (l', s')
    \<and> le_occupancyId l' = Some ''c'' \<and> fx_request\<lparr> mv_status := MV_COMPLETED \<rparr> \<in> set (tn_moveIns s')"
proof -
  have "map_sum id (\<lambda>_. ()) (executeApprovedMoveIn fx_approved 200 (\<lambda>t n. ''c'') (fx_user ''mgr'') ''l1'') = Inr ()"
    by code_simp
  then obtain l' s' where run: "executeApprovedMoveIn fx_approved 200 (\<lambda>t n. ''c'') (fx_user ''mgr'') ''l1'' = Inr (l', s')"
    by auto
  from move_in_needs_approval [OF fx_approved_inv run] obtain r where "le_occupancyId l' = Some ''c''" "r \<in> set (tn_moveIns fx_approved)"
      "r\<lparr> mv_status := MV_COMPLETED \<rparr> \<in> set (tn_moveIns s')" by auto
  then have "le_occupancyId l' = Some ''c'' \<and> fx_request\<lparr> mv_status := MV_COMPLETED \<rparr> \<in> set (tn_moveIns s')"
    by (simp add: fx_approved_def)
  with run show ?thesis by blast
qed

section \<open>The record of changes\<close>

definition replay :: "change list \<Rightarrow> (string \<times> json) list \<Rightarrow> (string \<times> json) list" where
  "replay cs cols = map (\<lambda>(f, v). (f, case map_of cs f of None \<Rightarrow> v | Some (from, to) \<Rightarrow> to)) cols"

definition undo :: "change list \<Rightarrow> (string \<times> json) list \<Rightarrow> (string \<times> json) list" where
  "undo cs cols = map (\<lambda>(f, v). (f, case map_of cs f of None \<Rightarrow> v | Some (from, to) \<Rightarrow> from)) cols"

lemma map_of_map_filter_keys:
  assumes "distinct fs"
  shows "map_of (List.map_filter (\<lambda>f. if P f then Some (f, g f) else None) fs) k = (if k \<in> set fs \<and> P k then Some (g k) else None)"
  using assms by (induction fs) (auto simp: List.map_filter_simps)

lemma map_of_changes:
  assumes "distinct (map fst a)" and "map fst a = leaseTrackedFields" and "map fst b = leaseTrackedFields"
  shows "map_of (buildLeaseChangeSet a b) f
    = (if f \<in> set leaseTrackedFields \<and> nullish (map_of a f) JNull \<noteq> nullish (map_of b f) JNull
       then Some (nullish (map_of a f) JNull, nullish (map_of b f) JNull) else None)"
proof -
  have "distinct leaseTrackedFields" using assms(1,2) by simp
  from map_of_map_filter_keys [OF this, of "\<lambda>f. nullish (map_of a f) JNull \<noteq> nullish (map_of b f) JNull"
      "\<lambda>f. (nullish (map_of a f) JNull, nullish (map_of b f) JNull)" f]
  show ?thesis unfolding buildLeaseChangeSet_def Let_def by simp
qed

lemma nullish_map_of: "distinct (map fst a) \<Longrightarrow> (f, v) \<in> set a \<Longrightarrow> nullish (map_of a f) x = v"
  by (simp add: nullish_def map_of_is_SomeI)

lemma replay_changes:
  assumes dis: "distinct (map fst a)" and a: "map fst a = leaseTrackedFields" and b: "map fst b = leaseTrackedFields"
  shows "replay (buildLeaseChangeSet a b) a = b" and "undo (buildLeaseChangeSet a b) b = a"
proof -
  have disb: "distinct (map fst b)" using dis a b by simp
  have len: "length a = length b" using arg_cong [OF a, of length] arg_cong [OF b, of length] by simp
  have key: "fst (a ! j) = fst (b ! j)" if "j < length b" for j
    using that len a b by (metis nth_map)
  have val: "nullish (map_of a (fst (b ! j))) JNull = snd (a ! j)" "nullish (map_of b (fst (b ! j))) JNull = snd (b ! j)"
    "fst (b ! j) \<in> set leaseTrackedFields" if "j < length b" for j
  proof -
    show "nullish (map_of a (fst (b ! j))) JNull = snd (a ! j)"
      unfolding key [OF that, symmetric] using that len by (intro nullish_map_of [OF dis]) simp
    show "nullish (map_of b (fst (b ! j))) JNull = snd (b ! j)" using that by (intro nullish_map_of [OF disb]) simp
    show "fst (b ! j) \<in> set leaseTrackedFields" using that by (simp flip: b)
  qed
  show "replay (buildLeaseChangeSet a b) a = b" "undo (buildLeaseChangeSet a b) b = a"
    by (rule nth_equalityI; auto simp: replay_def undo_def len case_prod_beta map_of_changes [OF dis a b] val key prod_eq_iff
        split: if_splits option.splits)+
qed

lemma trackedColumns_fields: "map fst (trackedColumns l) = leaseTrackedFields"
  by (simp add: trackedColumns_def leaseTrackedFields_def contractValues_def termsValues_def moveoutValues_def)

lemma trackedColumns_distinct: "distinct (map fst (trackedColumns l))"
  unfolding trackedColumns_fields by code_simp

text \<open>What a call wrote into the history of a lease leads from the columns it had to the columns it has, and back.\<close>

definition changesRecorded :: "tenancy \<Rightarrow> string \<Rightarrow> lease_row \<Rightarrow> tenancy \<Rightarrow> bool" where
  "changesRecorded s i l' s' \<longleftrightarrow>
     (\<exists>l hs. find_by le_id i (tn_leases s) = Some l \<and> tn_history s' = tn_history s @ hs \<and> length hs \<le> 1
        \<and> (\<forall>h \<in> set hs. lh_leaseId h = i \<and> lh_changes h \<noteq> [])
        \<and> replay (concat (map lh_changes hs)) (trackedColumns l) = trackedColumns l'
        \<and> undo (concat (map lh_changes hs)) (trackedColumns l') = trackedColumns l)"

lemma changesRecordedI:
  assumes "find_by le_id i (tn_leases s) = Some l" and "le_id l' = i" and "tn_history s1 = tn_history s"
    and "tn_history s' = tn_history (recordChanges s1 now h org act b l l')"
  shows "changesRecorded s i l' s'"
proof -
  let ?cs = "buildLeaseChangeSet (trackedColumns l) (trackedColumns l')"
  note rp = replay_changes [OF trackedColumns_distinct trackedColumns_fields trackedColumns_fields, of l l']
  show ?thesis
  proof (cases "?cs = []")
    case True
    with assms rp show ?thesis
      unfolding changesRecorded_def by (intro exI [of _ l] exI [of _ "[]"]) (simp add: recordChanges_def)
  next
    case False
    let ?h = "\<lparr> lh_id = h, lh_orgId = org, lh_leaseId = i, lh_action = act, lh_changedByUserId = b, lh_changes = ?cs, lh_createdAt = now \<rparr>"
    from False assms rp show ?thesis
      unfolding changesRecorded_def
      by (intro exI [of _ l] exI [of _ "[?h]"]) (simp add: recordChanges_def createHistory_def)
  qed
qed

lemma updateLeaseRow_history:
  assumes "updateLeaseRow s i f = Inr (l', s')" and "\<And>l. sameTenancy l (f l)"
  shows "tn_history s' = tn_history s" and "le_id l' = i"
proof -
  from assms(1) obtain l where l: "find_by le_id i (tn_leases s) = Some l" "leaseColumns (f l) = Inr l'"
      "s' = setLeases (modify_by le_id i (\<lambda>_. l') (tn_leases s)) s"
    by (rule updateLeaseRow_Inr)
  then show "tn_history s' = tn_history s" by (simp add: setLeases_def setOccupancies_def setCore_def)
  have "le_id l = i" using l(1) by (auto dest: find_by_SomeD)
  with leaseColumns_same [OF l(2)] assms(2) [of l] show "le_id l' = i" by (simp add: sameTenancy_def sameLease_def)
qed

lemma updateLease_recorded:
  assumes inv: "tenancyInv s" and run: "updateLease dec s now h u i d = Inr (l', s')"
  shows "changesRecorded s i l' s'"
proof -
  from run obtain org l f s1 where l: "findLeaseById s org i = Some l"
      and s1: "updateLeaseRow s i (\<lambda>x. x\<lparr> le_terms := f (le_terms x) \<rparr>) = Inr (l', s1)"
      and s': "s' = recordChanges s1 now h org LH_UPDATED (user_sub u) l l'"
    by (auto simp: updateLease_def updateLeaseForOrg_def findLeaseOrThrow_def split: option.splits)
  have "sameTenancy x (x\<lparr> le_terms := f (le_terms x) \<rparr>)" for x by (simp add: sameTenancy_def sameLease_def)
  note h = updateLeaseRow_history [OF s1 this]
  from findLeaseById_Some(1) [OF _ l] inv have "find_by le_id i (tn_leases s) = Some l" by (simp add: tenancyInv_def)
  from changesRecordedI [OF this h(2,1)] s' show ?thesis by blast
qed

lemma updateContract_recorded:
  assumes inv: "tenancyInv s" and run: "updateContract dec s now ids u i d = Inr (l', s')"
  shows "changesRecorded s i l' s'"
proof -
  have v: "viewInv (viewOf s)" using inv by (simp add: tenancyInv_def)
  from run obtain org l f l1 s1 where l: "findContractOrThrow s org i = Inr l"
      and f: "contractData dec d = Inr f" and s1: "updateLeaseRow s i f = Inr (l1, s1)"
      and s': "s' = recordChanges s1 now (ids ''LeaseHistory'' 0) org LH_UPDATED (user_sub u) l l1"
      and l': "findContractOrThrow s' org (le_id l1) = Inr l'"
    by (auto simp: updateContract_def Let_def)
  have same: "sameTenancy x (f x)" for x using contractData_same [OF f] by simp
  note h = updateLeaseRow_history [OF s1 same]
  have "tsteps s s'" by (rule updateContract_steps [OF run])
  then have "viewInv (viewOf s')" using tsteps_inv v by blast
  from findContract_Inr(1) [OF this l'] h(2) have "find_by le_id i (tn_leases s') = Some l'" by simp
  moreover have "find_by le_id i (tn_leases s') = Some l1"
  proof -
    from s1 obtain m where m: "find_by le_id i (tn_leases s) = Some m" "s1 = setLeases (modify_by le_id i (\<lambda>_. l1) (tn_leases s)) s"
      by (rule updateLeaseRow_Inr)
    have "tn_leases s' = tn_leases s1" using viewOf_recordChanges view_eqD(1) unfolding s' by blast
    with m find_by_modify_const [OF m(1) h(2)] show ?thesis by simp
  qed
  ultimately have "l' = l1" by simp
  with changesRecordedI [OF findContract_Inr(1) [OF v l] h(2,1)] s' show ?thesis by blast
qed

lemma moveOut_parts:
  assumes inv: "tenancyInv s" and run: "moveOut dec s now ids u bldg i d = Inr (l', s')"
  obtains l org x s4 s5 where "find_by le_id i (tn_leases s) = Some l" and "moveOutColumns dec l d = Inr x"
    and "tn_leases s4 = tn_leases s" and "tn_history s4 = tn_history s"
    and "updateLeaseRow s4 i (\<lambda>m. m\<lparr> le_status := LE_ENDED, le_out := x \<rparr>) = Inr (l', s5)"
    and "tn_history s' = tn_history (recordChanges s5 now (ids ''LeaseHistory'' 0) org LH_MOVED_OUT (user_sub u) l l')"
proof -
  from run obtain org l where l: "List.find (\<lambda>l. le_id l = i \<and> le_orgId l = org \<and> le_buildingId l = bldg) (tn_leases s) = Some l"
      and tr: "moveOutTransaction dec s now ids u org l (the (le_occupancyId l)) d = Inr (l', s')"
    by (auto simp: moveOut_def)
  have fnd: "find_by le_id i (tn_leases s) = Some l" by (rule find_lease [OF _ l]) (use inv in \<open>simp_all add: tenancyInv_def\<close>)
  then have li: "le_id l = i" by (auto dest: find_by_SomeD)
  have hist: "tn_history (returnItems k now j x) = tn_history x" "tn_history (endAllocations P e x) = tn_history x"
    "tn_history (endOccupancy c e x) = tn_history x" for k j x P e c
    by (simp_all add: returnItems_def endAllocations_def endOccupancy_def setOccupancies_def setCore_def, cases k, simp_all)
  let ?s2 = "(if mo_markAllAccessCardsReturned d \<noteq> Some False then returnItems ACCESS_CARD now (le_id l) s else s)"
  let ?s3 = "(if mo_markAllParkingStickersReturned d \<noteq> Some False then returnItems PARKING_STICKER now (le_id l) ?s2 else ?s2)"
  let ?s4 = "endOccupancy (the (le_occupancyId l)) (mo_actualMoveOutDate d)
    (endAllocations (ofOccupancy org (the (le_occupancyId l))) (mo_actualMoveOutDate d) ?s3)"
  have s4: "tn_leases ?s4 = tn_leases s" "tn_history ?s4 = tn_history s" by (simp_all add: hist)
  from tr obtain x s5 where x: "moveOutColumns dec l d = Inr x"
      and s5: "updateLeaseRow ?s4 (le_id l) (\<lambda>m. m\<lparr> le_status := LE_ENDED, le_out := x \<rparr>) = Inr (l', s5)"
      and s': "tn_history s' = tn_history (recordChanges s5 now (ids ''LeaseHistory'' 0) org LH_MOVED_OUT (user_sub u) l l')"
    by (auto simp: moveOutTransaction_def Let_def createActivity_def)
  show ?thesis by (rule that [OF fnd x s4 _ s']) (use s5 li in simp)
qed

lemma moveOut_recorded:
  assumes inv: "tenancyInv s" and run: "moveOut dec s now ids u bldg i d = Inr (l', s')"
  shows "changesRecorded s i l' s'"
proof -
  obtain l org x s4 s5 where fnd: "find_by le_id i (tn_leases s) = Some l" and s4: "tn_history s4 = tn_history s"
      and s5: "updateLeaseRow s4 i (\<lambda>m. m\<lparr> le_status := LE_ENDED, le_out := x \<rparr>) = Inr (l', s5)"
      and s': "tn_history s' = tn_history (recordChanges s5 now (ids ''LeaseHistory'' 0) org LH_MOVED_OUT (user_sub u) l l')"
    by (rule moveOut_parts [OF inv run])
  have "sameTenancy m (m\<lparr> le_status := LE_ENDED, le_out := x \<rparr>)" for m by (simp add: sameTenancy_def sameLease_def)
  note h = updateLeaseRow_history [OF s5 this]
  show ?thesis by (rule changesRecordedI [OF fnd h(2) _ s']) (use h s4 in simp)
qed

text \<open>
  C21. An edit of a lease, an edit of a contract and a move-out each write at most one row of history, only when a
  tracked column changed; the changes in that row turn the columns the lease had into the columns it has, and undoing
  them gives the old columns back. The history loses nothing of such a call.
\<close>

theorem history_replays:
  assumes "tenancyInv s"
  shows "(updateLease dec s now h u i d = Inr (l1, s1) \<longrightarrow> changesRecorded s i l1 s1)
    \<and> (updateContract dec s now ids u i e = Inr (l2, s2) \<longrightarrow> changesRecorded s i l2 s2)
    \<and> (moveOut dec s now ids u bldg i o' = Inr (l3, s3) \<longrightarrow> changesRecorded s i l3 s3)"
  by (intro conjI impI)
    (erule updateLease_recorded [OF assms] updateContract_recorded [OF assms] moveOut_recorded [OF assms])+

theorem history_replays_witness:
  "\<exists>l' s'. updateLease (te_dec fx_tenv) fx_tenancy 50 ''h'' (fx_user ''mgr'') ''l1'' (no_update\<lparr> lu_notes := Some (Some ''loud'') \<rparr>) = Inr (l', s')
     \<and> lt_notes (le_terms l') = Some ''loud'' \<and> changesRecorded fx_tenancy ''l1'' l' s'"
proof -
  let ?run = "updateLease (te_dec fx_tenv) fx_tenancy 50 ''h'' (fx_user ''mgr'') ''l1'' (no_update\<lparr> lu_notes := Some (Some ''loud'') \<rparr>)"
  let ?d = "no_update\<lparr> lu_notes := Some (Some ''loud'') \<rparr>" and ?f = "\<lambda>x. x\<lparr> lt_notes := Some ''loud'' \<rparr>"
  have l: "findLeaseOrThrow fx_tenancy (fx_user ''mgr'') ''l1'' = Inr (''o1'', fx_lease ''l1'')" by code_simp
  have f: "buildUpdateData dec ?d = Inr ?f" for dec
    by (simp add: buildUpdateData_def sent_def no_update_def nullish_def)
  have "map_sum id (map_option (\<lambda>(l, s). lt_notes (le_terms l)))
      (updateLeaseForOrg fx_tenancy ''o1'' ''l1'' (\<lambda>x. x\<lparr> le_terms := ?f (le_terms x) \<rparr>)) = Inr (Some (Some ''loud''))"
    by code_simp
  then obtain l' s1 where up: "updateLeaseForOrg fx_tenancy ''o1'' ''l1'' (\<lambda>x. x\<lparr> le_terms := ?f (le_terms x) \<rparr>) = Inr (Some (l', s1))"
      and n: "lt_notes (le_terms l') = Some ''loud''" by auto
  have "?d \<noteq> no_update" by (simp add: no_update_def)
  moreover have "\<not> nullish (lu_leaseEndDate ?d) (lt_leaseEndDate (le_terms (fx_lease ''l1'')))
      \<le> nullish (lu_leaseStartDate ?d) (lt_leaseStartDate (le_terms (fx_lease ''l1'')))"
    by (simp add: no_update_def nullish_def fx_lease_def fx_terms_def)
  ultimately obtain s' where run: "?run = Inr (l', s')" by (simp add: updateLease_def l f up)
  with n history_replays [OF fx_tenancy_inv] show ?thesis by blast
qed

section \<open>The refund\<close>

lemma decimalColumn_Inr:
  assumes "decimalColumn x = Inr y"
  shows "0 \<le> x \<Longrightarrow> 0 \<le> y" and "\<bar>y - x\<bar> \<le> 1 / 200"
proof -
  let ?c = "if x \<ge> 0 then \<lfloor>x * 100 + 1 / 2\<rfloor> else - \<lfloor>- x * 100 + 1 / 2\<rfloor>"
  from assms have y: "y = of_int ?c / 100" by (auto simp: decimalColumn_def Let_def split: if_splits)
  show "0 \<le> y" if "0 \<le> x" using that by (simp add: y)
  have near: "\<bar>of_int \<lfloor>z * 100 + 1 / 2\<rfloor> / 100 - z\<bar> \<le> 1 / 200" for z :: rat
    using floor_correct [of "z * 100 + 1 / 2"] by (intro abs_leI) linarith+
  show "\<bar>y - x\<bar> \<le> 1 / 200"
    using near [of x] near [of "- x"] by (auto simp: y abs_minus_commute add.commute split: if_splits)
qed

lemma decimalColumn_mono:
  assumes "decimalColumn x = Inr y" and "decimalColumn x' = Inr y'" and "0 \<le> x" and "x \<le> x'"
  shows "y \<le> y'"
proof -
  have "\<lfloor>x * 100 + 1 / 2\<rfloor> \<le> \<lfloor>x' * 100 + 1 / 2\<rfloor>" using assms(4) by (intro floor_mono) simp
  with assms show ?thesis by (auto simp: decimalColumn_def Let_def divide_right_mono split: if_splits)
qed

lemma moveOut_columns:
  assumes "tenancyInv s" and "moveOut dec s now ids u bldg i d = Inr (l', s')"
  obtains l x where "find_by le_id i (tn_leases s) = Some l" and "moveOutColumns dec l d = Inr x"
    and "leaseColumns (l\<lparr> le_status := LE_ENDED, le_out := x \<rparr>) = Inr l'"
proof -
  obtain l x s4 s5 where l: "find_by le_id i (tn_leases s) = Some l" and x: "moveOutColumns dec l d = Inr x"
      and s4: "tn_leases s4 = tn_leases s"
      and s5: "updateLeaseRow s4 i (\<lambda>m. m\<lparr> le_status := LE_ENDED, le_out := x \<rparr>) = Inr (l', s5)"
    by (rule moveOut_parts [OF assms])
  from s5 obtain m where "find_by le_id i (tn_leases s4) = Some m" "leaseColumns (m\<lparr> le_status := LE_ENDED, le_out := x \<rparr>) = Inr l'"
    by (rule updateLeaseRow_Inr)
  with that [OF l x] l s4 show ?thesis by simp
qed

text \<open>
  C25. When a move-out does not name the refund, the refund that is stored is the deposit less the deductions, never
  below zero, rounded to the nearest hundredth; and when neither the deductions nor the deposit are negative it is at
  most the deposit. (The service accepts negative deductions, which raise the refund above the deposit.)
\<close>

theorem refund_within_deposit:
  assumes inv: "tenancyInv s" and run: "moveOut dec s now ids u bldg i d = Inr (l', s')" and given: "mo_netRefund d = None"
  shows "\<exists>l deductions refund. find_by le_id i (tn_leases s) = Some l \<and> deductionsOf dec l d = Inr deductions
    \<and> lx_netRefund (le_out l') = Some refund \<and> 0 \<le> refund
    \<and> \<bar>refund - max 0 (lt_securityDepositAmount (le_terms l) - deductions)\<bar> \<le> 1 / 200
    \<and> (0 \<le> deductions \<longrightarrow> 0 \<le> lt_securityDepositAmount (le_terms l) \<longrightarrow> refund \<le> lt_securityDepositAmount (le_terms l'))"
proof -
  from moveOut_columns [OF inv run] obtain l x where l: "find_by le_id i (tn_leases s) = Some l" "moveOutColumns dec l d = Inr x"
      "leaseColumns (l\<lparr> le_status := LE_ENDED, le_out := x \<rparr>) = Inr l'" .
  let ?net = "\<lambda>k. max 0 (lt_securityDepositAmount (le_terms l) - k)"
  from l(2) given obtain k where k: "deductionsOf dec l d = Inr k" "lx_netRefund x = Some (?net k)"
    by (auto simp: moveOutColumns_def refundOf_def)
  from l(3) k(2) obtain y where y: "lx_netRefund (le_out l') = Some y" "decimalColumn (?net k) = Inr y"
      and dep: "decimalColumn (lt_securityDepositAmount (le_terms l)) = Inr (lt_securityDepositAmount (le_terms l'))"
    by (auto simp: leaseColumns_def moveoutColumns_def termsColumns_def inColumn_def)
  have "0 \<le> k \<longrightarrow> 0 \<le> lt_securityDepositAmount (le_terms l) \<longrightarrow> y \<le> lt_securityDepositAmount (le_terms l')"
    using decimalColumn_mono [OF y(2) dep] by auto
  with l(1) k(1) y(1) decimalColumn_Inr [OF y(2)] show ?thesis
    by (intro exI [of _ l] exI [of _ k] exI [of _ y]) simp
qed

definition fx_moved :: tenancy where
  "fx_moved = fx_tenancy\<lparr>
     tn_delivery := (tn_delivery fx_tenancy)\<lparr> dl_core := fx_core\<lparr> occupancies := [fx_occupancy] \<rparr> \<rparr>,
     tn_leases := [(fx_lease ''l1'')\<lparr> le_status := LE_ACTIVE, le_occupancyId := Some ''c1'' \<rparr>] \<rparr>"

lemma fx_moved_inv: "tenancyInv fx_moved"
  by (simp add: tenancyInv_def viewInv_def viewOf_def core_def fx_moved_def fx_tenancy_def fx_core_def fx0_def occupancyInv_def
      leaseInv_def requestInv_def slotInv_def allocationInv_def uniqueBy_def leaseOccupied_def inOrg_def fx_lease_def fx_slot_def
      hasOccupancy_def fx_occupancy_def occupancyConsistent_def bare_def)

theorem refund_within_deposit_witness:
  "\<exists>l' s'. moveOut (te_dec fx_tenv) fx_moved 300 (\<lambda>t n. ''x'') (fx_user ''mgr'') ''b1'' ''l1''
      ((onlyDate 300)\<lparr> mo_totalDeductions := Some ''500'' \<rparr>) = Inr (l', s')
    \<and> (\<exists>r. lx_netRefund (le_out l') = Some r \<and> 0 \<le> r \<and> \<bar>r - 2500\<bar> \<le> 1 / 200)"
proof -
  let ?d = "(onlyDate 300)\<lparr> mo_totalDeductions := Some ''500'' \<rparr>" and ?l = "(fx_lease ''l1'')\<lparr> le_status := LE_ACTIVE, le_occupancyId := Some ''c1'' \<rparr>"
  let ?x = "no_moveout\<lparr> lx_actualMoveOutDate := Some 300, lx_totalDeductions := Some 500, lx_netRefund := Some 2500 \<rparr>"
  let ?s4 = "endOccupancy ''c1'' 300 (endAllocations (ofOccupancy ''o1'' ''c1'') 300
    (returnItems PARKING_STICKER 300 ''l1'' (returnItems ACCESS_CARD 300 ''l1'' fx_moved)))"
  have org: "orgBuilding (core fx_moved) (fx_user ''mgr'') ''b1'' = Inr ''o1''" by code_simp
  have l: "tn_leases fx_moved = [?l]" by (simp add: fx_moved_def)
  have x: "moveOutColumns (te_dec fx_tenv) ?l ?d = Inr ?x" by code_simp
  have "map_sum id (\<lambda>_. ()) (updateLeaseRow ?s4 ''l1'' (\<lambda>m. m\<lparr> le_status := LE_ENDED, le_out := ?x \<rparr>)) = Inr ()"
    by code_simp
  then obtain l' s5 where s5: "updateLeaseRow ?s4 ''l1'' (\<lambda>m. m\<lparr> le_status := LE_ENDED, le_out := ?x \<rparr>) = Inr (l', s5)" by auto
  have "\<exists>s'. moveOutTransaction (te_dec fx_tenv) fx_moved 300 (\<lambda>t n. ''x'') (fx_user ''mgr'') ''o1'' ?l ''c1'' ?d = Inr (l', s')"
    using x s5 by (simp add: moveOutTransaction_def Let_def onlyDate_def fx_lease_def)
  then obtain s' where run: "moveOut (te_dec fx_tenv) fx_moved 300 (\<lambda>t n. ''x'') (fx_user ''mgr'') ''b1'' ''l1'' ?d = Inr (l', s')"
    by (auto simp: moveOut_def org l fx_lease_def truthy_def)
  have "deductionsOf (te_dec fx_tenv) ?l ?d = Inr 500" by code_simp
  moreover have "lt_securityDepositAmount (le_terms ?l) = 3000" by (simp add: fx_lease_def fx_terms_def)
  moreover have "find_by le_id ''l1'' (tn_leases fx_moved) = Some ?l" by (simp add: l fx_lease_def)
  ultimately show ?thesis
    using refund_within_deposit [OF fx_moved_inv run] run by (auto simp: onlyDate_def)
qed

section \<open>Two active contracts of a unit\<close>

definition clashes :: "string \<Rightarrow> lease_row \<Rightarrow> lease_row list \<Rightarrow> bool" where
  "clashes i l ls \<longleftrightarrow> (\<exists>m \<in> set ls. le_id m \<noteq> i \<and> (sameIjari l m \<or> le_occupancyId l \<noteq> None \<and> le_occupancyId m = le_occupancyId l))"

lemma setLeaseStatus_run:
  assumes "find_by le_id i (tn_leases s) = Some l"
  shows "setLeaseStatus s i st =
     andThen (leaseColumns (l\<lparr> le_status := st \<rparr>)) (\<lambda>l'.
     if list_ex (\<lambda>m. le_id m \<noteq> i \<and> sameIjari l' m) (tn_leases s) then Inl UniqueViolation
     else if clashes i l' (tn_leases s) then Inl (ConstraintViolation ''occupancyId'')
     else Inr (setLeases (modify_by le_id i (\<lambda>_. l') (tn_leases s)) s))"
  using assms by (cases "leaseColumns (l\<lparr> le_status := st \<rparr>)") (auto simp: setLeaseStatus_def updateLeaseRow_def clashes_def list_ex_iff)

lemma no_clash_ijari: "\<not> clashes i l ls \<Longrightarrow> \<not> list_ex (\<lambda>m. le_id m \<noteq> i \<and> sameIjari l m) ls"
  by (auto simp: clashes_def list_ex_iff)

lemma setLeases_leases [simp]: "tn_leases (setLeases ls s) = ls"
  by (simp add: setLeases_def setOccupancies_def)

lemma find_contract: "find_by le_id i (tn_leases s) = Some l \<Longrightarrow> findContractOrThrow s (le_orgId l) i = Inr l"
proof -
  have "find_by le_id i ls = Some l \<Longrightarrow> List.find (\<lambda>x. le_id x = i \<and> le_orgId x = le_orgId l) ls = Some l" for ls
    by (induction ls) (auto split: if_splits)
  then show "find_by le_id i (tn_leases s) = Some l \<Longrightarrow> findContractOrThrow s (le_orgId l) i = Inr l"
    by (simp add: findContractOrThrow_def findLeaseById_def)
qed

lemma stored_lease:
  assumes "leaseColumns (l\<lparr> le_status := st \<rparr>) = Inr l'"
  shows "le_id l' = le_id l" and "le_orgId l' = le_orgId l" and "le_unitId l' = le_unitId l" and "le_status l' = st"
    and "le_occupancyId l' = le_occupancyId l" and "lc_ijariId (le_contract l') = lc_ijariId (le_contract l)"
  using assms by (auto simp: leaseColumns_def contractColumns_def)

lemma modify_found:
  assumes "distinct (map key rows)" and "find_by key i rows = Some r"
  shows "modify_by key i (\<lambda>_. r) rows = rows"
  using modify_by_const [OF assms, of "\<lambda>x. x"] by (simp add: modify_by_def)

lemma found_modified:
  assumes "find_by key i rows = Some r" and "key r' = i"
  shows "find_by key i (modify_by key i (\<lambda>_. r') rows) = Some r'"
  using assms by (induction rows) (auto simp: modify_by_def split: if_splits)

lemma found_unmodified:
  assumes "key r' = i" and "k \<noteq> i"
  shows "find_by key k (modify_by key i (\<lambda>_. r') rows) = find_by key k rows"
  using assms by (induction rows) (auto simp: modify_by_def)

text \<open>What an activation needs and leaves.\<close>

definition activates :: "tenancy \<Rightarrow> principal \<Rightarrow> string \<Rightarrow> lease_row \<Rightarrow> lease_row \<Rightarrow> bool" where
  "activates s u i l l' \<longleftrightarrow> find_by le_id i (tn_leases s) = Some l \<and> assertOrgScope u = Inr (le_orgId l) \<and> le_status l \<noteq> LE_ENDED
     \<and> (if le_status l = LE_ACTIVE then l' = l
        else leaseColumns (l\<lparr> le_status := LE_ACTIVE \<rparr>) = Inr l' \<and> \<not> clashes i l' (tn_leases s))"

lemma activates_row:
  assumes "activates s u i l l'"
  shows "le_id l' = i" and "le_orgId l' = le_orgId l" and "le_unitId l' = le_unitId l" and "le_status l' = LE_ACTIVE"
    and "le_occupancyId l' = le_occupancyId l" and "lc_ijariId (le_contract l') = lc_ijariId (le_contract l)"
proof -
  have "le_id l = i" using assms by (auto simp: activates_def dest: find_by_SomeD)
  then show "le_id l' = i" and "le_orgId l' = le_orgId l" and "le_unitId l' = le_unitId l" and "le_status l' = LE_ACTIVE"
    and "le_occupancyId l' = le_occupancyId l" and "lc_ijariId (le_contract l') = lc_ijariId (le_contract l)"
    using assms stored_lease [where l = l and st = LE_ACTIVE and l' = l'] by (simp_all add: activates_def split: if_splits)
qed

lemma activate_run:
  assumes inv: "tenancyInv s" and run: "activateContract s now ids u i = Inr (x, s')"
  obtains l l' where "activates s u i l l'" and "tn_leases s' = modify_by le_id i (\<lambda>_. l') (tn_leases s)"
proof -
  from run obtain org l where org: "assertOrgScope u = Inr org" and f: "findContractOrThrow s org i = Inr l"
    and st: "le_status l \<noteq> LE_ENDED"
    and rest: "if le_status l = LE_ACTIVE then s' = s
      else \<exists>s1. setLeaseStatus s (le_id l) LE_ACTIVE = Inr s1 \<and> tn_leases s' = tn_leases s1"
    by (auto simp: activateContract_def createActivity_def Let_def split: if_splits)
  note l = findContract_Inr [OF inv [unfolded tenancyInv_def] f]
  show thesis
  proof (cases "le_status l = LE_ACTIVE")
    case True
    have "distinct (map le_id (tn_leases s))"
      using inv by (simp add: tenancyInv_def viewInv_def viewOf_def leaseInv_def)
    from modify_found [OF this l(1)] True rest that [of l l] show thesis
      using l org st by (simp add: activates_def)
  next
    case False
    with rest obtain s1 where s1: "setLeaseStatus s i LE_ACTIVE = Inr s1" "tn_leases s' = tn_leases s1"
      using l(2) by auto
    from s1(1) l(1) obtain l' where "leaseColumns (l\<lparr> le_status := LE_ACTIVE \<rparr>) = Inr l'" "\<not> clashes i l' (tn_leases s)"
      "tn_leases s1 = modify_by le_id i (\<lambda>_. l') (tn_leases s)"
      unfolding setLeaseStatus_run [OF l(1)] by (auto split: if_splits)
    with that [of l l'] s1(2) False l org st show thesis by (simp add: activates_def)
  qed
qed

lemma activate_succeeds:
  assumes "activates s u i l l'"
  shows "\<exists>x s'. activateContract s now ids u i = Inr (x, s')"
proof (cases "le_status l = LE_ACTIVE")
  case True
  with assms find_contract [of i s l] show ?thesis by (simp add: activateContract_def activates_def)
next
  case False
  let ?s1 = "setLeases (modify_by le_id i (\<lambda>_. l') (tn_leases s)) s"
  have f: "find_by le_id i (tn_leases s) = Some l" and org: "assertOrgScope u = Inr (le_orgId l)" and id: "le_id l = i"
    and e: "le_status l \<noteq> LE_ENDED"
    using assms by (auto simp: activates_def dest: find_by_SomeD)
  have s1: "setLeaseStatus s i LE_ACTIVE = Inr ?s1" using assms False no_clash_ijari [of i l' "tn_leases s"] by (simp add: setLeaseStatus_run [OF f] activates_def)
  have "find_by le_id i (modify_by le_id i (\<lambda>_. l') (tn_leases s)) = Some l'"
    by (rule found_modified [OF f activates_row(1) [OF assms]])
  from find_contract [of i "createActivity ?s1 now k org' i ac cb pl" l' for k org' ac cb pl] this activates_row(2) [OF assms]
  have "findContractOrThrow (createActivity ?s1 now k org' i ac cb pl) (le_orgId l) i = Inr l'" for k org' ac cb pl
    by (simp add: createActivity_def)
  with find_contract [OF f] org False e s1 id show ?thesis by (simp add: activateContract_def Let_def)
qed

lemma activate_inv:
  assumes "tenancyInv s" and "activateContract s now ids u i = Inr (x, s')"
  shows "tenancyInv s'"
  using activateContract_steps [of s now ids u i x s'] tsteps_inv assms unfolding tenancyInv_def by blast

text \<open>One activation leaves what the other one needs.\<close>

lemma activates_after:
  assumes a: "activates s u i a a'" and s1: "tn_leases s1 = modify_by le_id i (\<lambda>_. a') (tn_leases s)"
    and b: "activates s u' j b b'" and "i \<noteq> j"
  shows "activates s1 u' j b b'"
proof -
  note ra = activates_row [OF a]
  have a0: "a \<in> set (tn_leases s)" "le_id a = i" using a by (auto simp: activates_def dest: find_by_SomeD)
  have "find_by le_id j (tn_leases s1) = Some b"
    using b \<open>i \<noteq> j\<close> found_unmodified [of le_id a' i j "tn_leases s"] ra(1) by (simp add: s1 activates_def)
  moreover have "\<not> clashes j b' (tn_leases s1)" if "\<not> clashes j b' (tn_leases s)"
    using that a0 ra \<open>i \<noteq> j\<close> by (fastforce simp: clashes_def s1 modify_by_def sameIjari_def)
  ultimately show ?thesis using b by (simp add: activates_def split: if_splits)
qed

lemma draft_refused:
  assumes "l \<in> set (tn_leases s)" and "le_status l = LE_ACTIVE"
    and "user_org v = Some (le_orgId l)" and "cd_unitId d = le_unitId l"
  shows "\<exists>e. createDraftContract dec s t k v bldg d = Inl e"
proof (cases "createDraftContract dec s t k v bldg d")
  case (Inr z)
  then obtain org n where "assertOrgScope v = Inr org" "findUnitForBuilding (core s) bldg (cd_unitId d) = Some n"
    "\<not> list_ex (\<lambda>l. le_orgId l = org \<and> le_unitId l = un_id n \<and> le_status l = LE_ACTIVE) (tn_leases s)"
    unfolding createDraftContract_def andThen_Inr by auto
  moreover from this have "un_id n = le_unitId l" "org = le_orgId l"
    using assms(3,4) by (auto simp: findUnitForBuilding_def dest: find_SomeD)
  ultimately show ?thesis using assms(1,2) by (auto simp: list_ex_iff)
qed blast

text \<open>
  C40. An activation does not look at the other contracts of the unit. If two contracts of one unit can each be
  activated, then after one has been, the other still can: afterwards the unit has two active contracts, in a state that
  satisfies the invariant of the tenancy. A draft is refused as soon as the unit has the first of them.
\<close>

theorem unit_with_two_active_contracts:
  assumes "tenancyInv s" and "i \<noteq> j"
    and "find_by le_id i (tn_leases s) = Some a" and "find_by le_id j (tn_leases s) = Some b" and "le_unitId a = le_unitId b"
    and "activateContract s now ids u i = Inr (x, s1)" and "activateContract s now' ids' u' j = Inr (y, s0)"
  shows "(\<exists>y' s2. activateContract s1 now' ids' u' j = Inr (y', s2) \<and> tenancyInv s2
         \<and> (\<exists>a' \<in> set (tn_leases s2). \<exists>b' \<in> set (tn_leases s2). le_id a' = i \<and> le_id b' = j
              \<and> le_unitId a' = le_unitId a \<and> le_unitId b' = le_unitId a
              \<and> le_status a' = LE_ACTIVE \<and> le_status b' = LE_ACTIVE))
    \<and> (\<forall>dec t k v bldg d. user_org v = Some (le_orgId a) \<and> cd_unitId d = le_unitId a
         \<longrightarrow> (\<exists>e. createDraftContract dec s1 t k v bldg d = Inl e))"
proof -
  obtain a' where a: "activates s u i a a'" and s1: "tn_leases s1 = modify_by le_id i (\<lambda>_. a') (tn_leases s)"
    using activate_run [OF assms(1,6)] assms(3) unfolding activates_def by (metis option.inject)
  obtain b' where b: "activates s u' j b b'"
    using activate_run [OF assms(1,7)] assms(4) unfolding activates_def by (metis option.inject)
  note ra = activates_row [OF a] and rb = activates_row [OF b]
  have inv1: "tenancyInv s1" by (rule activate_inv [OF assms(1,6)])
  have "activates s1 u' j b b'" by (rule activates_after [OF a s1 b assms(2)])
  from activate_succeeds [OF this] obtain y' s2 where run: "activateContract s1 now' ids' u' j = Inr (y', s2)" by blast
  obtain b2 b3 where b3: "activates s1 u' j b2 b3" and s2: "tn_leases s2 = modify_by le_id j (\<lambda>_. b3) (tn_leases s1)"
    by (rule activate_run [OF inv1 run])
  have "b2 = b" using b3 \<open>activates s1 u' j b b'\<close> by (simp add: activates_def)
  have a1: "a' \<in> set (tn_leases s1)"
    using found_modified [OF assms(3) ra(1)] s1 by (auto dest: find_by_SomeD)
  then have "a' \<in> set (tn_leases s2)" using assms(2) ra(1) by (auto simp: s2 modify_by_def intro!: image_eqI [of _ _ a'])
  moreover have "b3 \<in> set (tn_leases s2)"
    using found_modified [of le_id j "tn_leases s1" b2 b3] b3 activates_row(1) [OF b3] s2
    by (auto simp: activates_def dest: find_by_SomeD)
  moreover note activates_row [OF b3, unfolded \<open>b2 = b\<close>]
  moreover have "\<exists>e. createDraftContract dec s1 t k v bldg d = Inl e"
    if "user_org v = Some (le_orgId a)" "cd_unitId d = le_unitId a" for dec t k v bldg d
    by (rule draft_refused [OF a1 ra(4)]) (simp_all add: that ra)
  ultimately show ?thesis using run activate_inv [OF inv1 run] ra assms(5) by (intro conjI exI [of _ y'] exI [of _ s2]) auto
qed

theorem unit_with_two_active_contracts_witness:
  "\<exists>x s1 y s2. activateContract fx_tenancy 100 (\<lambda>t k. ''x'') (fx_user ''mgr'') ''l1'' = Inr (x, s1)
     \<and> activateContract s1 200 (\<lambda>t k. ''y'') (fx_user ''mgr'') ''l2'' = Inr (y, s2)
     \<and> (\<exists>a \<in> set (tn_leases s2). \<exists>b \<in> set (tn_leases s2). le_id a = ''l1'' \<and> le_id b = ''l2'' \<and> le_unitId a = le_unitId b
          \<and> le_status a = LE_ACTIVE \<and> le_status b = LE_ACTIVE)"
proof -
  have "map_sum id (\<lambda>_. ()) (activateContract fx_tenancy 100 (\<lambda>t k. ''x'') (fx_user ''mgr'') ''l1'') = Inr ()" by code_simp
  then obtain x s1 where s1: "activateContract fx_tenancy 100 (\<lambda>t k. ''x'') (fx_user ''mgr'') ''l1'' = Inr (x, s1)" by auto
  have "map_sum id (\<lambda>_. ()) (activateContract fx_tenancy 200 (\<lambda>t k. ''y'') (fx_user ''mgr'') ''l2'') = Inr ()" by code_simp
  then obtain y s0 where s0: "activateContract fx_tenancy 200 (\<lambda>t k. ''y'') (fx_user ''mgr'') ''l2'' = Inr (y, s0)" by auto
  have f: "find_by le_id ''l1'' (tn_leases fx_tenancy) = Some (fx_lease ''l1'')"
    "find_by le_id ''l2'' (tn_leases fx_tenancy) = Some (fx_lease ''l2'')"
    "le_unitId (fx_lease ''l1'') = le_unitId (fx_lease ''l2'')"
    by (simp_all add: fx_tenancy_def fx_lease_def)
  have "''l1'' \<noteq> ''l2''" by simp
  from unit_with_two_active_contracts [OF fx_tenancy_inv this f s1 s0] obtain y' s2 a b where
    "activateContract s1 200 (\<lambda>t k. ''y'') (fx_user ''mgr'') ''l2'' = Inr (y', s2)"
    "a \<in> set (tn_leases s2)" "b \<in> set (tn_leases s2)" "le_id a = ''l1''" "le_id b = ''l2''"
    "le_unitId a = le_unitId (fx_lease ''l1'')" "le_unitId b = le_unitId (fx_lease ''l1'')"
    "le_status a = LE_ACTIVE" "le_status b = LE_ACTIVE"
    by (elim conjE exE bexE)
  with s1 show ?thesis
    by (intro exI [of _ x] exI [of _ s1] exI [of _ y'] exI [of _ s2] conjI bexI [of _ b] bexI [of _ a]) simp_all
qed

section \<open>Slots by number\<close>

definition freeSlots :: "tenancy \<Rightarrow> string \<Rightarrow> string \<Rightarrow> parking_slot list" where
  "freeSlots s org bldg = filter (\<lambda>p. ps_orgId p = org \<and> ps_buildingId p = bldg \<and> ps_isActive p
     \<and> (\<forall>a \<in> set (tn_allocations s). isCurrent a \<longrightarrow> pa_parkingSlotId a \<noteq> ps_id p)) (tn_slots s)"

text \<open>
  C27. Asked for a number of slots, the service allocates exactly that many: the free ones of the building that come
  first by code, in the order of the database, and by age, each once, to the occupancy or the unit that was named; it writes no other allocation, and it
  refuses when there are fewer.
\<close>

theorem allocates_first_free_slots:
  assumes "allocate collate s now ids u bldg d = Inr (as, s')" and "al_count d = Some n"
  shows "\<exists>new org. orgBuilding (core s) u bldg = Inr org \<and> tn_allocations s' = tn_allocations s @ new \<and> length new = n
    \<and> map pa_parkingSlotId new = map ps_id (take n (sort_key (\<lambda>p. (collate (ps_code p), ps_createdAt p)) (freeSlots s org bldg)))
    \<and> (\<forall>a \<in> set new. isCurrent a \<and> pa_occupancyId a = al_occupancyId d \<and> pa_unitId a = al_unitId d)"
proof -
  from assms(1) obtain org t slotIds s1 where org: "orgBuilding (core s) u bldg = Inr org" and t: "allocationTarget d = Inr t"
      and slots: "requestedSlots collate s org bldg d = Inr slotIds"
      and s1: "createManyAllocations s (newAllocations now (ids ''ParkingAllocation'') org bldg t now slotIds) = Inr s1"
      and s': "tn_allocations s' = tn_allocations s1"
    unfolding allocate_def createAllocations_def andThen_Inr
    by (elim exE conjE) (auto simp: createActivity_def split: allocation_target.split_asm)
  let ?new = "newAllocations now (ids ''ParkingAllocation'') org bldg t now slotIds"
  let ?take = "take n (sort_key (\<lambda>p. (collate (ps_code p), ps_createdAt p)) (freeSlots s org bldg))"
  have free: "findAvailableSlots collate s org bldg n = ?take"
    by (simp add: findAvailableSlots_def freeSlots_def slotFree_def list_ex_iff) (metis (no_types, lifting))
  have ids: "slotIds = map ps_id ?take" "length slotIds = n"
    using slots assms(2) free by (auto simp: requestedSlots_def Let_def split: option.splits if_splits)
  have "\<forall>a \<in> set ?new. isCurrent a \<and> pa_occupancyId a = al_occupancyId d \<and> pa_unitId a = al_unitId d"
    using set_newAllocations [of now "ids ''ParkingAllocation''" org bldg t now slotIds] t
    by (auto simp: isCurrent_def allocationTarget_def split: option.splits)
  moreover have "length ?new = n" using ids(2) by (simp add: newAllocations_def)
  moreover have "tn_allocations s' = tn_allocations s @ ?new" using s1 s' by (auto simp: createManyAllocations_def split: if_splits)
  ultimately show ?thesis using org ids(1) slots_newAllocations by (intro exI [of _ ?new] exI [of _ org]) simp
qed

theorem allocates_first_free_slots_witness:
  "\<exists>as s'. allocate (te_collate fx_tenv) fx_tenancy 50 (\<lambda>t k. ''a'') (fx_user ''mgr'') ''b1''
      \<lparr> al_occupancyId = None, al_unitId = Some ''n1'', al_slotIds = None, al_count = Some 1 \<rparr> = Inr (as, s')
    \<and> length (tn_allocations s') = 1"
proof -
  let ?run = "allocate (te_collate fx_tenv) fx_tenancy 50 (\<lambda>t k. ''a'') (fx_user ''mgr'') ''b1''
      \<lparr> al_occupancyId = None, al_unitId = Some ''n1'', al_slotIds = None, al_count = Some 1 \<rparr>"
  have "map_sum id (\<lambda>_. ()) ?run = Inr ()" by code_simp
  then obtain as s' where run: "?run = Inr (as, s')" by auto
  from allocates_first_free_slots [OF run] have "length (tn_allocations s') = 1"
    by (auto simp: fx_tenancy_def)
  with run show ?thesis by blast
qed

end
