(* ===== verification/Auth.thy ===== *)
theory Auth
  imports DeliveryWorkers BuildingAccess
begin

text \<open>
  Accounts and sessions: \<^verbatim>\<open>auth.repo.ts\<close>, \<^verbatim>\<open>auth.service.ts\<close>, \<^verbatim>\<open>auth-validation.service.ts\<close> and the guard of the
  refresh route. A user has at most one refresh token, of which the database keeps the hash; a password is reset by a
  token sent by mail, which also accepts the invitations it was sent with.

  Parameters (\<open>auth_env\<close>): argon2 as a hash and a check, the signing of tokens at a time, the environment variables
  for public registration and for the life of a reset token, and the services that deliver mails. The answer's
  projection of the user is not modelled.
\<close>

section \<open>State and parameters\<close>

datatype grant_action = GA_INVITED | GA_LINKED | GA_ACTIVATED | GA_DISABLED | GA_RESENT

record grant_audit =
  ga_grantId :: string
  ga_ownerId :: string
  ga_actorUserId :: "string option"
  ga_action :: grant_action
  ga_fromStatus :: "grant_status option"
  ga_toStatus :: grant_status
  ga_userId :: "string option"
  ga_inviteEmail :: "string option"
  ga_verificationMethod :: "string option"
  ga_createdAt :: int

record accounts =
  ax_delivery :: delivery_db
  ax_grantAudits :: "grant_audit list"

abbreviation acore :: "accounts \<Rightarrow> db" where
  "acore s \<equiv> dl_core (ax_delivery s)"

definition setAcore :: "(db \<Rightarrow> db) \<Rightarrow> accounts \<Rightarrow> accounts" where
  "setAcore f s = s\<lparr> ax_delivery := (ax_delivery s)\<lparr> dl_core := f (acore s) \<rparr> \<rparr>"

record auth_env =
  ae_delivery :: delivery_env
  ae_hash :: "string \<Rightarrow> string"
  ae_verify :: "string \<Rightarrow> string \<Rightarrow> bool"
  ae_signAccess :: "int \<Rightarrow> string \<Rightarrow> string \<Rightarrow> string option \<Rightarrow> string"
  ae_signRefresh :: "int \<Rightarrow> string \<Rightarrow> string"
  ae_publicRegisterEnabled :: bool
  ae_resetTtlMinutes :: int

section \<open>The repository\<close>

definition findByEmail :: "db \<Rightarrow> string \<Rightarrow> user_row option" where
  "findByEmail s email = List.find (\<lambda>x. toLowerCase (us_email x) = toLowerCase email) (users s)"

definition createAccount :: "accounts \<Rightarrow> user_row \<Rightarrow> accounts res" where
  "createAccount s x =
     (if list_ex (\<lambda>y. us_id y = us_id x \<or> us_email y = us_email x) (users (acore s)) then Inl UniqueViolation
      else Inr (setAcore (\<lambda>d. d\<lparr> users := users d @ [x] \<rparr>) s))"

definition updateAccount :: "accounts \<Rightarrow> string \<Rightarrow> (user_row \<Rightarrow> user_row) \<Rightarrow> accounts res" where
  "updateAccount s i f =
     (if find_by us_id i (users (acore s)) = None then Inl RecordNotFound
      else Inr (setAcore (\<lambda>d. d\<lparr> users := modify_by us_id i f (users d) \<rparr>) s))"

definition updateRefreshTokenHash :: "accounts \<Rightarrow> string \<Rightarrow> string \<Rightarrow> accounts res" where
  "updateRefreshTokenHash s i h = updateAccount s i (\<lambda>x. x\<lparr> us_refreshTokenHash := Some h \<rparr>)"

definition clearRefreshTokenHash :: "accounts \<Rightarrow> string \<Rightarrow> accounts" where
  "clearRefreshTokenHash s i =
     setAcore (\<lambda>d. d\<lparr> users := modify_by us_id i (\<lambda>x. x\<lparr> us_refreshTokenHash := None \<rparr>) (users d) \<rparr>) s"

definition updatePasswordHash :: "accounts \<Rightarrow> string \<Rightarrow> string \<Rightarrow> accounts res" where
  "updatePasswordHash s i h =
     updateAccount s i (\<lambda>x. x\<lparr> us_passwordHash := h, us_mustChangePassword := False \<rparr>)"

definition getRoleKeys :: "db \<Rightarrow> string \<Rightarrow> string option \<Rightarrow> string list" where
  "getRoleKeys s userId org =
     List.map_filter (\<lambda>a. map_option rt_key (templateOf s a))
       (filter (\<lambda>a. ua_userId a = userId \<and> ua_scopeType a = SC_ORG \<and> ua_scopeId a = None
         \<and> template_sat s a (\<lambda>t. rt_orgId t = org \<and> rt_scopeType t = SC_ORG)) (accessAssignments s))"

text \<open>
  The partial unique indexes on grants, which a migration adds: one active grant per owner, one open grant per
  user and owner, and one per invited address and owner.
\<close>

definition openGrant :: "owner_grant \<Rightarrow> bool" where
  "openGrant g \<longleftrightarrow> og_status g = GR_PENDING \<or> og_status g = GR_ACTIVE"

definition grantsClash :: "owner_grant \<Rightarrow> owner_grant \<Rightarrow> bool" where
  "grantsClash g h \<longleftrightarrow> og_ownerId g = og_ownerId h
     \<and> (og_status g = GR_ACTIVE \<and> og_status h = GR_ACTIVE
        \<or> openGrant g \<and> openGrant h
          \<and> (og_userId g = og_userId h \<and> og_userId g \<noteq> None \<or> og_inviteEmail g = og_inviteEmail h \<and> og_inviteEmail g \<noteq> None))"

definition writeGrant :: "accounts \<Rightarrow> owner_grant \<Rightarrow> accounts res" where
  "writeGrant s g =
     (if list_ex (\<lambda>h. og_id h \<noteq> og_id g \<and> grantsClash g h) (ownerGrants (acore s)) then Inl UniqueViolation
      else Inr (setAcore (\<lambda>d. d\<lparr> ownerGrants := modify_by og_id (og_id g) (\<lambda>_. g) (ownerGrants d) \<rparr>) s))"

definition createGrantAudit :: "accounts \<Rightarrow> grant_audit \<Rightarrow> accounts" where
  "createGrantAudit s a = s\<lparr> ax_grantAudits := ax_grantAudits s @ [a] \<rparr>"

definition accessGrantedData :: "string \<Rightarrow> string \<Rightarrow> notification_data" where
  "accessGrantedData ownerId grantId =
     OtherData (JObject [(''kind'', JText ''owner_access''), (''ownerId'', JText ownerId), (''grantId'', JText grantId),
       (''status'', JText ''ACTIVE'')])"

definition findOwnerById :: "db \<Rightarrow> string \<Rightarrow> owner_row option" where
  "findOwnerById s i = find_by ow_id i (owners s)"

text \<open>The loop over the pending grants of the user whose invitation is accepted.\<close>

definition acceptGrant :: "int \<Rightarrow> string \<Rightarrow> string \<Rightarrow> owner_grant \<Rightarrow> accounts \<Rightarrow> accounts res" where
  "acceptGrant now notificationId userId g s =
     (let g' = g\<lparr> og_status := GR_ACTIVE, og_acceptedAt := Some now, og_invitedAt := None, og_inviteEmail := None,
                  og_disabledAt := None, og_disabledByUserId := None,
                  og_verificationMethod := Some (nullish (og_verificationMethod g) ''OWNER_INVITE'') \<rparr>
      in andThen (writeGrant s g') (\<lambda>s1.
         let s2 = createGrantAudit s1 \<lparr> ga_grantId = og_id g', ga_ownerId = og_ownerId g', ga_actorUserId = None,
               ga_action = GA_ACTIVATED, ga_fromStatus = Some GR_PENDING, ga_toStatus = GR_ACTIVE, ga_userId = og_userId g',
               ga_inviteEmail = og_inviteEmail g, ga_verificationMethod = og_verificationMethod g', ga_createdAt = now \<rparr>
         in andThen (orThrow (findOwnerById (acore s2) (og_ownerId g)) RecordNotFound) (\<lambda>w.
            case createManyAndReturn (acore s2) now (\<lambda>_. notificationId) 0
                   [\<lparr> ni_orgId = ow_orgId w, ni_recipientUserId = userId, ni_type = OWNER_ACCESS_GRANTED,
                      ni_title = ''Owner access granted'', ni_body = Some (''You can now access '' @ ow_name w @ ''.''),
                      ni_data = accessGrantedData (ow_id w) (og_id g') \<rparr>] (dl_notifications (ax_delivery s2)) of
              (Some e, _, _) \<Rightarrow> Inl e
            | (None, _, rows) \<Rightarrow> Inr (s2\<lparr> ax_delivery := (ax_delivery s2)\<lparr> dl_notifications := rows \<rparr> \<rparr>))))"

fun acceptGrants :: "int \<Rightarrow> (nat \<Rightarrow> string) \<Rightarrow> nat \<Rightarrow> string \<Rightarrow> owner_grant list \<Rightarrow> accounts \<Rightarrow> accounts res" where
  "acceptGrants now ids k userId [] s = Inr s"
| "acceptGrants now ids k userId (g # gs) s =
     andThen (acceptGrant now (ids k) userId g s) (acceptGrants now ids (Suc k) userId gs)"

definition acceptInvites :: "int \<Rightarrow> string \<Rightarrow> delivery_db \<Rightarrow> delivery_db" where
  "acceptInvites now tokenHash d =
     d\<lparr> dl_invites := map (\<lambda>x. if ri_tokenHash x = tokenHash \<and> ri_status x = RI_SENT
          then x\<lparr> ri_status := RI_ACCEPTED, ri_acceptedAt := Some now, ri_failedAt := None, ri_failureReason := None \<rparr>
          else x) (dl_invites d) \<rparr>"

definition activateProviderGrants :: "int \<Rightarrow> string \<Rightarrow> db \<Rightarrow> db" where
  "activateProviderGrants now userId d =
     d\<lparr> providerGrants := map (\<lambda>g. if sg_userId g = Some userId \<and> sg_status g = GR_PENDING
          then g\<lparr> sg_status := GR_ACTIVE, sg_acceptedAt := Some now, sg_invitedAt := None, sg_inviteEmail := None,
                  sg_disabledAt := None, sg_disabledByUserId := None,
                  sg_verificationMethod := Some ''PROVIDER_INVITE'' \<rparr>
          else g) (providerGrants d) \<rparr>"

text \<open>
  \<^verbatim>\<open>resetPasswordByToken\<close> runs in one transaction: an error of any write undoes all of them. The inner result says
  whether the token was good.
\<close>

definition usableToken :: "db \<Rightarrow> int \<Rightarrow> reset_token \<Rightarrow> bool" where
  "usableToken s now t \<longleftrightarrow> pw_usedAt t = None \<and> now < pw_expiresAt t
     \<and> (case find_by us_id (pw_userId t) (users s) of None \<Rightarrow> False | Some x \<Rightarrow> us_isActive x)"

definition spendToken :: "int \<Rightarrow> reset_token \<Rightarrow> delivery_db \<Rightarrow> delivery_db" where
  "spendToken now t d =
     (let d1 = d\<lparr> dl_resetTokens := modify_by pw_tokenHash (pw_tokenHash t) (\<lambda>x. x\<lparr> pw_usedAt := Some now \<rparr>) (dl_resetTokens d) \<rparr>
      in if pw_purpose t = RESIDENT_INVITE then acceptInvites now (pw_tokenHash t) d1 else d1)"

definition invitedGrants :: "reset_token \<Rightarrow> db \<Rightarrow> owner_grant list" where
  "invitedGrants t s =
     (if pw_purpose t = OWNER_INVITE
      then filter (\<lambda>g. og_userId g = Some (pw_userId t) \<and> og_status g = GR_PENDING) (ownerGrants s)
      else [])"

definition closeReset :: "int \<Rightarrow> reset_token \<Rightarrow> accounts \<Rightarrow> accounts" where
  "closeReset now t s =
     (let s1 = (if pw_purpose t = PROVIDER_INVITE then setAcore (activateProviderGrants now (pw_userId t)) s else s)
      in s1\<lparr> ax_delivery := (ax_delivery s1)\<lparr> dl_resetTokens :=
           filter (\<lambda>x. pw_userId x \<noteq> pw_userId t \<or> pw_tokenHash x = pw_tokenHash t) (dl_resetTokens (ax_delivery s1)) \<rparr> \<rparr>)"

definition resetPasswordByToken ::
  "accounts \<Rightarrow> int \<Rightarrow> (nat \<Rightarrow> string) \<Rightarrow> string \<Rightarrow> string \<Rightarrow> (bool \<times> accounts) res" where
  "resetPasswordByToken s now ids tokenHash passwordHash =
     (case find_by pw_tokenHash tokenHash (dl_resetTokens (ax_delivery s)) of
        None \<Rightarrow> Inr (False, s)
      | Some t \<Rightarrow>
          if \<not> usableToken (acore s) now t then Inr (False, s)
          else
            andThen (updateAccount s (pw_userId t) (\<lambda>x. x\<lparr> us_passwordHash := passwordHash, us_mustChangePassword := False,
                       us_refreshTokenHash := None \<rparr>)) (\<lambda>s1.
            let s2 = s1\<lparr> ax_delivery := spendToken now t (ax_delivery s1) \<rparr>
            in andThen (acceptGrants now ids 0 (pw_userId t) (invitedGrants t (acore s2)) s2) (\<lambda>s3.
               Inr (True, closeReset now t s3))))"

section \<open>The service\<close>

record tokens =
  to_accessToken :: string
  to_refreshToken :: string

definition issueTokens :: "auth_env \<Rightarrow> int \<Rightarrow> user_row \<Rightarrow> tokens" where
  "issueTokens env now x =
     \<lparr> to_accessToken = ae_signAccess env now (us_id x) (us_email x) (us_orgId x),
       to_refreshToken = ae_signRefresh env now (us_id x) \<rparr>"

definition saveRefreshToken :: "auth_env \<Rightarrow> accounts \<Rightarrow> string \<Rightarrow> string \<Rightarrow> accounts res" where
  "saveRefreshToken env s userId refreshToken = updateRefreshTokenHash s userId (ae_hash env refreshToken)"

definition startSession :: "auth_env \<Rightarrow> accounts \<Rightarrow> int \<Rightarrow> user_row \<Rightarrow> (tokens \<times> accounts) res" where
  "startSession env s now x =
     (let ts = issueTokens env now x
      in andThen (saveRefreshToken env s (us_id x) (to_refreshToken ts)) (\<lambda>s1. Inr (ts, s1)))"

definition register ::
  "auth_env \<Rightarrow> accounts \<Rightarrow> int \<Rightarrow> string \<Rightarrow> string \<Rightarrow> string \<Rightarrow> string option \<Rightarrow> (tokens \<times> accounts) res" where
  "register env s now newId email0 password name =
     andThen (ensure (ae_publicRegisterEnabled env) (Forbidden ''Public registration is disabled'')) (\<lambda>_.
     let email = normalizeEmail email0 in
     andThen (ensure (findByEmail (acore s) email = None) (Conflict ''Email already in use'')) (\<lambda>_.
     let x = \<lparr> us_id = newId, us_email = email, us_orgId = None, us_isActive = True, us_name = name, us_avatarUrl = None,
               us_phone = None, us_passwordHash = ae_hash env password, us_refreshTokenHash = None,
               us_mustChangePassword = False, us_createdAt = now \<rparr>
     in andThen (createAccount s x) (\<lambda>s1. startSession env s1 now x)))"

definition login :: "auth_env \<Rightarrow> accounts \<Rightarrow> int \<Rightarrow> string \<Rightarrow> string \<Rightarrow> (tokens \<times> accounts) res" where
  "login env s now email password =
     (case findByEmail (acore s) (normalizeEmail email) of
        None \<Rightarrow> Inl (Unauthorized ''Invalid credentials'')
      | Some x \<Rightarrow>
          andThen (ensure (us_isActive x) (Unauthorized ''Invalid credentials'')) (\<lambda>_.
          andThen (ensure (ae_verify env (us_passwordHash x) password) (Unauthorized ''Invalid credentials'')) (\<lambda>_.
          startSession env s now x)))"

definition refreshTokenGuard :: "(string \<Rightarrow> string option) \<Rightarrow> string option \<Rightarrow> (string \<times> string) res" where
  "refreshTokenGuard verifyToken refreshToken =
     andThen (ensure (truthy refreshToken) (Unauthorized ''Refresh token missing'')) (\<lambda>_.
     andThen (orThrow (verifyToken (the refreshToken)) (Unauthorized ''Invalid refresh token'')) (\<lambda>userId.
     Inr (userId, the refreshToken)))"

definition refresh :: "auth_env \<Rightarrow> accounts \<Rightarrow> int \<Rightarrow> string \<Rightarrow> string \<Rightarrow> (tokens \<times> accounts) res" where
  "refresh env s now userId refreshToken =
     (case find_by us_id userId (users (acore s)) of
        None \<Rightarrow> Inl (Unauthorized ''Refresh token invalid'')
      | Some x \<Rightarrow>
          andThen (ensure (truthy (us_refreshTokenHash x)) (Unauthorized ''Refresh token invalid'')) (\<lambda>_.
          andThen (ensure (ae_verify env (the (us_refreshTokenHash x)) refreshToken) (Unauthorized ''Refresh token invalid'')) (\<lambda>_.
          startSession env s now x)))"

definition changePassword :: "auth_env \<Rightarrow> accounts \<Rightarrow> string \<Rightarrow> string \<Rightarrow> string \<Rightarrow> accounts res" where
  "changePassword env s userId currentPassword newPassword =
     (case find_by us_id userId (users (acore s)) of
        None \<Rightarrow> Inl (Unauthorized ''Invalid credentials'')
      | Some x \<Rightarrow>
          andThen (ensure (us_isActive x) (Unauthorized ''Invalid credentials'')) (\<lambda>_.
          andThen (ensure (ae_verify env (us_passwordHash x) currentPassword) (Unauthorized ''Invalid credentials'')) (\<lambda>_.
          updatePasswordHash s (us_id x) (ae_hash env newPassword))))"

definition logout :: "accounts \<Rightarrow> string \<Rightarrow> accounts" where
  "logout s userId = clearRefreshTokenHash s userId"

text \<open>
  Writing the token, the invitation of a resident and the mail task are separate steps; the error of a later one
  stands beside the state the earlier ones left.
\<close>

definition issueReset ::
  "auth_env \<Rightarrow> accounts \<Rightarrow> int \<Rightarrow> string \<Rightarrow> string \<Rightarrow> user_row \<Rightarrow> email_purpose \<Rightarrow> string option \<Rightarrow> unit res \<times> accounts" where
  "issueReset env s now taskId token x purpose issuedBy =
     (let tokenHash = en_hash (ae_delivery env) token;
          expiresAt = now + ae_resetTtlMinutes env * 60 * 1000;
          inviterName = (if truthy issuedBy \<and> purpose \<noteq> PASSWORD_RESET
            then (case find_by us_id (the issuedBy) (users (acore s)) of None \<Rightarrow> None | Some y \<Rightarrow> us_name y) else None)
      in case createPasswordResetToken (ax_delivery s) (us_id x) tokenHash expiresAt purpose of
           Inl e \<Rightarrow> (Inl e, s)
         | Inr d1 \<Rightarrow>
             (case (if purpose = RESIDENT_INVITE \<and> truthy (us_orgId x)
                    then createResidentInvite d1 (the (us_orgId x)) (us_id x) issuedBy (us_email x) tokenHash expiresAt
                    else Inr d1) of
                Inl e \<Rightarrow> (Inl e, s\<lparr> ax_delivery := d1 \<rparr>)
              | Inr d2 \<Rightarrow>
                  (case enqueuePasswordResetEmail (ae_delivery env) now taskId
                     \<lparr> rr_email = us_email x, rr_token = token, rr_tokenHash = tokenHash, rr_expiresAt = expiresAt,
                       rr_purpose = purpose, rr_inviteeName = us_name x, rr_inviterName = inviterName,
                       rr_issuedByUserId = issuedBy, rr_orgId = us_orgId x, rr_userId = Some (us_id x) \<rparr> d2 of
                     (r, d3) \<Rightarrow> (andThen r (\<lambda>_. Inr ()), s\<lparr> ax_delivery := d3 \<rparr>))))"

definition requestPasswordReset ::
  "auth_env \<Rightarrow> accounts \<Rightarrow> int \<Rightarrow> string \<Rightarrow> string \<Rightarrow> string \<Rightarrow> email_purpose option \<Rightarrow> string option \<Rightarrow> unit res \<times> accounts" where
  "requestPasswordReset env s now taskId token email purpose issuedBy =
     (case findByEmail (acore s) (toLowerCase (trim email)) of
        None \<Rightarrow> (Inr (), s)
      | Some x \<Rightarrow>
          if \<not> us_isActive x then (Inr (), s)
          else issueReset env s now taskId token x (nullish purpose PASSWORD_RESET) issuedBy)"

definition resetPassword ::
  "auth_env \<Rightarrow> accounts \<Rightarrow> int \<Rightarrow> (nat \<Rightarrow> string) \<Rightarrow> string \<Rightarrow> string \<Rightarrow> accounts res" where
  "resetPassword env s now ids token newPassword =
     andThen (resetPasswordByToken s now ids (en_hash (ae_delivery env) (trim token)) (ae_hash env newPassword)) (\<lambda>(changed, s1).
     andThen (ensure changed (Unauthorized ''Invalid or expired reset token'')) (\<lambda>_. Inr s1))"

section \<open>Validation of access tokens\<close>

definition validatePayload :: "db \<Rightarrow> string \<Rightarrow> string option \<Rightarrow> auth_user res" where
  "validatePayload s userId orgIdOverride =
     (case find_by us_id userId (users s) of
        None \<Rightarrow> Inl (Unauthorized ''Unauthorized'')
      | Some x \<Rightarrow>
          andThen (ensure (us_isActive x) (Unauthorized ''Unauthorized'')) (\<lambda>_.
          if \<not> truthy (us_orgId x) \<and> truthy orgIdOverride
          then andThen (ensure (List.member (getRoleKeys s (us_id x) None) ''platform_superadmin'') (Unauthorized ''Unauthorized'')) (\<lambda>_.
               Inr \<lparr> sub = us_id x, orgId = orgIdOverride \<rparr>)
          else Inr \<lparr> sub = us_id x, orgId = us_orgId x \<rparr>))"

definition isHexDigit :: "char \<Rightarrow> bool" where
  "isHexDigit c = List.member ''0123456789abcdef'' (lower_char c)"

text \<open>The pattern of an id: groups of 8, 4, 4, 4 and 12 hexadecimal digits.\<close>

definition uuidV4ish :: "string \<Rightarrow> bool" where
  "uuidV4ish t \<longleftrightarrow> length t = 36
     \<and> list_all (\<lambda>i. if List.member [8, 13, 18, 23] i then t ! i = CHR ''-'' else isHexDigit (t ! i)) [0..<36]"

definition parseOrgIdOverride :: "string option \<Rightarrow> string option res" where
  "parseOrgIdOverride raw =
     (case raw of
        None \<Rightarrow> Inr None
      | Some v \<Rightarrow>
          let trimmed = trim v
          in if trimmed = [] then Inr None
             else andThen (ensure (uuidV4ish trimmed) (BadRequest ''Invalid org scope'')) (\<lambda>_. Inr (Some trimmed)))"

end
