(* ===== verification/OwnerGrants.thy ===== *)
theory OwnerGrants
  imports Auth
begin

text \<open>
  The access of users to owners: \<^verbatim>\<open>owner-access-grant.service.ts\<close>. A grant is pending until the invited user has set
  a password, then active, and disabled for good; each owner has at most one active grant. The service writes the grant,
  its audit row, the notification and the mail one after the other without a transaction: the error of a later step
  stands beside the state the earlier ones left.
\<close>

section \<open>Checks\<close>

definition assertGrantOwnerInOrg :: "db \<Rightarrow> string \<Rightarrow> string \<Rightarrow> owner_row res" where
  "assertGrantOwnerInOrg s org ownerId =
     orThrow (List.find (\<lambda>w. ow_id w = ownerId \<and> ow_orgId w = org) (owners s)) (NotFound ''Owner not found'')"

definition assertOwnerActive :: "bool \<Rightarrow> unit res" where
  "assertOwnerActive isActive = ensure isActive (Conflict ''Inactive owners cannot receive access grants'')"

definition assertPasswordSetupComplete :: "bool \<Rightarrow> unit res" where
  "assertPasswordSetupComplete mustChangePassword =
     ensure (\<not> mustChangePassword) (Conflict ''User must complete password setup before owner access can be activated'')"

definition assertManualVerificationMethod :: "string option \<Rightarrow> string \<Rightarrow> string res" where
  "assertManualVerificationMethod method fallback =
     (let v = (if truthy (map_option trim method) then trim (the method) else fallback)
      in andThen (ensure (\<not> List.member [''EMAIL_MATCH'', ''OWNER_INVITE'', ''PROVIDER_INVITE''] v)
           (BadRequest ''Reserved verification method cannot be supplied manually'')) (\<lambda>_. Inr v))"

definition assertOwnerHasNoActiveGrant :: "db \<Rightarrow> string \<Rightarrow> unit res" where
  "assertOwnerHasNoActiveGrant s ownerId =
     ensure (\<not> list_ex (\<lambda>g. og_ownerId g = ownerId \<and> og_status g = GR_ACTIVE) (ownerGrants s))
       (Conflict ''Owner already has an active representative; disable it first'')"

definition assertNoOpenGrantForPair :: "db \<Rightarrow> string option \<Rightarrow> string \<Rightarrow> string option \<Rightarrow> string option \<Rightarrow> unit res" where
  "assertNoOpenGrantForPair s userId ownerId inviteEmail excludeGrantId =
     ensure (\<not> list_ex (\<lambda>g. og_ownerId g = ownerId \<and> (truthy excludeGrantId \<longrightarrow> Some (og_id g) \<noteq> excludeGrantId)
              \<and> openGrant g
              \<and> (truthy userId \<and> og_userId g = userId \<or> truthy inviteEmail \<and> og_inviteEmail g = inviteEmail)) (ownerGrants s))
       (Conflict ''An open owner access grant already exists for this user or invite email'')"

section \<open>Writes\<close>

text \<open>A new row is refused by the same indexes as a changed one, and its user and owner are foreign keys.\<close>

definition createGrantRow :: "accounts \<Rightarrow> owner_grant \<Rightarrow> accounts res" where
  "createGrantRow s g =
     (if list_ex (\<lambda>h. og_id h = og_id g \<or> grantsClash g h) (ownerGrants (acore s)) then Inl UniqueViolation
      else if find_by ow_id (og_ownerId g) (owners (acore s)) = None
           \<or> (case og_userId g of None \<Rightarrow> False | Some i \<Rightarrow> find_by us_id i (users (acore s)) = None)
      then Inl RecordNotFound
      else Inr (setAcore (\<lambda>d. d\<lparr> ownerGrants := ownerGrants d @ [g] \<rparr>) s))"

definition auditGrant ::
  "accounts \<Rightarrow> int \<Rightarrow> owner_grant \<Rightarrow> string option \<Rightarrow> grant_action \<Rightarrow> grant_status option \<Rightarrow> accounts" where
  "auditGrant s now g actor action from =
     createGrantAudit s \<lparr> ga_grantId = og_id g, ga_ownerId = og_ownerId g, ga_actorUserId = actor, ga_action = action,
       ga_fromStatus = from, ga_toStatus = og_status g, ga_userId = og_userId g, ga_inviteEmail = og_inviteEmail g,
       ga_verificationMethod = og_verificationMethod g, ga_createdAt = now \<rparr>"

definition tellUser ::
  "auth_env \<Rightarrow> int \<Rightarrow> (string \<Rightarrow> nat \<Rightarrow> string) \<Rightarrow> string \<Rightarrow> string \<Rightarrow> notification_type \<Rightarrow> string \<Rightarrow> string \<Rightarrow> notification_data
   \<Rightarrow> accounts \<Rightarrow> unit res \<times> accounts" where
  "tellUser env now ids org userId ty title body d s =
     (case createForUsers (ae_delivery env) now (ids ''Notification'') (ids ''DeliveryTask'' 0) org [userId] ty title
             (Some body) d (ax_delivery s) of
        (e, dl) \<Rightarrow> (case e of None \<Rightarrow> Inr () | Some x \<Rightarrow> Inl x, s\<lparr> ax_delivery := dl \<rparr>))"

definition tellGranted ::
  "auth_env \<Rightarrow> int \<Rightarrow> (string \<Rightarrow> nat \<Rightarrow> string) \<Rightarrow> owner_row \<Rightarrow> string \<Rightarrow> string \<Rightarrow> accounts \<Rightarrow> unit res \<times> accounts" where
  "tellGranted env now ids w userId grantId s =
     tellUser env now ids (ow_orgId w) userId OWNER_ACCESS_GRANTED ''Owner access granted''
       (''You can now access '' @ ow_name w @ ''.'') (accessGrantedData (ow_id w) grantId) s"

text \<open>The result of a grant operation: the grant, or the error of a step after the grant was written.\<close>

definition withGrant :: "owner_grant \<Rightarrow> unit res \<times> accounts \<Rightarrow> owner_grant res \<times> accounts" where
  "withGrant g r = (map_sum id (\<lambda>_. g) (fst r), snd r)"

definition activeGrantRow :: "int \<Rightarrow> string \<Rightarrow> string \<Rightarrow> string \<Rightarrow> string \<Rightarrow> string \<Rightarrow> owner_grant" where
  "activeGrantRow now i ownerId userId actor method =
     \<lparr> og_id = i, og_ownerId = ownerId, og_userId = Some userId, og_status = GR_ACTIVE, og_inviteEmail = None,
       og_invitedAt = None, og_acceptedAt = Some now, og_grantedByUserId = Some actor, og_disabledAt = None,
       og_disabledByUserId = None, og_verificationMethod = Some method, og_createdAt = now \<rparr>"

definition createActiveGrant ::
  "auth_env \<Rightarrow> accounts \<Rightarrow> int \<Rightarrow> (string \<Rightarrow> nat \<Rightarrow> string) \<Rightarrow> string \<Rightarrow> owner_row \<Rightarrow> string \<Rightarrow> string
   \<Rightarrow> (owner_grant res \<times> accounts) res" where
  "createActiveGrant env s now ids actor w userId method =
     (let g = activeGrantRow now (ids ''OwnerAccessGrant'' 0) (ow_id w) userId actor method
      in andThen (createGrantRow s g) (\<lambda>s1.
         Inr (withGrant g (tellGranted env now ids w userId (og_id g) (auditGrant s1 now g (Some actor) GA_LINKED None)))))"

definition pendingGrantRow :: "int \<Rightarrow> string \<Rightarrow> string \<Rightarrow> string \<Rightarrow> string \<Rightarrow> string \<Rightarrow> owner_grant" where
  "pendingGrantRow now i ownerId userId actor email =
     \<lparr> og_id = i, og_ownerId = ownerId, og_userId = Some userId, og_status = GR_PENDING, og_inviteEmail = Some email,
       og_invitedAt = Some now, og_acceptedAt = None, og_grantedByUserId = Some actor, og_disabledAt = None,
       og_disabledByUserId = None, og_verificationMethod = None, og_createdAt = now \<rparr>"

definition createPendingEmailGrant ::
  "accounts \<Rightarrow> int \<Rightarrow> string \<Rightarrow> string \<Rightarrow> string \<Rightarrow> string \<Rightarrow> string \<Rightarrow> (owner_grant \<times> accounts) res" where
  "createPendingEmailGrant s now newId actor ownerId userId email =
     (let g = pendingGrantRow now newId ownerId userId actor email
      in andThen (createGrantRow s g) (\<lambda>s1. Inr (g, auditGrant s1 now g (Some actor) GA_INVITED None)))"

definition createOwnerPortalUser ::
  "auth_env \<Rightarrow> accounts \<Rightarrow> int \<Rightarrow> string \<Rightarrow> string \<Rightarrow> string \<Rightarrow> string \<Rightarrow> accounts res" where
  "createOwnerPortalUser env s now newId tempPassword email ownerName =
     createAccount s \<lparr> us_id = newId, us_email = email, us_orgId = None, us_isActive = True, us_name = Some ownerName,
       us_avatarUrl = None, us_phone = None, us_passwordHash = ae_hash env tempPassword, us_refreshTokenHash = None,
       us_mustChangePassword = True, us_createdAt = now \<rparr>"

section \<open>Operations\<close>

text \<open>
  \<open>token\<close> is the random token of the invitation mail and \<open>tempPassword\<close> the random first password. A user that was created
  for the invitation stays when a later step is refused.
\<close>

definition inviteByMail ::
  "auth_env \<Rightarrow> accounts \<Rightarrow> int \<Rightarrow> (string \<Rightarrow> nat \<Rightarrow> string) \<Rightarrow> string \<Rightarrow> string \<Rightarrow> string \<Rightarrow> string \<Rightarrow> string
   \<Rightarrow> (owner_grant res \<times> accounts) res" where
  "inviteByMail env s now ids token actor ownerId userId email =
     andThen (createPendingEmailGrant s now (ids ''OwnerAccessGrant'' 0) actor ownerId userId email) (\<lambda>(g, s1).
     Inr (withGrant g (requestPasswordReset env s1 now (ids ''DeliveryTask'' 0) token email (Some OWNER_INVITE) (Some actor))))"

definition createPendingInvite ::
  "auth_env \<Rightarrow> accounts \<Rightarrow> int \<Rightarrow> (string \<Rightarrow> nat \<Rightarrow> string) \<Rightarrow> string \<Rightarrow> string \<Rightarrow> string \<Rightarrow> string \<Rightarrow> string \<Rightarrow> string
   \<Rightarrow> (owner_grant res \<times> accounts) res" where
  "createPendingInvite env s now ids token tempPassword actor org ownerId email0 =
     andThen (assertGrantOwnerInOrg (acore s) org ownerId) (\<lambda>w.
     andThen (assertOwnerActive (ow_isActive w)) (\<lambda>_.
     andThen (assertOwnerHasNoActiveGrant (acore s) (ow_id w)) (\<lambda>_.
     let email = normalizeEmail email0 in
     case findByEmail (acore s) email of
       Some x \<Rightarrow>
         andThen (ensure (us_isActive x) (BadRequest ''User not found or inactive'')) (\<lambda>_.
         andThen (assertNoOpenGrantForPair (acore s) (Some (us_id x)) (ow_id w) (Some email) None) (\<lambda>_.
         if us_mustChangePassword x
         then inviteByMail env s now ids token actor (ow_id w) (us_id x) email
         else createActiveGrant env s now ids actor w (us_id x) ''EMAIL_MATCH''))
     | None \<Rightarrow>
         let newUserId = ids ''User'' 0 in
         andThen (createOwnerPortalUser env s now newUserId tempPassword email (ow_name w)) (\<lambda>s1.
         case andThen (assertNoOpenGrantForPair (acore s1) (Some newUserId) (ow_id w) (Some email) None) (\<lambda>_.
                inviteByMail env s1 now ids token actor (ow_id w) newUserId email) of
           Inl e \<Rightarrow> Inr (Inl e, s1)
         | Inr r \<Rightarrow> Inr r))))"

definition requireActiveUser :: "db \<Rightarrow> string \<Rightarrow> user_row res" where
  "requireActiveUser s userId =
     andThen (orThrow (find_by us_id userId (users s)) (BadRequest ''User not found or inactive'')) (\<lambda>x.
     andThen (ensure (us_isActive x) (BadRequest ''User not found or inactive'')) (\<lambda>_. Inr x))"

definition linkExistingUser ::
  "auth_env \<Rightarrow> accounts \<Rightarrow> int \<Rightarrow> (string \<Rightarrow> nat \<Rightarrow> string) \<Rightarrow> string \<Rightarrow> string \<Rightarrow> string \<Rightarrow> string
   \<Rightarrow> (owner_grant res \<times> accounts) res" where
  "linkExistingUser env s now ids actor org ownerId userId =
     andThen (assertGrantOwnerInOrg (acore s) org ownerId) (\<lambda>w.
     andThen (assertOwnerActive (ow_isActive w)) (\<lambda>_.
     andThen (assertOwnerHasNoActiveGrant (acore s) (ow_id w)) (\<lambda>_.
     andThen (assertNoOpenGrantForPair (acore s) (Some userId) (ow_id w) None None) (\<lambda>_.
     andThen (requireActiveUser (acore s) userId) (\<lambda>x.
     andThen (assertPasswordSetupComplete (us_mustChangePassword x)) (\<lambda>_.
     createActiveGrant env s now ids actor w (us_id x) ''ADMIN_LINK''))))))"

definition findGrantOfOwner :: "db \<Rightarrow> string \<Rightarrow> string \<Rightarrow> owner_grant res" where
  "findGrantOfOwner s grantId ownerId =
     orThrow (List.find (\<lambda>g. og_id g = grantId \<and> og_ownerId g = ownerId) (ownerGrants s))
       (NotFound ''Owner access grant not found'')"

definition activatePendingGrant ::
  "auth_env \<Rightarrow> accounts \<Rightarrow> int \<Rightarrow> (string \<Rightarrow> nat \<Rightarrow> string) \<Rightarrow> string \<Rightarrow> string \<Rightarrow> string \<Rightarrow> string \<Rightarrow> string \<Rightarrow> string option
   \<Rightarrow> (owner_grant res \<times> accounts) res" where
  "activatePendingGrant env s now ids actor org ownerId grantId userId method =
     andThen (assertGrantOwnerInOrg (acore s) org ownerId) (\<lambda>w.
     andThen (assertOwnerActive (ow_isActive w)) (\<lambda>_.
     andThen (assertOwnerHasNoActiveGrant (acore s) (ow_id w)) (\<lambda>_.
     andThen (findGrantOfOwner (acore s) grantId ownerId) (\<lambda>g.
     andThen (ensure (og_status g = GR_PENDING) (Conflict ''Only pending owner access grants can be activated'')) (\<lambda>_.
     andThen (requireActiveUser (acore s) userId) (\<lambda>x.
     andThen (assertPasswordSetupComplete (us_mustChangePassword x)) (\<lambda>_.
     andThen (assertManualVerificationMethod method ''ADMIN_LINK'') (\<lambda>v.
     andThen (assertNoOpenGrantForPair (acore s) (Some (us_id x)) (ow_id w) None (Some (og_id g))) (\<lambda>_.
     let g' = g\<lparr> og_userId := Some (us_id x), og_status := GR_ACTIVE, og_acceptedAt := Some now, og_invitedAt := None,
                 og_inviteEmail := None, og_disabledAt := None, og_disabledByUserId := None,
                 og_verificationMethod := Some v, og_grantedByUserId := Some actor \<rparr>
     in andThen (writeGrant s g') (\<lambda>s1.
        Inr (withGrant g' (tellGranted env now ids w (us_id x) (og_id g')
               (auditGrant s1 now g' (Some actor) GA_ACTIVATED (Some GR_PENDING))))))))))))))"

definition disableGrant ::
  "auth_env \<Rightarrow> accounts \<Rightarrow> int \<Rightarrow> (string \<Rightarrow> nat \<Rightarrow> string) \<Rightarrow> string \<Rightarrow> string \<Rightarrow> string \<Rightarrow> string \<Rightarrow> string option
   \<Rightarrow> (owner_grant res \<times> accounts) res" where
  "disableGrant env s now ids actor org ownerId grantId method =
     andThen (assertGrantOwnerInOrg (acore s) org ownerId) (\<lambda>w.
     andThen (findGrantOfOwner (acore s) grantId ownerId) (\<lambda>g.
     andThen (ensure (og_status g \<noteq> GR_DISABLED) (Conflict ''Owner access grant is already disabled'')) (\<lambda>_.
     let g' = g\<lparr> og_status := GR_DISABLED, og_disabledAt := Some now, og_disabledByUserId := Some actor,
                 og_verificationMethod := orElse method (og_verificationMethod g) \<rparr>
     in andThen (writeGrant s g') (\<lambda>s1.
        let s2 = auditGrant s1 now g' (Some actor) GA_DISABLED (Some (og_status g))
        in Inr (withGrant g' (if truthy (og_userId g)
             then tellUser env now ids (ow_orgId w) (the (og_userId g)) OWNER_ACCESS_DISABLED ''Owner access disabled''
                    (ow_name w @ '' is no longer available in your portfolio.'')
                    (OtherData (JObject [(''kind'', JText ''owner_access''), (''ownerId'', JText (ow_id w)),
                       (''grantId'', JText (og_id g')), (''status'', JText ''DISABLED'')])) s2
             else (Inr (), s2)))))))"

definition resendActiveSetupInvite ::
  "auth_env \<Rightarrow> accounts \<Rightarrow> int \<Rightarrow> (string \<Rightarrow> nat \<Rightarrow> string) \<Rightarrow> string \<Rightarrow> owner_grant \<Rightarrow> string option
   \<Rightarrow> (owner_grant res \<times> accounts) res" where
  "resendActiveSetupInvite env s now ids token g actor =
     andThen (ensure (truthy (og_userId g)) (Conflict ''Only linked owner access grants can receive setup recovery emails'')) (\<lambda>_.
     case find_by us_id (the (og_userId g)) (users (acore s)) of
       None \<Rightarrow> Inl (Conflict ''Cannot resend setup email for an inactive or missing user'')
     | Some x \<Rightarrow>
         andThen (ensure (us_isActive x) (Conflict ''Cannot resend setup email for an inactive or missing user'')) (\<lambda>_.
         andThen (ensure (us_mustChangePassword x) (Conflict ''Only pending owner access grants can be resent'')) (\<lambda>_.
         let s1 = auditGrant s now (g\<lparr> og_inviteEmail := Some (us_email x) \<rparr>) actor GA_RESENT (Some GR_ACTIVE)
         in Inr (withGrant g (requestPasswordReset env s1 now (ids ''DeliveryTask'' 0) token (us_email x)
              (Some OWNER_INVITE) actor)))))"

definition resendInvite ::
  "auth_env \<Rightarrow> accounts \<Rightarrow> int \<Rightarrow> (string \<Rightarrow> nat \<Rightarrow> string) \<Rightarrow> string \<Rightarrow> string option \<Rightarrow> string \<Rightarrow> string \<Rightarrow> string
   \<Rightarrow> (owner_grant res \<times> accounts) res" where
  "resendInvite env s now ids token actor org ownerId grantId =
     andThen (assertGrantOwnerInOrg (acore s) org ownerId) (\<lambda>_.
     andThen (findGrantOfOwner (acore s) grantId ownerId) (\<lambda>g.
     if og_status g = GR_ACTIVE then resendActiveSetupInvite env s now ids token g actor
     else
       andThen (ensure (og_status g = GR_PENDING) (Conflict ''Only pending owner access grants can be resent'')) (\<lambda>_.
       andThen (ensure (truthy (og_userId g) \<and> truthy (og_inviteEmail g))
                  (Conflict ''Only email-based pending owner access grants can be resent'')) (\<lambda>_.
       let g' = g\<lparr> og_invitedAt := Some now \<rparr>
       in andThen (writeGrant s g') (\<lambda>s1.
          Inr (withGrant g' (requestPasswordReset env (auditGrant s1 now g' None GA_RESENT (Some GR_PENDING)) now
               (ids ''DeliveryTask'' 0) token (the (og_inviteEmail g)) (Some OWNER_INVITE) actor)))))))"

section \<open>Lists\<close>

definition newestGrants :: "owner_grant list \<Rightarrow> owner_grant list" where
  "newestGrants gs = rev (sort_key (\<lambda>g. (og_createdAt g, og_id g)) gs)"

definition listForOwner :: "accounts \<Rightarrow> string \<Rightarrow> string \<Rightarrow> grant_status option \<Rightarrow> owner_grant list res" where
  "listForOwner s org ownerId status =
     andThen (assertGrantOwnerInOrg (acore s) org ownerId) (\<lambda>_.
     Inr (newestGrants (filter (\<lambda>g. og_ownerId g = ownerId
       \<and> (case status of None \<Rightarrow> True | Some x \<Rightarrow> og_status g = x)) (ownerGrants (acore s)))))"

text \<open>Audit rows are kept in the order in which they were written; ids of audit rows are not modelled.\<close>

definition listHistoryForOwner ::
  "accounts \<Rightarrow> string \<Rightarrow> string \<Rightarrow> string option \<Rightarrow> grant_action option \<Rightarrow> grant_audit list res" where
  "listHistoryForOwner s org ownerId grantId action =
     andThen (assertGrantOwnerInOrg (acore s) org ownerId) (\<lambda>_.
     Inr (rev (sort_key ga_createdAt (filter (\<lambda>a. ga_ownerId a = ownerId
       \<and> (truthy grantId \<longrightarrow> Some (ga_grantId a) = grantId)
       \<and> (case action of None \<Rightarrow> True | Some x \<Rightarrow> ga_action a = x)) (ax_grantAudits s)))))"

end
