(* ===== verification/GrantMachine.thy ===== *)
theory GrantMachine
  imports OwnerGrants DeliveryFrame
begin

text \<open>
  The grants of owners and their audit rows as a state of their own: \<open>gstep\<close> lists the few ways in which they change,
  every operation on accounts and grants is a sequence of such steps, and the invariant follows by cases over the steps.
\<close>

section \<open>The view and its steps\<close>

type_synonym grant_view = "owner_grant list \<times> grant_audit list"

definition grantView :: "accounts \<Rightarrow> grant_view" where
  "grantView s = (ownerGrants (acore s), ax_grantAudits s)"

definition grantSound :: "owner_grant \<Rightarrow> bool" where
  "grantSound g \<longleftrightarrow>
     (case og_status g of
        GR_PENDING \<Rightarrow> og_userId g \<noteq> None \<and> og_inviteEmail g \<noteq> None \<and> og_invitedAt g \<noteq> None \<and> og_acceptedAt g = None
      | GR_ACTIVE \<Rightarrow> og_userId g \<noteq> None \<and> og_inviteEmail g = None \<and> og_acceptedAt g \<noteq> None
      | GR_DISABLED \<Rightarrow> og_disabledAt g \<noteq> None)"

fun mayMove :: "grant_status \<Rightarrow> grant_status \<Rightarrow> bool" where
  "mayMove GR_PENDING t = True"
| "mayMove GR_ACTIVE t = (t \<noteq> GR_PENDING)"
| "mayMove GR_DISABLED t = (t = GR_DISABLED)"

lemma mayMove_refl [simp]: "mayMove t t"
  by (cases t) auto

lemma mayMove_trans: "mayMove a b \<Longrightarrow> mayMove b c \<Longrightarrow> mayMove a c"
  by (cases a; cases b) auto

inductive gstep :: "grant_view \<Rightarrow> grant_view \<Rightarrow> bool" where
  create: "og_id g \<notin> og_id ` set gs \<Longrightarrow> (\<And>h. h \<in> set gs \<Longrightarrow> \<not> grantsClash g h) \<Longrightarrow> grantSound g
    \<Longrightarrow> ga_grantId a = og_id g \<Longrightarrow> ga_toStatus a = og_status g \<Longrightarrow> gstep (gs, as) (gs @ [g], as @ [a])"
| change: "g \<in> set gs \<Longrightarrow> og_id g' = og_id g \<Longrightarrow> og_ownerId g' = og_ownerId g \<Longrightarrow> mayMove (og_status g) (og_status g')
    \<Longrightarrow> (\<And>h. h \<in> set gs \<Longrightarrow> og_id h \<noteq> og_id g' \<Longrightarrow> \<not> grantsClash g' h) \<Longrightarrow> (grantSound g \<Longrightarrow> grantSound g')
    \<Longrightarrow> ga_grantId a = og_id g \<Longrightarrow> ga_toStatus a = og_status g'
    \<Longrightarrow> gstep (gs, as) (modify_by og_id (og_id g') (\<lambda>_. g') gs, as @ [a])"
| remark: "g \<in> set gs \<Longrightarrow> ga_grantId a = og_id g \<Longrightarrow> ga_toStatus a = og_status g \<Longrightarrow> gstep (gs, as) (gs, as @ [a])"

inductive_cases gstepE: "gstep v w"

definition lastStatus :: "grant_audit list \<Rightarrow> string \<Rightarrow> grant_status option" where
  "lastStatus as i = map_option ga_toStatus (find_by ga_grantId i (rev as))"

definition grantInv :: "grant_view \<Rightarrow> bool" where
  "grantInv v \<longleftrightarrow> distinct (map og_id (fst v))
     \<and> (\<forall>g \<in> set (fst v). \<forall>h \<in> set (fst v). og_id g \<noteq> og_id h \<longrightarrow> \<not> grantsClash g h)
     \<and> (\<forall>g \<in> set (fst v). grantSound g \<and> lastStatus (snd v) (og_id g) = Some (og_status g))"

definition grantKept :: "grant_view \<Rightarrow> grant_view \<Rightarrow> bool" where
  "grantKept v w \<longleftrightarrow> (\<forall>g \<in> set (fst v). \<exists>g' \<in> set (fst w). og_id g' = og_id g \<and> og_ownerId g' = og_ownerId g
     \<and> mayMove (og_status g) (og_status g')) \<and> (\<exists>new. snd w = snd v @ new)"

lemma lastStatus_append: "lastStatus (as @ [a]) i = (if ga_grantId a = i then Some (ga_toStatus a) else lastStatus as i)"
  by (simp add: lastStatus_def)

lemma grantsClash_sym: "grantsClash g h \<longleftrightarrow> grantsClash h g"
  unfolding grantsClash_def by metis

lemma set_modify_grant: "set (modify_by og_id i (\<lambda>_. g') gs) = (\<lambda>g. if og_id g = i then g' else g) ` set gs"
  by (simp add: modify_by_def)

lemma ids_modify_grant: "og_id g' = i \<Longrightarrow> map og_id (modify_by og_id i (\<lambda>_. g') gs) = map og_id gs"
  by (simp add: modify_by_def)

lemma gstep_inv: "gstep v w \<Longrightarrow> grantInv v \<Longrightarrow> grantInv w"
proof (induction rule: gstep.induct)
  case (create g gs a as)
  then have "\<And>h. h \<in> set gs \<Longrightarrow> \<not> grantsClash h g" by (simp add: grantsClash_sym [of _ g])
  with create show ?case
    by (auto simp: grantInv_def lastStatus_append)
next
  case (change g gs g' a as)
  then have "\<And>h. h \<in> set gs \<Longrightarrow> og_id h \<noteq> og_id g \<Longrightarrow> \<not> grantsClash h g'" by (simp add: grantsClash_sym [of _ g'])
  moreover from change have "grantSound g'" by (simp add: grantInv_def)
  ultimately show ?case
    using change by (auto simp: grantInv_def set_modify_grant ids_modify_grant lastStatus_append)
next
  case (remark g gs a as)
  have "lastStatus (as @ [a]) (og_id h) = Some (og_status h)" if h: "h \<in> set gs" for h
  proof (cases "og_id h = og_id g")
    case True
    then have "h = g" using h remark.hyps(1) remark.prems by (auto simp: grantInv_def distinct_map inj_on_def)
    then show ?thesis using remark.hyps by (simp add: lastStatus_append)
  next
    case False
    then show ?thesis using h remark.hyps remark.prems by (simp add: lastStatus_append grantInv_def)
  qed
  then show ?case using remark.prems by (simp add: grantInv_def)
qed

lemma gstep_kept: "gstep v w \<Longrightarrow> distinct (map og_id (fst v)) \<Longrightarrow> grantKept v w"
proof (induction rule: gstep.induct)
  case (change g gs g' a as)
  let ?gs = "modify_by og_id (og_id g') (\<lambda>_. g') gs"
  have "\<exists>x \<in> set ?gs. og_id x = og_id h \<and> og_ownerId x = og_ownerId h \<and> mayMove (og_status h) (og_status x)"
    if h: "h \<in> set gs" for h
  proof (cases "og_id h = og_id g")
    case True
    with h change have "h = g" by (auto simp: distinct_map inj_on_def)
    moreover have "g' \<in> set ?gs" using change by (force simp: set_modify_grant)
    ultimately show ?thesis using change by blast
  next
    case False
    then have "h \<in> set ?gs" using h change by (force simp: set_modify_grant)
    then show ?thesis by (intro bexI [of _ h]) simp_all
  qed
  then show ?case by (simp add: grantKept_def)
qed (auto simp: grantKept_def intro: bexI)

lemma grantKept_refl: "grantKept v v"
  by (auto simp: grantKept_def intro: bexI)

lemma grantKept_trans: "grantKept u v \<Longrightarrow> grantKept v w \<Longrightarrow> grantKept u w"
  unfolding grantKept_def by (elim conjE exE, intro conjI ballI) (metis mayMove_trans, simp)

lemma gsteps_inv: "gstep\<^sup>*\<^sup>* v w \<Longrightarrow> grantInv v \<Longrightarrow> grantInv w"
  by (induction rule: rtranclp_induct) (auto intro: gstep_inv)

lemma gsteps_kept: "gstep\<^sup>*\<^sup>* v w \<Longrightarrow> grantInv v \<Longrightarrow> grantKept v w"
proof (induction rule: rtranclp_induct)
  case base
  show ?case by (rule grantKept_refl)
next
  case (step w x)
  then have "distinct (map og_id (fst w))" using gsteps_inv [of v w] by (simp add: grantInv_def)
  with step show ?case by (blast intro: grantKept_trans gstep_kept)
qed

end
