(* ===== verification/AccountMachine.thy ===== *)
theory AccountMachine
  imports GrantMachine
begin

text \<open>
  The operations on accounts and on the grants of owners as one system. Each of them is a sequence of the steps of
  \<open>gstep\<close> on the grants and their audit rows, so the invariant of the grants and what the steps keep carry over.
\<close>

section \<open>Frames\<close>

lemma acore_setAcore [simp]: "acore (setAcore f s) = f (acore s)"
  by (simp add: setAcore_def)

lemma audits_setAcore [simp]: "ax_grantAudits (setAcore f s) = ax_grantAudits s"
  by (simp add: setAcore_def)

lemma view_setAcore: "ownerGrants (f (acore s)) = ownerGrants (acore s) \<Longrightarrow> grantView (setAcore f s) = grantView s"
  by (simp add: grantView_def)

lemma view_createAccount: "createAccount s x = Inr s' \<Longrightarrow> grantView s' = grantView s"
  by (auto simp: createAccount_def view_setAcore split: if_splits)

lemma view_updateAccount: "updateAccount s i f = Inr s' \<Longrightarrow> grantView s' = grantView s"
  by (auto simp: updateAccount_def view_setAcore split: if_splits)

lemma view_delivery: "dl_core d = acore s \<Longrightarrow> grantView (s\<lparr> ax_delivery := d \<rparr>) = grantView s"
  by (simp add: grantView_def)

lemma view_startSession: "startSession env s now x = Inr (ts, s') \<Longrightarrow> grantView s' = grantView s"
  by (auto simp: startSession_def saveRefreshToken_def updateRefreshTokenHash_def Let_def dest: view_updateAccount)

lemma view_issueReset: "grantView (snd (issueReset env s now t tok x p i)) = grantView s"
  using core_passwordMail
  by (auto simp: issueReset_def Let_def grantView_def dest: core_resetToken core_residentInvite
      split: sum.splits if_splits prod.splits) (metis core_passwordMail core_resetToken core_residentInvite snd_conv)+

lemma view_requestReset [simp]: "grantView (snd (requestPasswordReset env s now t tok e p i)) = grantView s"
  by (simp add: requestPasswordReset_def view_issueReset split: option.splits)

lemma view_tellUser [simp]: "grantView (snd (tellUser env now ids org u ty title body d s)) = grantView s"
  by (auto simp: tellUser_def intro: view_delivery dest: core_createForUsers split: prod.splits)

lemma view_withGrant [simp]: "grantView (snd (withGrant g r)) = grantView (snd r)"
  by (simp add: withGrant_def)

lemma view_auditGrant: "grantView (auditGrant s now g actor action from) =
    (ownerGrants (acore s), ax_grantAudits s @ [\<lparr> ga_grantId = og_id g, ga_ownerId = og_ownerId g, ga_actorUserId = actor,
       ga_action = action, ga_fromStatus = from, ga_toStatus = og_status g, ga_userId = og_userId g,
       ga_inviteEmail = og_inviteEmail g, ga_verificationMethod = og_verificationMethod g, ga_createdAt = now \<rparr>])"
  by (simp add: auditGrant_def createGrantAudit_def grantView_def)

section \<open>Writes as steps\<close>

lemma create_gstep:
  assumes "createGrantRow s g = Inr s'" and "grantSound g"
  shows "gstep (grantView s) (grantView (auditGrant s' now g actor action from))"
proof -
  from assms(1) have "ownerGrants (acore s') = ownerGrants (acore s) @ [g]" "ax_grantAudits s' = ax_grantAudits s"
    "og_id g \<notin> og_id ` set (ownerGrants (acore s))" "\<And>h. h \<in> set (ownerGrants (acore s)) \<Longrightarrow> \<not> grantsClash g h"
    by (auto simp: createGrantRow_def list_ex_iff split: if_splits)
  then show ?thesis
    unfolding view_auditGrant unfolding grantView_def using assms(2) by (simp add: gstep.create)
qed

lemma writeGrant_view:
  assumes "writeGrant s g = Inr s'"
  shows "ownerGrants (acore s') = modify_by og_id (og_id g) (\<lambda>_. g) (ownerGrants (acore s))"
    "ax_grantAudits s' = ax_grantAudits s"
    "h \<in> set (ownerGrants (acore s)) \<Longrightarrow> og_id h \<noteq> og_id g \<Longrightarrow> \<not> grantsClash g h"
    "owners (acore s') = owners (acore s)" "users (acore s') = users (acore s)"
  using assms by (auto simp: writeGrant_def list_ex_iff split: if_splits)

lemma change_gstep:
  assumes "writeGrant s g' = Inr s'" and "g \<in> set (ownerGrants (acore s))" and "og_id g' = og_id g"
    and "og_ownerId g' = og_ownerId g" and "mayMove (og_status g) (og_status g')" and "grantSound g \<Longrightarrow> grantSound g'"
  shows "gstep (grantView s) (grantView (auditGrant s' now g' actor action from))"
proof -
  have "\<not> grantsClash g' h" if "h \<in> set (ownerGrants (acore s))" "og_id h \<noteq> og_id g'" for h
    using writeGrant_view(3) [OF assms(1) that] .
  then show ?thesis
    unfolding view_auditGrant writeGrant_view(1,2) [OF assms(1)] unfolding grantView_def
    by (intro gstep.change [OF assms(2-5)]) (simp_all add: assms(3,6))
qed

lemma findGrant_Inr: "findGrantOfOwner s i w = Inr g \<Longrightarrow> g \<in> set (ownerGrants s) \<and> og_id g = i \<and> og_ownerId g = w"
  by (auto simp: findGrantOfOwner_def dest: find_SomeD)

section \<open>Operations as steps\<close>

lemma createActiveGrant_steps:
  assumes "createActiveGrant env s now ids actor w u method = Inr (r, s')"
  shows "gstep\<^sup>*\<^sup>* (grantView s) (grantView s')"
proof -
  let ?g = "activeGrantRow now (ids ''OwnerAccessGrant'' 0) (ow_id w) u actor method"
  from assms obtain s1 where s1: "createGrantRow s ?g = Inr s1"
    and s': "s' = snd (withGrant ?g (tellGranted env now ids w u (og_id ?g) (auditGrant s1 now ?g (Some actor) GA_LINKED None)))"
    by (auto simp: createActiveGrant_def Let_def withGrant_def)
  have "grantSound ?g" by (simp add: grantSound_def activeGrantRow_def)
  from create_gstep [OF s1 this] show ?thesis by (auto simp: s' tellGranted_def)
qed

lemma inviteByMail_steps:
  assumes "inviteByMail env s now ids token actor w u email = Inr (r, s')"
  shows "gstep\<^sup>*\<^sup>* (grantView s) (grantView s')"
proof -
  let ?g = "pendingGrantRow now (ids ''OwnerAccessGrant'' 0) w u actor email"
  from assms obtain s1 where s1: "createGrantRow s ?g = Inr s1"
    and s': "grantView s' = grantView (auditGrant s1 now ?g (Some actor) GA_INVITED None)"
    by (auto simp: inviteByMail_def createPendingEmailGrant_def Let_def withGrant_def)
  have "grantSound ?g" by (simp add: grantSound_def pendingGrantRow_def)
  from create_gstep [OF s1 this] show ?thesis by (auto simp: s')
qed

lemma createPendingInvite_steps:
  assumes "createPendingInvite env s now ids token pw actor org w email = Inr (r, s')"
  shows "gstep\<^sup>*\<^sup>* (grantView s) (grantView s')"
proof (cases "findByEmail (acore s) (normalizeEmail email)")
  case None
  with assms obtain s1 and ow :: owner_row where c: "createOwnerPortalUser env s now (ids ''User'' 0) pw (normalizeEmail email) (ow_name ow) = Inr s1"
    and r: "(case andThen (assertNoOpenGrantForPair (acore s1) (Some (ids ''User'' 0)) (ow_id ow) (Some (normalizeEmail email)) None) (\<lambda>_.
        inviteByMail env s1 now ids token actor (ow_id ow) (ids ''User'' 0) (normalizeEmail email)) of
          Inl e \<Rightarrow> Inr (Inl e, s1) | Inr r \<Rightarrow> Inr r) = (Inr (r, s') :: (owner_grant res \<times> accounts) res)"
    by (auto simp: createPendingInvite_def Let_def)
  have v: "grantView s1 = grantView s" using c by (simp add: createOwnerPortalUser_def view_createAccount)
  consider "s' = s1" | "inviteByMail env s1 now ids token actor (ow_id ow) (ids ''User'' 0) (normalizeEmail email) = Inr (r, s')"
    using r by (cases "assertNoOpenGrantForPair (acore s1) (Some (ids ''User'' 0)) (ow_id ow) (Some (normalizeEmail email)) None";
        cases "inviteByMail env s1 now ids token actor (ow_id ow) (ids ''User'' 0) (normalizeEmail email)") auto
  then show ?thesis by cases (auto simp: v dest: inviteByMail_steps)
next
  case (Some x)
  with assms show ?thesis
    by (auto simp: createPendingInvite_def Let_def intro: inviteByMail_steps createActiveGrant_steps split: if_splits)
qed

lemma linkExistingUser_steps:
  "linkExistingUser env s now ids actor org w u = Inr (r, s') \<Longrightarrow> gstep\<^sup>*\<^sup>* (grantView s) (grantView s')"
  by (auto simp: linkExistingUser_def intro: createActiveGrant_steps)

lemma activatePendingGrant_steps:
  assumes "activatePendingGrant env s now ids actor org w i u method = Inr (r, s')"
  shows "gstep\<^sup>*\<^sup>* (grantView s) (grantView s')"
proof -
  from assms obtain g g' s1 where g: "findGrantOfOwner (acore s) i w = Inr g" "og_status g = GR_PENDING"
    and w: "writeGrant s g' = Inr s1" and g': "og_id g' = og_id g" "og_ownerId g' = og_ownerId g" "og_status g' = GR_ACTIVE" "grantSound g'"
    and s': "grantView s' = grantView (auditGrant s1 now g' (Some actor) GA_ACTIVATED (Some GR_PENDING))"
    by (fastforce simp: activatePendingGrant_def Let_def withGrant_def tellGranted_def grantSound_def)
  show ?thesis
    using change_gstep [OF w] findGrant_Inr [OF g(1)] g g' by (auto simp: s')
qed

lemma disableGrant_steps:
  assumes "disableGrant env s now ids actor org w i method = Inr (r, s')"
  shows "gstep\<^sup>*\<^sup>* (grantView s) (grantView s')"
proof -
  from assms obtain g g' s1 where g: "findGrantOfOwner (acore s) i w = Inr g" "og_status g \<noteq> GR_DISABLED"
    and w: "writeGrant s g' = Inr s1" and g': "og_id g' = og_id g" "og_ownerId g' = og_ownerId g" "og_status g' = GR_DISABLED" "grantSound g'"
    and s': "grantView s' = grantView (auditGrant s1 now g' (Some actor) GA_DISABLED (Some (og_status g)))"
    by (fastforce simp: disableGrant_def Let_def withGrant_def grantSound_def split: if_splits)
  have "mayMove (og_status g) (og_status g')" using g(2) g'(3) by (cases "og_status g") auto
  then show ?thesis
    using change_gstep [OF w] findGrant_Inr [OF g(1)] g' by (auto simp: s')
qed


lemma resendActive_steps:
  assumes "resendActiveSetupInvite env s now ids token g actor = Inr (r, s')" and "g \<in> set (ownerGrants (acore s))"
  shows "gstep\<^sup>*\<^sup>* (grantView s) (grantView s')"
proof -
  from assms(1) obtain m where
    s': "grantView s' = grantView (auditGrant s now (g\<lparr> og_inviteEmail := m \<rparr>) actor GA_RESENT (Some GR_ACTIVE))"
    by (auto simp: resendActiveSetupInvite_def Let_def withGrant_def split: option.splits)
  have "gstep (grantView s) (grantView s')"
    unfolding s' view_auditGrant unfolding grantView_def by (rule gstep.remark [OF assms(2)]) simp_all
  then show ?thesis by blast
qed

lemma resendInvite_steps:
  assumes "resendInvite env s now ids token actor org w i = Inr (r, s')"
  shows "gstep\<^sup>*\<^sup>* (grantView s) (grantView s')"
proof -
  from assms obtain g where g: "findGrantOfOwner (acore s) i w = Inr g"
    by (auto simp: resendInvite_def)
  show ?thesis
  proof (cases "og_status g = GR_ACTIVE")
    case True
    with assms g have "resendActiveSetupInvite env s now ids token g actor = Inr (r, s')"
      by (auto simp: resendInvite_def)
    then show ?thesis using findGrant_Inr [OF g] by (blast intro: resendActive_steps)
  next
    case False
    let ?g = "g\<lparr> og_invitedAt := Some now \<rparr>"
    from False assms g obtain s1 where p: "og_status g = GR_PENDING" and w: "writeGrant s ?g = Inr s1"
      and s': "grantView s' = grantView (auditGrant s1 now ?g None GA_RESENT (Some GR_PENDING))"
      by (auto simp: resendInvite_def Let_def withGrant_def)
    have "grantSound g \<Longrightarrow> grantSound ?g" using p by (simp add: grantSound_def)
    with change_gstep [OF w] findGrant_Inr [OF g] show ?thesis by (auto simp: s')
  qed
qed

section \<open>Accepting invitations\<close>

text \<open>Along the loop the grants that are still to be accepted stay as they were read.\<close>

lemma created_Inr:
  "(case m of (Some e, _, _) \<Rightarrow> Inl e | (None, _, rows) \<Rightarrow> Inr (f rows)) = Inr s' \<Longrightarrow> \<exists>rows. s' = f rows"
  by (auto split: prod.splits option.splits)

lemma acceptGrant_Inr:
  assumes "acceptGrant now n u g s = Inr s'" and "g \<in> set (ownerGrants (acore s))" and "og_status g = GR_PENDING"
    and "og_userId g = Some u"
  shows "gstep (grantView s) (grantView s')"
    and "h \<in> set (ownerGrants (acore s)) \<Longrightarrow> og_id h \<noteq> og_id g \<Longrightarrow> h \<in> set (ownerGrants (acore s'))"
proof -
  let ?g = "g\<lparr> og_status := GR_ACTIVE, og_acceptedAt := Some now, og_invitedAt := None, og_inviteEmail := None,
     og_disabledAt := None, og_disabledByUserId := None,
     og_verificationMethod := Some (nullish (og_verificationMethod g) ''OWNER_INVITE'') \<rparr>"
  let ?a = "\<lparr> ga_grantId = og_id g, ga_ownerId = og_ownerId g, ga_actorUserId = None, ga_action = GA_ACTIVATED,
     ga_fromStatus = Some GR_PENDING, ga_toStatus = GR_ACTIVE, ga_userId = og_userId g, ga_inviteEmail = og_inviteEmail g,
     ga_verificationMethod = Some (nullish (og_verificationMethod g) ''OWNER_INVITE''), ga_createdAt = now \<rparr>"
  from assms(1) obtain s1 where w: "writeGrant s ?g = Inr s1" and v: "grantView s' = (ownerGrants (acore s1), ax_grantAudits s1 @ [?a])"
    by (auto simp: acceptGrant_def Let_def createGrantAudit_def grantView_def dest!: created_Inr)
  note w' = writeGrant_view [OF w]
  have "grantSound ?g" using assms(4) by (simp add: grantSound_def)
  then show "gstep (grantView s) (grantView s')"
    unfolding v w'(1,2) unfolding grantView_def
    by (intro gstep.change [OF assms(2)] w'(3)) (simp_all add: assms(3))
  show "h \<in> set (ownerGrants (acore s'))" if "h \<in> set (ownerGrants (acore s))" "og_id h \<noteq> og_id g"
    using that v by (force simp: grantView_def w'(1) set_modify_grant)
qed

lemma acceptGrants_steps:
  assumes "acceptGrants now ids k u gs s = Inr s'" and "distinct (map og_id gs)"
    and "\<And>g. g \<in> set gs \<Longrightarrow> g \<in> set (ownerGrants (acore s)) \<and> og_status g = GR_PENDING \<and> og_userId g = Some u"
  shows "gstep\<^sup>*\<^sup>* (grantView s) (grantView s')"
  using assms
proof (induction gs arbitrary: k s)
  case Nil
  then show ?case by simp
next
  case (Cons g gs)
  from Cons.prems(1) obtain s1 where a: "acceptGrant now (ids k) u g s = Inr s1"
    and r: "acceptGrants now ids (Suc k) u gs s1 = Inr s'" by auto
  note acc = acceptGrant_Inr [OF a]
  have "gstep\<^sup>*\<^sup>* (grantView s1) (grantView s')"
  proof (rule Cons.IH [OF r])
    show "distinct (map og_id gs)" using Cons.prems(2) by simp
    show "h \<in> set (ownerGrants (acore s1)) \<and> og_status h = GR_PENDING \<and> og_userId h = Some u" if "h \<in> set gs" for h
    proof -
      have "og_id h \<noteq> og_id g" using that Cons.prems(2) by (metis distinct.simps(2) image_eqI list.set_map list.simps(9))
      moreover have "g \<in> set (ownerGrants (acore s))" "og_status g = GR_PENDING" "og_userId g = Some u"
        using Cons.prems(3) [of g] by simp_all
      ultimately show ?thesis using Cons.prems(3) [of h] that acc(2) [of h] by simp
    qed
  qed
  moreover have "gstep (grantView s) (grantView s1)" using acc(1) Cons.prems(3) [of g] by simp
  ultimately show ?case by (rule converse_rtranclp_into_rtranclp [rotated])
qed


lemma core_spendToken [simp]: "dl_core (spendToken now t d) = dl_core d"
  by (simp add: spendToken_def acceptInvites_def Let_def)

lemma view_closeReset [simp]: "grantView (closeReset now t s) = grantView s"
  by (simp add: closeReset_def grantView_def activateProviderGrants_def Let_def)

abbreviation newPassword :: "string \<Rightarrow> user_row \<Rightarrow> user_row" where
  "newPassword p x \<equiv> x\<lparr> us_passwordHash := p, us_mustChangePassword := False, us_refreshTokenHash := None \<rparr>"

lemma reset_Inr:
  assumes "resetPasswordByToken s now ids h p = Inr (True, s')"
  obtains t s1 s3 where "find_by pw_tokenHash h (dl_resetTokens (ax_delivery s)) = Some t" and "usableToken (acore s) now t"
    and "updateAccount s (pw_userId t) (newPassword p) = Inr s1"
    and "acceptGrants now ids 0 (pw_userId t) (invitedGrants t (acore s1)) (s1\<lparr> ax_delivery := spendToken now t (ax_delivery s1) \<rparr>) = Inr s3"
    and "s' = closeReset now t s3"
  using assms by (auto simp: resetPasswordByToken_def Let_def split: option.splits if_splits)

lemma resetPasswordByToken_steps:
  assumes "resetPasswordByToken s now ids h p = Inr (b, s')" and "grantInv (grantView s)"
  shows "gstep\<^sup>*\<^sup>* (grantView s) (grantView s')"
proof (cases b)
  case False
  with assms(1) have "s' = s"
    by (auto simp: resetPasswordByToken_def Let_def split: option.splits if_splits)
  then show ?thesis by simp
next
  case True
  with assms(1) have "resetPasswordByToken s now ids h p = Inr (True, s')" by simp
  then obtain t s1 s3 where u: "updateAccount s (pw_userId t) (newPassword p) = Inr s1"
    and a: "acceptGrants now ids 0 (pw_userId t) (invitedGrants t (acore s1)) (s1\<lparr> ax_delivery := spendToken now t (ax_delivery s1) \<rparr>) = Inr s3"
    and s': "s' = closeReset now t s3" by (rule reset_Inr)
  have v: "grantView (s1\<lparr> ax_delivery := spendToken now t (ax_delivery s1) \<rparr>) = grantView s"
    using view_updateAccount [OF u] by (simp add: grantView_def)
  have "distinct (map og_id (ownerGrants (acore s1)))"
    using assms(2) v by (auto simp: grantInv_def grantView_def)
  then have "gstep\<^sup>*\<^sup>* (grantView (s1\<lparr> ax_delivery := spendToken now t (ax_delivery s1) \<rparr>)) (grantView s3)"
    by (intro acceptGrants_steps [OF a]) (auto simp: invitedGrants_def intro: distinct_map_filter split: if_splits)
  then show ?thesis by (simp add: v s')
qed

lemma resetPassword_steps:
  "resetPassword env s now ids t p = Inr s' \<Longrightarrow> grantInv (grantView s) \<Longrightarrow> gstep\<^sup>*\<^sup>* (grantView s) (grantView s')"
  by (auto simp: resetPassword_def intro: resetPasswordByToken_steps)

section \<open>Sessions\<close>

lemma view_register: "register env s now i e p n = Inr (ts, s') \<Longrightarrow> grantView s' = grantView s"
  by (auto simp: register_def Let_def dest!: view_createAccount view_startSession)

lemma view_login: "login env s now e p = Inr (ts, s') \<Longrightarrow> grantView s' = grantView s"
  by (auto simp: login_def dest: view_startSession split: option.splits)

lemma view_refresh: "refresh env s now u t = Inr (ts, s') \<Longrightarrow> grantView s' = grantView s"
  by (auto simp: refresh_def dest: view_startSession split: option.splits)

lemma view_changePassword: "changePassword env s u p q = Inr s' \<Longrightarrow> grantView s' = grantView s"
  by (auto simp: changePassword_def updatePasswordHash_def dest: view_updateAccount split: option.splits)

lemma view_logout [simp]: "grantView (logout s u) = grantView s"
  by (simp add: logout_def clearRefreshTokenHash_def view_setAcore)


section \<open>The operations as one system\<close>

text \<open>
  The clock, the generated ids and the random tokens are part of the operation. An operation that is refused leaves
  the accounts as they were; one whose later step fails leaves what its earlier steps wrote.
\<close>

datatype account_op =
    Register int string string string "string option"
  | Login int string string
  | Refresh int string string
  | ChangePassword string string string
  | Logout string
  | RequestReset int string string string "email_purpose option" "string option"
  | ResetPassword int "nat \<Rightarrow> string" string string
  | InviteOwner int "string \<Rightarrow> nat \<Rightarrow> string" string string string string string string
  | LinkUser int "string \<Rightarrow> nat \<Rightarrow> string" string string string string
  | ActivateGrant int "string \<Rightarrow> nat \<Rightarrow> string" string string string string string "string option"
  | DisableGrant int "string \<Rightarrow> nat \<Rightarrow> string" string string string string "string option"
  | ResendInvite int "string \<Rightarrow> nat \<Rightarrow> string" string "string option" string string string

primrec account_exec :: "auth_env \<Rightarrow> account_op \<Rightarrow> accounts \<Rightarrow> accounts res" where
  "account_exec env (Register now i e p n) s = map_sum id snd (register env s now i e p n)"
| "account_exec env (Login now e p) s = map_sum id snd (login env s now e p)"
| "account_exec env (Refresh now u t) s = map_sum id snd (refresh env s now u t)"
| "account_exec env (ChangePassword u p q) s = changePassword env s u p q"
| "account_exec env (Logout u) s = Inr (logout s u)"
| "account_exec env (RequestReset now i t e p b) s = Inr (snd (requestPasswordReset env s now i t e p b))"
| "account_exec env (ResetPassword now ids t p) s = resetPassword env s now ids t p"
| "account_exec env (InviteOwner now ids t pw a org w e) s = map_sum id snd (createPendingInvite env s now ids t pw a org w e)"
| "account_exec env (LinkUser now ids a org w u) s = map_sum id snd (linkExistingUser env s now ids a org w u)"
| "account_exec env (ActivateGrant now ids a org w g u m) s =
     map_sum id snd (activatePendingGrant env s now ids a org w g u m)"
| "account_exec env (DisableGrant now ids a org w g m) s = map_sum id snd (disableGrant env s now ids a org w g m)"
| "account_exec env (ResendInvite now ids t a org w g) s = map_sum id snd (resendInvite env s now ids t a org w g)"

lemma map_sum_Inr: "map_sum f g r = Inr y \<Longrightarrow> \<exists>x. r = Inr x \<and> y = g x"
  by (cases r) auto

lemmas grant_operation_steps = createPendingInvite_steps linkExistingUser_steps activatePendingGrant_steps disableGrant_steps
  resendInvite_steps

lemmas session_views = view_register view_login view_refresh view_changePassword

lemma account_exec_steps:
  assumes "account_exec env op s = Inr s'" and "grantInv (grantView s)"
  shows "gstep\<^sup>*\<^sup>* (grantView s) (grantView s')"
  using assms by (cases op) (auto dest!: map_sum_Inr session_views intro: grant_operation_steps resetPassword_steps)

definition accountInv :: "accounts \<Rightarrow> bool" where
  "accountInv s \<longleftrightarrow> grantInv (grantView s)"

definition accountKept :: "accounts \<Rightarrow> accounts \<Rightarrow> bool" where
  "accountKept s s' \<longleftrightarrow> grantKept (grantView s) (grantView s')"

interpretation account_system: guarded_system "account_exec env" accountInv accountKept for env
proof
  show "accountInv s \<Longrightarrow> account_exec env op s = Inr s' \<Longrightarrow> accountInv s'" for s op s'
    unfolding accountInv_def by (blast intro: gsteps_inv account_exec_steps)
  show "accountInv s \<Longrightarrow> account_exec env op s = Inr s' \<Longrightarrow> accountKept s s'" for s op s'
    unfolding accountInv_def accountKept_def by (blast intro: gsteps_kept account_exec_steps)
  show "accountKept s s" for s by (simp add: accountKept_def grantKept_refl)
  show "accountKept s t \<Longrightarrow> accountKept t v \<Longrightarrow> accountKept s v" for s t v
    unfolding accountKept_def by (rule grantKept_trans)
qed

end
