(* ===== verification/GrantTheorems.thy ===== *)
theory GrantTheorems
  imports DeliveryTheorems AccountMachine
begin

text \<open>
  Theorems about accounts and about the access of users to owners: the invariant of the grants over any sequence of
  operations, what a password reset leaves behind, and the invitation that can no longer be accepted.
\<close>

section \<open>A concrete state\<close>

definition fx_authEnv :: auth_env where
  "fx_authEnv = \<lparr> ae_delivery = fx_env, ae_hash = (\<lambda>p. ''#'' @ p), ae_verify = (\<lambda>h p. h = ''#'' @ p),
     ae_signAccess = (\<lambda>n i e org. ''a'' @ i), ae_signRefresh = (\<lambda>n i. ''r'' @ i), ae_publicRegisterEnabled = False,
     ae_resetTtlMinutes = 60 \<rparr>"

definition fx_audit :: grant_audit where
  "fx_audit = \<lparr> ga_grantId = ''g1'', ga_ownerId = ''w1'', ga_actorUserId = Some ''mgr'', ga_action = GA_LINKED,
     ga_fromStatus = None, ga_toStatus = GR_ACTIVE, ga_userId = Some ''own'', ga_inviteEmail = None,
     ga_verificationMethod = Some ''ADMIN_LINK'', ga_createdAt = 1 \<rparr>"

definition fx_accounts :: accounts where
  "fx_accounts = \<lparr> ax_delivery = fx_delivery, ax_grantAudits = [fx_audit] \<rparr>"

definition fx_newIds :: "string \<Rightarrow> nat \<Rightarrow> string" where
  "fx_newIds table k = ''x''"

definition fx_resetToken :: "string \<Rightarrow> email_purpose \<Rightarrow> reset_token" where
  "fx_resetToken u p = \<lparr> pw_userId = u, pw_tokenHash = ''hk'', pw_purpose = p, pw_expiresAt = 100, pw_usedAt = None \<rparr>"

lemma core_tellUser [simp]: "acore (snd (tellUser env now ids org u ty title body d s)) = acore s"
  by (auto simp: tellUser_def dest: core_createForUsers split: prod.splits)

lemma core_auditGrant [simp]: "acore (auditGrant s now g actor action from) = acore s"
  by (simp add: auditGrant_def createGrantAudit_def)

lemma snd_withGrant [simp]: "snd (withGrant g r) = snd r"
  by (simp add: withGrant_def)

section \<open>One representative\<close>

lemma inv_one_active:
  assumes "grantInv (gs, as)"
  shows "length (filter (\<lambda>g. og_ownerId g = w \<and> og_status g = GR_ACTIVE) gs) \<le> 1"
proof (rule ccontr)
  let ?xs = "filter (\<lambda>g. og_ownerId g = w \<and> og_status g = GR_ACTIVE) gs"
  assume "\<not> length ?xs \<le> 1"
  then obtain g h zs where xs: "?xs = g # h # zs" 
    by (cases ?xs rule: remdups_adj.cases) simp_all
  have "distinct (map og_id ?xs)" using assms by (simp add: grantInv_def distinct_map_filter)
  then have "og_id g \<noteq> og_id h" by (simp add: xs)
  moreover have "g \<in> set ?xs" "h \<in> set ?xs" by (simp_all add: xs)
  ultimately show False using assms by (auto simp: grantInv_def grantsClash_def)
qed

text \<open>
  C11. Whatever operations on accounts and grants run, in whatever order and also when some of them are refused or fail
  half way: an owner never has two active grants, a grant that was disabled is never opened again and an active one never
  goes back to pending, no audit row is lost, and the last audit row of a grant names the status the grant has.
\<close>

theorem one_active_representative:
  assumes "accountInv s" and "s' = run_ops (account_exec env) ops s"
  shows "(\<forall>w. length (filter (\<lambda>g. og_ownerId g = w \<and> og_status g = GR_ACTIVE) (ownerGrants (acore s'))) \<le> 1)
    \<and> (\<forall>g \<in> set (ownerGrants (acore s)). \<exists>g' \<in> set (ownerGrants (acore s')).
         og_id g' = og_id g \<and> og_ownerId g' = og_ownerId g
         \<and> (og_status g = GR_DISABLED \<longrightarrow> og_status g' = GR_DISABLED)
         \<and> (og_status g = GR_ACTIVE \<longrightarrow> og_status g' \<noteq> GR_PENDING))
    \<and> (\<exists>new. ax_grantAudits s' = ax_grantAudits s @ new)
    \<and> (\<forall>g \<in> set (ownerGrants (acore s')). lastStatus (ax_grantAudits s') (og_id g) = Some (og_status g))"
proof -
  have inv: "grantInv (ownerGrants (acore s'), ax_grantAudits s')"
    using account_system.run_inv [OF assms(1)] assms(2) by (simp add: accountInv_def grantView_def)
  have "grantKept (grantView s) (grantView s')"
    using account_system.run_allowed [OF assms(1)] assms(2) by (simp add: accountKept_def)
  then have "\<forall>g \<in> set (ownerGrants (acore s)). \<exists>g' \<in> set (ownerGrants (acore s')).
         og_id g' = og_id g \<and> og_ownerId g' = og_ownerId g \<and> mayMove (og_status g) (og_status g')"
    and "\<exists>new. ax_grantAudits s' = ax_grantAudits s @ new"
    by (simp_all add: grantKept_def grantView_def)
  moreover have "mayMove GR_DISABLED t \<Longrightarrow> t = GR_DISABLED" "mayMove GR_ACTIVE t \<Longrightarrow> t \<noteq> GR_PENDING" for t
    by simp_all
  ultimately show ?thesis
    using inv_one_active [OF inv] inv by (auto simp: grantInv_def; metis)
qed

definition fx_grantOps :: "account_op list" where
  "fx_grantOps = [DisableGrant 5 fx_newIds ''mgr'' ''o1'' ''w1'' ''g1'' None, LinkUser 6 fx_newIds ''mgr'' ''o1'' ''w1'' ''pro'']"

lemma fx_account_inv: "accountInv fx_accounts"
  by (simp add: accountInv_def grantView_def grantInv_def fx_accounts_def fx_delivery_def fx0_def fx_grant_def fx_audit_def
      grantSound_def lastStatus_def)

lemma fx0_tables:
  "owners fx0 = [\<lparr>ow_id = ''w1'', ow_orgId = ''o1'', ow_name = ''Olga'', ow_isActive = True\<rparr>]" "ownerGrants fx0 = [fx_grant]"
  "users fx0 = fx_users"
  by (simp_all add: fx0_def)

definition fx_disabled :: owner_grant where
  "fx_disabled = fx_grant\<lparr> og_status := GR_DISABLED, og_disabledAt := Some 5, og_disabledByUserId := Some ''mgr'' \<rparr>"

lemma fx_disable:
  "\<exists>s1. account_exec fx_authEnv (DisableGrant 5 fx_newIds ''mgr'' ''o1'' ''w1'' ''g1'' None) fx_accounts = Inr s1
     \<and> acore s1 = fx0\<lparr> ownerGrants := [fx_disabled] \<rparr>"
  by (simp add: fx_accounts_def fx_delivery_def disableGrant_def assertGrantOwnerInOrg_def findGrantOfOwner_def writeGrant_def
      setAcore_def fx0_tables fx_grant_def fx_disabled_def modify_by_def Let_def)

definition fx_linked :: owner_grant where
  "fx_linked = activeGrantRow 6 ''x'' ''w1'' ''pro'' ''mgr'' ''ADMIN_LINK''"

lemma fx_link_guards:
  assumes "owners (acore s) = owners fx0" and "users (acore s) = fx_users" and "ownerGrants (acore s) = [fx_disabled]"
  shows "\<exists>w. linkExistingUser env s 6 ids ''mgr'' ''o1'' ''w1'' ''pro'' = createActiveGrant env s 6 ids ''mgr'' w ''pro'' ''ADMIN_LINK''
    \<and> ow_id w = ''w1''"
  by (intro exI [of _ "hd (owners fx0)"])
    (simp add: assms linkExistingUser_def assertGrantOwnerInOrg_def assertOwnerActive_def assertOwnerHasNoActiveGrant_def
      assertNoOpenGrantForPair_def requireActiveUser_def assertPasswordSetupComplete_def openGrant_def
      fx0_tables fx_users_def fx_account_def fx_grant_def fx_disabled_def)

lemma fx_link_row:
  assumes "owners (acore s) = owners fx0" and "users (acore s) = fx_users" and "ownerGrants (acore s) = [fx_disabled]"
  shows "createGrantRow s fx_linked = Inr (setAcore (\<lambda>d. d\<lparr> ownerGrants := ownerGrants d @ [fx_linked] \<rparr>) s)"
  by (simp add: createGrantRow_def assms grantsClash_def openGrant_def fx_linked_def activeGrantRow_def fx_disabled_def
      fx_grant_def fx0_tables fx_users_def fx_account_def)

lemma fx_link:
  assumes "acore s = fx0\<lparr> ownerGrants := [fx_disabled] \<rparr>"
  shows "\<exists>s1. account_exec fx_authEnv (LinkUser 6 fx_newIds ''mgr'' ''o1'' ''w1'' ''pro'') s = Inr s1
     \<and> map og_status (ownerGrants (acore s1)) = [GR_DISABLED, GR_ACTIVE]"
proof -
  have t: "owners (acore s) = owners fx0" "users (acore s) = fx_users" "ownerGrants (acore s) = [fx_disabled]"
    by (simp_all add: assms fx0_tables)
  obtain w where w: "linkExistingUser fx_authEnv s 6 fx_newIds ''mgr'' ''o1'' ''w1'' ''pro''
      = createActiveGrant fx_authEnv s 6 fx_newIds ''mgr'' w ''pro'' ''ADMIN_LINK''" "ow_id w = ''w1''"
    using fx_link_guards [OF t] by blast
  have g: "activeGrantRow 6 (fx_newIds ''OwnerAccessGrant'' 0) (ow_id w) ''pro'' ''mgr'' ''ADMIN_LINK'' = fx_linked"
    by (simp add: fx_linked_def fx_newIds_def w(2))
  have "og_status fx_disabled = GR_DISABLED" "og_status fx_linked = GR_ACTIVE"
    by (simp_all add: fx_disabled_def fx_linked_def activeGrantRow_def)
  then show ?thesis by (simp add: w(1) createActiveGrant_def g fx_link_row [OF t] tellGranted_def Let_def t(3))
qed

lemma fx_grant_run:
  "map og_status (ownerGrants (acore (run_ops (account_exec fx_authEnv) fx_grantOps fx_accounts))) = [GR_DISABLED, GR_ACTIVE]"
proof -
  obtain s1 where s1: "account_exec fx_authEnv (DisableGrant 5 fx_newIds ''mgr'' ''o1'' ''w1'' ''g1'' None) fx_accounts = Inr s1"
    and c: "acore s1 = fx0\<lparr> ownerGrants := [fx_disabled] \<rparr>" using fx_disable by (elim exE conjE)
  obtain s2 where "account_exec fx_authEnv (LinkUser 6 fx_newIds ''mgr'' ''o1'' ''w1'' ''pro'') s1 = Inr s2"
    "map og_status (ownerGrants (acore s2)) = [GR_DISABLED, GR_ACTIVE]" using fx_link [OF c] by (elim exE conjE)
  then show ?thesis by (simp add: fx_grantOps_def s1 del: account_exec.simps)
qed

theorem one_active_representative_witness:
  "length (filter (\<lambda>g. og_ownerId g = ''w1'' \<and> og_status g = GR_ACTIVE)
       (ownerGrants (acore (run_ops (account_exec fx_authEnv) fx_grantOps fx_accounts)))) \<le> 1
     \<and> map og_status (ownerGrants (acore (run_ops (account_exec fx_authEnv) fx_grantOps fx_accounts))) = [GR_DISABLED, GR_ACTIVE]"
  using conjunct1 [OF one_active_representative [OF fx_account_inv refl, of fx_authEnv fx_grantOps]] fx_grant_run
  by (intro conjI) (rule spec, assumption)+


section \<open>Resetting a password\<close>

lemma acceptGrant_rest:
  assumes "acceptGrant now n u g s = Inr s'"
  shows "users (acore s') = users (acore s) \<and> dl_resetTokens (ax_delivery s') = dl_resetTokens (ax_delivery s)"
  using assms
  by (auto simp: acceptGrant_def createGrantAudit_def writeGrant_def setAcore_def Let_def dest!: created_Inr split: if_splits)

lemma acceptGrants_rest:
  "acceptGrants now ids k u gs s = Inr s'
    \<Longrightarrow> users (acore s') = users (acore s) \<and> dl_resetTokens (ax_delivery s') = dl_resetTokens (ax_delivery s)"
  by (induction gs arbitrary: k s) (auto dest!: acceptGrant_rest)

lemma reset_writes:
  assumes "resetPasswordByToken s now ids h p = Inr (True, s')" and "find_by pw_tokenHash h (dl_resetTokens (ax_delivery s)) = Some t"
  shows "users (acore s') = modify_by us_id (pw_userId t) (newPassword p) (users (acore s))"
    and "dl_resetTokens (ax_delivery s') = filter (\<lambda>x. pw_userId x \<noteq> pw_userId t \<or> pw_tokenHash x = h)
      (modify_by pw_tokenHash h (\<lambda>x. x\<lparr> pw_usedAt := Some now \<rparr>) (dl_resetTokens (ax_delivery s)))"
    and "usableToken (acore s) now t"
proof -
  from assms obtain s1 s3 where u: "updateAccount s (pw_userId t) (newPassword p) = Inr s1" and "usableToken (acore s) now t"
    and a: "acceptGrants now ids 0 (pw_userId t) (invitedGrants t (acore s1)) (s1\<lparr> ax_delivery := spendToken now t (ax_delivery s1) \<rparr>) = Inr s3"
    and s': "s' = closeReset now t s3" by (auto elim!: reset_Inr)
  then show "usableToken (acore s) now t" by simp
  have h: "pw_tokenHash t = h" using assms(2) find_by_SomeD by metis
  have u1: "users (acore s1) = modify_by us_id (pw_userId t) (newPassword p) (users (acore s))"
    "dl_resetTokens (ax_delivery s1) = dl_resetTokens (ax_delivery s)"
    using u by (auto simp: updateAccount_def setAcore_def split: if_splits)
  show "users (acore s') = modify_by us_id (pw_userId t) (newPassword p) (users (acore s))"
    using acceptGrants_rest [OF a] u1(1) by (simp add: s' closeReset_def activateProviderGrants_def Let_def)
  show "dl_resetTokens (ax_delivery s') = filter (\<lambda>x. pw_userId x \<noteq> pw_userId t \<or> pw_tokenHash x = h)
      (modify_by pw_tokenHash h (\<lambda>x. x\<lparr> pw_usedAt := Some now \<rparr>) (dl_resetTokens (ax_delivery s)))"
    using acceptGrants_rest [OF a] u1(2)
    by (simp add: s' closeReset_def spendToken_def acceptInvites_def setAcore_def h Let_def)
qed

lemma findByEmail_newPassword:
  assumes "users s' = modify_by us_id i (newPassword p) (users s)"
  shows "findByEmail s' e = map_option (\<lambda>x. if us_id x = i then newPassword p x else x) (findByEmail s e)"
  unfolding findByEmail_def assms modify_by_def by (rule find_map_kept) simp

lemma find_user_newPassword:
  assumes "users s' = modify_by us_id i (newPassword p) (users s)" and "find_by us_id i (users s) = Some x"
  shows "find_by us_id i (users s') = Some (newPassword p x)"
  using assms(2) by (simp add: assms(1) find_by_modify_by)

text \<open>
  C13. After a password was reset by a token sent by mail, the same token is refused at any later time, no other token of
  that user works any more, the session the user had can not be refreshed, and the user logs in with the new password.
  The last part rests on what argon2 promises: a password matches its own hash.
\<close>

theorem reset_token_works_once:
  assumes "resetPassword env s now ids token p = Inr s'"
    and "find_by pw_tokenHash (en_hash (ae_delivery env) (trim token)) (dl_resetTokens (ax_delivery s)) = Some t"
    and "findByEmail (acore s) (normalizeEmail email) = Some x" and "us_id x = pw_userId t"
    and "distinct (map us_id (users (acore s)))" and "ae_verify env (ae_hash env p) p"
  shows "resetPassword env s' later ids' token q = Inl (Unauthorized ''Invalid or expired reset token'')
    \<and> (\<forall>t' \<in> set (dl_resetTokens (ax_delivery s')). pw_userId t' = us_id x \<longrightarrow> \<not> usableToken (acore s') later t')
    \<and> refresh env s' later (us_id x) oldRefreshToken = Inl (Unauthorized ''Refresh token invalid'')
    \<and> (\<exists>ts s''. login env s' later email p = Inr (ts, s''))"
proof -
  let ?h = "en_hash (ae_delivery env) (trim token)"
  from assms(1) have r: "resetPasswordByToken s now ids ?h (ae_hash env p) = Inr (True, s')"
    by (auto simp: resetPassword_def)
  note w = reset_writes [OF r assms(2)]
  have x: "find_by us_id (pw_userId t) (users (acore s)) = Some x" "us_isActive x"
  proof -
    have "x \<in> set (users (acore s))" using assms(3) by (auto simp: findByEmail_def dest: find_SomeD)
    then show "find_by us_id (pw_userId t) (users (acore s)) = Some x"
      using find_by_distinct [OF assms(5)] assms(4) by metis
    then show "us_isActive x" using w(3) by (simp add: usableToken_def)
  qed
  have spent: "pw_usedAt t' \<noteq> None"
    if "t' \<in> set (dl_resetTokens (ax_delivery s'))" "pw_tokenHash t' = ?h \<or> pw_userId t' = pw_userId t" for t'
    using that by (auto simp: w(2) modify_by_def)
  have "\<not> usableToken (acore s') later t'"
    if "find_by pw_tokenHash ?h (dl_resetTokens (ax_delivery s')) = Some t'" for t'
    using find_by_SomeD [OF that] spent [of t'] by (auto simp: usableToken_def)
  then have "resetPassword env s' later ids' token q = Inl (Unauthorized ''Invalid or expired reset token'')"
    by (simp add: resetPassword_def resetPasswordByToken_def split: option.split)
  moreover have "\<forall>t' \<in> set (dl_resetTokens (ax_delivery s')). pw_userId t' = us_id x \<longrightarrow> \<not> usableToken (acore s') later t'"
    using spent assms(4) by (auto simp: usableToken_def)
  moreover have f: "find_by us_id (us_id x) (users (acore s')) = Some (newPassword (ae_hash env p) x)"
    using find_user_newPassword [OF w(1) x(1)] assms(4) by simp
  moreover have "findByEmail (acore s') (normalizeEmail email) = Some (newPassword (ae_hash env p) x)"
    using findByEmail_newPassword [OF w(1)] assms(3,4) by simp
  ultimately show ?thesis
    using x(2) assms(6)
    by (simp add: refresh_def login_def startSession_def saveRefreshToken_def updateRefreshTokenHash_def updateAccount_def Let_def)
qed

definition fx_forgotten :: accounts where
  "fx_forgotten = fx_accounts\<lparr> ax_delivery := fx_delivery\<lparr> dl_resetTokens := [fx_resetToken ''res'' PASSWORD_RESET] \<rparr> \<rparr>"

lemma fx_res: "find_by us_id ''res'' fx_users = Some (fx_account ''res'' (Some ''o1''))"
  by (simp add: fx_users_def fx_account_def)

lemma fx_trim: "trim ''k'' = ''k''"
  by code_simp

lemma fx_reset_run: "\<exists>s'. resetPassword fx_authEnv fx_forgotten 50 (\<lambda>k. ''n'') ''k'' ''pw'' = Inr s'"
  by (simp add: resetPassword_def resetPasswordByToken_def fx_forgotten_def fx_accounts_def fx_delivery_def fx_authEnv_def
      fx_env_def fx_resetToken_def usableToken_def fx0_tables fx_res updateAccount_def invitedGrants_def Let_def)
    (auto simp: fx_account_def fx_trim)

theorem reset_token_works_once_witness:
  "\<exists>s' ts s''. resetPassword fx_authEnv fx_forgotten 50 (\<lambda>k. ''n'') ''k'' ''pw'' = Inr s'
     \<and> login fx_authEnv s' 60 ''res@x'' ''pw'' = Inr (ts, s'')
     \<and> resetPassword fx_authEnv s' 60 (\<lambda>k. ''m'') ''k'' ''qq'' = Inl (Unauthorized ''Invalid or expired reset token'')"
proof -
  obtain s' where s': "resetPassword fx_authEnv fx_forgotten 50 (\<lambda>k. ''n'') ''k'' ''pw'' = Inr s'"
    using fx_reset_run by (elim exE)
  have t: "find_by pw_tokenHash (en_hash (ae_delivery fx_authEnv) (trim ''k'')) (dl_resetTokens (ax_delivery fx_forgotten))
      = Some (fx_resetToken ''res'' PASSWORD_RESET)"
    by (simp add: fx_forgotten_def fx_authEnv_def fx_env_def fx_resetToken_def fx_trim)
  have e: "findByEmail (acore fx_forgotten) (normalizeEmail ''res@x'') = Some (fx_account ''res'' (Some ''o1''))"
    by (simp add: fx_forgotten_def fx_delivery_def fx0_tables) code_simp
  have d: "distinct (map us_id (users (acore fx_forgotten)))"
    by (simp add: fx_forgotten_def fx_delivery_def fx0_tables fx_users_def fx_account_def)
  have u: "us_id (fx_account ''res'' (Some ''o1'')) = pw_userId (fx_resetToken ''res'' PASSWORD_RESET)"
    by (simp add: fx_account_def fx_resetToken_def)
  have v: "ae_verify fx_authEnv (ae_hash fx_authEnv ''pw'') ''pw''" by (simp add: fx_authEnv_def)
  from reset_token_works_once [OF s' t e u d v, of 60 "\<lambda>k. ''m''" "''qq''"] s' show ?thesis by blast
qed


section \<open>The invitation that can not be accepted\<close>

lemma linked_row:
  assumes "linkExistingUser env s now ids actor org w u = Inr (r, s1)"
  obtains h where "ownerGrants (acore s1) = ownerGrants (acore s) @ [h]" and "og_ownerId h = w" and "og_status h = GR_ACTIVE"
    and "og_id h \<notin> og_id ` set (ownerGrants (acore s))"
proof -
  from assms obtain wr and x :: user_row where g: "createActiveGrant env s now ids actor wr (us_id x) ''ADMIN_LINK'' = Inr (r, s1)" and wr: "ow_id wr = w"
    by (auto simp: linkExistingUser_def assertGrantOwnerInOrg_def dest: find_SomeD)
  let ?h = "activeGrantRow now (ids ''OwnerAccessGrant'' 0) (ow_id wr) (us_id x) actor ''ADMIN_LINK''"
  from g obtain s2 where c: "createGrantRow s ?h = Inr s2" and s1: "acore s1 = acore s2"
    by (auto simp: createActiveGrant_def tellGranted_def withGrant_def Let_def)
  from c have "ownerGrants (acore s2) = ownerGrants (acore s) @ [?h]" "og_id ?h \<notin> og_id ` set (ownerGrants (acore s))"
    by (auto simp: createGrantRow_def list_ex_iff split: if_splits)
  then show ?thesis by (intro that [of ?h]) (simp_all add: s1 activeGrantRow_def wr)
qed

lemma reset_of_invitation:
  assumes "find_by pw_tokenHash h (dl_resetTokens (ax_delivery s)) = Some t" and "usableToken (acore s) now t"
    and "invitedGrants t (acore s) = [g]" and "k \<in> set (ownerGrants (acore s))" and "og_id k \<noteq> og_id g"
    and "og_ownerId k = og_ownerId g" and "og_status k = GR_ACTIVE"
  shows "resetPasswordByToken s now ids h p = Inl UniqueViolation"
proof -
  have u: "find_by us_id (pw_userId t) (users (acore s)) \<noteq> None" using assms(2) by (auto simp: usableToken_def split: option.splits)
  have k: "\<exists>x \<in> set (ownerGrants (acore s)). og_id x \<noteq> og_id g \<and> og_ownerId g = og_ownerId x \<and> og_status x = GR_ACTIVE"
    using assms(4-7) by (intro bexI [of _ k]) simp_all
  have i: "invitedGrants t (acore s\<lparr> users := us \<rparr>) = [g]" for us
    using assms(3) by (simp add: invitedGrants_def split: if_splits)
  show ?thesis
    using k
    by (auto simp: resetPasswordByToken_def assms(1,2) updateAccount_def u i acceptGrant_def writeGrant_def list_ex_iff
        grantsClash_def Let_def)
qed

text \<open>
  C18. An owner was invited by mail and, before the invitation is accepted, an admin links another user to the same owner.
  The link is allowed (it only asks that no grant is active), but from then on setting the password from the invitation fails:
  the index of one active grant per owner refuses the write, the transaction is undone and the caller gets the error of the
  database. The invited user can not set a password by that token at all.
\<close>

theorem linked_user_blocks_invitation:
  assumes "linkExistingUser env s now ids actor org w u = Inr (r, s1)"
    and "find_by pw_tokenHash (en_hash (ae_delivery env) (trim token)) (dl_resetTokens (ax_delivery s1)) = Some t"
    and "usableToken (acore s1) later t" and "invitedGrants t (acore s1) = [g]" and "og_ownerId g = w"
  shows "resetPassword env s1 later ids' token p = Inl UniqueViolation"
proof -
  obtain h where h: "ownerGrants (acore s1) = ownerGrants (acore s) @ [h]" "og_ownerId h = w" "og_status h = GR_ACTIVE"
    "og_id h \<notin> og_id ` set (ownerGrants (acore s))"
    using assms(1) by (rule linked_row)
  have "g \<in> set (invitedGrants t (acore s1))" by (simp add: assms(4))
  then have "g \<in> set (ownerGrants (acore s1))" "og_status g = GR_PENDING" by (auto simp: invitedGrants_def split: if_splits)
  with h have "og_id h \<noteq> og_id g" by auto
  then have "resetPasswordByToken s1 later ids' (en_hash (ae_delivery env) (trim token)) (ae_hash env p) = Inl UniqueViolation"
    by (intro reset_of_invitation [OF assms(2-4), of h]) (simp_all add: h assms(5))
  then show ?thesis by (simp add: resetPassword_def)
qed

definition fx_invited :: accounts where
  "fx_invited =
     fx_accounts\<lparr> ax_delivery := fx_delivery\<lparr> dl_resetTokens := [fx_resetToken ''res'' OWNER_INVITE],
       dl_core := fx0\<lparr> ownerGrants := [pendingGrantRow 2 ''g2'' ''w1'' ''res'' ''mgr'' ''res@x''] \<rparr> \<rparr> \<rparr>"

lemma fx_invited_tables:
  "owners (acore fx_invited) = owners fx0" "users (acore fx_invited) = fx_users"
  "ownerGrants (acore fx_invited) = [pendingGrantRow 2 ''g2'' ''w1'' ''res'' ''mgr'' ''res@x'']"
  "dl_resetTokens (ax_delivery fx_invited) = [fx_resetToken ''res'' OWNER_INVITE]"
  by (simp_all add: fx_invited_def fx0_tables)

lemma tokens_published [simp]: "dl_resetTokens (publishCreatedNotifications org ns s) = dl_resetTokens s"
  by (induction ns arbitrary: s) (simp_all add: publish_def)

lemma tokens_tellUser:
  assumes "en_pushProvider (ae_delivery env) = ''noop''"
  shows "dl_resetTokens (ax_delivery (snd (tellUser env now ids org u ty title body d s))) = dl_resetTokens (ax_delivery s)"
  by (simp add: tellUser_def createForUsers_def queuePushForNotificationBatch_def sendToUsers_def assms
      Let_def split: prod.split option.split)

theorem linked_user_blocks_invitation_witness:
  "\<exists>r s1. linkExistingUser fx_authEnv fx_invited 6 fx_newIds ''mgr'' ''o1'' ''w1'' ''pro'' = Inr (r, s1)
     \<and> resetPassword fx_authEnv s1 50 (\<lambda>k. ''n'') ''k'' ''pw'' = Inl UniqueViolation"
proof -
  have g: "linkExistingUser fx_authEnv fx_invited 6 fx_newIds ''mgr'' ''o1'' ''w1'' ''pro''
      = createActiveGrant fx_authEnv fx_invited 6 fx_newIds ''mgr'' (hd (owners fx0)) ''pro'' ''ADMIN_LINK''"
    by (simp add: linkExistingUser_def assertGrantOwnerInOrg_def assertOwnerActive_def assertOwnerHasNoActiveGrant_def
        assertNoOpenGrantForPair_def requireActiveUser_def assertPasswordSetupComplete_def openGrant_def
        fx_invited_tables fx0_tables fx_users_def fx_account_def pendingGrantRow_def)
  have c: "createGrantRow fx_invited fx_linked = Inr (setAcore (\<lambda>d. d\<lparr> ownerGrants := ownerGrants d @ [fx_linked] \<rparr>) fx_invited)"
    by (simp add: createGrantRow_def fx_invited_tables grantsClash_def openGrant_def fx_linked_def activeGrantRow_def
        pendingGrantRow_def fx0_tables fx_users_def fx_account_def)
  have i: "activeGrantRow 6 (fx_newIds ''OwnerAccessGrant'' 0) ''w1'' ''pro'' ''mgr'' ''ADMIN_LINK'' = fx_linked"
    by (simp add: fx_linked_def fx_newIds_def)
  define q where "q = tellGranted fx_authEnv 6 fx_newIds (hd (owners fx0)) ''pro'' (og_id fx_linked)
    (auditGrant (setAcore (\<lambda>d. d\<lparr> ownerGrants := ownerGrants d @ [fx_linked] \<rparr>) fx_invited) 6 fx_linked (Some ''mgr'') GA_LINKED None)"
  have l: "linkExistingUser fx_authEnv fx_invited 6 fx_newIds ''mgr'' ''o1'' ''w1'' ''pro'' = Inr (fst (withGrant fx_linked q), snd q)"
    unfolding g by (simp add: createActiveGrant_def fx0_tables i c q_def Let_def withGrant_def)
  have core: "users (acore (snd q)) = fx_users" "ownerGrants (acore (snd q)) = ownerGrants (acore fx_invited) @ [fx_linked]"
    by (simp_all add: q_def tellGranted_def fx_invited_tables)
  have "en_pushProvider (ae_delivery fx_authEnv) = ''noop''" by (simp add: fx_authEnv_def fx_env_def)
  then have tok: "dl_resetTokens (ax_delivery (snd q)) = [fx_resetToken ''res'' OWNER_INVITE]"
    by (simp add: q_def tellGranted_def tokens_tellUser auditGrant_def createGrantAudit_def setAcore_def fx_invited_tables)
  have t: "find_by pw_tokenHash (en_hash (ae_delivery fx_authEnv) (trim ''k'')) (dl_resetTokens (ax_delivery (snd q)))
      = Some (fx_resetToken ''res'' OWNER_INVITE)"
    by (simp add: tok fx_authEnv_def fx_env_def fx_resetToken_def fx_trim)
  have us: "usableToken (acore (snd q)) 50 (fx_resetToken ''res'' OWNER_INVITE)"
    using fx_res by (simp add: usableToken_def fx_resetToken_def core(1)) (simp add: fx_account_def)
  have inv: "invitedGrants (fx_resetToken ''res'' OWNER_INVITE) (acore (snd q)) = [pendingGrantRow 2 ''g2'' ''w1'' ''res'' ''mgr'' ''res@x'']"
    by (simp add: invitedGrants_def core(2) fx_invited_tables fx_resetToken_def pendingGrantRow_def fx_linked_def activeGrantRow_def)
  have "og_ownerId (pendingGrantRow 2 ''g2'' ''w1'' ''res'' ''mgr'' ''res@x'') = ''w1''" by (simp add: pendingGrantRow_def)
  from linked_user_blocks_invitation [OF l t us inv this, of "\<lambda>k. ''n''" "''pw''"] l show ?thesis by blast
qed

end
