(* ===== verification/Messaging.thy ===== *)
theory Messaging
  imports RequestOwner Notifications
begin

text \<open>
  Conversations between residents, owners and the management: \<^verbatim>\<open>conversation-classification.ts\<close>,
  \<^verbatim>\<open>messaging.repo.ts\<close> and \<^verbatim>\<open>messaging.service.ts\<close>. The routes pass the id of the caller and, for the routes of
  an organisation, the organisation of the access token. A query without an order gives the rows in the order of the
  table; \<open>collate\<close> gives the sort keys of \<^verbatim>\<open>localeCompare\<close>; a cursor is the pair it encodes, and one that does
  not decode is the inner \<open>None\<close>.

  Creating a conversation or a message and telling the others are separate steps without a transaction around them:
  the operations return the new state with the result, or with the error that telling the others raised.
\<close>

section \<open>Tables\<close>

datatype conversation_type = MANAGEMENT_INTERNAL | MANAGEMENT_TENANT | MANAGEMENT_OWNER | OWNER_TENANT
datatype counterparty_group = GROUP_STAFF | GROUP_TENANT | GROUP_OWNER | GROUP_MIXED

record conversation =
  cv_id :: string
  cv_orgId :: string
  cv_buildingId :: "string option"
  cv_type :: conversation_type
  cv_counterpartyGroup :: counterparty_group
  cv_subject :: "string option"
  cv_createdAt :: int
  cv_updatedAt :: int

record participant_row =
  cp_conversationId :: string
  cp_userId :: string
  cp_lastReadAt :: "int option"

record message_row =
  me_id :: string
  me_conversationId :: string
  me_senderUserId :: string
  me_content :: string
  me_createdAt :: int

record messaging =
  mg_delivery :: delivery_db
  mg_conversations :: "conversation list"
  mg_participants :: "participant_row list"
  mg_messages :: "message_row list"

abbreviation mcore :: "messaging \<Rightarrow> db" where
  "mcore s \<equiv> dl_core (mg_delivery s)"

section \<open>Classification\<close>

fun getCounterpartyGroupForConversationType :: "conversation_type \<Rightarrow> counterparty_group" where
  "getCounterpartyGroupForConversationType MANAGEMENT_INTERNAL = GROUP_STAFF"
| "getCounterpartyGroupForConversationType MANAGEMENT_TENANT = GROUP_TENANT"
| "getCounterpartyGroupForConversationType MANAGEMENT_OWNER = GROUP_OWNER"
| "getCounterpartyGroupForConversationType OWNER_TENANT = GROUP_MIXED"

record role_buckets =
  rb_staffUserIds :: "string list"
  rb_tenantUserIds :: "string list"
  rb_ownerUserIds :: "string list"

definition inferConversationClassification :: "role_buckets \<Rightarrow> (conversation_type \<times> counterparty_group) option" where
  "inferConversationClassification b =
     (let hasStaff = rb_staffUserIds b \<noteq> []; hasTenant = rb_tenantUserIds b \<noteq> []; hasOwner = rb_ownerUserIds b \<noteq> []
      in if hasStaff \<and> \<not> hasTenant \<and> \<not> hasOwner then Some (MANAGEMENT_INTERNAL, GROUP_STAFF)
         else if hasStaff \<and> hasTenant \<and> \<not> hasOwner then Some (MANAGEMENT_TENANT, GROUP_TENANT)
         else if hasStaff \<and> hasOwner \<and> \<not> hasTenant then Some (MANAGEMENT_OWNER, GROUP_OWNER)
         else if \<not> hasStaff \<and> hasTenant \<and> hasOwner then Some (OWNER_TENANT, GROUP_MIXED)
         else None)"

section \<open>The repository: conversations and messages\<close>

record conversation_input =
  ci_orgId :: string
  ci_buildingId :: "string option"
  ci_type :: conversation_type
  ci_counterpartyGroup :: counterparty_group
  ci_subject :: "string option"
  ci_participantUserIds :: "string list"
  ci_senderUserId :: string
  ci_content :: string

text \<open>
  The nested create writes the conversation, its participants and its first message in one statement, which the unique
  index on conversation and user and the foreign keys of the users guard; then the sender's mark is set to the time
  of the first message. \<open>clk k\<close> is the k-th reading of the clock in the call: the three defaults of the rows are
  separate readings.
\<close>

definition createConversationRows ::
  "messaging \<Rightarrow> (nat \<Rightarrow> int) \<Rightarrow> string \<Rightarrow> string \<Rightarrow> conversation_input \<Rightarrow> (conversation \<times> message_row \<times> messaging) res" where
  "createConversationRows s clk cid mid i =
     (if find_by cv_id cid (mg_conversations s) \<noteq> None \<or> find_by me_id mid (mg_messages s) \<noteq> None
        \<or> \<not> distinct (ci_participantUserIds i)
      then Inl UniqueViolation
      else if list_ex (\<lambda>u. find_by us_id u (users (mcore s)) = None) (ci_senderUserId i # ci_participantUserIds i)
      then Inl RecordNotFound
      else let c = \<lparr> cv_id = cid, cv_orgId = ci_orgId i, cv_buildingId = ci_buildingId i, cv_type = ci_type i,
                     cv_counterpartyGroup = ci_counterpartyGroup i, cv_subject = ci_subject i, cv_createdAt = clk 0,
                     cv_updatedAt = clk 1 \<rparr>;
               m = \<lparr> me_id = mid, me_conversationId = cid, me_senderUserId = ci_senderUserId i,
                     me_content = ci_content i, me_createdAt = clk 2 \<rparr>;
               ps = map (\<lambda>u. \<lparr> cp_conversationId = cid, cp_userId = u,
                      cp_lastReadAt = (if u = ci_senderUserId i then Some (me_createdAt m) else None) \<rparr>) (ci_participantUserIds i)
           in Inr (c, m, s\<lparr> mg_conversations := mg_conversations s @ [c], mg_participants := mg_participants s @ ps,
                            mg_messages := mg_messages s @ [m] \<rparr>))"

definition isUserParticipant :: "messaging \<Rightarrow> string \<Rightarrow> string \<Rightarrow> bool" where
  "isUserParticipant s cid userId \<longleftrightarrow>
     list_ex (\<lambda>p. cp_conversationId p = cid \<and> cp_userId p = userId) (mg_participants s)"

definition participantsOf :: "messaging \<Rightarrow> string \<Rightarrow> participant_row list" where
  "participantsOf s cid = filter (\<lambda>p. cp_conversationId p = cid) (mg_participants s)"

definition messagesOf :: "messaging \<Rightarrow> string \<Rightarrow> message_row list" where
  "messagesOf s cid = filter (\<lambda>m. me_conversationId m = cid) (mg_messages s)"

definition findConversationByIdForUser :: "messaging \<Rightarrow> string \<Rightarrow> string \<Rightarrow> string \<Rightarrow> conversation option" where
  "findConversationByIdForUser s cid userId org =
     List.find (\<lambda>c. cv_id c = cid \<and> cv_orgId c = org \<and> isUserParticipant s (cv_id c) userId) (mg_conversations s)"

definition findConversationByIdForUserAcrossOrgs :: "messaging \<Rightarrow> string \<Rightarrow> string \<Rightarrow> conversation option" where
  "findConversationByIdForUserAcrossOrgs s cid userId =
     List.find (\<lambda>c. cv_id c = cid \<and> isUserParticipant s (cv_id c) userId) (mg_conversations s)"

text \<open>What a route returns with a conversation: the participants and the messages, oldest first.\<close>

definition conversationInclude :: "messaging \<Rightarrow> conversation \<Rightarrow> conversation \<times> participant_row list \<times> message_row list" where
  "conversationInclude s c = (c, participantsOf s (cv_id c), sort_key me_createdAt (messagesOf s (cv_id c)))"

text \<open>The filter on the kind of a conversation and its group.\<close>

record conversation_query =
  cq_type :: "conversation_type option"
  cq_counterpartyGroup :: "counterparty_group option"
  cq_limit :: "int option"
  cq_cursor :: "cursor option option"

definition conversation_key :: "conversation \<Rightarrow> cursor" where
  "conversation_key c = (cv_updatedAt c, cv_id c)"

definition conversationWhere :: "messaging \<Rightarrow> string \<Rightarrow> string option \<Rightarrow> conversation_query \<Rightarrow> conversation \<Rightarrow> bool" where
  "conversationWhere s userId org q c \<longleftrightarrow>
     (case org of None \<Rightarrow> True | Some i \<Rightarrow> cv_orgId c = i) \<and> isUserParticipant s (cv_id c) userId
     \<and> (case cq_type q of None \<Rightarrow> True | Some t \<Rightarrow> cv_type c = t)
     \<and> (case cq_counterpartyGroup q of None \<Rightarrow> True | Some g \<Rightarrow> cv_counterpartyGroup c = g)"

definition listConversationRows ::
  "messaging \<Rightarrow> string \<Rightarrow> string option \<Rightarrow> conversation_query \<Rightarrow> nat \<Rightarrow> cursor option \<Rightarrow> conversation list" where
  "listConversationRows s userId org q n c =
     take n (newestRows conversation_key
       (filter (\<lambda>x. conversationWhere s userId org q x \<and> afterCursor c (conversation_key x)) (mg_conversations s)))"

definition unreadIn :: "messaging \<Rightarrow> string \<Rightarrow> string \<Rightarrow> nat" where
  "unreadIn s userId cid =
     (case List.find (\<lambda>p. cp_userId p = userId) (participantsOf s cid) of
        None \<Rightarrow> 0
      | Some p \<Rightarrow>
          (case cp_lastReadAt p of
             Some t \<Rightarrow> length (filter (\<lambda>m. me_createdAt m > t) (messagesOf s cid))
           | None \<Rightarrow> length (messagesOf s cid)))"

definition countUnreadMessagesFromConversations :: "messaging \<Rightarrow> string \<Rightarrow> conversation list \<Rightarrow> nat" where
  "countUnreadMessagesFromConversations s userId cs = foldl (\<lambda>total c. total + unreadIn s userId (cv_id c)) 0 cs"

definition countUnreadMessagesForUser :: "messaging \<Rightarrow> string \<Rightarrow> string \<Rightarrow> nat" where
  "countUnreadMessagesForUser s userId org =
     countUnreadMessagesFromConversations s userId
       (filter (\<lambda>c. cv_orgId c = org \<and> isUserParticipant s (cv_id c) userId) (mg_conversations s))"

definition countUnreadMessagesForUserAcrossOrgs :: "messaging \<Rightarrow> string \<Rightarrow> nat" where
  "countUnreadMessagesForUserAcrossOrgs s userId =
     countUnreadMessagesFromConversations s userId
       (filter (\<lambda>c. isUserParticipant s (cv_id c) userId) (mg_conversations s))"

definition markConversationAsRead :: "messaging \<Rightarrow> int \<Rightarrow> string \<Rightarrow> string \<Rightarrow> messaging" where
  "markConversationAsRead s now cid userId =
     s\<lparr> mg_participants := map (\<lambda>p. if cp_conversationId p = cid \<and> cp_userId p = userId
                                    then p\<lparr> cp_lastReadAt := Some now \<rparr> else p) (mg_participants s) \<rparr>"

text \<open>
  \<^verbatim>\<open>addMessage\<close>: the message, which needs its conversation and its sender, then the date of the conversation and the
  mark of the sender, each with its own reading of the clock.
\<close>

definition addMessage ::
  "messaging \<Rightarrow> (nat \<Rightarrow> int) \<Rightarrow> string \<Rightarrow> string \<Rightarrow> string \<Rightarrow> string \<Rightarrow> (message_row \<times> messaging) res" where
  "addMessage s clk mid cid userId content =
     (if find_by me_id mid (mg_messages s) \<noteq> None then Inl UniqueViolation
      else if find_by cv_id cid (mg_conversations s) = None \<or> find_by us_id userId (users (mcore s)) = None
      then Inl RecordNotFound
      else let m = \<lparr> me_id = mid, me_conversationId = cid, me_senderUserId = userId, me_content = content,
                     me_createdAt = clk 0 \<rparr>
           in Inr (m, markConversationAsRead
                (s\<lparr> mg_messages := mg_messages s @ [m],
                    mg_conversations := modify_by cv_id cid (\<lambda>c. c\<lparr> cv_updatedAt := clk 1 \<rparr>) (mg_conversations s) \<rparr>)
                (clk 2) cid userId))"

definition getConversationParticipantUserIds :: "messaging \<Rightarrow> string \<Rightarrow> string list" where
  "getConversationParticipantUserIds s cid = map cp_userId (participantsOf s cid)"

section \<open>The repository: who is who\<close>

definition ORG_SCOPED_MESSAGING_PERMISSION :: string where
  "ORG_SCOPED_MESSAGING_PERMISSION = ''messaging.write''"

definition roleGrants :: "db \<Rightarrow> string \<Rightarrow> string \<Rightarrow> access_assignment \<Rightarrow> bool" where
  "roleGrants s org key a \<longleftrightarrow>
     template_sat s a (\<lambda>t. rt_orgId t = Some org) \<and> List.member (rolePermissionKeysOf s a) key"

definition scopedRoleGrants :: "db \<Rightarrow> string \<Rightarrow> scope_type \<Rightarrow> string \<Rightarrow> access_assignment \<Rightarrow> bool" where
  "scopedRoleGrants s org scope key a \<longleftrightarrow>
     ua_scopeType a = scope \<and> template_sat s a (\<lambda>t. rt_scopeType t = scope) \<and> roleGrants s org key a"

definition getUserBuildingIdsWithPermission :: "db \<Rightarrow> string \<Rightarrow> string \<Rightarrow> string \<Rightarrow> string list" where
  "getUserBuildingIdsWithPermission s userId org key =
     filter (\<lambda>i. i \<noteq> []) (js_unique (List.map_filter ua_scopeId
       (filter (\<lambda>a. ua_userId a = userId \<and> scopedRoleGrants s org SC_BUILDING key a) (accessAssignments s))))"

definition validateUsersInOrg :: "db \<Rightarrow> string list \<Rightarrow> string \<Rightarrow> string list" where
  "validateUsersInOrg s userIds org =
     map us_id (filter (\<lambda>x. List.member userIds (us_id x) \<and> us_orgId x = Some org \<and> us_isActive x) (users s))"

definition getActiveResidentUserIdsInBuilding :: "db \<Rightarrow> string \<Rightarrow> string list" where
  "getActiveResidentUserIdsInBuilding s bldg =
     js_unique (map oc_residentUserId (filter (\<lambda>oc. oc_buildingId oc = bldg \<and> oc_status oc = OC_ACTIVE
       \<and> user_active s (oc_residentUserId oc)) (occupancies s)))"

definition getConversationParticipantRoleBuckets :: "db \<Rightarrow> string list \<Rightarrow> string \<Rightarrow> role_buckets" where
  "getConversationParticipantRoleBuckets s userIds org =
     \<lparr> rb_staffUserIds = js_unique (map ua_userId (filter (\<lambda>a. List.member userIds (ua_userId a)
         \<and> roleGrants s org ''messaging.write'' a \<and> user_active s (ua_userId a)) (accessAssignments s))),
       rb_tenantUserIds = js_unique (map oc_residentUserId (filter (\<lambda>oc. List.member userIds (oc_residentUserId oc)
         \<and> oc_status oc = OC_ACTIVE \<and> buildingInOrg s (oc_buildingId oc) org
         \<and> user_active s (oc_residentUserId oc)) (occupancies s))),
       rb_ownerUserIds = js_unique (filter (\<lambda>i. i \<noteq> []) (List.map_filter og_userId (filter (\<lambda>g.
         (case og_userId g of None \<Rightarrow> False | Some i \<Rightarrow> List.member userIds i) \<and> og_status g = GR_ACTIVE
         \<and> list_ex (\<lambda>x. ow_id x = og_ownerId g \<and> ow_orgId x = org \<and> ow_isActive x) (owners s)) (ownerGrants s)))) \<rparr>"

definition findActiveOccupancyByResident :: "db \<Rightarrow> string \<Rightarrow> string \<Rightarrow> occupancy_row option" where
  "findActiveOccupancyByResident s userId org =
     List.find (\<lambda>oc. oc_residentUserId oc = userId \<and> oc_status oc = OC_ACTIVE
       \<and> buildingInOrg s (oc_buildingId oc) org) (occupancies s)"

definition hasOccupancyHistoryByResident :: "db \<Rightarrow> string \<Rightarrow> string \<Rightarrow> bool" where
  "hasOccupancyHistoryByResident s userId org \<longleftrightarrow>
     list_ex (\<lambda>oc. oc_residentUserId oc = userId \<and> buildingInOrg s (oc_buildingId oc) org) (occupancies s)"

text \<open>The filter on an owner: active, with an active grant to some user.\<close>

definition reachableOwner :: "db \<Rightarrow> string \<Rightarrow> bool" where
  "reachableOwner s o' \<longleftrightarrow>
     ownerActive s o' \<and> list_ex (\<lambda>g. og_ownerId g = o' \<and> og_status g = GR_ACTIVE \<and> og_userId g \<noteq> None) (ownerGrants s)"

definition currentOwnerOfUnit :: "db \<Rightarrow> string \<Rightarrow> string \<Rightarrow> string option" where
  "currentOwnerOfUnit s unitId org =
     (case rev (sort_key (\<lambda>x. (uo_startDate x, uo_createdAt x)) (filter (\<lambda>x. uo_orgId x = org \<and> uo_unitId x = unitId
              \<and> uo_endDate x = None \<and> reachableOwner s (uo_ownerId x)) (unitOwnerships s))) of
        x # _ \<Rightarrow> Some (uo_ownerId x)
      | [] \<Rightarrow>
          (case List.find (\<lambda>n. un_id n = unitId \<and> buildingInOrg s (un_buildingId n) org
                  \<and> \<not> list_ex (\<lambda>x. uo_unitId x = unitId \<and> uo_endDate x = None) (unitOwnerships s)
                  \<and> (case un_ownerId n of None \<Rightarrow> False | Some o' \<Rightarrow> reachableOwner s o')) (units s) of
             None \<Rightarrow> None
           | Some n \<Rightarrow> un_ownerId n))"

definition getActiveOwnerUserIdsForUnit :: "db \<Rightarrow> string \<Rightarrow> string \<Rightarrow> string list" where
  "getActiveOwnerUserIdsForUnit s unitId org =
     (let ownerId = currentOwnerOfUnit s unitId org
      in if \<not> truthy ownerId then []
         else js_unique (filter (\<lambda>i. i \<noteq> []) (List.map_filter og_userId (filter (\<lambda>g. Some (og_ownerId g) = ownerId
                \<and> og_status g = GR_ACTIVE \<and> og_userId g \<noteq> None \<and> ownerActive s (og_ownerId g)) (ownerGrants s)))))"

definition findActiveOccupancyForResidentInUnit :: "db \<Rightarrow> string \<Rightarrow> string \<Rightarrow> occupancy_row option" where
  "findActiveOccupancyForResidentInUnit s userId unitId =
     List.find (\<lambda>oc. oc_residentUserId oc = userId \<and> oc_unitId oc = unitId \<and> oc_status oc = OC_ACTIVE
       \<and> user_active s (oc_residentUserId oc)) (occupancies s)"

definition getManagementUserIdsForBuilding :: "db \<Rightarrow> string \<Rightarrow> string \<Rightarrow> string list" where
  "getManagementUserIdsForBuilding s bldg org =
     js_unique (map ua_userId (filter (\<lambda>a. ua_scopeId a = Some bldg \<and> scopedRoleGrants s org SC_BUILDING ''messaging.write'' a
           \<and> activeInOrg s org (ua_userId a)) (accessAssignments s))
       @ map ua_userId (filter (\<lambda>a. ua_scopeId a = None \<and> scopedRoleGrants s org SC_ORG ''messaging.write'' a
           \<and> activeInOrg s org (ua_userId a)) (accessAssignments s)))"

record management_contact =
  mc_id :: string
  mc_name :: string
  mc_avatarUrl :: "string option"

definition listManagementUsersForBuilding ::
  "(string \<Rightarrow> nat list) \<Rightarrow> db \<Rightarrow> string \<Rightarrow> string \<Rightarrow> management_contact list" where
  "listManagementUsersForBuilding collate s bldg org =
     (let ids = getManagementUserIdsForBuilding s bldg org
      in if ids = [] then []
         else sort_key (\<lambda>c. (collate (mc_name c), collate (mc_id c)))
                (map (\<lambda>x. \<lparr> mc_id = us_id x, mc_name = nullish (us_name x) ''Unknown'', mc_avatarUrl = us_avatarUrl x \<rparr>)
                  (filter (\<lambda>x. List.member ids (us_id x) \<and> us_orgId x = Some org \<and> us_isActive x) (users s))))"

end
