(* ===== verification/MessagingService.thy ===== *)
theory MessagingService
  imports Messaging
begin

text \<open>
  \<^verbatim>\<open>messaging.service.ts\<close>: who may start a conversation with whom, the lists and unread counts of a user, sending and
  reading. The database generates the ids; \<open>ids t n\<close> is the n-th new id of the table \<open>t\<close> in the call, and
  \<open>clk k\<close> the k-th reading of the clock.
\<close>

section \<open>Access\<close>

definition hasElevatedMessagingAuthority :: "db \<Rightarrow> string \<Rightarrow> string \<Rightarrow> bool" where
  "hasElevatedMessagingAuthority s userId org \<longleftrightarrow>
     List.member (sa_rolePermissionKeys (getUserScopedAssignments s userId (Some org) None False)) ORG_SCOPED_MESSAGING_PERMISSION
     \<or> getUserBuildingIdsWithPermission s userId org ORG_SCOPED_MESSAGING_PERMISSION \<noteq> []"

definition assertOrgConversationAccess :: "db \<Rightarrow> string \<Rightarrow> string \<Rightarrow> unit res" where
  "assertOrgConversationAccess s userId org =
     (if hasElevatedMessagingAuthority s userId org then Inr ()
      else if findActiveOccupancyByResident s userId org = None \<and> hasOccupancyHistoryByResident s userId org
      then Inl (Forbidden ''Active occupancy required'')
      else Inr ())"

section \<open>Texts\<close>

definition summarizePushBody :: "string \<Rightarrow> string" where
  "summarizePushBody content =
     (let normalized = collapse_ws (trim content)
      in if length normalized \<le> 160 then normalized else take 157 normalized @ ''...'')"

definition buildConversationNotificationTitle :: "string option \<Rightarrow> string option \<Rightarrow> string" where
  "buildConversationNotificationTitle subject senderName =
     (let trimmed = map_option trim subject
      in if truthy trimmed then the trimmed
         else if truthy senderName then ''New conversation from '' @ the senderName
         else ''New conversation'')"

definition buildMessageNotificationTitle :: "string option \<Rightarrow> string" where
  "buildMessageNotificationTitle senderName =
     (if truthy senderName then ''New message from '' @ the senderName else ''New message'')"

section \<open>Telling the others\<close>

fun publishEach :: "string \<Rightarrow> string \<Rightarrow> string \<Rightarrow> string list \<Rightarrow> delivery_db \<Rightarrow> delivery_db" where
  "publishEach org ev cid [] d = d"
| "publishEach org ev cid (u # us) d = publishEach org ev cid us (publish d org u ev (Some cid))"

definition settled :: "error option \<Rightarrow> 'a \<Rightarrow> 'a res" where
  "settled e x = (case e of None \<Rightarrow> Inr x | Some e' \<Rightarrow> Inl e')"

definition senderNameOf :: "messaging \<Rightarrow> string \<Rightarrow> string option" where
  "senderNameOf s userId = (case find_by us_id userId (users (mcore s)) of None \<Rightarrow> None | Some x \<Rightarrow> us_name x)"

definition tellOthers ::
  "delivery_env \<Rightarrow> int \<Rightarrow> (string \<Rightarrow> nat \<Rightarrow> string) \<Rightarrow> string \<Rightarrow> string list \<Rightarrow> string \<Rightarrow> string \<Rightarrow> notification_type \<Rightarrow> string
   \<Rightarrow> string \<Rightarrow> notification_data \<Rightarrow> messaging \<Rightarrow> error option \<times> messaging" where
  "tellOthers env now ids org others ev cid ty title body d s =
     (case createForUsers env now (ids ''Notification'') (ids ''DeliveryTask'' 0) org others ty title (Some body) d
             (publishEach org ev cid others (mg_delivery s)) of
        (e, dl) \<Rightarrow> (e, s\<lparr> mg_delivery := dl \<rparr>))"

definition createConversationAndNotify ::
  "delivery_env \<Rightarrow> messaging \<Rightarrow> (nat \<Rightarrow> int) \<Rightarrow> (string \<Rightarrow> nat \<Rightarrow> string) \<Rightarrow> string \<Rightarrow> string \<Rightarrow> conversation_type \<times> counterparty_group
   \<Rightarrow> string option \<Rightarrow> string list \<Rightarrow> string option \<Rightarrow> string \<Rightarrow> (conversation res \<times> messaging) res" where
  "createConversationAndNotify env s clk ids org creator kind bldg participantUserIds subject content =
     andThen (createConversationRows s clk (ids ''Conversation'' 0) (ids ''Message'' 0)
       \<lparr> ci_orgId = org, ci_buildingId = bldg, ci_type = fst kind, ci_counterpartyGroup = snd kind, ci_subject = subject,
         ci_participantUserIds = participantUserIds, ci_senderUserId = creator, ci_content = content \<rparr>) (\<lambda>(c, m, s1).
     case tellOthers env (clk 3) ids org (filter (\<lambda>i. i \<noteq> creator) participantUserIds) ''conversation:new'' (cv_id c)
            CONVERSATION_CREATED (buildConversationNotificationTitle subject (senderNameOf s1 creator))
            (summarizePushBody (me_content m))
            (OtherData (JObject [(''kind'', JText ''conversation''), (''conversationId'', JText (cv_id c)),
               (''messageId'', JText (me_id m)), (''senderUserId'', JText creator)])) s1 of
       (e, s2) \<Rightarrow> Inr (settled e c, s2))"

definition kindOf :: "conversation_type \<Rightarrow> conversation_type \<times> counterparty_group" where
  "kindOf t = (t, getCounterpartyGroupForConversationType t)"

section \<open>Starting a conversation\<close>

record conversation_dto =
  cd_participantUserIds :: "string list"
  cd_subject :: "string option"
  cd_message :: string
  cd_buildingId :: "string option"

definition checkMessagingBuilding :: "db \<Rightarrow> string \<Rightarrow> string \<Rightarrow> bool \<Rightarrow> string list \<Rightarrow> string \<Rightarrow> unit res" where
  "checkMessagingBuilding s userId org orgWide validIds bldg =
     andThen (assertBuildingInOrg s bldg org) (\<lambda>_.
     if orgWide then Inr ()
     else
       andThen (ensure (List.member (getUserBuildingIdsWithPermission s userId org ORG_SCOPED_MESSAGING_PERMISSION) bldg)
         (Forbidden ''You do not have permission to message residents in this building'')) (\<lambda>_.
       ensure (filter (\<lambda>i. \<not> List.member (getActiveResidentUserIdsInBuilding s bldg) i \<and> i \<noteq> userId) validIds = [])
         (Forbidden ''Some participants are not residents in this building'')))"

definition createConversation ::
  "delivery_env \<Rightarrow> messaging \<Rightarrow> (nat \<Rightarrow> int) \<Rightarrow> (string \<Rightarrow> nat \<Rightarrow> string) \<Rightarrow> string \<Rightarrow> string \<Rightarrow> conversation_dto
   \<Rightarrow> (conversation res \<times> messaging) res" where
  "createConversation env s clk ids userId org d =
     (let orgWide = ORG_SCOPED_MESSAGING_PERMISSION \<in> getUserEffectivePermissions (mcore s) userId (Some org) None False;
          validIds = validateUsersInOrg (mcore s) (cd_participantUserIds d) org
      in andThen (ensure (validIds \<noteq> []) (BadRequest ''No valid participants found'')) (\<lambda>_.
         andThen (ensure (truthy (cd_buildingId d) \<or> orgWide)
                    (BadRequest ''buildingId is required for building-scoped messaging'')) (\<lambda>_.
         andThen (if truthy (cd_buildingId d)
                  then checkMessagingBuilding (mcore s) userId org orgWide validIds (the (cd_buildingId d))
                  else Inr ()) (\<lambda>_.
         let allIds = js_unique (userId # validIds) in
         andThen (orThrow (inferConversationClassification (getConversationParticipantRoleBuckets (mcore s) allIds org))
                    (BadRequest ''Conversation participants do not map to a supported conversation relationship'')) (\<lambda>kind.
         createConversationAndNotify env s clk ids org userId kind (cd_buildingId d) allIds (cd_subject d) (cd_message d))))))"

definition resolveResidentManagementParticipants ::
  "(string \<Rightarrow> nat list) \<Rightarrow> db \<Rightarrow> string \<Rightarrow> string \<Rightarrow> string option \<Rightarrow> (string \<times> string list) res" where
  "resolveResidentManagementParticipants collate s userId org managementUserId =
     andThen (orThrow (findActiveOccupancyByResident s userId org)
       (Conflict ''Resident must have an active occupancy to message management'')) (\<lambda>oc.
     let contacts = filter (\<lambda>i. i \<noteq> userId) (map mc_id (listManagementUsersForBuilding collate s (oc_buildingId oc) org)) in
     if truthy managementUserId
     then andThen (ensure (List.member contacts (the managementUserId))
            (Forbidden ''Selected management user is not assigned to this building'')) (\<lambda>_.
          Inr (oc_buildingId oc, [the managementUserId]))
     else Inr (oc_buildingId oc, contacts))"

definition createResidentConversationWithManagement ::
  "(string \<Rightarrow> nat list) \<Rightarrow> delivery_env \<Rightarrow> messaging \<Rightarrow> (nat \<Rightarrow> int) \<Rightarrow> (string \<Rightarrow> nat \<Rightarrow> string) \<Rightarrow> string \<Rightarrow> string \<Rightarrow> string option
   \<Rightarrow> string option \<Rightarrow> string \<Rightarrow> (conversation res \<times> messaging) res" where
  "createResidentConversationWithManagement collate env s clk ids userId org managementUserId subject content =
     andThen (resolveResidentManagementParticipants collate (mcore s) userId org managementUserId) (\<lambda>(bldg, others).
     andThen (ensure (others \<noteq> []) (Conflict ''No management users are assigned to this building'')) (\<lambda>_.
     createConversationAndNotify env s clk ids org userId (kindOf MANAGEMENT_TENANT) (Some bldg) (userId # others)
       subject content))"

definition listResidentManagementContacts ::
  "(string \<Rightarrow> nat list) \<Rightarrow> messaging \<Rightarrow> string \<Rightarrow> string \<Rightarrow> management_contact list res" where
  "listResidentManagementContacts collate s userId org =
     andThen (orThrow (findActiveOccupancyByResident (mcore s) userId org)
       (Conflict ''Resident must have an active occupancy to message management'')) (\<lambda>oc.
     Inr (listManagementUsersForBuilding collate (mcore s) (oc_buildingId oc) org))"

definition createResidentConversationWithOwner ::
  "delivery_env \<Rightarrow> messaging \<Rightarrow> (nat \<Rightarrow> int) \<Rightarrow> (string \<Rightarrow> nat \<Rightarrow> string) \<Rightarrow> string \<Rightarrow> string \<Rightarrow> string option \<Rightarrow> string
   \<Rightarrow> (conversation res \<times> messaging) res" where
  "createResidentConversationWithOwner env s clk ids userId org subject content =
     andThen (orThrow (findActiveOccupancyByResident (mcore s) userId org)
       (Conflict ''Resident must have an active occupancy to message the unit owner'')) (\<lambda>oc.
     let others = js_unique (filter (\<lambda>i. i \<noteq> userId) (getActiveOwnerUserIdsForUnit (mcore s) (oc_unitId oc) org)) in
     andThen (ensure (others \<noteq> []) (Conflict ''No active owner user is assigned to this unit'')) (\<lambda>_.
     createConversationAndNotify env s clk ids org userId (kindOf OWNER_TENANT) (Some (oc_buildingId oc)) (userId # others)
       subject content))"

definition createOwnerConversationWithManagement ::
  "delivery_env \<Rightarrow> messaging \<Rightarrow> (nat \<Rightarrow> int) \<Rightarrow> (string \<Rightarrow> nat \<Rightarrow> string) \<Rightarrow> string \<Rightarrow> string \<Rightarrow> string option \<Rightarrow> string
   \<Rightarrow> (conversation res \<times> messaging) res" where
  "createOwnerConversationWithManagement env s clk ids userId unitId subject content =
     andThen (getAccessibleUnitOrThrow (mcore s) userId unitId) (\<lambda>n.
     let others = js_unique (filter (\<lambda>i. i \<noteq> userId)
           (getManagementUserIdsForBuilding (mcore s) (pu_buildingId n) (pu_orgId n))) in
     andThen (ensure (others \<noteq> []) (Conflict ''No management users are assigned to this building'')) (\<lambda>_.
     createConversationAndNotify env s clk ids (pu_orgId n) userId (kindOf MANAGEMENT_OWNER) (Some (pu_buildingId n))
       (userId # others) subject content))"

definition createOwnerConversationWithTenant ::
  "delivery_env \<Rightarrow> messaging \<Rightarrow> (nat \<Rightarrow> int) \<Rightarrow> (string \<Rightarrow> nat \<Rightarrow> string) \<Rightarrow> string \<Rightarrow> string \<Rightarrow> string \<Rightarrow> string option \<Rightarrow> string
   \<Rightarrow> (conversation res \<times> messaging) res" where
  "createOwnerConversationWithTenant env s clk ids userId unitId tenantUserId subject content =
     andThen (getAccessibleUnitOrThrow (mcore s) userId unitId) (\<lambda>n.
     andThen (orThrow (findActiveOccupancyForResidentInUnit (mcore s) tenantUserId unitId)
       (Forbidden ''Tenant is not an active resident of this unit'')) (\<lambda>_.
     createConversationAndNotify env s clk ids (pu_orgId n) userId (kindOf OWNER_TENANT) (Some (pu_buildingId n))
       [userId, tenantUserId] subject content))"

section \<open>Reading\<close>

definition getConversation ::
  "messaging \<Rightarrow> string \<Rightarrow> string \<Rightarrow> string \<Rightarrow> (conversation \<times> participant_row list \<times> message_row list) res" where
  "getConversation s userId org cid =
     andThen (assertOrgConversationAccess (mcore s) userId org) (\<lambda>_.
     andThen (orThrow (findConversationByIdForUser s cid userId org) (NotFound ''Conversation not found'')) (\<lambda>c.
     Inr (conversationInclude s c)))"

definition getOwnerConversation ::
  "messaging \<Rightarrow> string \<Rightarrow> string \<Rightarrow> (conversation \<times> participant_row list \<times> message_row list) res" where
  "getOwnerConversation s userId cid =
     andThen (orThrow (findConversationByIdForUserAcrossOrgs s cid userId) (NotFound ''Conversation not found'')) (\<lambda>c.
     Inr (conversationInclude s c))"

definition readConversationCursor :: "cursor option option \<Rightarrow> cursor option res" where
  "readConversationCursor c =
     (case c of None \<Rightarrow> Inr None | Some None \<Rightarrow> Inl (BadRequest ''Invalid cursor'') | Some (Some k) \<Rightarrow> Inr (Some k))"

definition conversationPage ::
  "messaging \<Rightarrow> string \<Rightarrow> string option \<Rightarrow> conversation_query \<Rightarrow> (conversation list \<times> cursor option) res" where
  "conversationPage s userId org q =
     (let n = nat (clampLimit 20 100 (cq_limit q))
      in andThen (readConversationCursor (cq_cursor q)) (\<lambda>c.
         Inr (cutPage conversation_key n (listConversationRows s userId org q (Suc n) c))))"

definition listConversations ::
  "messaging \<Rightarrow> string \<Rightarrow> string \<Rightarrow> conversation_query \<Rightarrow> (conversation list \<times> cursor option) res" where
  "listConversations s userId org q =
     andThen (assertOrgConversationAccess (mcore s) userId org) (\<lambda>_. conversationPage s userId (Some org) q)"

definition listOwnerConversations ::
  "messaging \<Rightarrow> string \<Rightarrow> conversation_query \<Rightarrow> (conversation list \<times> cursor option) res" where
  "listOwnerConversations s userId q = conversationPage s userId None q"

definition countUnreadMessages :: "messaging \<Rightarrow> string \<Rightarrow> string \<Rightarrow> nat res" where
  "countUnreadMessages s userId org =
     andThen (assertOrgConversationAccess (mcore s) userId org) (\<lambda>_. Inr (countUnreadMessagesForUser s userId org))"

definition countUnreadOwnerMessages :: "messaging \<Rightarrow> string \<Rightarrow> nat" where
  "countUnreadOwnerMessages s userId = countUnreadMessagesForUserAcrossOrgs s userId"

section \<open>Sending and marking\<close>

definition sendMessageInternal ::
  "delivery_env \<Rightarrow> messaging \<Rightarrow> (nat \<Rightarrow> int) \<Rightarrow> (string \<Rightarrow> nat \<Rightarrow> string) \<Rightarrow> string \<Rightarrow> string \<Rightarrow> string \<Rightarrow> string
   \<Rightarrow> (message_row res \<times> messaging) res" where
  "sendMessageInternal env s clk ids userId org cid content =
     andThen (ensure (isUserParticipant s cid userId) (Forbidden ''You are not a participant in this conversation'')) (\<lambda>_.
     andThen (addMessage s clk (ids ''Message'' 0) cid userId content) (\<lambda>(m, s1).
     case tellOthers env (clk 3) ids org (filter (\<lambda>i. i \<noteq> userId) (getConversationParticipantUserIds s1 cid)) ''message:new'' cid
            MESSAGE_CREATED (buildMessageNotificationTitle (senderNameOf s1 userId)) (summarizePushBody content)
            (OtherData (JObject [(''kind'', JText ''message''), (''conversationId'', JText cid),
               (''messageId'', JText (me_id m)), (''senderUserId'', JText userId)])) s1 of
       (e, s2) \<Rightarrow> Inr (settled e m, s2)))"

definition sendMessage ::
  "delivery_env \<Rightarrow> messaging \<Rightarrow> (nat \<Rightarrow> int) \<Rightarrow> (string \<Rightarrow> nat \<Rightarrow> string) \<Rightarrow> string \<Rightarrow> string \<Rightarrow> string \<Rightarrow> string
   \<Rightarrow> (message_row res \<times> messaging) res" where
  "sendMessage env s clk ids userId org cid content =
     andThen (assertOrgConversationAccess (mcore s) userId org) (\<lambda>_.
     sendMessageInternal env s clk ids userId org cid content)"

definition sendOwnerMessage ::
  "delivery_env \<Rightarrow> messaging \<Rightarrow> (nat \<Rightarrow> int) \<Rightarrow> (string \<Rightarrow> nat \<Rightarrow> string) \<Rightarrow> string \<Rightarrow> string \<Rightarrow> string
   \<Rightarrow> (message_row res \<times> messaging) res" where
  "sendOwnerMessage env s clk ids userId cid content =
     andThen (orThrow (findConversationByIdForUserAcrossOrgs s cid userId)
       (Forbidden ''You are not a participant in this conversation'')) (\<lambda>c.
     sendMessageInternal env s clk ids userId (cv_orgId c) cid content)"

definition markConversationAsReadInternal :: "messaging \<Rightarrow> int \<Rightarrow> string \<Rightarrow> string \<Rightarrow> string \<Rightarrow> messaging res" where
  "markConversationAsReadInternal s now userId org cid =
     andThen (ensure (isUserParticipant s cid userId) (Forbidden ''You are not a participant in this conversation'')) (\<lambda>_.
     let s1 = markConversationAsRead s now cid userId
     in Inr (s1\<lparr> mg_delivery := publish (mg_delivery s1) org userId ''conversation:read'' (Some cid) \<rparr>))"

definition markAsRead :: "messaging \<Rightarrow> int \<Rightarrow> string \<Rightarrow> string \<Rightarrow> string \<Rightarrow> messaging res" where
  "markAsRead s now userId org cid =
     andThen (assertOrgConversationAccess (mcore s) userId org) (\<lambda>_. markConversationAsReadInternal s now userId org cid)"

definition markOwnerConversationAsRead :: "messaging \<Rightarrow> int \<Rightarrow> string \<Rightarrow> string \<Rightarrow> messaging res" where
  "markOwnerConversationAsRead s now userId cid =
     andThen (orThrow (findConversationByIdForUserAcrossOrgs s cid userId)
       (Forbidden ''You are not a participant in this conversation'')) (\<lambda>c.
     markConversationAsReadInternal s now userId (cv_orgId c) cid)"

end
