(* ===== verification/MessagingMachine.thy ===== *)
theory MessagingMachine
  imports MessagingService
begin

text \<open>
  Messaging as a system: the conversations, who takes part in them and their messages change in two ways only, a
  conversation is started or a message is sent (\<open>mstep\<close>). Every operation is one such step or none.
\<close>

section \<open>The view and its steps\<close>

abbreviation membership :: "participant_row \<Rightarrow> string \<times> string" where
  "membership p \<equiv> (cp_conversationId p, cp_userId p)"

type_synonym messaging_view = "conversation list \<times> (string \<times> string) list \<times> message_row list"

definition messagingView :: "messaging \<Rightarrow> messaging_view" where
  "messagingView s = (mg_conversations s, map membership (mg_participants s), mg_messages s)"

abbreviation bump :: "int \<Rightarrow> message_row \<Rightarrow> conversation list \<Rightarrow> conversation list" where
  "bump t m cs \<equiv> modify_by cv_id (me_conversationId m) (\<lambda>c. c\<lparr> cv_updatedAt := t \<rparr>) cs"

inductive mstep :: "messaging_view \<Rightarrow> messaging_view \<Rightarrow> bool" where
  start: "cv_id c \<notin> cv_id ` set cs \<Longrightarrow> me_id m \<notin> me_id ` set ms \<Longrightarrow> distinct us \<Longrightarrow> me_senderUserId m \<in> set us
    \<Longrightarrow> me_conversationId m = cv_id c
    \<Longrightarrow> cv_counterpartyGroup c = getCounterpartyGroupForConversationType (cv_type c)
    \<Longrightarrow> mstep (cs, ps, ms) (cs @ [c], ps @ map (Pair (cv_id c)) us, ms @ [m])"
| send: "me_id m \<notin> me_id ` set ms \<Longrightarrow> me_conversationId m \<in> cv_id ` set cs
    \<Longrightarrow> (me_conversationId m, me_senderUserId m) \<in> set ps \<Longrightarrow> mstep (cs, ps, ms) (bump t m cs, ps, ms @ [m])"

definition conversationOk :: "message_row list \<Rightarrow> conversation \<Rightarrow> bool" where
  "conversationOk ms c \<longleftrightarrow> cv_counterpartyGroup c = getCounterpartyGroupForConversationType (cv_type c)
     \<and> (\<exists>m \<in> set ms. me_conversationId m = cv_id c)"

definition viewOk :: "messaging_view \<Rightarrow> bool" where
  "viewOk v \<longleftrightarrow> (case v of (cs, ps, ms) \<Rightarrow>
     distinct (map cv_id cs) \<and> distinct (map me_id ms) \<and> distinct ps \<and> fst ` set ps \<subseteq> cv_id ` set cs
     \<and> (\<forall>m \<in> set ms. (me_conversationId m, me_senderUserId m) \<in> set ps) \<and> (\<forall>c \<in> set cs. conversationOk ms c))"

definition timeless :: "conversation \<Rightarrow> conversation" where
  "timeless c = c\<lparr> cv_updatedAt := 0 \<rparr>"

definition viewGrows :: "messaging_view \<Rightarrow> messaging_view \<Rightarrow> bool" where
  "viewGrows v w \<longleftrightarrow> (case v of (cs, ps, ms) \<Rightarrow> case w of (cs', ps', ms') \<Rightarrow>
     (\<exists>x. map timeless cs' = map timeless cs @ x) \<and> (\<exists>x. ps' = ps @ x \<and> fst ` set x \<inter> cv_id ` set cs = {})
     \<and> (\<exists>x. ms' = ms @ x))"

lemma timeless_id [simp]: "cv_id (timeless c) = cv_id c"
  by (simp add: timeless_def)

lemma timeless_bump [simp]: "map timeless (bump t m cs) = map timeless cs"
  by (simp add: modify_by_def timeless_def)

lemma ids_bump [simp]: "map cv_id (bump t m cs) = map cv_id cs"
  by (simp add: modify_by_def)

lemma conversationOk_append:
  "me_conversationId m \<noteq> cv_id c \<Longrightarrow> conversationOk (ms @ [m]) c \<longleftrightarrow> conversationOk ms c"
  by (simp add: conversationOk_def)

lemma conversationOk_bump:
  assumes "\<And>c. c \<in> set cs \<Longrightarrow> conversationOk ms c" and "c \<in> set (bump t m cs)"
  shows "conversationOk (ms @ [m]) c"
proof -
  from assms(2) obtain d where d: "d \<in> set cs"
    "c = (if cv_id d = me_conversationId m then d\<lparr> cv_updatedAt := t \<rparr> else d)"
    by (auto simp: modify_by_def)
  then show ?thesis using assms(1) [of d] by (auto simp: conversationOk_def)
qed

lemma mstep_ok: "mstep v w \<Longrightarrow> viewOk v \<Longrightarrow> viewOk w"
proof (induction rule: mstep.induct)
  case (start c cs m ms us ps)
  have "p \<notin> set (map (Pair (cv_id c)) us)" if "p \<in> set ps" for p
  proof -
    have "fst p \<in> cv_id ` set cs" using that start.prems by (auto simp: viewOk_def)
    then show ?thesis using start.hyps(1) by auto
  qed
  then have "distinct (ps @ map (Pair (cv_id c)) us)"
    using start.prems start.hyps(3) by (auto simp: viewOk_def distinct_map inj_on_def)
  moreover have "conversationOk (ms @ [m]) d" if "d \<in> set (cs @ [c])" for d
    using start that by (cases "d = c") (auto simp: viewOk_def conversationOk_append conversationOk_def)
  ultimately show ?case using start by (auto simp: viewOk_def)
next
  case (send m ms cs ps t)
  then have "\<And>c. c \<in> set (bump t m cs) \<Longrightarrow> conversationOk (ms @ [m]) c"
    by (intro conversationOk_bump [of cs ms]) (simp_all add: viewOk_def)
  moreover have "cv_id ` set (bump t m cs) = cv_id ` set cs" by (metis ids_bump list.set_map)
  ultimately show ?case using send by (simp add: viewOk_def)
qed

lemma mstep_grows: "mstep v w \<Longrightarrow> viewOk v \<Longrightarrow> viewGrows v w"
  by (induction rule: mstep.induct) (auto simp: viewGrows_def viewOk_def)

lemma viewGrows_refl: "viewGrows v v"
  by (cases v) (simp add: viewGrows_def)

lemma timeless_ids: "map timeless cs' = map timeless cs @ x \<Longrightarrow> cv_id ` set cs \<subseteq> cv_id ` set cs'"
proof -
  assume "map timeless cs' = map timeless cs @ x"
  then have "map cv_id (map timeless cs') = map cv_id (map timeless cs @ x)" by simp
  then have "map cv_id cs' = map cv_id cs @ map cv_id x" by (simp add: comp_def)
  then show ?thesis by (metis Un_upper1 list.set_map set_append)
qed

lemma viewGrows_trans:
  assumes "viewGrows u v" and "viewGrows v w"
  shows "viewGrows u w"
proof -
  obtain cs ps ms cs' ps' ms' cs'' ps'' ms'' where e: "u = (cs, ps, ms)" "v = (cs', ps', ms')" "w = (cs'', ps'', ms'')"
    by (metis prod_cases3)
  from assms(1) obtain x y z where 1: "map timeless cs' = map timeless cs @ x" "ps' = ps @ y" "ms' = ms @ z"
    "fst ` set y \<inter> cv_id ` set cs = {}" by (auto simp: viewGrows_def e)
  from assms(2) obtain x' y' z' where 2: "map timeless cs'' = map timeless cs' @ x'" "ps'' = ps' @ y'" "ms'' = ms' @ z'"
    "fst ` set y' \<inter> cv_id ` set cs' = {}" by (auto simp: viewGrows_def e)
  have "fst ` set y' \<inter> cv_id ` set cs = {}" using 2(4) timeless_ids [OF 1(1)] by (meson disjoint_iff subset_iff)
  then have "fst ` set (y @ y') \<inter> cv_id ` set cs = {}" using 1(4) by (simp add: image_Un Int_Un_distrib2)
  then show ?thesis using 1(1-3) 2(1-3) by (auto simp: viewGrows_def e)
qed

section \<open>Operations as steps\<close>

lemma view_tellOthers [simp]: "messagingView (snd (tellOthers env clk ids org us ev cid ty title body d s)) = messagingView s"
  by (simp add: tellOthers_def messagingView_def case_prod_unfold)

lemma inferred_group:
  "inferConversationClassification b = Some (t, g) \<Longrightarrow> g = getCounterpartyGroupForConversationType t"
  by (auto simp: inferConversationClassification_def Let_def split: if_splits)

lemma createRows_step:
  assumes "createConversationRows s clk cid mid i = Inr (c, m, s')" and "ci_senderUserId i \<in> set (ci_participantUserIds i)"
    and "ci_counterpartyGroup i = getCounterpartyGroupForConversationType (ci_type i)"
  shows "mstep (messagingView s) (messagingView s')"
proof -
  from assms(1) have f: "cid \<notin> cv_id ` set (mg_conversations s)" "mid \<notin> me_id ` set (mg_messages s)" "distinct (ci_participantUserIds i)"
    and s': "messagingView s' = (mg_conversations s @ [c], map membership (mg_participants s) @ map (Pair cid) (ci_participantUserIds i),
      mg_messages s @ [m])"
    and cm: "cv_id c = cid" "me_id m = mid" "me_conversationId m = cid"
      "me_senderUserId m = ci_senderUserId i" "cv_counterpartyGroup c = ci_counterpartyGroup i" "cv_type c = ci_type i"
    by (auto simp: createConversationRows_def Let_def messagingView_def find_by_None_iff split: if_splits)
  show ?thesis
    unfolding s' unfolding messagingView_def cm(1) [symmetric]
    by (rule mstep.start) (simp_all add: f cm assms(2,3))
qed

lemma notify_step:
  assumes "createConversationAndNotify env s clk ids org u kind b us subj body = Inr (r, s')" and "u \<in> set us"
    and "snd kind = getCounterpartyGroupForConversationType (fst kind)"
  shows "mstep (messagingView s) (messagingView s')"
proof -
  from assms(1) obtain c m s1 where "createConversationRows s clk (ids ''Conversation'' 0) (ids ''Message'' 0)
       \<lparr> ci_orgId = org, ci_buildingId = b, ci_type = fst kind, ci_counterpartyGroup = snd kind, ci_subject = subj,
         ci_participantUserIds = us, ci_senderUserId = u, ci_content = body \<rparr> = Inr (c, m, s1)"
    and v: "messagingView s' = messagingView s1"
    by (auto simp: createConversationAndNotify_def case_prod_unfold)
  from createRows_step [OF this(1)] assms(2,3) show ?thesis by (simp add: v)
qed

lemma kindOf_group [simp]: "snd (kindOf t) = getCounterpartyGroupForConversationType (fst (kindOf t))"
  by (simp add: kindOf_def)

lemma createConversation_step:
  "createConversation env s clk ids u org d = Inr (r, s') \<Longrightarrow> mstep (messagingView s) (messagingView s')"
  by (auto simp: createConversation_def Let_def elim!: notify_step dest: inferred_group)

lemma residentToManagement_step:
  "createResidentConversationWithManagement collate env s clk ids u org m subj body = Inr (r, s')
    \<Longrightarrow> mstep (messagingView s) (messagingView s')"
  by (auto simp: createResidentConversationWithManagement_def elim!: notify_step)

lemma residentToOwner_step:
  "createResidentConversationWithOwner env s clk ids u org subj body = Inr (r, s') \<Longrightarrow> mstep (messagingView s) (messagingView s')"
  by (auto simp: createResidentConversationWithOwner_def Let_def elim!: notify_step)

lemma ownerToManagement_step:
  "createOwnerConversationWithManagement env s clk ids u n subj body = Inr (r, s') \<Longrightarrow> mstep (messagingView s) (messagingView s')"
  by (auto simp: createOwnerConversationWithManagement_def Let_def elim!: notify_step)

lemma ownerToTenant_step:
  "createOwnerConversationWithTenant env s clk ids u n t subj body = Inr (r, s') \<Longrightarrow> mstep (messagingView s) (messagingView s')"
  by (auto simp: createOwnerConversationWithTenant_def elim!: notify_step)

lemma view_markRead: "messagingView (markConversationAsRead s now cid u) = messagingView s"
  by (simp add: messagingView_def markConversationAsRead_def comp_def if_distrib cong: if_cong)

lemma addMessage_step:
  assumes "addMessage s clk mid cid u body = Inr (m, s')" and "isUserParticipant s cid u"
  shows "mstep (messagingView s) (messagingView s')"
proof -
  from assms(1) have f: "me_id m \<notin> me_id ` set (mg_messages s)" "me_conversationId m \<in> cv_id ` set (mg_conversations s)"
    and m: "me_conversationId m = cid" "me_senderUserId m = u"
    and s': "messagingView s' = (bump (clk 1) m (mg_conversations s), map membership (mg_participants s), mg_messages s @ [m])"
    by (auto simp: addMessage_def Let_def view_markRead find_by_None_iff split: if_splits)
      (simp_all add: messagingView_def)
  have "(me_conversationId m, me_senderUserId m) \<in> set (map membership (mg_participants s))"
    using assms(2) by (auto simp: isUserParticipant_def list_ex_iff m)
  with f show ?thesis unfolding s' unfolding messagingView_def by (rule mstep.send)
qed

lemma sendInternal_step:
  assumes "sendMessageInternal env s clk ids u org cid body = Inr (r, s')"
  shows "mstep (messagingView s) (messagingView s')"
proof -
  from assms obtain m s1 where "addMessage s clk (ids ''Message'' 0) cid u body = Inr (m, s1)" "isUserParticipant s cid u"
    "messagingView s' = messagingView s1"
    by (auto simp: sendMessageInternal_def case_prod_unfold)
  with addMessage_step show ?thesis by metis
qed

lemma sendMessage_step: "sendMessage env s clk ids u org cid body = Inr (r, s') \<Longrightarrow> mstep (messagingView s) (messagingView s')"
  by (auto simp: sendMessage_def elim: sendInternal_step)

lemma sendOwnerMessage_step: "sendOwnerMessage env s clk ids u cid body = Inr (r, s') \<Longrightarrow> mstep (messagingView s) (messagingView s')"
  by (auto simp: sendOwnerMessage_def elim: sendInternal_step)

lemma view_markInternal: "markConversationAsReadInternal s now u org cid = Inr s' \<Longrightarrow> messagingView s' = messagingView s"
  using view_markRead [of s now cid u] by (auto simp: markConversationAsReadInternal_def Let_def messagingView_def)

lemma view_markAsRead: "markAsRead s now u org cid = Inr s' \<Longrightarrow> messagingView s' = messagingView s"
  by (auto simp: markAsRead_def elim: view_markInternal)

lemma view_markOwner: "markOwnerConversationAsRead s now u cid = Inr s' \<Longrightarrow> messagingView s' = messagingView s"
  by (auto simp: markOwnerConversationAsRead_def elim: view_markInternal)

section \<open>The operations as one system\<close>

datatype messaging_op =
    StartConversation string string conversation_dto
  | ResidentToManagement string string "string option" "string option" string
  | ResidentToOwner string string "string option" string
  | OwnerToManagement string string "string option" string
  | OwnerToTenant string string string "string option" string
  | Send string string string string
  | OwnerSend string string string
  | MarkRead string string string
  | OwnerMarkRead string string

type_synonym messaging_call = "(nat \<Rightarrow> int) \<times> (string \<Rightarrow> nat \<Rightarrow> string) \<times> messaging_op"

fun messaging_exec ::
  "(string \<Rightarrow> nat list) \<Rightarrow> delivery_env \<Rightarrow> messaging_call \<Rightarrow> messaging \<Rightarrow> messaging res" where
  "messaging_exec col env (clk, ids, StartConversation u org d) s = map_sum id snd (createConversation env s clk ids u org d)"
| "messaging_exec col env (clk, ids, ResidentToManagement u org m subj body) s =
     map_sum id snd (createResidentConversationWithManagement col env s clk ids u org m subj body)"
| "messaging_exec col env (clk, ids, ResidentToOwner u org subj body) s =
     map_sum id snd (createResidentConversationWithOwner env s clk ids u org subj body)"
| "messaging_exec col env (clk, ids, OwnerToManagement u n subj body) s =
     map_sum id snd (createOwnerConversationWithManagement env s clk ids u n subj body)"
| "messaging_exec col env (clk, ids, OwnerToTenant u n t subj body) s =
     map_sum id snd (createOwnerConversationWithTenant env s clk ids u n t subj body)"
| "messaging_exec col env (clk, ids, Send u org cid body) s = map_sum id snd (sendMessage env s clk ids u org cid body)"
| "messaging_exec col env (clk, ids, OwnerSend u cid body) s = map_sum id snd (sendOwnerMessage env s clk ids u cid body)"
| "messaging_exec col env (clk, ids, MarkRead u org cid) s = markAsRead s (clk 0) u org cid"
| "messaging_exec col env (clk, ids, OwnerMarkRead u cid) s = markOwnerConversationAsRead s (clk 0) u cid"

lemmas messaging_steps = createConversation_step residentToManagement_step residentToOwner_step ownerToManagement_step
  ownerToTenant_step sendMessage_step sendOwnerMessage_step

lemma map_sum_snd: "map_sum id snd r = Inr y \<Longrightarrow> \<exists>x. r = Inr (x, y)"
  by (cases r) auto

lemma messaging_exec_step:
  assumes "messaging_exec col env call s = Inr s'"
  shows "messagingView s' = messagingView s \<or> mstep (messagingView s) (messagingView s')"
  using assms
  by (cases "(col, env, call, s)" rule: messaging_exec.cases)
    (auto dest!: map_sum_snd dest: messaging_steps view_markAsRead view_markOwner)

definition messagingInv :: "messaging \<Rightarrow> bool" where
  "messagingInv s \<longleftrightarrow> viewOk (messagingView s)"

definition messagingGrows :: "messaging \<Rightarrow> messaging \<Rightarrow> bool" where
  "messagingGrows s s' \<longleftrightarrow> viewGrows (messagingView s) (messagingView s')"

interpretation messaging_system: guarded_system "messaging_exec col env" messagingInv messagingGrows for col env
proof
  show "messagingInv s \<Longrightarrow> messaging_exec col env call s = Inr s' \<Longrightarrow> messagingInv s'" for s call s'
    unfolding messagingInv_def using messaging_exec_step mstep_ok by metis
  show "messagingInv s \<Longrightarrow> messaging_exec col env call s = Inr s' \<Longrightarrow> messagingGrows s s'" for s call s'
    unfolding messagingInv_def messagingGrows_def using messaging_exec_step mstep_grows viewGrows_refl by metis
  show "messagingGrows s s" for s by (simp add: messagingGrows_def viewGrows_refl)
  show "messagingGrows s t \<Longrightarrow> messagingGrows t v \<Longrightarrow> messagingGrows s v" for s t v
    unfolding messagingGrows_def by (rule viewGrows_trans)
qed

end
