(* ===== verification/MessagingTheorems.thy ===== *)
theory MessagingTheorems
  imports Fixture MessagingMachine
begin

text \<open>
  Theorems about messaging: what holds of every conversation after any sequence of operations, how unread messages are
  counted, and the conversation an owner can not start.
\<close>

section \<open>A concrete state\<close>

definition fx_talkEnv :: delivery_env where
  "fx_talkEnv = \<lparr> en_pushProvider = ''noop'', en_expo = (\<lambda>ds p. Tickets []), en_mail = (\<lambda>m. None),
     en_queue = (\<lambda>q. Enqueued), en_hash = (\<lambda>x. x), en_txError = None, en_dbError = ''db error'' \<rparr>"

definition fx_talk :: messaging where
  "fx_talk =
     \<lparr> mg_delivery = \<lparr> dl_core = fx0, dl_tasks = [], dl_devices = [], dl_receipts = [], dl_notifications = [],
         dl_published = [], dl_resetTokens = [], dl_invites = [], dl_jobs = [] \<rparr>,
       mg_conversations = [\<lparr> cv_id = ''c1'', cv_orgId = ''o1'', cv_buildingId = Some ''b1'', cv_type = OWNER_TENANT,
         cv_counterpartyGroup = GROUP_MIXED, cv_subject = None, cv_createdAt = 5, cv_updatedAt = 5 \<rparr>],
       mg_participants = [\<lparr> cp_conversationId = ''c1'', cp_userId = ''own'', cp_lastReadAt = Some 5 \<rparr>,
         \<lparr> cp_conversationId = ''c1'', cp_userId = ''res'', cp_lastReadAt = None \<rparr>],
       mg_messages = [\<lparr> me_id = ''m1'', me_conversationId = ''c1'', me_senderUserId = ''own'', me_content = ''hello'',
         me_createdAt = 5 \<rparr>] \<rparr>"

definition fx_talkIds :: "string \<Rightarrow> nat \<Rightarrow> string" where
  "fx_talkIds table k = ''m2''"

section \<open>Conversations over time\<close>

lemma participants_of_view:
  "getConversationParticipantUserIds s cid = map snd (filter (\<lambda>p. fst p = cid) (map membership (mg_participants s)))"
  by (simp add: getConversationParticipantUserIds_def participantsOf_def filter_map comp_def)

lemma participant_in_view: "isUserParticipant s cid u \<longleftrightarrow> (cid, u) \<in> set (map membership (mg_participants s))"
  by (auto simp: isUserParticipant_def list_ex_iff)

lemma grown_conversation:
  assumes "map timeless cs' = map timeless cs @ x" and "c \<in> set cs"
  shows "\<exists>c' \<in> set cs'. timeless c' = timeless c"
proof -
  have "timeless c \<in> set (map timeless cs')" using assms by simp
  then show ?thesis by auto
qed

lemma timeless_fields:
  "timeless c' = timeless c \<Longrightarrow> cv_id c' = cv_id c \<and> cv_orgId c' = cv_orgId c \<and> cv_type c' = cv_type c"
  unfolding timeless_def by (cases c; cases c') simp

text \<open>
  C23. Whatever messaging operations run, and also when telling the others fails half way: every message was written
  by a participant of its conversation, no message is lost or changed, a conversation keeps its organisation, its kind and
  exactly the participants it was started with, its group fits its kind, and it is never empty: it has the message it
  was started with.
\<close>

theorem conversations_stay_sound:
  assumes "messagingInv s" and "s' = run_ops (messaging_exec col env) calls s"
  shows "(\<forall>m \<in> set (mg_messages s'). isUserParticipant s' (me_conversationId m) (me_senderUserId m))
    \<and> (\<exists>new. mg_messages s' = mg_messages s @ new)
    \<and> (\<forall>c \<in> set (mg_conversations s). \<exists>c' \<in> set (mg_conversations s'). cv_id c' = cv_id c \<and> cv_orgId c' = cv_orgId c
         \<and> cv_type c' = cv_type c
         \<and> getConversationParticipantUserIds s' (cv_id c) = getConversationParticipantUserIds s (cv_id c))
    \<and> (\<forall>c \<in> set (mg_conversations s'). cv_counterpartyGroup c = getCounterpartyGroupForConversationType (cv_type c)
         \<and> messagesOf s' (cv_id c) \<noteq> [])"
proof -
  have inv: "viewOk (messagingView s')"
    using messaging_system.run_inv [OF assms(1)] assms(2) by (simp add: messagingInv_def)
  have "viewGrows (messagingView s) (messagingView s')"
    using messaging_system.run_allowed [OF assms(1)] assms(2) by (simp add: messagingGrows_def)
  then obtain x y z where g: "map timeless (mg_conversations s') = map timeless (mg_conversations s) @ x"
    "map membership (mg_participants s') = map membership (mg_participants s) @ y"
    "fst ` set y \<inter> cv_id ` set (mg_conversations s) = {}" "mg_messages s' = mg_messages s @ z"
    by (auto simp: viewGrows_def messagingView_def)
  have "getConversationParticipantUserIds s' (cv_id c) = getConversationParticipantUserIds s (cv_id c)"
    if "c \<in> set (mg_conversations s)" for c
  proof -
    have "filter (\<lambda>p. fst p = cv_id c) y = []" using g(3) that by (force simp: filter_empty_conv)
    then show ?thesis by (simp add: participants_of_view g(2) del: map_map)
  qed
  moreover have "\<exists>c' \<in> set (mg_conversations s'). cv_id c' = cv_id c \<and> cv_orgId c' = cv_orgId c \<and> cv_type c' = cv_type c"
    if "c \<in> set (mg_conversations s)" for c
    using grown_conversation [OF g(1) that] timeless_fields by blast
  moreover have "cv_counterpartyGroup c = getCounterpartyGroupForConversationType (cv_type c)
      \<and> messagesOf s' (cv_id c) \<noteq> []"
    if c: "c \<in> set (mg_conversations s')" for c
  proof -
    from inv c have k: "conversationOk (mg_messages s') c" by (simp add: viewOk_def messagingView_def)
    then show ?thesis by (auto simp: conversationOk_def messagesOf_def filter_empty_conv)
  qed
  moreover have "\<forall>m \<in> set (mg_messages s'). isUserParticipant s' (me_conversationId m) (me_senderUserId m)"
    using inv unfolding participant_in_view viewOk_def messagingView_def by simp
  ultimately show ?thesis using g(4) by blast
qed

lemma fx_talk_inv: "messagingInv fx_talk"
  by (simp add: messagingInv_def viewOk_def messagingView_def conversationOk_def fx_talk_def)

definition fx_answer :: messaging_call where
  "fx_answer = (\<lambda>k. 9 + int k, fx_talkIds, OwnerSend ''res'' ''c1'' ''hi'')"

lemma fx_talk_core: "mcore fx_talk = fx0" "find_by us_id ''res'' (users fx0) = Some (fx_account ''res'' (Some ''o1''))"
  by (simp_all add: fx_talk_def fx0_def fx_users_def fx_account_def)

lemma fx_answer_run:
  "\<exists>s'. messaging_exec col fx_talkEnv fx_answer fx_talk = Inr s' \<and> map me_senderUserId (mg_messages s') = [''own'', ''res'']"
proof -
  have f: "findConversationByIdForUserAcrossOrgs fx_talk ''c1'' ''res'' \<noteq> None" "isUserParticipant fx_talk ''c1'' ''res''"
    by (simp_all add: findConversationByIdForUserAcrossOrgs_def isUserParticipant_def fx_talk_def)
  have a: "\<exists>m s1. addMessage fx_talk (\<lambda>k. 9 + int k) ''m2'' ''c1'' ''res'' ''hi'' = Inr (m, s1)
      \<and> map me_senderUserId (mg_messages s1) = [''own'', ''res'']"
    using fx_talk_core by (simp add: addMessage_def markConversationAsRead_def Let_def) (simp add: fx_talk_def)
  then show ?thesis
    using f by (auto simp: fx_answer_def sendOwnerMessage_def sendMessageInternal_def fx_talkIds_def tellOthers_def case_prod_unfold)
qed

theorem conversations_stay_sound_witness:
  "\<exists>new. mg_messages (run_ops (messaging_exec (\<lambda>_. []) fx_talkEnv) [fx_answer] fx_talk) = mg_messages fx_talk @ new
     \<and> map me_senderUserId new = [''res'']"
proof -
  obtain s' where s': "messaging_exec (\<lambda>_. []) fx_talkEnv fx_answer fx_talk = Inr s'"
    "map me_senderUserId (mg_messages s') = [''own'', ''res'']" using fx_answer_run [of "\<lambda>_. []"] by (elim exE conjE)
  obtain new where new: "mg_messages (run_ops (messaging_exec (\<lambda>_. []) fx_talkEnv) [fx_answer] fx_talk) = mg_messages fx_talk @ new"
    using conversations_stay_sound [OF fx_talk_inv refl, of "\<lambda>_. []" fx_talkEnv "[fx_answer]"] by (elim conjE exE)
  moreover have "map me_senderUserId new = [''res'']"
  proof -
    have "run_ops (messaging_exec (\<lambda>_. []) fx_talkEnv) [fx_answer] fx_talk = s'" by (simp add: s'(1))
    then have "map me_senderUserId (mg_messages fx_talk) @ map me_senderUserId new = [''own'', ''res'']"
      using s'(2) new by (simp flip: map_append)
    moreover have "map me_senderUserId (mg_messages fx_talk) = [''own'']" by (simp add: fx_talk_def)
    ultimately show ?thesis by simp
  qed
  ultimately show ?thesis by (intro exI conjI)
qed

section \<open>Unread messages\<close>

abbreviation marked :: "int \<Rightarrow> string \<Rightarrow> string \<Rightarrow> participant_row \<Rightarrow> participant_row" where
  "marked now cid u p \<equiv> (if cp_conversationId p = cid \<and> cp_userId p = u then p\<lparr> cp_lastReadAt := Some now \<rparr> else p)"

lemma send_writes:
  assumes "sendMessageInternal env s clk ids u org cid body = Inr (r, s')"
  shows "\<exists>i. mg_messages s' = mg_messages s @ [\<lparr> me_id = i, me_conversationId = cid, me_senderUserId = u, me_content = body,
      me_createdAt = clk 0 \<rparr>]" and "mg_participants s' = map (marked (clk 2) cid u) (mg_participants s)"
  using assms
  by (auto simp: sendMessageInternal_def tellOthers_def addMessage_def markConversationAsRead_def case_prod_unfold Let_def
      split: if_splits)

lemma participants_marked:
  assumes "mg_participants s' = map (marked now cid u) (mg_participants s)"
  shows "List.find (\<lambda>p. cp_userId p = v) (participantsOf s' c)
    = map_option (marked now cid u) (List.find (\<lambda>p. cp_userId p = v) (participantsOf s c))"
proof -
  have "participantsOf s' c = map (marked now cid u) (participantsOf s c)"
    unfolding participantsOf_def assms filter_map
    by (rule arg_cong [where f = "map (marked now cid u)"], rule filter_cong) auto
  then show ?thesis by (simp only: find_map_kept [of "\<lambda>p. cp_userId p = v" "marked now cid u"] if_distrib) (rule find_map_kept, simp)
qed

lemma unread_zero:
  assumes "List.find (\<lambda>p. cp_userId p = v) (participantsOf s cid) = Some p" and "cp_lastReadAt p = Some t"
    and "\<And>m. m \<in> set (messagesOf s cid) \<Longrightarrow> me_createdAt m \<le> t"
  shows "unreadIn s v cid = 0"
  using assms(3) by (simp add: unreadIn_def assms(1,2) filter_empty_conv not_less)

lemma found_participant:
  "List.find (\<lambda>p. cp_userId p = v) (participantsOf s cid) = Some p \<Longrightarrow> cp_userId p = v \<and> cp_conversationId p = cid"
  by (auto simp: participantsOf_def find_Some_iff dest: nth_mem)

text \<open>
  C24. A message counts once for every other participant, whose mark lies before it, and for nobody else: the count of
  another conversation does not change, the sender has nothing unread in it, and a participant who marks the
  conversation as read has nothing unread in it (when the clock does not run backwards and not behind the messages).
\<close>

theorem unread_counts_each_message_once:
  assumes "sendMessageInternal env s clk ids u org cid body = Inr (r, s')" and "clk 0 \<le> clk 2"
    and "List.find (\<lambda>p. cp_userId p = v) (participantsOf s cid) = Some p" and "v \<noteq> u"
    and "\<And>t. cp_lastReadAt p = Some t \<Longrightarrow> t < clk 0" and "\<And>m. m \<in> set (messagesOf s cid) \<Longrightarrow> me_createdAt m \<le> clk 0"
    and "clk 0 \<le> later" and "markConversationAsReadInternal s' later v org' cid = Inr s''" and "other \<noteq> cid"
  shows "unreadIn s' v cid = Suc (unreadIn s v cid) \<and> unreadIn s' w other = unreadIn s w other
    \<and> unreadIn s' u cid = 0 \<and> unreadIn s'' v cid = 0"
proof -
  obtain i where ms: "mg_messages s' = mg_messages s @ [\<lparr> me_id = i, me_conversationId = cid, me_senderUserId = u,
      me_content = body, me_createdAt = clk 0 \<rparr>]" using send_writes(1) [OF assms(1)] by blast
  note ps = participants_marked [OF send_writes(2) [OF assms(1)]]
  have p: "cp_userId p = v" using found_participant [OF assms(3)] by simp
  have f: "List.find (\<lambda>p. cp_userId p = v) (participantsOf s' cid) = Some p" using assms(4) p by (simp add: ps assms(3))
  have m': "me_createdAt m \<le> clk 0" if "m \<in> set (messagesOf s' cid)" for m
    using that assms(6) by (auto simp: messagesOf_def ms)
  have "unreadIn s' v cid = Suc (unreadIn s v cid)"
    using assms(5) by (auto simp: unreadIn_def f assms(3) messagesOf_def ms split: option.split)
  moreover have "unreadIn s' w other = unreadIn s w other"
  proof -
    have "List.find (\<lambda>p. cp_userId p = w) (participantsOf s' other) = List.find (\<lambda>p. cp_userId p = w) (participantsOf s other)"
      unfolding ps using found_participant [of w s other] assms(9)
      by (cases "List.find (\<lambda>p. cp_userId p = w) (participantsOf s other)") simp_all
    then show ?thesis using assms(9) by (simp add: unreadIn_def messagesOf_def ms cong: option.case_cong)
  qed
  moreover have "unreadIn s' u cid = 0"
  proof -
    have "isUserParticipant s cid u" using assms(1) by (auto simp: sendMessageInternal_def)
    then obtain q where q: "List.find (\<lambda>p. cp_userId p = u) (participantsOf s cid) = Some q"
      by (cases "List.find (\<lambda>p. cp_userId p = u) (participantsOf s cid)")
        (auto simp: isUserParticipant_def list_ex_iff participantsOf_def find_None_iff)
    show ?thesis
      by (rule unread_zero [of u s' cid "q\<lparr> cp_lastReadAt := Some (clk 2) \<rparr>" "clk 2"])
        (use found_participant [OF q] m' assms(2) in \<open>auto simp: ps q intro: order_trans\<close>)
  qed
  moreover have "unreadIn s'' v cid = 0"
  proof -
    from assms(8) have s'': "mg_participants s'' = map (marked later cid v) (mg_participants s')" "mg_messages s'' = mg_messages s'"
      by (auto simp: markConversationAsReadInternal_def markConversationAsRead_def Let_def)
    have "List.find (\<lambda>p. cp_userId p = v) (participantsOf s'' cid) = Some (p\<lparr> cp_lastReadAt := Some later \<rparr>)"
      using found_participant [OF f] by (simp add: participants_marked [OF s''(1)] f)
    moreover have "me_createdAt m \<le> later" if "m \<in> set (messagesOf s'' cid)" for m
      using that m' [of m] assms(7) by (simp add: messagesOf_def s''(2))
    ultimately show ?thesis using unread_zero [of v s'' cid "p\<lparr> cp_lastReadAt := Some later \<rparr>" later] by simp
  qed
  ultimately show ?thesis by simp
qed


lemma fx_talk_participant: "isUserParticipant fx_talk ''c1'' ''own''" "isUserParticipant fx_talk ''c1'' ''res''"
  by (simp_all add: isUserParticipant_def fx_talk_def)

lemma fx_send_run: "\<exists>r s'. sendMessageInternal fx_talkEnv fx_talk (\<lambda>k. 9 + int k) fx_talkIds ''own'' ''o1'' ''c1'' ''hi'' = Inr (r, s')"
proof -
  have "find_by us_id ''own'' (users fx0) \<noteq> None" by (simp add: fx0_def fx_users_def fx_account_def)
  then have "\<exists>m s1. addMessage fx_talk (\<lambda>k. 9 + int k) ''m2'' ''c1'' ''own'' ''hi'' = Inr (m, s1)"
    using fx_talk_core(1) by (simp add: addMessage_def Let_def) (simp add: fx_talk_def)
  then show ?thesis
    using fx_talk_participant by (auto simp: sendMessageInternal_def fx_talkIds_def case_prod_unfold)
qed

theorem unread_counts_each_message_once_witness:
  "\<exists>r s'. sendMessageInternal fx_talkEnv fx_talk (\<lambda>k. 9 + int k) fx_talkIds ''own'' ''o1'' ''c1'' ''hi'' = Inr (r, s')
     \<and> unreadIn fx_talk ''res'' ''c1'' = 1 \<and> unreadIn s' ''res'' ''c1'' = 2 \<and> unreadIn s' ''own'' ''c1'' = 0"
proof -
  obtain r s' where s': "sendMessageInternal fx_talkEnv fx_talk (\<lambda>k. 9 + int k) fx_talkIds ''own'' ''o1'' ''c1'' ''hi'' = Inr (r, s')"
    using fx_send_run by (elim exE)
  have f: "List.find (\<lambda>p. cp_userId p = ''res'') (participantsOf fx_talk ''c1'')
      = Some \<lparr> cp_conversationId = ''c1'', cp_userId = ''res'', cp_lastReadAt = None \<rparr>"
    by (simp add: participantsOf_def fx_talk_def)
  have d: "''res'' \<noteq> ''own''" "''c2'' \<noteq> ''c1''" by simp_all
  have old: "me_createdAt m \<le> 9 + int 0" if "m \<in> set (messagesOf fx_talk ''c1'')" for m
    using that by (auto simp: messagesOf_def fx_talk_def)
  have never: "t < 9 + int 0" if "cp_lastReadAt \<lparr> cp_conversationId = ''c1'', cp_userId = ''res'', cp_lastReadAt = None \<rparr> = Some t" for t
    using that by simp
  have "isUserParticipant s' ''c1'' ''res''"
    using fx_talk_participant(2) send_writes(2) [OF s'] by (auto simp: isUserParticipant_def list_ex_iff)
  then obtain s'' where r: "markConversationAsReadInternal s' 10 ''res'' ''o1'' ''c1'' = Inr s''"
    by (simp add: markConversationAsReadInternal_def Let_def)
  have "unreadIn fx_talk ''res'' ''c1'' = 1" by (simp add: unreadIn_def f) (simp add: messagesOf_def fx_talk_def)
  with unread_counts_each_message_once [OF s' _ f d(1) never old _ r d(2)] s' show ?thesis by auto
qed

section \<open>The owner who lives in the unit\<close>

text \<open>
  An owner who is also the tenant of the unit and writes to the tenant gets the error of the database: the two
  participants are the same user, and the pair of conversation and user is unique.
\<close>

lemma owner_cannot_write_to_himself:
  assumes "getAccessibleUnitOrThrow (mcore s) u n = Inr x" and "findActiveOccupancyForResidentInUnit (mcore s) u n = Some oc"
  shows "createOwnerConversationWithTenant env s now ids u n u subj body = Inl UniqueViolation"
  by (simp add: createOwnerConversationWithTenant_def assms createConversationAndNotify_def createConversationRows_def)

end
