(* ===== verification/Broadcasts.thy ===== *)
theory Broadcasts
  imports Messaging DeliveryWorkers
begin

text \<open>
  Broadcasts to the users of buildings: \<^verbatim>\<open>broadcasts.constants.ts\<close>, \<^verbatim>\<open>broadcast-metadata.dto.ts\<close>,
  \<^verbatim>\<open>broadcasts.repo.ts\<close> and \<^verbatim>\<open>broadcasts.service.ts\<close>. The fan-out of a broadcast is the delivery task of
  \<^verbatim>\<open>DeliveryWorkers\<close>. A JavaScript \<^verbatim>\<open>Set\<close> of ids is the list of its members in the order in which they were added.
\<close>

section \<open>Audiences and metadata\<close>

datatype audience = TENANTS | ADMINS | STAFF | MANAGERS | BUILDING_ADMINS | ALL_USERS

definition DEFAULT_BROADCAST_AUDIENCES :: "audience list" where
  "DEFAULT_BROADCAST_AUDIENCES = [TENANTS]"

fun audience_str :: "audience \<Rightarrow> string" where
  "audience_str TENANTS = ''tenants''"
| "audience_str ADMINS = ''admins''"
| "audience_str STAFF = ''staff''"
| "audience_str MANAGERS = ''managers''"
| "audience_str BUILDING_ADMINS = ''building_admins''"
| "audience_str ALL_USERS = ''all_users''"

fun AUDIENCE_LABELS :: "audience \<Rightarrow> string" where
  "AUDIENCE_LABELS TENANTS = ''Tenants''"
| "AUDIENCE_LABELS ADMINS = ''Admins''"
| "AUDIENCE_LABELS STAFF = ''Staff''"
| "AUDIENCE_LABELS MANAGERS = ''Managers''"
| "AUDIENCE_LABELS BUILDING_ADMINS = ''Building Admins''"
| "AUDIENCE_LABELS ALL_USERS = ''All Users''"

definition buildBroadcastAudienceSummary :: "audience list \<Rightarrow> string" where
  "buildBroadcastAudienceSummary audiences =
     (case map AUDIENCE_LABELS audiences of
        [] \<Rightarrow> ''Recipients''
      | [a] \<Rightarrow> a
      | [a, b] \<Rightarrow> a @ '' and '' @ b
      | labels \<Rightarrow> joinWith '', '' (butlast labels) @ '', and '' @ last labels)"

datatype broadcast_scope = single_building | multi_building | org_wide

fun broadcast_scope_str :: "broadcast_scope \<Rightarrow> string" where
  "broadcast_scope_str single_building = ''single_building''"
| "broadcast_scope_str multi_building = ''multi_building''"
| "broadcast_scope_str org_wide = ''org_wide''"

definition inferBroadcastMetadataScope :: "nat \<Rightarrow> bool \<Rightarrow> broadcast_scope" where
  "inferBroadcastMetadataScope buildingCount isOrgWide =
     (if isOrgWide then org_wide else if buildingCount \<le> 1 then single_building else multi_building)"

record broadcast_metadata =
  bm_audiences :: "audience list"
  bm_scope :: broadcast_scope
  bm_buildingCount :: nat
  bm_audienceSummary :: string

definition buildBroadcastMetadata :: "audience list \<Rightarrow> nat \<Rightarrow> bool \<Rightarrow> broadcast_metadata" where
  "buildBroadcastMetadata audiences buildingCount isOrgWide =
     \<lparr> bm_audiences = audiences, bm_scope = inferBroadcastMetadataScope buildingCount isOrgWide,
       bm_buildingCount = buildingCount, bm_audienceSummary = buildBroadcastAudienceSummary audiences \<rparr>"

definition metadataJson :: "broadcast_metadata \<Rightarrow> json" where
  "metadataJson b =
     JObject [(''audiences'', JList (map (\<lambda>a. JText (audience_str a)) (bm_audiences b))),
       (''scope'', JText (broadcast_scope_str (bm_scope b))), (''buildingCount'', JNumber (int (bm_buildingCount b))),
       (''audienceSummary'', JText (bm_audienceSummary b))]"

section \<open>The repository\<close>

record broadcast_row =
  bw_id :: string
  bw_orgId :: string
  bw_senderUserId :: string
  bw_title :: string
  bw_body :: "string option"
  bw_buildingIds :: "string list"
  bw_recipientCount :: nat
  bw_metadata :: broadcast_metadata
  bw_createdAt :: int

record broadcasting =
  bs_delivery :: delivery_db
  bs_broadcasts :: "broadcast_row list"

abbreviation bcore :: "broadcasting \<Rightarrow> db" where
  "bcore s \<equiv> dl_core (bs_delivery s)"

text \<open>The sender is a foreign key.\<close>

definition createBroadcastRow :: "broadcasting \<Rightarrow> broadcast_row \<Rightarrow> broadcasting res" where
  "createBroadcastRow s b =
     (if find_by bw_id (bw_id b) (bs_broadcasts s) \<noteq> None then Inl UniqueViolation
      else if find_by us_id (bw_senderUserId b) (users (bcore s)) = None then Inl RecordNotFound
      else Inr (s\<lparr> bs_broadcasts := bs_broadcasts s @ [b] \<rparr>))"

definition findBroadcastById :: "broadcasting \<Rightarrow> string \<Rightarrow> string \<Rightarrow> broadcast_row option" where
  "findBroadcastById s i org = List.find (\<lambda>b. bw_id b = i \<and> bw_orgId b = org) (bs_broadcasts s)"

definition broadcast_key :: "broadcast_row \<Rightarrow> cursor" where
  "broadcast_key b = (bw_createdAt b, bw_id b)"

text \<open>
  \<^verbatim>\<open>has\<close> one building when one was asked for; \<^verbatim>\<open>hasSome\<close> of a list of buildings when the list is given and not empty.
\<close>

definition broadcastWhere :: "string \<Rightarrow> string option \<Rightarrow> string list option \<Rightarrow> broadcast_row \<Rightarrow> bool" where
  "broadcastWhere org buildingId buildingIds b \<longleftrightarrow>
     bw_orgId b = org
     \<and> (truthy buildingId \<longrightarrow> List.member (bw_buildingIds b) (the buildingId))
     \<and> (case buildingIds of
          None \<Rightarrow> True
        | Some is \<Rightarrow> is \<noteq> [] \<longrightarrow> list_ex (\<lambda>i. List.member (bw_buildingIds b) i) is)"

definition listBroadcastRows ::
  "broadcasting \<Rightarrow> string \<Rightarrow> string option \<Rightarrow> string list option \<Rightarrow> nat \<Rightarrow> cursor option \<Rightarrow> broadcast_row list" where
  "listBroadcastRows s org buildingId buildingIds n c =
     take n (newestRows broadcast_key
       (filter (\<lambda>b. broadcastWhere org buildingId buildingIds b \<and> afterCursor c (broadcast_key b)) (bs_broadcasts s)))"

definition getActiveResidentUserIds :: "db \<Rightarrow> string \<Rightarrow> string list \<Rightarrow> string list" where
  "getActiveResidentUserIds s org buildingIds =
     js_unique (map oc_residentUserId (filter (\<lambda>oc. oc_status oc = OC_ACTIVE \<and> buildingInOrg s (oc_buildingId oc) org
       \<and> user_active s (oc_residentUserId oc)
       \<and> (buildingIds \<noteq> [] \<longrightarrow> List.member buildingIds (oc_buildingId oc))) (occupancies s)))"

definition getBuildingAssignmentUserIds :: "db \<Rightarrow> string \<Rightarrow> string list \<Rightarrow> string list \<Rightarrow> string list" where
  "getBuildingAssignmentUserIds s org buildingIds keys =
     (if buildingIds = [] \<or> keys = [] then []
      else js_unique (map ua_userId (filter (\<lambda>a. ua_scopeType a = SC_BUILDING
        \<and> (case ua_scopeId a of None \<Rightarrow> False | Some i \<Rightarrow> List.member buildingIds i)
        \<and> template_sat s a (\<lambda>t. rt_orgId t = Some org \<and> rt_scopeType t = SC_BUILDING \<and> List.member keys (rt_key t))
        \<and> activeInOrg s org (ua_userId a)) (accessAssignments s))))"

definition getAdminUserIds :: "db \<Rightarrow> string \<Rightarrow> string list" where
  "getAdminUserIds s org =
     js_unique (map ua_userId (filter (\<lambda>a. ua_scopeType a = SC_ORG \<and> ua_scopeId a = None
       \<and> template_sat s a (\<lambda>t. rt_orgId t = Some org \<and> rt_scopeType t = SC_ORG \<and> List.member [''org_admin''] (rt_key t))
       \<and> activeInOrg s org (ua_userId a)) (accessAssignments s)))"

definition getActiveOrgUserIds :: "db \<Rightarrow> string \<Rightarrow> string list" where
  "getActiveOrgUserIds s org = map us_id (filter (\<lambda>x. us_orgId x = Some org \<and> us_isActive x) (users s))"

definition getOrgBuildingIds :: "db \<Rightarrow> string \<Rightarrow> string list" where
  "getOrgBuildingIds s org = map bd_id (filter (\<lambda>b. bd_orgId b = org) (buildings s))"

section \<open>Recipients\<close>

definition normalizeAudiences :: "audience list option \<Rightarrow> audience list" where
  "normalizeAudiences audiences =
     js_unique (case audiences of Some (a # as) \<Rightarrow> a # as | _ \<Rightarrow> DEFAULT_BROADCAST_AUDIENCES)"

definition buildingLinkedIds :: "db \<Rightarrow> string \<Rightarrow> string list \<Rightarrow> string list" where
  "buildingLinkedIds s org buildingIds =
     js_unique (getActiveResidentUserIds s org buildingIds
       @ getBuildingAssignmentUserIds s org buildingIds [''building_manager'', ''building_staff'', ''building_admin''])"

definition assignmentTypes :: "audience list \<Rightarrow> string list" where
  "assignmentTypes audiences =
     (if List.member audiences MANAGERS then [''building_manager''] else [])
     @ (if List.member audiences STAFF then [''building_staff''] else [])
     @ (if List.member audiences BUILDING_ADMINS then [''building_admin''] else [])"

definition resolveRecipientUserIds :: "db \<Rightarrow> string \<Rightarrow> string list \<Rightarrow> audience list \<Rightarrow> string list" where
  "resolveRecipientUserIds s org buildingIds audiences =
     (if List.member audiences ALL_USERS
      then if buildingIds \<noteq> [] then buildingLinkedIds s org buildingIds else getActiveOrgUserIds s org
      else js_unique (
        (if List.member audiences TENANTS then getActiveResidentUserIds s org buildingIds else [])
        @ (let types = assignmentTypes audiences
           in if types \<noteq> [] then getBuildingAssignmentUserIds s org buildingIds types else [])
        @ (if List.member audiences ADMINS
           then (let adminIds = getAdminUserIds s org
                 in if buildingIds = [] then adminIds
                    else filter (\<lambda>i. List.member (buildingLinkedIds s org buildingIds) i) adminIds)
           else [])))"

definition matchesOrgWideTarget :: "string list \<Rightarrow> string list \<Rightarrow> bool" where
  "matchesOrgWideTarget targets orgBuildingIds \<longleftrightarrow>
     targets \<noteq> [] \<and> orgBuildingIds \<noteq> [] \<and> length targets = length orgBuildingIds
     \<and> list_all (\<lambda>i. List.member orgBuildingIds i) targets"

section \<open>Sending a broadcast\<close>

definition ORG_SCOPED_BROADCAST_PERMISSION :: string where
  "ORG_SCOPED_BROADCAST_PERMISSION = ''broadcasts.write''"

definition broadcastBuildingIds :: "db \<Rightarrow> string \<Rightarrow> string \<Rightarrow> string \<Rightarrow> string list" where
  "broadcastBuildingIds s userId org key = getUserBuildingIdsWithPermission s userId org key"

fun checkTargets :: "db \<Rightarrow> string \<Rightarrow> string list option \<Rightarrow> string list \<Rightarrow> unit res" where
  "checkTargets s org assigned [] = Inr ()"
| "checkTargets s org assigned (i # is) =
     andThen (assertBuildingInOrg s i org) (\<lambda>_.
     andThen (ensure (case assigned of None \<Rightarrow> True | Some as \<Rightarrow> List.member as i)
       (Forbidden (''You do not have permission to broadcast to building '' @ i))) (\<lambda>_.
     checkTargets s org assigned is))"

record broadcast_dto =
  bt_title :: string
  bt_body :: "string option"
  bt_buildingIds :: "string list option"
  bt_audiences :: "audience list option"

definition resolveTargets :: "db \<Rightarrow> string \<Rightarrow> string \<Rightarrow> bool \<Rightarrow> string list option \<Rightarrow> string list res" where
  "resolveTargets s userId org orgWide requested =
     (case requested of
        Some (i # is) \<Rightarrow>
          andThen (checkTargets s org
            (if orgWide then None else Some (broadcastBuildingIds s userId org ORG_SCOPED_BROADCAST_PERMISSION)) (i # is)) (\<lambda>_.
          Inr (i # is))
      | _ \<Rightarrow>
          let targets = (if orgWide then getOrgBuildingIds s org
                         else broadcastBuildingIds s userId org ORG_SCOPED_BROADCAST_PERMISSION)
          in andThen (ensure (targets \<noteq> []) (BadRequest ''No buildings available for broadcasting'')) (\<lambda>_. Inr targets))"

definition createBroadcast ::
  "delivery_env \<Rightarrow> broadcasting \<Rightarrow> int \<Rightarrow> (string \<Rightarrow> nat \<Rightarrow> string) \<Rightarrow> string \<Rightarrow> string \<Rightarrow> broadcast_dto
   \<Rightarrow> (broadcast_row res \<times> broadcasting) res" where
  "createBroadcast env s now ids userId org d =
     (let audiences = normalizeAudiences (bt_audiences d);
          orgWide = ORG_SCOPED_BROADCAST_PERMISSION \<in> getUserEffectivePermissions (bcore s) userId (Some org) None False
      in andThen (resolveTargets (bcore s) userId org orgWide (bt_buildingIds d)) (\<lambda>targets.
         let metadata = buildBroadcastMetadata audiences (length targets)
               (orgWide \<and> matchesOrgWideTarget targets (getOrgBuildingIds (bcore s) org));
             recipients = resolveRecipientUserIds (bcore s) org targets audiences
         in andThen (ensure (recipients \<noteq> [])
              (BadRequest ''No active recipients found for the selected audiences in the target buildings'')) (\<lambda>_.
            let b = \<lparr> bw_id = ids ''Broadcast'' 0, bw_orgId = org, bw_senderUserId = userId, bw_title = bt_title d,
                      bw_body = bt_body d, bw_buildingIds = targets, bw_recipientCount = length recipients,
                      bw_metadata = metadata, bw_createdAt = now \<rparr>
            in andThen (createBroadcastRow s b) (\<lambda>s1.
               case enqueueFanoutTask env now (ids ''Notification'') (ids ''DeliveryTask'' 1) (ids ''DeliveryTask'' 0)
                 \<lparr> bp_broadcastId = bw_id b, bp_orgId = org, bp_userIds = recipients, bp_title = bt_title d,
                   bp_body = bt_body d, bp_senderUserId = userId, bp_buildingIds = targets,
                   bp_metadata = JObject [(''broadcastId'', JText (bw_id b)), (''buildingIds'', JList (map JText targets)),
                     (''senderUserId'', JText userId), (''metadata'', metadataJson metadata)] \<rparr> (bs_delivery s1) of
                 (r, dl) \<Rightarrow> Inr (andThen r (\<lambda>_. Inr b), s1\<lparr> bs_delivery := dl \<rparr>)))))"

section \<open>Reading broadcasts\<close>

text \<open>\<open>None\<close> is the \<^verbatim>\<open>null\<close> of a reader whose permission is not bound to buildings.\<close>

definition resolveReadableBuildingIds :: "db \<Rightarrow> string \<Rightarrow> string \<Rightarrow> string list option" where
  "resolveReadableBuildingIds s userId org =
     (if ''broadcasts.read'' \<in> getUserEffectivePermissions s userId (Some org) None False then None
      else Some (broadcastBuildingIds s userId org ''broadcasts.read''))"

definition assertReadableByUser :: "db \<Rightarrow> string \<Rightarrow> string \<Rightarrow> string list \<Rightarrow> unit res" where
  "assertReadableByUser s userId org buildingIds =
     (case resolveReadableBuildingIds s userId org of
        None \<Rightarrow> Inr ()
      | Some is \<Rightarrow> ensure (list_ex (\<lambda>i. List.member is i) buildingIds) (NotFound ''Broadcast not found''))"

definition getBroadcast :: "broadcasting \<Rightarrow> string \<Rightarrow> string \<Rightarrow> string \<Rightarrow> broadcast_row res" where
  "getBroadcast s userId org i =
     andThen (orThrow (findBroadcastById s i org) (NotFound ''Broadcast not found'')) (\<lambda>b.
     andThen (assertReadableByUser (bcore s) userId org (bw_buildingIds b)) (\<lambda>_. Inr b))"

definition resolveListBuildingFilter ::
  "db \<Rightarrow> string \<Rightarrow> string option \<Rightarrow> string list option \<Rightarrow> (string option \<times> string list option) res" where
  "resolveListBuildingFilter s org requested readable =
     (if truthy requested
      then andThen (assertBuildingInOrg s (the requested) org) (\<lambda>_.
           andThen (ensure (case readable of None \<Rightarrow> True | Some is \<Rightarrow> List.member is (the requested))
             (Forbidden (''You do not have permission to read broadcasts for building '' @ the requested))) (\<lambda>_.
           Inr (requested, None)))
      else Inr (None, readable))"

definition listBroadcasts ::
  "broadcasting \<Rightarrow> string \<Rightarrow> string \<Rightarrow> string option \<Rightarrow> cursor option option \<Rightarrow> int option
   \<Rightarrow> (broadcast_row list \<times> cursor option) res" where
  "listBroadcasts s userId org requested cur limit =
     (let n = nat (clampLimit 20 100 limit)
      in andThen (case cur of None \<Rightarrow> Inr None | Some None \<Rightarrow> Inl (BadRequest ''Invalid cursor'') | Some (Some k) \<Rightarrow> Inr (Some k)) (\<lambda>c.
         andThen (resolveListBuildingFilter (bcore s) org requested (resolveReadableBuildingIds (bcore s) userId org)) (\<lambda>(one, some).
         Inr (cutPage broadcast_key n (listBroadcastRows s org one some (Suc n) c)))))"

end
