(* ===== verification/BroadcastTheorems.thy ===== *)
theory BroadcastTheorems
  imports Fixture Broadcasts
begin

text \<open>
  Theorems about broadcasts: who receives one, against a description of each audience by the tables, and how the list of
  broadcasts relates to reading one of them.
\<close>

section \<open>Who is in an audience\<close>

definition livesIn :: "db \<Rightarrow> string \<Rightarrow> string list \<Rightarrow> string \<Rightarrow> bool" where
  "livesIn s org bs v \<longleftrightarrow> user_active s v
     \<and> (\<exists>oc \<in> set (occupancies s). oc_residentUserId oc = v \<and> oc_status oc = OC_ACTIVE
          \<and> buildingInOrg s (oc_buildingId oc) org \<and> oc_buildingId oc \<in> set bs)"

definition worksIn :: "db \<Rightarrow> string \<Rightarrow> string list \<Rightarrow> string set \<Rightarrow> string \<Rightarrow> bool" where
  "worksIn s org bs keys v \<longleftrightarrow> activeInOrg s org v
     \<and> (\<exists>a \<in> set (accessAssignments s). ua_userId a = v \<and> ua_scopeType a = SC_BUILDING
          \<and> (\<exists>i \<in> set bs. ua_scopeId a = Some i)
          \<and> template_sat s a (\<lambda>t. rt_orgId t = Some org \<and> rt_scopeType t = SC_BUILDING \<and> rt_key t \<in> keys))"

definition linkedTo :: "db \<Rightarrow> string \<Rightarrow> string list \<Rightarrow> string \<Rightarrow> bool" where
  "linkedTo s org bs v \<longleftrightarrow>
     livesIn s org bs v \<or> worksIn s org bs {''building_manager'', ''building_staff'', ''building_admin''} v"

definition administers :: "db \<Rightarrow> string \<Rightarrow> string \<Rightarrow> bool" where
  "administers s org v \<longleftrightarrow> activeInOrg s org v
     \<and> (\<exists>a \<in> set (accessAssignments s). ua_userId a = v \<and> ua_scopeType a = SC_ORG \<and> ua_scopeId a = None
          \<and> template_sat s a (\<lambda>t. rt_orgId t = Some org \<and> rt_scopeType t = SC_ORG \<and> rt_key t = ''org_admin''))"

fun inAudience :: "db \<Rightarrow> string \<Rightarrow> string list \<Rightarrow> audience \<Rightarrow> string \<Rightarrow> bool" where
  "inAudience s org bs TENANTS v = livesIn s org bs v"
| "inAudience s org bs MANAGERS v = worksIn s org bs {''building_manager''} v"
| "inAudience s org bs STAFF v = worksIn s org bs {''building_staff''} v"
| "inAudience s org bs BUILDING_ADMINS v = worksIn s org bs {''building_admin''} v"
| "inAudience s org bs ADMINS v = (administers s org v \<and> linkedTo s org bs v)"
| "inAudience s org bs ALL_USERS v = linkedTo s org bs v"

section \<open>The queries\<close>

lemma case_some_iff: "(case x of None \<Rightarrow> False | Some i \<Rightarrow> P i) \<longleftrightarrow> (\<exists>i. x = Some i \<and> P i)"
  by (cases x) auto

lemma residents_mem:
  "bs \<noteq> [] \<Longrightarrow> v \<in> set (getActiveResidentUserIds s org bs) \<longleftrightarrow> livesIn s org bs v"
  by (auto simp: getActiveResidentUserIds_def livesIn_def)

lemma assigned_mem:
  "bs \<noteq> [] \<Longrightarrow> v \<in> set (getBuildingAssignmentUserIds s org bs keys) \<longleftrightarrow> worksIn s org bs (set keys) v"
  by (auto simp: getBuildingAssignmentUserIds_def worksIn_def template_sat_def case_some_iff)

lemma linked_mem: "bs \<noteq> [] \<Longrightarrow> v \<in> set (buildingLinkedIds s org bs) \<longleftrightarrow> linkedTo s org bs v"
  by (simp add: buildingLinkedIds_def residents_mem assigned_mem linkedTo_def)

lemma admins_mem: "v \<in> set (getAdminUserIds s org) \<longleftrightarrow> administers s org v"
  by (auto simp: getAdminUserIds_def administers_def)

lemma worksIn_split: "worksIn s org bs keys v \<longleftrightarrow> (\<exists>k \<in> keys. worksIn s org bs {k} v)"
  by (auto simp: worksIn_def template_sat_def case_some_iff)

lemma worksIn_none [simp]: "\<not> worksIn s org bs {} v"
  by (simp add: worksIn_split [of s org bs "{}"])

lemma types_mem:
  "worksIn s org bs (set (assignmentTypes as)) v \<longleftrightarrow>
     (\<exists>a \<in> set as. a \<in> {MANAGERS, STAFF, BUILDING_ADMINS} \<and> inAudience s org bs a v)"
proof -
  have t: "set (assignmentTypes as) = (if MANAGERS \<in> set as then {''building_manager''} else {})
      \<union> (if STAFF \<in> set as then {''building_staff''} else {}) \<union> (if BUILDING_ADMINS \<in> set as then {''building_admin''} else {})"
    by (simp add: assignmentTypes_def)
  have "worksIn s org bs (set (assignmentTypes as)) v \<longleftrightarrow>
      MANAGERS \<in> set as \<and> worksIn s org bs {''building_manager''} v \<or> STAFF \<in> set as \<and> worksIn s org bs {''building_staff''} v
      \<or> BUILDING_ADMINS \<in> set as \<and> worksIn s org bs {''building_admin''} v"
    unfolding worksIn_split [of s org bs "set (assignmentTypes as)"] unfolding t by (simp add: bex_Un)
  also have "\<dots> \<longleftrightarrow> (\<exists>a \<in> set as. a \<in> {MANAGERS, STAFF, BUILDING_ADMINS} \<and> inAudience s org bs a v)"
    unfolding inAudience.simps(2-4) [symmetric] by blast
  finally show ?thesis .
qed

lemma inAudience_linked: "inAudience s org bs a v \<Longrightarrow> linkedTo s org bs v"
  by (cases a) (auto simp: linkedTo_def worksIn_split [of s org bs "{''building_manager'', ''building_staff'', ''building_admin''}"])

lemma recipients_mem:
  assumes "bs \<noteq> []"
  shows "v \<in> set (resolveRecipientUserIds s org bs as) \<longleftrightarrow> (\<exists>a \<in> set as. inAudience s org bs a v)"
proof (cases "ALL_USERS \<in> set as")
  case True
  then show ?thesis
    using assms inAudience_linked [of s org bs _ v] inAudience.simps(6) [of s org bs v]
    unfolding resolveRecipientUserIds_def by (simp add: linked_mem del: inAudience.simps) blast
next
  case False
  have "v \<in> set (resolveRecipientUserIds s org bs as) \<longleftrightarrow>
      (TENANTS \<in> set as \<and> livesIn s org bs v) \<or> worksIn s org bs (set (assignmentTypes as)) v
      \<or> (ADMINS \<in> set as \<and> administers s org v \<and> linkedTo s org bs v)"
  proof -
    have "v \<in> set (if assignmentTypes as \<noteq> [] then getBuildingAssignmentUserIds s org bs (assignmentTypes as) else [])
        \<longleftrightarrow> worksIn s org bs (set (assignmentTypes as)) v"
      using assms by (cases "assignmentTypes as = []") (simp_all add: assigned_mem)
    then show ?thesis
      using False assms
      by (simp add: resolveRecipientUserIds_def Let_def residents_mem linked_mem admins_mem)
  qed
  also have "\<dots> \<longleftrightarrow> (\<exists>a \<in> set as. inAudience s org bs a v)" (is "_ \<longleftrightarrow> (\<exists>a \<in> _. ?in a)")
  proof -
    have "\<And>a. a \<in> set as \<Longrightarrow> a \<in> {TENANTS, ADMINS} \<union> {MANAGERS, STAFF, BUILDING_ADMINS}"
      subgoal for a using False by (cases a) auto
      done
    then have "(\<exists>a \<in> set as. ?in a) \<longleftrightarrow> (\<exists>a \<in> set as. a \<in> {TENANTS, ADMINS} \<and> ?in a)
        \<or> (\<exists>a \<in> set as. a \<in> {MANAGERS, STAFF, BUILDING_ADMINS} \<and> ?in a)" by blast
    moreover have "(\<exists>a \<in> set as. a \<in> {TENANTS, ADMINS} \<and> ?in a) \<longleftrightarrow>
        (TENANTS \<in> set as \<and> livesIn s org bs v) \<or> (ADMINS \<in> set as \<and> administers s org v \<and> linkedTo s org bs v)" by auto
    ultimately show ?thesis unfolding types_mem by argo
  qed
  finally show ?thesis .
qed

lemma checkTargets_Inr:
  "checkTargets s org assigned is = Inr () \<Longrightarrow> i \<in> set is
    \<Longrightarrow> buildingInOrg s i org \<and> (case assigned of None \<Rightarrow> True | Some as \<Rightarrow> i \<in> set as)"
  by (induction "is") (auto simp: assertBuildingInOrg_def buildingInOrg_def list_ex_iff dest: find_SomeD split: if_splits option.splits)

definition mayBroadcastTo :: "db \<Rightarrow> string \<Rightarrow> string \<Rightarrow> string \<Rightarrow> bool" where
  "mayBroadcastTo s userId org i \<longleftrightarrow>
     ORG_SCOPED_BROADCAST_PERMISSION \<in> getUserEffectivePermissions s userId (Some org) None False \<and> buildingInOrg s i org
     \<or> i \<in> set (getUserBuildingIdsWithPermission s userId org ORG_SCOPED_BROADCAST_PERMISSION)"

lemma resolveTargets_Inr:
  assumes "resolveTargets s u org (ORG_SCOPED_BROADCAST_PERMISSION \<in> getUserEffectivePermissions s u (Some org) None False) req = Inr targets"
  shows "targets \<noteq> []" and "i \<in> set targets \<Longrightarrow> mayBroadcastTo s u org i"
proof -
  let ?wide = "ORG_SCOPED_BROADCAST_PERMISSION \<in> getUserEffectivePermissions s u (Some org) None False"
  let ?own = "getUserBuildingIdsWithPermission s u org ORG_SCOPED_BROADCAST_PERMISSION"
  have "targets \<noteq> [] \<and> (checkTargets s org (if ?wide then None else Some ?own) targets = Inr ()
      \<or> targets = (if ?wide then getOrgBuildingIds s org else ?own))"
  proof (cases "\<exists>j js. req = Some (j # js)")
    case True
    then obtain j js where "req = Some (j # js)" by (elim exE)
    moreover with assms have "checkTargets s org (if ?wide then None else Some ?own) (j # js) = Inr ()" "targets = j # js"
      unfolding resolveTargets_def broadcastBuildingIds_def by (auto simp del: checkTargets.simps split del: if_split)
    ultimately show ?thesis by (simp del: checkTargets.simps split del: if_split)
  next
    case False
    then have "req = None \<or> req = Some []" by (metis neq_Nil_conv not_None_eq)
    with assms show ?thesis
      unfolding resolveTargets_def broadcastBuildingIds_def Let_def by (elim disjE) (auto split del: if_split)
  qed
  then consider (asked) "targets \<noteq> []" "checkTargets s org (if ?wide then None else Some ?own) targets = Inr ()"
    | (own) "targets \<noteq> []" "targets = (if ?wide then getOrgBuildingIds s org else ?own)" by blast
  note targets = this
  from targets show "targets \<noteq> []" by cases
  assume i: "i \<in> set targets"
  from targets show "mayBroadcastTo s u org i"
  proof cases
    case asked
    from checkTargets_Inr [OF asked(2) i] show ?thesis by (auto simp: mayBroadcastTo_def split: if_splits)
  next
    case own
    with i show ?thesis
      by (auto simp: mayBroadcastTo_def getOrgBuildingIds_def buildingInOrg_def list_ex_iff split: if_splits)
  qed
qed

section \<open>Sending\<close>

lemma fanout_queued:
  assumes "enqueueFanoutTask env now nids pid i p s = (Inr t, s')" and "en_queue env ''broadcast-deliveries'' = Enqueued"
  shows "dl_tasks s' = dl_tasks s @ [t]" and "dt_payload t = BroadcastPayload p"
  using assms by (auto simp: enqueueFanoutTask_def dispatchBroadcast_def createTask_def Let_def split: if_splits)

text \<open>
  C29. A broadcast that is sent is written once; every building it names is one the sender may broadcast to; the
  recipients counted in it are distinct and are exactly the users in one of the asked audiences of those buildings, and
  there is at least one; the task for the fan-out, when the queue takes it, is for exactly these users.
\<close>

theorem broadcast_reaches_exactly_its_audiences:
  assumes "createBroadcast env s now ids u org d = Inr (Inr b, s')"
    and "en_queue env ''broadcast-deliveries'' = Enqueued"
  shows "\<exists>recipients. bs_broadcasts s' = bs_broadcasts s @ [b] \<and> (\<forall>i \<in> set (bw_buildingIds b). mayBroadcastTo (bcore s) u org i)
    \<and> bw_recipientCount b = length recipients \<and> recipients \<noteq> [] \<and> distinct recipients
    \<and> (\<forall>v. v \<in> set recipients \<longleftrightarrow> (\<exists>a \<in> set (normalizeAudiences (bt_audiences d)). inAudience (bcore s) org (bw_buildingIds b) a v))
    \<and> (\<exists>t p. dl_tasks (bs_delivery s') = dl_tasks (bs_delivery s) @ [t] \<and> dt_payload t = BroadcastPayload p
         \<and> bp_broadcastId p = bw_id b \<and> bp_userIds p = recipients)"
proof -
  let ?wide = "ORG_SCOPED_BROADCAST_PERMISSION \<in> getUserEffectivePermissions (bcore s) u (Some org) None False"
  let ?as = "normalizeAudiences (bt_audiences d)"
  let ?rs = "\<lambda>targets. resolveRecipientUserIds (bcore s) org targets ?as"
  let ?m = "\<lambda>targets. buildBroadcastMetadata ?as (length targets)
    (?wide \<and> matchesOrgWideTarget targets (getOrgBuildingIds (bcore s) org))"
  let ?b = "\<lambda>targets. \<lparr> bw_id = ids ''Broadcast'' 0, bw_orgId = org, bw_senderUserId = u, bw_title = bt_title d,
    bw_body = bt_body d, bw_buildingIds = targets, bw_recipientCount = length (?rs targets), bw_metadata = ?m targets,
    bw_createdAt = now \<rparr>"
  let ?p = "\<lambda>targets. \<lparr> bp_broadcastId = ids ''Broadcast'' 0, bp_orgId = org, bp_userIds = ?rs targets, bp_title = bt_title d,
    bp_body = bt_body d, bp_senderUserId = u, bp_buildingIds = targets,
    bp_metadata = JObject [(''broadcastId'', JText (ids ''Broadcast'' 0)), (''buildingIds'', JList (map JText targets)),
      (''senderUserId'', JText u), (''metadata'', metadataJson (?m targets))] \<rparr>"
  let ?q = "\<lambda>targets. enqueueFanoutTask env now (ids ''Notification'') (ids ''DeliveryTask'' 1) (ids ''DeliveryTask'' 0) (?p targets)"
  from assms(1) obtain targets s1 where r: "resolveTargets (bcore s) u org ?wide (bt_buildingIds d) = Inr targets"
    and ne: "?rs targets \<noteq> []" and c: "createBroadcastRow s (?b targets) = Inr s1"
    and q: "andThen (fst (?q targets (bs_delivery s1))) (\<lambda>_. Inr (?b targets)) = Inr b"
    and s': "s' = s1\<lparr> bs_delivery := snd (?q targets (bs_delivery s1)) \<rparr>"
    by (auto simp: createBroadcast_def Let_def case_prod_unfold)
  from q obtain t where b: "b = ?b targets" and f: "fst (?q targets (bs_delivery s1)) = Inr t" by auto
  have e: "?q targets (bs_delivery s1) = (Inr t, bs_delivery s')" by (simp add: s' f [symmetric])
  from c have s1: "bs_broadcasts s1 = bs_broadcasts s @ [b]" "bs_delivery s1 = bs_delivery s"
    by (auto simp: createBroadcastRow_def b split: if_splits)
  note t = fanout_queued [OF e assms(2), unfolded s1(2)]
  have "distinct (?rs targets)"
    by (simp add: resolveRecipientUserIds_def buildingLinkedIds_def resolveTargets_Inr(1) [OF r])
  then show ?thesis
    using recipients_mem [OF resolveTargets_Inr(1) [OF r]] resolveTargets_Inr(2) [OF r] ne t
    by (intro exI [of _ "?rs targets"]) (simp add: s' s1(1), simp add: b)
qed


section \<open>Listing and reading\<close>

lemma cutPage_subset: "b \<in> set (fst (cutPage key n rows)) \<Longrightarrow> b \<in> set rows"
  by (auto simp: cutPage_def Let_def dest: in_set_takeD split: if_splits)

lemma listed_where:
  "b \<in> set (listBroadcastRows s org one some n c) \<Longrightarrow> b \<in> set (bs_broadcasts s) \<and> broadcastWhere org one some b"
  by (auto simp: listBroadcastRows_def newestRows_def dest!: in_set_takeD)

lemma find_distinct_id:
  "distinct (map bw_id bs) \<Longrightarrow> b \<in> set bs \<Longrightarrow> List.find (\<lambda>x. bw_id x = bw_id b \<and> bw_orgId x = bw_orgId b) bs = Some b"
  by (induction bs) (auto simp: image_iff)

text \<open>
  C26. Every broadcast on a page of the list can be read on its own by the same user, with or without the filter on one
  building, unless the user has no building to read broadcasts of: the list is then not filtered by
  buildings at all, while each of its broadcasts is refused on its own.
\<close>

theorem listed_broadcasts_readable:
  assumes "listBroadcasts s u org requested cur limit = Inr (page, next)" and "b \<in> set page"
    and "distinct (map bw_id (bs_broadcasts s))"
  shows "getBroadcast s u org (bw_id b) =
    (if resolveReadableBuildingIds (bcore s) u org = Some [] then Inl (NotFound ''Broadcast not found'') else Inr b)"
proof -
  let ?readable = "resolveReadableBuildingIds (bcore s) u org"
  from assms(1) obtain one some n c where f: "resolveListBuildingFilter (bcore s) org requested ?readable = Inr (one, some)"
    and page: "cutPage broadcast_key n (listBroadcastRows s org one some (Suc n) c) = (page, next)"
    by (auto simp: listBroadcasts_def Let_def)
  from assms(2) have b: "b \<in> set (bs_broadcasts s)" "broadcastWhere org one some b"
    using cutPage_subset [of b broadcast_key n] listed_where [of b s] by (metis page fst_conv)+
  then have "findBroadcastById s (bw_id b) org = Some b"
    using find_distinct_id [OF assms(3) b(1)] by (simp add: findBroadcastById_def broadcastWhere_def)
  moreover have "assertReadableByUser (bcore s) u org (bw_buildingIds b) =
      (if ?readable = Some [] then Inl (NotFound ''Broadcast not found'') else Inr ())"
  proof (cases ?readable)
    case None
    then show ?thesis by (simp add: assertReadableByUser_def)
  next
    case (Some rs)
    with f have "truthy one \<and> the one \<in> set rs \<or> \<not> truthy one \<and> some = Some rs"
      by (auto simp: resolveListBuildingFilter_def split: if_splits)
    then show ?thesis
      using b(2) Some by (auto simp: assertReadableByUser_def broadcastWhere_def list_ex_iff)
  qed
  ultimately show ?thesis by (simp add: getBroadcast_def)
qed


section \<open>Concrete instances\<close>

definition fx_bcRole :: db where
  "fx_bcRole =
     fx0\<lparr> permissions := [\<lparr> pm_id = ''p8'', pm_key = ''broadcasts.write'' \<rparr>, \<lparr> pm_id = ''p9'', pm_key = ''broadcasts.read'' \<rparr>],
          rolePermissions := [\<lparr> rp_roleTemplateId = ''rm'', rp_permissionId = ''p8'' \<rparr>, \<lparr> rp_roleTemplateId = ''rm'', rp_permissionId = ''p9'' \<rparr>] \<rparr>"

definition fx_bcEnv :: delivery_env where
  "fx_bcEnv = \<lparr> en_pushProvider = ''noop'', en_expo = (\<lambda>ds p. Tickets []), en_mail = (\<lambda>m. None),
     en_queue = (\<lambda>q. Enqueued), en_hash = (\<lambda>x. x), en_txError = None, en_dbError = ''db error'' \<rparr>"

definition fx_bcState :: broadcasting where
  "fx_bcState = \<lparr> bs_delivery = \<lparr> dl_core = fx_bcRole, dl_tasks = [], dl_devices = [], dl_receipts = [], dl_notifications = [],
       dl_published = [], dl_resetTokens = [], dl_invites = [], dl_jobs = [] \<rparr>, bs_broadcasts = [] \<rparr>"

definition fx_bcDto :: broadcast_dto where
  "fx_bcDto = \<lparr> bt_title = ''Water'', bt_body = None, bt_buildingIds = None, bt_audiences = Some [STAFF, TENANTS] \<rparr>"

lemma fx_bc_parts:
  "ORG_SCOPED_BROADCAST_PERMISSION \<notin> getUserEffectivePermissions fx_bcRole ''mgr'' (Some ''o1'') None False"
  "getUserBuildingIdsWithPermission fx_bcRole ''mgr'' ''o1'' ORG_SCOPED_BROADCAST_PERMISSION = [''b1'']"
  "resolveRecipientUserIds fx_bcRole ''o1'' [''b1''] [STAFF, TENANTS] = [''res'', ''stf'']"
    apply code_simp
   apply code_simp
  apply code_simp
  done

lemma fx_bc_run:
  "\<exists>b s'. createBroadcast fx_bcEnv fx_bcState 7 (\<lambda>t n. ''x'') ''mgr'' ''o1'' fx_bcDto = Inr (Inr b, s') \<and> bw_recipientCount b = 2"
proof -
  have "normalizeAudiences (bt_audiences fx_bcDto) = [STAFF, TENANTS]" by code_simp
  moreover have "resolveTargets fx_bcRole ''mgr'' ''o1'' False None = Inr [''b1'']"
    by (simp add: resolveTargets_def broadcastBuildingIds_def fx_bc_parts)
  moreover have "find_by us_id ''mgr'' (users fx_bcRole) \<noteq> None" by (simp add: fx_bcRole_def fx0_def fx_users_def fx_account_def)
  moreover have "bcore fx_bcState = fx_bcRole" by (simp add: fx_bcState_def)
  ultimately show ?thesis
    using fx_bc_parts
    by (simp add: createBroadcast_def Let_def createBroadcastRow_def enqueueFanoutTask_def createTask_def case_prod_unfold)
      (simp add: fx_bcDto_def fx_bcState_def)
qed


theorem broadcast_reaches_exactly_its_audiences_witness:
  "\<exists>b s' (recipients :: string list). createBroadcast fx_bcEnv fx_bcState 7 (\<lambda>t n. ''x'') ''mgr'' ''o1'' fx_bcDto = Inr (Inr b, s')
     \<and> bw_recipientCount b = 2 \<and> length recipients = 2 \<and> distinct recipients \<and> bs_broadcasts s' = [b]"
proof -
  obtain b s' where c: "createBroadcast fx_bcEnv fx_bcState 7 (\<lambda>t n. ''x'') ''mgr'' ''o1'' fx_bcDto = Inr (Inr b, s')"
    and n: "bw_recipientCount b = 2" using fx_bc_run by (elim exE conjE)
  have q: "en_queue fx_bcEnv ''broadcast-deliveries'' = Enqueued" by (simp add: fx_bcEnv_def)
  obtain recipients :: "string list" where r: "bs_broadcasts s' = bs_broadcasts fx_bcState @ [b]" "bw_recipientCount b = length recipients"
    "distinct recipients" using broadcast_reaches_exactly_its_audiences [OF c q]
    by blast
  have "bs_broadcasts fx_bcState = []" by (simp add: fx_bcState_def)
  with c n r show ?thesis by (intro exI [of _ b] exI [of _ s'] exI [of _ recipients]) simp
qed

definition fx_bcRow :: broadcast_row where
  "fx_bcRow = \<lparr> bw_id = ''x'', bw_orgId = ''o1'', bw_senderUserId = ''mgr'', bw_title = ''Water'', bw_body = None,
     bw_buildingIds = [''b1''], bw_recipientCount = 2, bw_metadata = buildBroadcastMetadata [TENANTS] 1 False, bw_createdAt = 7 \<rparr>"

lemma fx_bc_readable: "resolveReadableBuildingIds fx_bcRole ''mgr'' ''o1'' = Some [''b1'']"
  by code_simp

theorem listed_broadcasts_readable_witness:
  "getBroadcast (fx_bcState\<lparr> bs_broadcasts := [fx_bcRow] \<rparr>) ''mgr'' ''o1'' ''x'' = Inr fx_bcRow"
proof -
  let ?s = "fx_bcState\<lparr> bs_broadcasts := [fx_bcRow] \<rparr>"
  have c: "bcore fx_bcState = fx_bcRole" by (simp add: fx_bcState_def)
  have l: "listBroadcasts ?s ''mgr'' ''o1'' None None None = Inr ([fx_bcRow], None)"
    by (simp add: listBroadcasts_def c fx_bc_readable resolveListBuildingFilter_def Let_def listBroadcastRows_def broadcastWhere_def
        newestRows_def cutPage_def afterCursor_def clampLimit_def)
      (simp add: fx_bcRow_def)
  have "distinct (map bw_id (bs_broadcasts ?s))" by simp
  from listed_broadcasts_readable [OF l _ this, of fx_bcRow] show ?thesis by (simp add: c fx_bc_readable) (simp add: fx_bcRow_def)
qed

end
