(* ===== verification/Visitors.thy ===== *)
theory Visitors
  imports Units Notifications
begin

text \<open>
  Visitors of a unit: \<^verbatim>\<open>visitors.repo.ts\<close> and \<^verbatim>\<open>visitors.service.ts\<close>. The desk of a building and the
  resident of a unit register visitors; the desk records that they came and left, and the resident is told of an arrival.
  A field of an update that was not sent is \<open>None\<close>; a field whose column may be \<^verbatim>\<open>null\<close> has an option inside; a
  \<^verbatim>\<open>null\<close> for another column is not modelled.
\<close>

section \<open>The table\<close>

datatype visitor_type = GUEST_VISITOR | DELIVERY_RIDER | COURIER_PARCEL | VISIT_SERVICE_PROVIDER | MAINTENANCE_TECHNICIAN
  | HOUSEKEEPING_CLEANER | CONTRACTOR_WORKER | DRIVER_PICKUP | SECURITY_STAFF_EXTERNAL | VISIT_OTHER

datatype visitor_status = VS_EXPECTED | VS_ARRIVED | VS_COMPLETED | VS_CANCELLED

record visitor_row =
  vi_id :: string
  vi_orgId :: string
  vi_buildingId :: string
  vi_unitId :: string
  vi_type :: visitor_type
  vi_status :: visitor_status
  vi_visitorName :: string
  vi_phoneNumber :: string
  vi_emiratesId :: "string option"
  vi_vehicleNumber :: "string option"
  vi_expectedArrivalAt :: "int option"
  vi_notes :: "string option"
  vi_createdAt :: int

record visiting =
  vg_delivery :: delivery_db
  vg_visitors :: "visitor_row list"

abbreviation vcore :: "visiting \<Rightarrow> db" where
  "vcore s \<equiv> dl_core (vg_delivery s)"

record visitor_dto =
  vd_type :: visitor_type
  vd_visitorName :: string
  vd_phoneNumber :: string
  vd_emiratesId :: "string option"
  vd_vehicleNumber :: "string option"
  vd_expectedArrivalAt :: "int option"
  vd_notes :: "string option"

record visitor_update =
  vu_type :: "visitor_type option"
  vu_visitorName :: "string option"
  vu_phoneNumber :: "string option"
  vu_emiratesId :: "string option option"
  vu_vehicleNumber :: "string option option"
  vu_expectedArrivalAt :: "int option option"
  vu_notes :: "string option option"

section \<open>The repository\<close>

definition createVisitorRow :: "visiting \<Rightarrow> visitor_row \<Rightarrow> (visitor_row \<times> visiting) res" where
  "createVisitorRow s v =
     (if find_by vi_id (vi_id v) (vg_visitors s) \<noteq> None then Inl UniqueViolation
      else Inr (v, s\<lparr> vg_visitors := vg_visitors s @ [v] \<rparr>))"

definition newestVisitors :: "visitor_row list \<Rightarrow> visitor_row list" where
  "newestVisitors vs = rev (sort_key vi_createdAt vs)"

definition listVisitorsByBuilding :: "visiting \<Rightarrow> string \<Rightarrow> visitor_status option \<Rightarrow> string option \<Rightarrow> visitor_row list" where
  "listVisitorsByBuilding s bldg status unitId =
     newestVisitors (filter (\<lambda>v. vi_buildingId v = bldg \<and> (case status of None \<Rightarrow> True | Some x \<Rightarrow> vi_status v = x)
       \<and> (truthy unitId \<longrightarrow> Some (vi_unitId v) = unitId)) (vg_visitors s))"

definition listVisitorsByUnit :: "visiting \<Rightarrow> string \<Rightarrow> visitor_status option \<Rightarrow> visitor_row list" where
  "listVisitorsByUnit s unitId status =
     newestVisitors (filter (\<lambda>v. vi_unitId v = unitId \<and> (case status of None \<Rightarrow> True | Some x \<Rightarrow> vi_status v = x))
       (vg_visitors s))"

definition findVisitorForBuilding :: "visiting \<Rightarrow> string \<Rightarrow> string \<Rightarrow> visitor_row option" where
  "findVisitorForBuilding s bldg i = List.find (\<lambda>v. vi_id v = i \<and> vi_buildingId v = bldg) (vg_visitors s)"

definition findVisitorForUnit :: "visiting \<Rightarrow> string \<Rightarrow> string \<Rightarrow> visitor_row option" where
  "findVisitorForUnit s unitId i = List.find (\<lambda>v. vi_id v = i \<and> vi_unitId v = unitId) (vg_visitors s)"

definition updateVisitorRow :: "visiting \<Rightarrow> string \<Rightarrow> (visitor_row \<Rightarrow> visitor_row) \<Rightarrow> (visitor_row \<times> visiting) res" where
  "updateVisitorRow s i f =
     (case find_by vi_id i (vg_visitors s) of
        None \<Rightarrow> Inl RecordNotFound
      | Some v \<Rightarrow> Inr (f v, s\<lparr> vg_visitors := modify_by vi_id i f (vg_visitors s) \<rparr>))"

section \<open>The service\<close>

definition newVisitor :: "int \<Rightarrow> string \<Rightarrow> string \<Rightarrow> string \<Rightarrow> string \<Rightarrow> visitor_dto \<Rightarrow> visitor_row" where
  "newVisitor now i org bldg unitId d =
     \<lparr> vi_id = i, vi_orgId = org, vi_buildingId = bldg, vi_unitId = unitId, vi_type = vd_type d, vi_status = VS_EXPECTED,
       vi_visitorName = vd_visitorName d, vi_phoneNumber = vd_phoneNumber d, vi_emiratesId = vd_emiratesId d,
       vi_vehicleNumber = vd_vehicleNumber d, vi_expectedArrivalAt = vd_expectedArrivalAt d, vi_notes = vd_notes d,
       vi_createdAt = now \<rparr>"

definition requireUnitInBuilding :: "db \<Rightarrow> string \<Rightarrow> string \<Rightarrow> unit_row res" where
  "requireUnitInBuilding s bldg unitId =
     orThrow (findUnitForBuilding s bldg unitId) (BadRequest ''Unit not in building'')"

definition createVisitor ::
  "visiting \<Rightarrow> int \<Rightarrow> string \<Rightarrow> principal \<Rightarrow> string \<Rightarrow> string \<Rightarrow> visitor_dto \<Rightarrow> (visitor_row \<times> visiting) res" where
  "createVisitor s now newId u bldg unitId d =
     andThen (orgBuilding (vcore s) u bldg) (\<lambda>org.
     andThen (requireUnitInBuilding (vcore s) bldg unitId) (\<lambda>n.
     createVisitorRow s (newVisitor now newId org bldg (un_id n) d)))"

definition listVisitors ::
  "visiting \<Rightarrow> principal \<Rightarrow> string \<Rightarrow> visitor_status option \<Rightarrow> string option \<Rightarrow> visitor_row list res" where
  "listVisitors s u bldg status unitId =
     andThen (orgBuilding (vcore s) u bldg) (\<lambda>_.
     andThen (if truthy unitId then andThen (requireUnitInBuilding (vcore s) bldg (the unitId)) (\<lambda>_. Inr ()) else Inr ()) (\<lambda>_.
     Inr (listVisitorsByBuilding s bldg status unitId)))"

definition mapResidentVisitorUpdate :: "visitor_update \<Rightarrow> visitor_row \<Rightarrow> visitor_row" where
  "mapResidentVisitorUpdate d v =
     v\<lparr> vi_type := nullish (vu_type d) (vi_type v), vi_visitorName := nullish (vu_visitorName d) (vi_visitorName v),
        vi_phoneNumber := nullish (vu_phoneNumber d) (vi_phoneNumber v),
        vi_emiratesId := nullish (vu_emiratesId d) (vi_emiratesId v),
        vi_vehicleNumber := nullish (vu_vehicleNumber d) (vi_vehicleNumber v),
        vi_expectedArrivalAt := nullish (vu_expectedArrivalAt d) (vi_expectedArrivalAt v),
        vi_notes := nullish (vu_notes d) (vi_notes v) \<rparr>"

definition mapVisitorUpdate :: "visitor_status option \<Rightarrow> string option \<Rightarrow> visitor_update \<Rightarrow> visitor_row \<Rightarrow> visitor_row" where
  "mapVisitorUpdate status unitId d v =
     (mapResidentVisitorUpdate d v)\<lparr> vi_status := nullish status (vi_status v), vi_unitId := nullish unitId (vi_unitId v) \<rparr>"

text \<open>
  The rows come back with the unit and the newest of its active occupancies, so an arrival is told to that resident.
\<close>

definition arrivalRecipients :: "db \<Rightarrow> string \<Rightarrow> string list" where
  "arrivalRecipients s unitId =
     js_unique (filter (\<lambda>i. i \<noteq> []) (map oc_residentUserId (take 1 (rev (sort_key oc_createdAt
       (filter (\<lambda>oc. oc_unitId oc = unitId \<and> oc_status oc = OC_ACTIVE) (occupancies s)))))))"

definition notifyResidentsOnArrival ::
  "delivery_env \<Rightarrow> int \<Rightarrow> (string \<Rightarrow> nat \<Rightarrow> string) \<Rightarrow> principal \<Rightarrow> visitor_status \<Rightarrow> visitor_row \<Rightarrow> visiting
   \<Rightarrow> error option \<times> visiting" where
  "notifyResidentsOnArrival env now ids u previous v s =
     (if previous = VS_ARRIVED \<or> vi_status v \<noteq> VS_ARRIVED then (None, s)
      else let recipients = arrivalRecipients (vcore s) (vi_unitId v);
               label = (case find_by un_id (vi_unitId v) (units (vcore s)) of None \<Rightarrow> [] | Some n \<Rightarrow> un_label n)
           in if recipients = [] then (None, s)
              else (case createForUsers env now (ids ''Notification'') (ids ''DeliveryTask'' 0) (vi_orgId v) recipients
                      VISITOR_ARRIVED ''Visitor arrived''
                      (Some (vi_visitorName v @ '' has arrived at unit '' @ label))
                      (OtherData (JObject [(''visitorId'', JText (vi_id v)), (''buildingId'', JText (vi_buildingId v)),
                         (''unitId'', JText (vi_unitId v)), (''status'', JText ''ARRIVED''),
                         (''visitorName'', JText (vi_visitorName v)), (''actorUserId'', jsonOf JText (user_sub u))]))
                      (vg_delivery s) of
                      (e, dl) \<Rightarrow> (e, s\<lparr> vg_delivery := dl \<rparr>)))"

definition updateVisitor ::
  "delivery_env \<Rightarrow> visiting \<Rightarrow> int \<Rightarrow> (string \<Rightarrow> nat \<Rightarrow> string) \<Rightarrow> principal \<Rightarrow> string \<Rightarrow> string \<Rightarrow> visitor_status option
   \<Rightarrow> string option \<Rightarrow> visitor_update \<Rightarrow> (error option \<times> visitor_row \<times> visiting) res" where
  "updateVisitor env s now ids u bldg i status unitId d =
     andThen (orgBuilding (vcore s) u bldg) (\<lambda>_.
     andThen (orThrow (findVisitorForBuilding s bldg i) (NotFound ''Visitor not found'')) (\<lambda>existing.
     andThen (case unitId of
                None \<Rightarrow> Inr ()
              | Some n \<Rightarrow> andThen (requireUnitInBuilding (vcore s) bldg n) (\<lambda>_. Inr ())) (\<lambda>_.
     andThen (updateVisitorRow s i (mapVisitorUpdate status unitId d)) (\<lambda>(v, s1).
     case notifyResidentsOnArrival env now ids u (vi_status existing) v s1 of
       (e, s2) \<Rightarrow> Inr (e, v, s2)))))"

definition getResidentActiveOccupancy :: "db \<Rightarrow> principal \<Rightarrow> (string \<times> string \<times> string) res" where
  "getResidentActiveOccupancy s u =
     andThen (assertOrgScope u) (\<lambda>org.
     andThen (ensure (truthy (user_sub u)) (Conflict ''Resident must have an active occupancy to manage visitors'')) (\<lambda>_.
     case filter (\<lambda>oc. Some (oc_residentUserId oc) = user_sub u \<and> oc_status oc = OC_ACTIVE
              \<and> buildingInOrg s (oc_buildingId oc) org) (occupancies s) of
       [] \<Rightarrow> Inl (Conflict ''Resident must have an active occupancy to manage visitors'')
     | [oc] \<Rightarrow> Inr (org, oc_buildingId oc, oc_unitId oc)
     | _ \<Rightarrow> Inl (Conflict ''Resident must have exactly one active occupancy to manage visitors'')))"

definition createResidentVisitor ::
  "visiting \<Rightarrow> int \<Rightarrow> string \<Rightarrow> principal \<Rightarrow> visitor_dto \<Rightarrow> (visitor_row \<times> visiting) res" where
  "createResidentVisitor s now newId u d =
     andThen (getResidentActiveOccupancy (vcore s) u) (\<lambda>(org, bldg, unitId).
     createVisitorRow s (newVisitor now newId org bldg unitId d))"

definition listResidentVisitors :: "visiting \<Rightarrow> principal \<Rightarrow> visitor_status option \<Rightarrow> visitor_row list res" where
  "listResidentVisitors s u status =
     andThen (getResidentActiveOccupancy (vcore s) u) (\<lambda>(org, bldg, unitId). Inr (listVisitorsByUnit s unitId status))"

definition getResidentVisitor :: "visiting \<Rightarrow> principal \<Rightarrow> string \<Rightarrow> visitor_row res" where
  "getResidentVisitor s u i =
     andThen (getResidentActiveOccupancy (vcore s) u) (\<lambda>(org, bldg, unitId).
     orThrow (findVisitorForUnit s unitId i) (NotFound ''Visitor not found''))"

definition updateResidentVisitor :: "visiting \<Rightarrow> principal \<Rightarrow> string \<Rightarrow> visitor_update \<Rightarrow> (visitor_row \<times> visiting) res" where
  "updateResidentVisitor s u i d =
     andThen (getResidentVisitor s u i) (\<lambda>v. updateVisitorRow s (vi_id v) (mapResidentVisitorUpdate d))"

definition cancelResidentVisitor :: "visiting \<Rightarrow> principal \<Rightarrow> string \<Rightarrow> (visitor_row \<times> visiting) res" where
  "cancelResidentVisitor s u i =
     andThen (getResidentVisitor s u i) (\<lambda>v.
     andThen (ensure (vi_status v = VS_EXPECTED) (Conflict ''Only expected visitors can be canceled'')) (\<lambda>_.
     updateVisitorRow s (vi_id v) (\<lambda>x. x\<lparr> vi_status := VS_CANCELLED \<rparr>)))"

end
