(* ===== verification/VisitorMachine.thy ===== *)
theory VisitorMachine
  imports Visitors DeliveryFrame
begin

text \<open>
  The operations on visitors as one system: a visitor is always expected in a unit of its building, keeps its organisation
  and its building, and a resident changes only visitors of the unit he lives in.
\<close>

section \<open>Invariant and history\<close>

definition unitIn :: "db \<Rightarrow> string \<Rightarrow> string \<Rightarrow> bool" where
  "unitIn s bldg n \<longleftrightarrow> (\<exists>x \<in> set (units s). un_id x = n \<and> un_buildingId x = bldg)"

text \<open>The tables the visitors refer to are not written here; occupancies are of units of their building.\<close>

definition visitingInv :: "visiting \<Rightarrow> bool" where
  "visitingInv s \<longleftrightarrow> distinct (map vi_id (vg_visitors s))
     \<and> (\<forall>v \<in> set (vg_visitors s). unitIn (vcore s) (vi_buildingId v) (vi_unitId v))
     \<and> (\<forall>oc \<in> set (occupancies (vcore s)). unitIn (vcore s) (oc_buildingId oc) (oc_unitId oc))"

definition visitingKept :: "visiting \<Rightarrow> visiting \<Rightarrow> bool" where
  "visitingKept s s' \<longleftrightarrow> vcore s' = vcore s
     \<and> (\<exists>new. map (\<lambda>v. (vi_id v, vi_orgId v, vi_buildingId v, vi_createdAt v)) (vg_visitors s')
            = map (\<lambda>v. (vi_id v, vi_orgId v, vi_buildingId v, vi_createdAt v)) (vg_visitors s) @ new)"

lemma visitingKept_refl: "visitingKept s s"
  by (simp add: visitingKept_def)

lemma visitingKept_trans: "visitingKept s t \<Longrightarrow> visitingKept t u \<Longrightarrow> visitingKept s u"
  by (auto simp: visitingKept_def)

section \<open>The two writes\<close>

lemma createRow_ok:
  assumes "createVisitorRow s v = Inr (r, s')" and "unitIn (vcore s) (vi_buildingId v) (vi_unitId v)"
  shows "(visitingInv s \<longrightarrow> visitingInv s') \<and> visitingKept s s'"
  using assms by (auto simp: createVisitorRow_def visitingInv_def visitingKept_def find_by_None_iff split: if_splits)

lemma updateRow_ok:
  assumes "updateVisitorRow s i f = Inr (r, s')"
    and "\<And>v. v \<in> set (vg_visitors s) \<Longrightarrow> vi_id v = i \<Longrightarrow> vi_id (f v) = vi_id v \<and> vi_orgId (f v) = vi_orgId v
       \<and> vi_buildingId (f v) = vi_buildingId v \<and> vi_createdAt (f v) = vi_createdAt v
       \<and> (unitIn (vcore s) (vi_buildingId v) (vi_unitId v) \<longrightarrow> unitIn (vcore s) (vi_buildingId v) (vi_unitId (f v)))"
  shows "(visitingInv s \<longrightarrow> visitingInv s') \<and> visitingKept s s'"
proof -
  from assms(1) have s': "s' = s\<lparr> vg_visitors := modify_by vi_id i f (vg_visitors s) \<rparr>"
    by (auto simp: updateVisitorRow_def split: option.splits)
  have "map vi_id (modify_by vi_id i f (vg_visitors s)) = map vi_id (vg_visitors s)"
    using assms(2) by (auto simp: modify_by_def)
  moreover have "map (\<lambda>v. (vi_id v, vi_orgId v, vi_buildingId v, vi_createdAt v)) (modify_by vi_id i f (vg_visitors s))
      = map (\<lambda>v. (vi_id v, vi_orgId v, vi_buildingId v, vi_createdAt v)) (vg_visitors s)"
    using assms(2) by (auto simp: modify_by_def)
  moreover have "unitIn (vcore s) (vi_buildingId v) (vi_unitId v)"
    if "visitingInv s" "v \<in> set (modify_by vi_id i f (vg_visitors s))" for v
    using that assms(2) by (auto simp: visitingInv_def modify_by_def)
  ultimately show ?thesis by (simp add: s' visitingInv_def visitingKept_def)
qed

lemma core_createForUsers_snd [simp]: "dl_core (snd (createForUsers env now ids t org us ty title body d s)) = dl_core s"
  by (rule core_createForUsers [OF prod.collapse [symmetric]])

lemma notify_frame [simp]:
  "vcore (snd (notifyResidentsOnArrival env now ids u prev v s)) = vcore s"
  "vg_visitors (snd (notifyResidentsOnArrival env now ids u prev v s)) = vg_visitors s"
  by (simp_all add: notifyResidentsOnArrival_def Let_def case_prod_unfold)

lemma frame_ok:
  assumes "vcore s' = vcore s \<and> vg_visitors s' = vg_visitors s"
  shows "visitingInv s' = visitingInv s" and "visitingKept t s' = visitingKept t s"
  using assms by (simp_all add: visitingInv_def visitingKept_def)

section \<open>The operations\<close>

lemma requireUnit_Inr: "requireUnitInBuilding s bldg n = Inr x \<Longrightarrow> un_id x = n \<and> unitIn s bldg n"
  by (auto simp: requireUnitInBuilding_def findUnitForBuilding_def unitIn_def dest: find_SomeD)

lemma resident_home:
  assumes "getResidentActiveOccupancy s u = Inr (org, bldg, n)"
  shows "\<exists>oc \<in> set (occupancies s). Some (oc_residentUserId oc) = user_sub u \<and> oc_status oc = OC_ACTIVE
    \<and> oc_buildingId oc = bldg \<and> oc_unitId oc = n"
proof -
  let ?P = "\<lambda>org oc. Some (oc_residentUserId oc) = user_sub u \<and> oc_status oc = OC_ACTIVE \<and> buildingInOrg s (oc_buildingId oc) org"
  from assms obtain o' where c: "(case filter (?P o') (occupancies s) of
       [] \<Rightarrow> Inl (Conflict ''Resident must have an active occupancy to manage visitors'')
     | [oc] \<Rightarrow> Inr (o', oc_buildingId oc, oc_unitId oc)
     | _ \<Rightarrow> Inl (Conflict ''Resident must have exactly one active occupancy to manage visitors'')) = Inr (org, bldg, n)"
    unfolding getResidentActiveOccupancy_def andThen_Inr by blast
  then obtain oc where oc: "filter (?P o') (occupancies s) = [oc]" "bldg = oc_buildingId oc" "n = oc_unitId oc"
    by (cases "filter (?P o') (occupancies s)" rule: remdups_adj.cases) auto
  then have "oc \<in> set (filter (?P o') (occupancies s))" by simp
  then show ?thesis using oc(2,3) by auto
qed

lemma createVisitor_ok:
  "createVisitor s now i u bldg n d = Inr (r, s') \<Longrightarrow> (visitingInv s \<longrightarrow> visitingInv s') \<and> visitingKept s s'"
  by (auto simp: createVisitor_def newVisitor_def dest!: requireUnit_Inr createRow_ok)

lemma createResidentVisitor_ok:
  assumes "createResidentVisitor s now i u d = Inr (r, s')" and "visitingInv s"
  shows "visitingInv s' \<and> visitingKept s s'"
proof -
  from assms(1) obtain org bldg n where h: "getResidentActiveOccupancy (vcore s) u = Inr (org, bldg, n)"
    and c: "createVisitorRow s (newVisitor now i org bldg n d) = Inr (r, s')"
    by (auto simp: createResidentVisitor_def)
  have "unitIn (vcore s) bldg n" using resident_home [OF h] assms(2) by (auto simp: visitingInv_def)
  then show ?thesis using createRow_ok [OF c] assms(2) by (simp add: newVisitor_def)
qed

lemma updateVisitor_ok:
  assumes "updateVisitor env s now ids u bldg i status n d = Inr (e, r, s')" and "visitingInv s"
  shows "visitingInv s' \<and> visitingKept s s'"
proof -
  from assms(1) obtain v0 s1 where f: "findVisitorForBuilding s bldg i = Some v0"
    and n: "\<And>x. n = Some x \<Longrightarrow> unitIn (vcore s) bldg x"
    and w: "updateVisitorRow s i (mapVisitorUpdate status n d) = Inr (r, s1)"
    and s': "vcore s' = vcore s1 \<and> vg_visitors s' = vg_visitors s1"
    by (auto simp: updateVisitor_def case_prod_unfold split: option.splits dest!: requireUnit_Inr)
  have "vi_buildingId v = bldg" if "v \<in> set (vg_visitors s)" "vi_id v = i" for v
  proof -
    have d: "distinct (map vi_id (vg_visitors s))" using assms(2) by (simp add: visitingInv_def)
    have "find_by vi_id i (vg_visitors s) = Some v0 \<and> vi_buildingId v0 = bldg"
      using f unfolding findVisitorForBuilding_def by (rule find_Some_iff_find_by) (rule d)
    then show ?thesis using find_by_distinct [OF d that(1)] that(2) by simp
  qed
  then have "(visitingInv s \<longrightarrow> visitingInv s1) \<and> visitingKept s s1"
    using n by (intro updateRow_ok [OF w])
      (cases n; simp add: mapVisitorUpdate_def mapResidentVisitorUpdate_def nullish_def)
  then show ?thesis using assms(2) frame_ok [OF s'] by simp
qed

lemma updateResident_ok:
  "updateResidentVisitor s u i d = Inr (r, s') \<Longrightarrow> (visitingInv s \<longrightarrow> visitingInv s') \<and> visitingKept s s'"
  by (auto simp: updateResidentVisitor_def mapResidentVisitorUpdate_def dest!: updateRow_ok)

lemma cancelResident_ok:
  "cancelResidentVisitor s u i = Inr (r, s') \<Longrightarrow> (visitingInv s \<longrightarrow> visitingInv s') \<and> visitingKept s s'"
  by (auto simp: cancelResidentVisitor_def dest!: updateRow_ok)


section \<open>The operations as one system\<close>

datatype visitor_op =
    CreateVisitor int string principal string string visitor_dto
  | UpdateVisitor int "string \<Rightarrow> nat \<Rightarrow> string" principal string string "visitor_status option" "string option" visitor_update
  | CreateResidentVisitor int string principal visitor_dto
  | UpdateResidentVisitor principal string visitor_update
  | CancelResidentVisitor principal string

primrec visitor_exec :: "delivery_env \<Rightarrow> visitor_op \<Rightarrow> visiting \<Rightarrow> visiting res" where
  "visitor_exec env (CreateVisitor now i u bldg n d) s = map_sum id snd (createVisitor s now i u bldg n d)"
| "visitor_exec env (UpdateVisitor now ids u bldg i status n d) s =
     map_sum id (\<lambda>(e, v, s'). s') (updateVisitor env s now ids u bldg i status n d)"
| "visitor_exec env (CreateResidentVisitor now i u d) s = map_sum id snd (createResidentVisitor s now i u d)"
| "visitor_exec env (UpdateResidentVisitor u i d) s = map_sum id snd (updateResidentVisitor s u i d)"
| "visitor_exec env (CancelResidentVisitor u i) s = map_sum id snd (cancelResidentVisitor s u i)"

lemma visitor_result: "map_sum id f r = Inr y \<Longrightarrow> \<exists>x. r = Inr x \<and> y = f x"
  by (cases r) auto

lemma visitor_exec_ok:
  assumes "visitor_exec env op s = Inr s'" and "visitingInv s"
  shows "visitingInv s' \<and> visitingKept s s'"
  using assms
  by (cases op) (auto dest!: visitor_result dest: createVisitor_ok createResidentVisitor_ok updateVisitor_ok updateResident_ok cancelResident_ok)

interpretation visitor_system: guarded_system "visitor_exec env" visitingInv visitingKept for env
proof
  show "visitingInv s \<Longrightarrow> visitor_exec env op s = Inr s' \<Longrightarrow> visitingInv s'" for s op s'
    using visitor_exec_ok by blast
  show "visitingInv s \<Longrightarrow> visitor_exec env op s = Inr s' \<Longrightarrow> visitingKept s s'" for s op s'
    using visitor_exec_ok by blast
  show "visitingKept s s" for s by (rule visitingKept_refl)
  show "visitingKept s t \<Longrightarrow> visitingKept t v \<Longrightarrow> visitingKept s v" for s t v by (rule visitingKept_trans)
qed

text \<open>
  A visitor stays expected in a unit of its building over any operations; a resident's change and cancellation touch only a
  visitor of the unit the resident lives in, and only an expected visitor is cancelled.
\<close>

lemma visitors_stay_in_their_building:
  assumes "visitingInv s" and "v \<in> set (vg_visitors (run_ops (visitor_exec env) ops s))"
  shows "unitIn (vcore s) (vi_buildingId v) (vi_unitId v)"
  using visitor_system.run_inv [OF assms(1), of env ops] visitor_system.run_allowed [OF assms(1), of env ops] assms(2)
  by (simp add: visitingInv_def visitingKept_def)

lemma resident_changes_own_visitors:
  assumes "updateResidentVisitor s u i d = Inr (r, s') \<or> cancelResidentVisitor s u i = Inr (r, s')" and "visitingInv s"
    and "v \<in> set (vg_visitors s)" and "v \<notin> set (vg_visitors s')"
  shows "\<exists>oc \<in> set (occupancies (vcore s)). Some (oc_residentUserId oc) = user_sub u \<and> oc_status oc = OC_ACTIVE
    \<and> oc_unitId oc = vi_unitId v"
proof -
  from assms(1) obtain x f where x: "getResidentVisitor s u i = Inr x"
    and s': "vg_visitors s' = modify_by vi_id (vi_id x) f (vg_visitors s)"
    by (auto simp: updateResidentVisitor_def cancelResidentVisitor_def updateVisitorRow_def split: option.splits)
  from x obtain org bldg n where h: "getResidentActiveOccupancy (vcore s) u = Inr (org, bldg, n)"
    and g: "findVisitorForUnit s n i = Some x" by (auto simp: getResidentVisitor_def)
  have d: "distinct (map vi_id (vg_visitors s))" using assms(2) by (simp add: visitingInv_def)
  have k: "find_by vi_id i (vg_visitors s) = Some x \<and> vi_unitId x = n"
    using g unfolding findVisitorForUnit_def by (rule find_Some_iff_find_by) (rule d)
  have "vi_id v = vi_id x" using assms(3,4) by (force simp: s' modify_by_def)
  then have "v = x" using find_by_distinct [OF d assms(3)] find_by_SomeD [of vi_id i "vg_visitors s" x] k by simp
  with k have n: "vi_unitId v = n" by simp
  from resident_home [OF h] show ?thesis unfolding n by (elim bexE) (rule bexI, simp_all)
qed

end
