(* ===== verification/Spec2Isabelle.thy ===== *)
theory Spec2Isabelle
  imports RequestTheorems ApprovalTheorems CommentTheorems AccessTheorems PolicyTheorems
    DeliveryTheorems RecipientTheorems UnitTheorems RoleTheorems TenancyTheorems
    GrantTheorems MessagingTheorems BroadcastTheorems VisitorMachine
begin

text \<open>
  Verification of the core of the Towerdesk backend, a NestJS service over a Prisma database in
  which organisations manage buildings, units, residents, owners and service providers.

  \<^bold>\<open>The program's parts.\<close> Every route passes guards that compute the caller's permissions
  (\<^verbatim>\<open>access-control\<close>) for the building the request is about (\<^verbatim>\<open>common/building-access\<close>); administrators give
  and take the roles those permissions come from. A maintenance request is created by a
  resident, triaged by a policy, perhaps estimated by a service provider and approved by the owner of
  the unit, handed to staff or to a provider, worked on and closed. Four groups of callers share
  the request rows: residents, building managers and staff, provider users
  (\<^verbatim>\<open>maintenance-requests.service.ts\<close>) and owner users (\<^verbatim>\<open>owner-portfolio-scope.service.ts\<close>); a timer reminds of
  overdue estimates (\<^verbatim>\<open>maintenance-request-estimate-monitor.service.ts\<close>). The events of requests
  become notifications (\<^verbatim>\<open>notifications.listener.ts\<close>), which with mails, pushes and broadcasts are
  delivered through a table of tasks and a queue (\<^verbatim>\<open>infra/queue\<close>). Units are kept, and imported
  from CSV files, by \<^verbatim>\<open>units.service.ts\<close>. A tenancy is a lease (the code also says contract): it is
  drafted and activated (\<^verbatim>\<open>contracts.service.ts\<close>), its resident asks to move in and out, the management
  approves and executes these requests or moves a resident in and out directly
  (\<^verbatim>\<open>lease-lifecycle.service.ts\<close>), which creates and ends the occupancy of the unit
  (\<^verbatim>\<open>occupancies.service.ts\<close>) that the request workflow checks, hands out cards, stickers and parking slots
  (\<^verbatim>\<open>parking.service.ts\<close>), and records every change of the lease. Users log in and set their passwords
  from mails (\<^verbatim>\<open>auth.service.ts\<close>), which is also how an invited user becomes the representative of an
  owner (\<^verbatim>\<open>owner-access-grant.service.ts\<close>) and so sees the owner's units. Residents, owners and the management
  write to each other (\<^verbatim>\<open>messaging.service.ts\<close>), the management writes to whole buildings
  (\<^verbatim>\<open>broadcasts.service.ts\<close>), and visitors are announced at the desk (\<^verbatim>\<open>visitors.service.ts\<close>).

  \<^bold>\<open>The state\<close> is the record \<open>db\<close> of theory \<^verbatim>\<open>Schema\<close>: one list of rows per table, and the log of the
  events handed to the event emitter. Components with tables of their own wrap it
  (\<open>delivery_db\<close>, \<open>estate\<close>, \<open>tenancy\<close>, \<open>accounts\<close>, \<open>messaging\<close>,
  \<open>broadcasting\<close>, \<open>visiting\<close>). A handler is a function from the database, the clock
  reading, the identifiers the database generates, the authenticated user and the arguments
  of the route to \<open>error + result \<times> db\<close>; a thrown exception is a value \<open>Inl\<close> and leaves
  the database as it was, which is what the transaction around each handler does. Handlers
  that write outside one transaction return their error together with the database they leave.

  \<^bold>\<open>Theories.\<close>
  \<^item> \<^verbatim>\<open>Prelude\<close>: the result type, JavaScript's truthiness, nullish operators and string functions,
    keyed tables (locale \<open>keyed_table\<close>), guarded systems and their runs (locale
    \<open>guarded_system\<close>).
  \<^item> \<^verbatim>\<open>Schema\<close>: the tables of \<^verbatim>\<open>prisma/schema.prisma\<close> the model uses.
  \<^item> \<^verbatim>\<open>AccessControl\<close>: \<^verbatim>\<open>permission-aliases.ts\<close>, \<^verbatim>\<open>role-defaults.ts\<close>, the reads of
    \<^verbatim>\<open>access-control.repo.ts\<close>, \<^verbatim>\<open>access-control.service.ts\<close>; the contract of a permission read
    is the locale \<open>permission_service\<close>, interpreted by both reads.
  \<^item> \<^verbatim>\<open>BuildingAccess\<close>: \<^verbatim>\<open>building-access.service.ts\<close>, \<^verbatim>\<open>building-scope-resolver.service.ts\<close> and
    the guards of \<^verbatim>\<open>common/guards\<close>.
  \<^item> \<^verbatim>\<open>RoleAdmin\<close>: \<^verbatim>\<open>roles.service.ts\<close>, \<^verbatim>\<open>user-access.service.ts\<close>, \<^verbatim>\<open>permissions.service.ts\<close>,
    \<^verbatim>\<open>building-assignments.service.ts\<close> and the writes of \<^verbatim>\<open>access-control.repo.ts\<close>.
  \<^item> \<^verbatim>\<open>RequestPolicy\<close>: \<^verbatim>\<open>maintenance-request-policy.ts\<close>, against the decision table
    \<open>route_table\<close> and the priority list of queues.
  \<^item> \<^verbatim>\<open>RequestCore\<close>: \<^verbatim>\<open>maintenance-requests.repo.ts\<close> and the private helpers of the service.
  \<^item> \<^verbatim>\<open>RequestRows\<close>: one function per update object that the services write, the invariant
    \<open>row_ok\<close> of a row, and that each update keeps it.
  \<^item> \<^verbatim>\<open>RequestSteps\<close>: the steps a request row can take (\<open>request_step\<close>), the abstract life
    cycle (\<open>lifecycle\<close> on \<open>areq\<close>, where an executor is a named staff user, a named provider or a named
    worker of one) and the simulation of the first by the second.
  \<^item> \<^verbatim>\<open>RequestBuilding\<close>, \<^verbatim>\<open>RequestResident\<close>, \<^verbatim>\<open>RequestProvider\<close>, \<^verbatim>\<open>RequestOwner\<close>: the handlers of
    the four groups of callers; each comes with lemmas that say which row it writes, by
    which step, and under whose authority.
  \<^item> \<^verbatim>\<open>RequestMachine\<close>: the monitor, the datatype \<open>req_op\<close> of all operations, and the system
    they form (interpretation \<open>request_system\<close> of \<open>guarded_system\<close>).
  \<^item> \<^verbatim>\<open>Paging\<close>: \<^verbatim>\<open>pagination.ts\<close> and lists cut into pages by a cursor.
  \<^item> \<^verbatim>\<open>DeliveryTasks\<close>: \<^verbatim>\<open>delivery-tasks.repo.ts\<close> and the retention service. \<^verbatim>\<open>PushDelivery\<close>: push devices,
    \<^verbatim>\<open>push-notifications.service.ts\<close>, receipts and their monitor. \<^verbatim>\<open>Notifications\<close>:
    \<^verbatim>\<open>notifications.repo.ts\<close> and \<^verbatim>\<open>notifications.service.ts\<close>. \<^verbatim>\<open>DeliveryWorkers\<close>: the mails of
    \<^verbatim>\<open>auth-password-delivery.service.ts\<close>, the fan-out of \<^verbatim>\<open>broadcast-delivery.service.ts\<close>, the retries of
    \<^verbatim>\<open>platform-delivery-tasks.service.ts\<close> and the calls of the queue's workers. \<^verbatim>\<open>DeliveryMachine\<close>: all these
    operations as a system (interpretation \<open>delivery_system\<close>). \<^verbatim>\<open>DeliveryJobs\<close>: the jobs the queue holds for a
    task, and that a pending task without a job stays so.
  \<^item> \<^verbatim>\<open>Recipients\<close>: \<^verbatim>\<open>notification-recipient.resolver.ts\<close> and \<^verbatim>\<open>notifications.listener.ts\<close>.
  \<^item> \<^verbatim>\<open>Csv\<close>: \<^verbatim>\<open>csv.ts\<close>, against a grammar of the format (\<open>csvFile\<close>). \<^verbatim>\<open>Units\<close>: units, their types, amenities and the history of
    owners. \<^verbatim>\<open>UnitImport\<close>: the import of units.
  \<^item> \<^verbatim>\<open>Tenancy\<close>: the tables of leases, move requests, items, history, activities and parking.
    \<^verbatim>\<open>Leases\<close>: the rows of a lease, the change sets of \<^verbatim>\<open>lease-history.util.ts\<close> and the repositories.
    \<^verbatim>\<open>LeasesService\<close>: \<^verbatim>\<open>leases.service.ts\<close>. \<^verbatim>\<open>LeaseItems\<close>: access cards, parking stickers, occupants and
    documents. \<^verbatim>\<open>ParkingRows\<close> and \<^verbatim>\<open>Parking\<close>: \<^verbatim>\<open>parking.repo.ts\<close> and \<^verbatim>\<open>parking.service.ts\<close>.
    \<^verbatim>\<open>LeaseLifecycle\<close>: \<^verbatim>\<open>lease-lifecycle.service.ts\<close> and the constraints of the occupancy table.
    \<^verbatim>\<open>Occupancies\<close>: \<^verbatim>\<open>occupancies.service.ts\<close>. \<^verbatim>\<open>Contracts\<close> and \<^verbatim>\<open>MoveRequests\<close>: \<^verbatim>\<open>contracts.service.ts\<close>.
  \<^item> \<^verbatim>\<open>TenancyView\<close>: the part of the tenancy tables that the invariant is about, and the steps
    \<open>tstep\<close> it can take, each of which keeps the invariant. \<^verbatim>\<open>TenancySteps\<close>: every operation is
    a sequence of such steps. \<^verbatim>\<open>TenancyMachine\<close>: the datatype \<open>tenancy_op\<close> of the operations that write,
    and the system they form (interpretation \<open>tenancy_system\<close> of \<open>guarded_system\<close>).
  \<^item> \<^verbatim>\<open>Auth\<close>: \<^verbatim>\<open>auth.repo.ts\<close>, \<^verbatim>\<open>auth.service.ts\<close>, \<^verbatim>\<open>auth-validation.service.ts\<close> and the guard of the
    refresh route. \<^verbatim>\<open>OwnerGrants\<close>: \<^verbatim>\<open>owner-access-grant.service.ts\<close>. \<^verbatim>\<open>DeliveryFrame\<close>: deliveries leave the
    other tables alone. \<^verbatim>\<open>GrantMachine\<close>: the steps \<open>gstep\<close> of grants and their audit rows, and what they keep.
    \<^verbatim>\<open>AccountMachine\<close>: every operation on accounts and grants is a sequence of such steps
    (interpretation \<open>account_system\<close> of \<open>guarded_system\<close>).
  \<^item> \<^verbatim>\<open>Messaging\<close>: \<^verbatim>\<open>conversation-classification.ts\<close> and \<^verbatim>\<open>messaging.repo.ts\<close>. \<^verbatim>\<open>MessagingService\<close>:
    \<^verbatim>\<open>messaging.service.ts\<close>. \<^verbatim>\<open>MessagingMachine\<close>: every operation is a step \<open>mstep\<close> or none (interpretation
    \<open>messaging_system\<close>).
  \<^item> \<^verbatim>\<open>Broadcasts\<close>: \<^verbatim>\<open>broadcasts.repo.ts\<close>, \<^verbatim>\<open>broadcasts.service.ts\<close> and the audiences. \<^verbatim>\<open>Visitors\<close>:
    \<^verbatim>\<open>visitors.repo.ts\<close> and \<^verbatim>\<open>visitors.service.ts\<close>. \<^verbatim>\<open>VisitorMachine\<close>: a visitor stays in a unit of its building, and a
    resident changes only visitors of the own unit (interpretation \<open>visitor_system\<close>).
  \<^item> \<^verbatim>\<open>Fixture\<close>: the small database the concrete instances use.
  \<^item> \<^verbatim>\<open>RequestTheorems\<close>, \<^verbatim>\<open>ApprovalTheorems\<close>, \<^verbatim>\<open>CommentTheorems\<close>, \<^verbatim>\<open>AccessTheorems\<close>,
    \<^verbatim>\<open>PolicyTheorems\<close>, \<^verbatim>\<open>DeliveryTheorems\<close>, \<^verbatim>\<open>RecipientTheorems\<close>, \<^verbatim>\<open>UnitTheorems\<close>, \<^verbatim>\<open>RoleTheorems\<close>,
    \<^verbatim>\<open>TenancyTheorems\<close>, \<^verbatim>\<open>GrantTheorems\<close>, \<^verbatim>\<open>MessagingTheorems\<close>, \<^verbatim>\<open>BroadcastTheorems\<close> and this theory: the theorems.

  \<^bold>\<open>What the theorems show.\<close> C1 to C4: the invariant of the request table under every
  sequence of operations, refinement of the abstract life cycle, the gate in front of work,
  and that closed requests stay closed. C5 to C9: who can change which request. C14 to C16
  and C20: the functional behaviour of approval, reminders and the owner's
  portfolio. C17: unread counts of comments. C22: effective permissions. C28: the policy. C11: the
  invariant and history of owners' grants. C13 and C18: what a password reset leaves, and the
  invitation that can no longer be accepted. C23 and C24: conversations over any sequence of operations, and
  unread messages. C26 and C29: reading broadcasts, and who receives one. C30 to C35: the invariant and
  history of delivery tasks, that a queued task ends, that a broadcast is written exactly once,
  that a task is retried once, when a task is stranded, and that the pages of notifications are
  complete. C36: who is told of a request for approval. C37 and C38: the CSV reader and the import
  of units. C39: role administration. C12 and C10: the invariant of the tenancy tables under every
  sequence of operations, and that what has ended stays ended. C19: what the execution of a
  move-in requires and leaves. C21: the record of changes of a lease replays forwards and
  backwards. C25: the refund of a deposit. C27: the choice of parking slots. C40: two
  active contracts of one unit.

  \<^bold>\<open>Modelling decisions.\<close> A handler reads the clock once; where
  a message is written, which takes several readings outside one transaction, the clock is a function from the number
  of the reading (\<open>clk\<close> in \<^verbatim>\<open>Messaging\<close>). A field of a request body that may be left out and may be null
  is a \<open>field\<close> of \<^verbatim>\<open>RequestCore\<close>, which keeps the two apart. Identifiers the database generates are
  arguments; a clash is the database's unique violation. Dates are milliseconds as \<open>int\<close>,
  decimal amounts are \<open>rat\<close>; the columns of units and leases round and bound them as the database does,
  elsewhere the rounding to two places is not modelled. Strings are ASCII. A relation
  \<^verbatim>\<open>connect\<close> is the assignment of the foreign key. All loops are over finite lists by
  structural recursion, so there is no fuel and every handler returns; the one loop a client
  makes, following cursors, is run with as many steps as there are notifications plus one, which
  C35 shows to be enough. Code outside the repository is a parameter: the mail server, Expo, the queue and
  the token hash in \<open>delivery_env\<close>, the sort keys of \<^verbatim>\<open>localeCompare\<close> and the MD5 digest in
  \<^verbatim>\<open>RoleAdmin\<close>; decimal.js, argon2, the random password, the case-insensitive match and the
  text order of the database, and the signing of storage addresses in \<open>tenancy_env\<close> or as arguments of the reads;
  argon2 and the signing of tokens in \<open>auth_env\<close>;
  the number of calls BullMQ makes is the hypothesis \<open>queue_contract\<close> of C31. The
  environment variable with the default hours of an estimate is the argument \<open>ttl\<close>.

  \<^bold>\<open>What is not modelled.\<close> Controllers (they pass arguments on), the validation decorators of
  the data transfer objects, the read-only decoration of answers with the requester's
  profile, the order of the owner's units by name, storage, sockets and logging. The
  handlers are atomic except for the decisions of owners, whose check runs before the
  transaction: there the two halves are separate definitions (\<open>pendingAccessible\<close>,
  \<open>commitOwnerDecision\<close>). Of \<^verbatim>\<open>owners\<close> only the grants are modelled, not the directory of owners and their
  provisioning from parties. The modules of the backend that the list above does not name are not
  part of this development.
\<close>

section \<open>The request workflow as a system\<close>

definition fx_work :: "req_op list" where
  "fx_work = [Staffing 20 (fx_user ''mgr'') ''b1'' ''q1'' (Assign ''stf''),
              Staffing 30 (fx_user ''stf'') ''b1'' ''q1'' (SetStatus IN_PROGRESS),
              Staffing 40 (fx_user ''stf'') ''b1'' ''q1'' (SetStatus COMPLETED)]"

text \<open>
  C1. Whatever sequence of operations residents, managers, staff, providers, owners and the
  reminder job run, request ids stay unique, every request row stays well formed (at most
  one executor, closing dates exactly on closed requests, estimate and approval columns
  that fit their status) and every approval status has its audit row.
\<close>

theorem workflow_invariant: "req_inv s \<Longrightarrow> req_inv (run_ops exec_op ops s)"
  by (rule request_system.run_inv)

theorem workflow_invariant_witness:
  "req_inv (run_ops exec_op fx_work fx1)
   \<and> map mr_status (requests (run_ops exec_op fx_work fx1)) = [COMPLETED]"
proof
  show "req_inv (run_ops exec_op fx_work fx1)" by (rule workflow_invariant) simp
  show "map mr_status (requests (run_ops exec_op fx_work fx1)) = [COMPLETED]" by code_simp
qed

text \<open>
  C2. Refinement: over any run, a request keeps its identity (organisation, building, unit,
  creator, creation date) and its status, approval, estimate and executor move only along
  the abstract life cycle.
\<close>

theorem workflow_refines_lifecycle:
  assumes "req_inv s" and "r \<in> set (requests s)"
  shows "\<exists>r' \<in> set (requests (run_ops exec_op ops s)).
           row_identity r' = row_identity r \<and> lifecycle\<^sup>*\<^sup>* (abs_req r) (abs_req r')"
  using request_system.run_allowed [OF assms(1), of ops] assms(2)
  by (auto simp: history_def successor_def)

theorem workflow_refines_lifecycle_witness:
  "\<exists>r' \<in> set (requests (run_ops exec_op fx_work fx1)).
     row_identity r' = row_identity fx_row \<and> lifecycle\<^sup>*\<^sup>* (abs_req fx_row) (abs_req r')"
  by (rule workflow_refines_lifecycle) simp_all

text \<open>
  C3. The execution gate: no operation hands out work on a request, hands work already given out
  to somebody else (or to the same person again), starts or completes it while
  its owner approval is pending or rejected, its estimate is outstanding, or policy says
  it needs its owner's approval. An operation does one of these when it leaves the request
  assigned, in progress or completed with another status, another executor or another date
  of assignment than before.
\<close>

theorem execution_gate:
  assumes "req_inv s" and "exec_op op s = Inr s'"
    and "r \<in> set (requests s)" and "r' \<in> set (requests s')" and "mr_id r' = mr_id r"
    and "mr_status r' \<noteq> mr_status r \<or> executor_of r' \<noteq> executor_of r \<or> mr_assignedAt r' \<noteq> mr_assignedAt r"
    and "mr_status r' \<in> {ASSIGNED, IN_PROGRESS, COMPLETED}"
  shows "mr_ownerApprovalStatus r \<notin> {PENDING, REJECTED} \<and> mr_estimateStatus r \<noteq> REQUESTED
     \<and> getMaintenanceRequestPolicyRoute (policy_input_of r) \<noteq> OWNER_APPROVAL_REQUIRED"
proof -
  have u: "unique_ids s" by (rule req_inv_unique [OF assms(1)])
  have "request_step r r'"
    using db_step_row [OF u exec_db_step [OF u assms(2)] assms(3,4,5)] assms(6) by auto
  from unlockedD [OF step_execution [OF this assms(6,7)]] show ?thesis by simp
qed

definition fx_assign :: req_op where
  "fx_assign = Staffing 20 (fx_user ''mgr'') ''b1'' ''q1'' (Assign ''stf'')"

lemma fx_assign_returns:
  obtains s' r' where "exec_op fx_assign fx1 = Inr s'" and "requests s' = [r']"
    and "mr_id r' = ''q1''" and "mr_status r' = ASSIGNED"
proof -
  have "map_sum id (\<lambda>s'. map (\<lambda>r. (mr_id r, mr_status r)) (requests s')) (exec_op fx_assign fx1)
    = Inr [(''q1'', ASSIGNED)]" by code_simp
  then show thesis by (rule returns) (auto intro: that simp: map_eq_Cons_conv)
qed

theorem execution_gate_witness:
  "mr_ownerApprovalStatus fx_row \<notin> {PENDING, REJECTED} \<and> mr_estimateStatus fx_row \<noteq> REQUESTED
   \<and> getMaintenanceRequestPolicyRoute (policy_input_of fx_row) \<noteq> OWNER_APPROVAL_REQUIRED"
proof -
  obtain s' r' where w: "exec_op fx_assign fx1 = Inr s'" "requests s' = [r']" "mr_id r' = ''q1''"
    "mr_status r' = ASSIGNED" by (rule fx_assign_returns)
  show ?thesis
    by (rule execution_gate [of fx1 fx_assign s' fx_row r']) (simp_all add: w fx_row_fields)
qed

text \<open>
  C4. A completed or canceled request stays so for ever, whatever operations follow, with the
  executor, the dates, the estimate and every other column it had: only a pending approval may
  still be asked for again, decided or overridden, and such operations write the columns of
  the decision and nothing else.
\<close>

theorem closed_requests_stay_closed:
  assumes "req_inv s" and "r \<in> set (requests s)" and "mr_status r = COMPLETED \<or> mr_status r = CANCELED"
  shows "\<exists>r' \<in> set (requests (run_ops exec_op ops s)). row_identity r' = row_identity r
     \<and> mr_status r' = mr_status r \<and> executor_of r' = executor_of r
     \<and> mr_estimateStatus r' = mr_estimateStatus r \<and> mr_estimatedAmount r' = mr_estimatedAmount r
     \<and> without_decision r' = without_decision r"
proof -
  from request_system.run_allowed [OF assms(1), of ops] assms(2,3) obtain r' where
    r': "r' \<in> set (requests (run_ops exec_op ops s))" "row_identity r' = row_identity r"
    "without_decision r' = without_decision r" by (auto simp: history_def successor_def)
  then show ?thesis using without_decision_fields [OF r'(3)] by blast
qed

theorem closed_requests_stay_closed_witness:
  "\<exists>r' \<in> set (requests (run_ops exec_op fx_work (fx0\<lparr>requests := [upd_cancel 15 fx_row]\<rparr>))).
     row_identity r' = row_identity (upd_cancel 15 fx_row)
     \<and> mr_status r' = mr_status (upd_cancel 15 fx_row)
     \<and> executor_of r' = executor_of (upd_cancel 15 fx_row)
     \<and> mr_estimateStatus r' = mr_estimateStatus (upd_cancel 15 fx_row)
     \<and> mr_estimatedAmount r' = mr_estimatedAmount (upd_cancel 15 fx_row)
     \<and> without_decision r' = without_decision (upd_cancel 15 fx_row)"
proof (rule closed_requests_stay_closed)
  have "row_ok (upd_cancel 15 fx_row)"
    by (rule row_ok_cancel) (simp_all, simp add: fx_row_def)
  then show "req_inv (fx0\<lparr>requests := [upd_cancel 15 fx_row]\<rparr>)"
    by (simp add: req_inv_def unique_ids_def audited_def) (simp add: fx_row_def)
qed simp_all

text \<open>
  C5. Tenant isolation of the building routes: an operation of a manager or of staff changes
  no request but the one it names, and only if that request belongs to the caller's
  organisation and to the building of the route, a building of that organisation.
\<close>

theorem building_operations_stay_in_building:
  assumes "unique_ids s" and "exec_op op s = Inr s'"
    and "op \<in> {Staffing now u bldg rid so, Approval now u bldg rid ao, Desk now u bldg rid d}"
    and "x \<in> set (requests s)" and "x \<notin> set (requests s')"
  shows "mr_id x = rid \<and> user_org u = Some (mr_orgId x) \<and> mr_buildingId x = bldg
     \<and> (\<exists>b \<in> set (buildings s). bd_id b = bldg \<and> bd_orgId b = mr_orgId x)"
proof -
  from assms(3) have "keeps_requests s s' \<or> (\<exists>r'. building_write s u bldg rid r' s')"
    using assms(1,2)
    by (auto dest: exec_staffing_scope exec_approval_scope exec_desk_scope)
  with assms(4,5) building_write_changed [OF assms(1) _ assms(4,5)]
  show ?thesis by (auto simp: keeps_requests_def building_scope_def buildingInOrg_def list_ex_iff)
qed

theorem building_operations_stay_in_building_witness:
  "mr_id fx_row = ''q1'' \<and> user_org (fx_user ''mgr'') = Some (mr_orgId fx_row)
   \<and> mr_buildingId fx_row = ''b1''
   \<and> (\<exists>b \<in> set (buildings fx1). bd_id b = ''b1'' \<and> bd_orgId b = mr_orgId fx_row)"
proof -
  obtain s' r' where w: "exec_op fx_assign fx1 = Inr s'" "requests s' = [r']" "mr_id r' = ''q1''"
    "mr_status r' = ASSIGNED" by (rule fx_assign_returns)
  have "fx_row \<noteq> r'" using w(4) by (auto simp: fx_row_fields)
  then show ?thesis
    by (intro building_operations_stay_in_building [OF _ w(1), of 20 "fx_user ''mgr''" "''b1''" "''q1''"
          "Assign ''stf''" Resend ReadComments]) (simp_all add: w fx_assign_def)
qed

text \<open>
  C6. Residents touch their own requests only: an operation of a resident changes no request
  but the one it names, which that resident created in their organisation, and the resident
  has an active occupancy there.
\<close>

theorem residents_touch_own_requests:
  assumes "unique_ids s" and "exec_op (ByResident now u rid op) s = Inr s'"
    and "x \<in> set (requests s)" and "x \<notin> set (requests s')"
  shows "mr_id x = rid \<and> user_sub u = Some (mr_createdByUserId x) \<and> user_org u = Some (mr_orgId x)
     \<and> (\<exists>oc \<in> set (occupancies s). oc_residentUserId oc = mr_createdByUserId x
          \<and> oc_status oc = OC_ACTIVE \<and> buildingInOrg s (oc_buildingId oc) (mr_orgId x))"
proof -
  have "\<nexists>dto. op = Create dto"
    using assms(2-4) by (auto simp: next_db_Inr elim!: createResidentRequest_creates)
  with assms(2) have "keeps_requests s s' \<or> (\<exists>r'. resident_write s u rid r' s')"
    using exec_resident_scope [OF assms(1)] by simp
  with assms(3,4) obtain r' r where "mr_id r = rid" "resident_scope s u r" "writes_row s r r' s'"
    by (auto simp: keeps_requests_def resident_write_def)
  with writes_row_changed [OF assms(1) _ assms(3,4)] show ?thesis by (auto simp: resident_scope_def)
qed

theorem residents_touch_own_requests_witness:
  "mr_id fx_row = ''q1'' \<and> user_sub (fx_user ''res'') = Some (mr_createdByUserId fx_row)
   \<and> user_org (fx_user ''res'') = Some (mr_orgId fx_row)
   \<and> (\<exists>oc \<in> set (occupancies fx1). oc_residentUserId oc = mr_createdByUserId fx_row
        \<and> oc_status oc = OC_ACTIVE \<and> buildingInOrg fx1 (oc_buildingId oc) (mr_orgId fx_row))"
proof -
  have "map_sum id (\<lambda>s'. map mr_status (requests s')) (exec_op (ByResident 20 (fx_user ''res'') ''q1'' CancelOwn) fx1)
    = Inr [CANCELED]" by code_simp
  then obtain s' where w: "exec_op (ByResident 20 (fx_user ''res'') ''q1'' CancelOwn) fx1 = Inr s'"
    "map mr_status (requests s') = [CANCELED]" by (rule returns)
  then have "fx_row \<notin> set (requests s')" by (auto simp: map_eq_Cons_conv fx_row_fields)
  from residents_touch_own_requests [OF _ w(1) _ this] show ?thesis by simp
qed

text \<open>
  C7. Providers touch what their company was given: an operation of a provider user changes no
  request but the one it names; that request is given to a company of which the caller is an
  active member in good standing, as an admin, or as the worker the request is assigned to.
\<close>

theorem providers_touch_given_requests:
  assumes "unique_ids s" and "exec_op (ByProvider now u rid op) s = Inr s'"
    and "x \<in> set (requests s)" and "x \<notin> set (requests s')"
  shows "mr_id x = rid \<and> (\<exists>userId p. user_sub u = Some userId \<and> mr_serviceProviderId x = Some p
     \<and> (provider_member s userId p PROVIDER_ADMIN
        \<or> provider_member s userId p PROVIDER_WORKER
           \<and> mr_serviceProviderAssignedUserId x = Some userId))"
proof -
  from assms(2) have "keeps_requests s s' \<or> (\<exists>r'. provider_write s u rid r' s')"
    using exec_provider_scope [OF assms(1)] by simp
  with assms(3,4) obtain r' r where "mr_id r = rid" "provider_scope s u r" "writes_row s r r' s'"
    by (auto simp: keeps_requests_def provider_write_def)
  with writes_row_changed [OF assms(1) _ assms(3,4)] show ?thesis by (auto simp: provider_scope_def)
qed

definition fx_given :: db where
  "fx_given = fx0\<lparr>requests := [upd_assignProvider ''sp'' 15 fx_row]\<rparr>"

theorem providers_touch_given_requests_witness:
  "mr_id (upd_assignProvider ''sp'' 15 fx_row) = ''q1''
   \<and> (\<exists>userId p. user_sub (fx_user ''pro'') = Some userId
        \<and> mr_serviceProviderId (upd_assignProvider ''sp'' 15 fx_row) = Some p
        \<and> (provider_member fx_given userId p PROVIDER_ADMIN
           \<or> provider_member fx_given userId p PROVIDER_WORKER
              \<and> mr_serviceProviderAssignedUserId (upd_assignProvider ''sp'' 15 fx_row) = Some userId))"
proof -
  let ?op = "ByProvider 20 (fx_user ''pro'') ''q1'' (ProviderStatus IN_PROGRESS)"
  have "map_sum id (\<lambda>s'. map mr_status (requests s')) (exec_op ?op fx_given) = Inr [IN_PROGRESS]"
    by code_simp
  then obtain s' where w: "exec_op ?op fx_given = Inr s'" "map mr_status (requests s') = [IN_PROGRESS]"
    by (rule returns)
  then have "upd_assignProvider ''sp'' 15 fx_row \<notin> set (requests s')"
    by (auto simp: map_eq_Cons_conv dest!: arg_cong [where f = mr_status])
  from providers_touch_given_requests [OF _ w(1) _ this] show ?thesis
    by (simp add: fx_given_def unique_ids_def)
qed

text \<open>
  C8. Owners decide on their own units only: an operation of an owner user changes no request
  but the one it names; its approval is pending and its unit is currently owned by an
  active owner record granted to the user; the change is the decision and nothing else.
\<close>

theorem owners_decide_own_units:
  assumes "unique_ids s" and "exec_op (ByOwner now userId rid op) s = Inr s'"
    and "x \<in> set (requests s)" and "x \<notin> set (requests s')"
  shows "mr_id x = rid \<and> mr_ownerApprovalStatus x = PENDING
     \<and> (\<exists>i. mr_unitId x = Some i \<and> owns_unit s userId i)
     \<and> (\<exists>y \<in> set (requests s'). request_step x y \<and> mr_ownerApprovalStatus y \<in> {APPROVED, REJECTED}
          \<and> mr_ownerApprovalDecidedByOwnerUserId y = Some userId
          \<and> mr_status y = mr_status x \<and> executor_of y = executor_of x)"
proof -
  have "\<not> keeps_requests s s'" using assms(3,4) by (auto simp: keeps_requests_def)
  with assms(2) have "\<exists>why why' r'. approveAccessibleRequest s now userId rid why = Inr (r', s')
      \<or> rejectAccessibleRequest s now userId rid why' = Inr (r', s')"
    by (cases op) (auto simp: next_db_Inr dest: addAccessibleRequestComment_keeps
        listAccessibleRequestComments_keeps)
  then show ?thesis using ownerDecision_result [OF assms(1,3,4)] by blast
qed

theorem owners_decide_own_units_witness:
  "mr_id fx_pending = ''q1'' \<and> mr_ownerApprovalStatus fx_pending = PENDING
   \<and> (\<exists>i. mr_unitId fx_pending = Some i \<and> owns_unit fx2 ''own'' i)"
proof -
  let ?op = "ByOwner 30 ''own'' ''q1'' (Approve None)"
  have "map_sum id (\<lambda>s'. map mr_ownerApprovalStatus (requests s')) (exec_op ?op fx2) = Inr [APPROVED]"
    by code_simp
  then obtain s' where w: "exec_op ?op fx2 = Inr s'" "map mr_ownerApprovalStatus (requests s') = [APPROVED]"
    by (rule returns)
  then have "fx_pending \<notin> set (requests s')" by (auto simp: map_eq_Cons_conv fx_pending_fields)
  from owners_decide_own_units [OF _ w(1) _ this] show ?thesis by simp
qed

end
